(* ===== verification/Prelude.thy ===== *)
theory Prelude
  imports Complex_Main "HOL-Library.Word" "HOL-Library.Multiset"
begin

section \<open>Shared vocabulary of the CableCheck development\<close>

text \<open>
  The names and generic lemmas every component uses: the fixed-width integer types of the Go
  source, the wrap-around of its signed 64-bit \<open>int\<close>, strings as byte lists, Go maps as
  association lists with distinct keys (a Go map has no order of its own, so every function that
  ranges over one is written over an arbitrary enumeration), and the collections of simplification
  rules that the component theories extend.
\<close>

named_theorems f64_simps \<open>evaluation of the binary64 operations on finite values\<close>
named_theorems severity_defs \<open>the numeric values of the severity ladder\<close>
named_theorems rule_defs \<open>definitions of the evaluation rules\<close>

type_synonym u8 = "8 word"
type_synonym u16 = "16 word"
type_synonym u32 = "32 word"
type_synonym u64 = "64 word"
type_synonym bytes = "u8 list"

text \<open>A Go \<open>map[string]T\<close>: one enumeration of its entries.\<close>

type_synonym 'v gomap = "(string \<times> 'v) list"

definition wf_map :: "'v gomap \<Rightarrow> bool" where
  "wf_map m \<longleftrightarrow> distinct (map fst m)"

subsection \<open>Go's signed 64-bit integers\<close>

text \<open>
  A Go \<open>int\<close> (and \<open>int64\<close>, and \<open>time.Duration\<close>) is modelled by an \<open>int\<close>
  whose arithmetic is written with the explicit two's-complement wrap-around \<open>wrap64\<close>.
\<close>

definition maxInt :: int where
  "maxInt = 2 ^ 63 - 1"

definition minInt :: int where
  "minInt = - (2 ^ 63)"

definition in_i64 :: "int \<Rightarrow> bool" where
  "in_i64 x \<longleftrightarrow> minInt \<le> x \<and> x \<le> maxInt"

definition wrap64 :: "int \<Rightarrow> int" where
  "wrap64 x = (x + 2 ^ 63) mod 2 ^ 64 - 2 ^ 63"

definition iadd :: "int \<Rightarrow> int \<Rightarrow> int" where
  "iadd a b = wrap64 (a + b)"

definition isub :: "int \<Rightarrow> int \<Rightarrow> int" where
  "isub a b = wrap64 (a - b)"

definition imul :: "int \<Rightarrow> int \<Rightarrow> int" where
  "imul a b = wrap64 (a * b)"

text \<open>Go's integer division truncates towards zero.\<close>

definition idiv :: "int \<Rightarrow> int \<Rightarrow> int" where
  "idiv a b = sgn a * sgn b * (\<bar>a\<bar> div \<bar>b\<bar>)"

definition imod :: "int \<Rightarrow> int \<Rightarrow> int" where
  "imod a b = a - b * idiv a b"

lemma wrap64_in_range: "in_i64 (wrap64 x)"
  unfolding in_i64_def wrap64_def minInt_def maxInt_def
  using pos_mod_bound [of "2 ^ 64" "x + 2 ^ 63"] pos_mod_sign [of "2 ^ 64" "x + 2 ^ 63"]
  by (simp add: algebra_simps)

lemma wrap64_id: "in_i64 x \<Longrightarrow> wrap64 x = x"
  unfolding in_i64_def wrap64_def minInt_def maxInt_def
  by (subst mod_pos_pos_trivial) auto

lemma iadd_exact: "in_i64 (a + b) \<Longrightarrow> iadd a b = a + b"
  by (simp add: iadd_def wrap64_id)

lemma iadd_zero [simp]: "in_i64 a \<Longrightarrow> iadd a 0 = a" "in_i64 a \<Longrightarrow> iadd 0 a = a"
  by (simp_all add: iadd_exact)

subsection \<open>Lists, options and words\<close>

lemma map_of_perm:
  assumes "distinct (map fst xs)" and "mset xs = mset ys"
  shows "map_of xs = map_of ys"
proof -
  from assms(2) have "mset (map fst xs) = mset (map fst ys)"
    by simp
  with assms(1) have "distinct (map fst ys)"
    by (metis mset_eq_imp_distinct_iff)
  moreover from assms(2) have "set xs = set ys"
    by (rule mset_eq_setD)
  ultimately show ?thesis
    using assms(1) by (metis map_of_inject_set)
qed

lemma map_of_Some_wf:
  "wf_map m \<Longrightarrow> (k, v) \<in> set m \<Longrightarrow> map_of m k = Some v"
  by (simp add: wf_map_def)

lemma map_of_None_iff: "map_of m k = None \<longleftrightarrow> k \<notin> fst ` set m"
  by (rule map_of_eq_None_iff)

lemma unat_sub_le: "a \<le> b \<Longrightarrow> unat (b - a) = unat b - unat (a :: 'a::len word)"
  by (rule unat_sub)

lemma fold_induct [consumes 0]:
  assumes "P a" and "\<And>x a. x \<in> set xs \<Longrightarrow> P a \<Longrightarrow> P (f x a)"
  shows "P (fold f xs a)"
  using assms by (induction xs arbitrary: a) auto

text \<open>Word arithmetic that does not wrap is integer arithmetic.\<close>

lemma uint_mult_exact: "uint a * uint b < 2 ^ 64 \<Longrightarrow> uint (a * b) = uint a * uint (b :: u64)"
  by (simp add: uint_word_ariths)

lemma uint_add_exact: "uint a + uint b < 2 ^ 64 \<Longrightarrow> uint (a + b) = uint a + uint (b :: u64)"
  by (simp add: uint_word_ariths)

lemma uint_u64_bounds: "0 \<le> uint (a :: u64)" "uint a < 2 ^ 64"
  using uint_lt2p [of a] by simp_all

lemma uint_u64_of_int: "0 \<le> n \<Longrightarrow> n < 2 ^ 64 \<Longrightarrow> uint (word_of_int n :: u64) = n"
  by (simp add: uint_word_of_int)

lemma uint_u64_div: "uint (a div b) = uint a div uint (b :: u64)"
  by (rule uint_div_distrib)

lemma uint_u64_mod: "uint (a mod b) = uint a mod uint (b :: u64)"
  by (rule uint_mod_distrib)

lemma u64_eqI: "uint a = uint b \<Longrightarrow> a = (b :: u64)"
  by (simp add: word_uint_eq_iff)

end
