(* ===== verification/Float64.thy ===== *)
theory Float64
  imports Prelude
begin

section \<open>Go's float64\<close>

text \<open>
  IEEE 754 binary64 as the Go compiler evaluates it: a value is a NaN, an infinity or a finite
  number held as the exact rational it denotes, and every operation computes the exact rational
  result and rounds it to nearest, ties to even, with 53 bits of precision, gradual underflow below
  \<open>2 ^ -1022\<close> and overflow to an infinity. Payloads of NaNs and the sign of a zero are not kept: no
  comparison of the source sees them, and the source divides only by values it has checked to be
  positive or that come from an unsigned integer. A conversion of a float that does not fit
  the integer type is left to the implementation by the Go specification; \<open>f64conv\<close> carries that
  choice as a parameter.

  The rounding enters the rest of the development through the locale \<open>rounding\<close>: monotone,
  exact on representable numbers, and always returning one.
\<close>

datatype f64 = FNaN | PInf | NInf | Fin rat

subsection \<open>Rounding to 53 bits\<close>

function ilog2 :: "int \<Rightarrow> nat" where
  "ilog2 n = (if n < 2 then 0 else Suc (ilog2 (n div 2)))"
  by pat_completeness auto
termination
  by (relation "measure nat") auto

declare ilog2.simps [simp del]

definition pow2 :: "int \<Rightarrow> rat" where
  "pow2 e = (if 0 \<le> e then 2 ^ nat e else 1 / 2 ^ nat (- e))"

text \<open>The binary exponent: \<open>2 ^ expo x \<le> \<bar>x\<bar> < 2 ^ (expo x + 1)\<close> for \<open>x \<noteq> 0\<close>.\<close>

definition expo :: "rat \<Rightarrow> int" where
  "expo x =
     (if 1 \<le> \<bar>x\<bar> then int (ilog2 \<lfloor>\<bar>x\<bar>\<rfloor>)
      else let m = \<lceil>1 / \<bar>x\<bar>\<rceil> - 1 in if m \<le> 0 then 0 else - 1 - int (ilog2 m))"

definition qexp :: "rat \<Rightarrow> int" where
  "qexp x = max (expo x - 52) (- 1074)"

definition rhe :: "rat \<Rightarrow> int" where
  "rhe x =
     (let n = \<lfloor>x\<rfloor>; d = x - of_int n
      in if d < 1 / 2 then n else if 1 / 2 < d then n + 1 else if even n then n else n + 1)"

definition rnd :: "rat \<Rightarrow> rat" where
  "rnd x = pow2 (qexp x) * of_int (rhe (x / pow2 (qexp x)))"

definition representable :: "rat \<Rightarrow> bool" where
  "representable q \<longleftrightarrow> (\<exists>m k. q = of_int m * pow2 k \<and> \<bar>m\<bar> \<le> 2 ^ 53 \<and> - 1074 \<le> k)"

definition f64_of_rat :: "rat \<Rightarrow> f64" where
  "f64_of_rat q =
     (let r = rnd q
      in if r \<ge> 2 ^ 1024 then PInf else if r \<le> - (2 ^ 1024) then NInf else Fin r)"

definition f64_of_int :: "int \<Rightarrow> f64" where
  "f64_of_int n = f64_of_rat (of_int n)"

text \<open>\<open>float64(w)\<close> for a \<open>uint64\<close>.\<close>

definition f64_of_u64 :: "u64 \<Rightarrow> f64" where
  "f64_of_u64 w = f64_of_int (uint w)"

subsection \<open>Arithmetic\<close>

fun fneg :: "f64 \<Rightarrow> f64" where
  "fneg FNaN = FNaN"
| "fneg PInf = NInf"
| "fneg NInf = PInf"
| "fneg (Fin a) = Fin (- a)"

fun fadd :: "f64 \<Rightarrow> f64 \<Rightarrow> f64" where
  "fadd (Fin a) (Fin b) = f64_of_rat (a + b)"
| "fadd FNaN _ = FNaN"
| "fadd _ FNaN = FNaN"
| "fadd PInf NInf = FNaN"
| "fadd NInf PInf = FNaN"
| "fadd PInf _ = PInf"
| "fadd _ PInf = PInf"
| "fadd NInf _ = NInf"
| "fadd _ NInf = NInf"

definition fsub :: "f64 \<Rightarrow> f64 \<Rightarrow> f64" where
  "fsub a b = fadd a (fneg b)"

fun fsign :: "f64 \<Rightarrow> int" where
  "fsign FNaN = 0"
| "fsign PInf = 1"
| "fsign NInf = - 1"
| "fsign (Fin a) = (if a > 0 then 1 else if a < 0 then - 1 else 0)"

definition finf :: "int \<Rightarrow> f64" where
  "finf s = (if s > 0 then PInf else if s < 0 then NInf else FNaN)"

fun fmul :: "f64 \<Rightarrow> f64 \<Rightarrow> f64" where
  "fmul (Fin a) (Fin b) = f64_of_rat (a * b)"
| "fmul FNaN _ = FNaN"
| "fmul _ FNaN = FNaN"
| "fmul a b = finf (fsign a * fsign b)"

fun fdiv :: "f64 \<Rightarrow> f64 \<Rightarrow> f64" where
  "fdiv (Fin a) (Fin b) = (if b = 0 then finf (fsign (Fin a)) else f64_of_rat (a / b))"
| "fdiv FNaN _ = FNaN"
| "fdiv _ FNaN = FNaN"
| "fdiv (Fin a) _ = Fin 0"
| "fdiv a (Fin b) = finf (fsign a * (if b < 0 then - 1 else 1))"
| "fdiv _ _ = FNaN"

subsection \<open>Comparisons, \<open>min\<close>, \<open>max\<close>, rounding and conversion\<close>

text \<open>The Go operators \<open><\<close>, \<open>\<le>\<close> and \<open>==\<close>: every comparison with a NaN is false.\<close>

fun flt :: "f64 \<Rightarrow> f64 \<Rightarrow> bool" where
  "flt FNaN _ = False"
| "flt _ FNaN = False"
| "flt (Fin a) (Fin b) = (a < b)"
| "flt NInf b = (b \<noteq> NInf)"
| "flt _ NInf = False"
| "flt PInf _ = False"
| "flt _ PInf = True"

definition feq :: "f64 \<Rightarrow> f64 \<Rightarrow> bool" where
  "feq a b \<longleftrightarrow> a \<noteq> FNaN \<and> a = b"

definition fle :: "f64 \<Rightarrow> f64 \<Rightarrow> bool" where
  "fle a b \<longleftrightarrow> flt a b \<or> feq a b"

abbreviation fgt :: "f64 \<Rightarrow> f64 \<Rightarrow> bool" where
  "fgt a b \<equiv> flt b a"

abbreviation fge :: "f64 \<Rightarrow> f64 \<Rightarrow> bool" where
  "fge a b \<equiv> fle b a"

text \<open>The builtins \<open>min\<close> and \<open>max\<close>: a NaN argument makes the result a NaN.\<close>

definition fmax :: "f64 \<Rightarrow> f64 \<Rightarrow> f64" where
  "fmax a b = (if a = FNaN \<or> b = FNaN then FNaN else if flt a b then b else a)"

definition fmin :: "f64 \<Rightarrow> f64 \<Rightarrow> f64" where
  "fmin a b = (if a = FNaN \<or> b = FNaN then FNaN else if flt b a then b else a)"

text \<open>
  \<open>math.Min\<close> and \<open>math.Max\<close> differ from the builtins only when one argument is a NaN and
  the other an infinity.
\<close>

definition mathMin :: "f64 \<Rightarrow> f64 \<Rightarrow> f64" where
  "mathMin a b = (if a = NInf \<or> b = NInf then NInf else fmin a b)"

definition mathMax :: "f64 \<Rightarrow> f64 \<Rightarrow> f64" where
  "mathMax a b = (if a = PInf \<or> b = PInf then PInf else fmax a b)"

definition mathAbs :: "f64 \<Rightarrow> f64" where
  "mathAbs a = (if flt a (Fin 0) then fneg a else a)"

text \<open>\<open>math.Round\<close> rounds half away from zero.\<close>

definition round_away :: "rat \<Rightarrow> int" where
  "round_away q = (if 0 \<le> q then \<lfloor>q + 1 / 2\<rfloor> else - \<lfloor>- q + 1 / 2\<rfloor>)"

fun mathRound :: "f64 \<Rightarrow> f64" where
  "mathRound (Fin q) = Fin (of_int (round_away q))"
| "mathRound a = a"

text \<open>What the implementation returns for a conversion that does not fit.\<close>

record f64conv =
  oob_i64 :: "f64 \<Rightarrow> int"
  oob_u64 :: "f64 \<Rightarrow> u64"

definition trunc_rat :: "rat \<Rightarrow> int" where
  "trunc_rat q = (if 0 \<le> q then \<lfloor>q\<rfloor> else \<lceil>q\<rceil>)"

fun f64_to_i64 :: "f64conv \<Rightarrow> f64 \<Rightarrow> int" where
  "f64_to_i64 cv (Fin q) =
     (if in_i64 (trunc_rat q) then trunc_rat q else oob_i64 cv (Fin q))"
| "f64_to_i64 cv a = oob_i64 cv a"

fun f64_to_u64 :: "f64conv \<Rightarrow> f64 \<Rightarrow> u64" where
  "f64_to_u64 cv (Fin q) =
     (if 0 \<le> trunc_rat q \<and> trunc_rat q < 2 ^ 64 then word_of_int (trunc_rat q)
      else oob_u64 cv (Fin q))"
| "f64_to_u64 cv a = oob_u64 cv a"

subsection \<open>The sorting order of \<open>slices.Sort\<close>\<close>

text \<open>
  \<open>slices.Sort\<close> orders floats by \<open>cmp.Less\<close>, which puts NaNs first. That total
  order is the \<open>linorder\<close> of the type, so the library's \<open>sort\<close> applies; the Go
  operators are \<open>flt\<close> and \<open>fle\<close>, never \<open><\<close>.
\<close>

fun frank :: "f64 \<Rightarrow> int" where
  "frank FNaN = 0"
| "frank NInf = 1"
| "frank (Fin _) = 2"
| "frank PInf = 3"

fun fval :: "f64 \<Rightarrow> rat" where
  "fval (Fin q) = q"
| "fval _ = 0"

instantiation f64 :: linorder
begin

definition less_eq_f64 :: "f64 \<Rightarrow> f64 \<Rightarrow> bool" where
  "less_eq_f64 a b \<longleftrightarrow> frank a < frank b \<or> (frank a = frank b \<and> fval a \<le> fval b)"

definition less_f64 :: "f64 \<Rightarrow> f64 \<Rightarrow> bool" where
  "less_f64 a b \<longleftrightarrow> frank a < frank b \<or> (frank a = frank b \<and> fval a < fval b)"

instance
proof
  fix a b c :: f64
  show "(a < b) = (a \<le> b \<and> \<not> b \<le> a)"
    by (auto simp: less_f64_def less_eq_f64_def)
  show "a \<le> a"
    by (simp add: less_eq_f64_def)
  show "a \<le> b \<Longrightarrow> b \<le> c \<Longrightarrow> a \<le> c"
    by (auto simp: less_eq_f64_def)
  show "a \<le> b \<Longrightarrow> b \<le> a \<Longrightarrow> a = b"
    by (cases a; cases b) (auto simp: less_eq_f64_def)
  show "a \<le> b \<or> b \<le> a"
    by (auto simp: less_eq_f64_def)
qed

end

lemma less_eq_f64_cases:
  "a \<noteq> FNaN \<Longrightarrow> b \<noteq> FNaN \<Longrightarrow> a \<le> b \<longleftrightarrow> fle a b"
  by (cases a; cases b) (auto simp: less_eq_f64_def fle_def feq_def)

lemma less_f64_flt: "a \<noteq> FNaN \<Longrightarrow> b \<noteq> FNaN \<Longrightarrow> a < b \<longleftrightarrow> flt a b"
  by (cases a; cases b) (auto simp: less_f64_def)


subsection \<open>Rounding laws\<close>

lemma ilog2_bounds: "0 < n \<Longrightarrow> 2 ^ ilog2 n \<le> n \<and> n < 2 * 2 ^ ilog2 n"
proof (induction n rule: ilog2.induct)
  case (1 n)
  show ?case
  proof (cases "n < 2")
    case True
    with "1.prems" show ?thesis by (simp add: ilog2.simps [of n])
  next
    case False
    with "1.IH" have "2 ^ ilog2 (n div 2) \<le> n div 2 \<and> n div 2 < 2 * 2 ^ ilog2 (n div 2)"
      by simp
    with False show ?thesis by (simp add: ilog2.simps [of n]) linarith
  qed
qed

lemma ilog2_rat_bounds:
  assumes "0 < n"
  shows "(2::rat) ^ ilog2 n \<le> of_int n \<and> (of_int n :: rat) + 1 \<le> 2 * 2 ^ ilog2 n"
proof -
  from ilog2_bounds [OF assms] have "2 ^ ilog2 n \<le> n" and "n + 1 \<le> 2 * 2 ^ ilog2 n"
    by simp_all
  then have "rat_of_int (2 ^ ilog2 n) \<le> of_int n"
    and "rat_of_int (n + 1) \<le> of_int (2 * 2 ^ ilog2 n)"
    by (simp_all only: of_int_le_iff)
  then show ?thesis by simp
qed

lemma pow2_pos [simp]: "0 < pow2 e"
  by (simp add: pow2_def)

lemma pow2_nonzero [simp]: "pow2 e \<noteq> 0"
  using pow2_pos [of e] by linarith

lemma pow2_abs [simp]: "\<bar>pow2 e\<bar> = pow2 e"
  by (rule abs_of_pos) simp

lemma pow2_powi: "pow2 e = 2 powi e"
  by (simp add: pow2_def power_int_def field_simps)

lemma pow2_add: "pow2 (a + b) = pow2 a * pow2 b"
  by (simp add: pow2_powi power_int_add)

lemma pow2_of_nat: "pow2 (int n) = 2 ^ n"
  by (simp add: pow2_def)

lemma pow2_neg: "pow2 (- int n) = 1 / 2 ^ n"
  by (cases "n = 0") (simp_all add: pow2_def)

lemma pow2_mono: "a \<le> b \<Longrightarrow> pow2 a \<le> pow2 b"
  by (simp add: pow2_powi power_int_increasing)

lemma pow2_quotient: "k \<le> j \<Longrightarrow> pow2 j / pow2 k = of_int (2 ^ nat (j - k))"
proof -
  assume "k \<le> j"
  then have "pow2 j = pow2 (int (nat (j - k)) + k)"
    by simp
  also have "\<dots> = 2 ^ nat (j - k) * pow2 k"
    by (simp only: pow2_add pow2_of_nat)
  finally show ?thesis by simp
qed

lemma expo_bounds: "x \<noteq> 0 \<Longrightarrow> pow2 (expo x) \<le> \<bar>x\<bar> \<and> \<bar>x\<bar> < pow2 (expo x + 1)"
proof (cases "1 \<le> \<bar>x\<bar>")
  case True
  define n where "n = \<lfloor>\<bar>x\<bar>\<rfloor>"
  from True have pos: "0 < n" unfolding n_def by linarith
  have "rat_of_int n \<le> \<bar>x\<bar>" "\<bar>x\<bar> < rat_of_int n + 1"
    unfolding n_def by linarith+
  with ilog2_rat_bounds [OF pos] have "2 ^ ilog2 n \<le> \<bar>x\<bar>" "\<bar>x\<bar> < 2 * 2 ^ ilog2 n"
    by linarith+
  then show ?thesis
    using True by (simp add: expo_def n_def [symmetric] pow2_add pow2_of_nat pow2_def [of 1])
next
  case False
  assume "x \<noteq> 0"
  define y where "y = 1 / \<bar>x\<bar>"
  define m where "m = \<lceil>y\<rceil> - 1"
  from False \<open>x \<noteq> 0\<close> have y1: "1 < y" by (simp add: y_def)
  then have pos: "0 < m" unfolding m_def by linarith
  have "rat_of_int m < y" "y \<le> rat_of_int m + 1"
    unfolding m_def by linarith+
  with ilog2_rat_bounds [OF pos] have b: "2 ^ ilog2 m < y" "y \<le> 2 * 2 ^ ilog2 m"
    by linarith+
  have e: "expo x = - int (Suc (ilog2 m))"
    using False pos by (simp add: expo_def y_def [symmetric] m_def [symmetric])
  have e1: "expo x + 1 = - int (ilog2 m)"
    by (simp add: e)
  have "pow2 (expo x) = 1 / (2 * 2 ^ ilog2 m)" "pow2 (expo x + 1) = 1 / 2 ^ ilog2 m"
    unfolding e1 unfolding e pow2_neg by simp_all
  moreover have "\<bar>x\<bar> = 1 / y" by (simp add: y_def)
  ultimately show ?thesis
    using b y1 by (simp add: divide_left_mono divide_strict_left_mono)
qed

lemma rhe_of_int [simp]: "rhe (of_int n) = n"
  by (simp add: rhe_def)

lemma rhe_cases: "rhe x = \<lfloor>x\<rfloor> \<and> x \<le> of_int \<lfloor>x\<rfloor> + 1 / 2
    \<or> rhe x = \<lfloor>x\<rfloor> + 1 \<and> of_int \<lfloor>x\<rfloor> + 1 / 2 \<le> x"
  by (auto simp: rhe_def Let_def)

lemma rhe_mono: "x \<le> y \<Longrightarrow> rhe x \<le> rhe y"
proof -
  assume le: "x \<le> y"
  then have fl: "\<lfloor>x\<rfloor> \<le> \<lfloor>y\<rfloor>" by (rule floor_mono)
  show ?thesis
  proof (cases "\<lfloor>x\<rfloor> = \<lfloor>y\<rfloor>")
    case True
    with le show ?thesis by (auto simp: rhe_def Let_def)
  next
    case False
    with fl have "\<lfloor>x\<rfloor> + 1 \<le> \<lfloor>y\<rfloor>" by simp
    with rhe_cases [of x] rhe_cases [of y] show ?thesis by auto
  qed
qed

lemma rhe_minus: "rhe (- x) = - rhe x"
proof (cases "of_int \<lfloor>x\<rfloor> = x")
  case True
  then show ?thesis by (metis of_int_minus rhe_of_int)
next
  case False
  then have "\<lfloor>- x\<rfloor> = - \<lfloor>x\<rfloor> - 1"
    by (simp add: floor_minus ceiling_altdef)
  then show ?thesis
    using False by (auto simp: rhe_def Let_def)
qed

lemma rnd_scaled: "rnd x / pow2 (qexp x) = of_int (rhe (x / pow2 (qexp x)))"
  by (simp add: rnd_def)

lemma rnd_0 [simp]: "rnd 0 = 0"
  by (simp add: rnd_def) (simp add: rhe_def)

lemma qexp_minus [simp]: "qexp (- x) = qexp x"
  by (simp add: qexp_def expo_def)

lemma rnd_minus: "rnd (- x) = - rnd x"
  by (simp add: rnd_def rhe_minus)

lemma qexp_ge: "- 1074 \<le> qexp x"
  by (simp add: qexp_def)

text \<open>A multiple of the quantum of \<open>x\<close> on one side of \<open>x\<close> stays there.\<close>

lemma rnd_le_multiple:
  assumes "x \<le> of_int m * pow2 (qexp x)"
  shows "rnd x \<le> of_int m * pow2 (qexp x)"
proof -
  from assms have "x / pow2 (qexp x) \<le> of_int m"
    by (simp add: divide_le_eq)
  then have "rhe (x / pow2 (qexp x)) \<le> m"
    using rhe_mono [of "x / pow2 (qexp x)" "of_int m"] by simp
  then show ?thesis by (simp add: rnd_def mult.commute)
qed

lemma rnd_ge_multiple:
  assumes "of_int m * pow2 (qexp x) \<le> x"
  shows "of_int m * pow2 (qexp x) \<le> rnd x"
proof -
  from assms have "of_int m \<le> x / pow2 (qexp x)"
    by (simp add: le_divide_eq)
  then have "m \<le> rhe (x / pow2 (qexp x))"
    using rhe_mono [of "of_int m" "x / pow2 (qexp x)"] by simp
  then show ?thesis by (simp add: rnd_def mult.commute)
qed

lemma multiple_shift: "k \<le> j \<Longrightarrow> of_int m * pow2 j = of_int (m * 2 ^ nat (j - k)) * pow2 k"
  using pow2_quotient [of k j] by (simp add: field_simps)

lemma expo_le:
  assumes "x \<noteq> 0" and "\<bar>x\<bar> < pow2 k"
  shows "expo x < k"
proof (rule ccontr)
  assume "\<not> expo x < k"
  then have "pow2 k \<le> pow2 (expo x)" by (simp add: pow2_mono)
  with expo_bounds [OF assms(1)] assms(2) show False by linarith
qed

lemma expo_mono: "x \<noteq> 0 \<Longrightarrow> \<bar>x\<bar> \<le> \<bar>y\<bar> \<Longrightarrow> expo x \<le> expo y"
proof -
  assume a: "x \<noteq> 0" "\<bar>x\<bar> \<le> \<bar>y\<bar>"
  then have "y \<noteq> 0" by auto
  with a expo_bounds [of y] have "\<bar>x\<bar> < pow2 (expo y + 1)" by linarith
  with a(1) have "expo x < expo y + 1" by (rule expo_le)
  then show ?thesis by simp
qed

lemma rnd_mono_pos:
  assumes "0 < x" and "x \<le> y"
  shows "rnd x \<le> rnd y"
proof (cases "qexp x = qexp y")
  case True
  from assms(2) have "x / pow2 (qexp x) \<le> y / pow2 (qexp x)"
    by (simp add: divide_right_mono less_imp_le)
  then show ?thesis
    using True by (simp add: rnd_def rhe_mono)
next
  case False
  from assms have nz: "x \<noteq> 0" "y \<noteq> 0" by auto
  from assms have "expo x \<le> expo y" by (intro expo_mono) auto
  with False have lt: "expo x < expo y" "qexp x \<le> expo y" and qy: "qexp y = expo y - 52"
    by (auto simp: qexp_def max_def split: if_splits)
  have "x < pow2 (expo x + 1)"
    using expo_bounds [OF nz(1)] assms(1) by simp
  also have "\<dots> \<le> pow2 (expo y)"
    using lt by (simp add: pow2_mono)
  also have "\<dots> = of_int (2 ^ nat (expo y - qexp x)) * pow2 (qexp x)"
    using multiple_shift [OF lt(2), of 1] by simp
  finally have "rnd x \<le> of_int (2 ^ nat (expo y - qexp x)) * pow2 (qexp x)"
    by (intro rnd_le_multiple) simp
  also have "\<dots> = pow2 (expo y)"
    using multiple_shift [OF lt(2), of 1] by simp
  also have "\<dots> = of_int (2 ^ 52) * pow2 (qexp y)"
    using multiple_shift [of "qexp y" "expo y" 1] qy by simp
  also have "\<dots> \<le> rnd y"
    using expo_bounds [OF nz(2)] assms qy multiple_shift [of "qexp y" "expo y" 1]
    by (intro rnd_ge_multiple) simp
  finally show ?thesis .
qed

lemma rnd_nonneg: "0 \<le> x \<Longrightarrow> 0 \<le> rnd x"
  using rnd_ge_multiple [of 0 x] by simp

lemma rnd_mono: "x \<le> y \<Longrightarrow> rnd x \<le> rnd y"
proof -
  assume le: "x \<le> y"
  consider "0 < x" | "x \<le> 0" "0 \<le> y" | "y < 0" by linarith
  then show ?thesis
  proof cases
    case 1
    then show ?thesis using le by (rule rnd_mono_pos)
  next
    case 2
    then have "0 \<le> rnd (- x)" "0 \<le> rnd y" by (auto intro: rnd_nonneg)
    then show ?thesis by (simp add: rnd_minus)
  next
    case 3
    then have "rnd (- y) \<le> rnd (- x)" using le by (intro rnd_mono_pos) auto
    then show ?thesis by (simp add: rnd_minus)
  qed
qed

lemma representable_of_int: "\<bar>n\<bar> \<le> 2 ^ 53 \<Longrightarrow> representable (of_int n)"
  unfolding representable_def by (rule exI [of _ n], rule exI [of _ 0]) (simp add: pow2_def)

lemma representable_strict:
  assumes "representable q"
  obtains m k where "q = of_int m * pow2 k" and "\<bar>m\<bar> < 2 ^ 53" and "- 1074 \<le> k"
proof -
  from assms obtain m k where q: "q = of_int m * pow2 k" and m: "\<bar>m\<bar> \<le> 2 ^ 53" and k: "- 1074 \<le> k"
    by (auto simp: representable_def)
  show thesis
  proof (cases "\<bar>m\<bar> = 2 ^ 53")
    case True
    then have "m = 2 ^ 52 * 2 \<or> m = - (2 ^ 52) * 2" by auto
    then obtain n :: int where n: "m = n * 2" "\<bar>n\<bar> < 2 ^ 53" by auto
    have "q = of_int n * pow2 (k + 1)"
      unfolding q n(1) pow2_add by (simp add: pow2_def [of 1])
    with n(2) k show thesis using that [of n "k + 1"] by simp
  next
    case False
    with q m k show thesis using that [of m k] by simp
  qed
qed

lemma rnd_representable:
  assumes "representable q"
  shows "rnd q = q"
proof (cases "q = 0")
  case False
  from assms obtain m k where q: "q = of_int m * pow2 k" and m: "\<bar>m\<bar> < 2 ^ 53" and k: "- 1074 \<le> k"
    by (rule representable_strict)
  from m have "\<bar>rat_of_int m\<bar> < 2 ^ 53"
    by (metis of_int_abs of_int_less_iff of_int_numeral of_int_power)
  then have "\<bar>q\<bar> < pow2 (k + 53)"
    unfolding q by (simp add: abs_mult pow2_add pow2_def [of 53])
  with False have "expo q < k + 53" by (rule expo_le)
  then have "qexp q \<le> k" using k by (simp add: qexp_def)
  with q obtain n where n: "q = of_int n * pow2 (qexp q)" by (metis multiple_shift)
  then have "rnd q \<le> q" "q \<le> rnd q"
    using rnd_le_multiple [of q n] rnd_ge_multiple [of n q] by simp_all
  then show ?thesis by simp
qed simp

lemma representable_rnd: "representable (rnd x)"
proof (cases "x = 0")
  case True
  then show ?thesis using representable_of_int [of 0] by simp
next
  case False
  define n where "n = rhe (x / pow2 (qexp x))"
  have "\<bar>x\<bar> < pow2 (expo x + 1)" using expo_bounds [OF False] by simp
  also have "\<dots> \<le> pow2 (53 + qexp x)" by (rule pow2_mono) (simp add: qexp_def)
  also have "\<dots> = of_int (2 ^ 53) * pow2 (qexp x)"
    using multiple_shift [of "qexp x" "53 + qexp x" 1] by simp
  finally have "\<bar>x / pow2 (qexp x)\<bar> \<le> of_int (2 ^ 53)"
    by (simp add: divide_le_eq)
  then have "of_int (- (2 ^ 53)) \<le> x / pow2 (qexp x)" "x / pow2 (qexp x) \<le> of_int (2 ^ 53)"
    unfolding of_int_minus abs_le_iff by linarith+
  then have "rhe (of_int (- (2 ^ 53))) \<le> n" "n \<le> rhe (of_int (2 ^ 53))"
    unfolding n_def by (blast intro: rhe_mono)+
  then have "\<bar>n\<bar> \<le> 2 ^ 53" unfolding rhe_of_int abs_le_iff by linarith
  then show ?thesis
    unfolding representable_def rnd_def n_def
    using qexp_ge [of x] by (metis mult.commute)
qed

text \<open>What every client relies on, whatever the format.\<close>

locale rounding =
  fixes rd :: "rat \<Rightarrow> rat" and rep :: "rat \<Rightarrow> bool"
  assumes rd_mono: "x \<le> y \<Longrightarrow> rd x \<le> rd y"
    and rd_rep: "rep q \<Longrightarrow> rd q = q"
    and rep_rd: "rep (rd x)"
begin

lemma rd_idem: "rd (rd x) = rd x"
  by (simp add: rd_rep rep_rd)

lemma rd_le: "x \<le> b \<Longrightarrow> rep b \<Longrightarrow> rd x \<le> b"
  using rd_mono [of x b] by (simp add: rd_rep)

lemma rd_ge: "b \<le> x \<Longrightarrow> rep b \<Longrightarrow> b \<le> rd x"
  using rd_mono [of b x] by (simp add: rd_rep)

end

interpretation rnd64: rounding rnd representable
  by unfold_locales (fact rnd_mono rnd_representable representable_rnd)+

lemma rnd_of_int [simp]: "\<bar>n\<bar> \<le> 2 ^ 53 \<Longrightarrow> rnd (of_int n) = of_int n"
  by (simp add: rnd_representable representable_of_int)

lemma rnd_numeral [simp]:
  "numeral n \<le> (2 ^ 53 :: int) \<Longrightarrow> rnd (numeral n) = numeral n"
  "numeral n \<le> (2 ^ 53 :: int) \<Longrightarrow> rnd (- numeral n) = - numeral n"
  "rnd 1 = 1"
  using rnd_of_int [of "numeral n"] rnd_of_int [of "- numeral n"] rnd_of_int [of 1] by simp_all

lemma representable_small: "\<bar>n\<bar> \<le> 2 ^ 53 \<Longrightarrow> q = of_int n \<Longrightarrow> representable q"
  by (simp add: representable_of_int)

lemma f64_of_rat_fin: "\<bar>q\<bar> \<le> of_int n \<Longrightarrow> n \<le> 2 ^ 53 \<Longrightarrow> f64_of_rat q = Fin (rnd q)"
proof -
  assume q: "\<bar>q\<bar> \<le> of_int n" and n: "n \<le> 2 ^ 53"
  from q have "0 \<le> rat_of_int n" by (rule order_trans [OF abs_ge_zero])
  with n have rep: "representable (of_int n)" "representable (- of_int n)"
    using representable_of_int [of n] representable_of_int [of "- n"] by simp_all
  from n have "rat_of_int n \<le> of_int (2 ^ 53)" by (simp only: of_int_le_iff)
  also have "\<dots> < 2 ^ 1024" by simp
  finally have big: "rat_of_int n < 2 ^ 1024" .
  from q have "rnd q \<le> of_int n" by (intro rnd64.rd_le) (use rep in auto)
  moreover from q have "- of_int n \<le> rnd q" by (intro rnd64.rd_ge) (use rep in auto)
  ultimately show ?thesis
    using big by (auto simp: f64_of_rat_def Let_def)
qed

lemma f64_of_int_small [simp]: "\<bar>n\<bar> \<le> 2 ^ 53 \<Longrightarrow> f64_of_int n = Fin (of_int n)"
proof -
  assume n: "\<bar>n\<bar> \<le> 2 ^ 53"
  then have "f64_of_rat (of_int n) = Fin (rnd (of_int n))"
    by (intro f64_of_rat_fin [of _ "\<bar>n\<bar>"]) auto
  with n show ?thesis by (simp add: f64_of_int_def)
qed

lemma f64_of_rat_mono: "x \<le> y \<Longrightarrow> fle (f64_of_rat x) (f64_of_rat y)"
  using rnd_mono [of x y] by (auto simp: f64_of_rat_def fle_def feq_def Let_def)

lemma f64_of_rat_not_nan [simp]: "f64_of_rat q \<noteq> FNaN"
  by (simp add: f64_of_rat_def Let_def)

subsection \<open>Order and extrema\<close>

lemma flt_nan [simp]: "flt FNaN a = False" "flt a FNaN = False"
  by (cases a; simp)+

lemma fle_nan [simp]: "fle FNaN a = False" "fle a FNaN = False"
  by (simp_all add: fle_def feq_def)

lemma fle_Fin [simp]: "fle (Fin a) (Fin b) = (a \<le> b)"
  by (auto simp: fle_def feq_def)

lemma fle_trans: "fle a b \<Longrightarrow> fle b c \<Longrightarrow> fle a c"
  by (cases a; cases b; cases c) (auto simp: fle_def feq_def)

lemma flt_fle_trans: "flt a b \<Longrightarrow> fle b c \<Longrightarrow> flt a c"
  by (cases a; cases b; cases c) (auto simp: fle_def feq_def)

lemma fle_flt_trans: "fle a b \<Longrightarrow> flt b c \<Longrightarrow> flt a c"
  by (cases a; cases b; cases c) (auto simp: fle_def feq_def)

lemma not_flt_fle: "a \<noteq> FNaN \<Longrightarrow> b \<noteq> FNaN \<Longrightarrow> \<not> flt a b \<longleftrightarrow> fle b a"
  by (cases a; cases b) (auto simp: fle_def feq_def)

lemma fle_refl: "a \<noteq> FNaN \<Longrightarrow> fle a a"
  by (simp add: fle_def feq_def)

lemma flt_imp_fle: "flt a b \<Longrightarrow> fle a b"
  by (simp add: fle_def)

lemma flt_antisym: "flt a b \<Longrightarrow> \<not> flt b a"
  by (cases a; cases b) auto

lemma fmax_ge: "fmax a b \<noteq> FNaN \<Longrightarrow> fle a (fmax a b) \<and> fle b (fmax a b)"
  by (auto simp: fmax_def not_flt_fle fle_refl flt_imp_fle split: if_splits)

lemma flt_fmax_iff: "fmax a b \<noteq> FNaN \<Longrightarrow> flt c (fmax a b) \<longleftrightarrow> flt c a \<or> flt c b"
  by (cases a; cases b; cases c) (auto simp: fmax_def)

lemma fmul_not_nan: "fmul (Fin a) (Fin b) \<noteq> FNaN"
  by simp

lemma fdiv_mono_num: "fle (Fin a) (Fin b) \<Longrightarrow> 0 < c \<Longrightarrow> fle (fdiv (Fin a) (Fin c)) (fdiv (Fin b) (Fin c))"
  by (simp add: f64_of_rat_mono divide_right_mono)

lemmas f64_order = fle_trans flt_fle_trans fle_flt_trans

subsection \<open>Integer code equations\<close>

text \<open>
  The definitions above are stated on rationals; the kernel evaluates them through these
  equations on the numerator and the denominator.
\<close>

definition rhe_div :: "int \<Rightarrow> int \<Rightarrow> int" where
  "rhe_div a b =
     (let q = a div b; r = 2 * (a mod b)
      in if r < b then q else if b < r then q + 1 else if even q then q else q + 1)"

lemma rhe_div: "0 < b \<Longrightarrow> rhe (of_int a / of_int b) = rhe_div a b"
proof -
  assume b: "0 < b"
  have fl: "\<lfloor>rat_of_int a / of_int b\<rfloor> = a div b"
    by (rule floor_divide_of_int_eq)
  have "rat_of_int a / of_int b - of_int (a div b) = of_int (a mod b) / of_int b"
    using b by (simp add: field_simps flip: of_int_mult of_int_add)
  moreover have "rat_of_int (a mod b) / of_int b < 1 / 2 \<longleftrightarrow> 2 * (a mod b) < b"
    using b by (simp add: field_simps) (metis of_int_less_iff of_int_mult of_int_numeral)
  moreover have "1 / 2 < rat_of_int (a mod b) / of_int b \<longleftrightarrow> b < 2 * (a mod b)"
    using b by (simp add: field_simps) (metis of_int_less_iff of_int_mult of_int_numeral)
  ultimately show ?thesis
    unfolding rhe_def rhe_div_def fl Let_def by (simp only:)
qed

lemma rnd_code [code]:
  "rnd x =
     (case quotient_of x of
        (n, d) \<Rightarrow>
          let k = qexp x
          in if 0 \<le> k then of_int (2 ^ nat k * rhe_div n (d * 2 ^ nat k))
             else Fract (rhe_div (n * 2 ^ nat (- k)) d) (2 ^ nat (- k)))"
proof (cases "quotient_of x")
  case (Pair n d)
  then have x: "x = of_int n / of_int d" and d: "0 < d"
    by (simp_all add: quotient_of_div quotient_of_denom_pos)
  show ?thesis
  proof (cases "0 \<le> qexp x")
    case True
    have "rhe (x / 2 ^ nat (qexp x)) = rhe (of_int n / of_int (d * 2 ^ nat (qexp x)))"
      by (simp add: x)
    also have "\<dots> = rhe_div n (d * 2 ^ nat (qexp x))"
      using d by (intro rhe_div) simp
    finally show ?thesis
      using True by (simp add: Pair rnd_def pow2_def Let_def)
  next
    case False
    have "rhe (x * 2 ^ nat (- qexp x)) = rhe (of_int (n * 2 ^ nat (- qexp x)) / of_int d)"
      by (simp add: x)
    also have "\<dots> = rhe_div (n * 2 ^ nat (- qexp x)) d"
      using d by (intro rhe_div) simp
    finally show ?thesis
      using False by (simp add: Pair rnd_def pow2_def Let_def Fract_of_int_quotient)
  qed
qed

lemma f64_of_rat_code [code]:
  "f64_of_rat q =
     (let r = rnd q
      in if r = 0 \<or> expo r < 1024 then Fin r else if 0 < r then PInf else NInf)"
proof -
  have "expo r < 1024 \<longleftrightarrow> \<bar>r\<bar> < 2 ^ 1024" if "r \<noteq> 0" for r
  proof
    assume "expo r < 1024"
    then have "pow2 (expo r + 1) \<le> pow2 (int 1024)" by (intro pow2_mono) simp
    with expo_bounds [OF that] show "\<bar>r\<bar> < 2 ^ 1024" unfolding pow2_of_nat by linarith
  next
    assume "\<bar>r\<bar> < 2 ^ 1024"
    then have "\<bar>r\<bar> < pow2 (int 1024)" unfolding pow2_of_nat .
    with that have "expo r < int 1024" by (rule expo_le)
    then show "expo r < 1024" by simp
  qed
  then have "rnd q = 0 \<or> expo (rnd q) < 1024 \<longleftrightarrow> \<bar>rnd q\<bar> < 2 ^ 1024"
    by (cases "rnd q = 0") simp_all
  moreover define B :: rat where "B = 2 ^ 1024"
  moreover have "0 < B" unfolding B_def by simp
  ultimately show ?thesis
    unfolding f64_of_rat_def Let_def B_def [symmetric] by auto
qed
end
