(* ===== verification/GoFmt.thy ===== *)
theory GoFmt
  imports Float64
begin

section \<open>What the source uses of \<open>fmt\<close>, \<open>strconv\<close>, \<open>strings\<close> and \<open>time\<close>\<close>

text \<open>
  A Go string is its list of bytes. The verbs the evaluation texts use are \<open>%d\<close>, \<open>%s\<close>,
  \<open>%.<n>f\<close> (exact decimal value rounded half to even), \<open>%g\<close> (shortest decimal that reads
  back as the same float) and, through \<open>Duration.String\<close>, the duration format. Decimal
  numbers round trip through \<open>parse_digits\<close>.
\<close>

subsection \<open>Decimal integers\<close>

definition digit_char :: "int \<Rightarrow> char" where
  "digit_char d = char_of (nat d + 48)"

definition is_digit :: "char \<Rightarrow> bool" where
  "is_digit c \<longleftrightarrow> 48 \<le> (of_char c :: nat) \<and> (of_char c :: nat) \<le> 57"

definition digit_val :: "char \<Rightarrow> int" where
  "digit_val c = int (of_char c) - 48"

function show_nonneg :: "int \<Rightarrow> string" where
  "show_nonneg n =
     (if n < 10 then [digit_char n] else show_nonneg (n div 10) @ [digit_char (n mod 10)])"
  by pat_completeness auto
termination
  by (relation "measure nat") auto

declare show_nonneg.simps [simp del]

definition show_int :: "int \<Rightarrow> string" where
  "show_int n = (if n < 0 then ''-'' @ show_nonneg (- n) else show_nonneg n)"

text \<open>\<open>strconv.FormatUint(w, 10)\<close>.\<close>

definition show_u64 :: "u64 \<Rightarrow> string" where
  "show_u64 w = show_nonneg (uint w)"

text \<open>The value of a digit string, the exact integer \<open>strconv.ParseUint\<close> reads before its range check.\<close>

definition parse_digits :: "string \<Rightarrow> int" where
  "parse_digits s = foldl (\<lambda>n c. n * 10 + digit_val c) 0 s"

text \<open>Zero padding on the left to a width.\<close>

definition pad_zeros :: "nat \<Rightarrow> string \<Rightarrow> string" where
  "pad_zeros w s = replicate (w - length s) (CHR ''0'') @ s"

subsection \<open>Floats\<close>

definition show_fixed :: "nat \<Rightarrow> rat \<Rightarrow> string" where
  "show_fixed n q =
     (let m = rhe (\<bar>q\<bar> * 10 ^ n)
      in (if q < 0 then ''-'' else '''') @ show_nonneg (m div 10 ^ n) @
         (if n = 0 then '''' else ''.'' @ pad_zeros n (show_nonneg (m mod 10 ^ n))))"

fun fmt_f :: "nat \<Rightarrow> f64 \<Rightarrow> string" where
  "fmt_f n FNaN = ''NaN''"
| "fmt_f n PInf = ''+Inf''"
| "fmt_f n NInf = ''-Inf''"
| "fmt_f n (Fin q) = show_fixed n q"

function ilog10 :: "int \<Rightarrow> nat" where
  "ilog10 n = (if n < 10 then 0 else Suc (ilog10 (n div 10)))"
  by pat_completeness auto
termination
  by (relation "measure nat") auto

declare ilog10.simps [simp del]

definition pow10 :: "int \<Rightarrow> rat" where
  "pow10 e = (if 0 \<le> e then 10 ^ nat e else 1 / 10 ^ nat (- e))"

definition dexp :: "rat \<Rightarrow> int" where
  "dexp x =
     (if 1 \<le> \<bar>x\<bar> then int (ilog10 \<lfloor>\<bar>x\<bar>\<rfloor>)
      else let m = \<lceil>1 / \<bar>x\<bar>\<rceil> - 1 in if m \<le> 0 then 0 else - 1 - int (ilog10 m))"

text \<open>\<open>n\<close> significant digits of a positive \<open>q\<close>: the digits as an integer, and the decimal exponent.\<close>

definition sig_digits :: "rat \<Rightarrow> nat \<Rightarrow> int \<times> int" where
  "sig_digits q n =
     (let e = dexp q; m = rhe (q / pow10 (e - int n + 1))
      in if m = 10 ^ n then (10 ^ (n - 1), e + 1) else (m, e))"

definition shortest :: "rat \<Rightarrow> nat \<times> int \<times> int" where
  "shortest q =
     (let ok = (\<lambda>n. case sig_digits q n of (m, e) \<Rightarrow> rnd (of_int m * pow10 (e - int n + 1)) = q)
      in case filter ok [1..<17] of
           n # _ \<Rightarrow> (n, sig_digits q n)
         | [] \<Rightarrow> (17, sig_digits q 17))"

definition show_exp :: "int \<Rightarrow> string" where
  "show_exp e = ''e'' @ (if e < 0 then ''-'' else ''+'') @ pad_zeros 2 (show_nonneg \<bar>e\<bar>)"

definition show_g_pos :: "rat \<Rightarrow> string" where
  "show_g_pos q =
     (case shortest q of
        (n, m, e) \<Rightarrow>
          let ds = show_nonneg m
          in if e < - 4 \<or> 6 \<le> e
             then take 1 ds @ (if n \<le> 1 then '''' else ''.'' @ drop 1 ds) @ show_exp e
             else if e < 0 then ''0.'' @ replicate (nat (- e - 1)) (CHR ''0'') @ ds
             else if int n \<le> e + 1 then ds @ replicate (nat (e + 1) - n) (CHR ''0'')
             else take (nat (e + 1)) ds @ ''.'' @ drop (nat (e + 1)) ds)"

fun fmt_g :: "f64 \<Rightarrow> string" where
  "fmt_g FNaN = ''NaN''"
| "fmt_g PInf = ''+Inf''"
| "fmt_g NInf = ''-Inf''"
| "fmt_g (Fin q) =
     (if q = 0 then ''0'' else if q < 0 then ''-'' @ show_g_pos (- q) else show_g_pos q)"

subsection \<open>Durations\<close>

definition millisecond :: int where "millisecond = 1000000"
definition second :: int where "second = 1000000000"

fun strip_zeros :: "string \<Rightarrow> string" where
  "strip_zeros s = (case rev s of c # cs \<Rightarrow> rev (dropWhile (\<lambda>x. x = CHR ''0'') (c # cs)) | [] \<Rightarrow> [])"

text \<open>\<open>fmtFrac\<close>: the last \<open>p\<close> decimal digits of \<open>u\<close> as a fraction without trailing zeros.\<close>

definition fmt_frac :: "int \<Rightarrow> nat \<Rightarrow> string" where
  "fmt_frac u p =
     (let ds = strip_zeros (pad_zeros p (show_nonneg (u mod 10 ^ p)))
      in if p = 0 \<or> ds = [] then [] else ''.'' @ ds)"

definition duration_abs :: "int \<Rightarrow> string" where
  "duration_abs u =
     (if u = 0 then ''0s''
      else if u < second then
        (if u < 1000 then show_nonneg u @ ''ns''
         else if u < millisecond then
           show_nonneg (u div 1000) @ fmt_frac u 3 @ [CHR 0xC2, CHR 0xB5] @ ''s''
         else show_nonneg (u div millisecond) @ fmt_frac u 6 @ ''ms'')
      else
        let s = u div second; mins = s div 60; hs = mins div 60;
            secs = show_nonneg (s mod 60) @ fmt_frac u 9 @ ''s''
        in if mins = 0 then secs
           else (if hs = 0 then '''' else show_nonneg hs @ ''h'') @
                show_nonneg (mins mod 60) @ ''m'' @ secs)"

definition show_duration :: "int \<Rightarrow> string" where
  "show_duration d = (if d < 0 then ''-'' @ duration_abs (- d) else duration_abs d)"

subsection \<open>Strings\<close>

definition em_dash :: string where
  "em_dash = [CHR 0xE2, CHR 0x80, CHR 0x94]"

definition lower_char :: "char \<Rightarrow> char" where
  "lower_char c =
     (let n = (of_char c :: nat) in if 65 \<le> n \<and> n \<le> 90 then char_of (n + 32) else c)"

text \<open>
  \<open>strings.ToLower\<close> as far as a comparison with an ASCII string can tell: besides the ASCII
  letters, exactly two code points have an ASCII lower case, U+212A (KELVIN SIGN, to \<open>k\<close>) and
  U+0130 (LATIN CAPITAL LETTER I WITH DOT ABOVE, to \<open>i\<close>). The bytes of every other code point
  are left alone here, while Go rewrites some of them to other non-ASCII bytes.
\<close>

fun to_lower :: "string \<Rightarrow> string" where
  "to_lower [] = []"
| "to_lower (c # cs) =
     (case (c # cs) of
        a # b # d # r \<Rightarrow>
          if a = CHR 0xE2 \<and> b = CHR 0x84 \<and> d = CHR 0xAA then CHR ''k'' # to_lower r
          else if a = CHR 0xC4 \<and> b = CHR 0xB0 then CHR ''i'' # to_lower (d # r)
          else lower_char a # to_lower (b # d # r)
      | [a, b] \<Rightarrow>
          if a = CHR 0xC4 \<and> b = CHR 0xB0 then ''i'' else lower_char a # to_lower [b]
      | _ \<Rightarrow> [lower_char c])"

text \<open>
  \<open>strings.EqualFold\<close> against a lower-case ASCII word: simple case folding relates an ASCII
  letter to its other case, and besides only U+212A to \<open>k\<close> and U+017F (LATIN SMALL LETTER LONG S)
  to \<open>s\<close>.
\<close>

fun fold_case :: "string \<Rightarrow> string" where
  "fold_case [] = []"
| "fold_case (c # cs) =
     (case (c # cs) of
        a # b # d # r \<Rightarrow>
          if a = CHR 0xE2 \<and> b = CHR 0x84 \<and> d = CHR 0xAA then CHR ''k'' # fold_case r
          else if a = CHR 0xC5 \<and> b = CHR 0xBF then CHR ''s'' # fold_case (d # r)
          else lower_char a # fold_case (b # d # r)
      | [a, b] \<Rightarrow>
          if a = CHR 0xC5 \<and> b = CHR 0xBF then ''s'' else lower_char a # fold_case [b]
      | _ \<Rightarrow> [lower_char c])"

definition equal_fold :: "string \<Rightarrow> string \<Rightarrow> bool" where
  "equal_fold s w \<longleftrightarrow> fold_case s = w"

definition has_prefix :: "string \<Rightarrow> string \<Rightarrow> bool" where
  "has_prefix s p \<longleftrightarrow> take (length p) s = p"

fun contains :: "string \<Rightarrow> string \<Rightarrow> bool" where
  "contains [] w = (w = [])"
| "contains (c # cs) w = (has_prefix (c # cs) w \<or> contains cs w)"

fun join :: "string \<Rightarrow> string list \<Rightarrow> string" where
  "join sep [] = []"
| "join sep [x] = x"
| "join sep (x # y # xs) = x @ sep @ join sep (y # xs)"


subsection \<open>Decimal round trip\<close>

lemma digit_char_val: "0 \<le> d \<Longrightarrow> d < 10 \<Longrightarrow> digit_val (digit_char d) = d"
  by (simp add: digit_val_def digit_char_def)

lemma digit_char_is_digit: "0 \<le> d \<Longrightarrow> d < 10 \<Longrightarrow> is_digit (digit_char d)"
  by (simp add: is_digit_def digit_char_def)

lemma parse_digits_snoc: "parse_digits (s @ [c]) = parse_digits s * 10 + digit_val c"
  by (simp add: parse_digits_def)

lemma parse_digits_Nil [simp]: "parse_digits [] = 0"
  by (simp add: parse_digits_def)

lemma parse_show_nonneg: "0 \<le> n \<Longrightarrow> parse_digits (show_nonneg n) = n"
proof (induction n rule: show_nonneg.induct)
  case (1 n)
  show ?case
  proof (cases "n < 10")
    case True
    with "1.prems" show ?thesis
      using parse_digits_snoc [of "[]" "digit_char n"]
      by (simp add: show_nonneg.simps [of n] digit_char_val)
  next
    case False
    with "1" have "parse_digits (show_nonneg (n div 10)) = n div 10" by simp
    with False show ?thesis
      by (simp add: show_nonneg.simps [of n] parse_digits_snoc digit_char_val)
  qed
qed

lemma show_nonneg_digits: "0 \<le> n \<Longrightarrow> \<forall>c \<in> set (show_nonneg n). is_digit c"
proof (induction n rule: show_nonneg.induct)
  case (1 n)
  show ?case
  proof (cases "n < 10")
    case True
    with "1.prems" show ?thesis
      by (simp add: show_nonneg.simps [of n] digit_char_is_digit)
  next
    case False
    with "1" have "\<forall>c \<in> set (show_nonneg (n div 10)). is_digit c" by simp
    with False show ?thesis
      by (simp add: show_nonneg.simps [of n] digit_char_is_digit)
  qed
qed

lemma show_nonneg_not_Nil [simp]: "show_nonneg n \<noteq> []"
  by (simp add: show_nonneg.simps [of n])

lemma parse_digits_bounds:
  "\<forall>c \<in> set s. is_digit c \<Longrightarrow> 0 \<le> parse_digits s \<and> parse_digits s < 10 ^ length s"
proof (induction s rule: rev_induct)
  case Nil
  then show ?case by simp
next
  case (snoc c s)
  then have "0 \<le> parse_digits s" "parse_digits s + 1 \<le> 10 ^ length s" and "is_digit c" by auto
  moreover from \<open>is_digit c\<close> have "0 \<le> digit_val c" "digit_val c \<le> 9"
    by (auto simp: is_digit_def digit_val_def)
  ultimately show ?case by (simp add: parse_digits_snoc)
qed

lemma show_nonneg_small: "0 \<le> d \<Longrightarrow> d < 10 \<Longrightarrow> show_nonneg d = [digit_char d]"
  by (simp add: show_nonneg.simps)

lemma show_nonneg_hd_not_minus: "0 \<le> n \<Longrightarrow> hd (show_nonneg n) \<noteq> CHR ''-''"
proof -
  assume "0 \<le> n"
  then have "is_digit (hd (show_nonneg n))" using show_nonneg_digits by simp
  then show ?thesis by (auto simp: is_digit_def)
qed

end
