(* ===== verification/Health.thy ===== *)
theory Health
  imports GoFmt
begin

section \<open>Health classes, severities and findings: \<open>internal/model/health.go\<close>\<close>

text \<open>
  The vocabulary of a verdict. A severity is a Go \<open>int\<close>: the ladder
  info, warning, poor, failed, then the marker outside the ladder; rules start their running
  maximum at \<open>Severity(-1)\<close>.
\<close>

datatype HealthClass =
    HealthExcellent | HealthGood | HealthWarning | HealthPoor | HealthFailed | HealthInconclusive

datatype Category =
    CategoryPhysical | CategoryTransport | CategoryPerformance | CategoryHost | CategoryLimitation

type_synonym severity = int

definition SevInfo :: severity where [severity_defs]: "SevInfo = 0"
definition SevWarning :: severity where [severity_defs]: "SevWarning = 1"
definition SevPoor :: severity where [severity_defs]: "SevPoor = 2"
definition SevFailed :: severity where [severity_defs]: "SevFailed = 3"
definition SevMarker :: severity where [severity_defs]: "SevMarker = 4"
definition SevNone :: severity where [severity_defs]: "SevNone = - 1"

definition severityNames :: "(severity \<times> string) list" where
  "severityNames =
     [(SevInfo, ''info''), (SevWarning, ''warning''), (SevPoor, ''poor''),
      (SevFailed, ''failed''), (SevMarker, ''marker'')]"

text \<open>\<open>Severity.String\<close>.\<close>

definition severity_string :: "severity \<Rightarrow> string" where
  "severity_string s =
     (case map_of severityNames s of
        Some name \<Rightarrow> name
      | None \<Rightarrow> ''severity('' @ show_int s @ '')'')"

text \<open>
  \<open>Severity.MarshalJSON\<close> and \<open>Severity.UnmarshalJSON\<close> on the decoded JSON string: an
  unknown severity does not encode, and decoding folds case.
\<close>

definition severity_marshal :: "severity \<Rightarrow> string option" where
  "severity_marshal s = map_of severityNames s"

definition severity_unmarshal :: "string \<Rightarrow> severity option" where
  "severity_unmarshal name =
     map_option fst (find (\<lambda>(sev, canonical). equal_fold name canonical) severityNames)"

record Finding =
  fd_RuleID :: string
  fd_Category :: Category
  fd_Severity :: severity
  fd_Text :: string
  fd_Evidence :: "string list"
  fd_HostSensitive :: bool

text \<open>\<open>evaluate.Result\<close>, with \<open>None\<close> for the nil score, and \<open>model.Evaluation\<close>, which has the same fields.\<close>

record Evaluation =
  ev_Class :: HealthClass
  ev_Score :: "int option"
  ev_Findings :: "Finding list"
  ev_Recommendations :: "string list"
  ev_RulesVersion :: string

lemma severity_ladder: "SevInfo < SevWarning" "SevWarning < SevPoor" "SevPoor < SevFailed" "SevFailed < SevMarker"
  by (simp_all add: severity_defs)

end
