(* ===== verification/Bitrate.thy ===== *)
theory Bitrate
  imports GoFmt
begin

section \<open>Bit rates: \<open>internal/model/bitrate.go\<close>\<close>

text \<open>
  \<open>Bitrate\<close> is a \<open>uint64\<close> of bits per second. \<open>ParseBitrate\<close> is the parser of the
  command line's rates and \<open>bitrate_string\<close> the printer used by every evaluation text.
  The error texts of the parser are one constructor each.
\<close>

type_synonym bitrate = u64

datatype bitrate_error =
    EmptyString
  | NegativeValue
  | NoLeadingDigit
  | MissingFraction
  | FractionNeedsUnit
  | BytesSuffix
  | UnknownUnit
  | Overflow
  | FinerThanUnit
  | InvalidFraction
  | NotPositive

definition bitrateUnits :: "(u64 \<times> string) list" where
  "bitrateUnits = [(1000000000, ''G''), (1000000, ''M''), (1000, ''K'')]"

definition maxUint64 :: u64 where
  "maxUint64 = - 1"

text \<open>\<open>strconv.ParseUint(s, 10, 64)\<close> on a string of digits.\<close>

definition ParseUint :: "string \<Rightarrow> u64 option" where
  "ParseUint s =
     (if s \<noteq> [] \<and> list_all is_digit s \<and> parse_digits s < 2 ^ 64
      then Some (word_of_int (parse_digits s)) else None)"

definition parse_unit :: "string \<Rightarrow> string \<Rightarrow> bitrate_error + u64" where
  "parse_unit suffix fracDigits =
     (let l = to_lower suffix
      in if l = '''' then (if fracDigits \<noteq> '''' then Inl FractionNeedsUnit else Inr 1)
         else if l = ''k'' then Inr 1000
         else if l = ''m'' then Inr 1000000
         else if l = ''g'' then Inr 1000000000
         else if l \<in> set [''b'', ''kb'', ''mb'', ''gb'', ''kib'', ''mib'', ''gib''] then Inl BytesSuffix
         else Inl UnknownUnit)"

definition add_fraction :: "u64 \<Rightarrow> u64 \<Rightarrow> string \<Rightarrow> bitrate_error + u64" where
  "add_fraction tot mul fracDigits =
     (if fracDigits = '''' then Inr tot
      else if length fracDigits > 9 then Inl FinerThanUnit
      else let pow = 10 ^ length fracDigits
           in if mul mod pow \<noteq> 0 then Inl FinerThanUnit
              else case ParseUint fracDigits of
                     None \<Rightarrow> Inl InvalidFraction
                   | Some fracVal \<Rightarrow>
                       let fracPart = fracVal * (mul div pow)
                       in if tot > maxUint64 - fracPart then Inl Overflow
                          else Inr (tot + fracPart))"

definition parse_number :: "string \<Rightarrow> string \<Rightarrow> string \<Rightarrow> bitrate_error + u64" where
  "parse_number intDigits fracDigits suffix =
     (case parse_unit suffix fracDigits of
        Inl e \<Rightarrow> Inl e
      | Inr mul \<Rightarrow>
          (case ParseUint intDigits of
             None \<Rightarrow> Inl Overflow
           | Some intVal \<Rightarrow>
               if mul > 1 \<and> intVal > maxUint64 div mul then Inl Overflow
               else (case add_fraction (intVal * mul) mul fracDigits of
                       Inl e \<Rightarrow> Inl e
                     | Inr tot \<Rightarrow> if tot = 0 then Inl NotPositive else Inr tot)))"

definition ParseBitrate :: "string \<Rightarrow> bitrate_error + bitrate" where
  "ParseBitrate s =
     (if s = '''' then Inl EmptyString
      else if hd s = CHR ''-'' then Inl NegativeValue
      else
        let intDigits = takeWhile is_digit s; rest = dropWhile is_digit s
        in if intDigits = '''' then Inl NoLeadingDigit
           else if has_prefix rest ''.'' then
             (let rest' = drop 1 rest; fracDigits = takeWhile is_digit rest'
              in if fracDigits = '''' then Inl MissingFraction
                 else parse_number intDigits fracDigits (dropWhile is_digit rest'))
           else parse_number intDigits '''' rest)"

fun string_units :: "u64 \<Rightarrow> (u64 \<times> string) list \<Rightarrow> string" where
  "string_units v [] = show_u64 v"
| "string_units v ((mul, suffix) # us) =
     (if v mod mul = 0 then show_u64 (v div mul) @ suffix
      else let tenth = mul div 10
           in if v \<ge> mul \<and> v mod tenth = 0
              then show_u64 (v div mul) @ ''.'' @ show_u64 ((v mod mul) div tenth) @ suffix
              else string_units v us)"

definition bitrate_string :: "bitrate \<Rightarrow> string" where
  "bitrate_string b = (if b = 0 then ''0'' else string_units b bitrateUnits)"

subsection \<open>Parsing is exact\<close>

lemma uint_maxUint64: "uint maxUint64 = 2 ^ 64 - 1"
  by (simp add: maxUint64_def unsigned_minus_1_eq_mask mask_eq_exp_minus_1)

lemma ParseUint_Some:
  "ParseUint s = Some w \<longleftrightarrow>
     s \<noteq> [] \<and> list_all is_digit s \<and> parse_digits s < 2 ^ 64 \<and> uint w = parse_digits s"
proof -
  have "uint (word_of_int (parse_digits s) :: u64) = parse_digits s"
    if "list_all is_digit s" "parse_digits s < 2 ^ 64"
    using that parse_digits_bounds [of s] by (intro uint_u64_of_int) (auto simp: list_all_iff)
  then show ?thesis
    by (auto simp: ParseUint_def intro: u64_eqI)
qed

lemma le_maxUint64_div:
  assumes "intVal \<le> maxUint64 div mul" and "0 < mul"
  shows "uint intVal * uint mul < 2 ^ 64"
proof -
  from assms(2) have "0 < uint mul" by (simp add: word_less_def)
  from assms(1) have "uint intVal \<le> (2 ^ 64 - 1) div uint mul"
    by (simp add: word_le_def uint_u64_div uint_maxUint64)
  then have "uint intVal * uint mul \<le> (2 ^ 64 - 1) div uint mul * uint mul"
    using \<open>0 < uint mul\<close> by (intro mult_right_mono) auto
  also have "\<dots> \<le> 2 ^ 64 - 1"
    using \<open>0 < uint mul\<close> by (simp add: minus_mod_eq_div_mult [symmetric])
  finally show ?thesis by simp
qed

lemma add_fraction_exact:
  assumes "add_fraction tot mul f = Inr b" and "uint mul \<le> 10 ^ 9"
  shows "uint b * 10 ^ length f = uint tot * 10 ^ length f + parse_digits f * uint mul"
proof (cases "f = ''''")
  case True
  with assms(1) show ?thesis by (simp add: add_fraction_def)
next
  case False
  define p where "p = (10 :: int) ^ length f"
  have len: "length f \<le> 9"
    using assms(1) False by (auto simp: add_fraction_def split: if_splits)
  have "p \<le> 10 ^ 9" unfolding p_def using len by (intro power_increasing) auto
  then have ppow: "uint (10 ^ length f :: u64) = p"
    using uint_u64_of_int [of p] by (simp add: p_def)
  from assms(1) False obtain fv where fv: "ParseUint f = Some fv"
    and dvd: "mul mod 10 ^ length f = 0"
    and fit: "tot \<le> maxUint64 - fv * (mul div 10 ^ length f)"
    and b: "b = tot + fv * (mul div 10 ^ length f)"
    by (auto simp: add_fraction_def Let_def split: if_splits option.splits)
  from dvd have "uint mul mod p = 0"
    using uint_u64_mod [of mul "10 ^ length f"] by (simp add: ppow)
  then obtain k where k: "uint mul = p * k" by (auto simp: mod_eq_0_iff_dvd)
  have "0 < p" by (simp add: p_def)
  from fv have F: "uint fv = parse_digits f" and dig: "list_all is_digit f"
    by (simp_all add: ParseUint_Some)
  then have "parse_digits f < p"
    using parse_digits_bounds [of f] by (simp add: p_def list_all_iff)
  have q: "uint (mul div 10 ^ length f) = k"
    using \<open>0 < p\<close> by (simp add: uint_u64_div ppow k)
  have "0 \<le> k" using uint_u64_bounds(1) [of "mul div 10 ^ length f"] q by simp
  then have "uint fv * k \<le> p * k"
    using F \<open>parse_digits f < p\<close> by (intro mult_right_mono) auto
  also have "\<dots> < 2 ^ 64" using assms(2) k by simp
  finally have fp: "uint (fv * (mul div 10 ^ length f)) = uint fv * k"
    using q by (simp add: uint_mult_exact)
  from fit have "uint tot \<le> uint (maxUint64 - fv * (mul div 10 ^ length f))"
    by (simp add: word_le_def)
  also have "\<dots> = 2 ^ 64 - 1 - uint fv * k"
    using fp uint_maxUint64 uint_u64_bounds [of "fv * (mul div 10 ^ length f)"]
    by (simp add: uint_sub_lem [THEN iffD1])
  finally have "uint tot + uint fv * k < 2 ^ 64" by simp
  then have "uint b = uint tot + uint fv * k"
    unfolding b using fp by (simp add: uint_add_exact)
  then show ?thesis by (simp add: F k p_def [symmetric] algebra_simps)
qed

lemma parse_unit_mul:
  assumes "parse_unit suf f = Inr mul"
  shows "0 < mul \<and> uint mul \<le> 10 ^ 9 \<and> (mul = 1 \<longrightarrow> f = '''')"
proof -
  from assms have "mul = 1 \<and> f = '''' \<or> mul \<in> {1000, 1000000, 1000000000}"
    by (auto simp: parse_unit_def Let_def split: if_splits)
  then show ?thesis by auto
qed

lemma parse_number_exact:
  assumes "parse_number i f suf = Inr b"
  obtains mul where "parse_unit suf f = Inr mul" and "0 < uint b"
    and "uint b * 10 ^ length f = (parse_digits i * 10 ^ length f + parse_digits f) * uint mul"
proof -
  from assms obtain mul iv where mul: "parse_unit suf f = Inr mul" and iv: "ParseUint i = Some iv"
    and chk: "\<not> (mul > 1 \<and> iv > maxUint64 div mul)"
    and af: "add_fraction (iv * mul) mul f = Inr b" and nz: "b \<noteq> 0"
    by (auto simp: parse_number_def split: sum.splits option.splits if_splits)
  note m = parse_unit_mul [OF mul]
  have "uint iv * uint mul < 2 ^ 64"
  proof (cases "mul > 1")
    case True
    with chk m show ?thesis by (intro le_maxUint64_div) auto
  next
    case False
    with m have "mul = 1" by unat_arith
    then show ?thesis using uint_u64_bounds(2) [of iv] by simp
  qed
  then have "uint (iv * mul) = parse_digits i * uint mul"
    using iv by (simp add: uint_mult_exact ParseUint_Some)
  with add_fraction_exact [OF af] m
  have "uint b * 10 ^ length f = (parse_digits i * 10 ^ length f + parse_digits f) * uint mul"
    by (simp add: algebra_simps)
  moreover from nz have "0 < uint b" by (simp add: word_neq_0_conv word_less_def)
  ultimately show thesis using mul that by blast
qed

subsection \<open>Printing parses back\<close>

lemma takeWhile_digits:
  assumes "\<forall>c \<in> set ds. is_digit c" and "r = [] \<or> \<not> is_digit (hd r)"
  shows "takeWhile is_digit (ds @ r) = ds" and "dropWhile is_digit (ds @ r) = r"
  using assms by (cases r; simp add: takeWhile_append2 dropWhile_append2)+

lemma ParseBitrate_whole:
  assumes "0 \<le> n" and "suf = [] \<or> \<not> is_digit (hd suf)" and "\<not> has_prefix suf ''.''"
  shows "ParseBitrate (show_nonneg n @ suf) = parse_number (show_nonneg n) '''' suf"
  using assms takeWhile_digits [OF show_nonneg_digits [OF assms(1)] assms(2)]
    show_nonneg_hd_not_minus [OF assms(1)]
  by (simp add: ParseBitrate_def Let_def)

lemma ParseBitrate_fraction:
  assumes "0 \<le> n" and "0 \<le> d" and "suf = [] \<or> \<not> is_digit (hd suf)"
  shows "ParseBitrate (show_nonneg n @ ''.'' @ show_nonneg d @ suf)
    = parse_number (show_nonneg n) (show_nonneg d) suf"
proof -
  let ?r = "''.'' @ show_nonneg d @ suf"
  have r: "?r = [] \<or> \<not> is_digit (hd ?r)" by (simp add: is_digit_def)
  show ?thesis
    using takeWhile_digits [OF show_nonneg_digits [OF assms(1)] r]
      takeWhile_digits [OF show_nonneg_digits [OF assms(2)] assms(3)]
      show_nonneg_hd_not_minus [OF assms(1)]
    by (simp add: ParseBitrate_def Let_def has_prefix_def)
qed

lemma ParseUint_show: "0 \<le> n \<Longrightarrow> n < 2 ^ 64 \<Longrightarrow> ParseUint (show_nonneg n) = Some (word_of_int n)"
  by (simp add: ParseUint_def parse_show_nonneg list_all_iff show_nonneg_digits)

lemma fits_maxUint64_div:
  assumes "uint a * uint mul < 2 ^ 64" and "0 < mul"
  shows "a \<le> maxUint64 div mul"
proof -
  from assms(2) have "0 < uint mul" by (simp add: word_less_def)
  then have "uint a = uint a * uint mul div uint mul" by simp
  also have "\<dots> \<le> (2 ^ 64 - 1) div uint mul"
    using assms(1) \<open>0 < uint mul\<close> by (intro zdiv_mono1) auto
  finally show ?thesis
    by (simp add: word_le_def uint_u64_div uint_maxUint64)
qed

lemma parse_whole_value:
  assumes "parse_unit suf '''' = Inr mul" and "v \<noteq> 0" and "v mod mul = 0"
  shows "parse_number (show_nonneg (uint (v div mul))) '''' suf = Inr v"
proof -
  note m = parse_unit_mul [OF assms(1)]
  have "uint v mod uint mul = 0"
    using assms(3) uint_u64_mod [of v mul] by simp
  then have e: "uint (v div mul) * uint mul = uint v"
    by (simp add: uint_u64_div) (metis add.right_neutral div_mult_mod_eq)
  then have fit: "uint (v div mul) * uint mul < 2 ^ 64" using uint_u64_bounds(2) [of v] by simp
  then have "uint (v div mul * mul) = uint v" using e by (simp add: uint_mult_exact)
  then have "v div mul * mul = v" by (rule u64_eqI)
  moreover have "\<not> maxUint64 div mul < v div mul"
    using fits_maxUint64_div [OF fit] m by (simp add: not_less)
  ultimately show ?thesis
    using assms(1,2) ParseUint_show [OF uint_u64_bounds(1) [of "v div mul"] uint_u64_bounds(2)]
    by (simp add: parse_number_def add_fraction_def)
qed

lemma u64_split: "v div m * m + v mod m = (v :: u64)"
  by (rule word_mod_div_equality)

lemma to_lower_units: "to_lower ''G'' = ''g''" "to_lower ''M'' = ''m''" "to_lower ''K'' = ''k''"
  by code_simp+

lemma parse_unit_units:
  "(mul, suf) \<in> set bitrateUnits \<Longrightarrow> parse_unit suf f = Inr mul"
  by (auto simp: bitrateUnits_def parse_unit_def Let_def to_lower_units simp del: to_lower.simps)

lemma tenth_digit:
  fixes v :: u64
  assumes "mul = 10 * tenth" and "uint mul = 10 * uint tenth" and "0 < tenth"
    and "v mod tenth = 0"
  defines "d \<equiv> (v mod mul) div tenth"
  shows "uint d < 10" and "d * tenth = v mod mul"
proof -
  define t where "t = uint tenth"
  have t: "0 < t" using assms(3) by (simp add: t_def word_less_def)
  have "uint v mod t = 0"
    using assms(4) uint_u64_mod [of v tenth] by (simp add: t_def)
  then have "uint v mod (10 * t) mod t = 0"
    by (simp add: mod_mod_cancel)
  moreover have ud: "uint d = uint v mod (10 * t) div t"
    by (simp add: d_def uint_u64_div uint_u64_mod assms(2) t_def)
  ultimately have e: "uint d * t = uint v mod (10 * t)"
    by (metis add.right_neutral div_mult_mod_eq)
  have "uint v mod (10 * t) < 10 * t" using t by simp
  then have "uint d * t < 10 * t" using e by simp
  then show "uint d < 10" using t by simp
  have "uint d * uint tenth < 2 ^ 64"
    using e uint_u64_bounds(2) [of "v mod mul"] by (simp add: uint_u64_mod assms(2) t_def)
  then have "uint (d * tenth) = uint (v mod mul)"
    using e by (simp add: uint_mult_exact uint_u64_mod assms(2) t_def)
  then show "d * tenth = v mod mul" by (rule u64_eqI)
qed

lemma parse_fraction_value:
  assumes "(mul, suf) \<in> set bitrateUnits" and "v \<ge> mul" and "v mod (mul div 10) = 0"
  shows "parse_number (show_nonneg (uint (v div mul)))
           (show_nonneg (uint ((v mod mul) div (mul div 10)))) suf = Inr v"
proof -
  define tenth where "tenth = mul div 10"
  define d where "d = (v mod mul) div tenth"
  have t: "mul = 10 * tenth" "uint mul = 10 * uint tenth" "0 < tenth" "1 < mul" "mul mod 10 = 0"
    using assms(1) by (auto simp: bitrateUnits_def tenth_def)
  note dig = tenth_digit [OF t(1-3) assms(3) [folded tenth_def], folded d_def]
  have unit: "parse_unit suf (show_nonneg (uint d)) = Inr mul"
    using assms(1) by (rule parse_unit_units)
  have len: "length (show_nonneg (uint d)) = 1"
    using show_nonneg_small [of "uint d"] dig(1) by simp
  have "v div mul \<le> maxUint64 div mul"
  proof -
    have "0 < uint mul" using t(2,3) by (simp add: word_less_def)
    then have "uint v div uint mul \<le> (2 ^ 64 - 1) div uint mul"
      using uint_u64_bounds(2) [of v] by (intro zdiv_mono1) auto
    then show ?thesis by (simp add: word_le_def uint_u64_div uint_maxUint64)
  qed
  have fr: "d * (mul div 10) = v mod mul"
    using dig(2) by (simp add: tenth_def)
  have le: "\<not> maxUint64 - v mod mul < v div mul * mul"
  proof -
    have "v div mul * mul = v - v mod mul" by (metis add_diff_cancel_right' u64_split)
    moreover have le: "uint (v mod mul) \<le> uint v"
      by (simp add: uint_u64_mod zmod_le_nonneg_dividend)
    ultimately have "uint (v div mul * mul) = uint v - uint (v mod mul)"
      by (simp add: uint_sub_lem [THEN iffD1])
    moreover have "uint (maxUint64 - v mod mul) = uint maxUint64 - uint (v mod mul)"
      using le uint_u64_bounds(2) [of v]
      by (intro uint_sub_lem [THEN iffD1]) (simp add: uint_maxUint64)
    ultimately show ?thesis
      using uint_u64_bounds(2) [of v] by (simp add: word_less_def uint_maxUint64)
  qed
  have "ParseUint (show_nonneg (uint d)) = Some d"
    using ParseUint_show [OF uint_u64_bounds(1) [of d] uint_u64_bounds(2)] by simp
  then have af: "add_fraction (v div mul * mul) mul (show_nonneg (uint d)) = Inr v"
    using len t(5) fr le u64_split [of v mul] by (simp add: add_fraction_def Let_def)
  have nz: "v \<noteq> 0" using assms(2) t(4) by auto
  show ?thesis
    unfolding d_def [symmetric] tenth_def [symmetric]
    using unit af nz \<open>v div mul \<le> maxUint64 div mul\<close>
      ParseUint_show [OF uint_u64_bounds(1) [of "v div mul"] uint_u64_bounds(2)]
    by (simp add: parse_number_def not_less [symmetric])
qed

lemma string_units_parses:
  assumes "v \<noteq> 0" and "set us \<subseteq> set bitrateUnits"
  shows "ParseBitrate (string_units v us) = Inr v"
  using assms(2)
proof (induction us)
  case Nil
  show ?case
    using ParseBitrate_whole [of "uint v" "[]"] parse_whole_value [of "''''" 1 v] assms(1)
    by (simp add: show_u64_def has_prefix_def parse_unit_def)
next
  case (Cons u us)
  obtain mul suf where u: "u = (mul, suf)" by (cases u)
  with Cons.prems have mem: "(mul, suf) \<in> set bitrateUnits" by simp
  then have suf: "suf = [] \<or> \<not> is_digit (hd suf)" "\<not> has_prefix suf ''.''"
    by (auto simp: bitrateUnits_def is_digit_def has_prefix_def)
  have pos: "0 \<le> uint (v div mul)" "0 \<le> uint ((v mod mul) div (mul div 10))" by simp_all
  consider "v mod mul = 0"
    | "v mod mul \<noteq> 0" "v \<ge> mul" "v mod (mul div 10) = 0"
    | "v mod mul \<noteq> 0" "\<not> (v \<ge> mul \<and> v mod (mul div 10) = 0)"
    by blast
  then show ?case
  proof cases
    case 1
    then show ?thesis
      using ParseBitrate_whole [OF pos(1) suf]
        parse_whole_value [OF parse_unit_units [OF mem] assms(1)]
      by (simp add: u show_u64_def)
  next
    case 2
    then show ?thesis
      using ParseBitrate_fraction [OF pos suf(1)] parse_fraction_value [OF mem]
      by (simp add: u show_u64_def)
  next
    case 3
    then show ?thesis
      using Cons by (auto simp: u Let_def)
  qed
qed

text \<open>
  C9. Round trip of the textual form: every non-zero bit rate prints to a string that
  \<open>ParseBitrate\<close> reads back as the same value.
\<close>

theorem bitrate_roundtrip:
  "v \<noteq> 0 \<Longrightarrow> ParseBitrate (bitrate_string v) = Inr v"
  by (simp add: bitrate_string_def string_units_parses)

theorem bitrate_roundtrip_witness:
  "(2500000000 :: u64) \<noteq> 0 \<and> bitrate_string 2500000000 = ''2.5G'' \<and> ParseBitrate ''2.5G'' = Inr 2500000000"
proof -
  have s: "bitrate_string 2500000000 = ''2.5G''" by code_simp
  have "(2500000000 :: u64) \<noteq> 0" by simp
  with bitrate_roundtrip [OF this] s show ?thesis by simp
qed

text \<open>
  Exactness of the parser: an accepted string is \<open>i\<close>, an optional \<open>.f\<close> and a unit
  \<open>suf\<close>, and the result is positive and equals \<open>i.f\<close> times the unit exactly, as unbounded
  integers. No accepted input is rounded or wraps around 64 bits.
\<close>

theorem ParseBitrate_exact:
  assumes "ParseBitrate s = Inr b"
  shows "\<exists>i f suf mul. (s = i @ suf \<and> f = '''' \<or> s = i @ ''.'' @ f @ suf \<and> f \<noteq> '''')
    \<and> i \<noteq> '''' \<and> list_all is_digit (i @ f) \<and> parse_unit suf f = Inr mul \<and> 0 < uint b
    \<and> uint b * 10 ^ length f = (parse_digits i * 10 ^ length f + parse_digits f) * uint mul"
proof -
  define i r where "i = takeWhile is_digit s" and "r = dropWhile is_digit s"
  have s: "s = i @ r" and i: "list_all is_digit i"
    by (simp_all add: i_def r_def list_all_iff) (metis set_takeWhileD)
  from assms have i0: "i \<noteq> ''''"
    by (auto simp: ParseBitrate_def i_def [symmetric] Let_def split: if_splits)
  show ?thesis
  proof (cases "has_prefix r ''.''")
    case True
    define f where "f = takeWhile is_digit (drop 1 r)"
    from True have r: "r = ''.'' @ f @ dropWhile is_digit (drop 1 r)"
      by (cases r) (auto simp: has_prefix_def f_def)
    have f: "list_all is_digit f" by (simp add: f_def list_all_iff) (metis set_takeWhileD)
    from assms True have f0: "f \<noteq> ''''"
      and pn: "parse_number i f (dropWhile is_digit (drop 1 r)) = Inr b"
      by (auto simp: ParseBitrate_def i_def [symmetric] r_def [symmetric] f_def Let_def
          split: if_splits)
    from parse_number_exact [OF pn] show ?thesis
      using s r i i0 f f0 by (metis list_all_append)
  next
    case False
    with assms have pn: "parse_number i '''' r = Inr b"
      by (auto simp: ParseBitrate_def i_def [symmetric] r_def [symmetric] Let_def split: if_splits)
    from parse_number_exact [OF pn] show ?thesis
      using s i i0 by (metis append_Nil2)
  qed
qed

end
