(* ===== verification/Report.thy ===== *)
theory Report
  imports Health Bitrate
begin

section \<open>The report model: \<open>internal/model/{report,result,counters}.go\<close>\<close>

text \<open>
  The data a run produces and the evaluator reads. A pointer is an \<open>option\<close>; a slice whose
  nil value the code distinguishes from an empty one is an \<open>option\<close> of a list; a map is an
  association list (\<open>wf_map\<close> says its keys are distinct); times and durations are nanosecond
  counts. Field names carry a prefix for their struct.
\<close>

type_synonym gotime = int
type_synonym duration = int

definition DirectionPC1ToPC2 :: string where "DirectionPC1ToPC2 = ''pc1_to_pc2''"
definition DirectionPC2ToPC1 :: string where "DirectionPC2ToPC1 = ''pc2_to_pc1''"

record CPUUsage =
  cpu_HostTotal :: f64
  cpu_HostUser :: f64
  cpu_HostSystem :: f64
  cpu_RemoteTotal :: f64
  cpu_RemoteUser :: f64
  cpu_RemoteSystem :: f64

record TCPInterval =
  iv_StartSec :: f64
  iv_EndSec :: f64
  iv_Bytes :: u64
  iv_BitsPerSecond :: f64
  iv_Retransmits :: "u64 option"

record TCPCollapseEvent =
  ce_StartSec :: f64
  ce_Len :: int
  ce_MinBps :: f64

record TCPResult =
  tr_Direction :: string
  tr_Incomplete :: bool
  tr_Duration :: duration
  tr_ParallelStreams :: int
  tr_SenderBitsPerSecond :: f64
  tr_ReceiverBitsPerSecond :: f64
  tr_Retransmissions :: "u64 option"
  tr_IntervalResults :: "TCPInterval list"
  tr_Collapses :: "TCPCollapseEvent list option"
  tr_ThroughputVariation :: f64
  tr_MinimumIntervalBps :: f64
  tr_MaximumIntervalBps :: f64
  tr_CPUUtilization :: CPUUsage
  tr_Warnings :: "string list"

record TCPTrialStats =
  ts_CompletedTrials :: int
  ts_MinimumBitsPerSecond :: f64
  ts_MedianBitsPerSecond :: f64
  ts_MaximumBitsPerSecond :: f64
  ts_CoefficientOfVariation :: f64

record TCPTrialSpread =
  sp_PC1ToPC2 :: "TCPTrialStats option"
  sp_PC2ToPC1 :: "TCPTrialStats option"

record PingSpike =
  pk_Seq :: int
  pk_RTTMs :: f64

record SeqRun =
  sr_FirstSeq :: int
  sr_Len :: int

record PingResult =
  pg_Direction :: string
  pg_Target :: string
  pg_Transmitted :: int
  pg_Received :: int
  pg_Duplicates :: int
  pg_SendErrors :: int
  pg_IcmpErrors :: int
  pg_FragNeededErrors :: int
  pg_LossPercent :: f64
  pg_RTTMinMs :: f64
  pg_RTTAvgMs :: f64
  pg_RTTMaxMs :: f64
  pg_RTTMdevMs :: f64
  pg_Percentiles :: "(int \<times> f64) list"
  pg_Spikes :: "PingSpike list"
  pg_MissingSeqRuns :: "SeqRun list"
  pg_LongestMissingRunLen :: int
  pg_LongestGapMs :: f64
  pg_IntervalUsedSec :: f64
  pg_ExitCode :: int
  pg_UnparsedLines :: int

record UDPResult =
  ud_Direction :: string
  ud_TargetBps :: u64
  ud_ActualSenderBps :: f64
  ud_ActualReceiverBps :: f64
  ud_LostPackets :: int
  ud_TotalPackets :: int
  ud_LossPercent :: f64
  ud_JitterMs :: f64
  ud_OutOfOrder :: "int option"
  ud_CPU :: CPUUsage

record BidirDirection =
  bd_SenderBitsPerSecond :: f64
  bd_ReceiverBitsPerSecond :: f64
  bd_Retransmissions :: "u64 option"

record BidirResult =
  bi_Duration :: duration
  bi_ParallelStreams :: int
  bi_PC1ToPC2 :: BidirDirection
  bi_PC2ToPC1 :: BidirDirection
  bi_CPUUtilization :: CPUUsage
  bi_TwoPhaseFallback :: bool
  bi_Warnings :: "string list"

record LinkSettings =
  ls_SpeedMbps :: int
  ls_Duplex :: string
  ls_LinkDetected :: bool
  ls_AutoNeg :: string
  ls_Port :: string
  ls_SupportedPorts :: "string list"
  ls_SupportedModes :: "string list"
  ls_AdvertisedModes :: "string list"
  ls_PartnerModes :: "string list"
  ls_MDIX :: string
  ls_Raw :: "string gomap"

text \<open>A pair status is a Go string; codes outside the six constants are possible in a decoded report.\<close>

datatype PairStatus =
    PairOK | PairOpen | PairShortIntra | PairShortInter | PairImpedance | PairUnspecified
  | PairOther string

fun pair_status_string :: "PairStatus \<Rightarrow> string" where
  "pair_status_string PairOK = ''OK''"
| "pair_status_string PairOpen = ''OPEN''"
| "pair_status_string PairShortIntra = ''SHORT_INTRA''"
| "pair_status_string PairShortInter = ''SHORT_INTER''"
| "pair_status_string PairImpedance = ''IMPEDANCE''"
| "pair_status_string PairUnspecified = ''UNSPECIFIED''"
| "pair_status_string (PairOther s) = s"

record CablePairResult =
  cp_Pair :: string
  cp_Status :: PairStatus
  cp_RawCode :: string
  cp_FaultMeters :: f64
  cp_HasFault :: bool

record TDRSample =
  td_Pair :: string
  td_DistanceM :: f64
  td_Amplitude :: int

record PeerCarrierEvents =
  pce_PC1 :: u64
  pce_PC2 :: u64

record CableTestResult =
  ct_Available :: bool
  ct_UnavailableReason :: string
  ct_Pairs :: "CablePairResult list"
  ct_Samples :: "TDRSample list"
  ct_TDRUnavailableReason :: string
  ct_SelfInflictedCarrierEvents :: PeerCarrierEvents
  ct_UnparsedLines :: int

record MonitoringEvent =
  me_At :: gotime
  me_Type :: string
  me_Detail :: string
  me_SelfInflicted :: bool

record SkippedTest =
  st_Name :: string
  st_Reason :: string

definition SkipReasonUnreachable :: string where
  "SkipReasonUnreachable = ''peer data port unreachable''"

record FailureDetails =
  fl_Stage :: string
  fl_Error :: string

record RawFileRef =
  rf_Name :: string
  rf_SHA256 :: string
  rf_Bytes :: int
  rf_Description :: string

subsection \<open>Counters\<close>

record IPRxStats =
  rx_Bytes :: u64
  rx_Packets :: u64
  rx_Errors :: u64
  rx_Dropped :: u64
  rx_OverErrors :: u64
  rx_Multicast :: u64
  rx_LengthErrors :: u64
  rx_CRCErrors :: u64
  rx_FrameErrors :: u64
  rx_FifoErrors :: u64
  rx_MissedErrors :: u64
  rx_Nohandler :: u64

record IPTxStats =
  tx_Bytes :: u64
  tx_Packets :: u64
  tx_Errors :: u64
  tx_Dropped :: u64
  tx_CarrierErrors :: u64
  tx_Collisions :: u64
  tx_AbortedErrors :: u64
  tx_FifoErrors :: u64
  tx_WindowErrors :: u64
  tx_HeartbeatErrors :: u64
  tx_CarrierChanges :: u64

record IPStats64 =
  ip_RX :: IPRxStats
  ip_TX :: IPTxStats

record CounterSnapshot =
  cs_CapturedAt :: gotime
  cs_Standard :: "u64 gomap"
  cs_Driver :: "u64 gomap"
  cs_Raw :: string
  cs_IPStats :: IPStats64

text \<open>The struct \<open>model.CounterDelta\<close>; the function of that name in \<open>evaluate\<close> is \<open>CounterDelta\<close>.\<close>

record CounterDeltaRec =
  cd_Delta :: u64
  cd_OK :: bool

type_synonym CounterDeltaSet = "CounterDeltaRec gomap"

record PeerCounters =
  pc_PC1 :: "CounterSnapshot option"
  pc_PC2 :: "CounterSnapshot option"

record PeerCounterDeltas =
  pd_PC1 :: CounterDeltaSet
  pd_PC2 :: CounterDeltaSet

subsection \<open>The report\<close>

record ConfigEcho =
  ec_Role :: string
  ec_LocalIP :: string
  ec_PeerIP :: string
  ec_Interface :: string
  ec_Mode :: string
  ec_ControlPort :: u16
  ec_IperfPort :: u16
  ec_TCPDuration :: duration
  ec_UDPDuration :: duration
  ec_UDPRate :: bitrate
  ec_ParallelStreams :: int
  ec_PingCount :: int
  ec_PingInterval :: duration
  ec_TCPRepeats :: int
  ec_SoakDuration :: duration
  ec_SoakLoad :: string
  ec_MonitorInterval :: duration
  ec_CableTest :: bool
  ec_CableTestTDR :: bool
  ec_Output :: string
  ec_Verbose :: bool
  ec_NonInteractive :: bool
  ec_NoSudo :: bool
  ec_NoReportTransfer :: bool
  ec_AllowVirtualInterface :: bool
  ec_TokenGenerated :: bool

record NICReport =
  nic_Name :: string
  nic_Driver :: string
  nic_SpeedMbps :: int
  nic_Duplex :: string
  nic_MTU :: int
  nic_MAC :: string
  nic_USB :: bool

record PeerReport =
  pr_Hostname :: string
  pr_Kernel :: string
  pr_OS :: string
  pr_NIC :: NICReport
  pr_ToolVersions :: "string gomap"

record MachinePair =
  mp_PC1 :: PeerReport
  mp_PC2 :: PeerReport

record TestsSection =
  te_Ping :: "PingResult list"
  te_FullSizePing :: "PingResult list"
  te_TCP :: "TCPResult list"
  te_TCPTrialSpread :: "TCPTrialSpread option"
  te_UDP :: "UDPResult list"
  te_Bidirectional :: "BidirResult option"
  te_CableTest :: "CableTestResult option"

record LinkEndpoint =
  le_Before :: "LinkSettings option"
  le_After :: "LinkSettings option"

record LinkSection =
  ln_PC1 :: LinkEndpoint
  ln_PC2 :: LinkEndpoint

record Report =
  rp_SchemaVersion :: string
  rp_ToolVersion :: string
  rp_ProtocolVersion :: string
  rp_TestID :: string
  rp_StartedAt :: gotime
  rp_FinishedAt :: gotime
  rp_Duration :: duration
  rp_Configuration :: ConfigEcho
  rp_PC1 :: PeerReport
  rp_PC2 :: PeerReport
  rp_Tests :: TestsSection
  rp_InitialCounters :: PeerCounters
  rp_FinalCounters :: PeerCounters
  rp_CycleCounters :: "PeerCounters list"
  rp_CounterDeltas :: PeerCounterDeltas
  rp_MonitoringEvents :: "MonitoringEvent list"
  rp_Warnings :: "string list"
  rp_SkippedTests :: "SkippedTest list"
  rp_UDPRateAssumed :: bool
  rp_Classification :: "HealthClass option"
  rp_Score :: "int option"
  rp_ClassificationReasons :: "string list"
  rp_Recommendations :: "string list"
  rp_Partial :: bool
  rp_SoakCyclesCompleted :: int
  rp_Failure :: "FailureDetails option"
  rp_Findings :: "Finding list"
  rp_RawFiles :: "RawFileRef list"
  rp_Link :: "LinkSection option"
  rp_Machines :: "MachinePair option"

subsection \<open>Zero values\<close>

text \<open>The zero values of the structs, from which concrete reports are built.\<close>

definition zero_cpu :: CPUUsage where
  "zero_cpu =
     \<lparr>cpu_HostTotal = Fin 0, cpu_HostUser = Fin 0, cpu_HostSystem = Fin 0,
      cpu_RemoteTotal = Fin 0, cpu_RemoteUser = Fin 0, cpu_RemoteSystem = Fin 0\<rparr>"

definition zero_tcp :: TCPResult where
  "zero_tcp =
     \<lparr>tr_Direction = '''', tr_Incomplete = False, tr_Duration = 0, tr_ParallelStreams = 0,
      tr_SenderBitsPerSecond = Fin 0, tr_ReceiverBitsPerSecond = Fin 0, tr_Retransmissions = None,
      tr_IntervalResults = [], tr_Collapses = None, tr_ThroughputVariation = Fin 0,
      tr_MinimumIntervalBps = Fin 0, tr_MaximumIntervalBps = Fin 0, tr_CPUUtilization = zero_cpu,
      tr_Warnings = []\<rparr>"

definition zero_udp :: UDPResult where
  "zero_udp =
     \<lparr>ud_Direction = '''', ud_TargetBps = 0, ud_ActualSenderBps = Fin 0,
      ud_ActualReceiverBps = Fin 0, ud_LostPackets = 0, ud_TotalPackets = 0,
      ud_LossPercent = Fin 0, ud_JitterMs = Fin 0, ud_OutOfOrder = None, ud_CPU = zero_cpu\<rparr>"

definition zero_rx :: IPRxStats where
  "zero_rx =
     \<lparr>rx_Bytes = 0, rx_Packets = 0, rx_Errors = 0, rx_Dropped = 0, rx_OverErrors = 0,
      rx_Multicast = 0, rx_LengthErrors = 0, rx_CRCErrors = 0, rx_FrameErrors = 0,
      rx_FifoErrors = 0, rx_MissedErrors = 0, rx_Nohandler = 0\<rparr>"

definition zero_tx :: IPTxStats where
  "zero_tx =
     \<lparr>tx_Bytes = 0, tx_Packets = 0, tx_Errors = 0, tx_Dropped = 0, tx_CarrierErrors = 0,
      tx_Collisions = 0, tx_AbortedErrors = 0, tx_FifoErrors = 0, tx_WindowErrors = 0,
      tx_HeartbeatErrors = 0, tx_CarrierChanges = 0\<rparr>"

definition zero_ip :: IPStats64 where
  "zero_ip =
     \<lparr>ip_RX = zero_rx, ip_TX = zero_tx\<rparr>"

definition zero_snapshot :: CounterSnapshot where
  "zero_snapshot =
     \<lparr>cs_CapturedAt = 0, cs_Standard = [], cs_Driver = [], cs_Raw = '''',
      cs_IPStats = zero_ip\<rparr>"

definition zero_counters :: PeerCounters where
  "zero_counters =
     \<lparr>pc_PC1 = None, pc_PC2 = None\<rparr>"

definition zero_counter_deltas :: PeerCounterDeltas where
  "zero_counter_deltas =
     \<lparr>pd_PC1 = [], pd_PC2 = []\<rparr>"

definition zero_config :: ConfigEcho where
  "zero_config =
     \<lparr>ec_Role = '''', ec_LocalIP = '''', ec_PeerIP = '''', ec_Interface = '''',
      ec_Mode = '''', ec_ControlPort = 0, ec_IperfPort = 0, ec_TCPDuration = 0, ec_UDPDuration = 0,
      ec_UDPRate = 0, ec_ParallelStreams = 0, ec_PingCount = 0, ec_PingInterval = 0,
      ec_TCPRepeats = 0, ec_SoakDuration = 0, ec_SoakLoad = '''', ec_MonitorInterval = 0,
      ec_CableTest = False, ec_CableTestTDR = False, ec_Output = '''', ec_Verbose = False,
      ec_NonInteractive = False, ec_NoSudo = False, ec_NoReportTransfer = False,
      ec_AllowVirtualInterface = False, ec_TokenGenerated = False\<rparr>"

definition zero_nic :: NICReport where
  "zero_nic =
     \<lparr>nic_Name = '''', nic_Driver = '''', nic_SpeedMbps = 0, nic_Duplex = '''', nic_MTU = 0,
      nic_MAC = '''', nic_USB = False\<rparr>"

definition zero_peer :: PeerReport where
  "zero_peer =
     \<lparr>pr_Hostname = '''', pr_Kernel = '''', pr_OS = '''', pr_NIC = zero_nic,
      pr_ToolVersions = []\<rparr>"

definition zero_tests :: TestsSection where
  "zero_tests =
     \<lparr>te_Ping = [], te_FullSizePing = [], te_TCP = [], te_TCPTrialSpread = None,
      te_UDP = [], te_Bidirectional = None, te_CableTest = None\<rparr>"

definition zero_report :: Report where
  "zero_report =
     \<lparr>rp_SchemaVersion = '''', rp_ToolVersion = '''', rp_ProtocolVersion = '''',
      rp_TestID = '''', rp_StartedAt = 0, rp_FinishedAt = 0, rp_Duration = 0,
      rp_Configuration = zero_config, rp_PC1 = zero_peer, rp_PC2 = zero_peer,
      rp_Tests = zero_tests, rp_InitialCounters = zero_counters, rp_FinalCounters = zero_counters,
      rp_CycleCounters = [], rp_CounterDeltas = zero_counter_deltas, rp_MonitoringEvents = [],
      rp_Warnings = [], rp_SkippedTests = [], rp_UDPRateAssumed = False, rp_Classification = None,
      rp_Score = None, rp_ClassificationReasons = [], rp_Recommendations = [], rp_Partial = False,
      rp_SoakCyclesCompleted = 0, rp_Failure = None, rp_Findings = [], rp_RawFiles = [],
      rp_Link = None, rp_Machines = None\<rparr>"

end
