(* ===== verification/TcpMetrics.thy ===== *)
theory TcpMetrics
  imports Report
begin

section \<open>TCP collapse analysis: \<open>internal/tcpmetrics/collapse.go\<close>\<close>

text \<open>
  \<open>CollapseEvents\<close> groups consecutive intervals whose throughput is strictly below half of
  the median, the first interval excluded when there are at least two.
\<close>

definition CollapseBelowMedianRatio :: f64 where
  "CollapseBelowMedianRatio = Fin (1 / 2)"

record Sample =
  sm_StartSec :: f64
  sm_BitsPerSecond :: f64

definition bad_rate :: "f64 \<Rightarrow> bool" where
  "bad_rate b \<longleftrightarrow> flt b (Fin 0) \<or> b = FNaN \<or> b = PInf \<or> b = NInf"

text \<open>The median of a non-empty list of rates, as the source computes it after \<open>slices.Sort\<close>.\<close>

definition median_rate :: "f64 list \<Rightarrow> f64" where
  "median_rate rates =
     (let s = sort rates; n = length s; hi = s ! (n div 2)
      in if n mod 2 = 0
         then let lower = s ! (n div 2 - 1) in fadd lower (fdiv (fsub hi lower) (Fin 2))
         else hi)"

text \<open>
  The event loop. Its state is the list of events so far and whether the last of them is still
  open (\<open>active = len(events)-1\<close>) or not (\<open>active = -1\<close>).
\<close>

definition collapse_step :: "f64 \<Rightarrow> Sample \<Rightarrow> TCPCollapseEvent list \<times> bool \<Rightarrow> TCPCollapseEvent list \<times> bool" where
  "collapse_step threshold row st =
     (case st of
        (events, active) \<Rightarrow>
          if fge (sm_BitsPerSecond row) threshold then (events, False)
          else
            let events' =
                  (if active then events
                   else events @ [\<lparr>ce_StartSec = sm_StartSec row, ce_Len = 0,
                                   ce_MinBps = sm_BitsPerSecond row\<rparr>]);
                e = last events'
            in (butlast events' @
                  [e\<lparr>ce_Len := iadd (ce_Len e) 1,
                     ce_MinBps := fmin (ce_MinBps e) (sm_BitsPerSecond row)\<rparr>], True))"

definition collapse_loop :: "f64 \<Rightarrow> Sample list \<Rightarrow> TCPCollapseEvent list" where
  "collapse_loop threshold rows = fst (fold (collapse_step threshold) rows ([], False))"

definition analysed_rows :: "Sample list \<Rightarrow> Sample list" where
  "analysed_rows rows = (if length rows \<ge> 2 then tl rows else rows)"

definition CollapseEvents :: "Sample list \<Rightarrow> TCPCollapseEvent list" where
  "CollapseEvents rows =
     (let rs = analysed_rows rows
      in if rs = [] then []
         else if list_ex (\<lambda>r. bad_rate (sm_BitsPerSecond r)) rs then []
         else
           let median = median_rate (map sm_BitsPerSecond rs)
           in if fle median (Fin 0) then []
              else collapse_loop (fmul CollapseBelowMedianRatio median) rs)"

subsection \<open>The specification: maximal runs\<close>

text \<open>
  The runs of consecutive rows below the threshold, in order. The loop computes one event
  per run.
\<close>

function runs :: "('a \<Rightarrow> bool) \<Rightarrow> 'a list \<Rightarrow> 'a list list" where
  "runs P xs =
     (case dropWhile (\<lambda>x. \<not> P x) xs of
        [] \<Rightarrow> []
      | x # r \<Rightarrow> (x # takeWhile P r) # runs P (dropWhile P r))"
  by pat_completeness auto
termination
proof (relation "measure (length \<circ> snd)", goal_cases)
  case (2 P xs x r)
  have "length (dropWhile P r) \<le> length r" by (rule length_dropWhile_le)
  also have "\<dots> < length (dropWhile (\<lambda>x. \<not> P x) xs)" using 2 by simp
  also have "\<dots> \<le> length xs" by (rule length_dropWhile_le)
  finally show ?case by simp
qed simp

declare runs.simps [simp del]

fun fmin_list :: "f64 \<Rightarrow> f64 list \<Rightarrow> f64" where
  "fmin_list m [] = m"
| "fmin_list m (x # xs) = fmin_list (fmin m x) xs"

definition run_event :: "Sample list \<Rightarrow> TCPCollapseEvent" where
  "run_event r =
     \<lparr>ce_StartSec = sm_StartSec (hd r), ce_Len = int (length r),
      ce_MinBps = fmin_list (sm_BitsPerSecond (hd r)) (map sm_BitsPerSecond r)\<rparr>"

lemma runs_Nil [simp]: "runs P [] = []"
  by (simp add: runs.simps)

lemma runs_Cons:
  "runs P (x # xs) = (if P x then (x # takeWhile P xs) # runs P (dropWhile P xs) else runs P xs)"
  by (subst runs.simps) (simp add: runs.simps [of P xs])

lemma runs_cong: "(\<And>x. x \<in> set xs \<Longrightarrow> P x = Q x) \<Longrightarrow> runs P xs = runs Q xs"
proof (induction xs rule: length_induct)
  case (1 xs)
  show ?case
  proof (cases xs)
    case (Cons x ys)
    with "1.prems" have eq: "takeWhile P ys = takeWhile Q ys" "dropWhile P ys = dropWhile Q ys"
      by (auto intro: takeWhile_cong dropWhile_cong)
    have "length (dropWhile Q ys) < length xs" "length ys < length xs"
      using Cons by (simp_all add: length_dropWhile_le less_Suc_eq_le)
    then have "runs P (dropWhile Q ys) = runs Q (dropWhile Q ys)" "runs P ys = runs Q ys"
      using "1.IH" "1.prems" Cons by (auto dest: set_dropWhileD)
    with eq "1.prems" Cons show ?thesis by (simp add: runs_Cons)
  qed simp
qed

lemma runs_maximal: "r \<in> set (runs P xs) \<Longrightarrow> r \<noteq> [] \<and> list_all P r"
proof (induction P xs rule: runs.induct)
  case (1 P xs)
  show ?case
  proof (cases "dropWhile (\<lambda>x. \<not> P x) xs")
    case Nil
    then have "runs P xs = []" by (subst runs.simps) (simp only: list.case)
    with "1.prems" show ?thesis by simp
  next
    case (Cons x r')
    then have "P x" by (metis dropWhile_eq_Cons_conv)
    with Cons 1 show ?thesis
      by (auto simp: runs.simps [of P xs] list_all_iff dest: set_takeWhileD)
  qed
qed

lemma concat_runs: "concat (runs P xs) = filter P xs"
proof (induction P xs rule: runs.induct)
  case (1 P xs)
  have skip: "filter P xs = filter P (dropWhile (\<lambda>x. \<not> P x) xs)"
    by (induction xs) auto
  show ?case
  proof (cases "dropWhile (\<lambda>x. \<not> P x) xs")
    case Nil
    then have "runs P xs = []" by (subst runs.simps) (simp only: list.case)
    with skip Nil show ?thesis by simp
  next
    case (Cons x r)
    then have "P x" by (metis dropWhile_eq_Cons_conv)
    have "filter P r = filter P (takeWhile P r @ dropWhile P r)" by simp
    also have "\<dots> = takeWhile P r @ filter P (dropWhile P r)"
      unfolding filter_append by (simp add: filter_id_conv) (metis set_takeWhileD)
    finally show ?thesis
      using Cons skip "1.IH" [OF Cons] \<open>P x\<close> by (simp add: runs.simps [of P xs])
  qed
qed

subsection \<open>The loop computes the runs\<close>

lemma fmin_list_snoc: "fmin_list m (xs @ [x]) = fmin (fmin_list m xs) x"
  by (induction xs arbitrary: m) auto

lemma collapse_step_above:
  "fge (sm_BitsPerSecond x) thr \<Longrightarrow> collapse_step thr x (es, a) = (es, False)"
  by (simp add: collapse_step_def)

lemma collapse_step_open:
  "\<not> fge (sm_BitsPerSecond x) thr \<Longrightarrow> collapse_step thr x (es, False) = (es @ [run_event [x]], True)"
  by (simp add: collapse_step_def Let_def run_event_def iadd_exact in_i64_def minInt_def maxInt_def)

lemma collapse_step_extend:
  assumes "\<not> fge (sm_BitsPerSecond x) thr" and "r \<noteq> []" and "int (length r) < maxInt"
  shows "collapse_step thr x (es @ [run_event r], True) = (es @ [run_event (r @ [x])], True)"
  using assms
  by (simp add: collapse_step_def Let_def run_event_def iadd_exact in_i64_def minInt_def fmin_list_snoc)

lemma collapse_fold:
  assumes "int (length rows) \<le> maxInt"
  shows "fst (fold (collapse_step thr) rows (es, False))
           = es @ map run_event (runs (\<lambda>r. \<not> fge (sm_BitsPerSecond r) thr) rows)"
    and "r \<noteq> [] \<Longrightarrow> int (length r + length rows) \<le> maxInt \<Longrightarrow>
         fst (fold (collapse_step thr) rows (es @ [run_event r], True))
           = es @ run_event (r @ takeWhile (\<lambda>r. \<not> fge (sm_BitsPerSecond r) thr) rows)
               # map run_event (runs (\<lambda>r. \<not> fge (sm_BitsPerSecond r) thr)
                   (dropWhile (\<lambda>r. \<not> fge (sm_BitsPerSecond r) thr) rows))"
  using assms
proof (induction rows arbitrary: es r)
  case Nil
  case 1 show ?case by simp
  case 2 show ?case by simp
next
  case (Cons x rows)
  case 1
  then show ?case
    using Cons.IH(1) Cons.IH(2) [of "[x]"]
    by (cases "fge (sm_BitsPerSecond x) thr")
      (simp_all add: collapse_step_above collapse_step_open runs_Cons)
  case 2
  then show ?case
    using Cons.IH(1) [of "es @ [run_event r]"] Cons.IH(2) [of "r @ [x]"]
    by (cases "fge (sm_BitsPerSecond x) thr")
      (simp_all add: collapse_step_above collapse_step_extend runs_Cons)
qed

lemma collapse_loop_runs:
  "int (length rows) \<le> maxInt \<Longrightarrow>
   collapse_loop thr rows = map run_event (runs (\<lambda>r. \<not> fge (sm_BitsPerSecond r) thr) rows)"
  unfolding collapse_loop_def by (subst collapse_fold(1)) simp_all

subsection \<open>The analysis meets its specification\<close>

definition collapse_threshold :: "Sample list \<Rightarrow> f64" where
  "collapse_threshold rs = fmul CollapseBelowMedianRatio (median_rate (map sm_BitsPerSecond rs))"

definition analysable :: "Sample list \<Rightarrow> bool" where
  "analysable rs \<longleftrightarrow>
     rs \<noteq> [] \<and> \<not> list_ex (\<lambda>r. bad_rate (sm_BitsPerSecond r)) rs
     \<and> \<not> fle (median_rate (map sm_BitsPerSecond rs)) (Fin 0)"

lemma midpoint_not_nan: "fadd (Fin b) (fdiv (fsub (Fin a) (Fin b)) (Fin 2)) \<noteq> FNaN"
proof -
  have "fdiv (f64_of_rat (a - b)) (Fin 2) \<noteq> FNaN"
    using f64_of_rat_not_nan [of "a - b"] by (cases "f64_of_rat (a - b)") (simp_all add: finf_def)
  then show ?thesis
    by (cases "fdiv (f64_of_rat (a - b)) (Fin 2)") (simp_all add: fsub_def)
qed

lemma median_rate_not_nan:
  assumes "rates \<noteq> []" and "\<forall>x \<in> set rates. \<not> bad_rate x"
  shows "median_rate rates \<noteq> FNaN"
proof -
  have fin: "\<exists>q. sort rates ! i = Fin q" if "i < length rates" for i
  proof -
    from that have "sort rates ! i \<in> set rates" by (metis length_sort nth_mem set_sort)
    with assms(2) have "\<not> bad_rate (sort rates ! i)" by blast
    then show ?thesis by (cases "sort rates ! i") (auto simp: bad_rate_def)
  qed
  from assms(1) have i: "length rates div 2 < length rates" "length rates div 2 - 1 < length rates"
    by (cases rates; simp)+
  from fin [OF i(1)] fin [OF i(2)] obtain a b where
    ab: "sort rates ! (length rates div 2) = Fin a" "sort rates ! (length rates div 2 - 1) = Fin b"
    by blast
  show ?thesis
    by (simp add: median_rate_def Let_def ab [simplified] midpoint_not_nan)
qed

lemma CollapseEvents_eq:
  assumes "int (length rows) \<le> maxInt"
  shows "CollapseEvents rows =
    (if analysable (analysed_rows rows)
     then map run_event (runs (\<lambda>r. flt (sm_BitsPerSecond r) (collapse_threshold (analysed_rows rows)))
            (analysed_rows rows))
     else [])"
proof (cases "analysable (analysed_rows rows)")
  case False
  then show ?thesis
    by (auto simp: CollapseEvents_def analysable_def Let_def)
next
  case True
  let ?rs = "analysed_rows rows" and ?thr = "collapse_threshold (analysed_rows rows)"
  from True have ok: "\<not> bad_rate (sm_BitsPerSecond r)" if "r \<in> set ?rs" for r
    using that by (auto simp: analysable_def list_ex_iff)
  have "median_rate (map sm_BitsPerSecond ?rs) \<noteq> FNaN"
    using True ok by (intro median_rate_not_nan) (auto simp: analysable_def)
  then have nan: "?thr \<noteq> FNaN"
    by (cases "median_rate (map sm_BitsPerSecond ?rs)")
      (simp_all add: collapse_threshold_def CollapseBelowMedianRatio_def finf_def)
  have below: "\<not> fge (sm_BitsPerSecond r) ?thr \<longleftrightarrow> flt (sm_BitsPerSecond r) ?thr" if "r \<in> set ?rs" for r
  proof -
    from ok [OF that] have "sm_BitsPerSecond r \<noteq> FNaN" by (auto simp: bad_rate_def)
    with nan show ?thesis using not_flt_fle by blast
  qed
  have len: "int (length ?rs) \<le> maxInt"
    using assms by (auto simp: analysed_rows_def)
  have "CollapseEvents rows = collapse_loop ?thr ?rs"
    using True by (simp add: CollapseEvents_def analysable_def collapse_threshold_def Let_def)
  also have "\<dots> = map run_event (runs (\<lambda>r. \<not> fge (sm_BitsPerSecond r) ?thr) ?rs)"
    by (rule collapse_loop_runs [OF len])
  also have "runs (\<lambda>r. \<not> fge (sm_BitsPerSecond r) ?thr) ?rs = runs (\<lambda>r. flt (sm_BitsPerSecond r) ?thr) ?rs"
    by (rule runs_cong) (use below in auto)
  finally show ?thesis using True by simp
qed

lemma sum_run_lengths:
  "(\<Sum>e \<leftarrow> map run_event (runs P rs). ce_Len e) = int (length (filter P rs))"
proof -
  have "(\<Sum>e \<leftarrow> map run_event rss. ce_Len e) = int (length (concat rss))" for rss
    by (induction rss) (simp_all add: run_event_def)
  from this [of "runs P rs"] show ?thesis by (simp add: concat_runs)
qed

text \<open>
  C8. The collapse analysis is the grouping it documents: when the rows after the first are
  analysable (valid rates, positive median) it returns one event per maximal run of
  intervals strictly below half of the median, with the run's start, length and slowest rate, and the
  event lengths add up to the number of such intervals; otherwise it returns no event.
\<close>

theorem CollapseEvents_spec:
  assumes "int (length rows) \<le> maxInt"
  shows "CollapseEvents rows =
      (if analysable (analysed_rows rows)
       then map run_event (runs (\<lambda>r. flt (sm_BitsPerSecond r) (collapse_threshold (analysed_rows rows)))
              (analysed_rows rows))
       else [])
    \<and> (\<Sum>e \<leftarrow> CollapseEvents rows. ce_Len e) =
      (if analysable (analysed_rows rows)
       then int (length (filter (\<lambda>r. flt (sm_BitsPerSecond r) (collapse_threshold (analysed_rows rows)))
              (analysed_rows rows)))
       else 0)"
  unfolding CollapseEvents_eq [OF assms] using sum_run_lengths by simp

definition demo_rows :: "Sample list" where
  "demo_rows = map (\<lambda>(s, b). \<lparr>sm_StartSec = Fin s, sm_BitsPerSecond = Fin b\<rparr>)
     [(0, 10), (1, 900), (2, 250), (3, 200), (4, 900), (5, 100), (6, 920)]"

theorem CollapseEvents_spec_witness:
  "int (length demo_rows) \<le> maxInt \<and> analysable (analysed_rows demo_rows)
   \<and> (\<Sum>e \<leftarrow> CollapseEvents demo_rows. ce_Len e) =
      int (length (filter (\<lambda>r. flt (sm_BitsPerSecond r) (collapse_threshold (analysed_rows demo_rows)))
              (analysed_rows demo_rows)))
   \<and> CollapseEvents demo_rows =
      [\<lparr>ce_StartSec = Fin 2, ce_Len = 2, ce_MinBps = Fin 200\<rparr>,
       \<lparr>ce_StartSec = Fin 5, ce_Len = 1, ce_MinBps = Fin 100\<rparr>]"
proof -
  have l: "int (length demo_rows) \<le> maxInt" by (simp add: demo_rows_def maxInt_def)
  have a: "analysable (analysed_rows demo_rows)" by code_simp
  have e: "CollapseEvents demo_rows =
      [\<lparr>ce_StartSec = Fin 2, ce_Len = 2, ce_MinBps = Fin 200\<rparr>,
       \<lparr>ce_StartSec = Fin 5, ce_Len = 1, ce_MinBps = Fin 100\<rparr>]"
    by code_simp
  have "(\<Sum>e \<leftarrow> CollapseEvents demo_rows. ce_Len e) =
      int (length (filter (\<lambda>r. flt (sm_BitsPerSecond r) (collapse_threshold (analysed_rows demo_rows)))
              (analysed_rows demo_rows)))"
    using CollapseEvents_spec [OF l, THEN conjunct2] unfolding if_P [OF a] .
  with a e l show ?thesis by blast
qed

end
