(* ===== verification/Thresholds.thy ===== *)
theory Thresholds
  imports TcpMetrics
begin

section \<open>Decision boundaries: \<open>internal/evaluate/thresholds.go\<close> and the throughput policy\<close>

text \<open>
  The record of calibrated boundaries, its default value, the selection of throughput bands and
  score bands, and from \<open>throughput.go\<close> the classification of one measured rate. Ratios are
  float64 quotients, so the boundaries are compared after the rounding the code performs.
\<close>

record ScoreBand =
  sb_Min :: int
  sb_Max :: int

record ThroughputBands =
  tb_PassAt :: f64
  tb_InfoAt :: f64
  tb_WarningAt :: f64
  tb_PassDisabled :: bool

record Thresholds =
  CRCPoorAbove :: u64
  CRCFailedAbove :: u64
  CRCCorroboratingPingLossAbove :: f64
  CarrierFailedAt :: u64
  FrameSizePoorAbove :: u64
  CarrierPHYPoorAbove :: u64
  CarrierPHYFailedAbove :: u64
  NegotiatedSpeedPoorAt :: f64
  PingLossPoorAbove :: f64
  PingSpikesWarningAbove :: int
  PingGapPoorAbove :: duration
  TCPRetransWarningAt :: f64
  TCPRetransPoorAbove :: f64
  UDPLossWarningAt :: f64
  UDPLossPoorAbove :: f64
  UDPJitterWarningAbove :: f64
  UDPReorderWarningAbove :: f64
  TCPThroughput100M :: ThroughputBands
  TCPThroughput1G :: ThroughputBands
  TCPThroughputFallback :: ThroughputBands
  TCPCoVWarningAt :: f64
  TCPCoVPoorAbove :: f64
  TCPCollapsePoorAt :: int
  TCPAsymmetryWarnAbove :: f64
  CPUHostLimitedAbove :: f64
  HostRingDropRateAbove :: f64
  HostRingDropFloor :: u64
  UDPTargetReachedAt :: f64
  UDPNearSaturationAbove :: f64
  FailedScoreBand :: ScoreBand
  PoorScoreBand :: ScoreBand
  WarningScoreBand :: ScoreBand
  GoodScoreBand :: ScoreBand
  ExcellentScoreBand :: ScoreBand

text \<open>A Go float constant: the decimal literal rounded to float64.\<close>

abbreviation lit :: "rat \<Rightarrow> f64" where
  "lit q \<equiv> f64_of_rat q"

definition Default :: Thresholds where
  "Default =
     \<lparr>CRCPoorAbove = 10,
      CRCFailedAbove = 1000,
      CRCCorroboratingPingLossAbove = lit 1,
      CarrierFailedAt = 3,
      FrameSizePoorAbove = 10,
      CarrierPHYPoorAbove = 10,
      CarrierPHYFailedAbove = 1000,
      NegotiatedSpeedPoorAt = lit (1 / 2),
      PingLossPoorAbove = lit (1 / 10),
      PingSpikesWarningAbove = 5,
      PingGapPoorAbove = second,
      TCPRetransWarningAt = lit (1 / 10000),
      TCPRetransPoorAbove = lit (1 / 100),
      UDPLossWarningAt = lit (1 / 2),
      UDPLossPoorAbove = lit 2,
      UDPJitterWarningAbove = lit 5,
      UDPReorderWarningAbove = lit (1 / 10),
      TCPThroughput100M = \<lparr>tb_PassAt = lit (9 / 10), tb_InfoAt = lit (9 / 10),
        tb_WarningAt = lit (7 / 10), tb_PassDisabled = True\<rparr>,
      TCPThroughput1G = \<lparr>tb_PassAt = lit (9 / 10), tb_InfoAt = lit (7 / 10),
        tb_WarningAt = lit (4 / 10), tb_PassDisabled = False\<rparr>,
      TCPThroughputFallback = \<lparr>tb_PassAt = lit (9 / 10), tb_InfoAt = lit (7 / 10),
        tb_WarningAt = lit (4 / 10), tb_PassDisabled = False\<rparr>,
      TCPCoVWarningAt = lit (15 / 100),
      TCPCoVPoorAbove = lit (30 / 100),
      TCPCollapsePoorAt = 3,
      TCPAsymmetryWarnAbove = lit (30 / 100),
      CPUHostLimitedAbove = lit 90,
      HostRingDropRateAbove = lit (1 / 1000000),
      HostRingDropFloor = 100,
      UDPTargetReachedAt = lit (90 / 100),
      UDPNearSaturationAbove = lit (95 / 100),
      FailedScoreBand = \<lparr>sb_Min = 0, sb_Max = 25\<rparr>,
      PoorScoreBand = \<lparr>sb_Min = 26, sb_Max = 50\<rparr>,
      WarningScoreBand = \<lparr>sb_Min = 51, sb_Max = 79\<rparr>,
      GoodScoreBand = \<lparr>sb_Min = 80, sb_Max = 94\<rparr>,
      ExcellentScoreBand = \<lparr>sb_Min = 95, sb_Max = 100\<rparr>\<rparr>"

text \<open>\<open>None\<close> is the \<open>false\<close> second result of \<open>perfBands\<close>: unknown speed.\<close>

definition perfBands :: "Thresholds \<Rightarrow> bitrate \<Rightarrow> ThroughputBands option" where
  "perfBands t speed =
     (if speed = 0 then None
      else if speed \<le> 100000000 then Some (TCPThroughput100M t)
      else if speed \<le> 1000000000 then Some (TCPThroughput1G t)
      else Some (TCPThroughputFallback t))"

fun scoreBand :: "Thresholds \<Rightarrow> HealthClass \<Rightarrow> ScoreBand" where
  "scoreBand t HealthFailed = FailedScoreBand t"
| "scoreBand t HealthPoor = PoorScoreBand t"
| "scoreBand t HealthWarning = WarningScoreBand t"
| "scoreBand t HealthGood = GoodScoreBand t"
| "scoreBand t HealthExcellent = ExcellentScoreBand t"
| "scoreBand t HealthInconclusive =
     \<lparr>sb_Min = sb_Min (FailedScoreBand t), sb_Max = sb_Max (ExcellentScoreBand t)\<rparr>"

text \<open>The three results \<open>ratio\<close>, \<open>severity\<close>, \<open>deviation\<close> of \<open>classifyThroughput\<close>.\<close>

definition classifyThroughput :: "bitrate \<Rightarrow> bitrate \<Rightarrow> Thresholds \<Rightarrow> f64 \<times> severity \<times> bool" where
  "classifyThroughput measured negotiated thresholds =
     (case perfBands thresholds negotiated of
        None \<Rightarrow> (Fin 0, 0, False)
      | Some bands \<Rightarrow>
          let ratio = fdiv (f64_of_u64 measured) (f64_of_u64 negotiated)
          in if fge ratio (tb_PassAt bands) \<and> \<not> tb_PassDisabled bands then (ratio, 0, False)
             else if fge ratio (tb_InfoAt bands) then (ratio, SevInfo, True)
             else if fge ratio (tb_WarningAt bands) then (ratio, SevWarning, True)
             else (ratio, SevPoor, True))"

definition throughputShortfall :: "bitrate \<Rightarrow> bitrate \<Rightarrow> Thresholds \<Rightarrow> bool" where
  "throughputShortfall measured negotiated thresholds =
     (case perfBands thresholds negotiated of
        None \<Rightarrow> False
      | Some bands \<Rightarrow> flt (fdiv (f64_of_u64 measured) (f64_of_u64 negotiated)) (tb_PassAt bands))"

subsection \<open>More throughput never looks worse\<close>

text \<open>A classification as a grade: no deviation is below every severity.\<close>

definition throughput_grade :: "f64 \<times> severity \<times> bool \<Rightarrow> severity" where
  "throughput_grade r = (case r of (_, sev, dev) \<Rightarrow> if dev then sev else SevNone)"

definition bands_ordered :: "ThroughputBands \<Rightarrow> bool" where
  "bands_ordered b \<longleftrightarrow> fle (tb_WarningAt b) (tb_InfoAt b) \<and> fle (tb_InfoAt b) (tb_PassAt b)"

lemma f64_of_u64_mono: "a \<le> b \<Longrightarrow> fle (f64_of_u64 a) (f64_of_u64 b)"
  unfolding f64_of_u64_def f64_of_int_def by (rule f64_of_rat_mono) (simp only: of_int_le_iff word_le_def)

lemma f64_of_u64_Fin: "\<exists>q. f64_of_u64 a = Fin q \<and> 0 \<le> q \<and> (a \<noteq> 0 \<longrightarrow> 0 < q)"
proof -
  let ?x = "rat_of_int (uint a)"
  have "?x < of_int (2 ^ 64)" using uint_u64_bounds(2) [of a] by (simp only: of_int_less_iff)
  moreover have "representable (of_int (2 ^ 64))"
    unfolding representable_def by (rule exI [of _ 1], rule exI [of _ 64]) (simp add: pow2_def)
  ultimately have "rnd ?x \<le> of_int (2 ^ 64)" by (intro rnd64.rd_le) auto
  then have up: "rnd ?x < 2 ^ 1024" by (rule le_less_trans) simp
  have lo: "0 \<le> rnd ?x" by (rule rnd_nonneg) (simp only: of_int_0_le_iff uint_u64_bounds)
  have "1 \<le> rnd ?x" if "a \<noteq> 0"
  proof -
    have "0 < uint a" using that by (simp add: word_neq_0_conv word_less_def)
    then have "1 \<le> ?x" by (simp only: of_int_1_le_iff)
    then show ?thesis using representable_of_int [of 1] by (intro rnd64.rd_ge) auto
  qed
  then show ?thesis
    using up lo unfolding f64_of_u64_def f64_of_int_def f64_of_rat_def Let_def
    by (intro exI [of _ "rnd ?x"]) force
qed

lemma ratio_mono:
  assumes "a \<le> b" and "c \<noteq> 0"
  shows "fle (fdiv (f64_of_u64 a) (f64_of_u64 c)) (fdiv (f64_of_u64 b) (f64_of_u64 c))"
proof -
  from f64_of_u64_Fin [of a] f64_of_u64_Fin [of b] f64_of_u64_Fin [of c] assms(2)
  obtain p q r where "f64_of_u64 a = Fin p" "f64_of_u64 b = Fin q" "f64_of_u64 c = Fin r" "0 < r"
    by blast
  with f64_of_u64_mono [OF assms(1)] show ?thesis
    by (metis fdiv_mono_num)
qed

lemma classify_grade_antimono:
  assumes "fle r s" and "bands_ordered b"
  shows "(if fge s (tb_PassAt b) \<and> \<not> tb_PassDisabled b then SevNone
          else if fge s (tb_InfoAt b) then SevInfo
          else if fge s (tb_WarningAt b) then SevWarning else SevPoor)
       \<le> (if fge r (tb_PassAt b) \<and> \<not> tb_PassDisabled b then SevNone
          else if fge r (tb_InfoAt b) then SevInfo
          else if fge r (tb_WarningAt b) then SevWarning else SevPoor)"
  using assms by (auto simp: severity_defs bands_ordered_def intro: fle_trans)

lemma throughput_grade_eq:
  "throughput_grade (classifyThroughput m n t) =
     (case perfBands t n of
        None \<Rightarrow> SevNone
      | Some b \<Rightarrow>
          let r = fdiv (f64_of_u64 m) (f64_of_u64 n)
          in if fge r (tb_PassAt b) \<and> \<not> tb_PassDisabled b then SevNone
             else if fge r (tb_InfoAt b) then SevInfo
             else if fge r (tb_WarningAt b) then SevWarning else SevPoor)"
  by (simp add: classifyThroughput_def throughput_grade_def Let_def split: option.splits)

lemma Default_bands_ordered: "perfBands Default n = Some b \<Longrightarrow> bands_ordered b"
  by (auto simp: perfBands_def Default_def bands_ordered_def f64_of_rat_mono split: if_splits)

text \<open>
  Throughput policy is monotone: on the same link, a higher measured rate never gets a worse
  grade, and never turns a passing trial into a shortfall, in spite of the float64 rounding of the two
  conversions and the quotient.
\<close>

theorem throughput_policy_antimono:
  assumes "a \<le> b"
  shows "throughput_grade (classifyThroughput b n Default) \<le> throughput_grade (classifyThroughput a n Default)
    \<and> (throughputShortfall b n Default \<longrightarrow> throughputShortfall a n Default)"
proof (cases "perfBands Default n")
  case None
  then show ?thesis by (simp add: throughput_grade_eq throughputShortfall_def)
next
  case (Some bands)
  then have "n \<noteq> 0" by (auto simp: perfBands_def)
  note r = ratio_mono [OF assms this]
  from classify_grade_antimono [OF r Default_bands_ordered [OF Some]] r Some show ?thesis
    by (simp add: throughput_grade_eq throughputShortfall_def Let_def fle_flt_trans)
qed

end
