(* ===== verification/Facts.thy ===== *)
theory Facts
  imports Thresholds
begin

section \<open>Evidence extraction: \<open>internal/evaluate/facts.go\<close>\<close>

text \<open>
  \<open>factsFromReport\<close> flattens a report into the \<open>Facts\<close> the rules read. Each loop of the
  source is a fold over the same list with the loop body as its step; the two-element array
  \<open>Dir\<close> is a pair of fields read by \<open>dir\<close> and written by \<open>upd_dir\<close>.
\<close>

definition defaultMSS :: f64 where
  "defaultMSS = Fin 1448"

record SideFacts =
  sf_CRCClassErrors :: u64
  sf_UnclassifiedRXErrors :: u64
  sf_RXErrorEvidence :: bool
  sf_CarrierEvents :: u64
  sf_JabberSizeErrors :: u64
  sf_FifoOverrun :: u64
  sf_MissedErrors :: u64
  sf_FramesReceived :: u64
  sf_CarrierPHYErrors :: u64
  sf_DeltaOK :: bool
  sf_CountersAvailable :: bool
  sf_BaselineCaptured :: bool

record DirFacts =
  df_TCPAvailable :: bool
  df_TCPTrialCount :: int
  df_TCPThroughputDeviations :: int
  df_TCPBitrate :: bitrate
  df_TCPRetransRate :: f64
  df_TCPRetransRateWorst :: f64
  df_TCPCoV :: f64
  df_TCPCollapses :: int
  df_TCPMaxCPUPct :: f64
  df_TCPSenderMaxCPUPct :: f64
  df_UDPAvailable :: bool
  df_UDPLossPct :: f64
  df_UDPJitterMs :: f64
  df_UDPOutOfOrderPct :: f64
  df_UDPMaxCPUPct :: f64
  df_UDPTargetReached :: bool
  df_PingLossPct :: f64
  df_PingDuplicates :: int
  df_PingSpikes :: int
  df_PingMaxGap :: duration
  df_FullSizeLossPct :: f64
  df_FullSizeAvailable :: bool
  df_FragErrors :: int
  df_NonFragPingErrors :: int

record Facts =
  fa_PC1 :: SideFacts
  fa_PC2 :: SideFacts
  fa_Dir0 :: DirFacts
  fa_Dir1 :: DirFacts
  fa_NegotiatedSpeed :: bitrate
  fa_ExpectedSpeed :: bitrate
  fa_HalfDuplex :: bool
  fa_LinkUpAtEnd :: bool
  fa_Renegotiations :: int
  fa_MonitorCarrierTransitions :: u64
  fa_CableTestRan :: bool
  fa_CableTestPairs :: "CablePairResult list"
  fa_MaxCPUPct :: f64
  fa_USBAdapter :: bool
  fa_VirtualInterface :: bool
  fa_Partial :: bool
  fa_UDPRateAssumed :: bool
  fa_UDPNearSaturation :: bool
  fa_Unavailable :: "string list"
  fa_ThroughputUnreachable :: bool

text \<open>The zero values of the structs.\<close>

definition zero_side :: SideFacts where
  "zero_side =
     \<lparr>sf_CRCClassErrors = 0, sf_UnclassifiedRXErrors = 0, sf_RXErrorEvidence = False,
      sf_CarrierEvents = 0, sf_JabberSizeErrors = 0, sf_FifoOverrun = 0, sf_MissedErrors = 0,
      sf_FramesReceived = 0, sf_CarrierPHYErrors = 0, sf_DeltaOK = False,
      sf_CountersAvailable = False, sf_BaselineCaptured = False\<rparr>"

definition zero_dir :: DirFacts where
  "zero_dir =
     \<lparr>df_TCPAvailable = False, df_TCPTrialCount = 0, df_TCPThroughputDeviations = 0,
      df_TCPBitrate = 0, df_TCPRetransRate = Fin 0, df_TCPRetransRateWorst = Fin 0,
      df_TCPCoV = Fin 0, df_TCPCollapses = 0, df_TCPMaxCPUPct = Fin 0,
      df_TCPSenderMaxCPUPct = Fin 0, df_UDPAvailable = False, df_UDPLossPct = Fin 0,
      df_UDPJitterMs = Fin 0, df_UDPOutOfOrderPct = Fin 0, df_UDPMaxCPUPct = Fin 0,
      df_UDPTargetReached = False, df_PingLossPct = Fin 0, df_PingDuplicates = 0,
      df_PingSpikes = 0, df_PingMaxGap = 0, df_FullSizeLossPct = Fin 0,
      df_FullSizeAvailable = False, df_FragErrors = 0, df_NonFragPingErrors = 0\<rparr>"

definition zero_facts :: Facts where
  "zero_facts =
     \<lparr>fa_PC1 = zero_side, fa_PC2 = zero_side, fa_Dir0 = zero_dir, fa_Dir1 = zero_dir,
      fa_NegotiatedSpeed = 0, fa_ExpectedSpeed = 0, fa_HalfDuplex = False, fa_LinkUpAtEnd = False,
      fa_Renegotiations = 0, fa_MonitorCarrierTransitions = 0, fa_CableTestRan = False,
      fa_CableTestPairs = [], fa_MaxCPUPct = Fin 0, fa_USBAdapter = False,
      fa_VirtualInterface = False, fa_Partial = False, fa_UDPRateAssumed = False,
      fa_UDPNearSaturation = False, fa_Unavailable = [], fa_ThroughputUnreachable = False\<rparr>"

definition dir :: "Facts \<Rightarrow> int \<Rightarrow> DirFacts" where
  "dir f i = (if i = 0 then fa_Dir0 f else fa_Dir1 f)"

definition upd_dir :: "int \<Rightarrow> (DirFacts \<Rightarrow> DirFacts) \<Rightarrow> Facts \<Rightarrow> Facts" where
  "upd_dir i g f = (if i = 0 then f\<lparr>fa_Dir0 := g (fa_Dir0 f)\<rparr> else f\<lparr>fa_Dir1 := g (fa_Dir1 f)\<rparr>)"

subsection \<open>Counter deltas\<close>

definition CounterDelta :: "u64 \<Rightarrow> u64 \<Rightarrow> u64 \<times> bool" where
  "CounterDelta before after = (if after < before then (0, False) else (after - before, True))"

fun delta_step :: "u64 gomap \<Rightarrow> string \<times> u64 \<Rightarrow> CounterDeltaSet \<times> bool \<Rightarrow> CounterDeltaSet \<times> bool" where
  "delta_step after (key, b) (s, ok) =
     (case map_of after key of
        None \<Rightarrow> (s, False)
      | Some a \<Rightarrow>
          let (delta, dok) = CounterDelta b a
          in (s @ [(key, \<lparr>cd_Delta = delta, cd_OK = dok\<rparr>)], ok \<and> dok))"

definition DeltaSet :: "CounterSnapshot option \<Rightarrow> CounterSnapshot option \<Rightarrow> CounterDeltaSet \<times> bool" where
  "DeltaSet before after =
     (case (before, after) of
        (Some b, Some a) \<Rightarrow>
          (case fold (delta_step (cs_Standard a)) (cs_Standard b) ([], True) of
             (s, ok) \<Rightarrow>
               (s, fold (\<lambda>(key, _) ok. if map_of (cs_Standard b) key = None then False else ok)
                     (cs_Standard a) ok))
      | _ \<Rightarrow> ([], False))"

definition sum_keys :: "CounterDeltaSet \<Rightarrow> string list \<Rightarrow> u64" where
  "sum_keys s keys =
     fold (\<lambda>k tot. case map_of s k of
                      Some d \<Rightarrow> if cd_OK d then tot + cd_Delta d else tot
                    | None \<Rightarrow> tot) keys 0"

definition present_keys :: "CounterDeltaSet \<Rightarrow> string list \<Rightarrow> bool" where
  "present_keys s keys = list_ex (\<lambda>k. map_of s k \<noteq> None) keys"

definition rxErrorEvidenceKeys :: "string list" where
  "rxErrorEvidenceKeys = [''rx_crc'', ''rx_frame'', ''rx_align'', ''rx_symbol'', ''rx_errors_total'']"

definition unclassifiedRXErrors :: "(string list \<Rightarrow> u64) \<Rightarrow> u64" where
  "unclassifiedRXErrors sm =
     (let tot = sm [''rx_errors_total''];
          explained = sm [''rx_crc'', ''rx_frame'', ''rx_align'', ''rx_symbol'', ''rx_length'',
                          ''undersize'', ''oversize'', ''jabber'']
      in if tot \<le> explained then 0 else tot - explained)"

definition framesReceived :: "CounterSnapshot option \<Rightarrow> CounterSnapshot option \<Rightarrow> u64" where
  "framesReceived before after =
     (case (before, after) of
        (Some b, Some a) \<Rightarrow>
          (case CounterDelta (rx_Packets (ip_RX (cs_IPStats b))) (rx_Packets (ip_RX (cs_IPStats a))) of
             (delta, ok) \<Rightarrow> if \<not> ok then 0 else delta)
      | _ \<Rightarrow> 0)"

definition sideFacts :: "CounterSnapshot option \<Rightarrow> CounterSnapshot option \<Rightarrow> u64 \<Rightarrow> SideFacts" where
  "sideFacts before after selfInflictedCarrier =
     (case DeltaSet before after of
        (s, ok) \<Rightarrow>
          let baseline = (case before of None \<Rightarrow> False | Some b \<Rightarrow> cs_Standard b \<noteq> []);
              available = (baseline \<and> (case after of None \<Rightarrow> False | Some a \<Rightarrow> cs_Standard a \<noteq> []));
              sm = sum_keys s;
              ce = sm [''link_resets''];
              carrierEvents = (if selfInflictedCarrier \<ge> ce then 0 else ce - selfInflictedCarrier)
          in \<lparr>sf_CRCClassErrors = sm [''rx_crc'', ''rx_frame'', ''rx_align'', ''rx_symbol''],
              sf_UnclassifiedRXErrors = unclassifiedRXErrors sm,
              sf_RXErrorEvidence = present_keys s rxErrorEvidenceKeys,
              sf_CarrierEvents = carrierEvents,
              sf_JabberSizeErrors = sm [''jabber'', ''oversize'', ''undersize'', ''rx_length''],
              sf_FifoOverrun = sm [''rx_fifo''],
              sf_MissedErrors = sm [''rx_missed''],
              sf_FramesReceived = framesReceived before after,
              sf_CarrierPHYErrors = sm [''tx_carrier'', ''phy_errors''],
              sf_DeltaOK = (ok \<and> available),
              sf_CountersAvailable = available,
              sf_BaselineCaptured = baseline\<rparr>)"

subsection \<open>Reductions over repeat trials\<close>

definition dirIndex :: "string \<Rightarrow> int" where
  "dirIndex direction =
     (if direction = DirectionPC1ToPC2 then 0 else if direction = DirectionPC2ToPC1 then 1 else - 1)"

definition sortedValues :: "f64 list \<Rightarrow> f64 list" where
  "sortedValues values = sort values"

definition lowerMedian :: "f64 list \<Rightarrow> f64" where
  "lowerMedian values =
     (if values = [] then Fin 0
      else let s = sortedValues values in s ! ((length s - 1) div 2))"

definition worstOf :: "f64 list \<Rightarrow> f64" where
  "worstOf values = fold (\<lambda>v worst. fmax worst v) values (Fin 0)"

text \<open>\<open>time.Duration.Seconds\<close>.\<close>

definition duration_seconds :: "duration \<Rightarrow> f64" where
  "duration_seconds d =
     fadd (f64_of_int (idiv d second)) (fdiv (f64_of_int (imod d second)) (Fin 1000000000))"

definition interval_bytes :: "TCPInterval list \<Rightarrow> f64" where
  "interval_bytes ivs = fold (\<lambda>iv b. fadd b (f64_of_u64 (iv_Bytes iv))) ivs (Fin 0)"

text \<open>\<open>None\<close> is the \<open>false\<close> second result.\<close>

definition retransRate :: "TCPResult \<Rightarrow> f64 option" where
  "retransRate tr =
     (case tr_Retransmissions tr of
        None \<Rightarrow> None
      | Some n \<Rightarrow>
          let bytes0 = interval_bytes (tr_IntervalResults tr);
              secs = duration_seconds (tr_Duration tr);
              bytes = (if feq bytes0 (Fin 0) \<and> fgt secs (Fin 0)
                       then fdiv (fmul (tr_SenderBitsPerSecond tr) secs) (Fin 8) else bytes0)
          in if fle bytes (Fin 0) then None
             else let segments = fdiv bytes defaultMSS
                  in if fle segments (Fin 0) then None
                     else Some (fdiv (f64_of_u64 n) segments))"

text \<open>The saturating sum of the positive event lengths.\<close>

fun collapse_total :: "TCPCollapseEvent list \<Rightarrow> int \<Rightarrow> int" where
  "collapse_total [] tot = tot"
| "collapse_total (e # es) tot =
     (if ce_Len e \<le> 0 then collapse_total es tot
      else if ce_Len e > maxInt - tot then maxInt
      else collapse_total es (iadd tot (ce_Len e)))"

definition collapseIntervalCount :: "TCPResult \<Rightarrow> int" where
  "collapseIntervalCount tr =
     collapse_total
       (case tr_Collapses tr of
          Some events \<Rightarrow> events
        | None \<Rightarrow>
            CollapseEvents
              (map (\<lambda>iv. \<lparr>sm_StartSec = iv_StartSec iv, sm_BitsPerSecond = iv_BitsPerSecond iv\<rparr>)
                 (tr_IntervalResults tr))) 0"

definition saturatingPositiveTotal :: "int \<Rightarrow> int \<Rightarrow> int" where
  "saturatingPositiveTotal a0 b0 =
     (let a = max 0 a0; b = max 0 b0 in if a > maxInt - b then maxInt else iadd a b)"

definition tcpCollapseTotal :: "Facts \<Rightarrow> int" where
  "tcpCollapseTotal f = saturatingPositiveTotal (df_TCPCollapses (fa_Dir0 f)) (df_TCPCollapses (fa_Dir1 f))"

definition nonFragErrors :: "PingResult \<Rightarrow> int" where
  "nonFragErrors p = max 0 (isub (iadd (pg_SendErrors p) (pg_IcmpErrors p)) (pg_FragNeededErrors p))"

subsection \<open>Link speeds and states\<close>

definition mbps_bitrate :: "int \<Rightarrow> bitrate" where
  "mbps_bitrate n = word_of_int n * 1000000"

definition settingsSpeed :: "LinkSettings option \<Rightarrow> bitrate" where
  "settingsSpeed ls =
     (case ls of None \<Rightarrow> 0 | Some l \<Rightarrow> if ls_SpeedMbps l \<le> 0 then 0 else mbps_bitrate (ls_SpeedMbps l))"

definition nicSpeed :: "NICReport \<Rightarrow> bitrate" where
  "nicSpeed nic = (if nic_SpeedMbps nic \<le> 0 then 0 else mbps_bitrate (nic_SpeedMbps nic))"

definition negotiatedSpeed :: "Report \<Rightarrow> bitrate" where
  "negotiatedSpeed r =
     (let captured =
            (case rp_Link r of
               None \<Rightarrow> []
             | Some l \<Rightarrow> filter (\<lambda>s. s > 0) (map settingsSpeed
                 [le_Before (ln_PC1 l), le_Before (ln_PC2 l), le_After (ln_PC1 l), le_After (ln_PC2 l)]))
      in case captured of
           s # _ \<Rightarrow> s
         | [] \<Rightarrow> if nicSpeed (pr_NIC (rp_PC1 r)) > 0 then nicSpeed (pr_NIC (rp_PC1 r))
                 else nicSpeed (pr_NIC (rp_PC2 r)))"

definition linkModes :: "LinkEndpoint \<Rightarrow> (LinkSettings \<Rightarrow> string list) \<Rightarrow> string list" where
  "linkModes ep pick =
     (let after = (case le_After ep of None \<Rightarrow> [] | Some a \<Rightarrow> pick a)
      in case le_Before ep of
           Some b \<Rightarrow> if pick b \<noteq> [] then pick b else after
         | None \<Rightarrow> after)"

definition mode_mbps :: "string \<Rightarrow> u64" where
  "mode_mbps mode =
     foldl (\<lambda>n c. n * 10 + word_of_int (digit_val c)) 0 (takeWhile is_digit mode)"

definition maxModeSpeed :: "string list \<Rightarrow> bitrate" where
  "maxModeSpeed modes =
     fold (\<lambda>mode best.
             if takeWhile is_digit mode = [] \<or> \<not> contains (to_lower (dropWhile is_digit mode)) ''base''
             then best
             else if mode_mbps mode > best then mode_mbps mode else best) modes 0 * 1000000"

definition expectedSpeed :: "Report \<Rightarrow> bitrate" where
  "expectedSpeed r =
     (case rp_Link r of
        None \<Rightarrow> 0
      | Some l \<Rightarrow>
          let loc = maxModeSpeed (linkModes (ln_PC1 l) ls_SupportedModes);
              peer1 = maxModeSpeed (linkModes (ln_PC1 l) ls_PartnerModes);
              peer2 = (if peer1 = 0 then maxModeSpeed (linkModes (ln_PC2 l) ls_AdvertisedModes) else peer1);
              peer = (if peer2 = 0 then maxModeSpeed (linkModes (ln_PC2 l) ls_SupportedModes) else peer2)
          in if loc = 0 \<or> peer = 0 then 0 else min loc peer)"

definition halfDuplex :: "Report \<Rightarrow> bool" where
  "halfDuplex r =
     ((case rp_Link r of
         None \<Rightarrow> False
       | Some l \<Rightarrow>
           list_ex (\<lambda>ls. case ls of None \<Rightarrow> False | Some s \<Rightarrow> equal_fold (ls_Duplex s) ''half'')
             [le_Before (ln_PC1 l), le_After (ln_PC1 l), le_Before (ln_PC2 l), le_After (ln_PC2 l)])
      \<or> equal_fold (nic_Duplex (pr_NIC (rp_PC1 r))) ''half''
      \<or> equal_fold (nic_Duplex (pr_NIC (rp_PC2 r))) ''half'')"

definition after_down :: "LinkEndpoint \<Rightarrow> bool" where
  "after_down ep = (case le_After ep of None \<Rightarrow> False | Some a \<Rightarrow> \<not> ls_LinkDetected a)"

definition linkUpAtEnd :: "Report \<Rightarrow> bool" where
  "linkUpAtEnd r =
     (case rp_Link r of
        None \<Rightarrow> True
      | Some l \<Rightarrow> if after_down (ln_PC1 l) then False else if after_down (ln_PC2 l) then False else True)"

definition renegotiations :: "Report \<Rightarrow> int" where
  "renegotiations r =
     fold (\<lambda>ev n. if me_SelfInflicted ev then n
                  else if me_Type ev \<in> set [''renegotiation'', ''speed_changed'', ''duplex_changed'']
                  then iadd n 1 else n) (rp_MonitoringEvents r) 0"

definition monitorCarrierTransitions :: "Report \<Rightarrow> u64" where
  "monitorCarrierTransitions r =
     fold (\<lambda>ev n. if me_SelfInflicted ev then n
                  else if me_Type ev \<in> set [''carrier_lost'', ''carrier_restored'']
                  then n + 1 else n) (rp_MonitoringEvents r) 0"

definition consider_cpu :: "CPUUsage \<Rightarrow> f64 \<Rightarrow> f64" where
  "consider_cpu cpu best =
     (let b = (if fgt (cpu_HostTotal cpu) best then cpu_HostTotal cpu else best)
      in if fgt (cpu_RemoteTotal cpu) b then cpu_RemoteTotal cpu else b)"

definition maxCPUPct :: "Report \<Rightarrow> f64" where
  "maxCPUPct r =
     (let b1 = fold (\<lambda>tr b. if tr_Incomplete tr then b else consider_cpu (tr_CPUUtilization tr) b)
                 (te_TCP (rp_Tests r)) (Fin 0);
          b2 = fold (\<lambda>u b. consider_cpu (ud_CPU u) b) (te_UDP (rp_Tests r)) b1
      in case te_Bidirectional (rp_Tests r) of
           None \<Rightarrow> b2
         | Some b \<Rightarrow> consider_cpu (bi_CPUUtilization b) b2)"

definition virtualNIC :: "NICReport \<Rightarrow> bool" where
  "virtualNIC nic \<longleftrightarrow> nic_Name nic \<noteq> '''' \<and> nic_Driver nic = ''''"

definition throughputUnreachable :: "Report \<Rightarrow> bool" where
  "throughputUnreachable r =
     list_ex (\<lambda>st. has_prefix (st_Reason st) SkipReasonUnreachable) (rp_SkippedTests r)"

definition add_name :: "string \<Rightarrow> string list \<Rightarrow> string list" where
  "add_name name names = (if name \<noteq> '''' \<and> name \<notin> set names then names @ [name] else names)"

definition unavailableTests :: "Report \<Rightarrow> string list" where
  "unavailableTests r =
     (let names = fold (\<lambda>st. add_name (st_Name st)) (rp_SkippedTests r) []
      in case te_CableTest (rp_Tests r) of
           None \<Rightarrow> names
         | Some ct \<Rightarrow>
             if \<not> ct_Available ct then add_name ''cable_test'' names
             else if ct_TDRUnavailableReason ct \<noteq> '''' then add_name ''cable_test_tdr'' names
             else names)"

subsection \<open>The fold of the test results\<close>

definition ping_step :: "f64conv \<Rightarrow> PingResult \<Rightarrow> Facts \<Rightarrow> Facts" where
  "ping_step cv p f =
     (let i = dirIndex (pg_Direction p)
      in if i < 0 then f
         else upd_dir i (\<lambda>d. d\<lparr>
                df_PingLossPct := fmax (df_PingLossPct d) (pg_LossPercent p),
                df_PingDuplicates := max (df_PingDuplicates d) (pg_Duplicates p),
                df_PingSpikes := max (df_PingSpikes d) (int (length (pg_Spikes p))),
                df_PingMaxGap := max (df_PingMaxGap d)
                  (f64_to_i64 cv (fmul (pg_LongestGapMs p) (f64_of_int millisecond))),
                df_NonFragPingErrors := max (df_NonFragPingErrors d) (nonFragErrors p)\<rparr>) f)"

definition fullsize_step :: "PingResult \<Rightarrow> Facts \<Rightarrow> Facts" where
  "fullsize_step p f =
     (let i = dirIndex (pg_Direction p)
      in if i < 0 then f
         else upd_dir i (\<lambda>d. d\<lparr>
                df_FullSizeAvailable := True,
                df_FullSizeLossPct := fmax (df_FullSizeLossPct d) (pg_LossPercent p),
                df_FragErrors := max (df_FragErrors d) (pg_FragNeededErrors p),
                df_NonFragPingErrors := max (df_NonFragPingErrors d) (nonFragErrors p)\<rparr>) f)"

text \<open>One element of the local arrays \<open>tcp\<close>, \<open>tcpObserved\<close> and \<open>tcpIncomplete\<close>.\<close>

record tcpSamples =
  tc_bitrates :: "f64 list"
  tc_covs :: "f64 list"
  tc_retrans :: "f64 list"
  tc_collapses :: int
  tc_maxCPU :: f64
  tc_senderMaxCPU :: f64
  tc_observed :: int
  tc_incomplete :: bool

definition zero_samples :: tcpSamples where
  "zero_samples =
     \<lparr>tc_bitrates = [], tc_covs = [], tc_retrans = [], tc_collapses = 0, tc_maxCPU = Fin 0,
      tc_senderMaxCPU = Fin 0, tc_observed = 0, tc_incomplete = False\<rparr>"

definition trial_bps :: "TCPResult \<Rightarrow> f64" where
  "trial_bps tr =
     (if fle (tr_ReceiverBitsPerSecond tr) (Fin 0) then tr_SenderBitsPerSecond tr
      else tr_ReceiverBitsPerSecond tr)"

text \<open>The loop body for the results of direction \<open>i\<close>; results of the other direction leave it alone.\<close>

definition tcp_step :: "int \<Rightarrow> TCPResult \<Rightarrow> tcpSamples \<Rightarrow> tcpSamples" where
  "tcp_step i tr s0 =
     (if dirIndex (tr_Direction tr) \<noteq> i then s0
      else
        let s = s0\<lparr>tc_observed := iadd (tc_observed s0) 1\<rparr>
        in if tr_Incomplete tr then s\<lparr>tc_incomplete := True\<rparr>
           else s\<lparr>
             tc_bitrates := tc_bitrates s @ [trial_bps tr],
             tc_covs := tc_covs s @ [tr_ThroughputVariation tr],
             tc_collapses := max (tc_collapses s) (collapseIntervalCount tr),
             tc_maxCPU := fmax (fmax (tc_maxCPU s) (cpu_HostTotal (tr_CPUUtilization tr)))
               (cpu_RemoteTotal (tr_CPUUtilization tr)),
             tc_senderMaxCPU := fmax (tc_senderMaxCPU s) (cpu_HostTotal (tr_CPUUtilization tr)),
             tc_retrans := (case retransRate tr of Some rate \<Rightarrow> tc_retrans s @ [rate] | None \<Rightarrow> tc_retrans s)\<rparr>)"

definition expectedTCPTrials :: "Report \<Rightarrow> int" where
  "expectedTCPTrials r =
     (let repeats = ec_TCPRepeats (rp_Configuration r)
      in if repeats \<le> 0 then 0
         else if ec_Mode (rp_Configuration r) = ''soak'' then imul repeats (rp_SoakCyclesCompleted r)
         else repeats)"

definition tcp_samples :: "Report \<Rightarrow> int \<Rightarrow> tcpSamples" where
  "tcp_samples r i =
     (let s = fold (tcp_step i) (te_TCP (rp_Tests r)) zero_samples; expected = expectedTCPTrials r
      in if expected > 0 \<and> tc_observed s < expected then s\<lparr>tc_incomplete := True\<rparr> else s)"

definition clear_tcp :: "DirFacts \<Rightarrow> DirFacts" where
  "clear_tcp d =
     d\<lparr>df_TCPAvailable := False, df_TCPTrialCount := 0, df_TCPThroughputDeviations := 0,
       df_TCPBitrate := 0, df_TCPCoV := Fin 0, df_TCPCollapses := 0, df_TCPRetransRate := Fin 0,
       df_TCPRetransRateWorst := Fin 0, df_TCPMaxCPUPct := Fin 0, df_TCPSenderMaxCPUPct := Fin 0\<rparr>"

definition tcp_facts :: "f64conv \<Rightarrow> Thresholds \<Rightarrow> bitrate \<Rightarrow> tcpSamples \<Rightarrow> DirFacts \<Rightarrow> DirFacts" where
  "tcp_facts cv thresholds negotiated s d0 =
     (let d = (if tc_bitrates s \<noteq> [] then d0\<lparr>
                 df_TCPAvailable := True,
                 df_TCPTrialCount := int (length (tc_bitrates s)),
                 df_TCPBitrate := f64_to_u64 cv (lowerMedian (tc_bitrates s)),
                 df_TCPCoV := lowerMedian (tc_covs s),
                 df_TCPCollapses := tc_collapses s,
                 df_TCPRetransRate := lowerMedian (tc_retrans s),
                 df_TCPRetransRateWorst := worstOf (tc_retrans s),
                 df_TCPMaxCPUPct := tc_maxCPU s,
                 df_TCPSenderMaxCPUPct := tc_senderMaxCPU s,
                 df_TCPThroughputDeviations :=
                   fold (\<lambda>bps n. if throughputShortfall (f64_to_u64 cv bps) negotiated thresholds
                                  then iadd n 1 else n)
                     (tc_bitrates s) (df_TCPThroughputDeviations d0)\<rparr>
               else d0)
      in if tc_incomplete s then clear_tcp d else d)"

definition udp_target_reached :: "Thresholds \<Rightarrow> UDPResult \<Rightarrow> bool" where
  "udp_target_reached thresholds u \<longleftrightarrow>
     ud_TargetBps u > 0
     \<and> fge (ud_ActualSenderBps u) (fmul (UDPTargetReachedAt thresholds) (f64_of_u64 (ud_TargetBps u)))"

definition udp_near_saturation :: "Thresholds \<Rightarrow> bitrate \<Rightarrow> UDPResult \<Rightarrow> bool" where
  "udp_near_saturation thresholds negotiated u \<longleftrightarrow>
     negotiated > 0
     \<and> fgt (f64_of_u64 (ud_TargetBps u)) (fmul (UDPNearSaturationAbove thresholds) (f64_of_u64 negotiated))"

definition udp_step :: "Thresholds \<Rightarrow> UDPResult \<Rightarrow> Facts \<Rightarrow> Facts" where
  "udp_step thresholds u f0 =
     (let i = dirIndex (ud_Direction u)
      in if i < 0 then f0
         else
           let f = upd_dir i (\<lambda>d. d\<lparr>df_UDPAvailable := True\<rparr>) f0;
               nearSaturation = udp_near_saturation thresholds (fa_NegotiatedSpeed f) u;
               f' = (if nearSaturation then f\<lparr>fa_UDPNearSaturation := True\<rparr> else f)
           in if \<not> udp_target_reached thresholds u \<or> nearSaturation then f'
              else upd_dir i (\<lambda>d. d\<lparr>
                     df_UDPTargetReached := True,
                     df_UDPMaxCPUPct := fmax (fmax (df_UDPMaxCPUPct d) (cpu_HostTotal (ud_CPU u)))
                       (cpu_RemoteTotal (ud_CPU u)),
                     df_UDPLossPct := fmax (df_UDPLossPct d) (ud_LossPercent u),
                     df_UDPJitterMs := fmax (df_UDPJitterMs d) (ud_JitterMs u),
                     df_UDPOutOfOrderPct :=
                       (case ud_OutOfOrder u of
                          Some ooo \<Rightarrow>
                            if ud_TotalPackets u > 0
                            then fmax (df_UDPOutOfOrderPct d)
                                   (fmul (fdiv (f64_of_int ooo) (f64_of_int (ud_TotalPackets u))) (Fin 100))
                            else df_UDPOutOfOrderPct d
                        | None \<Rightarrow> df_UDPOutOfOrderPct d)\<rparr>) f')"

definition self_inflicted :: "Report \<Rightarrow> PeerCarrierEvents" where
  "self_inflicted r =
     (case te_CableTest (rp_Tests r) of
        None \<Rightarrow> \<lparr>pce_PC1 = 0, pce_PC2 = 0\<rparr>
      | Some ct \<Rightarrow> ct_SelfInflictedCarrierEvents ct)"

definition factsFromReport :: "f64conv \<Rightarrow> Report \<Rightarrow> Thresholds \<Rightarrow> Facts" where
  "factsFromReport cv r thresholds =
     (let si = self_inflicted r;
          f0 = zero_facts\<lparr>
            fa_LinkUpAtEnd := True,
            fa_PC1 := sideFacts (pc_PC1 (rp_InitialCounters r)) (pc_PC1 (rp_FinalCounters r)) (pce_PC1 si),
            fa_PC2 := sideFacts (pc_PC2 (rp_InitialCounters r)) (pc_PC2 (rp_FinalCounters r)) (pce_PC2 si)\<rparr>;
          f1 = fold (ping_step cv) (te_Ping (rp_Tests r)) f0;
          f2 = fold fullsize_step (te_FullSizePing (rp_Tests r)) f1;
          f3 = f2\<lparr>fa_NegotiatedSpeed := negotiatedSpeed r\<rparr>;
          f4 = upd_dir 0 (tcp_facts cv thresholds (negotiatedSpeed r) (tcp_samples r 0)) f3;
          f5 = upd_dir 1 (tcp_facts cv thresholds (negotiatedSpeed r) (tcp_samples r 1)) f4;
          f6 = fold (udp_step thresholds) (te_UDP (rp_Tests r)) f5;
          f7 = f6\<lparr>
            fa_ExpectedSpeed := expectedSpeed r,
            fa_HalfDuplex := halfDuplex r,
            fa_LinkUpAtEnd := linkUpAtEnd r,
            fa_Renegotiations := renegotiations r,
            fa_MonitorCarrierTransitions := monitorCarrierTransitions r\<rparr>;
          f8 = (case te_CableTest (rp_Tests r) of
                  Some ct \<Rightarrow> if ct_Available ct
                             then f7\<lparr>fa_CableTestRan := True, fa_CableTestPairs := ct_Pairs ct\<rparr> else f7
                | None \<Rightarrow> f7)
      in f8\<lparr>
           fa_MaxCPUPct := maxCPUPct r,
           fa_USBAdapter := (nic_USB (pr_NIC (rp_PC1 r)) \<or> nic_USB (pr_NIC (rp_PC2 r))),
           fa_VirtualInterface := (virtualNIC (pr_NIC (rp_PC1 r)) \<or> virtualNIC (pr_NIC (rp_PC2 r))),
           fa_Partial := rp_Partial r,
           fa_UDPRateAssumed := rp_UDPRateAssumed r,
           fa_Unavailable := unavailableTests r,
           fa_ThroughputUnreachable := throughputUnreachable r\<rparr>)"

definition FactsFromReport :: "f64conv \<Rightarrow> Report \<Rightarrow> Facts" where
  "FactsFromReport cv r = factsFromReport cv r Default"

subsection \<open>The counter delta contract\<close>

definition delta_of :: "u64 \<Rightarrow> u64 \<Rightarrow> CounterDeltaRec" where
  "delta_of before after = (if after < before then \<lparr>cd_Delta = 0, cd_OK = False\<rparr> else \<lparr>cd_Delta = after - before, cd_OK = True\<rparr>)"

definition both :: "u64 gomap \<Rightarrow> u64 gomap \<Rightarrow> string \<Rightarrow> CounterDeltaRec option" where
  "both before after k =
     (case map_of before k of None \<Rightarrow> None | Some b \<Rightarrow> map_option (delta_of b) (map_of after k))"

lemma delta_fold_fst:
  "fst (fold (delta_step after) before (s, ok)) =
     s @ List.map_filter (\<lambda>(k, b). map_option (\<lambda>a. (k, delta_of b a)) (map_of after k)) before"
proof (induction before arbitrary: s ok)
  case (Cons kb before)
  obtain k b where "kb = (k, b)" by (cases kb)
  then show ?case
    by (cases "map_of after k") (simp_all add: Cons map_filter_simps delta_of_def CounterDelta_def)
qed (simp add: map_filter_simps)

lemma delta_fold_snd:
  "snd (fold (delta_step after) before (s, ok)) \<longleftrightarrow>
     ok \<and> (\<forall>(k, b)\<in>set before. \<exists>a. map_of after k = Some a \<and> b \<le> a)"
proof (induction before arbitrary: s ok)
  case (Cons kb before)
  obtain k b where "kb = (k, b)" by (cases kb)
  then show ?case
    by (cases "map_of after k") (auto simp: Cons CounterDelta_def not_le)
qed simp

lemma missing_fold:
  "fold (\<lambda>(key, _) ok. if map_of m key = None then False else ok) xs ok \<longleftrightarrow> ok \<and> (\<forall>(k, _)\<in>set xs. map_of m k \<noteq> None)"
  by (induction xs arbitrary: ok) (auto split: if_splits)

lemma map_of_deltas:
  "distinct (map fst before) \<Longrightarrow>
   map_of (List.map_filter (\<lambda>(k, b). map_option (\<lambda>a. (k, delta_of b a)) (map_of after k)) before) = both before after"
proof (induction before)
  case (Cons kb before)
  obtain k b where kb: "kb = (k, b)" by (cases kb)
  have "map_of before k = None" using Cons.prems kb by (auto simp: map_of_eq_None_iff)
  with Cons kb show ?case
    by (cases "map_of after k") (auto simp: map_filter_simps both_def fun_eq_iff split: option.splits)
qed (simp add: map_filter_simps both_def fun_eq_iff)

lemma DeltaSet_lookup:
  assumes "wf_map (cs_Standard b)"
  shows "map_of (fst (DeltaSet (Some b) (Some a))) = both (cs_Standard b) (cs_Standard a)"
proof -
  let ?F = "fold (delta_step (cs_Standard a)) (cs_Standard b) ([], True)"
  have "fst (DeltaSet (Some b) (Some a)) = fst ?F" by (simp add: DeltaSet_def split: prod.split)
  then show ?thesis using assms by (simp add: delta_fold_fst map_of_deltas wf_map_def)
qed

lemma DeltaSet_ok:
  assumes "wf_map (cs_Standard b)"
  shows "snd (DeltaSet (Some b) (Some a)) \<longleftrightarrow>
    dom (map_of (cs_Standard b)) = dom (map_of (cs_Standard a))
    \<and> (\<forall>k x y. map_of (cs_Standard b) k = Some x \<longrightarrow> map_of (cs_Standard a) k = Some y \<longrightarrow> x \<le> y)"
    (is "_ \<longleftrightarrow> ?R")
proof -
  let ?F = "fold (delta_step (cs_Standard a)) (cs_Standard b) ([], True)"
  have "snd (DeltaSet (Some b) (Some a)) \<longleftrightarrow> snd ?F \<and> (\<forall>(k, _)\<in>set (cs_Standard a). map_of (cs_Standard b) k \<noteq> None)"
    by (simp add: DeltaSet_def missing_fold split: prod.split)
  also have "\<dots> \<longleftrightarrow> (\<forall>k x. map_of (cs_Standard b) k = Some x \<longrightarrow> (\<exists>y. map_of (cs_Standard a) k = Some y \<and> x \<le> y))
      \<and> (\<forall>k y. map_of (cs_Standard a) k = Some y \<longrightarrow> map_of (cs_Standard b) k \<noteq> None)"
    unfolding delta_fold_snd using assms map_of_None_iff [of "cs_Standard a"]
    by (fastforce simp: wf_map_def dest: map_of_SomeD)
  also have "\<dots> \<longleftrightarrow> ?R" by (auto simp: dom_def set_eq_iff) (metis option.sel)+
  finally show ?thesis .
qed


text \<open>
  Counter deltas are exact: over two snapshots, a counter has a delta exactly when both captured
  it, the delta is the 64-bit difference, or an invalid 0 when the counter went backwards, and the
  pair is reliable exactly when both snapshots have the same counters and none went backwards.
\<close>

theorem DeltaSet_exact:
  assumes "wf_map (cs_Standard b)"
  shows "map_of (fst (DeltaSet (Some b) (Some a))) k =
      (case map_of (cs_Standard b) k of
         None \<Rightarrow> None
       | Some x \<Rightarrow> (case map_of (cs_Standard a) k of None \<Rightarrow> None | Some y \<Rightarrow> Some (delta_of x y)))
    \<and> (snd (DeltaSet (Some b) (Some a)) \<longleftrightarrow>
        dom (map_of (cs_Standard b)) = dom (map_of (cs_Standard a))
        \<and> (\<forall>k x y. map_of (cs_Standard b) k = Some x \<longrightarrow> map_of (cs_Standard a) k = Some y \<longrightarrow> x \<le> y))"
  by (simp add: DeltaSet_lookup [OF assms] DeltaSet_ok [OF assms] both_def split: option.splits)

lemma sum_keys_cong: "map_of s = map_of s' \<Longrightarrow> sum_keys s = sum_keys s'"
  by (simp add: sum_keys_def fun_eq_iff)

lemma present_keys_cong: "map_of s = map_of s' \<Longrightarrow> present_keys s = present_keys s'"
  by (simp add: present_keys_def fun_eq_iff)

lemma sideFacts_cong:
  assumes "map_of (fst (DeltaSet (Some b) (Some a))) = map_of (fst (DeltaSet (Some b') (Some a')))"
    and "snd (DeltaSet (Some b) (Some a)) = snd (DeltaSet (Some b') (Some a'))"
    and "cs_Standard b = [] \<longleftrightarrow> cs_Standard b' = []" and "cs_Standard a = [] \<longleftrightarrow> cs_Standard a' = []"
    and "cs_IPStats b = cs_IPStats b'" and "cs_IPStats a = cs_IPStats a'"
  shows "sideFacts (Some b) (Some a) n = sideFacts (Some b') (Some a') n"
proof -
  obtain s ok s' ok' where d: "DeltaSet (Some b) (Some a) = (s, ok)" "DeltaSet (Some b') (Some a') = (s', ok')"
    by (metis surj_pair)
  with assms have "sum_keys s = sum_keys s'" "present_keys s = present_keys s'" "ok = ok'"
    using sum_keys_cong [of s s'] present_keys_cong [of s s'] by simp_all
  then show ?thesis
    unfolding sideFacts_def d prod.case Let_def using assms(3-6) by (simp add: framesReceived_def)
qed

lemma sideFacts_map_order:
  assumes "wf_map (cs_Standard b)" and "wf_map (cs_Standard a)"
    and "mset (cs_Standard b) = mset (cs_Standard b')" and "mset (cs_Standard a) = mset (cs_Standard a')"
    and "cs_IPStats b = cs_IPStats b'" and "cs_IPStats a = cs_IPStats a'"
  shows "sideFacts (Some b) (Some a) n = sideFacts (Some b') (Some a') n"
proof -
  have eq: "map_of (cs_Standard b) = map_of (cs_Standard b')" "map_of (cs_Standard a) = map_of (cs_Standard a')"
    using assms map_of_perm by (auto simp: wf_map_def)
  have wf': "wf_map (cs_Standard b')"
    using assms(1,3) mset_eq_imp_distinct_iff [of "map fst (cs_Standard b)" "map fst (cs_Standard b')"]
    by (simp add: wf_map_def)
  have "map_of (fst (DeltaSet (Some b) (Some a))) = map_of (fst (DeltaSet (Some b') (Some a')))"
    by (simp only: DeltaSet_lookup [OF assms(1)] DeltaSet_lookup [OF wf'] both_def [abs_def] eq)
  moreover have "snd (DeltaSet (Some b) (Some a)) = snd (DeltaSet (Some b') (Some a'))"
    by (simp add: DeltaSet_ok assms(1) wf' eq)
  moreover have "cs_Standard b = [] \<longleftrightarrow> cs_Standard b' = []" "cs_Standard a = [] \<longleftrightarrow> cs_Standard a' = []"
    using assms(3,4) by (metis mset_zero_iff)+
  ultimately show ?thesis using assms(5,6) by (rule sideFacts_cong)
qed

subsection \<open>Reductions\<close>

lemma sorted_few_below: "sorted s \<Longrightarrow> k < length s \<Longrightarrow> length (filter (\<lambda>v. v < s ! k) s) \<le> k"
proof -
  assume s: "sorted s" "k < length s"
  have "v \<in> set (drop k s) \<Longrightarrow> s ! k \<le> v" for v
    using s by (auto simp: in_set_conv_nth intro: sorted_nth_mono)
  then have "filter (\<lambda>v. v < s ! k) (drop k s) = []" by (auto simp: filter_empty_conv not_less)
  then have "filter (\<lambda>v. v < s ! k) s = filter (\<lambda>v. v < s ! k) (take k s)"
    by (metis append_Nil2 append_take_drop_id filter_append)
  then show ?thesis by (metis length_filter_le length_take min.bounded_iff)
qed

lemma sorted_few_above: "sorted s \<Longrightarrow> k < length s \<Longrightarrow> length (filter (\<lambda>v. v > s ! k) s) \<le> length s - Suc k"
proof -
  assume s: "sorted s" "k < length s"
  have "v \<in> set (take (Suc k) s) \<Longrightarrow> v \<le> s ! k" for v
    using s by (auto simp: in_set_conv_nth less_Suc_eq_le intro!: sorted_nth_mono)
  then have "filter (\<lambda>v. v > s ! k) (take (Suc k) s) = []" by (auto simp: filter_empty_conv not_less)
  then have "filter (\<lambda>v. v > s ! k) s = filter (\<lambda>v. v > s ! k) (drop (Suc k) s)"
    by (metis append_Nil append_take_drop_id filter_append)
  then show ?thesis by (metis length_filter_le length_drop)
qed

text \<open>
  The representative of repeat trials is a value that was measured, and it is the lower median:
  no more than half of the other trials are below it and no more than half are above it, the lower
  one on a tie.
\<close>

theorem lowerMedian_spec:
  assumes "vs \<noteq> []"
  shows "lowerMedian vs \<in> set vs
    \<and> length (filter (\<lambda>v. v < lowerMedian vs) vs) \<le> (length vs - 1) div 2
    \<and> length (filter (\<lambda>v. v > lowerMedian vs) vs) \<le> length vs div 2"
proof -
  let ?s = "sort vs" and ?k = "(length vs - 1) div 2"
  have k: "?k < length ?s" using assms by (cases vs) auto
  have m: "lowerMedian vs = ?s ! ?k" using assms by (simp add: lowerMedian_def sortedValues_def Let_def)
  have filt: "length (filter P vs) = length (filter P ?s)" for P
    by (metis mset_filter mset_sort size_mset)
  have "length vs - Suc ?k \<le> length vs div 2" by linarith
  with sorted_few_below [OF sorted_sort k] sorted_few_above [OF sorted_sort k] nth_mem [OF k] show ?thesis
    unfolding m filt by simp
qed

subsection \<open>Which loop writes which fields\<close>

definition tcp_view :: "DirFacts \<Rightarrow> bool \<times> int \<times> int \<times> u64 \<times> f64 \<times> f64 \<times> f64 \<times> int \<times> f64 \<times> f64" where
  "tcp_view d = (df_TCPAvailable d, df_TCPTrialCount d, df_TCPThroughputDeviations d, df_TCPBitrate d,
     df_TCPRetransRate d, df_TCPRetransRateWorst d, df_TCPCoV d, df_TCPCollapses d, df_TCPMaxCPUPct d,
     df_TCPSenderMaxCPUPct d)"

definition udp_view :: "DirFacts \<Rightarrow> bool \<times> f64 \<times> f64 \<times> f64 \<times> f64 \<times> bool" where
  "udp_view d = (df_UDPAvailable d, df_UDPLossPct d, df_UDPJitterMs d, df_UDPOutOfOrderPct d,
     df_UDPMaxCPUPct d, df_UDPTargetReached d)"

lemma fold_invariant:
  assumes "\<And>x f. g (step x f) = g f"
  shows "g (fold step xs f) = g f"
  using assms by (induction xs arbitrary: f) simp_all

lemma dir_cases: "dir f i = (if i = 0 then fa_Dir0 f else fa_Dir1 f)"
  by (simp add: dir_def)

lemma ping_step_views:
  "tcp_view (dir (ping_step cv p f) i) = tcp_view (dir f i)" "udp_view (dir (ping_step cv p f) i) = udp_view (dir f i)"
  by (auto simp: ping_step_def upd_dir_def dir_def tcp_view_def udp_view_def Let_def)

lemma fullsize_step_views:
  "tcp_view (dir (fullsize_step p f) i) = tcp_view (dir f i)" "udp_view (dir (fullsize_step p f) i) = udp_view (dir f i)"
  by (auto simp: fullsize_step_def upd_dir_def dir_def tcp_view_def udp_view_def Let_def)

lemma udp_step_view: "tcp_view (dir (udp_step t u f) i) = tcp_view (dir f i)"
  by (auto simp: udp_step_def upd_dir_def dir_def tcp_view_def Let_def)

lemma udp_step_speed: "fa_NegotiatedSpeed (udp_step t u f) = fa_NegotiatedSpeed f"
  by (auto simp: udp_step_def upd_dir_def Let_def)

lemma tcp_facts_view_cong:
  "tcp_view d = tcp_view d' \<Longrightarrow> tcp_view (tcp_facts cv t n s d) = tcp_view (tcp_facts cv t n s d')"
  by (auto simp: tcp_facts_def clear_tcp_def tcp_view_def Let_def)

lemma tcp_facts_udp [simp]: "udp_view (tcp_facts cv t n s d) = udp_view d"
  by (auto simp: tcp_facts_def clear_tcp_def udp_view_def Let_def)

text \<open>The facts just before the UDP loop.\<close>

definition before_udp :: "f64conv \<Rightarrow> Report \<Rightarrow> Thresholds \<Rightarrow> Facts" where
  "before_udp cv r t =
     (let si = self_inflicted r;
          f0 = zero_facts\<lparr>
            fa_LinkUpAtEnd := True,
            fa_PC1 := sideFacts (pc_PC1 (rp_InitialCounters r)) (pc_PC1 (rp_FinalCounters r)) (pce_PC1 si),
            fa_PC2 := sideFacts (pc_PC2 (rp_InitialCounters r)) (pc_PC2 (rp_FinalCounters r)) (pce_PC2 si)\<rparr>;
          f1 = fold (ping_step cv) (te_Ping (rp_Tests r)) f0;
          f2 = fold fullsize_step (te_FullSizePing (rp_Tests r)) f1;
          f3 = f2\<lparr>fa_NegotiatedSpeed := negotiatedSpeed r\<rparr>;
          f4 = upd_dir 0 (tcp_facts cv t (negotiatedSpeed r) (tcp_samples r 0)) f3
      in upd_dir 1 (tcp_facts cv t (negotiatedSpeed r) (tcp_samples r 1)) f4)"

lemma factsFromReport_dir:
  "dir (factsFromReport cv r t) i = dir (fold (udp_step t) (te_UDP (rp_Tests r)) (before_udp cv r t)) i"
  by (simp add: factsFromReport_def before_udp_def Let_def dir_def split: option.split)

lemma before_udp_tcp:
  assumes "i = 0 \<or> i = 1"
  shows "tcp_view (dir (before_udp cv r t) i) = tcp_view (tcp_facts cv t (negotiatedSpeed r) (tcp_samples r i) zero_dir)"
proof -
  define f0 where "f0 = zero_facts\<lparr>fa_LinkUpAtEnd := True,
    fa_PC1 := sideFacts (pc_PC1 (rp_InitialCounters r)) (pc_PC1 (rp_FinalCounters r)) (pce_PC1 (self_inflicted r)),
    fa_PC2 := sideFacts (pc_PC2 (rp_InitialCounters r)) (pc_PC2 (rp_FinalCounters r)) (pce_PC2 (self_inflicted r))\<rparr>"
  let ?f2 = "fold fullsize_step (te_FullSizePing (rp_Tests r)) (fold (ping_step cv) (te_Ping (rp_Tests r)) f0)"
  have "tcp_view (dir ?f2 j) = tcp_view (dir f0 j)" for j
    by (simp add: fold_invariant [where g = "\<lambda>f. tcp_view (dir f j)"] ping_step_views fullsize_step_views)
  then have "tcp_view (dir ?f2 j) = tcp_view zero_dir" for j
    by (simp add: f0_def zero_facts_def dir_def)
  then show ?thesis
    using assms tcp_facts_view_cong [of "dir ?f2 i" zero_dir]
    by (auto simp: before_udp_def Let_def f0_def [symmetric] upd_dir_def dir_def)
qed

lemma before_udp_udp: "udp_view (dir (before_udp cv r t) i) = udp_view zero_dir"
proof -
  define f0 where "f0 = zero_facts\<lparr>fa_LinkUpAtEnd := True,
    fa_PC1 := sideFacts (pc_PC1 (rp_InitialCounters r)) (pc_PC1 (rp_FinalCounters r)) (pce_PC1 (self_inflicted r)),
    fa_PC2 := sideFacts (pc_PC2 (rp_InitialCounters r)) (pc_PC2 (rp_FinalCounters r)) (pce_PC2 (self_inflicted r))\<rparr>"
  let ?f2 = "fold fullsize_step (te_FullSizePing (rp_Tests r)) (fold (ping_step cv) (te_Ping (rp_Tests r)) f0)"
  have "udp_view (dir ?f2 j) = udp_view (dir f0 j)" for j
    by (simp add: fold_invariant [where g = "\<lambda>f. udp_view (dir f j)"] ping_step_views fullsize_step_views)
  then have "udp_view (dir ?f2 j) = udp_view zero_dir" for j
    by (simp add: f0_def zero_facts_def dir_def)
  then have "udp_view (fa_Dir0 ?f2) = udp_view zero_dir" "udp_view (fa_Dir1 ?f2) = udp_view zero_dir"
    using dir_def by (metis (full_types) zero_neq_one)+
  then show ?thesis
    by (auto simp: before_udp_def Let_def f0_def [symmetric] upd_dir_def dir_def)
qed

lemma final_tcp:
  assumes "i = 0 \<or> i = 1"
  shows "tcp_view (dir (factsFromReport cv r t) i) = tcp_view (tcp_facts cv t (negotiatedSpeed r) (tcp_samples r i) zero_dir)"
  using before_udp_tcp [OF assms]
  by (simp add: factsFromReport_dir fold_invariant [where g = "\<lambda>f. tcp_view (dir f i)"] udp_step_view)


subsection \<open>When a direction has a throughput result\<close>

definition trials :: "Report \<Rightarrow> int \<Rightarrow> TCPResult list" where
  "trials r i = filter (\<lambda>tr. dirIndex (tr_Direction tr) = i) (te_TCP (rp_Tests r))"

lemma tcp_fold_incomplete:
  "tc_incomplete (fold (tcp_step i) trs s) \<longleftrightarrow>
     tc_incomplete s \<or> list_ex tr_Incomplete (filter (\<lambda>tr. dirIndex (tr_Direction tr) = i) trs)"
  by (induction trs arbitrary: s) (auto simp: tcp_step_def Let_def)

lemma tcp_fold_bitrates:
  "tc_bitrates (fold (tcp_step i) trs s) =
     tc_bitrates s @ map trial_bps (filter (\<lambda>tr. \<not> tr_Incomplete tr) (filter (\<lambda>tr. dirIndex (tr_Direction tr) = i) trs))"
  by (induction trs arbitrary: s) (auto simp: tcp_step_def Let_def)

lemma tcp_fold_observed:
  assumes "0 \<le> tc_observed s" and "tc_observed s + int (length trs) \<le> maxInt"
  shows "tc_observed (fold (tcp_step i) trs s) =
    tc_observed s + int (length (filter (\<lambda>tr. dirIndex (tr_Direction tr) = i) trs))"
  using assms
proof (induction trs arbitrary: s)
  case (Cons tr trs)
  have "in_i64 (tc_observed s + 1)" using Cons.prems by (simp add: in_i64_def minInt_def)
  then have "tc_observed (tcp_step i tr s) = tc_observed s + (if dirIndex (tr_Direction tr) = i then 1 else 0)"
    by (auto simp: tcp_step_def Let_def iadd_exact)
  then show ?case using Cons.IH [of "tcp_step i tr s"] Cons.prems by auto
qed simp

definition complete_trials :: "Report \<Rightarrow> int \<Rightarrow> bool" where
  "complete_trials r i \<longleftrightarrow>
     trials r i \<noteq> [] \<and> \<not> list_ex tr_Incomplete (trials r i)
     \<and> (expectedTCPTrials r > 0 \<longrightarrow> expectedTCPTrials r \<le> int (length (trials r i)))"

lemma tcp_samples_incomplete:
  assumes "int (length (te_TCP (rp_Tests r))) \<le> maxInt"
  shows "tc_incomplete (tcp_samples r i) \<longleftrightarrow>
    list_ex tr_Incomplete (trials r i) \<or> expectedTCPTrials r > 0 \<and> int (length (trials r i)) < expectedTCPTrials r"
  using tcp_fold_observed [of zero_samples "te_TCP (rp_Tests r)" i] assms
  by (auto simp: tcp_samples_def Let_def tcp_fold_incomplete zero_samples_def trials_def)

lemma tcp_samples_bitrates:
  "tc_bitrates (tcp_samples r i) = map trial_bps (filter (\<lambda>tr. \<not> tr_Incomplete tr) (trials r i))"
  by (simp add: tcp_samples_def Let_def tcp_fold_bitrates zero_samples_def trials_def)

lemma all_complete: "\<not> list_ex P xs \<Longrightarrow> filter (\<lambda>x. \<not> P x) xs = xs"
  by (auto simp: list_ex_iff filter_id_conv)

lemma tcp_direction_cases:
  assumes "int (length (te_TCP (rp_Tests r))) \<le> maxInt" and "i = 0 \<or> i = 1"
  shows "if complete_trials r i
    then df_TCPAvailable (dir (factsFromReport cv r t) i)
      \<and> df_TCPTrialCount (dir (factsFromReport cv r t) i) = int (length (trials r i))
      \<and> df_TCPBitrate (dir (factsFromReport cv r t) i) = f64_to_u64 cv (lowerMedian (map trial_bps (trials r i)))
    else tcp_view (dir (factsFromReport cv r t) i) = tcp_view zero_dir"
proof (cases "complete_trials r i")
  case True
  then have inc: "\<not> tc_incomplete (tcp_samples r i)" and ne: "trials r i \<noteq> []"
    by (auto simp: tcp_samples_incomplete [OF assms(1)] complete_trials_def)
  have rates: "tc_bitrates (tcp_samples r i) = map trial_bps (trials r i)"
    using True by (simp add: tcp_samples_bitrates all_complete complete_trials_def)
  show ?thesis
    using final_tcp [OF assms(2), of cv r t] True inc ne
    by (simp add: tcp_facts_def rates tcp_view_def)
next
  case False
  then have "tc_incomplete (tcp_samples r i) \<or> tc_bitrates (tcp_samples r i) = []"
    by (auto simp: tcp_samples_incomplete [OF assms(1)] tcp_samples_bitrates complete_trials_def)
  then have "tcp_view (tcp_facts cv t (negotiatedSpeed r) (tcp_samples r i) zero_dir) = tcp_view zero_dir"
    by (auto simp: tcp_facts_def clear_tcp_def tcp_view_def zero_dir_def Let_def)
  with False final_tcp [OF assms(2), of cv r t] show ?thesis by simp
qed

text \<open>
  A direction has a throughput result exactly when it has at least one trial, every trial
  completed, and no scheduled trial is missing; then the rate is the lower median of all its trials and
  the trial count is their number. In every other case all of its TCP facts are zero, so that an
  interrupted series never looks like evidence.
\<close>

theorem tcp_direction_all_or_nothing:
  assumes "int (length (te_TCP (rp_Tests r))) \<le> maxInt" and "i = 0 \<or> i = 1"
  shows "if complete_trials r i
    then df_TCPAvailable (dir (factsFromReport cv r t) i)
      \<and> df_TCPTrialCount (dir (factsFromReport cv r t) i) = int (length (trials r i))
      \<and> df_TCPBitrate (dir (factsFromReport cv r t) i) = f64_to_u64 cv (lowerMedian (map trial_bps (trials r i)))
    else tcp_view (dir (factsFromReport cv r t) i) = tcp_view zero_dir"
  using assms by (rule tcp_direction_cases)

subsection \<open>UDP evidence\<close>

definition usable_udp :: "Thresholds \<Rightarrow> bitrate \<Rightarrow> int \<Rightarrow> UDPResult \<Rightarrow> bool" where
  "usable_udp t negotiated i u \<longleftrightarrow>
     dirIndex (ud_Direction u) = i \<and> udp_target_reached t u \<and> \<not> udp_near_saturation t negotiated u"

lemma udp_fold:
  assumes "i = 0 \<or> i = 1"
  shows "(df_UDPAvailable (dir (fold (udp_step t) us f) i) \<longleftrightarrow>
      df_UDPAvailable (dir f i) \<or> list_ex (\<lambda>u. dirIndex (ud_Direction u) = i) us) \<and>
    df_UDPLossPct (dir (fold (udp_step t) us f) i) =
      fold (\<lambda>u l. fmax l (ud_LossPercent u)) (filter (usable_udp t (fa_NegotiatedSpeed f) i) us) (df_UDPLossPct (dir f i)) \<and>
    df_UDPJitterMs (dir (fold (udp_step t) us f) i) =
      fold (\<lambda>u j. fmax j (ud_JitterMs u)) (filter (usable_udp t (fa_NegotiatedSpeed f) i) us) (df_UDPJitterMs (dir f i))"
proof (induction us arbitrary: f)
  case (Cons u us)
  have di: "dirIndex (ud_Direction u) \<in> {- 1, 0, 1}" by (auto simp: dirIndex_def)
  have "df_UDPAvailable (dir (udp_step t u f) i) \<longleftrightarrow> df_UDPAvailable (dir f i) \<or> dirIndex (ud_Direction u) = i"
    and "df_UDPLossPct (dir (udp_step t u f) i) =
      (if usable_udp t (fa_NegotiatedSpeed f) i u then fmax (df_UDPLossPct (dir f i)) (ud_LossPercent u) else df_UDPLossPct (dir f i))"
    and "df_UDPJitterMs (dir (udp_step t u f) i) =
      (if usable_udp t (fa_NegotiatedSpeed f) i u then fmax (df_UDPJitterMs (dir f i)) (ud_JitterMs u) else df_UDPJitterMs (dir f i))"
    using assms di by (auto simp: udp_step_def usable_udp_def upd_dir_def dir_def Let_def)
  with Cons.IH [of "udp_step t u f"] show ?case by (simp add: udp_step_speed)
qed simp

lemma before_udp_speed: "fa_NegotiatedSpeed (before_udp cv r t) = negotiatedSpeed r"
  by (simp add: before_udp_def Let_def upd_dir_def)

text \<open>
  UDP loss and jitter are the worst values of the usable measurements of the direction only: a
  sender that missed its target rate, or a target within reach of line rate, leaves no loss or jitter
  evidence behind; and a direction counts as measured exactly when some result belongs to it.
\<close>

theorem udp_evidence_usable_only:
  assumes "i = 0 \<or> i = 1"
  shows "df_UDPLossPct (dir (factsFromReport cv r t) i) =
      fold (\<lambda>u l. fmax l (ud_LossPercent u)) (filter (usable_udp t (negotiatedSpeed r) i) (te_UDP (rp_Tests r))) (Fin 0)
    \<and> df_UDPJitterMs (dir (factsFromReport cv r t) i) =
      fold (\<lambda>u j. fmax j (ud_JitterMs u)) (filter (usable_udp t (negotiatedSpeed r) i) (te_UDP (rp_Tests r))) (Fin 0)
    \<and> (df_UDPAvailable (dir (factsFromReport cv r t) i) \<longleftrightarrow>
        list_ex (\<lambda>u. dirIndex (ud_Direction u) = i) (te_UDP (rp_Tests r)))"
  using before_udp_udp [of cv r t i]
  by (simp add: factsFromReport_dir udp_fold [OF assms] before_udp_speed udp_view_def zero_dir_def)

lemma unmeasured_jitter:
  assumes "i = 0 \<or> i = 1" and "\<not> df_UDPAvailable (dir (factsFromReport cv r t) i)"
  shows "df_UDPJitterMs (dir (factsFromReport cv r t) i) = Fin 0"
proof -
  have "filter (usable_udp t (negotiatedSpeed r) i) (te_UDP (rp_Tests r)) = []"
    using assms before_udp_udp [of cv r t i]
    by (auto simp: factsFromReport_dir udp_fold [OF assms(1)] list_ex_iff usable_udp_def filter_empty_conv)
  then show ?thesis
    using before_udp_udp [of cv r t i]
    by (simp add: factsFromReport_dir udp_fold [OF assms(1)] before_udp_speed udp_view_def zero_dir_def)
qed

subsection \<open>Saturating totals\<close>

lemma collapse_total_sat:
  assumes "0 \<le> tot" and "tot \<le> maxInt"
  shows "collapse_total es tot = min maxInt (tot + (\<Sum>e\<leftarrow>es. max 0 (ce_Len e)))"
  using assms
proof (induction es arbitrary: tot)
  case (Cons e es)
  have nn: "0 \<le> (\<Sum>e\<leftarrow>es. max 0 (ce_Len e))" by (rule sum_list_nonneg) auto
  show ?case
  proof (cases "0 < ce_Len e \<and> ce_Len e \<le> maxInt - tot")
    case True
    then have "iadd tot (ce_Len e) = tot + ce_Len e"
      using Cons.prems by (intro iadd_exact) (simp add: in_i64_def minInt_def)
    then show ?thesis using True Cons by simp
  next
    case False
    then show ?thesis using Cons nn by (auto simp: max_def)
  qed
qed simp

lemma saturatingPositiveTotal_eq: "saturatingPositiveTotal a b = min maxInt (max 0 a + max 0 b)"
proof -
  have "iadd (max 0 a) (max 0 b) = max 0 a + max 0 b" if "\<not> max 0 a > maxInt - max 0 b"
    using that by (intro iadd_exact) (auto simp: in_i64_def minInt_def)
  then show ?thesis by (auto simp: saturatingPositiveTotal_def Let_def)
qed

text \<open>
  Collapse counts never wrap: the count of one trial is the sum of its positive event lengths, the
  total of the two directions the sum of their positive counts, both cut off at the largest
  \<open>int\<close>.
\<close>

theorem collapse_counts_saturate:
  "collapseIntervalCount tr =
     min maxInt (\<Sum>e\<leftarrow>(case tr_Collapses tr of
       Some events \<Rightarrow> events
     | None \<Rightarrow> CollapseEvents
         (map (\<lambda>iv. \<lparr>sm_StartSec = iv_StartSec iv, sm_BitsPerSecond = iv_BitsPerSecond iv\<rparr>) (tr_IntervalResults tr))).
       max 0 (ce_Len e))
   \<and> tcpCollapseTotal f = min maxInt (max 0 (df_TCPCollapses (fa_Dir0 f)) + max 0 (df_TCPCollapses (fa_Dir1 f)))"
  by (simp add: collapseIntervalCount_def collapse_total_sat saturatingPositiveTotal_eq tcpCollapseTotal_def maxInt_def)

subsection \<open>Unavailable tests\<close>

lemma add_names:
  "set (fold (\<lambda>st. add_name (st_Name st)) sts ns) = set ns \<union> (st_Name ` set sts - {''''})"
  "distinct ns \<Longrightarrow> distinct (fold (\<lambda>st. add_name (st_Name st)) sts ns)"
  by (induction sts arbitrary: ns) (auto simp: add_name_def)

lemma set_add_name: "set (add_name n ns) = set ns \<union> ({n} - {''''})" "distinct ns \<Longrightarrow> distinct (add_name n ns)"
  by (auto simp: add_name_def)

text \<open>
  The list of unavailable tests names every skipped test once and no other test, plus the cable
  test when it ran without a result, or its TDR part when only that part was missing.
\<close>

theorem unavailableTests_exact:
  "distinct (unavailableTests r)
   \<and> set (unavailableTests r) =
       (st_Name ` set (rp_SkippedTests r) - {''''})
       \<union> (case te_CableTest (rp_Tests r) of
            None \<Rightarrow> {}
          | Some ct \<Rightarrow> if \<not> ct_Available ct then {''cable_test''}
                      else if ct_TDRUnavailableReason ct \<noteq> '''' then {''cable_test_tdr''} else {})"
  by (auto simp: unavailableTests_def Let_def add_names set_add_name split: option.splits)

subsection \<open>A concrete report\<close>

text \<open>
  One complete trial from PC1 to PC2 with UDP at half the line rate and at line rate, an incomplete
  trial the other way, and counters captured in different orders.
\<close>

definition snapshot0 :: CounterSnapshot where
  "snapshot0 = zero_snapshot\<lparr>cs_Standard := [(''rx_crc'', 5), (''link_resets'', 2)]\<rparr>"

definition snapshot1 :: CounterSnapshot where
  "snapshot1 = zero_snapshot\<lparr>cs_Standard := [(''link_resets'', 2), (''rx_crc'', 12)]\<rparr>"

definition demo_tcp :: "string \<Rightarrow> bool \<Rightarrow> TCPResult" where
  "demo_tcp direction incomplete = zero_tcp\<lparr>tr_Direction := direction, tr_Incomplete := incomplete,
     tr_SenderBitsPerSecond := Fin 941000000, tr_ReceiverBitsPerSecond := Fin 940000000\<rparr>"

definition demo_udp :: "u64 \<Rightarrow> f64 \<Rightarrow> UDPResult" where
  "demo_udp target loss = zero_udp\<lparr>ud_Direction := DirectionPC1ToPC2, ud_TargetBps := target,
     ud_ActualSenderBps := f64_of_u64 target, ud_LossPercent := loss, ud_JitterMs := Fin (1 / 4)\<rparr>"

definition demo_report :: Report where
  "demo_report = zero_report\<lparr>
     rp_Configuration := zero_config\<lparr>ec_TCPRepeats := 1\<rparr>,
     rp_PC1 := zero_peer\<lparr>pr_NIC := zero_nic\<lparr>nic_SpeedMbps := 1000\<rparr>\<rparr>,
     rp_Tests := zero_tests\<lparr>
       te_TCP := [demo_tcp DirectionPC1ToPC2 False, demo_tcp DirectionPC2ToPC1 True],
       te_UDP := [demo_udp 500000000 (Fin (1 / 2)), demo_udp 1000000000 (Fin 30)]\<rparr>,
     rp_InitialCounters := \<lparr>pc_PC1 = Some snapshot0, pc_PC2 = None\<rparr>,
     rp_FinalCounters := \<lparr>pc_PC1 = Some snapshot1, pc_PC2 = None\<rparr>\<rparr>"

text \<open>An implementation whose out-of-range conversions give 0.\<close>

definition zero_conv :: f64conv where
  "zero_conv = \<lparr>oob_i64 = \<lambda>_. 0, oob_u64 = \<lambda>_. 0\<rparr>"

end
