(* ===== verification/Rules.thy ===== *)
theory Rules
  imports Facts
begin

section \<open>The rule set: \<open>internal/evaluate/rules.go\<close>\<close>

text \<open>
  Every rule of the source is a function of the facts and the thresholds that returns a finding or
  \<open>None\<close> (the nil finding). Loops \<open>for i := range f.Dir\<close> run their body on direction 0 and
  then on direction 1 (\<open>dir_loop\<close>) over the running worst severity and the evidence lines.
  The physical rules come first because \<open>physicalLayerClean\<close> of \<open>throughput.go\<close> evaluates them;
  the whole list \<open>Rules\<close> closes the theory.
\<close>

abbreviation finding :: "string \<Rightarrow> Category \<Rightarrow> severity \<Rightarrow> string \<Rightarrow> string list \<Rightarrow> bool \<Rightarrow> Finding" where
  "finding rule cat sev text ev host \<equiv>
     \<lparr>fd_RuleID = rule, fd_Category = cat, fd_Severity = sev, fd_Text = text, fd_Evidence = ev,
      fd_HostSensitive = host\<rparr>"

record Rule =
  ru_ID :: string
  ru_Category :: Category
  ru_Evaluate :: "Facts \<Rightarrow> Thresholds \<Rightarrow> Finding option"

definition dirNames :: "int \<Rightarrow> string" where
  "dirNames i = (if i = 0 then ''pc1->pc2'' else ''pc2->pc1'')"

definition dir_loop :: "(int \<Rightarrow> DirFacts \<Rightarrow> 'a \<Rightarrow> 'a) \<Rightarrow> Facts \<Rightarrow> 'a \<Rightarrow> 'a" where
  "dir_loop body f acc = body 1 (fa_Dir1 f) (body 0 (fa_Dir0 f) acc)"

text \<open>\<open>if sev > worst { worst = sev }\<close>.\<close>

definition raise_to :: "severity \<Rightarrow> severity \<Rightarrow> severity" where
  "raise_to sev worst = (if sev > worst then sev else worst)"

subsection \<open>Totals over the reliable sides\<close>

definition sumReliableSides :: "Facts \<Rightarrow> (SideFacts \<Rightarrow> u64) \<Rightarrow> u64" where
  "sumReliableSides f field =
     (let tot = (if sf_DeltaOK (fa_PC1 f) then 0 + field (fa_PC1 f) else 0)
      in if sf_DeltaOK (fa_PC2 f) then tot + field (fa_PC2 f) else tot)"

definition crcTotal :: "Facts \<Rightarrow> u64" where
  "crcTotal f = sumReliableSides f (\<lambda>s. sf_CRCClassErrors s + sf_UnclassifiedRXErrors s)"

definition carrierPHYTotal :: "Facts \<Rightarrow> u64" where
  "carrierPHYTotal f = sumReliableSides f sf_CarrierPHYErrors"

definition jabberTotal :: "Facts \<Rightarrow> u64" where
  "jabberTotal f = sumReliableSides f sf_JabberSizeErrors"

definition unclassifiedRXTotal :: "Facts \<Rightarrow> u64" where
  "unclassifiedRXTotal f = sumReliableSides f sf_UnclassifiedRXErrors"

definition carrierEvents :: "Facts \<Rightarrow> u64 \<times> bool" where
  "carrierEvents f =
     (if sf_DeltaOK (fa_PC1 f) \<or> sf_DeltaOK (fa_PC2 f)
      then let w1 = (if sf_DeltaOK (fa_PC1 f) \<and> sf_CarrierEvents (fa_PC1 f) > 0
                     then sf_CarrierEvents (fa_PC1 f) else 0);
               w2 = (if sf_DeltaOK (fa_PC2 f) \<and> sf_CarrierEvents (fa_PC2 f) > w1
                     then sf_CarrierEvents (fa_PC2 f) else w1)
           in (w2, False)
      else (fa_MonitorCarrierTransitions f, True))"

definition crc_side :: "string \<Rightarrow> SideFacts \<Rightarrow> string list \<Rightarrow> string list" where
  "crc_side name side ev =
     (if \<not> sf_DeltaOK side then ev
      else
        let ev1 = (if sf_CRCClassErrors side > 0
                   then ev @ [name @ '': CRC-class error counters +'' @ show_u64 (sf_CRCClassErrors side)
                              @ '' during the test''] else ev)
        in if sf_UnclassifiedRXErrors side > 0
           then ev1 @ [name @ '': driver receive-error aggregate +'' @ show_u64 (sf_UnclassifiedRXErrors side)
                       @ '' beyond the per-cause counters''] else ev1)"

definition crcEvidence :: "Facts \<Rightarrow> string list" where
  "crcEvidence f = crc_side ''pc2'' (fa_PC2 f) (crc_side ''pc1'' (fa_PC1 f) [])"

definition carrierPHYEvidence :: "Facts \<Rightarrow> string list" where
  "carrierPHYEvidence f =
     (let line = (\<lambda>name side. if sf_DeltaOK side \<and> sf_CarrierPHYErrors side > 0
                    then [name @ '': transmit-carrier/PHY error counters +''
                          @ show_u64 (sf_CarrierPHYErrors side) @ '' during the test''] else [])
      in line ''pc1'' (fa_PC1 f) @ line ''pc2'' (fa_PC2 f))"

definition anyPingLossOver :: "Facts \<Rightarrow> f64 \<Rightarrow> bool" where
  "anyPingLossOver f pct \<longleftrightarrow>
     fgt (df_PingLossPct (fa_Dir0 f)) pct \<or> fgt (df_PingLossPct (fa_Dir1 f)) pct"

definition phy06cond :: "Facts \<Rightarrow> bool" where
  "phy06cond f \<longleftrightarrow>
     fa_NegotiatedSpeed f > 0 \<and> fa_ExpectedSpeed f > 0 \<and> fa_NegotiatedSpeed f < fa_ExpectedSpeed f"

subsection \<open>Physical rules\<close>

definition rulePHY01 :: "Facts \<Rightarrow> Thresholds \<Rightarrow> Finding option" where [rule_defs]:
  "rulePHY01 f t =
     (if fa_LinkUpAtEnd f then None
      else Some (finding ''PHY-01'' CategoryPhysical SevFailed
        ''The link was down when testing ended.''
        [''post-test link state reports no carrier on at least one side''] False))"

definition crcSeverity :: "Facts \<Rightarrow> Thresholds \<Rightarrow> severity" where
  "crcSeverity f t =
     (let tot = crcTotal f; lossy = anyPingLossOver f (CRCCorroboratingPingLossAbove t)
      in if tot > CRCPoorAbove t \<and> lossy then SevFailed
         else if tot = unclassifiedRXTotal f then SevWarning
         else if tot > CRCFailedAbove t then SevFailed
         else if tot > CRCPoorAbove t then SevPoor
         else SevWarning)"

definition rulePHY02 :: "Facts \<Rightarrow> Thresholds \<Rightarrow> Finding option" where [rule_defs]:
  "rulePHY02 f t =
     (let tot = crcTotal f
      in if tot = 0 then None
         else
           let lossy = anyPingLossOver f (CRCCorroboratingPingLossAbove t);
               ev = crcEvidence f @
                 (if tot > CRCPoorAbove t \<and> lossy
                  then [''ping loss above '' @ fmt_g (CRCCorroboratingPingLossAbove t)
                        @ ''% corroborates the counter movement''] else []);
               text = (if tot = unclassifiedRXTotal f
                 then ''Receive errors incremented by '' @ show_u64 tot
                      @ '' during the test, and no per-cause counter explains them.''
                 else ''CRC-class receive errors incremented by '' @ show_u64 tot @ '' during the test.'')
           in Some (finding ''PHY-02'' CategoryPhysical (crcSeverity f t) text ev False))"

definition rulePHY03 :: "Facts \<Rightarrow> Thresholds \<Rightarrow> Finding option" where [rule_defs]:
  "rulePHY03 f t =
     (case carrierEvents f of
        (events, fromMonitor) \<Rightarrow>
          if events = 0 then None
          else Some (finding ''PHY-03'' CategoryPhysical
            (if events \<ge> CarrierFailedAt t then SevFailed else SevPoor)
            (''The link carrier changed state '' @ show_u64 events @ '' time(s) during the test.'')
            [if fromMonitor
             then ''link monitor observed '' @ show_u64 events
                  @ '' carrier transition(s); NIC counter deltas were unavailable''
             else ''carrier change counter advanced by '' @ show_u64 events @ '' on the worse side''] False))"

definition rulePHY04 :: "Facts \<Rightarrow> Thresholds \<Rightarrow> Finding option" where [rule_defs]:
  "rulePHY04 f t =
     (if fa_Renegotiations f < 1 then None
      else Some (finding ''PHY-04'' CategoryPhysical SevPoor
        (''The link renegotiated speed or duplex '' @ show_int (fa_Renegotiations f) @ '' time(s) mid-test.'')
        [''link monitor observed '' @ show_int (fa_Renegotiations f) @ '' renegotiation event(s)''] False))"

definition rulePHY05 :: "Facts \<Rightarrow> Thresholds \<Rightarrow> Finding option" where [rule_defs]:
  "rulePHY05 f t =
     (if \<not> fa_HalfDuplex f then None
      else Some (finding ''PHY-05'' CategoryPhysical SevPoor
        (''The link negotiated half duplex '' @ em_dash @ '' direct cable links must be full duplex.'')
        [''negotiated duplex = half on at least one side''] False))"

definition speed_line :: "Facts \<Rightarrow> string" where
  "speed_line f = ''negotiated '' @ bitrate_string (fa_NegotiatedSpeed f) @ '' < expected ''
     @ bitrate_string (fa_ExpectedSpeed f)"

definition rulePHY06 :: "Facts \<Rightarrow> Thresholds \<Rightarrow> Finding option" where [rule_defs]:
  "rulePHY06 f t =
     (if \<not> phy06cond f then None
      else Some (finding ''PHY-06'' CategoryPhysical
        (if fle (fdiv (f64_of_u64 (fa_NegotiatedSpeed f)) (f64_of_u64 (fa_ExpectedSpeed f)))
              (NegotiatedSpeedPoorAt t) then SevPoor else SevWarning)
        (''The link negotiated '' @ bitrate_string (fa_NegotiatedSpeed f) @ '' although both NICs support ''
         @ bitrate_string (fa_ExpectedSpeed f)
         @ ''. Possible causes: cable wiring or a damaged pair (1000BASE-T needs all four pairs), NIC or driver configuration.'')
        [speed_line f] False))"

definition rulePHY07 :: "Facts \<Rightarrow> Thresholds \<Rightarrow> Finding option" where [rule_defs]:
  "rulePHY07 f t =
     (if \<not> phy06cond f \<or> crcTotal f = 0 then None
      else Some (finding ''PHY-07'' CategoryPhysical SevPoor
        (''The link runs below its expected speed ('' @ bitrate_string (fa_NegotiatedSpeed f) @ '' < ''
         @ bitrate_string (fa_ExpectedSpeed f)
         @ '') and physical error counters moved '' @ em_dash @ '' strong cable evidence.'')
        (speed_line f # crcEvidence f) False))"

text \<open>The severity of a cable-test pair status; \<open>None\<close> is the \<open>continue\<close> of the default case.\<close>

fun pairSeverity :: "PairStatus \<Rightarrow> severity option" where
  "pairSeverity PairOpen = Some SevFailed"
| "pairSeverity PairShortIntra = Some SevFailed"
| "pairSeverity PairShortInter = Some SevFailed"
| "pairSeverity PairImpedance = Some SevPoor"
| "pairSeverity PairUnspecified = Some SevWarning"
| "pairSeverity _ = None"

definition pair_step :: "CablePairResult \<Rightarrow> severity \<times> string list \<Rightarrow> severity \<times> string list" where
  "pair_step pair acc =
     (case pairSeverity (cp_Status pair) of
        None \<Rightarrow> acc
      | Some sev \<Rightarrow>
          (raise_to sev (fst acc),
           snd acc @ [''pair '' @ cp_Pair pair @ '': '' @ pair_status_string (cp_Status pair)
             @ (if cp_HasFault pair \<and> fgt (cp_FaultMeters pair) (Fin 0)
                then '' at ~'' @ fmt_f 1 (cp_FaultMeters pair) @ ''m'' else '''')]))"

definition rulePHY08 :: "Facts \<Rightarrow> Thresholds \<Rightarrow> Finding option" where [rule_defs]:
  "rulePHY08 f t =
     (if \<not> fa_CableTestRan f then None
      else case fold pair_step (fa_CableTestPairs f) (SevNone, []) of
             (worst, ev) \<Rightarrow>
               if worst < SevWarning then None
               else Some (finding ''PHY-08'' CategoryPhysical worst
                      ''Cable diagnostics report a wiring fault.'' ev False))"

definition rulePHY09 :: "Facts \<Rightarrow> Thresholds \<Rightarrow> Finding option" where [rule_defs]:
  "rulePHY09 f t =
     (let tot = jabberTotal f
      in if tot = 0 then None
         else Some (finding ''PHY-09'' CategoryPhysical
           (if tot > FrameSizePoorAbove t then SevPoor else SevWarning)
           (''Frame-size error counters (jabber/oversize/undersize/length) incremented by ''
            @ show_u64 tot @ ''.'')
           [''frame-size error counters +'' @ show_u64 tot @ '' across both sides''] False))"

definition udp_corr_step :: "Thresholds \<Rightarrow> int \<Rightarrow> DirFacts \<Rightarrow> string list \<Rightarrow> string list" where
  "udp_corr_step t i d ev =
     (if df_UDPAvailable d \<and> df_UDPTargetReached d \<and> fgt (df_UDPLossPct d) (UDPLossPoorAbove t)
      then ev @ [dirNames i @ '': UDP loss '' @ fmt_f 2 (df_UDPLossPct d) @ ''% at target rate''] else ev)"

definition rulePHY10 :: "Facts \<Rightarrow> Thresholds \<Rightarrow> Finding option" where [rule_defs]:
  "rulePHY10 f t =
     (if crcTotal f = 0 then None
      else let ev = dir_loop (udp_corr_step t) f []
           in if ev = [] then None
              else Some (finding ''PHY-10'' CategoryPhysical SevFailed
                (''UDP loss above '' @ fmt_g (UDPLossPoorAbove t)
                 @ ''% correlates with physical error counter movement.'')
                (ev @ crcEvidence f) False))"

definition rulePHY11 :: "Facts \<Rightarrow> Thresholds \<Rightarrow> Finding option" where [rule_defs]:
  "rulePHY11 f t =
     (let tot = carrierPHYTotal f
      in if tot = 0 then None
         else Some (finding ''PHY-11'' CategoryPhysical
           (if tot > CarrierPHYFailedAbove t then SevFailed
            else if tot > CarrierPHYPoorAbove t then SevPoor else SevWarning)
           (''Transmit-carrier/PHY error counters incremented by '' @ show_u64 tot @ '' during the test.'')
           (carrierPHYEvidence f) False))"

definition physicalRules :: "Rule list" where
  "physicalRules =
     [\<lparr>ru_ID = ''PHY-01'', ru_Category = CategoryPhysical, ru_Evaluate = rulePHY01\<rparr>,
      \<lparr>ru_ID = ''PHY-02'', ru_Category = CategoryPhysical, ru_Evaluate = rulePHY02\<rparr>,
      \<lparr>ru_ID = ''PHY-03'', ru_Category = CategoryPhysical, ru_Evaluate = rulePHY03\<rparr>,
      \<lparr>ru_ID = ''PHY-04'', ru_Category = CategoryPhysical, ru_Evaluate = rulePHY04\<rparr>,
      \<lparr>ru_ID = ''PHY-05'', ru_Category = CategoryPhysical, ru_Evaluate = rulePHY05\<rparr>,
      \<lparr>ru_ID = ''PHY-06'', ru_Category = CategoryPhysical, ru_Evaluate = rulePHY06\<rparr>,
      \<lparr>ru_ID = ''PHY-07'', ru_Category = CategoryPhysical, ru_Evaluate = rulePHY07\<rparr>,
      \<lparr>ru_ID = ''PHY-08'', ru_Category = CategoryPhysical, ru_Evaluate = rulePHY08\<rparr>,
      \<lparr>ru_ID = ''PHY-09'', ru_Category = CategoryPhysical, ru_Evaluate = rulePHY09\<rparr>,
      \<lparr>ru_ID = ''PHY-10'', ru_Category = CategoryPhysical, ru_Evaluate = rulePHY10\<rparr>,
      \<lparr>ru_ID = ''PHY-11'', ru_Category = CategoryPhysical, ru_Evaluate = rulePHY11\<rparr>]"

subsection \<open>Throughput assessment: the rest of \<open>throughput.go\<close>, and \<open>asymmetryRatio\<close> of \<open>score.go\<close>\<close>

text \<open>
  The source filters \<open>Rules()\<close> by the physical category; \<open>Rules_physical\<close> below shows that
  this is the list \<open>physicalRules\<close>.
\<close>

definition physicalLayerClean :: "Facts \<Rightarrow> Thresholds \<Rightarrow> bool" where
  "physicalLayerClean f t =
     (if \<not> sf_DeltaOK (fa_PC1 f) \<or> \<not> sf_DeltaOK (fa_PC2 f) then False
      else if \<not> sf_RXErrorEvidence (fa_PC1 f) \<or> \<not> sf_RXErrorEvidence (fa_PC2 f) then False
      else list_all (\<lambda>rule. ru_Evaluate rule f t = None) physicalRules)"

text \<open>The four results \<open>ratio\<close>, \<open>severity\<close>, \<open>deviation\<close>, \<open>capped\<close>.\<close>

definition assessThroughput :: "Facts \<Rightarrow> int \<Rightarrow> Thresholds \<Rightarrow> f64 \<times> severity \<times> bool \<times> bool" where
  "assessThroughput f direction t =
     (let d = dir f direction
      in case classifyThroughput (df_TCPBitrate d) (fa_NegotiatedSpeed f) t of
           (ratio, sev, deviation) \<Rightarrow>
             if \<not> deviation \<or> sev \<le> SevWarning then (ratio, sev, deviation, False)
             else if df_TCPTrialCount d \<ge> 2 \<and> df_TCPThroughputDeviations d = 1 \<and> physicalLayerClean f t
             then (ratio, SevWarning, True, True)
             else (ratio, sev, True, False))"

definition asymmetryRatio :: "Facts \<Rightarrow> f64" where
  "asymmetryRatio f =
     (if \<not> df_TCPAvailable (fa_Dir0 f) \<or> \<not> df_TCPAvailable (fa_Dir1 f) then Fin 0
      else
        let a = f64_of_u64 (df_TCPBitrate (fa_Dir0 f));
            b = f64_of_u64 (df_TCPBitrate (fa_Dir1 f));
            hi = mathMax a b
        in if fle hi (Fin 0) then Fin 0 else fdiv (mathAbs (fsub a b)) hi)"

subsection \<open>Transport rules\<close>

type_synonym acc = "severity \<times> string list"

definition TR01_step :: "Thresholds \<Rightarrow> int \<Rightarrow> DirFacts \<Rightarrow> acc \<Rightarrow> acc" where
  "TR01_step t i d acc =
     (let loss = df_PingLossPct d; n = df_NonFragPingErrors d
      in if fle loss (Fin 0) then acc
         else (raise_to (if fgt loss (PingLossPoorAbove t) then SevPoor else SevWarning) (fst acc),
               snd acc @ [dirNames i @ '': '' @ fmt_f 2 loss @ ''% ping loss'']
               @ (if n > 0
                  then [dirNames i @ '': '' @ show_int n
                        @ '' non-fragmentation ICMP/send error(s) (e.g. host unreachable) accompanied the loss'']
                  else [])))"

text \<open>The closing test of the rules that keep a running worst severity.\<close>

definition worst_finding :: "string \<Rightarrow> Category \<Rightarrow> string \<Rightarrow> bool \<Rightarrow> acc \<Rightarrow> Finding option" where [rule_defs]:
  "worst_finding rule cat text host acc =
     (if fst acc < SevWarning then None else Some (finding rule cat (fst acc) text (snd acc) host))"

text \<open>The closing test of the rules that only collect evidence.\<close>

definition evidence_finding :: "string \<Rightarrow> Category \<Rightarrow> severity \<Rightarrow> string \<Rightarrow> string list \<Rightarrow> Finding option" where [rule_defs]:
  "evidence_finding rule cat sev text ev =
     (if ev = [] then None else Some (finding rule cat sev text ev False))"

definition ruleTR01 :: "Facts \<Rightarrow> Thresholds \<Rightarrow> Finding option" where [rule_defs]:
  "ruleTR01 f t =
     worst_finding ''TR-01'' CategoryTransport ''Ping packets were lost on a direct cable link.'' False
       (dir_loop (TR01_step t) f (SevNone, []))"

definition TR02_step :: "int \<Rightarrow> DirFacts \<Rightarrow> string list \<Rightarrow> string list" where
  "TR02_step i d ev =
     (if df_FullSizeAvailable d \<and> fgt (df_FullSizeLossPct d) (Fin 0) \<and> feq (df_PingLossPct d) (Fin 0)
      then ev @ [dirNames i @ '': '' @ fmt_f 2 (df_FullSizeLossPct d)
                 @ ''% full-size loss with 0% standard-size loss''] else ev)"

definition ruleTR02 :: "Facts \<Rightarrow> Thresholds \<Rightarrow> Finding option" where [rule_defs]:
  "ruleTR02 f t =
     evidence_finding ''TR-02'' CategoryTransport SevPoor
       (''Full-size frames are lost while standard frames pass '' @ em_dash
        @ '' frame-size-dependent corruption.'')
       (dir_loop TR02_step f [])"

definition ruleTR03 :: "Facts \<Rightarrow> Thresholds \<Rightarrow> Finding option" where [rule_defs]:
  "ruleTR03 f t =
     (let tot = iadd (df_FragErrors (fa_Dir0 f)) (df_FragErrors (fa_Dir1 f))
      in if tot = 0 then None
         else Some (finding ''TR-03'' CategoryTransport SevWarning
           (''Don'' @ [CHR 0x27] @ ''t-fragment pings failed '' @ em_dash
            @ '' an MTU mismatch (configuration, not cable).'')
           [show_int tot @ '' fragmentation-needed failure(s) during full-size ping''] False))"

definition ruleTR04 :: "Facts \<Rightarrow> Thresholds \<Rightarrow> Finding option" where [rule_defs]:
  "ruleTR04 f t =
     (let tot = iadd (df_PingDuplicates (fa_Dir0 f)) (df_PingDuplicates (fa_Dir1 f))
      in if tot = 0 then None
         else Some (finding ''TR-04'' CategoryTransport SevWarning
           (''Duplicate ping replies were received '' @ em_dash
            @ '' duplicates on a direct cable are anomalous.'')
           [show_int tot @ '' duplicate repl(ies) across both directions''] False))"

definition TR05_step :: "Thresholds \<Rightarrow> int \<Rightarrow> DirFacts \<Rightarrow> acc \<Rightarrow> acc" where
  "TR05_step t i d acc =
     (let acc1 = (if df_PingSpikes d > PingSpikesWarningAbove t
                  then (raise_to SevWarning (fst acc),
                        snd acc @ [dirNames i @ '': '' @ show_int (df_PingSpikes d)
                                   @ '' RTT spikes above max(5x median, median+10 ms)''])
                  else acc)
      in if df_PingMaxGap d > PingGapPoorAbove t
         then (raise_to SevPoor (fst acc1),
               snd acc1 @ [dirNames i @ '': longest reply gap '' @ show_duration (df_PingMaxGap d)])
         else acc1)"

definition ruleTR05 :: "Facts \<Rightarrow> Thresholds \<Rightarrow> Finding option" where [rule_defs]:
  "ruleTR05 f t =
     worst_finding ''TR-05'' CategoryTransport ''Round-trip times are unstable.'' False
       (dir_loop (TR05_step t) f (SevNone, []))"

definition TR06_step :: "Thresholds \<Rightarrow> int \<Rightarrow> DirFacts \<Rightarrow> acc \<Rightarrow> acc" where
  "TR06_step t i d acc =
     (let burst = fmax (df_TCPRetransRate d) (df_TCPRetransRateWorst d)
      in if \<not> df_TCPAvailable d \<or> flt burst (TCPRetransWarningAt t) then acc
         else
           (raise_to (if fgt (df_TCPRetransRate d) (TCPRetransPoorAbove t) then SevPoor else SevWarning) (fst acc),
            snd acc
            @ [dirNames i @ '': estimated retransmit rate '' @ fmt_f 2 (fmul burst (Fin 100))
               @ ''% (retransmits / (bytes/MSS 1448))'']
            @ (if fgt burst (df_TCPRetransRate d)
               then [dirNames i @ '': worst trial only; the rate sustained across trials is ''
                     @ fmt_f 2 (fmul (df_TCPRetransRate d) (Fin 100)) @ ''%''] else [])))"

definition ruleTR06 :: "Facts \<Rightarrow> Thresholds \<Rightarrow> Finding option" where [rule_defs]:
  "ruleTR06 f t =
     worst_finding ''TR-06'' CategoryTransport
       ''TCP retransmissions are elevated for a direct cable link.'' True
       (dir_loop (TR06_step t) f (SevNone, []))"

definition TR07_step :: "Facts \<Rightarrow> Thresholds \<Rightarrow> int \<Rightarrow> DirFacts \<Rightarrow> acc \<Rightarrow> acc" where
  "TR07_step f t i d acc =
     (if \<not> df_UDPAvailable d \<or> \<not> df_UDPTargetReached d
         \<or> fgt (df_UDPMaxCPUPct d) (CPUHostLimitedAbove t) \<or> flt (df_UDPLossPct d) (UDPLossWarningAt t)
      then acc
      else (raise_to (if fgt (df_UDPLossPct d) (UDPLossPoorAbove t) then SevPoor else SevWarning) (fst acc),
            snd acc @ [dirNames i @ '': '' @ fmt_f 2 (df_UDPLossPct d) @ ''% UDP loss at target rate''
                       @ (if fa_UDPRateAssumed f then '' (at assumed rate)'' else '''')]))"

definition ruleTR07 :: "Facts \<Rightarrow> Thresholds \<Rightarrow> Finding option" where [rule_defs]:
  "ruleTR07 f t =
     worst_finding ''TR-07'' CategoryTransport
       ''UDP datagrams were lost although the sender reached its target rate.'' False
       (dir_loop (TR07_step f t) f (SevNone, []))"

definition TR08_step :: "Thresholds \<Rightarrow> int \<Rightarrow> DirFacts \<Rightarrow> string list \<Rightarrow> string list" where
  "TR08_step t i d ev =
     (if df_UDPAvailable d \<and> fgt (df_UDPJitterMs d) (UDPJitterWarningAbove t)
      then ev @ [dirNames i @ '': '' @ fmt_f 2 (df_UDPJitterMs d) @ '' ms jitter''] else ev)"

definition ruleTR08 :: "Facts \<Rightarrow> Thresholds \<Rightarrow> Finding option" where [rule_defs]:
  "ruleTR08 f t =
     evidence_finding ''TR-08'' CategoryTransport SevWarning
       (''UDP jitter above '' @ fmt_g (UDPJitterWarningAbove t) @ '' ms on a direct link.'')
       (dir_loop (TR08_step t) f [])"

definition TR09_step :: "Thresholds \<Rightarrow> int \<Rightarrow> DirFacts \<Rightarrow> string list \<Rightarrow> string list" where
  "TR09_step t i d ev =
     (if df_UDPAvailable d \<and> fgt (df_UDPOutOfOrderPct d) (UDPReorderWarningAbove t)
      then ev @ [dirNames i @ '': '' @ fmt_f 2 (df_UDPOutOfOrderPct d) @ ''% datagrams out of order''] else ev)"

definition ruleTR09 :: "Facts \<Rightarrow> Thresholds \<Rightarrow> Finding option" where [rule_defs]:
  "ruleTR09 f t =
     evidence_finding ''TR-09'' CategoryTransport SevWarning
       (''UDP datagrams arrived out of order '' @ em_dash
        @ '' reordering should not happen on a direct cable.'')
       (dir_loop (TR09_step t) f [])"

subsection \<open>Performance rules\<close>

definition PERF01_step :: "Facts \<Rightarrow> Thresholds \<Rightarrow> int \<Rightarrow> DirFacts \<Rightarrow> acc \<Rightarrow> acc" where
  "PERF01_step f t i d acc =
     (if \<not> df_TCPAvailable d then acc
      else case assessThroughput f i t of
             (ratio, sev, deviation, capped) \<Rightarrow>
               if \<not> deviation then acc
               else (raise_to sev (fst acc),
                     snd acc @ [dirNames i @ '': '' @ bitrate_string (df_TCPBitrate d) @ '' TCP = ''
                       @ fmt_f 0 (fmul ratio (Fin 100)) @ ''% of the ''
                       @ bitrate_string (fa_NegotiatedSpeed f) @ '' link''
                       @ (if capped
                          then ''; 1 of '' @ show_int (df_TCPTrialCount d)
                               @ '' trials missed policy, capped at warning with clean physical evidence''
                          else '''')]))"

definition rulePERF01 :: "Facts \<Rightarrow> Thresholds \<Rightarrow> Finding option" where [rule_defs]:
  "rulePERF01 f t =
     (case dir_loop (PERF01_step f t) f (SevNone, []) of
        (worst, ev) \<Rightarrow>
          if worst < SevInfo \<or> ev = [] then None
          else Some (finding ''PERF-01'' CategoryPerformance worst
            ''TCP throughput does not meet the passing policy for this negotiated link speed.'' ev True))"

definition PERF02_step :: "Thresholds \<Rightarrow> int \<Rightarrow> DirFacts \<Rightarrow> acc \<Rightarrow> acc" where
  "PERF02_step t i d acc =
     (if \<not> df_TCPAvailable d \<or> flt (df_TCPCoV d) (TCPCoVWarningAt t) then acc
      else (raise_to (if fgt (df_TCPCoV d) (TCPCoVPoorAbove t) then SevPoor else SevWarning) (fst acc),
            snd acc @ [dirNames i @ '': throughput coefficient of variation ''
                       @ fmt_f 0 (fmul (df_TCPCoV d) (Fin 100)) @ ''%'']))"

definition rulePERF02 :: "Facts \<Rightarrow> Thresholds \<Rightarrow> Finding option" where [rule_defs]:
  "rulePERF02 f t =
     worst_finding ''PERF-02'' CategoryPerformance ''TCP throughput is unstable across intervals.'' True
       (dir_loop (PERF02_step t) f (SevNone, []))"

definition boundaryPct :: f64 where
  "boundaryPct = fmul CollapseBelowMedianRatio (Fin 100)"

definition rulePERF03 :: "Facts \<Rightarrow> Thresholds \<Rightarrow> Finding option" where [rule_defs]:
  "rulePERF03 f t =
     (let tot = tcpCollapseTotal f
      in if tot = 0 then None
         else Some (finding ''PERF-03'' CategoryPerformance
           (if tot \<ge> TCPCollapsePoorAt t then SevPoor else SevWarning)
           (''TCP throughput collapsed below '' @ fmt_g boundaryPct @ ''% of the median in ''
            @ show_int tot @ '' interval(s).'')
           [show_int tot @ '' interval(s) under '' @ fmt_g boundaryPct
            @ ''% of the median interval bitrate''] True))"

definition rulePERF04 :: "Facts \<Rightarrow> Thresholds \<Rightarrow> Finding option" where [rule_defs]:
  "rulePERF04 f t =
     (let ratio = asymmetryRatio f
      in if fle ratio (TCPAsymmetryWarnAbove t) then None
         else Some (finding ''PERF-04'' CategoryPerformance SevWarning
           ''TCP throughput is asymmetric between the two directions.''
           [''pc1->pc2 '' @ bitrate_string (df_TCPBitrate (fa_Dir0 f)) @ '' vs pc2->pc1 ''
            @ bitrate_string (df_TCPBitrate (fa_Dir1 f)) @ '' ('' @ fmt_f 0 (fmul ratio (Fin 100))
            @ ''% difference)''] True))"

subsection \<open>Host rules\<close>

definition ruleHOST01 :: "Facts \<Rightarrow> Thresholds \<Rightarrow> Finding option" where [rule_defs]:
  "ruleHOST01 f t =
     (if fle (fa_MaxCPUPct f) (CPUHostLimitedAbove t) then None
      else Some (finding ''HOST-01'' CategoryHost SevMarker
        (''CPU was saturated during throughput testing '' @ em_dash
         @ '' performance results may be host-limited.'')
        [''max iperf3 CPU utilization '' @ fmt_f 1 (fa_MaxCPUPct f) @ ''% > ''
         @ fmt_g (CPUHostLimitedAbove t) @ ''%''] False))"

definition ruleHOST02 :: "Facts \<Rightarrow> Thresholds \<Rightarrow> Finding option" where [rule_defs]:
  "ruleHOST02 f t =
     (if \<not> fa_VirtualInterface f then None
      else Some (finding ''HOST-02'' CategoryHost SevMarker
        (''A virtual interface was tested '' @ em_dash @ '' the results say nothing about a physical cable.'')
        [''tested interface has no kernel driver binding (virtual)''] False))"

definition ruleHOST03 :: "Facts \<Rightarrow> Thresholds \<Rightarrow> Finding option" where [rule_defs]:
  "ruleHOST03 f t =
     (if \<not> fa_USBAdapter f \<or> rulePERF01 f t = None then None
      else Some (finding ''HOST-03'' CategoryHost SevMarker
        (''A USB network adapter was used and throughput fell short '' @ em_dash
         @ '' USB adapters are a known bottleneck.'')
        [''tested interface is USB-attached''] False))"

definition limitingDropRate :: "u64 \<Rightarrow> u64 \<Rightarrow> Thresholds \<Rightarrow> bool" where
  "limitingDropRate drops framesRecv t =
     (if drops = 0 then False
      else if drops > HostRingDropFloor t then True
      else if framesRecv = 0 then True
      else fgt (fdiv (f64_of_u64 drops) (f64_of_u64 framesRecv)) (HostRingDropRateAbove t))"

definition ring_side :: "Thresholds \<Rightarrow> string \<Rightarrow> SideFacts \<Rightarrow> string list \<Rightarrow> string list" where
  "ring_side t name side ev =
     (if \<not> sf_DeltaOK side then ev
      else if \<not> limitingDropRate (sf_FifoOverrun side + sf_MissedErrors side) (sf_FramesReceived side) t then ev
      else
        let ev1 = (if sf_FifoOverrun side > 0
                   then ev @ [name @ '': rx_fifo +'' @ show_u64 (sf_FifoOverrun side) @ '' during the test'']
                   else ev)
        in if sf_MissedErrors side > 0
           then ev1 @ [name @ '': rx_missed +'' @ show_u64 (sf_MissedErrors side) @ '' during the test'']
           else ev1)"

definition ruleHOST04 :: "Facts \<Rightarrow> Thresholds \<Rightarrow> Finding option" where [rule_defs]:
  "ruleHOST04 f t =
     evidence_finding ''HOST-04'' CategoryHost SevMarker
       (''NIC receive-ring counters moved '' @ em_dash
        @ '' performance results may be limited by how quickly the host drained packets.'')
       (ring_side t ''pc2'' (fa_PC2 f) (ring_side t ''pc1'' (fa_PC1 f) []))"

subsection \<open>Limitation rules\<close>

definition LIM01_evidence :: "Facts \<Rightarrow> string list" where
  "LIM01_evidence f =
     (let noTCP = (\<not> df_TCPAvailable (fa_Dir0 f) \<and> \<not> df_TCPAvailable (fa_Dir1 f));
          noCounters = (\<not> sf_CountersAvailable (fa_PC1 f) \<and> \<not> sf_CountersAvailable (fa_PC2 f));
          noRXEvidence = (\<not> sf_RXErrorEvidence (fa_PC1 f) \<and> \<not> sf_RXErrorEvidence (fa_PC2 f))
      in (if noTCP then [''no TCP throughput result in either direction''] else [])
         @ (if noCounters
            then (if fa_Partial f \<and> (sf_BaselineCaptured (fa_PC1 f) \<or> sf_BaselineCaptured (fa_PC2 f))
                  then [''final NIC counter snapshot missing '' @ em_dash
                        @ '' a counter baseline was captured but the run was interrupted before counter deltas could be computed'']
                  else [''NIC error counters unavailable on both sides'']) else [])
         @ (if noRXEvidence \<and> \<not> noCounters
            then [''neither NIC exposes a receive-error counter, so frame corruption was never measured''] else []))"

definition ruleLIM01 :: "Facts \<Rightarrow> Thresholds \<Rightarrow> Finding option" where [rule_defs]:
  "ruleLIM01 f t =
     (let noTCP = (\<not> df_TCPAvailable (fa_Dir0 f) \<and> \<not> df_TCPAvailable (fa_Dir1 f));
          noCounters = (\<not> sf_CountersAvailable (fa_PC1 f) \<and> \<not> sf_CountersAvailable (fa_PC2 f));
          noRXEvidence = (\<not> sf_RXErrorEvidence (fa_PC1 f) \<and> \<not> sf_RXErrorEvidence (fa_PC2 f))
      in if \<not> noTCP \<and> \<not> noCounters \<and> \<not> noRXEvidence then None
         else Some (finding ''LIM-01'' CategoryLimitation SevMarker
           (''Critical evidence is missing '' @ em_dash @ '' a clean-looking result would not be trustworthy.'')
           (LIM01_evidence f) False))"

definition noncriticalTests :: "string list" where
  "noncriticalTests =
     [''ping'', ''udp'', ''bidir'', ''bidirectional'', ''full_size_ping'', ''fullsize_ping'',
      ''cable_test'', ''cable_test_tdr'']"

definition LIM02_evidence :: "Facts \<Rightarrow> string list" where
  "LIM02_evidence f =
     (if df_TCPAvailable (fa_Dir0 f) \<noteq> df_TCPAvailable (fa_Dir1 f)
      then [''TCP throughput '' @ dirNames (if df_TCPAvailable (fa_Dir0 f) then 1 else 0)
            @ '' could not complete''] else [])
     @ map (\<lambda>name. ''test '' @ [CHR 0x22] @ name @ [CHR 0x22] @ '' could not run'')
         (filter (\<lambda>name. name \<in> set noncriticalTests) (fa_Unavailable f))
     @ (if sf_RXErrorEvidence (fa_PC1 f) \<noteq> sf_RXErrorEvidence (fa_PC2 f)
        then let unmeasured = (if sf_RXErrorEvidence (fa_PC1 f) then ''pc2'' else ''pc1'');
                 side = (if sf_RXErrorEvidence (fa_PC1 f) then fa_PC2 f else fa_PC1 f)
             in [unmeasured @
                 (if fa_Partial f \<and> sf_BaselineCaptured side \<and> \<not> sf_CountersAvailable side
                  then [CHR 0x27] @ ''s final counter snapshot is missing '' @ em_dash
                       @ '' the run was interrupted, so receive errors arriving there after the baseline went unmeasured''
                  else '' exposes no receive-error counter, so corruption arriving there was never measured'')]
        else [])"

definition ruleLIM02 :: "Facts \<Rightarrow> Thresholds \<Rightarrow> Finding option" where [rule_defs]:
  "ruleLIM02 f t =
     evidence_finding ''LIM-02'' CategoryLimitation SevMarker
       (''Some planned measurements could not run '' @ em_dash @ '' coverage is reduced.'')
       (LIM02_evidence f)"

definition ruleLIM03 :: "Facts \<Rightarrow> Thresholds \<Rightarrow> Finding option" where [rule_defs]:
  "ruleLIM03 f t =
     (if \<not> fa_Partial f then None
      else Some (finding ''LIM-03'' CategoryLimitation SevMarker
        (''The run was interrupted '' @ em_dash @ '' the report covers only the tests that completed.'')
        [''partial run (interrupt or abort)''] False))"

definition ruleLIM04 :: "Facts \<Rightarrow> Thresholds \<Rightarrow> Finding option" where [rule_defs]:
  "ruleLIM04 f t =
     (if \<not> fa_UDPRateAssumed f then None
      else Some (finding ''LIM-04'' CategoryLimitation SevInfo
        (''The UDP target rate was assumed (link speed unknown) '' @ em_dash
         @ '' UDP findings are relative to that assumption.'')
        [''UDP tested at an assumed rate''] False))"

definition ruleLIM05 :: "Facts \<Rightarrow> Thresholds \<Rightarrow> Finding option" where [rule_defs]:
  "ruleLIM05 f t =
     (if \<not> fa_ThroughputUnreachable f then None
      else Some (finding ''LIM-05'' CategoryLimitation SevMarker
        (''The throughput test could not connect to the peer'' @ [CHR 0x27] @ ''s data port '' @ em_dash
         @ '' the cable cannot be judged from this run.'')
        [''iperf3 could not establish a data connection to the peer''] False))"

subsection \<open>The fixed list\<close>

definition Rules :: "Rule list" where
  "Rules = physicalRules @
     [\<lparr>ru_ID = ''TR-01'', ru_Category = CategoryTransport, ru_Evaluate = ruleTR01\<rparr>,
      \<lparr>ru_ID = ''TR-02'', ru_Category = CategoryTransport, ru_Evaluate = ruleTR02\<rparr>,
      \<lparr>ru_ID = ''TR-03'', ru_Category = CategoryTransport, ru_Evaluate = ruleTR03\<rparr>,
      \<lparr>ru_ID = ''TR-04'', ru_Category = CategoryTransport, ru_Evaluate = ruleTR04\<rparr>,
      \<lparr>ru_ID = ''TR-05'', ru_Category = CategoryTransport, ru_Evaluate = ruleTR05\<rparr>,
      \<lparr>ru_ID = ''TR-06'', ru_Category = CategoryTransport, ru_Evaluate = ruleTR06\<rparr>,
      \<lparr>ru_ID = ''TR-07'', ru_Category = CategoryTransport, ru_Evaluate = ruleTR07\<rparr>,
      \<lparr>ru_ID = ''TR-08'', ru_Category = CategoryTransport, ru_Evaluate = ruleTR08\<rparr>,
      \<lparr>ru_ID = ''TR-09'', ru_Category = CategoryTransport, ru_Evaluate = ruleTR09\<rparr>,
      \<lparr>ru_ID = ''PERF-01'', ru_Category = CategoryPerformance, ru_Evaluate = rulePERF01\<rparr>,
      \<lparr>ru_ID = ''PERF-02'', ru_Category = CategoryPerformance, ru_Evaluate = rulePERF02\<rparr>,
      \<lparr>ru_ID = ''PERF-03'', ru_Category = CategoryPerformance, ru_Evaluate = rulePERF03\<rparr>,
      \<lparr>ru_ID = ''PERF-04'', ru_Category = CategoryPerformance, ru_Evaluate = rulePERF04\<rparr>,
      \<lparr>ru_ID = ''HOST-01'', ru_Category = CategoryHost, ru_Evaluate = ruleHOST01\<rparr>,
      \<lparr>ru_ID = ''HOST-02'', ru_Category = CategoryHost, ru_Evaluate = ruleHOST02\<rparr>,
      \<lparr>ru_ID = ''HOST-03'', ru_Category = CategoryHost, ru_Evaluate = ruleHOST03\<rparr>,
      \<lparr>ru_ID = ''HOST-04'', ru_Category = CategoryHost, ru_Evaluate = ruleHOST04\<rparr>,
      \<lparr>ru_ID = ''LIM-01'', ru_Category = CategoryLimitation, ru_Evaluate = ruleLIM01\<rparr>,
      \<lparr>ru_ID = ''LIM-02'', ru_Category = CategoryLimitation, ru_Evaluate = ruleLIM02\<rparr>,
      \<lparr>ru_ID = ''LIM-03'', ru_Category = CategoryLimitation, ru_Evaluate = ruleLIM03\<rparr>,
      \<lparr>ru_ID = ''LIM-04'', ru_Category = CategoryLimitation, ru_Evaluate = ruleLIM04\<rparr>,
      \<lparr>ru_ID = ''LIM-05'', ru_Category = CategoryLimitation, ru_Evaluate = ruleLIM05\<rparr>]"

end
