(* ===== verification/Classify.thy ===== *)
theory Classify
  imports Rules
begin

section \<open>Classification: the verdict of \<open>internal/evaluate/evaluator.go\<close>\<close>

text \<open>
  \<open>classify\<close> folds the findings into a health class. The theory states the contract of a rule
  list (locale \<open>rule_set\<close>), shows that \<open>Rules\<close> meets it, and derives what a verdict means in
  terms of the rules that fired.
\<close>

definition worst_step :: "Category list \<Rightarrow> Finding \<Rightarrow> severity \<Rightarrow> severity" where
  "worst_step cats fd worst =
     (if fd_Severity fd \<ge> SevMarker then worst
      else fold (\<lambda>cat w. if fd_Category fd = cat \<and> fd_Severity fd > w then fd_Severity fd else w) cats worst)"

definition worstIn :: "Finding list \<Rightarrow> Category list \<Rightarrow> severity" where
  "worstIn findings cats = fold (worst_step cats) findings SevNone"

definition hasFinding :: "Finding list \<Rightarrow> string \<Rightarrow> bool" where
  "hasFinding findings ruleID = list_ex (\<lambda>fd. fd_RuleID fd = ruleID) findings"

definition hasHostLimit :: "Finding list \<Rightarrow> bool" where
  "hasHostLimit findings \<longleftrightarrow>
     hasFinding findings ''HOST-01'' \<or> hasFinding findings ''HOST-03'' \<or> hasFinding findings ''HOST-04''"

definition allPoorAreHostSensitive :: "Finding list \<Rightarrow> bool" where
  "allPoorAreHostSensitive findings =
     (\<not> list_ex (\<lambda>fd. fd_Severity fd \<ge> SevPoor \<and> fd_Severity fd < SevMarker \<and> \<not> fd_HostSensitive fd)
          findings)"

definition anyInfoDeviation :: "Finding list \<Rightarrow> bool" where
  "anyInfoDeviation findings =
     list_ex (\<lambda>fd. case fd_Category fd of
                CategoryPhysical \<Rightarrow> fd_Severity fd = SevInfo
              | CategoryTransport \<Rightarrow> fd_Severity fd = SevInfo
              | CategoryPerformance \<Rightarrow> fd_Severity fd = SevInfo
              | _ \<Rightarrow> False) findings"

text \<open>The part of \<open>classify\<close> after the \<open>switch\<close>: the limitation caps.\<close>

definition limitationCaps :: "Finding list \<Rightarrow> HealthClass \<Rightarrow> HealthClass" where
  "limitationCaps findings tentative =
     (if hasFinding findings ''HOST-02'' then HealthInconclusive
      else if (hasFinding findings ''LIM-01'' \<or> hasFinding findings ''LIM-03'' \<or> hasFinding findings ''LIM-05'')
              \<and> (tentative = HealthExcellent \<or> tentative = HealthGood) then HealthInconclusive
      else if hasFinding findings ''LIM-02'' \<and> tentative = HealthExcellent then HealthGood
      else tentative)"

text \<open>The source also passes the facts, which its body does not read.\<close>

definition classify :: "Finding list \<Rightarrow> Facts \<Rightarrow> HealthClass" where
  "classify findings f =
     (let worstPhys = worstIn findings [CategoryPhysical];
          hostLimited = hasHostLimit findings
      in if worstPhys = SevFailed then HealthFailed
         else if worstPhys = SevPoor then HealthPoor
         else
           let worstTP = worstIn findings [CategoryTransport, CategoryPerformance]
           in if worstTP \<ge> SevPoor then
                if hostLimited \<and> worstPhys < SevWarning \<and> allPoorAreHostSensitive findings
                then HealthInconclusive
                else limitationCaps findings HealthPoor
              else if worstTP = SevWarning \<or> worstPhys = SevWarning
              then limitationCaps findings HealthWarning
              else if anyInfoDeviation findings then limitationCaps findings HealthGood
              else limitationCaps findings HealthExcellent)"

text \<open>The rule loop at the head of \<open>evaluate\<close>.\<close>

definition run_rules :: "Rule list \<Rightarrow> Facts \<Rightarrow> Thresholds \<Rightarrow> Finding list" where
  "run_rules rules f t =
     fold (\<lambda>rule findings. case ru_Evaluate rule f t of None \<Rightarrow> findings | Some fd \<Rightarrow> findings @ [fd]) rules []"

subsection \<open>The findings of a rule list\<close>

lemma run_rules_acc:
  "fold (\<lambda>rule findings. case ru_Evaluate rule f t of None \<Rightarrow> findings | Some fd \<Rightarrow> findings @ [fd]) rules acc
   = acc @ List.map_filter (\<lambda>rule. ru_Evaluate rule f t) rules"
  by (induction rules arbitrary: acc) (simp_all add: map_filter_simps split: option.split)

lemma run_rules_eq: "run_rules rules f t = List.map_filter (\<lambda>rule. ru_Evaluate rule f t) rules"
  by (simp add: run_rules_def run_rules_acc)

lemma set_run_rules: "fd \<in> set (run_rules rules f t) \<longleftrightarrow> (\<exists>r\<in>set rules. ru_Evaluate r f t = Some fd)"
  by (force simp: run_rules_eq List.map_filter_def)

lemma worst_step_eq:
  "worst_step cats fd w =
     (if fd_Severity fd < SevMarker \<and> fd_Category fd \<in> set cats then max w (fd_Severity fd) else w)"
proof -
  have "fold (\<lambda>cat w. if fd_Category fd = cat \<and> fd_Severity fd > w then fd_Severity fd else w) cats w
        = (if fd_Category fd \<in> set cats then max w (fd_Severity fd) else w)"
    by (induction cats arbitrary: w) auto
  then show ?thesis by (auto simp: worst_step_def)
qed

definition ladder :: "Finding list \<Rightarrow> Category list \<Rightarrow> severity set" where
  "ladder fs cats = {fd_Severity fd |fd. fd \<in> set fs \<and> fd_Category fd \<in> set cats \<and> fd_Severity fd < SevMarker}"

lemma finite_ladder [simp]: "finite (ladder fs cats)"
proof -
  have "ladder fs cats \<subseteq> fd_Severity ` set fs" by (auto simp: ladder_def)
  then show ?thesis by (rule finite_subset) simp
qed

lemma worstIn_acc: "fold (worst_step cats) fs w = Max (insert w (ladder fs cats))"
proof (induction fs arbitrary: w)
  case Nil
  then show ?case by (simp add: ladder_def)
next
  case (Cons fd fs)
  have "ladder (fd # fs) cats =
      (if fd_Severity fd < SevMarker \<and> fd_Category fd \<in> set cats
       then insert (fd_Severity fd) (ladder fs cats) else ladder fs cats)"
    by (auto simp: ladder_def)
  with Cons show ?case
    by (cases "ladder fs cats = {}") (auto simp: worst_step_eq insert_commute Max_insert ac_simps)
qed

lemma worstIn_Max: "worstIn fs cats = Max (insert SevNone (ladder fs cats))"
  by (simp add: worstIn_def worstIn_acc)

lemma worstIn_ge: "SevNone < s \<Longrightarrow> s \<le> worstIn fs cats \<longleftrightarrow> (\<exists>x\<in>ladder fs cats. s \<le> x)"
  by (simp add: worstIn_Max Max_ge_iff)

subsection \<open>The severities the rules assign\<close>

text \<open>The severities a finding of a category may carry.\<close>

definition severities_of :: "Category \<Rightarrow> severity set" where
  "severities_of cat =
     (case cat of
        CategoryPhysical \<Rightarrow> {SevWarning, SevPoor, SevFailed}
      | CategoryTransport \<Rightarrow> {SevWarning, SevPoor}
      | CategoryPerformance \<Rightarrow> {SevInfo, SevWarning, SevPoor}
      | CategoryHost \<Rightarrow> {SevMarker}
      | CategoryLimitation \<Rightarrow> {SevInfo, SevMarker})"

text \<open>A step over the running worst severity keeps it inside a set of severities.\<close>

lemma raise_to_in: "sev \<in> S \<Longrightarrow> w \<in> insert SevNone S \<Longrightarrow> raise_to sev w \<in> insert SevNone S"
  by (auto simp: raise_to_def)

lemma dir_loop_in:
  assumes "\<And>i d acc. fst acc \<in> S \<Longrightarrow> fst (step i d acc) \<in> S" and "fst acc \<in> S"
  shows "fst (dir_loop step f acc) \<in> S"
  using assms by (simp add: dir_loop_def)

lemma pair_step_in: "fst acc \<in> insert SevNone {SevWarning, SevPoor, SevFailed} \<Longrightarrow>
    fst (pair_step p acc) \<in> insert SevNone {SevWarning, SevPoor, SevFailed}"
  by (cases "cp_Status p") (auto simp: pair_step_def raise_to_def)

lemma pairs_in: "fst (fold pair_step ps (SevNone, [])) \<in> insert SevNone {SevWarning, SevPoor, SevFailed}"
  by (rule fold_induct [where P = "\<lambda>acc. fst acc \<in> insert SevNone {SevWarning, SevPoor, SevFailed}"])
    (simp, rule pair_step_in)

lemma TR01_step_in: "fst acc \<in> insert SevNone {SevWarning, SevPoor} \<Longrightarrow>
    fst (TR01_step t i d acc) \<in> insert SevNone {SevWarning, SevPoor}"
  by (auto simp: TR01_step_def raise_to_def Let_def)

lemma TR05_step_in: "fst acc \<in> insert SevNone {SevWarning, SevPoor} \<Longrightarrow>
    fst (TR05_step t i d acc) \<in> insert SevNone {SevWarning, SevPoor}"
  by (auto simp: TR05_step_def raise_to_def Let_def)

lemma TR06_step_in: "fst acc \<in> insert SevNone {SevWarning, SevPoor} \<Longrightarrow>
    fst (TR06_step t i d acc) \<in> insert SevNone {SevWarning, SevPoor}"
  by (auto simp: TR06_step_def raise_to_def Let_def)

lemma TR07_step_in: "fst acc \<in> insert SevNone {SevWarning, SevPoor} \<Longrightarrow>
    fst (TR07_step f t i d acc) \<in> insert SevNone {SevWarning, SevPoor}"
  by (auto simp: TR07_step_def raise_to_def Let_def)

lemma PERF02_step_in: "fst acc \<in> insert SevNone {SevWarning, SevPoor} \<Longrightarrow>
    fst (PERF02_step t i d acc) \<in> insert SevNone {SevWarning, SevPoor}"
  by (auto simp: PERF02_step_def raise_to_def Let_def)

lemma assess_in:
  assumes "assessThroughput f i t = (ratio, sev, True, capped)"
  shows "sev \<in> {SevInfo, SevWarning, SevPoor}"
  using assms
  by (auto simp: assessThroughput_def classifyThroughput_def Let_def split: option.splits prod.splits if_splits)

lemma PERF01_step_in: "fst acc \<in> insert SevNone {SevInfo, SevWarning, SevPoor} \<Longrightarrow>
    fst (PERF01_step f t i d acc) \<in> insert SevNone {SevInfo, SevWarning, SevPoor}"
  using assess_in [of f i t]
  by (auto simp: PERF01_step_def intro!: raise_to_in split: prod.splits) (auto simp: raise_to_def)

lemmas step_in = TR01_step_in TR05_step_in TR06_step_in TR07_step_in PERF02_step_in

lemma worst_finding_in:
  assumes "worst_finding rule cat text host acc = Some fd" and "fst acc \<in> insert SevNone {SevWarning, SevPoor}"
  shows "fd_RuleID fd = rule \<and> fd_Category fd = cat \<and> fd_Severity fd \<in> {SevWarning, SevPoor} \<and> fd_HostSensitive fd = host"
  using assms by (auto simp: worst_finding_def severity_defs split: if_splits)

text \<open>What a finding of one rule may look like.\<close>

definition finding_of :: "string \<Rightarrow> Category \<Rightarrow> bool \<Rightarrow> Finding \<Rightarrow> bool" where
  "finding_of rule cat host fd \<longleftrightarrow>
     fd_RuleID fd = rule \<and> fd_Category fd = cat \<and> fd_Severity fd \<in> severities_of cat \<and> fd_HostSensitive fd = host"

definition host_sensitive_ids :: "string set" where
  "host_sensitive_ids = {''TR-06'', ''PERF-01'', ''PERF-02'', ''PERF-03'', ''PERF-04''}"

lemma finding_of_physical:
  "rulePHY01 f t = Some fd \<Longrightarrow> finding_of ''PHY-01'' CategoryPhysical False fd"
  "rulePHY02 f t = Some fd \<Longrightarrow> finding_of ''PHY-02'' CategoryPhysical False fd"
  "rulePHY03 f t = Some fd \<Longrightarrow> finding_of ''PHY-03'' CategoryPhysical False fd"
  "rulePHY04 f t = Some fd \<Longrightarrow> finding_of ''PHY-04'' CategoryPhysical False fd"
  "rulePHY05 f t = Some fd \<Longrightarrow> finding_of ''PHY-05'' CategoryPhysical False fd"
  "rulePHY06 f t = Some fd \<Longrightarrow> finding_of ''PHY-06'' CategoryPhysical False fd"
  "rulePHY07 f t = Some fd \<Longrightarrow> finding_of ''PHY-07'' CategoryPhysical False fd"
  "rulePHY09 f t = Some fd \<Longrightarrow> finding_of ''PHY-09'' CategoryPhysical False fd"
  "rulePHY10 f t = Some fd \<Longrightarrow> finding_of ''PHY-10'' CategoryPhysical False fd"
  "rulePHY11 f t = Some fd \<Longrightarrow> finding_of ''PHY-11'' CategoryPhysical False fd"
  by (auto simp: finding_of_def severities_of_def crcSeverity_def rule_defs Let_def split: if_splits prod.splits)

lemma finding_of_PHY08: "rulePHY08 f t = Some fd \<Longrightarrow> finding_of ''PHY-08'' CategoryPhysical False fd"
  using pairs_in [of "fa_CableTestPairs f"]
  by (auto simp: finding_of_def severities_of_def rulePHY08_def severity_defs split: if_splits prod.splits)

lemma finding_of_transport:
  "ruleTR01 f t = Some fd \<Longrightarrow> finding_of ''TR-01'' CategoryTransport False fd"
  "ruleTR05 f t = Some fd \<Longrightarrow> finding_of ''TR-05'' CategoryTransport False fd"
  "ruleTR06 f t = Some fd \<Longrightarrow> finding_of ''TR-06'' CategoryTransport True fd"
  "ruleTR07 f t = Some fd \<Longrightarrow> finding_of ''TR-07'' CategoryTransport False fd"
  "rulePERF02 f t = Some fd \<Longrightarrow> finding_of ''PERF-02'' CategoryPerformance True fd"
  unfolding ruleTR01_def ruleTR05_def ruleTR06_def ruleTR07_def rulePERF02_def
  by (drule worst_finding_in, rule dir_loop_in, erule step_in, simp, force simp: finding_of_def severities_of_def)+

lemma finding_of_PERF01: "rulePERF01 f t = Some fd \<Longrightarrow> finding_of ''PERF-01'' CategoryPerformance True fd"
  using dir_loop_in [of "insert SevNone {SevInfo, SevWarning, SevPoor}" "PERF01_step f t" "(SevNone, [])" f] PERF01_step_in
  by (auto simp: finding_of_def severities_of_def rulePERF01_def severity_defs split: if_splits prod.splits)

lemma finding_of_others:
  "ruleTR02 f t = Some fd \<Longrightarrow> finding_of ''TR-02'' CategoryTransport False fd"
  "ruleTR03 f t = Some fd \<Longrightarrow> finding_of ''TR-03'' CategoryTransport False fd"
  "ruleTR04 f t = Some fd \<Longrightarrow> finding_of ''TR-04'' CategoryTransport False fd"
  "ruleTR08 f t = Some fd \<Longrightarrow> finding_of ''TR-08'' CategoryTransport False fd"
  "ruleTR09 f t = Some fd \<Longrightarrow> finding_of ''TR-09'' CategoryTransport False fd"
  "rulePERF03 f t = Some fd \<Longrightarrow> finding_of ''PERF-03'' CategoryPerformance True fd"
  "rulePERF04 f t = Some fd \<Longrightarrow> finding_of ''PERF-04'' CategoryPerformance True fd"
  "ruleHOST01 f t = Some fd \<Longrightarrow> finding_of ''HOST-01'' CategoryHost False fd"
  "ruleHOST02 f t = Some fd \<Longrightarrow> finding_of ''HOST-02'' CategoryHost False fd"
  "ruleHOST03 f t = Some fd \<Longrightarrow> finding_of ''HOST-03'' CategoryHost False fd"
  "ruleHOST04 f t = Some fd \<Longrightarrow> finding_of ''HOST-04'' CategoryHost False fd"
  "ruleLIM01 f t = Some fd \<Longrightarrow> finding_of ''LIM-01'' CategoryLimitation False fd"
  "ruleLIM02 f t = Some fd \<Longrightarrow> finding_of ''LIM-02'' CategoryLimitation False fd"
  "ruleLIM03 f t = Some fd \<Longrightarrow> finding_of ''LIM-03'' CategoryLimitation False fd"
  "ruleLIM04 f t = Some fd \<Longrightarrow> finding_of ''LIM-04'' CategoryLimitation False fd"
  "ruleLIM05 f t = Some fd \<Longrightarrow> finding_of ''LIM-05'' CategoryLimitation False fd"
  by (auto simp: finding_of_def severities_of_def rule_defs Let_def split: if_splits prod.splits)

lemmas finding_of_rules = finding_of_physical finding_of_PHY08 finding_of_transport finding_of_PERF01 finding_of_others

lemma Rules_finding_of:
  "r \<in> set Rules \<Longrightarrow> ru_Evaluate r f t = Some fd \<Longrightarrow>
     finding_of (ru_ID r) (ru_Category r) (ru_ID r \<in> host_sensitive_ids) fd"
  unfolding Rules_def physicalRules_def host_sensitive_ids_def
  by (elim insertE UnE emptyE | simp only: set_append list.set Rule.simps)+
    (auto dest: finding_of_rules)

subsection \<open>The contract of a rule list\<close>

locale rule_set =
  fixes rules :: "Rule list"
  assumes distinct_IDs: "distinct (map ru_ID rules)"
    and signs: "r \<in> set rules \<Longrightarrow> ru_Evaluate r f t = Some fd \<Longrightarrow>
      fd_RuleID fd = ru_ID r \<and> fd_Category fd = ru_Category r"
    and rated: "r \<in> set rules \<Longrightarrow> ru_Evaluate r f t = Some fd \<Longrightarrow>
      fd_Severity fd \<in> severities_of (fd_Category fd)"
begin

lemma rule_unique: "r \<in> set rules \<Longrightarrow> r' \<in> set rules \<Longrightarrow> ru_ID r = ru_ID r' \<Longrightarrow> r = r'"
  using distinct_IDs by (auto simp: distinct_map dest: inj_onD)

lemma hasFinding_iff:
  assumes "r \<in> set rules"
  shows "hasFinding (run_rules rules f t) (ru_ID r) \<longleftrightarrow> ru_Evaluate r f t \<noteq> None"
proof
  assume "hasFinding (run_rules rules f t) (ru_ID r)"
  then obtain fd r' where r': "r' \<in> set rules" "ru_Evaluate r' f t = Some fd" "fd_RuleID fd = ru_ID r"
    by (auto simp: hasFinding_def list_ex_iff set_run_rules)
  then have "r' = r" using signs [of r' f t fd] rule_unique assms by metis
  then show "ru_Evaluate r f t \<noteq> None" using r' by simp
next
  assume "ru_Evaluate r f t \<noteq> None"
  then show "hasFinding (run_rules rules f t) (ru_ID r)"
    using assms signs by (force simp: hasFinding_def list_ex_iff set_run_rules)
qed

lemma findings_IDs:
  "map fd_RuleID (run_rules rules f t) = map ru_ID (filter (\<lambda>r. ru_Evaluate r f t \<noteq> None) rules)"
proof -
  have "map fd_RuleID (run_rules rs f t) = map ru_ID (filter (\<lambda>r. ru_Evaluate r f t \<noteq> None) rs)"
    if "set rs \<subseteq> set rules" for rs
    using that by (induction rs) (auto simp: run_rules_eq map_filter_simps signs split: option.split)
  then show ?thesis by simp
qed

lemma findings_distinct: "distinct (map fd_RuleID (run_rules rules f t))"
  using distinct_IDs by (simp add: findings_IDs distinct_map inj_on_def)

lemma findings_rated: "fd \<in> set (run_rules rules f t) \<Longrightarrow> fd_Severity fd \<in> severities_of (fd_Category fd)"
  using rated by (auto simp: set_run_rules)

lemma worstPhys_cases:
  "worstIn (run_rules rules f t) [CategoryPhysical] \<in> {SevNone, SevWarning, SevPoor, SevFailed}"
proof -
  have "insert SevNone (ladder (run_rules rules f t) [CategoryPhysical]) \<subseteq> {SevNone, SevWarning, SevPoor, SevFailed}"
    using findings_rated by (fastforce simp: ladder_def severities_of_def)
  moreover have "worstIn (run_rules rules f t) [CategoryPhysical]
      \<in> insert SevNone (ladder (run_rules rules f t) [CategoryPhysical])"
    unfolding worstIn_Max by (rule Max_in) simp_all
  ultimately show ?thesis by blast
qed

lemma worstTP_cases:
  "worstIn (run_rules rules f t) [CategoryTransport, CategoryPerformance] \<in> {SevNone, SevInfo, SevWarning, SevPoor}"
proof -
  let ?L = "ladder (run_rules rules f t) [CategoryTransport, CategoryPerformance]"
  have "insert SevNone ?L \<subseteq> {SevNone, SevInfo, SevWarning, SevPoor}"
    using findings_rated by (fastforce simp: ladder_def severities_of_def)
  moreover have "worstIn (run_rules rules f t) [CategoryTransport, CategoryPerformance] \<in> insert SevNone ?L"
    unfolding worstIn_Max by (rule Max_in) simp_all
  ultimately show ?thesis by blast
qed

end

lemma Rules_distinct: "distinct (map ru_ID Rules)"
  by (simp add: Rules_def physicalRules_def)

interpretation ce: rule_set Rules
  by unfold_locales
    (use Rules_distinct Rules_finding_of in \<open>auto simp: finding_of_def\<close>)

text \<open>The source filters the whole list by category; the model evaluates this sublist.\<close>

lemma Rules_physical: "filter (\<lambda>r. ru_Category r = CategoryPhysical) Rules = physicalRules"
  by (simp add: Rules_def physicalRules_def)

subsection \<open>The verdict as a decision table\<close>

definition rated_at :: "Finding list \<Rightarrow> Category list \<Rightarrow> severity \<Rightarrow> bool" where
  "rated_at fs cats s = list_ex (\<lambda>fd. fd_Category fd \<in> set cats \<and> fd_Severity fd = s) fs"

abbreviation physical_at :: "Finding list \<Rightarrow> severity \<Rightarrow> bool" where
  "physical_at fs s \<equiv> rated_at fs [CategoryPhysical] s"

abbreviation symptom_at :: "Finding list \<Rightarrow> severity \<Rightarrow> bool" where
  "symptom_at fs s \<equiv> rated_at fs [CategoryTransport, CategoryPerformance] s"

text \<open>
  The promise of the classification, in terms of which findings are present: physical evidence
  decides first, then a symptom that host evidence can explain, then the caps. No running maximum
  and no tentative class.
\<close>

definition verdict_spec :: "Finding list \<Rightarrow> HealthClass" where
  "verdict_spec fs =
     (if physical_at fs SevFailed then HealthFailed
      else if physical_at fs SevPoor then HealthPoor
      else if symptom_at fs SevPoor \<and> hasHostLimit fs \<and> \<not> physical_at fs SevWarning
              \<and> list_all (\<lambda>fd. fd_Severity fd = SevPoor \<longrightarrow> fd_HostSensitive fd) fs
      then HealthInconclusive
      else if hasFinding fs ''HOST-02'' then HealthInconclusive
      else if symptom_at fs SevPoor then HealthPoor
      else if symptom_at fs SevWarning \<or> physical_at fs SevWarning then HealthWarning
      else if hasFinding fs ''LIM-01'' \<or> hasFinding fs ''LIM-03'' \<or> hasFinding fs ''LIM-05'' then HealthInconclusive
      else if symptom_at fs SevInfo \<or> hasFinding fs ''LIM-02'' then HealthGood
      else HealthExcellent)"

text \<open>Findings whose severities are those of their category; every run of the rules gives such a list.\<close>

definition well_rated :: "Finding list \<Rightarrow> bool" where
  "well_rated fs \<longleftrightarrow> (\<forall>fd\<in>set fs. fd_Severity fd \<in> severities_of (fd_Category fd))"

lemma run_well_rated: "well_rated (run_rules Rules f t)"
  using ce.findings_rated by (auto simp: well_rated_def)

lemma ladder_physical: "well_rated fs \<Longrightarrow> ladder fs [CategoryPhysical] \<subseteq> {SevWarning, SevPoor, SevFailed}"
  by (fastforce simp: ladder_def well_rated_def severities_of_def)

lemma ladder_symptom: "well_rated fs \<Longrightarrow>
    ladder fs [CategoryTransport, CategoryPerformance] \<subseteq> {SevInfo, SevWarning, SevPoor}"
  by (fastforce simp: ladder_def well_rated_def severities_of_def)

lemma rated_at_ladder: "s < SevMarker \<Longrightarrow> rated_at fs cats s \<longleftrightarrow> s \<in> ladder fs cats"
  by (auto simp: rated_at_def ladder_def list_ex_iff)

lemma worstIn_in: "worstIn fs cats \<in> insert SevNone (ladder fs cats)"
  unfolding worstIn_Max by (rule Max_in) simp_all

lemma worstIn_bound: "s \<in> ladder fs cats \<Longrightarrow> s \<le> worstIn fs cats"
  by (simp add: worstIn_Max)

lemma worst_of_three:
  assumes "L \<subseteq> {a, b, c}" and "n < a" "a < b" "b < c" and "w \<in> insert n L" and up: "\<And>s. s \<in> L \<Longrightarrow> s \<le> w"
  shows "w = (if c \<in> L then c else if b \<in> L then b else if a \<in> L then a else (n :: severity))"
  using assms(1-5) up [of a] up [of b] up [of c] by auto

lemma worstPhys_eq:
  assumes "well_rated fs"
  shows "worstIn fs [CategoryPhysical] =
    (if physical_at fs SevFailed then SevFailed else if physical_at fs SevPoor then SevPoor
     else if physical_at fs SevWarning then SevWarning else SevNone)"
  using worst_of_three [OF ladder_physical [OF assms] _ _ _ worstIn_in worstIn_bound]
  by (simp add: rated_at_ladder severity_defs)

lemma worstTP_eq:
  assumes "well_rated fs"
  shows "worstIn fs [CategoryTransport, CategoryPerformance] =
    (if symptom_at fs SevPoor then SevPoor else if symptom_at fs SevWarning then SevWarning
     else if symptom_at fs SevInfo then SevInfo else SevNone)"
  using worst_of_three [OF ladder_symptom [OF assms] _ _ _ worstIn_in worstIn_bound]
  by (simp add: rated_at_ladder severity_defs)

text \<open>Two tests of a finding that agree on well-rated findings agree under \<open>list_ex\<close>.\<close>

lemma well_rated_ex_cong:
  assumes "well_rated fs" and "\<And>fd. fd \<in> set fs \<Longrightarrow> fd_Severity fd \<in> severities_of (fd_Category fd) \<Longrightarrow> P fd = Q fd"
  shows "list_ex P fs = list_ex Q fs"
  using assms by (auto simp: list_ex_iff well_rated_def)

lemma anyInfo_eq: "well_rated fs \<Longrightarrow> anyInfoDeviation fs \<longleftrightarrow> symptom_at fs SevInfo"
  unfolding anyInfoDeviation_def rated_at_def
  by (erule well_rated_ex_cong) (auto simp: severities_of_def severity_defs split: Category.splits)

lemma allPoor_eq:
  assumes "well_rated fs" and "\<not> physical_at fs SevFailed"
  shows "allPoorAreHostSensitive fs \<longleftrightarrow> list_all (\<lambda>fd. fd_Severity fd = SevPoor \<longrightarrow> fd_HostSensitive fd) fs"
proof -
  have "list_ex (\<lambda>fd. fd_Severity fd \<ge> SevPoor \<and> fd_Severity fd < SevMarker \<and> \<not> fd_HostSensitive fd) fs
      = list_ex (\<lambda>fd. fd_Severity fd = SevPoor \<and> \<not> fd_HostSensitive fd) fs"
  proof (rule well_rated_ex_cong [OF assms(1)])
    fix fd
    assume fd: "fd \<in> set fs" and sev: "fd_Severity fd \<in> severities_of (fd_Category fd)"
    have "\<not> (fd_Category fd = CategoryPhysical \<and> fd_Severity fd = SevFailed)"
      using assms(2) fd by (auto simp: rated_at_def list_ex_iff)
    then show "(fd_Severity fd \<ge> SevPoor \<and> fd_Severity fd < SevMarker \<and> \<not> fd_HostSensitive fd)
        = (fd_Severity fd = SevPoor \<and> \<not> fd_HostSensitive fd)"
      using sev by (cases "fd_Category fd") (auto simp: severities_of_def severity_defs)
  qed
  then show ?thesis by (auto simp: allPoorAreHostSensitive_def list_ex_iff list_all_iff)
qed

lemma limitationCaps_eq:
  "limitationCaps fs HealthPoor = (if hasFinding fs ''HOST-02'' then HealthInconclusive else HealthPoor)"
  "limitationCaps fs HealthWarning = (if hasFinding fs ''HOST-02'' then HealthInconclusive else HealthWarning)"
  by (simp_all add: limitationCaps_def)

lemma classify_verdict:
  assumes "well_rated fs"
  shows "classify fs f = verdict_spec fs"
proof (cases "physical_at fs SevFailed \<or> physical_at fs SevPoor")
  case True
  have "SevPoor \<noteq> SevFailed" by (simp add: severity_defs)
  moreover have "worstIn fs [CategoryPhysical] = (if physical_at fs SevFailed then SevFailed else SevPoor)"
    using True by (auto simp: worstPhys_eq [OF assms])
  ultimately show ?thesis
    using True by (cases "physical_at fs SevFailed") (simp_all add: classify_def verdict_spec_def Let_def split del: if_split)
next
  case phys: False
  let ?wp = "if physical_at fs SevWarning then SevWarning else SevNone"
  have wp: "worstIn fs [CategoryPhysical] = ?wp" "?wp \<noteq> SevFailed" "?wp \<noteq> SevPoor"
    "?wp < SevWarning \<longleftrightarrow> \<not> physical_at fs SevWarning" "?wp = SevWarning \<longleftrightarrow> physical_at fs SevWarning"
    using phys by (simp_all add: worstPhys_eq [OF assms]) (simp_all add: severity_defs)
  note host = allPoor_eq [OF assms, unfolded simp_thms]
  show ?thesis
  proof (cases "symptom_at fs SevPoor")
    case True
    then have "worstIn fs [CategoryTransport, CategoryPerformance] = SevPoor" by (simp add: worstTP_eq [OF assms])
    then show ?thesis
      using phys True wp(2-5) host
      by (simp add: classify_def verdict_spec_def Let_def wp(1) split del: if_split) (simp add: limitationCaps_eq True)
  next
    case False
    let ?wt = "if symptom_at fs SevWarning then SevWarning else if symptom_at fs SevInfo then SevInfo else SevNone"
    have wt: "worstIn fs [CategoryTransport, CategoryPerformance] = ?wt" "\<not> SevPoor \<le> ?wt"
      "?wt = SevWarning \<longleftrightarrow> symptom_at fs SevWarning"
      using False by (simp_all add: worstTP_eq [OF assms]) (simp_all add: severity_defs)
    show ?thesis
    proof (cases "symptom_at fs SevWarning \<or> physical_at fs SevWarning")
      case True
      then show ?thesis
        using phys False wp(2-5) wt(2,3)
        by (simp add: classify_def verdict_spec_def Let_def wp(1) wt(1) limitationCaps_eq split del: if_split)
          (simp add: True False)
    next
      case calm: False
      have "classify fs f = (if symptom_at fs SevInfo then limitationCaps fs HealthGood else limitationCaps fs HealthExcellent)"
        using calm wp(2-5) wt(2,3)
        by (simp add: classify_def Let_def wp(1) wt(1) anyInfo_eq [OF assms] split del: if_split)
      then show ?thesis using phys False calm by (simp add: verdict_spec_def limitationCaps_def)
    qed
  qed
qed

end
