(* ===== verification/Score.thy ===== *)
theory Score
  imports Classify
begin

section \<open>The health score: \<open>internal/evaluate/score.go\<close>\<close>

text \<open>
  \<open>scoreFor\<close> subtracts a table of deductions from 100 in float64 arithmetic, rounds, converts to
  \<open>int\<close> and clamps into the band of the class. Each block of the source is one function from score
  to score, composed in the order of the source. The conversion of an out-of-range float is
  implementation-defined in Go, so it is a parameter \<open>cv\<close>; the theory shows that the score never
  depends on it.
\<close>

definition clampToBand :: "int \<Rightarrow> HealthClass \<Rightarrow> Thresholds \<Rightarrow> int" where
  "clampToBand v class t =
     (let band = scoreBand t class
      in if v < sb_Min band then sb_Min band else if v > sb_Max band then sb_Max band else v)"

text \<open>\<open>if c { s -= k }\<close>.\<close>

definition deduct_if :: "bool \<Rightarrow> f64 \<Rightarrow> f64 \<Rightarrow> f64" where
  "deduct_if c k s = (if c then fsub s k else s)"

definition physical_deductions :: "Facts \<Rightarrow> f64 \<Rightarrow> f64" where
  "physical_deductions f s0 =
     (let s1 = fsub s0 (mathMin (Fin 40) (fmul (Fin 2) (f64_of_u64 (crcTotal f))));
          s2 = fsub s1 (mathMin (Fin 45) (fmul (Fin 15) (f64_of_u64 (fst (carrierEvents f)))));
          s3 = deduct_if (fa_Renegotiations f > 0) (Fin 10) s2;
          s4 = deduct_if (fa_HalfDuplex f) (Fin 25) s3
      in deduct_if (phy06cond f) (Fin 15) s4)"

definition dir_deductions :: "Thresholds \<Rightarrow> int \<Rightarrow> DirFacts \<Rightarrow> f64 \<Rightarrow> f64" where
  "dir_deductions t i d s0 =
     (let s1 = (if fgt (df_PingLossPct d) (Fin 0)
                then fsub s0 (mathMin (Fin 40) (fmul (df_PingLossPct d) (Fin 20))) else s0);
          s2 = (if df_TCPAvailable d
                then if fgt (df_TCPRetransRate d) (TCPRetransPoorAbove t) then fsub s1 (Fin 15)
                     else if fge (fmax (df_TCPRetransRate d) (df_TCPRetransRateWorst d)) (TCPRetransWarningAt t)
                     then fsub s1 (Fin 5) else s1
                else s1)
      in if fle (df_UDPMaxCPUPct d) (CPUHostLimitedAbove t) \<and> df_UDPAvailable d \<and> df_UDPTargetReached d
         then if fgt (df_UDPLossPct d) (UDPLossPoorAbove t) then fsub s2 (Fin 15)
              else if fge (df_UDPLossPct d) (UDPLossWarningAt t) then fsub s2 (Fin 5) else s2
         else s2)"

text \<open>The loop over the directions of the host-sensitive block: \<open>cov\<close>, \<open>collapses[0]\<close>, \<open>collapses[1]\<close>, \<open>worst\<close>.\<close>

definition host_step :: "Facts \<Rightarrow> Thresholds \<Rightarrow> int \<Rightarrow> DirFacts \<Rightarrow> f64 \<times> int \<times> int \<times> severity \<Rightarrow> f64 \<times> int \<times> int \<times> severity" where
  "host_step f t i d acc =
     (case acc of
        (cov, c0, c1, worst) \<Rightarrow>
          if \<not> df_TCPAvailable d \<or> fgt (df_TCPMaxCPUPct d) (CPUHostLimitedAbove t) then acc
          else
            (if fgt (df_TCPCoV d) cov then df_TCPCoV d else cov,
             if i = 0 then df_TCPCollapses d else c0,
             if i = 1 then df_TCPCollapses d else c1,
             (case assessThroughput f i t of
                (_, sev, deviation, _) \<Rightarrow> if deviation \<and> sev > worst then sev else worst)))"

definition performance_deductions :: "Facts \<Rightarrow> Thresholds \<Rightarrow> f64 \<Rightarrow> f64" where
  "performance_deductions f t s0 =
     (case dir_loop (host_step f t) f (Fin 0, 0, 0, SevNone) of
        (cov, c0, c1, worst) \<Rightarrow>
          let s1 = (if fgt cov (TCPCoVPoorAbove t) then fsub s0 (Fin 15)
                    else if fge cov (TCPCoVWarningAt t) then fsub s0 (Fin 5) else s0);
              s2 = fsub s1 (mathMin (Fin 20) (fmul (Fin 5) (f64_of_int (saturatingPositiveTotal c0 c1))));
              s3 = (if worst = SevPoor then fsub s2 (Fin 25)
                    else if worst = SevWarning then fsub s2 (Fin 10) else s2)
          in deduct_if (fle (df_TCPSenderMaxCPUPct (fa_Dir0 f)) (CPUHostLimitedAbove t)
               \<and> fle (df_TCPSenderMaxCPUPct (fa_Dir1 f)) (CPUHostLimitedAbove t)
               \<and> fgt (asymmetryRatio f) (TCPAsymmetryWarnAbove t)) (Fin 5) s3)"

definition raw_score :: "Facts \<Rightarrow> Finding list \<Rightarrow> Thresholds \<Rightarrow> f64" where
  "raw_score f findings t =
     (let nonCPUHostLimited = (hasFinding findings ''HOST-03'' \<or> hasFinding findings ''HOST-04'');
          s1 = physical_deductions f (Fin 100);
          s2 = dir_loop (dir_deductions t) f s1;
          s3 = deduct_if (hasFinding findings ''TR-02'') (Fin 20) s2;
          s4 = (if \<not> nonCPUHostLimited then performance_deductions f t s3 else s3)
      in deduct_if (fgt (df_UDPJitterMs (fa_Dir0 f)) (UDPJitterWarningAbove t)
           \<or> fgt (df_UDPJitterMs (fa_Dir1 f)) (UDPJitterWarningAbove t)) (Fin 5) s4)"

definition scoreFor :: "f64conv \<Rightarrow> Facts \<Rightarrow> Finding list \<Rightarrow> HealthClass \<Rightarrow> Thresholds \<Rightarrow> int option" where
  "scoreFor cv f findings class t =
     (if class = HealthInconclusive then None
      else Some (clampToBand (f64_to_i64 cv (mathRound (raw_score f findings t))) class t))"

subsection \<open>The raw score is a small finite number\<close>

definition inside :: "int \<Rightarrow> int \<Rightarrow> f64 \<Rightarrow> bool" where
  "inside lo hi s \<longleftrightarrow> (\<exists>q. s = Fin q \<and> of_int lo \<le> q \<and> q \<le> of_int hi)"

lemma inside_weaken: "inside lo hi s \<Longrightarrow> lo' \<le> lo \<Longrightarrow> inside lo' hi s"
  unfolding inside_def using of_int_le_iff [where ?'a = rat, of lo' lo] by fastforce

lemma inside_const [simp]: "0 \<le> k \<Longrightarrow> k \<le> n \<Longrightarrow> inside 0 n (Fin (of_int k))"
  by (simp add: inside_def)

lemma inside_fsub:
  assumes s: "inside lo hi s" and x: "inside 0 k x" and lo: "- 1000000 \<le> lo - k" and hi: "hi \<le> 1000000"
  shows "inside (lo - k) hi (fsub s x)"
proof -
  obtain a b where ab: "s = Fin a" "x = Fin b" "of_int lo \<le> a" "a \<le> of_int hi" "0 \<le> b" "b \<le> of_int k"
    using s x by (auto simp: inside_def)
  have low: "of_int (lo - k) \<le> a - b" and up: "a - b \<le> of_int hi" using ab by simp_all
  have "lo - k \<le> hi" using low up by (meson of_int_le_iff order_trans)
  then have rep: "representable (of_int (lo - k))" "representable (of_int hi)"
    using lo hi by (intro representable_of_int; simp)+
  have "of_int (- 1000000) \<le> a - b" "a - b \<le> of_int 1000000"
    using low up lo hi by (meson of_int_le_iff order_trans)+
  then have "\<bar>a - b\<bar> \<le> of_int 1000000" by auto
  then have "f64_of_rat (a - b) = Fin (rnd (a - b))" by (rule f64_of_rat_fin) simp
  then show ?thesis
    using ab rnd64.rd_le [OF up rep(2)] rnd64.rd_ge [OF low rep(1)] by (simp add: inside_def fsub_def)
qed

lemma inside_deduct:
  assumes "inside lo hi s" and "0 \<le> k" and "- 1000000 \<le> lo - k" and "hi \<le> 1000000"
  shows "inside (lo - k) hi (fsub s (Fin (of_int k)))"
  using inside_fsub [OF assms(1) inside_const [of k k]] assms by simp

lemma inside_deduct_if:
  assumes "inside lo hi s" and "0 \<le> k" and "- 1000000 \<le> lo - k" and "hi \<le> 1000000"
  shows "inside (lo - k) hi (deduct_if c (Fin (of_int k)) s)"
  using inside_deduct [OF assms] inside_weaken [OF assms(1), of "lo - k"] assms(2) by (simp add: deduct_if_def)

lemma inside_min: "fle (Fin 0) x \<Longrightarrow> 0 \<le> k \<Longrightarrow> inside 0 k (mathMin (Fin (of_int k)) x)"
  by (cases x) (auto simp: inside_def mathMin_def fmin_def fle_def feq_def)

lemma f64_of_rat_nonneg: "0 \<le> q \<Longrightarrow> fle (Fin 0) (f64_of_rat q)"
  using f64_of_rat_mono [of 0 q] f64_of_rat_fin [of 0 0] by simp

lemma fmul_nonneg: "fle (Fin 0) a \<Longrightarrow> 0 < b \<Longrightarrow> fle (Fin 0) (fmul a (Fin b)) \<and> fle (Fin 0) (fmul (Fin b) a)"
  by (cases a) (auto simp: finf_def f64_of_rat_nonneg fle_def [of "Fin 0" PInf] fle_def [of "Fin 0" NInf] feq_def)

lemma f64_of_u64_nonneg: "fle (Fin 0) (f64_of_u64 a)"
  using f64_of_u64_Fin [of a] by auto

lemma inside_capped_u64: "0 < m \<Longrightarrow> 0 \<le> k \<Longrightarrow> inside 0 k (mathMin (Fin (of_int k)) (fmul (Fin m) (f64_of_u64 a)))"
  using fmul_nonneg [OF f64_of_u64_nonneg] by (intro inside_min) auto

lemma physical_inside:
  assumes "inside lo hi s" and "- 999000 \<le> lo" and "hi \<le> 1000000"
  shows "inside (lo - 135) hi (physical_deductions f s)"
proof -
  let ?s1 = "fsub s (mathMin (Fin 40) (fmul (Fin 2) (f64_of_u64 (crcTotal f))))"
  let ?s2 = "fsub ?s1 (mathMin (Fin 45) (fmul (Fin 15) (f64_of_u64 (fst (carrierEvents f)))))"
  have "inside (lo - 40) hi ?s1"
    using inside_fsub [OF assms(1) inside_capped_u64 [of 2 40 "crcTotal f"]] assms by simp
  then have "inside (lo - 85) hi ?s2"
    using inside_fsub [OF _ inside_capped_u64 [of 15 45 "fst (carrierEvents f)"], of "lo - 40" hi ?s1] assms by simp
  then have "inside (lo - 95) hi (deduct_if (fa_Renegotiations f > 0) (Fin 10) ?s2)" (is "inside _ _ ?s3")
    using inside_deduct_if [of "lo - 85" hi ?s2 10] assms by simp
  then have "inside (lo - 120) hi (deduct_if (fa_HalfDuplex f) (Fin 25) ?s3)" (is "inside _ _ ?s4")
    using inside_deduct_if [of "lo - 95" hi ?s3 25] assms by simp
  then show ?thesis
    using inside_deduct_if [of "lo - 120" hi ?s4 15 "phy06cond f"] assms by (simp add: physical_deductions_def Let_def)
qed

text \<open>A \<open>switch\<close> of two constant deductions.\<close>

lemma inside_switch:
  assumes "inside lo hi s" and "0 \<le> j" and "j \<le> k" and "- 1000000 \<le> lo - k" and "hi \<le> 1000000"
  shows "inside (lo - k) hi (fsub s (Fin (of_int k))) \<and> inside (lo - k) hi (fsub s (Fin (of_int j))) \<and> inside (lo - k) hi s"
proof -
  have "inside (lo - k) hi (fsub s (Fin (of_int j)))"
    using inside_weaken [OF inside_deduct [of lo hi s j], of "lo - k"] assms by simp
  then show ?thesis
    using inside_deduct [of lo hi s k] inside_weaken [OF assms(1), of "lo - k"] assms by simp
qed

lemma dir_inside:
  assumes "inside lo hi s" and "- 999000 \<le> lo" and "hi \<le> 1000000"
  shows "inside (lo - 70) hi (dir_deductions t i d s)"
proof -
  define s1 where "s1 = (if fgt (df_PingLossPct d) (Fin 0)
    then fsub s (mathMin (Fin 40) (fmul (df_PingLossPct d) (Fin 20))) else s)"
  have "inside 0 40 (mathMin (Fin (of_int 40)) (fmul (df_PingLossPct d) (Fin 20)))"
    if "fgt (df_PingLossPct d) (Fin 0)"
    using fmul_nonneg [OF flt_imp_fle [OF that], of 20] by (intro inside_min) auto
  then have 1: "inside (lo - 40) hi s1"
    using inside_fsub [OF assms(1)] inside_weaken [OF assms(1), of "lo - 40"] assms by (auto simp: s1_def)
  define s2 where "s2 = (if df_TCPAvailable d
    then if fgt (df_TCPRetransRate d) (TCPRetransPoorAbove t) then fsub s1 (Fin 15)
         else if fge (fmax (df_TCPRetransRate d) (df_TCPRetransRateWorst d)) (TCPRetransWarningAt t)
         then fsub s1 (Fin 5) else s1 else s1)"
  have 2: "inside (lo - 55) hi s2"
    using inside_switch [OF 1, of 5 15] inside_weaken [OF 1, of "lo - 55"] assms by (simp add: s2_def)
  have "dir_deductions t i d s = (if fle (df_UDPMaxCPUPct d) (CPUHostLimitedAbove t) \<and> df_UDPAvailable d \<and> df_UDPTargetReached d
    then if fgt (df_UDPLossPct d) (UDPLossPoorAbove t) then fsub s2 (Fin 15)
         else if fge (df_UDPLossPct d) (UDPLossWarningAt t) then fsub s2 (Fin 5) else s2 else s2)"
    by (simp add: dir_deductions_def s1_def s2_def Let_def)
  then show ?thesis
    using inside_switch [OF 2, of 5 15] inside_weaken [OF 2, of "lo - 70"] assms by simp
qed

lemma saturating_bounds: "0 \<le> saturatingPositiveTotal a b \<and> saturatingPositiveTotal a b \<le> maxInt"
  by (auto simp: saturatingPositiveTotal_eq maxInt_def)

lemma f64_of_int_nonneg: "0 \<le> n \<Longrightarrow> fle (Fin 0) (f64_of_int n)"
  unfolding f64_of_int_def by (rule f64_of_rat_nonneg) simp

lemma performance_inside:
  assumes "inside lo hi s" and "- 999000 \<le> lo" and "hi \<le> 1000000"
  shows "inside (lo - 65) hi (performance_deductions f t s)"
proof -
  obtain cov c0 c1 worst where acc: "dir_loop (host_step f t) f (Fin 0, 0, 0, SevNone) = (cov, c0, c1, worst)"
    by (cases "dir_loop (host_step f t) f (Fin 0, 0, 0, SevNone)") auto
  define s1 where "s1 = (if fgt cov (TCPCoVPoorAbove t) then fsub s (Fin 15)
    else if fge cov (TCPCoVWarningAt t) then fsub s (Fin 5) else s)"
  define s2 where "s2 = fsub s1 (mathMin (Fin 20) (fmul (Fin 5) (f64_of_int (saturatingPositiveTotal c0 c1))))"
  define s3 where "s3 = (if worst = SevPoor then fsub s2 (Fin 25) else if worst = SevWarning then fsub s2 (Fin 10) else s2)"
  have 1: "inside (lo - 15) hi s1" using inside_switch [OF assms(1), of 5 15] assms by (simp add: s1_def)
  have m: "inside 0 20 (mathMin (Fin (of_int 20)) (fmul (Fin 5) (f64_of_int (saturatingPositiveTotal c0 c1))))"
    using fmul_nonneg [OF f64_of_int_nonneg] saturating_bounds [of c0 c1] by (intro inside_min) auto
  then have 2: "inside (lo - 35) hi s2" using inside_fsub [OF 1 m] assms by (simp add: s2_def)
  have 3: "inside (lo - 60) hi s3" using inside_switch [OF 2, of 10 25] assms by (simp add: s3_def)
  have "inside (lo - 65) hi (deduct_if c (Fin 5) s3)" for c using inside_deduct_if [OF 3, of 5] assms by simp
  then show ?thesis
    unfolding performance_deductions_def Let_def acc prod.case s1_def [symmetric] s2_def [symmetric] s3_def [symmetric] .
qed

lemma raw_score_inside: "inside (- 265) 100 (raw_score f fs t)"
proof -
  have 0: "inside 100 100 (Fin 100)" by (simp add: inside_def)
  note 1 = physical_inside [OF 0, of f]
  have 2: "inside (- 175) 100 (dir_loop (dir_deductions t) f (physical_deductions f (Fin 100)))" (is "inside _ _ ?s2")
    unfolding dir_loop_def using dir_inside [OF dir_inside [of "100 - 135" 100]] 1 by simp
  have 3: "inside (- 195) 100 (deduct_if (hasFinding fs ''TR-02'') (Fin 20) ?s2)" (is "inside _ _ ?s3")
    using inside_deduct_if [OF 2, of 20] by simp
  have 4: "inside (- 260) 100 (if \<not> c then performance_deductions f t ?s3 else ?s3)" for c
    using performance_inside [OF 3, of f t] inside_weaken [OF 3, of "- 260"] by simp
  have "inside (- 265) 100 (deduct_if c' (Fin 5) (if \<not> c then performance_deductions f t ?s3 else ?s3))" for c c'
    using inside_deduct_if [OF 4 [of c], of 5 c'] by (simp split del: if_split)
  then show ?thesis unfolding raw_score_def Let_def .
qed

subsection \<open>The score and its band\<close>

lemma round_away_bounds: "of_int lo \<le> q \<Longrightarrow> q \<le> of_int hi \<Longrightarrow> lo \<le> round_away q \<and> round_away q \<le> hi"
  unfolding round_away_def by (auto; linarith)

lemma trunc_of_int [simp]: "trunc_rat (of_int n) = n"
  by (simp add: trunc_rat_def)

text \<open>The conversion to \<open>int\<close> is exact, whatever the implementation does out of range.\<close>

lemma raw_score_converts:
  obtains n where "- 265 \<le> n" and "n \<le> 100" and "\<And>cv. f64_to_i64 cv (mathRound (raw_score f fs t)) = n"
proof -
  obtain q where q: "raw_score f fs t = Fin q" "of_int (- 265) \<le> q" "q \<le> of_int 100"
    using raw_score_inside [of f fs t] unfolding inside_def by blast
  note b = round_away_bounds [OF q(2,3)]
  then have "in_i64 (round_away q)" by (simp add: in_i64_def minInt_def maxInt_def)
  then have "\<And>cv. f64_to_i64 cv (mathRound (raw_score f fs t)) = round_away q" using q(1) by simp
  with b that show ?thesis by blast
qed

lemma scoreFor_cv: "scoreFor cv f fs class t = scoreFor cv' f fs class t"
  by (metis raw_score_converts scoreFor_def)

definition bands_valid :: "Thresholds \<Rightarrow> bool" where
  "bands_valid t \<longleftrightarrow>
     (\<forall>class. sb_Min (scoreBand t class) \<le> sb_Max (scoreBand t class))
     \<and> sb_Max (FailedScoreBand t) < sb_Min (PoorScoreBand t)
     \<and> sb_Max (PoorScoreBand t) < sb_Min (WarningScoreBand t)
     \<and> sb_Max (WarningScoreBand t) < sb_Min (GoodScoreBand t)
     \<and> sb_Max (GoodScoreBand t) < sb_Min (ExcellentScoreBand t)"

lemma Default_bands_valid: "bands_valid Default"
proof -
  have "sb_Min (scoreBand Default cl) \<le> sb_Max (scoreBand Default cl)" for cl
    by (cases cl) (simp_all add: Default_def)
  then show ?thesis by (simp add: bands_valid_def) (simp add: Default_def)
qed

lemma clampToBand_in:
  "sb_Min (scoreBand t class) \<le> sb_Max (scoreBand t class) \<Longrightarrow>
   sb_Min (scoreBand t class) \<le> clampToBand v class t \<and> clampToBand v class t \<le> sb_Max (scoreBand t class)"
  by (simp add: clampToBand_def Let_def)

lemma scoreFor_band:
  assumes "bands_valid t" and "scoreFor cv f fs class t = Some v"
  shows "sb_Min (scoreBand t class) \<le> v \<and> v \<le> sb_Max (scoreBand t class)"
  using assms clampToBand_in by (auto simp: scoreFor_def bands_valid_def split: if_splits)

end
