(* ===== verification/Recommend.thy ===== *)
theory Recommend
  imports Classify
begin

section \<open>Recommendations: \<open>internal/evaluate/recommend.go\<close>\<close>

text \<open>
  \<open>recommend\<close> groups the findings by the action their rule maps to, keeps the evidence lines of a
  group without duplicates, and closes with the isolation test for the verdicts that need one. The map
  \<open>groupIndex\<close> and the sets \<open>seenEvidence\<close> only record what \<open>groups\<close> already contains, so the
  model keeps the groups as an association list from actions to evidence, in insertion order.
\<close>

definition quote :: string where "quote = [CHR 0x60]"

definition recCable :: string where
  "recCable = ''Reseat both connectors and inspect for damage; replace the cable with a known-good Cat5e/Cat6 and rerun.''"

definition recSpeed :: string where
  "recSpeed = ''Reduced link speed: inspect cable wiring and connectors, test with another cable, and verify both NICs advertise the expected speed (''
     @ quote @ ''ethtool <if>'' @ quote @ '').''"

definition recFlaky :: string where
  "recFlaky = ''Intermittent link: check connector seating, try a different NIC port, run ''
     @ quote @ ''--mode soak'' @ quote @ '' to catch drops.''"

definition recCableTest :: string where
  "recCableTest = ''Inspect the cable-test pair/status; replace or re-terminate the cable if the fault persists.''"

definition recTCPRetest :: string where
  "recTCPRetest = ''Retest with '' @ quote @ ''--parallel-streams 1'' @ quote
     @ ''; correlate with counter deltas and CPU before blaming the cable.''"

definition recUDPRetest :: string where
  "recUDPRetest = ''Rerun UDP at a lower '' @ quote @ ''--udp-rate'' @ quote
     @ ''; check NIC counter deltas and CPU before blaming the cable.''"

definition recHost :: string where
  "recHost = ''Result appears host-limited: close background load, disable CPU power saving, avoid USB adapters, rerun.''"

definition recCoverage :: string where
  "recCoverage = ''Restore the missing throughput or NIC-counter measurements and rerun; install iperf3/ethtool if unavailable.''"

definition recIsolation :: string where
  "recIsolation = ''Isolation test: same machines with a different cable, then the same cable between different machines.''"

definition recTexts :: "(string \<times> string) list" where
  "recTexts =
     [(''PHY-01'', recFlaky),
      (''PHY-02'', recCable),
      (''PHY-03'', recFlaky),
      (''PHY-04'', recFlaky),
      (''PHY-05'', ''Half duplex usually means autonegotiation failure: enable autoneg on both sides; replace the cable.''),
      (''PHY-06'', recSpeed),
      (''PHY-07'', recSpeed),
      (''PHY-08'', recCableTest),
      (''PHY-09'', recCable),
      (''PHY-10'', recCable),
      (''PHY-11'', recCable),
      (''TR-06'', recTCPRetest),
      (''TR-07'', recUDPRetest),
      (''HOST-01'', recHost),
      (''HOST-03'', recHost),
      (''HOST-04'', recHost),
      (''HOST-02'', ''Rerun on the physical interface '' @ em_dash @ '' a virtual interface cannot exercise the cable.''),
      (''LIM-01'', recCoverage),
      (''LIM-05'', ''iperf3 could not connect to the peer on the data port '' @ em_dash
         @ '' check the host firewall (ufw/firewalld) on the receiving side and confirm the data port is open.'')]"

text \<open>\<open>recTexts[id]\<close>: an absent key reads as the empty string.\<close>

definition rec_action :: "string \<Rightarrow> string" where
  "rec_action rule = (case map_of recTexts rule of None \<Rightarrow> '''' | Some a \<Rightarrow> a)"

type_synonym groups = "(string \<times> string list) list"

definition add_evidence :: "string list \<Rightarrow> string list \<Rightarrow> string list" where
  "add_evidence lines seen = fold (\<lambda>e seen. if e = '''' \<or> e \<in> set seen then seen else seen @ [e]) lines seen"

definition group_step :: "Finding \<Rightarrow> groups \<Rightarrow> groups" where
  "group_step fd groups =
     (let action = rec_action (fd_RuleID fd)
      in if action = '''' then groups
         else
           let gs = (if action \<in> set (map fst groups) then groups else groups @ [(action, [])])
           in map (\<lambda>(a, ev). if a = action then (a, add_evidence (fd_Evidence fd) ev) else (a, ev)) gs)"

definition rec_text :: "string \<times> string list \<Rightarrow> string" where
  "rec_text g =
     (case g of
        (action, ev) \<Rightarrow>
          if ev \<noteq> [] then action @ '' Evidence from this run: '' @ join ''; '' ev @ ''.'' else action)"

definition recommend :: "Finding list \<Rightarrow> HealthClass \<Rightarrow> string list" where
  "recommend findings class =
     map rec_text (fold group_step findings [])
     @ (case class of
          HealthPoor \<Rightarrow> [recIsolation]
        | HealthFailed \<Rightarrow> [recIsolation]
        | HealthInconclusive \<Rightarrow> [recIsolation]
        | _ \<Rightarrow> [])"

subsection \<open>Grouping\<close>

text \<open>The evidence that belongs to an action.\<close>

definition evidence_for :: "Finding list \<Rightarrow> string \<Rightarrow> string set" where
  "evidence_for fs a = {e. e \<noteq> '''' \<and> (\<exists>fd\<in>set fs. rec_action (fd_RuleID fd) = a \<and> e \<in> set (fd_Evidence fd))}"

definition actions_of :: "Finding list \<Rightarrow> string set" where
  "actions_of fs = (\<lambda>fd. rec_action (fd_RuleID fd)) ` set fs - {''''}"

definition groups_ok :: "Finding list \<Rightarrow> groups \<Rightarrow> bool" where
  "groups_ok fs gs \<longleftrightarrow>
     distinct (map fst gs) \<and> set (map fst gs) = actions_of fs
     \<and> list_all (\<lambda>(a, ev). distinct ev \<and> set ev = evidence_for fs a) gs"

lemma add_evidence_set: "set (add_evidence es seen) = set seen \<union> (set es - {''''})"
  unfolding add_evidence_def by (induction es arbitrary: seen) auto

lemma add_evidence_distinct: "distinct seen \<Longrightarrow> distinct (add_evidence es seen)"
  unfolding add_evidence_def by (induction es arbitrary: seen) auto

lemma evidence_for_snoc:
  "evidence_for (fs @ [fd]) a =
     evidence_for fs a \<union> (if rec_action (fd_RuleID fd) = a then set (fd_Evidence fd) - {''''} else {})"
  by (auto simp: evidence_for_def)

lemma evidence_for_new: "a \<notin> actions_of fs \<Longrightarrow> a \<noteq> '''' \<Longrightarrow> evidence_for fs a = {}"
  by (auto simp: evidence_for_def actions_of_def)

lemma group_step_keys:
  "map fst (group_step fd gs) =
     (let a = rec_action (fd_RuleID fd)
      in if a = '''' \<or> a \<in> set (map fst gs) then map fst gs else map fst gs @ [a])"
  by (auto simp: group_step_def Let_def split_def comp_def)

lemma group_step_ok:
  assumes "groups_ok fs gs"
  shows "groups_ok (fs @ [fd]) (group_step fd gs)"
proof -
  let ?a = "rec_action (fd_RuleID fd)"
  have keys: "distinct (map fst (group_step fd gs))" "set (map fst (group_step fd gs)) = actions_of (fs @ [fd])"
    using assms unfolding group_step_keys by (auto simp: groups_ok_def actions_of_def Let_def)
  have "distinct ev \<and> set ev = evidence_for (fs @ [fd]) a" if "(a, ev) \<in> set (group_step fd gs)" for a ev
  proof (cases "?a = ''''")
    case True
    with that have mem: "(a, ev) \<in> set gs" by (simp add: group_step_def)
    then have "a \<in> set (map fst gs)" by force
    then have "a \<noteq> ''''" using assms by (auto simp: groups_ok_def actions_of_def)
    then show ?thesis
      using mem assms True unfolding evidence_for_snoc groups_ok_def list_all_iff by fastforce
  next
    case False
    define hs where "hs = (if ?a \<in> set (map fst gs) then gs else gs @ [(?a, [])])"
    have old: "distinct ev' \<and> set ev' = evidence_for fs a'" if "(a', ev') \<in> set hs" for a' ev'
      using that assms evidence_for_new [of ?a fs] False
      by (auto simp: hs_def groups_ok_def list_all_iff split: if_splits)
    have "group_step fd gs = map (\<lambda>(a, ev). if a = ?a then (a, add_evidence (fd_Evidence fd) ev) else (a, ev)) hs"
      using False unfolding group_step_def Let_def hs_def by simp
    with that obtain ev' where ev': "(a, ev') \<in> set hs"
      "ev = (if a = ?a then add_evidence (fd_Evidence fd) ev' else ev')"
      by (auto split: if_splits)
    with old [OF ev'(1)] show ?thesis
      unfolding evidence_for_snoc by (auto simp: add_evidence_set add_evidence_distinct)
  qed
  with keys show ?thesis by (auto simp: groups_ok_def list_all_iff)
qed

lemma groups_fold_ok: "groups_ok fs (fold group_step fs [])"
proof (induction fs rule: rev_induct)
  case Nil
  then show ?case by (simp add: groups_ok_def actions_of_def)
next
  case (snoc fd fs)
  then show ?case using group_step_ok by simp
qed

definition needs_isolation :: "HealthClass \<Rightarrow> bool" where
  "needs_isolation class \<longleftrightarrow> class \<in> set [HealthPoor, HealthFailed, HealthInconclusive]"

text \<open>
  Recommendations are grounded and not repeated: there is one line per action the findings call
  for, each action once, each with exactly the non-empty evidence lines of the findings that map to it
  and each of these once; the isolation test closes the list for POOR, FAILED and INCONCLUSIVE and
  for no other class.
\<close>

theorem recommend_grounded:
  "\<exists>gs. groups_ok fs gs
     \<and> recommend fs class = map rec_text gs @ (if needs_isolation class then [recIsolation] else [])"
  by (rule exI [of _ "fold group_step fs []"], cases "class")
    (simp_all add: groups_fold_ok recommend_def needs_isolation_def)

end
