(* ===== verification/Evaluator.thy ===== *)
theory Evaluator
  imports Score Recommend
begin

section \<open>The evaluation engine: \<open>Evaluate\<close> of \<open>internal/evaluate/evaluator.go\<close>\<close>

text \<open>
  The engine runs the rules, classifies, scores and recommends. The theorems relate the verdict,
  the score and the recommendations of one evaluation to the findings and to the facts.
\<close>

definition RulesVersion :: string where
  "RulesVersion = ''1.11.0''"

definition evaluate :: "f64conv \<Rightarrow> Facts \<Rightarrow> Thresholds \<Rightarrow> Evaluation" where
  "evaluate cv f t =
     (let findings = run_rules Rules f t;
          class = classify findings f
      in \<lparr>ev_Class = class,
          ev_Score = scoreFor cv f findings class t,
          ev_Findings = findings,
          ev_Recommendations = recommend findings class,
          ev_RulesVersion = RulesVersion\<rparr>)"

definition Evaluate :: "f64conv \<Rightarrow> Facts \<Rightarrow> Evaluation" where
  "Evaluate cv f = evaluate cv f Default"

lemma evaluate_simps [simp]:
  "ev_Class (evaluate cv f t) = classify (run_rules Rules f t) f"
  "ev_Score (evaluate cv f t) = scoreFor cv f (run_rules Rules f t) (classify (run_rules Rules f t) f) t"
  "ev_Findings (evaluate cv f t) = run_rules Rules f t"
  "ev_Recommendations (evaluate cv f t) = recommend (run_rules Rules f t) (classify (run_rules Rules f t) f)"
  by (simp_all add: evaluate_def Let_def)

subsection \<open>What a verdict means\<close>

text \<open>
  C1. The verdict of an evaluation is the one of the decision table on its findings: the running
  maxima, the tentative class and the caps of the code implement the table, for every facts and every
  thresholds.
\<close>

theorem verdict_refines_table:
  "ev_Class (evaluate cv f t) = verdict_spec (ev_Findings (evaluate cv f t))"
  by (simp add: classify_verdict run_well_rated)

definition open_or_short :: "CablePairResult \<Rightarrow> bool" where
  "open_or_short p \<longleftrightarrow> cp_Status p = PairOpen \<or> cp_Status p = PairShortIntra \<or> cp_Status p = PairShortInter"

lemma pairs_failed:
  "fst (fold pair_step ps acc) = SevFailed \<longleftrightarrow> fst acc = SevFailed \<or> list_ex open_or_short ps"
  if "fst acc \<le> SevFailed"
  using that
proof (induction ps arbitrary: acc)
  case (Cons p ps)
  have "fst (pair_step p acc) \<le> SevFailed"
    and "fst (pair_step p acc) = SevFailed \<longleftrightarrow> fst acc = SevFailed \<or> open_or_short p"
    using Cons.prems
    by (cases "cp_Status p"; simp add: pair_step_def raise_to_def open_or_short_def; simp add: severity_defs)+
  with Cons.IH [of "pair_step p acc"] show ?case by auto
qed simp

lemma physical_at_iff:
  "physical_at (run_rules Rules f t) s \<longleftrightarrow>
   (\<exists>r\<in>set physicalRules. \<exists>fd. ru_Evaluate r f t = Some fd \<and> fd_Severity fd = s)"
proof -
  have "physical_at (run_rules Rules f t) s \<longleftrightarrow>
    (\<exists>r\<in>set Rules. \<exists>fd. ru_Evaluate r f t = Some fd \<and> fd_Category fd = CategoryPhysical \<and> fd_Severity fd = s)"
    by (simp add: rated_at_def list_ex_iff Bex_def set_run_rules) blast
  also have "\<dots> \<longleftrightarrow> (\<exists>r\<in>set (filter (\<lambda>r. ru_Category r = CategoryPhysical) Rules).
      \<exists>fd. ru_Evaluate r f t = Some fd \<and> fd_Severity fd = s)"
    using ce.signs by fastforce
  finally show ?thesis unfolding Rules_physical .
qed

definition udp_lossy :: "Thresholds \<Rightarrow> DirFacts \<Rightarrow> bool" where
  "udp_lossy t d \<longleftrightarrow> df_UDPAvailable d \<and> df_UDPTargetReached d \<and> fgt (df_UDPLossPct d) (UDPLossPoorAbove t)"

text \<open>The evidence that convicts a cable outright.\<close>

definition fatal_evidence :: "Facts \<Rightarrow> Thresholds \<Rightarrow> bool" where
  "fatal_evidence f t \<longleftrightarrow>
     \<not> fa_LinkUpAtEnd f
     \<or> crcTotal f > CRCPoorAbove t \<and> anyPingLossOver f (CRCCorroboratingPingLossAbove t)
     \<or> crcTotal f > CRCFailedAbove t \<and> crcTotal f \<noteq> unclassifiedRXTotal f
     \<or> fst (carrierEvents f) \<noteq> 0 \<and> fst (carrierEvents f) \<ge> CarrierFailedAt t
     \<or> fa_CableTestRan f \<and> list_ex open_or_short (fa_CableTestPairs f)
     \<or> crcTotal f \<noteq> 0 \<and> (udp_lossy t (fa_Dir0 f) \<or> udp_lossy t (fa_Dir1 f))
     \<or> carrierPHYTotal f > CarrierPHYFailedAbove t"

definition failed_by :: "(Facts \<Rightarrow> Thresholds \<Rightarrow> Finding option) \<Rightarrow> Facts \<Rightarrow> Thresholds \<Rightarrow> bool" where
  "failed_by rule f t \<longleftrightarrow> (\<exists>fd. rule f t = Some fd \<and> fd_Severity fd = SevFailed)"

lemma gt_not_zero: "(a :: u64) < b \<Longrightarrow> b \<noteq> 0"
  by (auto simp: word_less_def)

lemma severities_distinct:
  "SevFailed \<noteq> SevPoor" "SevFailed \<noteq> SevWarning" "SevPoor \<noteq> SevFailed" "SevWarning \<noteq> SevFailed"
  "SevPoor \<noteq> SevWarning" "SevWarning \<noteq> SevPoor" "SevWarning \<noteq> SevInfo" "SevInfo \<noteq> SevWarning"
  "SevNone \<noteq> SevFailed" "\<not> SevFailed < SevWarning" "\<not> SevPoor < SevWarning" "SevNone < SevWarning"
  by (simp_all add: severity_defs)

lemma failed_by_rules:
  "failed_by rulePHY01 f t \<longleftrightarrow> \<not> fa_LinkUpAtEnd f"
  "failed_by rulePHY02 f t \<longleftrightarrow> crcTotal f \<noteq> 0 \<and> crcSeverity f t = SevFailed"
  "failed_by rulePHY03 f t \<longleftrightarrow> fst (carrierEvents f) \<noteq> 0 \<and> fst (carrierEvents f) \<ge> CarrierFailedAt t"
  "\<not> failed_by rulePHY04 f t" "\<not> failed_by rulePHY05 f t" "\<not> failed_by rulePHY06 f t"
  "\<not> failed_by rulePHY07 f t" "\<not> failed_by rulePHY09 f t"
  "failed_by rulePHY10 f t \<longleftrightarrow> crcTotal f \<noteq> 0 \<and> (udp_lossy t (fa_Dir0 f) \<or> udp_lossy t (fa_Dir1 f))"
  "failed_by rulePHY11 f t \<longleftrightarrow> carrierPHYTotal f > CarrierPHYFailedAbove t"
  using gt_not_zero [of "CarrierPHYFailedAbove t" "carrierPHYTotal f"]
  by (auto simp: failed_by_def rule_defs Let_def dir_loop_def udp_corr_step_def udp_lossy_def severities_distinct
      split: prod.splits)

lemma failed_by_PHY08:
  "failed_by rulePHY08 f t \<longleftrightarrow> fa_CableTestRan f \<and> list_ex open_or_short (fa_CableTestPairs f)"
  using pairs_failed [of "(SevNone, [])" "fa_CableTestPairs f"]
  by (auto simp: failed_by_def rulePHY08_def severities_distinct severity_defs split: prod.splits)

lemma crcSeverity_failed:
  "crcSeverity f t = SevFailed \<longleftrightarrow>
     crcTotal f > CRCPoorAbove t \<and> anyPingLossOver f (CRCCorroboratingPingLossAbove t)
     \<or> crcTotal f > CRCFailedAbove t \<and> crcTotal f \<noteq> unclassifiedRXTotal f"
  by (auto simp: crcSeverity_def Let_def severities_distinct)

lemma physical_failed_iff: "physical_at (run_rules Rules f t) SevFailed \<longleftrightarrow> fatal_evidence f t"
proof -
  have "physical_at (run_rules Rules f t) SevFailed \<longleftrightarrow> (\<exists>r\<in>set physicalRules. failed_by (ru_Evaluate r) f t)"
    by (simp add: physical_at_iff failed_by_def)
  also have "\<dots> \<longleftrightarrow> fatal_evidence f t"
    using gt_not_zero [of "CRCPoorAbove t" "crcTotal f"] gt_not_zero [of "CRCFailedAbove t" "crcTotal f"]
    by (auto simp: physicalRules_def failed_by_rules failed_by_PHY08 crcSeverity_failed fatal_evidence_def)
  finally show ?thesis .
qed

text \<open>
  C2. FAILED is given exactly on physical proof: link down at the end, corroborated or explained
  receive errors, repeated carrier loss, an open or shorted pair, receive errors together with UDP
  loss, or mass carrier errors. No host or limitation evidence, and no symptom alone, can give or
  hide it.
\<close>

theorem failed_iff_physical_proof:
  "ev_Class (evaluate cv f t) = HealthFailed \<longleftrightarrow> fatal_evidence f t"
  by (simp add: classify_verdict run_well_rated verdict_spec_def physical_failed_iff)

text \<open>The findings that are evidence about the cable, without host and limitation markers.\<close>

definition cable_findings :: "Finding list \<Rightarrow> Finding list" where
  "cable_findings fs = filter (\<lambda>fd. fd_Category fd \<noteq> CategoryHost \<and> fd_Category fd \<noteq> CategoryLimitation) fs"

lemma cable_rated_at:
  assumes "CategoryHost \<notin> set cats" and "CategoryLimitation \<notin> set cats"
  shows "rated_at (cable_findings fs) cats s = rated_at fs cats s"
  using assms by (fastforce simp: rated_at_def cable_findings_def list_ex_iff)

lemma cable_well_rated: "well_rated fs \<Longrightarrow> well_rated (cable_findings fs)"
  by (auto simp: well_rated_def cable_findings_def)

definition downgrades :: "HealthClass \<Rightarrow> HealthClass \<Rightarrow> bool" where
  "downgrades before after \<longleftrightarrow>
     after = before
     \<or> before = HealthExcellent \<and> after = HealthGood
     \<or> before \<noteq> HealthFailed \<and> after = HealthInconclusive"

text \<open>Host and limitation rules carry their own identifiers.\<close>

definition marker_IDs :: "string set" where
  "marker_IDs = {''HOST-01'', ''HOST-02'', ''HOST-03'', ''HOST-04'', ''LIM-01'', ''LIM-02'', ''LIM-03'', ''LIM-05''}"

lemma marker_rule: "r \<in> set Rules \<Longrightarrow> ru_ID r \<in> marker_IDs \<Longrightarrow>
    ru_Category r = CategoryHost \<or> ru_Category r = CategoryLimitation"
  by (auto simp: Rules_def physicalRules_def marker_IDs_def)

lemma marker_ID:
  assumes "fd \<in> set (run_rules Rules f t)" and "fd_RuleID fd \<in> marker_IDs"
  shows "fd_Category fd = CategoryHost \<or> fd_Category fd = CategoryLimitation"
proof -
  from assms(1) obtain r where r: "r \<in> set Rules" "ru_Evaluate r f t = Some fd" by (auto simp: set_run_rules)
  with ce.signs [OF r] assms(2) marker_rule [OF r(1)] show ?thesis by simp
qed

lemma cable_no_marker: "ruleID \<in> marker_IDs \<Longrightarrow> \<not> hasFinding (cable_findings (run_rules Rules f t)) ruleID"
  using marker_ID by (auto simp: hasFinding_def list_ex_iff cable_findings_def)

lemma cable_no_markers:
  "\<not> hasFinding (cable_findings (run_rules Rules f t)) ''HOST-01''"
  "\<not> hasFinding (cable_findings (run_rules Rules f t)) ''HOST-02''"
  "\<not> hasFinding (cable_findings (run_rules Rules f t)) ''HOST-03''"
  "\<not> hasFinding (cable_findings (run_rules Rules f t)) ''HOST-04''"
  "\<not> hasFinding (cable_findings (run_rules Rules f t)) ''LIM-01''"
  "\<not> hasFinding (cable_findings (run_rules Rules f t)) ''LIM-02''"
  "\<not> hasFinding (cable_findings (run_rules Rules f t)) ''LIM-03''"
  "\<not> hasFinding (cable_findings (run_rules Rules f t)) ''LIM-05''"
  by (rule cable_no_marker; simp add: marker_IDs_def)+

definition cable_verdict :: "Finding list \<Rightarrow> HealthClass" where
  "cable_verdict fs =
     (if physical_at fs SevFailed then HealthFailed
      else if physical_at fs SevPoor then HealthPoor
      else if symptom_at fs SevPoor then HealthPoor
      else if symptom_at fs SevWarning \<or> physical_at fs SevWarning then HealthWarning
      else if symptom_at fs SevInfo then HealthGood
      else HealthExcellent)"

lemma downgrades_cable: "downgrades (cable_verdict fs) (verdict_spec fs)"
  by (cases "physical_at fs SevFailed"; cases "physical_at fs SevPoor"; cases "symptom_at fs SevPoor";
      cases "symptom_at fs SevWarning \<or> physical_at fs SevWarning"; cases "symptom_at fs SevInfo")
    (simp_all add: downgrades_def cable_verdict_def verdict_spec_def)

text \<open>
  C4. Host and limitation findings only downgrade. Compared with the verdict on the cable evidence
  alone, they can turn EXCELLENT into GOOD and anything but FAILED into INCONCLUSIVE, and nothing else:
  they never improve a verdict, never invent WARNING, POOR or FAILED, and never hide FAILED.
\<close>

theorem markers_only_downgrade:
  "downgrades (classify (cable_findings (ev_Findings (evaluate cv f t))) f) (ev_Class (evaluate cv f t))"
proof -
  let ?fs = "run_rules Rules f t"
  note wr = run_well_rated [of f t]
  have "classify (cable_findings ?fs) f = cable_verdict ?fs"
    unfolding classify_verdict [OF cable_well_rated [OF wr]]
    by (simp add: verdict_spec_def cable_verdict_def cable_rated_at cable_no_markers hasHostLimit_def cong: if_cong)
  then show ?thesis
    using downgrades_cable [of ?fs] by (simp add: classify_verdict [OF wr])
qed

text \<open>The findings an EXCELLENT verdict may carry.\<close>

definition harmless :: "Finding \<Rightarrow> bool" where
  "harmless fd \<longleftrightarrow> fd_RuleID fd \<in> set [''HOST-01'', ''HOST-03'', ''HOST-04'', ''LIM-04'']"

definition capping :: "string list" where
  "capping = [''HOST-02'', ''LIM-01'', ''LIM-02'', ''LIM-03'', ''LIM-05'']"

abbreviation about_run :: "Category \<Rightarrow> bool" where
  "about_run c \<equiv> c = CategoryHost \<or> c = CategoryLimitation"

lemma rule_kinds:
  "list_all (\<lambda>r. ru_ID r \<in> set [''HOST-01'', ''HOST-03'', ''HOST-04'', ''LIM-04''] \<longleftrightarrow>
     about_run (ru_Category r) \<and> ru_ID r \<notin> set capping) Rules"
  by (simp add: Rules_def physicalRules_def capping_def)

lemma finding_kinds:
  assumes "fd \<in> set (run_rules Rules f t)"
  shows "harmless fd \<longleftrightarrow> about_run (fd_Category fd) \<and> fd_RuleID fd \<notin> set capping"
proof -
  from assms obtain r where r: "r \<in> set Rules" "ru_Evaluate r f t = Some fd" by (auto simp: set_run_rules)
  with rule_kinds ce.signs [OF r] show ?thesis unfolding list_all_iff harmless_def by metis
qed

lemma rated_somewhere:
  assumes "well_rated fs"
  shows "(\<exists>fd\<in>set fs. fd_Category fd \<noteq> CategoryHost \<and> fd_Category fd \<noteq> CategoryLimitation) \<longleftrightarrow>
    physical_at fs SevFailed \<or> physical_at fs SevPoor \<or> physical_at fs SevWarning
    \<or> symptom_at fs SevPoor \<or> symptom_at fs SevWarning \<or> symptom_at fs SevInfo" (is "?L \<longleftrightarrow> ?R")
proof
  assume ?L
  then obtain fd where "fd \<in> set fs" "fd_Category fd \<noteq> CategoryHost" "fd_Category fd \<noteq> CategoryLimitation" by blast
  moreover from this have "fd_Severity fd \<in> severities_of (fd_Category fd)" using assms by (simp add: well_rated_def)
  ultimately show ?R
    by (cases "fd_Category fd") (auto simp: rated_at_def list_ex_iff severities_of_def)
next
  assume ?R
  then have "\<exists>cats s. rated_at fs cats s \<and> CategoryHost \<notin> set cats \<and> CategoryLimitation \<notin> set cats" by fastforce
  then show ?L by (auto simp: rated_at_def list_ex_iff) metis
qed

lemma excellent_iff:
  "verdict_spec fs = HealthExcellent \<longleftrightarrow>
     \<not> (physical_at fs SevFailed \<or> physical_at fs SevPoor \<or> physical_at fs SevWarning
        \<or> symptom_at fs SevPoor \<or> symptom_at fs SevWarning \<or> symptom_at fs SevInfo)
     \<and> \<not> hasFinding fs ''HOST-02'' \<and> \<not> hasFinding fs ''LIM-01'' \<and> \<not> hasFinding fs ''LIM-02''
     \<and> \<not> hasFinding fs ''LIM-03'' \<and> \<not> hasFinding fs ''LIM-05''"
  unfolding verdict_spec_def by (simp split: if_split)

lemma capping_iff:
  "(\<forall>fd\<in>set fs. fd_RuleID fd \<notin> set capping) \<longleftrightarrow>
     \<not> hasFinding fs ''HOST-02'' \<and> \<not> hasFinding fs ''LIM-01'' \<and> \<not> hasFinding fs ''LIM-02''
     \<and> \<not> hasFinding fs ''LIM-03'' \<and> \<not> hasFinding fs ''LIM-05''"
proof -
  have "(\<forall>fd\<in>set fs. fd_RuleID fd \<notin> set capping) \<longleftrightarrow> (\<forall>i\<in>set capping. \<not> hasFinding fs i)"
    by (auto simp: hasFinding_def list_ex_iff)
  then show ?thesis by (simp add: capping_def)
qed

lemma harmless_iff:
  "list_all harmless (run_rules Rules f t) \<longleftrightarrow>
     \<not> (\<exists>fd\<in>set (run_rules Rules f t). fd_Category fd \<noteq> CategoryHost \<and> fd_Category fd \<noteq> CategoryLimitation)
     \<and> (\<forall>fd\<in>set (run_rules Rules f t). fd_RuleID fd \<notin> set capping)"
  using finding_kinds [of _ f t] by (auto simp: list_all_iff)

text \<open>
  EXCELLENT is given exactly when nothing was found but host markers that had no symptom to
  explain (HOST-01, HOST-03, HOST-04) or the note on an assumed UDP rate (LIM-04): no physical,
  transport or performance finding, no virtual interface, no missing coverage, no interruption.
\<close>

theorem excellent_iff_harmless:
  "ev_Class (evaluate cv f t) = HealthExcellent \<longleftrightarrow> list_all harmless (ev_Findings (evaluate cv f t))"
  using run_well_rated [of f t]
  by (simp only: evaluate_simps classify_verdict excellent_iff harmless_iff capping_iff rated_somewhere)

subsection \<open>The score\<close>

text \<open>
  C5. The score never contradicts the class: an evaluation has no score exactly when it is
  INCONCLUSIVE, and otherwise its score lies in the band of its class, hence between 0 and 100.
\<close>

theorem score_in_band:
  "case ev_Score (Evaluate cv f) of
     None \<Rightarrow> ev_Class (Evaluate cv f) = HealthInconclusive
   | Some v \<Rightarrow> ev_Class (Evaluate cv f) \<noteq> HealthInconclusive
       \<and> sb_Min (scoreBand Default (ev_Class (Evaluate cv f))) \<le> v
       \<and> v \<le> sb_Max (scoreBand Default (ev_Class (Evaluate cv f)))
       \<and> 0 \<le> v \<and> v \<le> 100"
proof (cases "ev_Score (Evaluate cv f)")
  case None
  then show ?thesis by (simp add: Evaluate_def scoreFor_def split: if_splits)
next
  case (Some v)
  have ni: "ev_Class (Evaluate cv f) \<noteq> HealthInconclusive"
    using Some by (auto simp: Evaluate_def scoreFor_def split: if_splits)
  have band: "sb_Min (scoreBand Default (ev_Class (Evaluate cv f))) \<le> v
      \<and> v \<le> sb_Max (scoreBand Default (ev_Class (Evaluate cv f)))"
    using scoreFor_band [OF Default_bands_valid] Some by (simp add: Evaluate_def)
  moreover have "0 \<le> sb_Min (scoreBand Default c) \<and> sb_Max (scoreBand Default c) \<le> 100" for c
    by (cases c) (simp_all add: Default_def)
  ultimately have "0 \<le> v \<and> v \<le> 100" by (meson order_trans)
  with Some ni band show ?thesis by simp
qed

fun class_rank :: "HealthClass \<Rightarrow> nat" where
  "class_rank HealthFailed = 0"
| "class_rank HealthPoor = 1"
| "class_rank HealthWarning = 2"
| "class_rank HealthGood = 3"
| "class_rank HealthExcellent = 4"
| "class_rank HealthInconclusive = 5"

lemma bands_disjoint:
  "class_rank a < class_rank b \<Longrightarrow> b \<noteq> HealthInconclusive \<Longrightarrow>
   sb_Max (scoreBand Default a) < sb_Min (scoreBand Default b)"
  by (cases a; cases b) (simp_all add: Default_def)

text \<open>
  Scores rank runs as their classes do: of two evaluations with a score, the one with the worse
  class has the strictly lower score, whatever their facts.
\<close>

theorem score_follows_class:
  assumes "ev_Score (Evaluate cv f) = Some v" and "ev_Score (Evaluate cv g) = Some w"
    and "class_rank (ev_Class (Evaluate cv f)) < class_rank (ev_Class (Evaluate cv g))"
  shows "v < w"
proof -
  have "ev_Class (Evaluate cv g) \<noteq> HealthInconclusive"
    using assms(2) by (auto simp: Evaluate_def scoreFor_def split: if_splits)
  then have "sb_Max (scoreBand Default (ev_Class (Evaluate cv f))) < sb_Min (scoreBand Default (ev_Class (Evaluate cv g)))"
    using bands_disjoint assms(3) by blast
  moreover have "v \<le> sb_Max (scoreBand Default (ev_Class (Evaluate cv f)))"
    "sb_Min (scoreBand Default (ev_Class (Evaluate cv g))) \<le> w"
    using scoreFor_band [OF Default_bands_valid] assms(1,2) by (simp_all add: Evaluate_def)
  ultimately show ?thesis by linarith
qed

text \<open>
  An evaluation is deterministic across platforms: it does not depend on what the
  implementation returns for a float64 that does not fit an integer, because the raw score is
  always a number between -265 and 100 and so converts exactly.
\<close>

theorem evaluate_platform_independent: "evaluate cv f t = evaluate cv' f t"
  unfolding evaluate_def Let_def by (simp add: scoreFor_cv [of cv _ _ _ _ cv'])

subsection \<open>Concrete runs\<close>

text \<open>A clean gigabit run, and the same run with the link down at the end.\<close>

definition measured_side :: SideFacts where
  "measured_side = zero_side\<lparr>sf_RXErrorEvidence := True, sf_DeltaOK := True, sf_CountersAvailable := True,
     sf_BaselineCaptured := True\<rparr>"

definition gigabit_dir :: DirFacts where
  "gigabit_dir = zero_dir\<lparr>df_TCPAvailable := True, df_TCPTrialCount := 3, df_TCPBitrate := 940000000\<rparr>"

definition clean_facts :: Facts where
  "clean_facts = zero_facts\<lparr>fa_PC1 := measured_side, fa_PC2 := measured_side, fa_Dir0 := gigabit_dir,
     fa_Dir1 := gigabit_dir, fa_NegotiatedSpeed := 1000000000, fa_ExpectedSpeed := 1000000000,
     fa_LinkUpAtEnd := True\<rparr>"

definition down_facts :: Facts where
  "down_facts = clean_facts\<lparr>fa_LinkUpAtEnd := False\<rparr>"

lemma clean_run:
  "let e = Evaluate zero_conv clean_facts
   in ev_Class e = HealthExcellent \<and> ev_Score e = Some 100 \<and> ev_Findings e = []"
  by code_simp

lemma down_run:
  "let e = Evaluate zero_conv down_facts in ev_Class e = HealthFailed \<and> ev_Score e = Some 25"
  by code_simp

subsection \<open>Clean runs\<close>

text \<open>What a direction must look like for no transport or performance rule to fire on it.\<close>

definition quiet_dir :: "Thresholds \<Rightarrow> DirFacts \<Rightarrow> bool" where
  "quiet_dir t d \<longleftrightarrow>
     fle (df_PingLossPct d) (Fin 0)
     \<and> (df_TCPAvailable d \<longrightarrow> flt (fmax (df_TCPRetransRate d) (df_TCPRetransRateWorst d)) (TCPRetransWarningAt t)
          \<and> flt (df_TCPCoV d) (TCPCoVWarningAt t))
     \<and> (df_UDPAvailable d \<and> df_UDPTargetReached d \<longrightarrow>
          fgt (df_UDPMaxCPUPct d) (CPUHostLimitedAbove t) \<or> flt (df_UDPLossPct d) (UDPLossWarningAt t))
     \<and> (df_UDPAvailable d \<longrightarrow> \<not> fgt (df_UDPJitterMs d) (UDPJitterWarningAbove t))"

lemma silent_rule: "run_rules Rules f t = [] \<Longrightarrow> r \<in> set Rules \<Longrightarrow> ru_Evaluate r f t = None"
  using set_run_rules [of _ Rules f t] by (cases "ru_Evaluate r f t") auto

lemma silent_rules:
  assumes "run_rules Rules f t = []"
  shows "rulePHY02 f t = None" "rulePHY03 f t = None" "rulePHY04 f t = None" "rulePHY05 f t = None"
    "rulePHY06 f t = None" "ruleTR01 f t = None" "ruleTR06 f t = None" "ruleTR07 f t = None" "ruleTR08 f t = None"
    "rulePERF01 f t = None" "rulePERF02 f t = None" "rulePERF03 f t = None" "rulePERF04 f t = None"
proof -
  have "list_all (\<lambda>r. ru_Evaluate r f t = None) Rules" using silent_rule [OF assms] by (simp add: list_all_iff)
  then show "rulePHY02 f t = None" "rulePHY03 f t = None" "rulePHY04 f t = None" "rulePHY05 f t = None"
    "rulePHY06 f t = None" "ruleTR01 f t = None" "ruleTR06 f t = None" "ruleTR07 f t = None" "ruleTR08 f t = None"
    "rulePERF01 f t = None" "rulePERF02 f t = None" "rulePERF03 f t = None" "rulePERF04 f t = None"
    by (simp_all add: Rules_def physicalRules_def)
qed

lemma silent_physical:
  assumes "run_rules Rules f t = []"
  shows "crcTotal f = 0" "fst (carrierEvents f) = 0" "fa_Renegotiations f < 1" "\<not> fa_HalfDuplex f" "\<not> phy06cond f"
  using silent_rules [OF assms]
  by (auto simp: rulePHY02_def rulePHY03_def rulePHY04_def rulePHY05_def rulePHY06_def Let_def split: if_splits prod.splits)

lemma silent_dirs:
  assumes "run_rules Rules f t = []"
  shows "quiet_dir t (fa_Dir0 f) \<and> quiet_dir t (fa_Dir1 f)"
proof -
  note r = silent_rules [OF assms]
  have 1: "fle (df_PingLossPct (fa_Dir0 f)) (Fin 0) \<and> fle (df_PingLossPct (fa_Dir1 f)) (Fin 0)"
    using r(6) by (auto simp: ruleTR01_def worst_finding_def dir_loop_def TR01_step_def Let_def raise_to_def severity_defs split: if_splits)
  have 2: "(df_TCPAvailable d \<longrightarrow> flt (fmax (df_TCPRetransRate d) (df_TCPRetransRateWorst d)) (TCPRetransWarningAt t))"
    if "d = fa_Dir0 f \<or> d = fa_Dir1 f" for d
    using r(7) that by (auto simp: ruleTR06_def worst_finding_def dir_loop_def TR06_step_def Let_def raise_to_def severity_defs split: if_splits)
  have 3: "(df_TCPAvailable d \<longrightarrow> flt (df_TCPCoV d) (TCPCoVWarningAt t))" if "d = fa_Dir0 f \<or> d = fa_Dir1 f" for d
    using r(11) that by (auto simp: rulePERF02_def worst_finding_def dir_loop_def PERF02_step_def raise_to_def severity_defs split: if_splits)
  have 4: "df_UDPAvailable d \<and> df_UDPTargetReached d \<longrightarrow>
          fgt (df_UDPMaxCPUPct d) (CPUHostLimitedAbove t) \<or> flt (df_UDPLossPct d) (UDPLossWarningAt t)"
    if "d = fa_Dir0 f \<or> d = fa_Dir1 f" for d
    using r(8) that by (auto simp: ruleTR07_def worst_finding_def dir_loop_def TR07_step_def raise_to_def severity_defs split: if_splits)
  have 5: "df_UDPAvailable d \<longrightarrow> \<not> fgt (df_UDPJitterMs d) (UDPJitterWarningAbove t)"
    if "d = fa_Dir0 f \<or> d = fa_Dir1 f" for d
    using r(9) that by (auto simp: ruleTR08_def evidence_finding_def dir_loop_def TR08_step_def split: if_splits)
  show ?thesis using 1 2 3 4 5 by (auto simp: quiet_dir_def)
qed

lemma f64_of_rat_zero [simp]: "f64_of_rat 0 = Fin 0"
  using f64_of_rat_fin [of 0 0] by simp

lemma fsub_zero: "fsub (Fin 100) (Fin 0) = Fin 100"
  using f64_of_rat_fin [of 100 100] by (simp add: fsub_def)

lemma physical_silent:
  "run_rules Rules f t = [] \<Longrightarrow> physical_deductions f (Fin 100) = Fin 100"
  using silent_physical [of f t]
  by (simp add: physical_deductions_def Let_def deduct_if_def f64_of_u64_def mathMin_def fmin_def fsub_zero)

lemma Default_ladder:
  "fle (TCPRetransWarningAt Default) (TCPRetransPoorAbove Default)"
  "fle (UDPLossWarningAt Default) (UDPLossPoorAbove Default)"
  "fle (TCPCoVWarningAt Default) (TCPCoVPoorAbove Default)"
  by (simp_all add: Default_def f64_of_rat_mono)

lemma flt_not: "flt a b \<Longrightarrow> \<not> fle b a" "fle a b \<Longrightarrow> \<not> flt b a" "flt a b \<Longrightarrow> fle b c \<Longrightarrow> \<not> flt c a"
  using flt_antisym fle_flt_trans flt_fle_trans by (metis, metis, metis)

lemma dir_silent: "quiet_dir Default d \<Longrightarrow> dir_deductions Default i d s = s"
proof -
  assume q: "quiet_dir Default d"
  have ping: "\<not> fgt (df_PingLossPct d) (Fin 0)" using q flt_not(2) by (simp add: quiet_dir_def)
  have burst: "\<not> fge (fmax (df_TCPRetransRate d) (df_TCPRetransRateWorst d)) (TCPRetransWarningAt Default)"
    if "df_TCPAvailable d" using q that flt_not(1) by (simp add: quiet_dir_def)
  have udp: "\<not> fgt (df_UDPLossPct d) (UDPLossPoorAbove Default) \<and> \<not> fge (df_UDPLossPct d) (UDPLossWarningAt Default)"
    if "fle (df_UDPMaxCPUPct d) (CPUHostLimitedAbove Default)" "df_UDPAvailable d" "df_UDPTargetReached d"
    using q that flt_not Default_ladder(2) unfolding quiet_dir_def by metis
  have retrans: "\<not> fgt (df_TCPRetransRate d) (TCPRetransPoorAbove Default)" if "df_TCPAvailable d"
  proof -
    have b: "flt (fmax (df_TCPRetransRate d) (df_TCPRetransRateWorst d)) (TCPRetransWarningAt Default)"
      using q that by (simp add: quiet_dir_def)
    then have "fle (df_TCPRetransRate d) (fmax (df_TCPRetransRate d) (df_TCPRetransRateWorst d))"
      using fmax_ge flt_nan(1) by metis
    then show ?thesis using b Default_ladder(1) flt_not(3) fle_flt_trans by metis
  qed
  show ?thesis using ping burst udp retrans by (simp add: dir_deductions_def Let_def)
qed

lemma silent_assess:
  assumes "rulePERF01 f t = None" and "d = fa_Dir0 f \<and> i = 0 \<or> d = fa_Dir1 f \<and> i = 1" and "df_TCPAvailable d"
  shows "\<not> fst (snd (snd (assessThroughput f i t)))"
  using assms assess_in [of f i t]
  by (auto simp: rulePERF01_def dir_loop_def PERF01_step_def raise_to_def severity_defs split: prod.splits if_splits)

lemma sat_zero: "saturatingPositiveTotal a b = 0 \<Longrightarrow> a \<le> 0 \<and> b \<le> 0"
  by (auto simp: saturatingPositiveTotal_eq maxInt_def)

lemma sat_nonpos: "a \<le> 0 \<Longrightarrow> b \<le> 0 \<Longrightarrow> saturatingPositiveTotal a b = 0"
  by (simp add: saturatingPositiveTotal_eq maxInt_def)

text \<open>The state of the host-sensitive loop when no performance rule fired.\<close>

definition calm :: "f64 \<times> int \<times> int \<times> severity \<Rightarrow> bool" where
  "calm acc \<longleftrightarrow> (case acc of (cov, c0, c1, worst) \<Rightarrow>
     flt cov (TCPCoVWarningAt Default) \<and> c0 \<le> 0 \<and> c1 \<le> 0 \<and> worst = SevNone)"

lemma calm_step:
  assumes "calm acc" and "quiet_dir Default d" and "df_TCPCollapses d \<le> 0"
    and "df_TCPAvailable d \<Longrightarrow> \<not> fst (snd (snd (assessThroughput f i Default)))"
  shows "calm (host_step f Default i d acc)"
  using assms by (cases acc) (auto simp: calm_def host_step_def quiet_dir_def split: prod.splits)

lemma calm_loop:
  assumes "run_rules Rules f Default = []"
  shows "calm (dir_loop (host_step f Default) f (Fin 0, 0, 0, SevNone))"
proof -
  note r = silent_rules [OF assms]
  have c: "df_TCPCollapses (fa_Dir0 f) \<le> 0 \<and> df_TCPCollapses (fa_Dir1 f) \<le> 0"
    using r(12) by (intro sat_zero) (auto simp: rulePERF03_def tcpCollapseTotal_def Let_def split: if_splits)
  have "calm (Fin 0, 0, 0, SevNone)"
    unfolding calm_def by (simp add: Default_def) code_simp
  then show ?thesis
    unfolding dir_loop_def
    using silent_dirs [OF assms] c silent_assess [OF r(10)] by (intro calm_step) auto
qed

lemma performance_silent:
  assumes "run_rules Rules f Default = []"
  shows "performance_deductions f Default (Fin 100) = Fin 100"
proof -
  obtain cov c0 c1 worst where acc: "dir_loop (host_step f Default) f (Fin 0, 0, 0, SevNone) = (cov, c0, c1, worst)"
    by (cases "dir_loop (host_step f Default) f (Fin 0, 0, 0, SevNone)") auto
  then have c: "flt cov (TCPCoVWarningAt Default)" "c0 \<le> 0" "c1 \<le> 0" "worst = SevNone"
    using calm_loop [OF assms] by (auto simp: calm_def)
  have "\<not> fgt cov (TCPCoVPoorAbove Default)" "\<not> fge cov (TCPCoVWarningAt Default)"
    using c(1) Default_ladder(3) flt_not by metis+
  moreover have "\<not> fgt (asymmetryRatio f) (TCPAsymmetryWarnAbove Default)"
    using silent_rules(13) [OF assms] flt_not(2) by (auto simp: rulePERF04_def Let_def split: if_splits)
  moreover have "mathMin (Fin 20) (fmul (Fin 5) (f64_of_int 0)) = Fin 0"
    by (simp add: mathMin_def fmin_def)
  ultimately show ?thesis
    using acc c(2-4)
    by (simp add: performance_deductions_def Let_def sat_nonpos fsub_zero deduct_if_def)
      (simp add: severity_defs)
qed

text \<open>Jitter is only ever recorded for a direction that ran UDP.\<close>

definition jitter_measured :: "Facts \<Rightarrow> bool" where
  "jitter_measured f \<longleftrightarrow>
     (\<not> df_UDPAvailable (fa_Dir0 f) \<longrightarrow> df_UDPJitterMs (fa_Dir0 f) = Fin 0)
     \<and> (\<not> df_UDPAvailable (fa_Dir1 f) \<longrightarrow> df_UDPJitterMs (fa_Dir1 f) = Fin 0)"

lemma score_silent:
  assumes "run_rules Rules f Default = []" and "jitter_measured f"
  shows "raw_score f [] Default = Fin 100"
proof -
  have j: "\<not> fgt (Fin 0) (UDPJitterWarningAbove Default)" by code_simp
  have "\<not> fgt (df_UDPJitterMs (fa_Dir0 f)) (UDPJitterWarningAbove Default)"
    "\<not> fgt (df_UDPJitterMs (fa_Dir1 f)) (UDPJitterWarningAbove Default)"
    using silent_dirs [OF assms(1)] assms(2) j by (auto simp: quiet_dir_def jitter_measured_def)
  then show ?thesis
    using silent_dirs [OF assms(1)] performance_silent [OF assms(1)] physical_silent [OF assms(1)]
    by (simp add: raw_score_def Let_def dir_loop_def dir_silent hasFinding_def deduct_if_def)
qed

text \<open>
  A run on which no rule fires is EXCELLENT with the full score of 100 and no recommendation:
  the score table has no deduction that its rules do not report.
\<close>

theorem silent_run_is_perfect:
  assumes "ev_Findings (Evaluate cv (FactsFromReport cv r)) = []"
  shows "ev_Class (Evaluate cv (FactsFromReport cv r)) = HealthExcellent
    \<and> ev_Score (Evaluate cv (FactsFromReport cv r)) = Some 100
    \<and> ev_Recommendations (Evaluate cv (FactsFromReport cv r)) = []"
proof -
  let ?f = "FactsFromReport cv r"
  have e: "run_rules Rules ?f Default = []" using assms by (simp add: Evaluate_def)
  have c: "classify [] ?f = HealthExcellent"
    by (simp add: classify_verdict well_rated_def verdict_spec_def rated_at_def hasFinding_def)
  have "jitter_measured ?f"
    using unmeasured_jitter [of 0 cv r Default] unmeasured_jitter [of 1 cv r Default]
    by (auto simp: jitter_measured_def FactsFromReport_def dir_def)
  then have s: "raw_score ?f [] Default = Fin 100" by (rule score_silent [OF e])
  have "round_away (of_int 100) = 100" "in_i64 100"
    using round_away_bounds [of 100 "of_int 100" 100] by (simp_all add: in_i64_def minInt_def maxInt_def)
  then have "f64_to_i64 cv (mathRound (Fin 100)) = 100"
    using trunc_of_int [of 100] by simp
  moreover have "clampToBand 100 HealthExcellent Default = 100" by (simp add: clampToBand_def Default_def)
  ultimately have "scoreFor cv ?f [] HealthExcellent Default = Some 100"
    by (simp only: scoreFor_def s) simp
  then show ?thesis using e c by (simp add: Evaluate_def recommend_def)
qed

definition clean_report :: Report where
  "clean_report = zero_report\<lparr>
     rp_Configuration := zero_config\<lparr>ec_TCPRepeats := 1\<rparr>,
     rp_PC1 := zero_peer\<lparr>pr_NIC := zero_nic\<lparr>nic_SpeedMbps := 1000\<rparr>\<rparr>,
     rp_Tests := zero_tests\<lparr>
       te_TCP := [demo_tcp DirectionPC1ToPC2 False, demo_tcp DirectionPC2ToPC1 False],
       te_UDP := [demo_udp 500000000 (Fin 0)]\<rparr>,
     rp_InitialCounters := \<lparr>pc_PC1 = Some snapshot1, pc_PC2 = Some snapshot1\<rparr>,
     rp_FinalCounters := \<lparr>pc_PC1 = Some snapshot1, pc_PC2 = Some snapshot1\<rparr>\<rparr>"

end
