(* ===== verification/Verdict.thy ===== *)
theory Verdict
  imports Evaluator
begin

section \<open>Guarantees of a verdict over its evidence\<close>

text \<open>
  What the evaluation of \<open>internal/evaluate\<close> guarantees about the facts behind a verdict: which
  missing evidence rules out a clean verdict, that counters of an unreliable capture are never read,
  when the throughput outlier cap may apply, and what a virtual interface changes.
\<close>

lemma fired:
  assumes "r \<in> set Rules"
  shows "hasFinding (run_rules Rules f t) (ru_ID r) \<longleftrightarrow> ru_Evaluate r f t \<noteq> None"
  using ce.hasFinding_iff [OF assms] .

lemma marker_fires:
  "hasFinding (run_rules Rules f t) ''HOST-02'' \<longleftrightarrow> ruleHOST02 f t \<noteq> None"
  "hasFinding (run_rules Rules f t) ''LIM-01'' \<longleftrightarrow> ruleLIM01 f t \<noteq> None"
  "hasFinding (run_rules Rules f t) ''LIM-02'' \<longleftrightarrow> ruleLIM02 f t \<noteq> None"
  "hasFinding (run_rules Rules f t) ''LIM-03'' \<longleftrightarrow> ruleLIM03 f t \<noteq> None"
  "hasFinding (run_rules Rules f t) ''LIM-05'' \<longleftrightarrow> ruleLIM05 f t \<noteq> None"
  using fired [of "\<lparr>ru_ID = ''HOST-02'', ru_Category = CategoryHost, ru_Evaluate = ruleHOST02\<rparr>" f t]
    fired [of "\<lparr>ru_ID = ''LIM-01'', ru_Category = CategoryLimitation, ru_Evaluate = ruleLIM01\<rparr>" f t]
    fired [of "\<lparr>ru_ID = ''LIM-02'', ru_Category = CategoryLimitation, ru_Evaluate = ruleLIM02\<rparr>" f t]
    fired [of "\<lparr>ru_ID = ''LIM-03'', ru_Category = CategoryLimitation, ru_Evaluate = ruleLIM03\<rparr>" f t]
    fired [of "\<lparr>ru_ID = ''LIM-05'', ru_Category = CategoryLimitation, ru_Evaluate = ruleLIM05\<rparr>" f t]
  by (simp_all add: Rules_def)

subsection \<open>A clean verdict needs evidence\<close>

definition critical_evidence :: "Facts \<Rightarrow> bool" where
  "critical_evidence f \<longleftrightarrow>
     (df_TCPAvailable (fa_Dir0 f) \<or> df_TCPAvailable (fa_Dir1 f))
     \<and> (sf_CountersAvailable (fa_PC1 f) \<or> sf_CountersAvailable (fa_PC2 f))
     \<and> (sf_RXErrorEvidence (fa_PC1 f) \<or> sf_RXErrorEvidence (fa_PC2 f))
     \<and> \<not> fa_Partial f \<and> \<not> fa_ThroughputUnreachable f \<and> \<not> fa_VirtualInterface f"

lemma critical_iff:
  "critical_evidence f \<longleftrightarrow>
     ruleLIM01 f t = None \<and> ruleLIM03 f t = None \<and> ruleLIM05 f t = None \<and> ruleHOST02 f t = None"
  by (auto simp: critical_evidence_def rule_defs Let_def)

lemma good_needs:
  "verdict_spec fs = HealthExcellent \<or> verdict_spec fs = HealthGood \<Longrightarrow>
   \<not> hasFinding fs ''HOST-02'' \<and> \<not> hasFinding fs ''LIM-01'' \<and> \<not> hasFinding fs ''LIM-03'' \<and> \<not> hasFinding fs ''LIM-05''"
  unfolding verdict_spec_def by (simp split: if_splits)

lemma clean_needs_critical:
  assumes "ev_Class (evaluate cv f t) = HealthExcellent \<or> ev_Class (evaluate cv f t) = HealthGood"
  shows "critical_evidence f"
  using good_needs [of "run_rules Rules f t"] assms
  by (simp add: classify_verdict run_well_rated marker_fires critical_iff [of f t])

subsection \<open>Virtual interfaces\<close>

text \<open>
  On a virtual interface the verdict is INCONCLUSIVE unless physical evidence convicts: then it
  is FAILED or POOR all the same. So the promise that such a run is always INCONCLUSIVE does not hold.
\<close>

theorem virtual_interface_verdict:
  assumes "fa_VirtualInterface f"
  shows "ev_Class (evaluate cv f t) =
    (if fatal_evidence f t then HealthFailed
     else if physical_at (ev_Findings (evaluate cv f t)) SevPoor then HealthPoor
     else HealthInconclusive)"
proof -
  have "hasFinding (run_rules Rules f t) ''HOST-02''" using assms by (simp add: marker_fires ruleHOST02_def)
  then show ?thesis
    by (simp add: classify_verdict run_well_rated verdict_spec_def physical_failed_iff)
qed

subsection \<open>The outlier cap\<close>

text \<open>
  C6. The outlier cap is sound: a direction is only capped to WARNING when its aggregate is POOR,
  exactly one of at least two trials missed the policy, both captures are reliable with receive-error
  counters on both sides, and no physical finding is part of the evaluation.
\<close>

theorem outlier_cap_sound:
  assumes "assessThroughput f i t = (ratio, sev, dev, True)"
  shows "sev = SevWarning \<and> dev
    \<and> classifyThroughput (df_TCPBitrate (dir f i)) (fa_NegotiatedSpeed f) t = (ratio, SevPoor, True)
    \<and> 2 \<le> df_TCPTrialCount (dir f i) \<and> df_TCPThroughputDeviations (dir f i) = 1
    \<and> sf_DeltaOK (fa_PC1 f) \<and> sf_DeltaOK (fa_PC2 f)
    \<and> sf_RXErrorEvidence (fa_PC1 f) \<and> sf_RXErrorEvidence (fa_PC2 f)
    \<and> \<not> list_ex (\<lambda>fd. fd_Category fd = CategoryPhysical) (ev_Findings (evaluate cv f t))"
proof -
  obtain ra sv dv where c: "classifyThroughput (df_TCPBitrate (dir f i)) (fa_NegotiatedSpeed f) t = (ra, sv, dv)"
    by (metis surj_pair)
  have a: "dv" "\<not> sv \<le> SevWarning" "2 \<le> df_TCPTrialCount (dir f i)" "df_TCPThroughputDeviations (dir f i) = 1"
    "physicalLayerClean f t" "sev = SevWarning" "dev" "ra = ratio"
    using assms by (auto simp: assessThroughput_def c Let_def split: if_splits)
  have "sv = SevPoor"
    using c a(1,2) by (auto simp: classifyThroughput_def severity_defs Let_def split: option.splits if_splits)
  moreover have "\<not> list_ex (\<lambda>fd. fd_Category fd = CategoryPhysical) (run_rules Rules f t)"
  proof
    assume "list_ex (\<lambda>fd. fd_Category fd = CategoryPhysical) (run_rules Rules f t)"
    then obtain fd r where r: "r \<in> set Rules" "ru_Evaluate r f t = Some fd" "fd_Category fd = CategoryPhysical"
      by (auto simp: list_ex_iff set_run_rules)
    then have "r \<in> set (filter (\<lambda>r. ru_Category r = CategoryPhysical) Rules)" using ce.signs [OF r(1,2)] by simp
    then have "ru_Evaluate r f t = None"
      unfolding Rules_physical using a(5) by (auto simp: physicalLayerClean_def list_all_iff split: if_splits)
    with r(2) show False by simp
  qed
  ultimately show ?thesis using a c by (auto simp: physicalLayerClean_def split: if_splits)
qed

definition outlier_facts :: Facts where
  "outlier_facts = clean_facts\<lparr>fa_Dir0 := gigabit_dir\<lparr>df_TCPBitrate := 300000000, df_TCPThroughputDeviations := 1\<rparr>\<rparr>"

theorem outlier_cap_sound_witness:
  "assessThroughput outlier_facts 0 Default
     = (fdiv (f64_of_u64 300000000) (f64_of_u64 1000000000), SevWarning, True, True)
   \<and> \<not> list_ex (\<lambda>fd. fd_Category fd = CategoryPhysical) (ev_Findings (evaluate zero_conv outlier_facts Default))"
proof -
  have a: "assessThroughput outlier_facts 0 Default
     = (fdiv (f64_of_u64 300000000) (f64_of_u64 1000000000), SevWarning, True, True)" by code_simp
  from outlier_cap_sound [OF a, of zero_conv] a show ?thesis by blast
qed

subsection \<open>Unreliable captures\<close>

text \<open>Two sides the evaluation may not tell apart: equal, or both unreliable with the same coverage.\<close>

definition side_equiv :: "SideFacts \<Rightarrow> SideFacts \<Rightarrow> bool" where
  "side_equiv a b \<longleftrightarrow>
     a = b
     \<or> \<not> sf_DeltaOK a \<and> \<not> sf_DeltaOK b
       \<and> sf_RXErrorEvidence a = sf_RXErrorEvidence b \<and> sf_CountersAvailable a = sf_CountersAvailable b
       \<and> sf_BaselineCaptured a = sf_BaselineCaptured b"

lemma side_equivD:
  assumes "side_equiv a b"
  shows "sf_DeltaOK a = sf_DeltaOK b" "sf_RXErrorEvidence a = sf_RXErrorEvidence b"
    "sf_CountersAvailable a = sf_CountersAvailable b" "sf_BaselineCaptured a = sf_BaselineCaptured b"
    "sf_DeltaOK b \<Longrightarrow> a = b"
  using assms by (auto simp: side_equiv_def)

definition facts_equiv :: "Facts \<Rightarrow> Facts \<Rightarrow> bool" where
  "facts_equiv f g \<longleftrightarrow>
     side_equiv (fa_PC1 f) (fa_PC1 g) \<and> side_equiv (fa_PC2 f) (fa_PC2 g)
     \<and> f = g\<lparr>fa_PC1 := fa_PC1 f, fa_PC2 := fa_PC2 f\<rparr>"

lemma facts_equivD:
  assumes "facts_equiv f g"
  shows "side_equiv (fa_PC1 f) (fa_PC1 g)" "side_equiv (fa_PC2 f) (fa_PC2 g)"
    "fa_Dir0 f = fa_Dir0 g" "fa_Dir1 f = fa_Dir1 g" "fa_NegotiatedSpeed f = fa_NegotiatedSpeed g"
    "fa_ExpectedSpeed f = fa_ExpectedSpeed g" "fa_HalfDuplex f = fa_HalfDuplex g"
    "fa_LinkUpAtEnd f = fa_LinkUpAtEnd g" "fa_Renegotiations f = fa_Renegotiations g"
    "fa_MonitorCarrierTransitions f = fa_MonitorCarrierTransitions g"
    "fa_CableTestRan f = fa_CableTestRan g" "fa_CableTestPairs f = fa_CableTestPairs g"
    "fa_MaxCPUPct f = fa_MaxCPUPct g" "fa_USBAdapter f = fa_USBAdapter g"
    "fa_VirtualInterface f = fa_VirtualInterface g" "fa_Partial f = fa_Partial g"
    "fa_UDPRateAssumed f = fa_UDPRateAssumed g" "fa_Unavailable f = fa_Unavailable g"
    "fa_ThroughputUnreachable f = fa_ThroughputUnreachable g"
  using assms unfolding facts_equiv_def by (cases f; cases g; simp)+

lemma side_equiv_lines:
  assumes "side_equiv a b"
  shows "crc_side name a ev = crc_side name b ev" "ring_side t name a ev = ring_side t name b ev"
  using side_equivD [OF assms] by (cases "sf_DeltaOK b"; simp add: crc_side_def ring_side_def)+

lemma equiv_sums:
  assumes "facts_equiv f g"
  shows "sumReliableSides f h = sumReliableSides g h" "carrierEvents f = carrierEvents g"
    "carrierPHYEvidence f = carrierPHYEvidence g"
proof -
  note 1 = side_equivD [OF facts_equivD(1) [OF assms]] and 2 = side_equivD [OF facts_equivD(2) [OF assms]]
  show "sumReliableSides f h = sumReliableSides g h"
    using 1(1,5) 2(1,5) by (simp add: sumReliableSides_def Let_def)
  show "carrierEvents f = carrierEvents g"
    using 1(1,5) 2(1,5) facts_equivD(10) [OF assms]
    by (cases "sf_DeltaOK (fa_PC1 g)"; cases "sf_DeltaOK (fa_PC2 g)") (simp_all add: carrierEvents_def Let_def)
  show "carrierPHYEvidence f = carrierPHYEvidence g"
    using 1(1,5) 2(1,5)
    by (cases "sf_DeltaOK (fa_PC1 g)"; cases "sf_DeltaOK (fa_PC2 g)") (simp_all add: carrierPHYEvidence_def)
qed

lemma equiv_helpers:
  assumes "facts_equiv f g"
  shows "crcTotal f = crcTotal g" "carrierPHYTotal f = carrierPHYTotal g" "jabberTotal f = jabberTotal g"
    "unclassifiedRXTotal f = unclassifiedRXTotal g" "crcEvidence f = crcEvidence g"
    "anyPingLossOver f = anyPingLossOver g" "phy06cond f = phy06cond g" "speed_line f = speed_line g"
    "dir f = dir g" "dir_loop b f = dir_loop b g" "asymmetryRatio f = asymmetryRatio g"
    "tcpCollapseTotal f = tcpCollapseTotal g" "TR07_step f = TR07_step g"
  using equiv_sums(1) [OF assms] side_equiv_lines facts_equivD [OF assms]
  by (auto simp: crcTotal_def carrierPHYTotal_def jabberTotal_def unclassifiedRXTotal_def crcEvidence_def
      anyPingLossOver_def phy06cond_def speed_line_def dir_def dir_loop_def asymmetryRatio_def
      tcpCollapseTotal_def TR07_step_def fun_eq_iff)

lemma equiv_limitations:
  assumes "facts_equiv f g"
  shows "LIM01_evidence f = LIM01_evidence g" "LIM02_evidence f = LIM02_evidence g" "ruleLIM01 f t = ruleLIM01 g t"
proof -
  note e = facts_equivD [OF assms] side_equivD [OF facts_equivD(1) [OF assms]] side_equivD [OF facts_equivD(2) [OF assms]]
  show l: "LIM01_evidence f = LIM01_evidence g" using e by (simp add: LIM01_evidence_def)
  show "LIM02_evidence f = LIM02_evidence g"
    using e by (cases "sf_RXErrorEvidence (fa_PC1 g)") (simp_all add: LIM02_evidence_def Let_def)
  show "ruleLIM01 f t = ruleLIM01 g t" using e l by (simp add: ruleLIM01_def)
qed

lemmas equiv_all = equiv_helpers equiv_limitations equiv_sums(2,3)

lemma equiv_physical:
  assumes "facts_equiv f g"
  shows "map (\<lambda>r. ru_Evaluate r f t) physicalRules = map (\<lambda>r. ru_Evaluate r g t) physicalRules"
  using facts_equivD [OF assms]
  by (simp add: physicalRules_def rulePHY01_def rulePHY02_def rulePHY03_def rulePHY04_def rulePHY05_def rulePHY06_def
      rulePHY07_def rulePHY08_def rulePHY09_def rulePHY10_def rulePHY11_def crcSeverity_def equiv_all [OF assms] Let_def)

lemma equiv_assess:
  assumes "facts_equiv f g"
  shows "assessThroughput f i t = assessThroughput g i t"
proof -
  have "list_all (\<lambda>r. ru_Evaluate r f t = None) physicalRules = list_all (\<lambda>r. ru_Evaluate r g t = None) physicalRules"
    using arg_cong [OF equiv_physical [OF assms, of t], of "list_all (\<lambda>x. x = None)"] by (simp add: list_all_iff)
  then have clean: "physicalLayerClean f t = physicalLayerClean g t"
    using side_equivD [OF facts_equivD(1) [OF assms]] side_equivD [OF facts_equivD(2) [OF assms]]
    by (simp add: physicalLayerClean_def)
  show ?thesis
    unfolding assessThroughput_def clean equiv_helpers(9) [OF assms] facts_equivD(5) [OF assms] ..
qed

lemma equiv_steps:
  assumes "facts_equiv f g"
  shows "PERF01_step f t = PERF01_step g t" "host_step f t = host_step g t"
  unfolding PERF01_step_def host_step_def equiv_assess [OF assms] facts_equivD(5) [OF assms] by simp_all

lemma equiv_PERF01: "facts_equiv f g \<Longrightarrow> rulePERF01 f t = rulePERF01 g t"
  by (simp add: rulePERF01_def equiv_steps(1) [of f g] equiv_helpers(10) [of f g])

lemma equiv_rules:
  assumes "facts_equiv f g"
  shows "map (\<lambda>r. ru_Evaluate r f t) Rules = map (\<lambda>r. ru_Evaluate r g t) Rules"
  using equiv_physical [OF assms, of t] facts_equivD [OF assms] side_equiv_lines
  by (simp add: Rules_def ruleTR01_def ruleTR02_def ruleTR03_def ruleTR04_def ruleTR05_def ruleTR06_def ruleTR07_def
      ruleTR08_def ruleTR09_def rulePERF02_def rulePERF03_def rulePERF04_def ruleHOST01_def ruleHOST02_def
      ruleHOST03_def ruleHOST04_def ruleLIM02_def ruleLIM03_def ruleLIM04_def ruleLIM05_def
      equiv_PERF01 [OF assms] equiv_all [OF assms] Let_def)

lemma equiv_findings:
  assumes "facts_equiv f g"
  shows "run_rules Rules f t = run_rules Rules g t"
proof -
  have "run_rules Rules h t = map the (filter (\<lambda>x. x \<noteq> None) (map (\<lambda>r. ru_Evaluate r h t) Rules))" for h
    by (simp add: run_rules_eq List.map_filter_def filter_map comp_def)
  then show ?thesis by (simp only: equiv_rules [OF assms])
qed

lemma equiv_score:
  assumes "facts_equiv f g"
  shows "raw_score f fs t = raw_score g fs t"
proof -
  have "physical_deductions f = physical_deductions g"
    by (simp add: physical_deductions_def fun_eq_iff equiv_all [OF assms] facts_equivD [OF assms])
  moreover have "performance_deductions f t = performance_deductions g t"
    by (simp add: performance_deductions_def [abs_def] equiv_all [OF assms] facts_equivD [OF assms] equiv_steps [OF assms])
  ultimately show ?thesis
    by (simp add: raw_score_def equiv_all [OF assms] facts_equivD [OF assms] Let_def)
qed

text \<open>
  Counters of an unreliable capture are never read: changing every counter value of a side
  whose capture pair is unreliable, with its coverage flags kept, leaves the whole evaluation
  unchanged: findings, evidence lines, class, score and recommendations.
\<close>

theorem unreliable_counters_ignored:
  assumes "facts_equiv f g"
  shows "evaluate cv f t = evaluate cv g t"
  unfolding evaluate_def Let_def scoreFor_def
  by (simp add: equiv_findings [OF assms] equiv_score [OF assms] classify_def)

subsection \<open>Receive-error aggregates and asymmetry\<close>

text \<open>
  Unexplained receive errors do not convict a cable: when the whole receive-error total comes from
  driver aggregates and no direction lost pings above the corroboration limit, PHY-02 stays at
  WARNING, however large the total.
\<close>

theorem aggregate_errors_only_warn:
  assumes "crcTotal f = unclassifiedRXTotal f" and "\<not> anyPingLossOver f (CRCCorroboratingPingLossAbove t)"
    and "rulePHY02 f t = Some fd"
  shows "fd_Severity fd = SevWarning"
  using assms by (auto simp: rulePHY02_def crcSeverity_def Let_def split: if_splits)

definition aggregate_facts :: Facts where
  "aggregate_facts = clean_facts\<lparr>fa_PC1 := measured_side\<lparr>sf_UnclassifiedRXErrors := 100000\<rparr>\<rparr>"

lemma f64_of_u64_value:
  obtains p where "f64_of_u64 a = Fin p" and "0 \<le> p" and "f64_of_rat p = Fin p"
proof -
  obtain q where q: "f64_of_u64 a = Fin q" "0 \<le> q" using f64_of_u64_Fin by blast
  then have "q = rnd (of_int (uint a))"
    by (auto simp: f64_of_u64_def f64_of_int_def f64_of_rat_def Let_def split: if_splits)
  then have "f64_of_rat q = f64_of_u64 a"
    using rnd_representable [OF representable_rnd] by (simp add: f64_of_u64_def f64_of_int_def f64_of_rat_def)
  with q that show ?thesis by simp
qed

lemma f64_of_rat_minus: "f64_of_rat (- x) = fneg (f64_of_rat x)"
proof -
  define B where "B = (2 :: rat) ^ 1024"
  have B: "0 < B" by (simp add: B_def)
  show ?thesis
    unfolding f64_of_rat_def Let_def rnd_minus B_def [symmetric] using B by auto
qed

lemma f64_of_rat_between:
  assumes "lo \<le> x" and "x \<le> hi" and "f64_of_rat lo = Fin lo" and "f64_of_rat hi = Fin hi"
  obtains y where "f64_of_rat x = Fin y" and "lo \<le> y" and "y \<le> hi"
proof -
  have "fle (Fin lo) (f64_of_rat x)" "fle (f64_of_rat x) (Fin hi)"
    using f64_of_rat_mono [OF assms(1)] f64_of_rat_mono [OF assms(2)] assms(3,4) by simp_all
  then obtain y where "f64_of_rat x = Fin y" by (cases "f64_of_rat x") (auto simp: fle_def feq_def)
  with that \<open>fle (Fin lo) (f64_of_rat x)\<close> \<open>fle (f64_of_rat x) (Fin hi)\<close> show ?thesis by simp
qed


text \<open>
  The asymmetry ratio of PERF-04 and of the score is always a number between 0 and 1, in spite
  of rounding: never a NaN, never negative, never above 100 percent.
\<close>

theorem asymmetryRatio_bounds: "fle (Fin 0) (asymmetryRatio f) \<and> fle (asymmetryRatio f) (Fin 1)"
proof (cases "df_TCPAvailable (fa_Dir0 f) \<and> df_TCPAvailable (fa_Dir1 f)")
  case True
  obtain p q where p: "f64_of_u64 (df_TCPBitrate (fa_Dir0 f)) = Fin p" "0 \<le> p" "f64_of_rat p = Fin p"
    and q: "f64_of_u64 (df_TCPBitrate (fa_Dir1 f)) = Fin q" "0 \<le> q" "f64_of_rat q = Fin q"
    by (metis f64_of_u64_value)
  define m where "m = max p q"
  have hi: "mathMax (Fin p) (Fin q) = Fin m" by (auto simp: mathMax_def fmax_def m_def)
  have m: "f64_of_rat m = Fin m" using p q by (simp add: m_def max_def)
  have 0: "f64_of_rat 0 = Fin 0" by simp
  show ?thesis
  proof (cases "m \<le> 0")
    case False
    have bounds: "- m \<le> p - q" "p - q \<le> m" using p(2) q(2) by (simp_all add: m_def)
    have "f64_of_rat (- m) = Fin (- m)" by (simp add: f64_of_rat_minus m)
    from f64_of_rat_between [OF bounds this m] obtain y where "f64_of_rat (p - q) = Fin y" "- m \<le> y" "y \<le> m" .
    then have y: "fsub (Fin p) (Fin q) = Fin y" "\<bar>y\<bar> \<le> m" by (simp_all add: fsub_def abs_le_iff)
    have abs: "mathAbs (Fin y) = Fin \<bar>y\<bar>" by (simp add: mathAbs_def)
    have 1: "f64_of_rat 1 = Fin 1" using f64_of_rat_fin [of 1 1] by simp
    have "0 \<le> \<bar>y\<bar> / m" "\<bar>y\<bar> / m \<le> 1" using y(2) False by simp_all
    from f64_of_rat_between [OF this 0 1] obtain z where "f64_of_rat (\<bar>y\<bar> / m) = Fin z" "0 \<le> z" "z \<le> 1" .
    then show ?thesis
      using True False by (simp add: asymmetryRatio_def p(1) q(1) hi y(1) abs)
  qed (use True in \<open>simp add: asymmetryRatio_def p(1) q(1) hi\<close>)
qed (simp add: asymmetryRatio_def)

end
