(* ===== verification/Framing.thy ===== *)
theory Framing
  imports GoFmt
begin

unbundle bit_operations_syntax

section \<open>Framed envelopes: \<open>internal/protocol/framing.go\<close>\<close>

text \<open>
  A frame is a 4-byte big-endian length and a JSON body. The connection is modelled from the side of
  \<open>Conn\<close>: the bytes that will still arrive, what the network reports when they are exhausted (end of
  file, an expired deadline, a reset), the bytes written so far, and, when the next write fails, how
  many bytes it gets out before it does. The JSON codec is a
  parameter, \<open>enc\<close> for \<open>json.Marshal\<close> and \<open>dec\<close> for \<open>json.Unmarshal\<close> into an
  \<open>Envelope\<close>; nothing is assumed of it, since framing has to carry any body.
\<close>

definition MaxFrameSize :: u32 where "MaxFrameSize = push_bit 20 1"
definition MinFrameSize :: u32 where "MinFrameSize = 2"
definition DefaultWriteTimeout :: int where "DefaultWriteTimeout = 10 * second"
definition DefaultIdleTimeout :: int where "DefaultIdleTimeout = 20 * second"

datatype io_error = ErrEOF | ErrUnexpectedEOF | ErrDeadlineExceeded | ErrClosed | ErrOther string

text \<open>\<open>FrameError\<close> with its fields, an error of the network, of the codec, or a bare text.\<close>

datatype conn_error =
    IOError io_error
  | FrameError (fe_Len: u64) (fe_Reason: string) (fe_Err: "conn_error option")
  | CodecError string
  | TextError string

record Conn =
  cn_input :: bytes
  cn_end :: io_error
  cn_output :: bytes
  cn_writeErr :: "(nat \<times> io_error) option"
  cn_closed :: bool
  cn_readErr :: "conn_error option"
  cn_maxFrame :: u32
  cn_writeTO :: int
  cn_idleTimeout :: int
  cn_readDeadline :: int
  cn_writeDeadline :: int

definition NewConn :: "bytes \<Rightarrow> io_error \<Rightarrow> Conn" where
  "NewConn input fin =
     \<lparr>cn_input = input, cn_end = fin, cn_output = [], cn_writeErr = None, cn_closed = False,
      cn_readErr = None, cn_maxFrame = MaxFrameSize, cn_writeTO = DefaultWriteTimeout,
      cn_idleTimeout = DefaultIdleTimeout, cn_readDeadline = 0, cn_writeDeadline = 0\<rparr>"

text \<open>\<open>binary.BigEndian\<close>.\<close>

definition PutUint32 :: "u32 \<Rightarrow> bytes" where
  "PutUint32 v = [ucast (drop_bit 24 v), ucast (drop_bit 16 v), ucast (drop_bit 8 v), ucast v]"

definition Uint32 :: "bytes \<Rightarrow> u32" where
  "Uint32 b =
     push_bit 24 (ucast (b ! 0)) OR push_bit 16 (ucast (b ! 1)) OR push_bit 8 (ucast (b ! 2)) OR ucast (b ! 3)"

text \<open>
  \<open>io.ReadFull\<close> of \<open>n > 0\<close> bytes: the bytes and the unread input, or the error; an end of file
  after some bytes is an unexpected one, and the bytes read are lost.
\<close>

definition ReadFull :: "nat \<Rightarrow> Conn \<Rightarrow> Conn \<times> (io_error + bytes)" where
  "ReadFull n c =
     (if n \<le> length (cn_input c)
      then (c\<lparr>cn_input := drop n (cn_input c)\<rparr>, Inr (take n (cn_input c)))
      else (c\<lparr>cn_input := []\<rparr>,
            Inl (if cn_end c = ErrEOF \<and> cn_input c \<noteq> [] then ErrUnexpectedEOF else cn_end c)))"

definition range_reason :: "u32 \<Rightarrow> string" where
  "range_reason maxFrame =
     ''frame length outside [2, '' @ show_nonneg (uint maxFrame) @ '']''"

text \<open>The lower-case \<open>readEnvelope\<close>.\<close>

definition readFrame :: "(bytes \<Rightarrow> string + 'e) \<Rightarrow> int \<Rightarrow> Conn \<Rightarrow> Conn \<times> (conn_error + 'e)" where
  "readFrame dec now c0 =
     (if cn_closed c0 then (c0, Inl (IOError ErrClosed))
      else
        let c = c0\<lparr>cn_readDeadline := now + cn_idleTimeout c0\<rparr>
        in case ReadFull 4 c of
             (c1, Inl e) \<Rightarrow> (c1, Inl (IOError e))
           | (c1, Inr hdr) \<Rightarrow>
               let n = Uint32 hdr
               in if n < MinFrameSize \<or> n > cn_maxFrame c1
                  then (c1, Inl (FrameError (ucast n) (range_reason (cn_maxFrame c1)) None))
                  else (case ReadFull (unat n) c1 of
                          (c2, Inl e) \<Rightarrow> (c2, Inl (IOError e))
                        | (c2, Inr buf) \<Rightarrow>
                            (case dec buf of
                               Inl e \<Rightarrow> (c2, Inl (FrameError (ucast n) ''invalid envelope JSON'' (Some (CodecError e))))
                             | Inr env \<Rightarrow> (c2, Inr env))))"

definition poison_reason :: string where
  "poison_reason = ''read after prior failure; stream position unknown, connection must be closed''"

definition ReadEnvelope :: "(bytes \<Rightarrow> string + 'e) \<Rightarrow> int \<Rightarrow> Conn \<Rightarrow> Conn \<times> (conn_error + 'e)" where
  "ReadEnvelope dec now c =
     (case cn_readErr c of
        Some e \<Rightarrow> (c, Inl (FrameError 0 poison_reason (Some e)))
      | None \<Rightarrow>
          (case readFrame dec now c of
             (c', Inl e) \<Rightarrow> (c'\<lparr>cn_readErr := Some e\<rparr>, Inl e)
           | (c', Inr env) \<Rightarrow> (c', Inr env)))"

definition oversize_reason :: "u32 \<Rightarrow> string" where
  "oversize_reason maxFrame =
     ''encoded envelope exceeds MaxFrameSize '' @ show_nonneg (uint maxFrame) @ ''; never truncated''"

text \<open>\<open>None\<close> as the envelope is the nil pointer; the second result is the returned error.\<close>

definition WriteEnvelope :: "('e \<Rightarrow> string + bytes) \<Rightarrow> int \<Rightarrow> 'e option \<Rightarrow> Conn \<Rightarrow> Conn \<times> conn_error option" where
  "WriteEnvelope enc now env c =
     (case env of
        None \<Rightarrow> (c, Some (TextError ''protocol: WriteEnvelope: nil envelope''))
      | Some e \<Rightarrow>
          (case enc e of
             Inl err \<Rightarrow> (c, Some (CodecError (''protocol: marshal envelope: '' @ err)))
           | Inr body \<Rightarrow>
               if length body > unat (cn_maxFrame c)
               then (c, Some (FrameError (of_nat (length body)) (oversize_reason (cn_maxFrame c)) None))
               else if cn_closed c then (c, Some (IOError ErrClosed))
               else
                 let buf = PutUint32 (of_nat (length body)) @ body;
                     c1 = c\<lparr>cn_writeDeadline := now + cn_writeTO c\<rparr>
                 in case cn_writeErr c1 of
                      Some (k, err) \<Rightarrow> (c1\<lparr>cn_output := cn_output c1 @ take k buf\<rparr>, Some (IOError err))
                    | None \<Rightarrow> (c1\<lparr>cn_output := cn_output c1 @ buf\<rparr>, None)))"

definition SetIdleTimeout :: "int \<Rightarrow> int \<Rightarrow> Conn \<Rightarrow> Conn" where
  "SetIdleTimeout now d c =
     (let c1 = c\<lparr>cn_idleTimeout := d\<rparr> in if cn_closed c1 then c1 else c1\<lparr>cn_readDeadline := now + d\<rparr>)"

definition Close :: "Conn \<Rightarrow> Conn" where
  "Close c = c\<lparr>cn_closed := True\<rparr>"

subsection \<open>The length prefix\<close>

lemma Uint32_PutUint32: "Uint32 (PutUint32 v) = v"
proof -
  have "bit (Uint32 (PutUint32 v)) i = bit v i" if "i < 32" for i
    using that
    by (cases "i < 8"; cases "i < 16"; cases "i < 24") (auto simp: Uint32_def PutUint32_def bit_simps bit_or_iff)
  then show ?thesis by (intro bit_word_eqI) simp
qed


lemma PutUint32_length [simp]: "length (PutUint32 v) = 4"
  by (simp add: PutUint32_def)

subsection \<open>Reading what was written\<close>

definition frame :: "bytes \<Rightarrow> bytes" where
  "frame body = PutUint32 (of_nat (length body)) @ body"

definition frame_fits :: "u32 \<Rightarrow> bytes \<Rightarrow> bool" where
  "frame_fits maxFrame body \<longleftrightarrow> unat MinFrameSize \<le> length body \<and> length body \<le> unat maxFrame"

text \<open>A connection that can read: open and not poisoned.\<close>

definition readable :: "Conn \<Rightarrow> bool" where
  "readable c \<longleftrightarrow> \<not> cn_closed c \<and> cn_readErr c = None"

lemma ReadEnvelope_frame:
  assumes "readable c" and "cn_input c = frame body @ rest" and "frame_fits (cn_maxFrame c) body"
  shows "ReadEnvelope dec now c =
    (let c' = c\<lparr>cn_readDeadline := now + cn_idleTimeout c, cn_input := rest\<rparr>
     in case dec body of
          Inl e \<Rightarrow> (let err = FrameError (of_nat (length body)) ''invalid envelope JSON'' (Some (CodecError e))
                    in (c'\<lparr>cn_readErr := Some err\<rparr>, Inl err))
        | Inr env \<Rightarrow> (c', Inr env))"
proof -
  let ?n = "of_nat (length body) :: u32"
  have n: "unat ?n = length body" using assms(3) le_unat_uoi by (auto simp: frame_fits_def)
  have "ucast ?n = (of_nat (length body) :: u64)"
    using n by (metis of_nat_unat)
  moreover have "\<not> ?n < MinFrameSize" "\<not> ?n > cn_maxFrame c"
    using assms(3) n by (simp_all add: frame_fits_def word_less_nat_alt)
  ultimately show ?thesis
    using assms(1,2) n Uint32_PutUint32 [of ?n]
    by (simp add: ReadEnvelope_def readFrame_def readable_def ReadFull_def frame_def Let_def split: sum.split)
qed

text \<open>Writers take the mutex one after another; \<open>write_all\<close> is the sequence of their writes.\<close>

definition write_all :: "('e \<Rightarrow> string + bytes) \<Rightarrow> int \<Rightarrow> 'e list \<Rightarrow> Conn \<Rightarrow> Conn" where
  "write_all enc now es c = fold (\<lambda>e c. fst (WriteEnvelope enc now (Some e) c)) es c"

fun read_all :: "(bytes \<Rightarrow> string + 'e) \<Rightarrow> int \<Rightarrow> nat \<Rightarrow> Conn \<Rightarrow> Conn \<times> 'e list \<times> conn_error option" where
  "read_all dec now 0 c = (c, [], None)"
| "read_all dec now (Suc n) c =
     (case ReadEnvelope dec now c of
        (c', Inl e) \<Rightarrow> (c', [], Some e)
      | (c', Inr env) \<Rightarrow> (case read_all dec now n c' of (c'', envs, err) \<Rightarrow> (c'', env # envs, err)))"

text \<open>Messages the codec carries over the wire within the size limit.\<close>

definition carried :: "('e \<Rightarrow> string + bytes) \<Rightarrow> (bytes \<Rightarrow> string + 'e) \<Rightarrow> u32 \<Rightarrow> 'e \<Rightarrow> bool" where
  "carried enc dec maxFrame e =
     (case enc e of Inl _ \<Rightarrow> False | Inr body \<Rightarrow> frame_fits maxFrame body \<and> dec body = Inr e)"

definition body_of :: "('e \<Rightarrow> string + bytes) \<Rightarrow> 'e \<Rightarrow> bytes" where
  "body_of enc e = (case enc e of Inl _ \<Rightarrow> [] | Inr body \<Rightarrow> body)"

lemma WriteEnvelope_carried:
  assumes "carried enc dec (cn_maxFrame c) e" and "\<not> cn_closed c" and "cn_writeErr c = None"
  shows "WriteEnvelope enc now (Some e) c =
    (c\<lparr>cn_writeDeadline := now + cn_writeTO c, cn_output := cn_output c @ frame (body_of enc e)\<rparr>, None)"
  using assms
  by (auto simp: carried_def WriteEnvelope_def frame_fits_def frame_def body_of_def Let_def split: sum.splits)

lemma write_all_output:
  assumes "list_all (carried enc dec (cn_maxFrame c)) es" and "\<not> cn_closed c" and "cn_writeErr c = None"
  shows "cn_output (write_all enc now es c) = cn_output c @ concat (map (\<lambda>a. frame (body_of enc a)) es)"
  using assms
proof (induction es arbitrary: c)
  case (Cons e es)
  let ?c = "c\<lparr>cn_writeDeadline := now + cn_writeTO c, cn_output := cn_output c @ frame (body_of enc e)\<rparr>"
  have "write_all enc now (e # es) c = write_all enc now es ?c"
    using Cons.prems WriteEnvelope_carried [of enc dec c e now] by (simp add: write_all_def)
  with Cons.IH [of ?c] Cons.prems show ?case by simp
qed (simp add: write_all_def)

lemma read_all_frames:
  assumes "list_all (carried enc dec (cn_maxFrame c)) es" and "readable c"
    and "cn_input c = concat (map (\<lambda>a. frame (body_of enc a)) es) @ rest"
  shows "\<exists>c'. read_all dec now (length es) c = (c', es, None) \<and> cn_input c' = rest \<and> readable c'"
  using assms
proof (induction es arbitrary: c)
  case (Cons e es)
  let ?tail = "concat (map (\<lambda>a. frame (body_of enc a)) es) @ rest"
  let ?c = "c\<lparr>cn_readDeadline := now + cn_idleTimeout c, cn_input := ?tail\<rparr>"
  obtain body where body: "enc e = Inr body" "frame_fits (cn_maxFrame c) body" "dec body = Inr e"
    using Cons.prems(1) by (auto simp: carried_def split: sum.splits)
  then have "ReadEnvelope dec now c = (?c, Inr e)"
    using Cons.prems(2,3) ReadEnvelope_frame [of c body ?tail dec now] by (simp add: body_of_def [of enc e])
  moreover have "\<exists>c'. read_all dec now (length es) ?c = (c', es, None) \<and> cn_input c' = rest \<and> readable c'"
    using Cons.prems by (intro Cons.IH) (simp_all add: readable_def)
  ultimately show ?case by auto
qed simp

text \<open>
  C34. The stream is never desynchronised: whatever envelopes are written one after the other, the peer
  that reads as many envelopes gets exactly these, in order and without an error, and stops at the first
  byte after them. The envelopes must encode to bodies within the frame limit that the codec
  decodes back.
\<close>

theorem stream_roundtrip:
  assumes "list_all (carried enc dec (cn_maxFrame w)) es"
    and "\<not> cn_closed w" and "cn_writeErr w = None" and "cn_output w = []"
    and "readable r" and "cn_maxFrame r = cn_maxFrame w"
    and "cn_input r = cn_output (write_all enc now es w) @ rest"
  shows "\<exists>r'. read_all dec now' (length es) r = (r', es, None) \<and> cn_input r' = rest \<and> readable r'"
  using assms write_all_output [OF assms(1-3), of now]
  by (intro read_all_frames) simp_all

text \<open>A codec for the witness: the byte list itself, bracketed as JSON arrays are.\<close>

definition demo_enc :: "bytes \<Rightarrow> string + bytes" where
  "demo_enc e = Inr (0x5B # e @ [0x5D])"

definition demo_dec :: "bytes \<Rightarrow> string + bytes" where
  "demo_dec body =
     (if 2 \<le> length body \<and> hd body = 0x5B \<and> last body = 0x5D then Inr (butlast (tl body)) else Inl ''syntax error'')"

theorem stream_roundtrip_witness:
  "\<exists>r'. read_all demo_dec 7 3 (NewConn
       (cn_output (write_all demo_enc 5 [[1, 2, 3], [], [255]] (NewConn [] ErrEOF)) @ [9, 9]) ErrEOF)
     = (r', [[1, 2, 3], [], [255]], None) \<and> cn_input r' = [9, 9]"
proof -
  let ?es = "[[1, 2, 3], [], [255]] :: bytes list" and ?w = "NewConn [] ErrEOF"
  have "list_all (carried demo_enc demo_dec (cn_maxFrame ?w)) ?es"
    by (simp add: carried_def demo_enc_def demo_dec_def frame_fits_def NewConn_def MinFrameSize_def MaxFrameSize_def)
  from stream_roundtrip [OF this, of "NewConn (cn_output (write_all demo_enc 5 ?es ?w) @ [9, 9]) ErrEOF" 5 "[9, 9]" 7]
  have "\<exists>r'. read_all demo_dec 7 (length ?es) (NewConn (cn_output (write_all demo_enc 5 ?es ?w) @ [9, 9]) ErrEOF)
      = (r', ?es, None) \<and> cn_input r' = [9, 9] \<and> readable r'"
    by (simp add: NewConn_def readable_def del: read_all.simps)
  moreover have "length ?es = 3" by simp
  ultimately show ?thesis by metis
qed

subsection \<open>Failures\<close>

text \<open>
  C35. A failed read poisons the connection: whatever the error was, every later read fails with a frame
  error that wraps the first one, consumes no byte and changes nothing.
\<close>

theorem read_failure_poisons:
  assumes "ReadEnvelope dec now c = (c', Inl e)" and "cn_readErr c = None"
  shows "ReadEnvelope dec' now' c' = (c', Inl (FrameError 0 poison_reason (Some e)))"
  using assms by (auto simp: ReadEnvelope_def split: prod.splits sum.splits option.splits)

theorem read_failure_poisons_witness:
  "ReadEnvelope demo_dec 3 (fst (ReadEnvelope demo_dec 2 (NewConn [0, 0] ErrEOF)))
   = (fst (ReadEnvelope demo_dec 2 (NewConn [0, 0] ErrEOF)),
      Inl (FrameError 0 poison_reason (Some (IOError ErrUnexpectedEOF))))"
proof -
  have "ReadEnvelope demo_dec 2 (NewConn [0, 0] ErrEOF)
      = (fst (ReadEnvelope demo_dec 2 (NewConn [0, 0] ErrEOF)), Inl (IOError ErrUnexpectedEOF))"
    by (simp add: ReadEnvelope_def readFrame_def ReadFull_def NewConn_def Let_def)
  from read_failure_poisons [OF this] show ?thesis by (simp add: NewConn_def)
qed

text \<open>
  A declared length outside the limits is rejected on the header alone: exactly the four header
  bytes are consumed, no body byte is read, and the connection is poisoned.
\<close>

theorem bad_length_rejected_on_header:
  assumes "readable c" and "cn_input c = PutUint32 n @ rest" and "n < MinFrameSize \<or> n > cn_maxFrame c"
  shows "\<exists>c'. ReadEnvelope dec now c = (c', Inl (FrameError (ucast n) (range_reason (cn_maxFrame c)) None))
    \<and> cn_input c' = rest \<and> cn_readErr c' \<noteq> None"
  using assms Uint32_PutUint32 [of n]
  by (auto simp: ReadEnvelope_def readFrame_def readable_def ReadFull_def Let_def)

text \<open>
  A write is whole or refused: without an error exactly one frame was appended to the wire, with a
  body within the limit; an encoding error, a nil envelope or an oversized body leaves the connection
  untouched; after a wire error at most a prefix of the one frame went out.
\<close>

theorem write_whole_or_refused:
  "case WriteEnvelope enc now env c of
     (c', None) \<Rightarrow> (case env of None \<Rightarrow> False | Some e \<Rightarrow>
        enc e = Inr (body_of enc e) \<and> length (body_of enc e) \<le> unat (cn_maxFrame c)
        \<and> cn_output c' = cn_output c @ frame (body_of enc e))
   | (c', Some (IOError _)) \<Rightarrow> (\<exists>e k. env = Some e \<and> cn_output c' = cn_output c @ take k (frame (body_of enc e)))
   | (c', Some _) \<Rightarrow> c' = c"
proof (cases env)
  case (Some e)
  show ?thesis
  proof (cases "enc e")
    case (Inr body)
    have "\<exists>k. cn_output c = cn_output c @ take k (frame body)" by (rule exI [of _ 0]) simp
    then show ?thesis
      using Some Inr
      by (cases "cn_writeErr c") (auto simp: WriteEnvelope_def body_of_def frame_def Let_def)
  qed (use Some in \<open>simp add: WriteEnvelope_def\<close>)
qed (simp add: WriteEnvelope_def)

end
