(* ===== verification/Envelope.thy ===== *)
theory Envelope
  imports Bitrate
begin

section \<open>Envelopes and message identifiers: \<open>internal/protocol/envelope.go\<close>\<close>

text \<open>
  Construction and checks of envelopes, the minting of message identifiers and the detector of
  replayed or reordered ones. \<open>json.Marshal\<close> and \<open>json.Unmarshal\<close> of the payload are parameters.
  The reason of a dropped frame is kept as a value instead of its text. A locale states what a
  filter of increasing sequence numbers promises; the detector is an interpretation of it.
\<close>

definition Version :: string where "Version = ''1''"

record Envelope =
  en_ProtocolVersion :: string
  en_TestID :: string
  en_MessageID :: string
  en_InReplyTo :: string
  en_Type :: string
  en_Timestamp :: int
  en_Payload :: string

text \<open>\<open>now\<close> is the clock; a payload of \<open>None\<close> is nil; \<open>Inl\<close> is the marshalling error.\<close>

definition NewEnvelope ::
  "('p \<Rightarrow> string + string) \<Rightarrow> int \<Rightarrow> string \<Rightarrow> string \<Rightarrow> string \<Rightarrow> 'p option \<Rightarrow> string + Envelope" where
  "NewEnvelope marshal now t testID msgID payload =
     (let env = \<lparr>en_ProtocolVersion = Version, en_TestID = testID, en_MessageID = msgID,
                 en_InReplyTo = '''', en_Type = t, en_Timestamp = now, en_Payload = ''''\<rparr>
      in case payload of
           None \<Rightarrow> Inr env
         | Some p \<Rightarrow>
             (case marshal p of
                Inl err \<Rightarrow> Inl (''protocol: marshal '' @ t @ '' payload: '' @ err)
              | Inr raw \<Rightarrow> Inr (env\<lparr>en_Payload := raw\<rparr>)))"

datatype payload_error = ErrNoPayload | BadPayload string

definition DecodePayload :: "(string \<Rightarrow> string + 'p) \<Rightarrow> Envelope option \<Rightarrow> payload_error + 'p" where
  "DecodePayload unmarshal env =
     (case env of
        None \<Rightarrow> Inl ErrNoPayload
      | Some e \<Rightarrow>
          if en_Payload e = '''' \<or> en_Payload e = ''null'' then Inl ErrNoPayload
          else (case unmarshal (en_Payload e) of Inl err \<Rightarrow> Inl (BadPayload err) | Inr v \<Rightarrow> Inr v))"

datatype version_error = VersionMismatchError (vm_Got: string) (vm_Want: string)

definition CheckVersion :: "Envelope \<Rightarrow> version_error option" where
  "CheckVersion env =
     (if en_ProtocolVersion env \<noteq> Version then Some (VersionMismatchError (en_ProtocolVersion env) Version) else None)"

record MessageIDMaker =
  mk_role :: string
  mk_seq :: u64

definition NewMessageIDMaker :: "string \<Rightarrow> MessageIDMaker" where
  "NewMessageIDMaker role = \<lparr>mk_role = role, mk_seq = 0\<rparr>"

definition message_id :: "string \<Rightarrow> u64 \<Rightarrow> string" where
  "message_id role seq = role @ ''-'' @ pad_zeros 8 (show_u64 seq)"

definition Next :: "MessageIDMaker \<Rightarrow> MessageIDMaker \<times> string" where
  "Next m = (let seq = mk_seq m + 1 in (m\<lparr>mk_seq := seq\<rparr>, message_id (mk_role m) seq))"

text \<open>\<open>None\<close> is \<open>ok == false\<close>; the split is at the last hyphen.\<close>

definition splitMessageID :: "string \<Rightarrow> (string \<times> u64) option" where
  "splitMessageID mid =
     (if CHR ''-'' \<notin> set mid then None
      else
        let suffix = rev (takeWhile (\<lambda>c. c \<noteq> CHR ''-'') (rev mid));
            role = take (length mid - length suffix - 1) mid
        in if role = [] \<or> suffix = [] then None
           else map_option (\<lambda>n. (role, n)) (ParseUint suffix))"

definition dedupRingSize :: nat where "dedupRingSize = 128"

record DuplicateDetector =
  dd_ring :: "string list"
  dd_next :: nat
  dd_maxSeq :: "string \<Rightarrow> u64 option"

definition NewDuplicateDetector :: DuplicateDetector where
  "NewDuplicateDetector = \<lparr>dd_ring = replicate dedupRingSize '''', dd_next = 0, dd_maxSeq = \<lambda>_. None\<rparr>"

datatype drop_reason = DuplicateID string | NonIncreasing string u64 u64

definition remember :: "string \<Rightarrow> DuplicateDetector \<Rightarrow> DuplicateDetector" where
  "remember mid d =
     d\<lparr>dd_ring := (dd_ring d)[dd_next d := mid], dd_next := (dd_next d + 1) mod dedupRingSize\<rparr>"

text \<open>The second result is \<open>None\<close> when the frame is to be processed.\<close>

definition Observe :: "string \<Rightarrow> DuplicateDetector \<Rightarrow> DuplicateDetector \<times> drop_reason option" where
  "Observe mid d =
     (if list_ex (\<lambda>seen. seen = mid \<and> seen \<noteq> '''') (dd_ring d) then (d, Some (DuplicateID mid))
      else case splitMessageID mid of
             None \<Rightarrow> (remember mid d, None)
           | Some (role, seq) \<Rightarrow>
               (case dd_maxSeq d role of
                  Some prev \<Rightarrow>
                    if seq \<le> prev then (d, Some (NonIncreasing mid seq prev))
                    else (remember mid (d\<lparr>dd_maxSeq := (dd_maxSeq d)(role \<mapsto> seq)\<rparr>), None)
                | None \<Rightarrow> (remember mid (d\<lparr>dd_maxSeq := (dd_maxSeq d)(role \<mapsto> seq)\<rparr>), None)))"

subsection \<open>Filters of increasing sequence numbers\<close>

locale sequence_filter =
  fixes observe :: "'x \<Rightarrow> 's \<Rightarrow> 's \<times> 'r option"
    and key :: "'x \<Rightarrow> ('k \<times> ('n :: linorder)) option"
    and high :: "'s \<Rightarrow> 'k \<Rightarrow> 'n option"
  assumes drops: "observe x s = (s', Some r) \<Longrightarrow> s' = s"
    and increases: "observe x s = (s', None) \<Longrightarrow> key x = Some (k, n) \<Longrightarrow>
      (case high s k of None \<Rightarrow> True | Some m \<Rightarrow> m < n) \<and> high s' = (high s)(k \<mapsto> n)"
    and ignores: "observe x s = (s', None) \<Longrightarrow> key x = None \<Longrightarrow> high s' = high s"
begin

text \<open>The accepted inputs, oldest first, and the final state.\<close>

fun accepted :: "'x list \<Rightarrow> 's \<Rightarrow> 'x list" where
  "accepted [] s = []"
| "accepted (x # xs) s =
     (case observe x s of (s', None) \<Rightarrow> x # accepted xs s' | (s', Some _) \<Rightarrow> accepted xs s')"

definition numbers :: "'k \<Rightarrow> 'x list \<Rightarrow> 'n list" where
  "numbers k xs = List.map_filter (\<lambda>x. case key x of Some (k', n) \<Rightarrow> if k' = k then Some n else None | None \<Rightarrow> None) xs"

lemma accepted_increasing:
  "sorted_wrt (<) (numbers k (accepted xs s))
   \<and> (\<forall>m. high s k = Some m \<longrightarrow> (\<forall>n\<in>set (numbers k (accepted xs s)). m < n))"
proof (induction xs arbitrary: s)
  case (Cons x xs)
  obtain s' r where o: "observe x s = (s', r)" by (cases "observe x s")
  show ?case
  proof (cases r)
    case None
    show ?thesis
    proof (cases "key x")
      case (Some kn)
      obtain k' n where kn: "kn = (k', n)" by (cases kn)
      have inc: "case high s k' of None \<Rightarrow> True | Some m \<Rightarrow> m < n" "high s' = (high s)(k' \<mapsto> n)"
        using increases [of x s s' k' n] o None Some kn by auto
      show ?thesis
        using Cons.IH [of s'] inc o None Some kn
        by (cases "k' = k") (fastforce simp: numbers_def map_filter_simps dest: less_trans)+
    qed (use Cons.IH [of s'] ignores [of x s s'] o None in \<open>simp add: numbers_def map_filter_simps\<close>)
  qed (use Cons.IH [of s'] drops [of x s s'] o in auto)
qed (simp add: numbers_def map_filter_simps)

end

lemma remember_maxSeq [simp]: "dd_maxSeq (remember mid d) = dd_maxSeq d"
  by (simp add: remember_def)

interpretation dedup: sequence_filter Observe splitMessageID dd_maxSeq
  by unfold_locales (auto simp: Observe_def split: if_splits option.splits)

subsection \<open>Replays\<close>

fun accepted_ids :: "string list \<Rightarrow> DuplicateDetector \<Rightarrow> string list" where
  "accepted_ids [] d = []"
| "accepted_ids (i # ids) d =
     (case Observe i d of (d', None) \<Rightarrow> i # accepted_ids ids d' | (d', Some _) \<Rightarrow> accepted_ids ids d')"

definition sequence_numbers :: "string \<Rightarrow> string list \<Rightarrow> u64 list" where
  "sequence_numbers role ids =
     List.map_filter (\<lambda>i. case splitMessageID i of Some (r, n) \<Rightarrow> if r = role then Some n else None | None \<Rightarrow> None) ids"

lemma accepted_ids_eq: "accepted_ids ids d = dedup.accepted ids d"
  by (induction ids arbitrary: d) (simp_all split: prod.split option.split)

text \<open>
  C36. A message is processed at most once: whatever identifiers arrive, in whatever order, the
  sequence numbers the detector accepts from one role are strictly increasing, so a replay is
  dropped even after it has left the ring.
\<close>

theorem accepted_strictly_increasing:
  "sorted_wrt (<) (sequence_numbers role (accepted_ids ids d))"
  using dedup.accepted_increasing [of role ids d]
  by (simp add: accepted_ids_eq sequence_numbers_def dedup.numbers_def)

subsection \<open>Minted identifiers\<close>

fun mint :: "nat \<Rightarrow> MessageIDMaker \<Rightarrow> string list" where
  "mint 0 m = []"
| "mint (Suc n) m = (case Next m of (m', i) \<Rightarrow> i # mint n m')"

lemma parse_digits_zeros: "parse_digits (replicate k (CHR ''0'') @ s) = parse_digits s"
proof -
  have "foldl (\<lambda>n c. n * 10 + digit_val c) 0 (replicate k (CHR ''0'')) = 0"
    by (induction k) (simp_all add: digit_val_def)
  then show ?thesis by (simp add: parse_digits_def)
qed

lemma padded_digits:
  "list_all is_digit (pad_zeros k (show_u64 n))" "parse_digits (pad_zeros k (show_u64 n)) = uint n"
  using show_nonneg_digits [of "uint n"]
  by (auto simp: pad_zeros_def show_u64_def parse_digits_zeros parse_show_nonneg list_all_iff is_digit_def)

lemma ParseUint_padded: "ParseUint (pad_zeros k (show_u64 n)) = Some n"
  using padded_digits [of k n] uint_u64_bounds(2) [of n]
  by (simp add: ParseUint_Some) (simp add: pad_zeros_def show_u64_def)

lemma split_message_id: "role \<noteq> [] \<Longrightarrow> splitMessageID (message_id role n) = Some (role, n)"
proof -
  assume role: "role \<noteq> []"
  define s where "s = pad_zeros 8 (show_u64 n)"
  have no: "CHR ''-'' \<notin> set s"
    using padded_digits(1) [of 8 n] by (auto simp: s_def list_all_iff is_digit_def)
  have "takeWhile (\<lambda>c. c \<noteq> CHR ''-'') (rev (message_id role n)) = rev s"
    using no by (simp add: message_id_def s_def [symmetric]) (subst takeWhile_append2; auto)
  moreover have "s \<noteq> []" by (simp add: s_def pad_zeros_def show_u64_def)
  moreover have "ParseUint s = Some n" unfolding s_def by (rule ParseUint_padded)
  ultimately show ?thesis
    using role by (simp add: splitMessageID_def Let_def) (simp add: message_id_def s_def [symmetric])
qed

definition seen_below :: "string \<Rightarrow> nat \<Rightarrow> DuplicateDetector \<Rightarrow> bool" where
  "seen_below role k d \<longleftrightarrow>
     (\<forall>n. dd_maxSeq d role = Some n \<longrightarrow> n \<le> of_nat k)
     \<and> set (dd_ring d) \<subseteq> insert '''' ((\<lambda>j. message_id role (of_nat j)) ` {1..k})"

lemma of_nat_u64_less: "j < k \<Longrightarrow> k < 2 ^ 64 \<Longrightarrow> (of_nat j :: u64) < of_nat k"
  by (simp add: word_less_nat_alt unat_of_nat take_bit_nat_eq_self)

lemma fresh_message_id:
  assumes "role \<noteq> []" and "k < j" and "j < 2 ^ 64"
  shows "message_id role (of_nat j) \<notin> (\<lambda>j. message_id role (of_nat j)) ` {1..k}"
proof
  assume "message_id role (of_nat j) \<in> (\<lambda>j. message_id role (of_nat j)) ` {1..k}"
  then obtain l where l: "l \<le> k" "message_id role (of_nat j) = message_id role (of_nat l)" by auto
  then have "(of_nat j :: u64) = of_nat l" using split_message_id [OF assms(1)] by (metis option.inject prod.inject)
  with of_nat_u64_less [of l j] l(1) assms(2,3) show False by simp
qed

lemma observe_later:
  assumes "role \<noteq> []" and "seen_below role k d" and "k < j" and "j < 2 ^ 64"
  shows "\<exists>d'. Observe (message_id role (of_nat j)) d = (d', None) \<and> seen_below role j d'"
proof -
  let ?i = "message_id role (of_nat j)"
  have "?i \<notin> (\<lambda>j. message_id role (of_nat j)) ` {1..k}" by (rule fresh_message_id [OF assms(1,3,4)])
  then have fresh: "\<not> list_ex (\<lambda>seen. seen = ?i \<and> seen \<noteq> '''') (dd_ring d)"
    using assms(2) unfolding list_ex_iff seen_below_def by blast
  have "(of_nat k :: u64) < of_nat j" using of_nat_u64_less assms(3,4) by blast
  then have "\<not> of_nat j \<le> n" if "dd_maxSeq d role = Some n" for n
    using that assms(2) unfolding seen_below_def by (meson leD less_le_trans not_le_imp_less)
  then have o: "Observe ?i d = (remember ?i (d\<lparr>dd_maxSeq := (dd_maxSeq d)(role \<mapsto> of_nat j)\<rparr>), None)"
    using fresh split_message_id [OF assms(1), of "of_nat j"]
    by (cases "dd_maxSeq d role") (simp_all add: Observe_def)
  have "set ((dd_ring d)[dd_next d := ?i]) \<subseteq> insert ?i (set (dd_ring d))" by (rule set_update_subset_insert)
  moreover have "insert ?i (set (dd_ring d)) \<subseteq> insert '''' ((\<lambda>j. message_id role (of_nat j)) ` {1..j})"
    using assms(2,3) unfolding seen_below_def by (auto dest!: subsetD)
  ultimately have "seen_below role j (remember ?i (d\<lparr>dd_maxSeq := (dd_maxSeq d)(role \<mapsto> of_nat j)\<rparr>))"
    unfolding seen_below_def remember_def by auto
  with o show ?thesis by blast
qed

lemma increasing_accepted:
  assumes "role \<noteq> []"
  shows "seen_below role k d \<Longrightarrow> sorted_wrt (<) ns \<Longrightarrow> \<forall>n\<in>set ns. k < n \<and> n < 2 ^ 64
    \<Longrightarrow> accepted_ids (map (\<lambda>j. message_id role (of_nat j)) ns) d = map (\<lambda>j. message_id role (of_nat j)) ns"
proof (induction ns arbitrary: k d)
  case (Cons n ns)
  then obtain d' where d': "Observe (message_id role (of_nat n)) d = (d', None)" "seen_below role n d'"
    using observe_later [OF assms Cons.prems(1), of n] by auto
  with Cons.IH [OF d'(2)] Cons.prems show ?case by simp
qed simp

lemma mint_numbers:
  "mint n \<lparr>mk_role = role, mk_seq = of_nat k\<rparr> = map (\<lambda>j. message_id role (of_nat j)) [Suc k..<Suc (k + n)]"
proof (induction n arbitrary: k)
  case (Suc n)
  have "Next \<lparr>mk_role = role, mk_seq = of_nat k\<rparr> = (\<lparr>mk_role = role, mk_seq = of_nat (Suc k)\<rparr>, message_id role (of_nat (Suc k)))"
    by (simp add: Next_def Let_def add.commute)
  moreover have "[Suc k..<Suc (k + Suc n)] = Suc k # [Suc (Suc k)..<Suc (Suc k + n)]" by (simp add: upt_conv_Cons)
  ultimately show ?case using Suc.IH [of "Suc k"] by simp
qed simp

text \<open>
  No frame of an honest peer is dropped: all identifiers a maker mints, up to the capacity of its
  64-bit counter, pass a new detector in order.
\<close>

theorem minted_ids_accepted:
  assumes "role \<noteq> []" and "n < 2 ^ 64"
  shows "accepted_ids (mint n (NewMessageIDMaker role)) NewDuplicateDetector = mint n (NewMessageIDMaker role)"
proof -
  have "seen_below role 0 NewDuplicateDetector" by (auto simp: seen_below_def NewDuplicateDetector_def)
  then have "accepted_ids (mint n \<lparr>mk_role = role, mk_seq = of_nat 0\<rparr>) NewDuplicateDetector
      = mint n \<lparr>mk_role = role, mk_seq = of_nat 0\<rparr>"
    unfolding mint_numbers
    by (rule increasing_accepted [OF assms(1)]) (use assms(2) in \<open>auto simp del: upt_Suc\<close>)
  then show ?thesis by (simp add: NewMessageIDMaker_def)
qed

end
