(* ===== verification/Messages.thy ===== *)
theory Messages
  imports Envelope
begin

section \<open>Protocol messages: \<open>internal/protocol/messages.go\<close>\<close>

text \<open>
  The message types and their payloads, one record per struct. A timestamp is an \<open>int\<close> of nanoseconds,
  raw JSON is its text. The JSON codec is a parameter: \<open>marshal\<close> encodes a payload and each payload has
  its own decoder, because \<open>DecodePayload\<close> is called at the type the handler expects, whatever type the
  frame has.
\<close>

definition TypeHello :: string where "TypeHello = ''hello''"
definition TypeHelloAck :: string where "TypeHelloAck = ''hello_ack''"
definition TypeCapabilities :: string where "TypeCapabilities = ''capabilities''"
definition TypeReady :: string where "TypeReady = ''ready''"
definition TypeStartConfirm :: string where "TypeStartConfirm = ''start_confirmation''"
definition TypeTestRequest :: string where "TypeTestRequest = ''test_request''"
definition TypeTestProgress :: string where "TypeTestProgress = ''test_progress''"
definition TypeTestResult :: string where "TypeTestResult = ''test_result''"
definition TypeWarning :: string where "TypeWarning = ''warning''"
definition TypeAbort :: string where "TypeAbort = ''abort''"
definition TypeHeartbeat :: string where "TypeHeartbeat = ''heartbeat''"
definition TypeReport :: string where "TypeReport = ''report''"
definition TypeReportChunk :: string where "TypeReportChunk = ''report_chunk''"
definition TypeReportAck :: string where "TypeReportAck = ''report_ack''"
definition TypeComplete :: string where "TypeComplete = ''complete''"

lemmas type_defs =
  TypeHello_def TypeHelloAck_def TypeCapabilities_def TypeReady_def TypeStartConfirm_def TypeTestRequest_def
  TypeTestProgress_def TypeTestResult_def TypeWarning_def TypeAbort_def TypeHeartbeat_def TypeReport_def
  TypeReportChunk_def TypeReportAck_def TypeComplete_def

record Hello =
  he_Token :: string
  he_Role :: string
  he_CablecheckVersion :: string
  he_LocalIP :: string
  he_PeerIP :: string

record HelloAck =
  ha_TestID :: string
  ha_CablecheckVersion :: string

record Iperf3Caps =
  ic_Version :: string
  ic_JSON :: bool
  ic_Reverse :: bool
  ic_Bidir :: bool
  ic_GetServerOutput :: bool
  ic_UDP :: bool
  ic_OneOff :: bool

record NICInfo =
  ni_Name :: string
  ni_Driver :: string
  ni_SpeedMbps :: int
  ni_Duplex :: string
  ni_MTU :: int
  ni_MAC :: string
  ni_USB :: bool

record Capabilities =
  ca_CablecheckVersion :: string
  ca_OS :: string
  ca_Kernel :: string
  ca_Iperf3 :: Iperf3Caps
  ca_EthtoolVersion :: string
  ca_PingVariant :: string
  ca_NIC :: NICInfo
  ca_SudoAvailable :: bool
  ca_CableTestSupported :: bool
  ca_AcceptReportTransfer :: bool

record Ready =
  rd_NonInteractive :: bool

record StartConfirmation =
  sc_StartAt :: int
  sc_StartInMs :: int
  sc_Mode :: string
  sc_Steps :: "string list"

record TestRequest =
  tq_Op :: string
  tq_Params :: string
  tq_TimeoutMs :: int
  tq_Step :: int
  tq_TotalSteps :: int
  tq_StepName :: string

definition OpCableTestWindowStart :: string where "OpCableTestWindowStart = ''cable_test_window_start''"
definition OpCableTestWindowEnd :: string where "OpCableTestWindowEnd = ''cable_test_window_end''"

record CableTestWindowParams =
  cw_IdleTimeoutMs :: int

record CableTestWindowResult =
  cw_SelfInflictedCarrierEvents :: u64

record TestProgress =
  tp_Stage :: string
  tp_Percent :: f64
  tp_Text :: string
  tp_Metrics :: "f64 gomap"

record TestResult =
  ts_Status :: string
  ts_Result :: string
  ts_Error :: string
  ts_StartedAt :: int
  ts_FinishedAt :: int

record WarningMsg =
  wa_Code :: string
  wa_Text :: string
  wa_Stage :: string

record Abort =
  ab_Reason :: string
  ab_Stage :: string
  ab_Detail :: string
  ab_Initiator :: string

record Heartbeat =
  hb_Seq :: u64
  hb_State :: string
  hb_ActiveOp :: string

record ReportAck =
  ra_Name :: string
  ra_OK :: bool
  ra_Declined :: bool
  ra_Error :: string

record Complete =
  cp_Classification :: string
  cp_Summary :: string
  cp_ExitCode :: int

text \<open>The payloads a peer sends; \<open>PRaw\<close> is the payload a report-transfer callback passes on.\<close>

datatype payload =
    PHello Hello
  | PHelloAck HelloAck
  | PCapabilities Capabilities
  | PReady Ready
  | PStartConfirmation StartConfirmation
  | PTestRequest TestRequest
  | PTestProgress TestProgress
  | PTestResult TestResult
  | PWarning WarningMsg
  | PAbort Abort
  | PHeartbeat Heartbeat
  | PReportAck ReportAck
  | PComplete Complete
  | PRaw string

record codec =
  cd_marshal :: "payload \<Rightarrow> string + string"
  cd_marshalWindow :: "CableTestWindowResult \<Rightarrow> string + string"
  cd_Hello :: "string \<Rightarrow> string + Hello"
  cd_HelloAck :: "string \<Rightarrow> string + HelloAck"
  cd_Capabilities :: "string \<Rightarrow> string + Capabilities"
  cd_StartConfirmation :: "string \<Rightarrow> string + StartConfirmation"
  cd_TestRequest :: "string \<Rightarrow> string + TestRequest"
  cd_TestProgress :: "string \<Rightarrow> string + TestProgress"
  cd_TestResult :: "string \<Rightarrow> string + TestResult"
  cd_Warning :: "string \<Rightarrow> string + WarningMsg"
  cd_Abort :: "string \<Rightarrow> string + Abort"
  cd_Heartbeat :: "string \<Rightarrow> string + Heartbeat"
  cd_Complete :: "string \<Rightarrow> string + Complete"
  cd_Window :: "string \<Rightarrow> string + CableTestWindowParams"

text \<open>
  What \<open>encoding/json\<close> promises for a payload it can represent (valid text, finite numbers): it encodes
  to a non-empty text other than \<open>null\<close>, and decoding that text gives the payload back.
\<close>

definition carries :: "codec \<Rightarrow> payload \<Rightarrow> bool" where
  "carries c p \<longleftrightarrow>
     (case cd_marshal c p of
        Inl _ \<Rightarrow> False
      | Inr raw \<Rightarrow> raw \<noteq> '''' \<and> raw \<noteq> ''null''
          \<and> (case p of
               PHello x \<Rightarrow> cd_Hello c raw = Inr x
             | PHelloAck x \<Rightarrow> cd_HelloAck c raw = Inr x
             | PCapabilities x \<Rightarrow> cd_Capabilities c raw = Inr x
             | PStartConfirmation x \<Rightarrow> cd_StartConfirmation c raw = Inr x
             | PTestRequest x \<Rightarrow> cd_TestRequest c raw = Inr x
             | PTestProgress x \<Rightarrow> cd_TestProgress c raw = Inr x
             | PTestResult x \<Rightarrow> cd_TestResult c raw = Inr x
             | PWarning x \<Rightarrow> cd_Warning c raw = Inr x
             | PAbort x \<Rightarrow> cd_Abort c raw = Inr x
             | PHeartbeat x \<Rightarrow> cd_Heartbeat c raw = Inr x
             | PComplete x \<Rightarrow> cd_Complete c raw = Inr x
             | PReady _ \<Rightarrow> True
             | PReportAck _ \<Rightarrow> True
             | PRaw _ \<Rightarrow> True))"

subsection \<open>Token comparison: \<open>internal/protocol/token.go\<close>\<close>

text \<open>\<open>sha\<close> is SHA-256; the constant-time comparison is an equality of equally long digests.\<close>

definition TokenEqual :: "(string \<Rightarrow> bytes) \<Rightarrow> string \<Rightarrow> string \<Rightarrow> bool" where
  "TokenEqual sha a b \<longleftrightarrow> sha a = sha b"

end
