(* ===== verification/PeerState.thy ===== *)
theory PeerState
  imports GoFmt
begin

section \<open>The session state machine: \<open>internal/peer/state.go\<close>\<close>

text \<open>
  The states, the transition table, and the guarded machine. The mutex makes each method atomic, so the
  calls of several goroutines are a sequence of requests in lock order (\<open>run\<close>). The \<open>onChange\<close>
  hook only observes: the machine keeps the calls it makes to it, oldest first. A locale states what a
  guarded machine promises its callers, and is interpreted on the session machine.
\<close>

datatype State =
    StateInitializing | StatePreflight | StateListening | StateConnecting | StateHandshake
  | StateWaitingForLocalStart | StateWaitingForPeerStart | StateReady | StateTesting
  | StateGeneratingReport | StateCompleted | StateAborted | StateFailed

fun state_name :: "State \<Rightarrow> string" where
  "state_name StateInitializing = ''initializing''"
| "state_name StatePreflight = ''preflight''"
| "state_name StateListening = ''listening''"
| "state_name StateConnecting = ''connecting''"
| "state_name StateHandshake = ''handshake''"
| "state_name StateWaitingForLocalStart = ''waiting_for_local_start''"
| "state_name StateWaitingForPeerStart = ''waiting_for_peer_start''"
| "state_name StateReady = ''ready''"
| "state_name StateTesting = ''testing''"
| "state_name StateGeneratingReport = ''generating_report''"
| "state_name StateCompleted = ''completed''"
| "state_name StateAborted = ''aborted''"
| "state_name StateFailed = ''failed''"

fun validTransitions :: "State \<Rightarrow> State list" where
  "validTransitions StateInitializing = [StatePreflight, StateAborted, StateFailed]"
| "validTransitions StatePreflight = [StateListening, StateConnecting, StateFailed, StateAborted]"
| "validTransitions StateListening = [StateHandshake, StateAborted, StateFailed]"
| "validTransitions StateConnecting = [StateHandshake, StateAborted, StateFailed]"
| "validTransitions StateHandshake = [StateWaitingForLocalStart, StateAborted, StateFailed]"
| "validTransitions StateWaitingForLocalStart =
     [StateWaitingForPeerStart, StateReady, StateAborted, StateFailed]"
| "validTransitions StateWaitingForPeerStart = [StateReady, StateAborted, StateFailed]"
| "validTransitions StateReady = [StateTesting, StateAborted, StateFailed]"
| "validTransitions StateTesting = [StateGeneratingReport, StateAborted, StateFailed]"
| "validTransitions StateGeneratingReport = [StateCompleted, StateAborted, StateFailed]"
| "validTransitions StateCompleted = []"
| "validTransitions StateAborted = []"
| "validTransitions StateFailed = []"

definition Terminal :: "State \<Rightarrow> bool" where
  "Terminal s \<longleftrightarrow> validTransitions s = []"

datatype state_error =
    ErrInvalidTransition (iv_From: State) (iv_To: State)
  | ErrWrongState (ws_Cur: State) (ws_Want: "State list")

fun state_error_text :: "state_error \<Rightarrow> string" where
  "state_error_text (ErrInvalidTransition from to) =
     ''peer: invalid state transition '' @ state_name from @ '' -> '' @ state_name to"
| "state_error_text (ErrWrongState cur want) =
     ''peer: wrong state '' @ state_name cur @ '', want one of [''
     @ join '' '' (map state_name want) @ '']''"

record StateMachine =
  sm_cur :: State
  sm_changes :: "(State \<times> State) list"

definition NewStateMachine :: "State \<Rightarrow> StateMachine" where
  "NewStateMachine initial = \<lparr>sm_cur = initial, sm_changes = []\<rparr>"

definition Current :: "StateMachine \<Rightarrow> State" where
  "Current m = sm_cur m"

text \<open>The second result is the returned error, \<open>None\<close> for nil.\<close>

definition Transition :: "State \<Rightarrow> StateMachine \<Rightarrow> StateMachine \<times> state_error option" where
  "Transition to m =
     (if list_ex (\<lambda>allowed. allowed = to) (validTransitions (sm_cur m))
      then (m\<lparr>sm_cur := to, sm_changes := sm_changes m @ [(sm_cur m, to)]\<rparr>, None)
      else (m, Some (ErrInvalidTransition (sm_cur m) to)))"

definition Require :: "State list \<Rightarrow> StateMachine \<Rightarrow> state_error option" where
  "Require states m =
     (if list_ex (\<lambda>s. sm_cur m = s) states then None else Some (ErrWrongState (sm_cur m) states))"

text \<open>A sequence of requests in lock order.\<close>

definition run :: "State list \<Rightarrow> StateMachine \<Rightarrow> StateMachine" where
  "run requests m = fold (\<lambda>to m. fst (Transition to m)) requests m"

subsection \<open>The contract of a guarded machine\<close>

locale guarded_machine =
  fixes allowed :: "'s \<Rightarrow> 's \<Rightarrow> bool"
    and move :: "'s \<Rightarrow> 'm \<Rightarrow> 'm"
    and here :: "'m \<Rightarrow> 's"
    and trace :: "'m \<Rightarrow> ('s \<times> 's) list"
  assumes moves: "allowed (here m) to \<Longrightarrow> here (move to m) = to \<and> trace (move to m) = trace m @ [(here m, to)]"
    and refuses: "\<not> allowed (here m) to \<Longrightarrow> move to m = m"
begin

text \<open>The trace is a path of allowed steps from a start state to the current state.\<close>

definition path :: "'s \<Rightarrow> 'm \<Rightarrow> bool" where
  "path s m \<longleftrightarrow>
     (\<forall>(a, b)\<in>set (trace m). allowed a b)
     \<and> map fst (trace m) @ [here m] = s # map snd (trace m)"

lemma path_start: "trace m = [] \<Longrightarrow> path (here m) m"
  by (simp add: path_def)

lemma path_move: "path s m \<Longrightarrow> path s (move to m)"
proof (cases "allowed (here m) to")
  case True
  assume "path s m"
  then have "map fst (trace m) @ [here m, to] = s # map snd (trace m) @ [to]" by (simp add: path_def)
  with True \<open>path s m\<close> moves [OF True] show ?thesis by (auto simp: path_def)
qed (simp add: refuses)

lemma path_run: "path s m \<Longrightarrow> path s (fold move tos m)"
  by (induction tos arbitrary: m) (simp_all add: path_move)

lemma stuck_run: "(\<And>to. \<not> allowed (here m) to) \<Longrightarrow> fold move tos m = m"
  by (induction tos) (simp_all add: refuses)

text \<open>A measure that every allowed step lowers bounds the number of steps.\<close>

lemma bounded_run:
  assumes "\<And>a b. allowed a b \<Longrightarrow> w b < (w a :: nat)"
  shows "length (trace (fold move tos m)) + w (here (fold move tos m)) \<le> length (trace m) + w (here m)"
proof (induction tos arbitrary: m)
  case (Cons to tos)
  have "length (trace (move to m)) + w (here (move to m)) \<le> length (trace m) + w (here m)"
    using assms [of "here m" to] moves [of m to] refuses [of m to] by (cases "allowed (here m) to") auto
  with Cons [of "move to m"] show ?case by simp
qed simp

end

inductive step :: "State \<Rightarrow> State \<Rightarrow> bool" where
  allowed: "to \<in> set (validTransitions from) \<Longrightarrow> step from to"

inductive_cases stepE: "step a b"
inductive_simps step_iff: "step a b"

interpretation session: guarded_machine step "\<lambda>to m. fst (Transition to m)" sm_cur sm_changes
  by unfold_locales (auto simp: step_iff Transition_def list_ex_iff)

subsection \<open>Sessions\<close>

lemma run_fold: "run tos m = fold (\<lambda>to m. fst (Transition to m)) tos m"
  by (simp add: run_def)

lemma terminal_no_step: "Terminal a \<Longrightarrow> \<not> step a b"
  by (simp add: Terminal_def step_iff)

text \<open>
  The terminal states are absorbing: from completed, aborted or failed no sequence of requests
  changes the machine, and every request is answered with the invalid-transition error.
\<close>

theorem terminal_absorbing:
  assumes "sm_cur m = StateCompleted \<or> sm_cur m = StateAborted \<or> sm_cur m = StateFailed"
  shows "run requests m = m \<and> Transition to m = (m, Some (ErrInvalidTransition (sm_cur m) to))"
proof -
  have t: "Terminal (sm_cur m)" using assms by (auto simp: Terminal_def)
  then have "run requests m = m" using session.stuck_run terminal_no_step by (simp add: run_fold)
  moreover have "Transition to m = (m, Some (ErrInvalidTransition (sm_cur m) to))"
    using t by (simp add: Transition_def Terminal_def)
  ultimately show ?thesis by simp
qed

text \<open>
  A session can always be stopped: from every state that is not terminal, moving to aborted
  and moving to failed both succeed.
\<close>

theorem can_always_stop:
  assumes "\<not> Terminal (sm_cur m)" and "stop = StateAborted \<or> stop = StateFailed"
  shows "Transition stop m = (m\<lparr>sm_cur := stop, sm_changes := sm_changes m @ [(sm_cur m, stop)]\<rparr>, None)"
  using assms by (cases "sm_cur m") (auto simp: Transition_def Terminal_def)

text \<open>The states a session may have gone through on its way to a state it was not stopped in.\<close>

definition connected :: "State list list" where
  "connected = [[StatePreflight, StateListening], [StatePreflight, StateConnecting]]"

definition started :: "State list list" where
  "started = map (\<lambda>h. h @ [StateHandshake, StateWaitingForLocalStart]) connected"

definition agreed :: "State list list" where
  "agreed = map (\<lambda>h. h @ [StateReady]) (started @ map (\<lambda>h. h @ [StateWaitingForPeerStart]) started)"

fun histories :: "State \<Rightarrow> State list list" where
  "histories StateInitializing = [[]]"
| "histories StatePreflight = [[StatePreflight]]"
| "histories StateListening = [[StatePreflight, StateListening]]"
| "histories StateConnecting = [[StatePreflight, StateConnecting]]"
| "histories StateHandshake = map (\<lambda>h. h @ [StateHandshake]) connected"
| "histories StateWaitingForLocalStart = started"
| "histories StateWaitingForPeerStart = map (\<lambda>h. h @ [StateWaitingForPeerStart]) started"
| "histories StateReady = agreed"
| "histories StateTesting = map (\<lambda>h. h @ [StateTesting]) agreed"
| "histories StateGeneratingReport = map (\<lambda>h. h @ [StateTesting, StateGeneratingReport]) agreed"
| "histories StateCompleted = map (\<lambda>h. h @ [StateTesting, StateGeneratingReport, StateCompleted]) agreed"
| "histories _ = []"

definition on_course :: "StateMachine \<Rightarrow> bool" where
  "on_course m \<longleftrightarrow>
     sm_cur m = StateAborted \<or> sm_cur m = StateFailed
     \<or> map snd (sm_changes m) \<in> set (histories (sm_cur m))"

lemma on_course_step: "on_course m \<Longrightarrow> on_course (fst (Transition to m))"
  by (cases "sm_cur m"; cases to)
    (auto simp: on_course_def Transition_def connected_def started_def agreed_def)

lemma on_course_run: "on_course m \<Longrightarrow> on_course (run tos m)"
  unfolding run_def by (rule fold_induct) (simp_all add: on_course_step)

text \<open>
  A session completes only along its lifecycle: whatever is requested, a machine that started in
  initializing and is in completed went through preflight, listening or connecting, handshake, waiting
  for the local start, possibly waiting for the peer, ready, testing and report generation, in this
  order and through nothing else.
\<close>

theorem completed_lifecycle:
  assumes "sm_cur (run requests (NewStateMachine StateInitializing)) = StateCompleted"
  shows "map snd (sm_changes (run requests (NewStateMachine StateInitializing))) \<in> set
    [[StatePreflight, StateListening, StateHandshake, StateWaitingForLocalStart, StateReady,
      StateTesting, StateGeneratingReport, StateCompleted],
     [StatePreflight, StateConnecting, StateHandshake, StateWaitingForLocalStart, StateReady,
      StateTesting, StateGeneratingReport, StateCompleted],
     [StatePreflight, StateListening, StateHandshake, StateWaitingForLocalStart, StateWaitingForPeerStart,
      StateReady, StateTesting, StateGeneratingReport, StateCompleted],
     [StatePreflight, StateConnecting, StateHandshake, StateWaitingForLocalStart, StateWaitingForPeerStart,
      StateReady, StateTesting, StateGeneratingReport, StateCompleted]]"
proof -
  have "on_course (NewStateMachine StateInitializing)" by (simp add: on_course_def NewStateMachine_def)
  from on_course_run [OF this, of requests] assms show ?thesis
    by (auto simp: on_course_def connected_def started_def agreed_def)
qed

definition full_session :: "State list" where
  "full_session = [StatePreflight, StateListening, StateTesting, StateHandshake, StateWaitingForLocalStart,
     StateReady, StateTesting, StateGeneratingReport, StateCompleted]"

text \<open>How many transitions a state is away from the end of the longest course.\<close>

fun remaining :: "State \<Rightarrow> nat" where
  "remaining StateInitializing = 9"
| "remaining StatePreflight = 8"
| "remaining StateListening = 7"
| "remaining StateConnecting = 7"
| "remaining StateHandshake = 6"
| "remaining StateWaitingForLocalStart = 5"
| "remaining StateWaitingForPeerStart = 4"
| "remaining StateReady = 3"
| "remaining StateTesting = 2"
| "remaining StateGeneratingReport = 1"
| "remaining _ = 0"

lemma step_remaining: "step a b \<Longrightarrow> remaining b < remaining a"
  by (cases a) (auto simp: step_iff)

lemma path_remaining:
  assumes "\<forall>(a, b)\<in>set ps. remaining b < remaining a" and "map fst ps @ [c] = s # map snd ps"
  shows "sorted_wrt (\<lambda>a b. remaining b < remaining a) (s # map snd ps)"
  using assms
proof (induction ps arbitrary: s)
  case (Cons p ps)
  obtain a b where p: "p = (a, b)" by (cases p)
  with Cons.prems have ab: "s = a" "remaining b < remaining a" and chain: "map fst ps @ [c] = b # map snd ps" by auto
  from Cons.IH [OF _ chain] Cons.prems(1) have tail: "sorted_wrt (\<lambda>a b. remaining b < remaining a) (b # map snd ps)" by simp
  with ab p show ?case by (auto intro: less_trans)
qed simp

text \<open>
  A session makes at most nine transitions and never returns to a state: whatever is requested of
  a new machine, however often, the recorded changes are a chain of table transitions from initializing
  to the current state without repetition.
\<close>

theorem session_bounded:
  "let m = run requests (NewStateMachine StateInitializing)
   in length (sm_changes m) \<le> 9
     \<and> list_all (\<lambda>(a, b). b \<in> set (validTransitions a)) (sm_changes m)
     \<and> map fst (sm_changes m) @ [sm_cur m] = StateInitializing # map snd (sm_changes m)
     \<and> distinct (StateInitializing # map snd (sm_changes m))"
proof -
  define m where "m = run requests (NewStateMachine StateInitializing)"
  have "length (sm_changes m) + remaining (sm_cur m) \<le> 9"
    using session.bounded_run [where w = remaining and tos = requests and m = "NewStateMachine StateInitializing"] step_remaining
    by (simp add: m_def run_fold NewStateMachine_def)
  moreover have p: "session.path StateInitializing m"
    using session.path_run [OF session.path_start [of "NewStateMachine StateInitializing"], of requests]
    by (simp add: m_def run_fold NewStateMachine_def)
  moreover have "sorted_wrt (\<lambda>a b. remaining b < remaining a) (StateInitializing # map snd (sm_changes m))"
    using p step_remaining by (intro path_remaining [of _ "sm_cur m"]) (fastforce simp: session.path_def)+
  then have "distinct (StateInitializing # map snd (sm_changes m))"
    by (metis (no_types, lifting) distinct_conv_nth less_irrefl nat_neq_iff sorted_wrt_iff_nth_less)
  ultimately show ?thesis
    unfolding m_def [symmetric] Let_def by (fastforce simp: session.path_def step_iff list_all_iff)
qed

end
