(* ===== verification/Session.thy ===== *)
theory Session
  imports Messages PeerState
begin

section \<open>The session: \<open>internal/peer\<close>, files \<open>session.go\<close>, \<open>loop.go\<close>, \<open>ready.go\<close>, \<open>rpc.go\<close>, \<open>exec.go\<close>, \<open>transfer.go\<close>\<close>

text \<open>
  The event loop owns the session state; the reader, the operator, the executor, the plan and the
  heartbeater act on it through events or through methods that hold a mutex. So a session is a record and
  every event, tick or call is one atomic update of it. Goroutines that a handler starts, the operator's
  terminal, the hooks of the configuration and the results handed to waiting calls are a list of effects.
  A frame that was written is appended to \<open>se_sent\<close>; the n-th write fails when the environment says so.
  The clock is the parameter \<open>now\<close> of every update: it does not advance while a handler runs. Log lines
  are not modelled.
\<close>

subsection \<open>Redaction: \<open>redact.go\<close>\<close>

definition redactedMarker :: string where "redactedMarker = ''[REDACTED]''"

text \<open>\<open>strings.ReplaceAll\<close> for a non-empty pattern: leftmost matches, not overlapping.\<close>

function ReplaceAll :: "string \<Rightarrow> string \<Rightarrow> string \<Rightarrow> string" where
  "ReplaceAll s old new =
     (if old = [] \<or> s = [] then s
      else if has_prefix s old then new @ ReplaceAll (drop (length old) s) old new
      else hd s # ReplaceAll (tl s) old new)"
  by pat_completeness auto
termination
  by (relation "measure (\<lambda>(s, old, new). length s)") auto

declare ReplaceAll.simps [simp del]

definition redactToken :: "string \<Rightarrow> string \<Rightarrow> string" where
  "redactToken s token = (if token = '''' then s else ReplaceAll s token redactedMarker)"

subsection \<open>Configuration and state\<close>

definition RolePC1 :: string where "RolePC1 = ''pc1''"
definition RolePC2 :: string where "RolePC2 = ''pc2''"

text \<open>
  The fields of \<open>Config\<close> a running session reads. A callback is its presence, or the value it returns;
  \<open>OnCableTestWindow\<close> maps the number of earlier calls and the argument to its result.
\<close>

record Config =
  cf_Role :: string
  cf_Token :: string
  cf_NonInteractive :: bool
  cf_NoReportTransfer :: bool
  cf_Mode :: string
  cf_Steps :: "string list"
  cf_PrepareComplete :: bool
  cf_SendReports :: bool
  cf_ReceiveReports :: bool
  cf_Complete :: "Complete option"
  cf_OnStep :: bool
  cf_OnCableTestWindow :: "(nat \<Rightarrow> bool \<Rightarrow> u64) option"
  cf_HeartbeatInterval :: int
  cf_IdleTimeout :: int
  cf_CallGrace :: int

definition HeartbeatInterval :: int where "HeartbeatInterval = 5 * second"
definition SessionIdleTimeout :: int where "SessionIdleTimeout = 20 * second"
definition defaultCallGrace :: int where "defaultCallGrace = 10 * second"

definition heartbeatInterval :: "Config \<Rightarrow> int" where
  "heartbeatInterval c = (if cf_HeartbeatInterval c > 0 then cf_HeartbeatInterval c else HeartbeatInterval)"

definition idleTimeout :: "Config \<Rightarrow> int" where
  "idleTimeout c = (if cf_IdleTimeout c > 0 then cf_IdleTimeout c else SessionIdleTimeout)"

definition callGrace :: "Config \<Rightarrow> int" where
  "callGrace c = (if cf_CallGrace c > 0 then cf_CallGrace c else defaultCallGrace)"

text \<open>\<open>sv_quote\<close> is the verb \<open>%q\<close> of \<open>fmt\<close>.\<close>

record session_env =
  sv_cfg :: Config
  sv_codec :: codec
  sv_writeErr :: "nat \<Rightarrow> string option"
  sv_quote :: "string \<Rightarrow> string"

definition reasonUserInterrupt :: string where "reasonUserInterrupt = ''user_interrupt''"
definition reasonPeerLost :: string where "reasonPeerLost = ''peer_lost''"
definition reasonRequestTimeout :: string where "reasonRequestTimeout = ''request_timeout''"
definition reasonInternalError :: string where "reasonInternalError = ''internal_error''"
definition abortProtocolError :: string where "abortProtocolError = ''protocol_error''"

definition maxInvalidState :: int where "maxInvalidState = 3"
definition startCountdownMs :: int where "startCountdownMs = 3500"

datatype session_error =
    ErrPeerAborted string
  | ErrLocalAbort string
  | ErrRequestTimeout string
  | ErrPlanFailed string

record finishSpec =
  fs_state :: State
  fs_reason :: string
  fs_farewell :: bool
  fs_farewellReason :: string
  fs_farewellStage :: string
  fs_farewellDetail :: string
  fs_err :: "session_error option"

record planStep =
  ps_step :: int
  ps_total :: int
  ps_name :: string

record activeOp =
  ao_reqID :: string
  ao_op :: string

record countdownStep =
  ct_at :: int
  ct_label :: string

record pendingCall =
  pc_op :: string
  pc_onProgress :: bool

datatype effect =
    Printed string
  | PlanStarted
  | TransferStarted
  | OpStarted string TestRequest
  | OpCancelled string
  | CallResult string TestResult
  | CallProgress string TestProgress
  | StepAnnounced planStep
  | WindowHook bool
  | IdleTimeoutSet int
  | VerdictPrepared

record session =
  se_sm :: StateMachine
  se_ids :: MessageIDMaker
  se_dedup :: DuplicateDetector
  se_testID :: string
  se_peerCaps :: Capabilities
  se_mode :: string
  se_steps :: "string list"
  se_pending :: "string \<rightharpoonup> pendingCall"
  se_pendingClosed :: bool
  se_activeOp :: "activeOp option"
  se_localReady :: bool
  se_peerReady :: bool
  se_sentComplete :: bool
  se_peerComplete :: "Complete option"
  se_peerHB :: "(Heartbeat \<times> int) option"
  se_lastRecvAt :: "int option"
  se_lastSend :: "int option"
  se_hbSeq :: u64
  se_invalidState :: int
  se_cableWindowActive :: bool
  se_countdown :: "countdownStep list"
  se_transferBuf :: "Envelope list"
  se_transferOn :: bool
  se_transferRan :: bool
  se_fin :: "finishSpec option"
  se_announcedStep :: "planStep option"
  se_peerAbortStage :: string
  se_peerAbortDetail :: string
  se_writes :: nat
  se_sent :: "Envelope list"
  se_effects :: "effect list"

definition emit :: "effect \<Rightarrow> session \<Rightarrow> session" where
  "emit x s = s\<lparr>se_effects := se_effects s @ [x]\<rparr>"

definition current :: "session \<Rightarrow> State" where
  "current s = sm_cur (se_sm s)"

definition transition :: "State \<Rightarrow> session \<Rightarrow> session \<times> state_error option" where
  "transition to s = (case Transition to (se_sm s) of (m, e) \<Rightarrow> (s\<lparr>se_sm := m\<rparr>, e))"

subsection \<open>Writing frames\<close>

definition write_frame :: "session_env \<Rightarrow> int \<Rightarrow> Envelope \<Rightarrow> session \<Rightarrow> session \<times> string option" where
  "write_frame v now env s =
     (let s1 = s\<lparr>se_writes := Suc (se_writes s)\<rparr>
      in case sv_writeErr v (se_writes s) of
           Some e \<Rightarrow> (s1, Some e)
         | None \<Rightarrow> (s1\<lparr>se_sent := se_sent s1 @ [env], se_lastSend := Some now\<rparr>, None))"

text \<open>\<open>mintAndWrite\<close> holds the write lock from minting the identifier to the end of the write.\<close>

definition mintAndWrite ::
  "session_env \<Rightarrow> int \<Rightarrow> (string \<Rightarrow> string + Envelope) \<Rightarrow> session \<Rightarrow> session \<times> string \<times> string option" where
  "mintAndWrite v now build s =
     (case Next (se_ids s) of
        (ids, msgID) \<Rightarrow>
          let s1 = s\<lparr>se_ids := ids\<rparr>
          in case build msgID of
               Inl err \<Rightarrow> (s1, msgID, Some err)
             | Inr env \<Rightarrow> (case write_frame v now env s1 of (s2, e) \<Rightarrow> (s2, msgID, e)))"

definition send :: "session_env \<Rightarrow> int \<Rightarrow> string \<Rightarrow> string \<Rightarrow> payload \<Rightarrow> session \<Rightarrow> session \<times> string option" where
  "send v now typ inReplyTo p s =
     (case mintAndWrite v now (\<lambda>msgID.
             case NewEnvelope (cd_marshal (sv_codec v)) now typ (se_testID s) msgID (Some p) of
               Inl err \<Rightarrow> Inl err
             | Inr env \<Rightarrow> Inr (env\<lparr>en_InReplyTo := inReplyTo\<rparr>)) s of
        (s', _, e) \<Rightarrow> (s', e))"

definition activeOpName :: "session \<Rightarrow> string" where
  "activeOpName s = (case se_activeOp s of None \<Rightarrow> '''' | Some op \<Rightarrow> ao_op op)"

definition abortStage :: "session \<Rightarrow> string" where
  "abortStage s = (if activeOpName s \<noteq> '''' then activeOpName s else state_name (current s))"

definition finishAbort :: "string \<Rightarrow> string \<Rightarrow> session_error \<Rightarrow> session \<Rightarrow> session" where
  "finishAbort reason stage err s =
     s\<lparr>se_fin := Some \<lparr>fs_state = StateAborted, fs_reason = reason, fs_farewell = True, fs_farewellReason = reason,
         fs_farewellStage = stage, fs_farewellDetail = '''', fs_err = Some err\<rparr>\<rparr>"

definition warnInvalidState :: "session_env \<Rightarrow> int \<Rightarrow> Envelope \<Rightarrow> session \<Rightarrow> session" where
  "warnInvalidState v now env s =
     (let s1 = fst (send v now TypeWarning '''' (PWarning \<lparr>wa_Code = ''invalid_state'',
             wa_Text = en_Type env @ '' not valid in state '' @ state_name (current s),
             wa_Stage = state_name (current s)\<rparr>) s);
          s2 = s1\<lparr>se_invalidState := se_invalidState s1 + 1\<rparr>
      in if se_invalidState s2 \<ge> maxInvalidState
         then finishAbort abortProtocolError (abortStage s2)
                (ErrPeerAborted (show_int (se_invalidState s2) @ '' invalid-state frames'')) s2
         else s2)"

subsection \<open>Readiness and the synchronized start: \<open>ready.go\<close>\<close>

definition countdown_step :: "int \<Rightarrow> int \<Rightarrow> int \<Rightarrow> countdownStep list" where
  "countdown_step anchor lead n =
     (if isub lead (n * second) < 0 then [] else [\<lparr>ct_at = anchor + isub lead (n * second), ct_label = show_int n\<rparr>])"

definition startCountdown :: "int \<Rightarrow> int \<Rightarrow> session \<Rightarrow> session" where
  "startCountdown now lead s =
     s\<lparr>se_countdown := countdown_step now lead 3 @ countdown_step now lead 2 @ countdown_step now lead 1
         @ [\<lparr>ct_at = now + lead, ct_label = ''''\<rparr>]\<rparr>"

text \<open>The instant at which the channel armed by \<open>armCountdown\<close> fires, if one is armed.\<close>

definition armCountdown :: "session \<Rightarrow> int option" where
  "armCountdown s = (case se_countdown s of [] \<Rightarrow> None | st # _ \<Rightarrow> Some (ct_at st))"

definition onBothReady :: "session_env \<Rightarrow> int \<Rightarrow> session \<Rightarrow> session" where
  "onBothReady v now s0 =
     (let s = emit (Printed ''both sides ready'') s0
      in if cf_Role (sv_cfg v) \<noteq> RolePC1 then s
         else
           let startIn = startCountdownMs * millisecond
           in case send v now TypeStartConfirm '''' (PStartConfirmation
                    \<lparr>sc_StartAt = now + startIn, sc_StartInMs = startCountdownMs, sc_Mode = cf_Mode (sv_cfg v),
                     sc_Steps = cf_Steps (sv_cfg v)\<rparr>) s of
                (s1, Some _) \<Rightarrow> s1
              | (s1, None) \<Rightarrow> startCountdown now startIn s1)"

definition sendLocalReady :: "session_env \<Rightarrow> int \<Rightarrow> session \<Rightarrow> session" where
  "sendLocalReady v now s =
     (if se_localReady s then s
      else case send v now TypeReady '''' (PReady \<lparr>rd_NonInteractive = cf_NonInteractive (sv_cfg v)\<rparr>) s of
             (s1, Some _) \<Rightarrow> s1
           | (s1, None) \<Rightarrow>
               let s2 = s1\<lparr>se_localReady := True\<rparr>;
                   nxt = (if se_peerReady s2 then StateReady else StateWaitingForPeerStart)
               in case transition nxt s2 of
                    (s3, Some _) \<Rightarrow> s3
                  | (s3, None) \<Rightarrow>
                      if nxt = StateReady then onBothReady v now s3
                      else emit (Printed (''ready '' @ em_dash @ '' waiting for peer'')) s3)"

definition handlePeerReady :: "session_env \<Rightarrow> int \<Rightarrow> Envelope \<Rightarrow> session \<Rightarrow> session" where
  "handlePeerReady v now env s =
     (if se_peerReady s then s
      else case current s of
             StateWaitingForLocalStart \<Rightarrow> s\<lparr>se_peerReady := True\<rparr>
           | StateWaitingForPeerStart \<Rightarrow>
               (case transition StateReady (s\<lparr>se_peerReady := True\<rparr>) of
                  (s1, Some _) \<Rightarrow> s1
                | (s1, None) \<Rightarrow> onBothReady v now s1)
           | _ \<Rightarrow> warnInvalidState v now env s)"

definition handleStartConfirmation :: "session_env \<Rightarrow> int \<Rightarrow> Envelope \<Rightarrow> session \<Rightarrow> session" where
  "handleStartConfirmation v now env s =
     (if cf_Role (sv_cfg v) \<noteq> RolePC2 then warnInvalidState v now env s
      else if Require [StateReady] (se_sm s) \<noteq> None then warnInvalidState v now env s
      else case DecodePayload (cd_StartConfirmation (sv_codec v)) (Some env) of
             Inl _ \<Rightarrow> s
           | Inr sc \<Rightarrow>
               startCountdown now (imul (sc_StartInMs sc) millisecond)
                 (s\<lparr>se_mode := sc_Mode sc, se_steps := sc_Steps sc\<rparr>))"

definition onCountdownTick :: "session_env \<Rightarrow> session \<Rightarrow> session" where
  "onCountdownTick v s =
     (case se_countdown s of
        [] \<Rightarrow> s
      | st # rest \<Rightarrow>
          let s1 = s\<lparr>se_countdown := rest\<rparr>
          in if ct_label st \<noteq> '''' then emit (Printed (ct_label st)) s1
             else case transition StateTesting (emit (Printed ''GO'') s1) of
                    (s2, Some _) \<Rightarrow> s2
                  | (s2, None) \<Rightarrow> if cf_Role (sv_cfg v) = RolePC1 then emit PlanStarted s2 else s2)"

text \<open>\<open>Duration.Round(time.Second)\<close>: half away from zero.\<close>

definition round_second :: "int \<Rightarrow> int" where
  "round_second d =
     (let r = imod d second
      in if d < 0 then (if - r + - r < second then d - r else max minInt (d - second - r))
         else (if r + r < second then d - r else min maxInt (d + second - r)))"

definition formatStatus :: "State \<Rightarrow> Heartbeat option \<Rightarrow> int \<Rightarrow> string" where
  "formatStatus cur peer peerAge =
     (case peer of
        None \<Rightarrow> ''state: '' @ state_name cur @ '' | peer: no heartbeat yet''
      | Some hb \<Rightarrow>
          ''state: '' @ state_name cur @ '' | peer: '' @ hb_State hb @ '' (heartbeat #'' @ show_u64 (hb_Seq hb) @ '', ''
          @ show_duration (round_second peerAge) @ '' ago''
          @ (if hb_ActiveOp hb \<noteq> '''' then '', op '' @ hb_ActiveOp hb else '''') @ '')'')"

definition status_line :: "int \<Rightarrow> session \<Rightarrow> string" where
  "status_line now s =
     formatStatus (current s) (map_option fst (se_peerHB s)) (case se_peerHB s of None \<Rightarrow> 0 | Some (_, seen) \<Rightarrow> now - seen)
     @ (case se_lastRecvAt s of
          None \<Rightarrow> ''''
        | Some seen \<Rightarrow> '' | last frame '' @ show_duration (round_second (now - seen)) @ '' ago'')"

definition handleStdinLine :: "session_env \<Rightarrow> int \<Rightarrow> string \<Rightarrow> session \<Rightarrow> session" where
  "handleStdinLine v now line s =
     (if line = '''' then s
      else if line = ''start'' then
        if se_localReady s then emit (Printed ''already ready'') s
        else if Require [StateWaitingForLocalStart] (se_sm s) \<noteq> None
        then emit (Printed (''cannot start now (state: '' @ state_name (current s) @ '')'')) s
        else sendLocalReady v now s
      else if line = ''status'' then emit (Printed (status_line now s)) s
      else if line = ''quit'' then finishAbort reasonUserInterrupt (abortStage s) (ErrLocalAbort ''operator quit'') s
      else emit (Printed ''commands: start | status | quit'') s)"

subsection \<open>Calls of the coordinator: \<open>rpc.go\<close>\<close>

definition registerCall :: "string \<Rightarrow> pendingCall \<Rightarrow> session \<Rightarrow> session option" where
  "registerCall msgID pc s =
     (if se_pendingClosed s then None else Some (s\<lparr>se_pending := (se_pending s)(msgID \<mapsto> pc)\<rparr>))"

definition unregisterCall :: "string \<Rightarrow> session \<Rightarrow> session" where
  "unregisterCall msgID s = s\<lparr>se_pending := (se_pending s)(msgID := None)\<rparr>"

definition takeCall :: "string \<Rightarrow> session \<Rightarrow> session \<times> pendingCall option" where
  "takeCall inReplyTo s = (s\<lparr>se_pending := (se_pending s)(inReplyTo := None)\<rparr>, se_pending s inReplyTo)"

definition peekCall :: "string \<Rightarrow> session \<Rightarrow> pendingCall option" where
  "peekCall inReplyTo s = se_pending s inReplyTo"

definition closePendingCalls :: "session \<Rightarrow> session" where
  "closePendingCalls s =
     (if se_pendingClosed s then s else s\<lparr>se_pendingClosed := True, se_pending := Map.empty\<rparr>)"

text \<open>
  The first part of \<open>call\<close>: under the write lock, mint the identifier, register the call, write the
  request; a call that could not be sent is unregistered. The second result is the identifier under
  which the caller waits, or the error. \<open>cancelled\<close> is whether the session context is done, which only a
  detached call checks.
\<close>

definition step_name :: "Config \<Rightarrow> planStep \<Rightarrow> string" where
  "step_name c st =
     (if ps_step st \<ge> 1 \<and> ps_step st \<le> int (length (cf_Steps c)) \<and> cf_Steps c ! nat (ps_step st - 1) = ps_name st
      then '''' else ps_name st)"

definition call :: "session_env \<Rightarrow> int \<Rightarrow> bool \<Rightarrow> bool \<Rightarrow> planStep \<Rightarrow> string \<Rightarrow> string \<Rightarrow> int \<Rightarrow> bool \<Rightarrow> session
    \<Rightarrow> session \<times> (string + string)" where
  "call v now cancelled armExpiry st op raw timeout onProgress s =
     (case Next (se_ids s) of
        (ids, msgID) \<Rightarrow>
          let s1 = s\<lparr>se_ids := ids\<rparr>
          in if \<not> armExpiry \<and> cancelled then (s1, Inl ''peer: session closed'')
             else case registerCall msgID \<lparr>pc_op = op, pc_onProgress = onProgress\<rparr> s1 of
                    None \<Rightarrow> (s1, Inl ''peer: session closed'')
                  | Some s2 \<Rightarrow>
                      (case NewEnvelope (cd_marshal (sv_codec v)) now TypeTestRequest (se_testID s) msgID
                              (Some (PTestRequest \<lparr>tq_Op = op, tq_Params = raw, tq_TimeoutMs = idiv timeout millisecond,
                                tq_Step = ps_step st, tq_TotalSteps = ps_total st, tq_StepName = step_name (sv_cfg v) st\<rparr>)) of
                         Inl err \<Rightarrow> (unregisterCall msgID s2, Inl err)
                       | Inr env \<Rightarrow>
                           (case write_frame v now env s2 of
                              (s3, Some err) \<Rightarrow> (unregisterCall msgID s3, Inl err)
                            | (s3, None) \<Rightarrow> (s3, Inr msgID))))"

definition call_budget :: "Config \<Rightarrow> bool \<Rightarrow> int \<Rightarrow> int" where
  "call_budget c armExpiry timeout = (if armExpiry then wrap64 (timeout + callGrace c) else timeout)"

subsection \<open>Operations of the worker and the end of the plan: \<open>exec.go\<close>\<close>

definition opCancel :: string where "opCancel = ''cancel''"

definition writeTestResult :: "session_env \<Rightarrow> int \<Rightarrow> string \<Rightarrow> TestResult \<Rightarrow> session \<Rightarrow> session" where
  "writeTestResult v now reqID res s = fst (send v now TypeTestResult reqID (PTestResult res) s)"

definition result_now :: "string \<Rightarrow> string \<Rightarrow> int \<Rightarrow> TestResult" where
  "result_now status err now =
     \<lparr>ts_Status = status, ts_Result = '''', ts_Error = err, ts_StartedAt = now, ts_FinishedAt = now\<rparr>"

definition windowHook :: "session_env \<Rightarrow> bool \<Rightarrow> session \<Rightarrow> session \<times> u64" where
  "windowHook v active s =
     (case cf_OnCableTestWindow (sv_cfg v) of
        None \<Rightarrow> (s, 0)
      | Some h \<Rightarrow>
          (emit (WindowHook active) s,
           h (length (filter (\<lambda>x. case x of WindowHook _ \<Rightarrow> True | _ \<Rightarrow> False) (se_effects s))) active))"

definition announceRequestStep :: "session_env \<Rightarrow> TestRequest \<Rightarrow> session \<Rightarrow> session" where
  "announceRequestStep v req s =
     (if tq_Step req < 1 \<or> tq_TotalSteps req < 1 \<or> tq_Step req > tq_TotalSteps req then s
      else
        let name = (if tq_StepName req = '''' \<and> tq_Step req \<le> int (length (se_steps s))
                    then se_steps s ! nat (tq_Step req - 1) else tq_StepName req)
        in if name = '''' then s
           else
             let st = \<lparr>ps_step = tq_Step req, ps_total = tq_TotalSteps req, ps_name = redactToken name (cf_Token (sv_cfg v))\<rparr>
             in if se_announcedStep s = Some st then s
                else
                  let s1 = s\<lparr>se_announcedStep := Some st\<rparr>
                  in if cf_OnStep (sv_cfg v) then emit (StepAnnounced st) s1 else s1)"

text \<open>The executor started here delivers one \<open>evOpDone\<close> for the request.\<close>

definition startOp :: "string \<Rightarrow> TestRequest \<Rightarrow> session \<Rightarrow> session" where
  "startOp reqID req s =
     emit (OpStarted reqID req) (s\<lparr>se_activeOp := Some \<lparr>ao_reqID = reqID, ao_op = tq_Op req\<rparr>\<rparr>)"

text \<open>The part of \<open>handleTestRequest\<close> from the test for a start of the cable window on.\<close>

definition acceptRequest :: "session_env \<Rightarrow> int \<Rightarrow> Envelope \<Rightarrow> TestRequest \<Rightarrow> session \<Rightarrow> session" where
  "acceptRequest v now env req s =
     (if tq_Op req = OpCableTestWindowStart then
        (case cd_Window (sv_codec v) (tq_Params req) of
           Inl _ \<Rightarrow> writeTestResult v now (en_MessageID env) (result_now ''rejected'' ''invalid cable-test window timeout'' now) s
         | Inr p \<Rightarrow>
             if cw_IdleTimeoutMs p \<le> 0
             then writeTestResult v now (en_MessageID env) (result_now ''rejected'' ''invalid cable-test window timeout'' now) s
             else
               let s1 = emit (IdleTimeoutSet (imul (cw_IdleTimeoutMs p) millisecond)) s;
                   s2 = fst (windowHook v True (s1\<lparr>se_cableWindowActive := True\<rparr>))
               in startOp (en_MessageID env) req (announceRequestStep v req s2))
      else startOp (en_MessageID env) req (announceRequestStep v req s))"

definition handleTestRequest :: "session_env \<Rightarrow> int \<Rightarrow> Envelope \<Rightarrow> session \<Rightarrow> session" where
  "handleTestRequest v now env s =
     (if cf_Role (sv_cfg v) \<noteq> RolePC2 then warnInvalidState v now env s
      else if Require [StateTesting] (se_sm s) \<noteq> None then warnInvalidState v now env s
      else case DecodePayload (cd_TestRequest (sv_codec v)) (Some env) of
             Inl _ \<Rightarrow> s
           | Inr req \<Rightarrow>
               if tq_Op req = opCancel then
                 writeTestResult v now (en_MessageID env) (result_now ''ok'' '''' now)
                   (case se_activeOp s of None \<Rightarrow> s | Some op \<Rightarrow> emit (OpCancelled (ao_reqID op)) s)
               else
                 (case se_activeOp s of
                    Some op \<Rightarrow>
                      writeTestResult v now (en_MessageID env)
                        (result_now ''rejected'' (''op '' @ sv_quote v (ao_op op) @ '' already active'') now) s
                  | None \<Rightarrow>
                      if tq_Op req = OpCableTestWindowStart \<and> se_cableWindowActive s
                      then writeTestResult v now (en_MessageID env) (result_now ''rejected'' ''cable-test window already active'' now) s
                      else if tq_Op req = OpCableTestWindowEnd \<and> \<not> se_cableWindowActive s
                      then writeTestResult v now (en_MessageID env) (result_now ''rejected'' ''cable-test window is not active'' now) s
                      else acceptRequest v now env req s))"

text \<open>
  The outcome of an executor: the status, error text and start time it reports, and the result payload,
  marshalled or the marshalling error.
\<close>

definition op_result :: "string \<Rightarrow> string option \<Rightarrow> int \<Rightarrow> int \<Rightarrow> TestResult" where
  "op_result status err t0 t1 =
     (case err of
        Some e \<Rightarrow>
          \<lparr>ts_Status = (if status = '''' \<or> status = ''ok'' then ''failed'' else status), ts_Result = '''',
           ts_Error = e, ts_StartedAt = t0, ts_FinishedAt = t1\<rparr>
      | None \<Rightarrow>
          \<lparr>ts_Status = (if status = '''' then ''ok'' else status), ts_Result = '''', ts_Error = '''',
           ts_StartedAt = t0, ts_FinishedAt = t1\<rparr>)"

definition close_window :: "session_env \<Rightarrow> session \<Rightarrow> session \<times> u64" where
  "close_window v s =
     (case windowHook v False s of
        (s1, n) \<Rightarrow> (emit (IdleTimeoutSet (idleTimeout (sv_cfg v))) (s1\<lparr>se_cableWindowActive := False\<rparr>), n))"

definition handleOpDone :: "session_env \<Rightarrow> int \<Rightarrow> string \<Rightarrow> TestResult \<Rightarrow> (string + string) option \<Rightarrow> session \<Rightarrow> session" where
  "handleOpDone v now reqID res resultPayload s =
     (let (opName, s1) =
            (case se_activeOp s of
               Some op \<Rightarrow> if ao_reqID op = reqID then (ao_op op, s\<lparr>se_activeOp := None\<rparr>) else ('''', s)
             | None \<Rightarrow> ('''', s));
          (s2, resultPayload') =
            (if opName = OpCableTestWindowEnd
             then (case close_window v s1 of
                     (s', n) \<Rightarrow> (s', Some (cd_marshalWindow (sv_codec v) \<lparr>cw_SelfInflictedCarrierEvents = n\<rparr>)))
             else if opName = OpCableTestWindowStart \<and> ts_Status res \<noteq> ''ok''
             then (fst (close_window v s1), resultPayload)
             else (s1, resultPayload));
          res' =
            (case resultPayload' of
               None \<Rightarrow> res
             | Some (Inl err) \<Rightarrow> res\<lparr>ts_Status := ''failed'', ts_Error := ''marshal result: '' @ err\<rparr>
             | Some (Inr raw) \<Rightarrow> res\<lparr>ts_Result := raw\<rparr>)
      in writeTestResult v now reqID res' s2)"

definition handleOpProgress :: "session_env \<Rightarrow> int \<Rightarrow> string \<Rightarrow> TestProgress \<Rightarrow> session \<Rightarrow> session" where
  "handleOpProgress v now reqID p s = fst (send v now TypeTestProgress reqID (PTestProgress p) s)"

definition handleTestResult :: "session_env \<Rightarrow> Envelope \<Rightarrow> session \<Rightarrow> session" where
  "handleTestResult v env s =
     (case takeCall (en_InReplyTo env) s of
        (s1, None) \<Rightarrow> s1
      | (s1, Some pc) \<Rightarrow>
          let res = (case DecodePayload (cd_TestResult (sv_codec v)) (Some env) of
                       Inl _ \<Rightarrow> \<lparr>ts_Status = ''failed'', ts_Result = '''', ts_Error = ''malformed test_result'',
                                ts_StartedAt = 0, ts_FinishedAt = 0\<rparr>
                     | Inr res \<Rightarrow> res)
          in emit (CallResult (en_InReplyTo env) res) s1)"

definition writeComplete :: "session_env \<Rightarrow> int \<Rightarrow> string \<Rightarrow> session \<Rightarrow> session" where
  "writeComplete v now inReplyTo s =
     fst (send v now TypeComplete inReplyTo (PComplete (case cf_Complete (sv_cfg v) of
            Some c \<Rightarrow> c | None \<Rightarrow> \<lparr>cp_Classification = '''', cp_Summary = '''', cp_ExitCode = 0\<rparr>)) s)"

definition sendComplete :: "session_env \<Rightarrow> int \<Rightarrow> session \<Rightarrow> session" where
  "sendComplete v now s = (writeComplete v now '''' s)\<lparr>se_sentComplete := True\<rparr>"

text \<open>\<open>startTransfer\<close> of \<open>transfer.go\<close>.\<close>

definition startTransfer :: "session \<Rightarrow> session" where
  "startTransfer s =
     (if se_transferOn s then s else emit TransferStarted (s\<lparr>se_transferOn := True, se_transferRan := True, se_transferBuf := []\<rparr>))"

text \<open>The error of the plan: nil, only a reflection of the teardown, or a failure with its text.\<close>

datatype plan_result = PlanOK | PlanCancelled | PlanFailed string

definition handlePlanDone :: "session_env \<Rightarrow> int \<Rightarrow> plan_result \<Rightarrow> session \<Rightarrow> session" where
  "handlePlanDone v now r s =
     (case r of
        PlanCancelled \<Rightarrow> s
      | PlanFailed err \<Rightarrow>
          let detail = redactToken err (cf_Token (sv_cfg v))
          in s\<lparr>se_fin := Some \<lparr>fs_state = StateFailed, fs_reason = reasonInternalError, fs_farewell = True,
                 fs_farewellReason = reasonInternalError, fs_farewellStage = state_name (current s),
                 fs_farewellDetail = detail, fs_err = Some (ErrPlanFailed detail)\<rparr>\<rparr>
      | PlanOK \<Rightarrow>
          (case transition StateGeneratingReport s of
             (s1, Some _) \<Rightarrow> s1
           | (s1, None) \<Rightarrow>
               let s2 = (if cf_PrepareComplete (sv_cfg v) then emit VerdictPrepared s1 else s1)
               in if cf_SendReports (sv_cfg v) \<and> \<not> cf_NoReportTransfer (sv_cfg v) \<and> ca_AcceptReportTransfer (se_peerCaps s2)
                  then startTransfer s2
                  else sendComplete v now s2))"

definition handleComplete :: "session_env \<Rightarrow> int \<Rightarrow> Envelope \<Rightarrow> session \<Rightarrow> session" where
  "handleComplete v now env s =
     (case DecodePayload (cd_Complete (sv_codec v)) (Some env) of
        Inl _ \<Rightarrow> s
      | Inr cplt \<Rightarrow>
          if cf_Role (sv_cfg v) = RolePC1 \<and> \<not> se_sentComplete s then warnInvalidState v now env s
          else if cf_Role (sv_cfg v) = RolePC2 \<and> Require [StateTesting, StateGeneratingReport] (se_sm s) \<noteq> None
          then warnInvalidState v now env s
          else
            let s1 = (if cf_Role (sv_cfg v) = RolePC2
                      then writeComplete v now (en_MessageID env)
                             (if current s = StateTesting then fst (transition StateGeneratingReport s) else s)
                      else s)
            in s1\<lparr>se_peerComplete := Some cplt,
                 se_fin := Some \<lparr>fs_state = StateCompleted, fs_reason = '''', fs_farewell = False, fs_farewellReason = '''',
                   fs_farewellStage = '''', fs_farewellDetail = '''', fs_err = None\<rparr>\<rparr>)"

subsection \<open>Routing of transfer frames: \<open>transfer.go\<close>\<close>

definition transferBufferSize :: nat where "transferBufferSize = 64"

definition routeTransferFrame :: "session_env \<Rightarrow> int \<Rightarrow> Envelope \<Rightarrow> session \<Rightarrow> session" where
  "routeTransferFrame v now env s =
     (if \<not> se_transferOn s then (if se_transferRan s then s else warnInvalidState v now env s)
      else if length (se_transferBuf s) < transferBufferSize then s\<lparr>se_transferBuf := se_transferBuf s @ [env]\<rparr>
      else s)"

text \<open>\<open>ReportChannel.Send\<close> and \<open>ReportChannel.Receive\<close>, called by the transfer callback.\<close>

definition channelSend :: "session_env \<Rightarrow> int \<Rightarrow> string \<Rightarrow> string \<Rightarrow> payload \<Rightarrow> session \<Rightarrow> session \<times> string option" where
  "channelSend v now typ inReplyTo p s =
     (if typ = TypeReport \<or> typ = TypeReportChunk \<or> typ = TypeReportAck then send v now typ inReplyTo p s
      else (s, Some (''peer: ReportChannel.Send: type '' @ typ @ '' is not a report-transfer frame'')))"

definition channelReceive :: "session \<Rightarrow> session \<times> Envelope option" where
  "channelReceive s =
     (case se_transferBuf s of [] \<Rightarrow> (s, None) | env # rest \<Rightarrow> (s\<lparr>se_transferBuf := rest\<rparr>, Some env))"

definition handleReportManifest :: "session_env \<Rightarrow> int \<Rightarrow> Envelope \<Rightarrow> session \<Rightarrow> session" where
  "handleReportManifest v now env s =
     (if cf_Role (sv_cfg v) \<noteq> RolePC2 then warnInvalidState v now env s
      else if Require [StateTesting, StateGeneratingReport] (se_sm s) \<noteq> None then warnInvalidState v now env s
      else
        case (if current s = StateTesting then transition StateGeneratingReport s else (s, None)) of
          (s1, Some _) \<Rightarrow> s1
        | (s1, None) \<Rightarrow>
            if \<not> cf_ReceiveReports (sv_cfg v) \<or> cf_NoReportTransfer (sv_cfg v)
            then fst (send v now TypeReportAck (en_MessageID env) (PReportAck \<lparr>ra_Name = '''', ra_OK = False,
                   ra_Declined = True, ra_Error = ''report transfer not accepted''\<rparr>) (s1\<lparr>se_transferRan := True\<rparr>))
            else routeTransferFrame v now env (startTransfer s1))"

definition handleTransferDone :: "session_env \<Rightarrow> int \<Rightarrow> string option \<Rightarrow> session \<Rightarrow> session" where
  "handleTransferDone v now err s =
     (let s1 = s\<lparr>se_transferOn := False\<rparr>;
          s2 = (case err of
                  None \<Rightarrow> s1
                | Some e \<Rightarrow> fst (send v now TypeWarning '''' (PWarning \<lparr>wa_Code = ''report_transfer_failed'', wa_Text = e,
                              wa_Stage = state_name (current s1)\<rparr>) s1))
      in if cf_Role (sv_cfg v) = RolePC1 \<and> \<not> se_sentComplete s2 then sendComplete v now s2 else s2)"

subsection \<open>The event loop: \<open>loop.go\<close>\<close>

datatype event =
    EvFrame Envelope
  | EvConnErr string
  | EvStdin string
  | EvStdinEOF
  | EvOpDone string TestResult "(string + string) option"
  | EvOpProgress string TestProgress
  | EvPlanDone plan_result
  | EvTransferDone "string option"
  | EvCallExpired string string

definition handleConnErr :: "string \<Rightarrow> session \<Rightarrow> session" where
  "handleConnErr err s =
     s\<lparr>se_fin := Some \<lparr>fs_state = StateAborted, fs_reason = reasonPeerLost, fs_farewell = False, fs_farewellReason = '''',
         fs_farewellStage = '''', fs_farewellDetail = '''', fs_err = Some (ErrPeerAborted (''connection lost: '' @ err))\<rparr>\<rparr>"

definition handlePeerAbort :: "session_env \<Rightarrow> Envelope \<Rightarrow> session \<Rightarrow> session" where
  "handlePeerAbort v env s =
     (let ab = (case DecodePayload (cd_Abort (sv_codec v)) (Some env) of
                  Inl _ \<Rightarrow> \<lparr>ab_Reason = ''unknown'', ab_Stage = '''', ab_Detail = '''', ab_Initiator = ''''\<rparr>
                | Inr ab \<Rightarrow> ab);
          txt = ab_Reason ab @ '' at '' @ ab_Stage ab @ (if ab_Detail ab \<noteq> '''' then '': '' @ ab_Detail ab else '''');
          s1 = emit (Printed (''peer aborted: '' @ txt)) s
      in s1\<lparr>se_peerAbortStage := ab_Stage ab, se_peerAbortDetail := ab_Detail ab,
           se_fin := Some \<lparr>fs_state = StateAborted, fs_reason = ab_Reason ab, fs_farewell = False, fs_farewellReason = '''',
             fs_farewellStage = '''', fs_farewellDetail = '''', fs_err = Some (ErrPeerAborted txt)\<rparr>\<rparr>)"

text \<open>\<open>checkAssignedTestID\<close> of \<open>handshake.go\<close>.\<close>

definition checkAssignedTestID :: "Envelope \<Rightarrow> string \<Rightarrow> bool" where
  "checkAssignedTestID env testID \<longleftrightarrow> \<not> (en_TestID env \<noteq> '''' \<and> en_TestID env \<noteq> testID)"

definition handleProgress :: "session_env \<Rightarrow> Envelope \<Rightarrow> session \<Rightarrow> session" where
  "handleProgress v env s =
     (case peekCall (en_InReplyTo env) s of
        None \<Rightarrow> s
      | Some pc \<Rightarrow>
          if pc_onProgress pc
          then (case DecodePayload (cd_TestProgress (sv_codec v)) (Some env) of
                  Inl _ \<Rightarrow> s
                | Inr p \<Rightarrow> emit (CallProgress (en_InReplyTo env) p) s)
          else s)"

text \<open>The \<open>switch\<close> of \<open>handleFrame\<close> on the message type.\<close>

definition dispatch :: "session_env \<Rightarrow> int \<Rightarrow> Envelope \<Rightarrow> session \<Rightarrow> session" where
  "dispatch v now env s =
     (if en_Type env = TypeHeartbeat then
        (case DecodePayload (cd_Heartbeat (sv_codec v)) (Some env) of Inl _ \<Rightarrow> s | Inr hb \<Rightarrow> s\<lparr>se_peerHB := Some (hb, now)\<rparr>)
      else if en_Type env = TypeReady then handlePeerReady v now env s
      else if en_Type env = TypeStartConfirm then handleStartConfirmation v now env s
      else if en_Type env = TypeTestRequest then handleTestRequest v now env s
      else if en_Type env = TypeTestProgress then handleProgress v env s
      else if en_Type env = TypeTestResult then handleTestResult v env s
      else if en_Type env = TypeWarning then s
      else if en_Type env = TypeAbort then handlePeerAbort v env s
      else if en_Type env = TypeReport then handleReportManifest v now env s
      else if en_Type env = TypeReportChunk \<or> en_Type env = TypeReportAck then routeTransferFrame v now env s
      else if en_Type env = TypeComplete then handleComplete v now env s
      else if en_Type env = TypeHello \<or> en_Type env = TypeHelloAck \<or> en_Type env = TypeCapabilities
      then warnInvalidState v now env s
      else s)"

definition handleFrame :: "session_env \<Rightarrow> int \<Rightarrow> Envelope \<Rightarrow> session \<Rightarrow> session" where
  "handleFrame v now env s0 =
     (let s = s0\<lparr>se_lastRecvAt := Some now\<rparr>
      in case Observe (en_MessageID env) (se_dedup s) of
           (d, Some _) \<Rightarrow> s\<lparr>se_dedup := d\<rparr>
         | (d, None) \<Rightarrow>
             let s1 = s\<lparr>se_dedup := d\<rparr>
             in if CheckVersion env \<noteq> None then s1
                else if \<not> checkAssignedTestID env (se_testID s1) then s1
                else dispatch v now env s1)"

definition handleEvent :: "session_env \<Rightarrow> int \<Rightarrow> event \<Rightarrow> session \<Rightarrow> session" where
  "handleEvent v now ev s =
     (case ev of
        EvFrame env \<Rightarrow> handleFrame v now env s
      | EvConnErr err \<Rightarrow> handleConnErr err s
      | EvStdin line \<Rightarrow> handleStdinLine v now line s
      | EvStdinEOF \<Rightarrow> finishAbort reasonUserInterrupt (abortStage s) (ErrLocalAbort ''stdin closed'') s
      | EvOpDone reqID res p \<Rightarrow> handleOpDone v now reqID res p s
      | EvOpProgress reqID p \<Rightarrow> handleOpProgress v now reqID p s
      | EvPlanDone r \<Rightarrow> handlePlanDone v now r s
      | EvTransferDone err \<Rightarrow> handleTransferDone v now err s
      | EvCallExpired msgID op \<Rightarrow>
          s\<lparr>se_fin := Some \<lparr>fs_state = StateFailed, fs_reason = reasonRequestTimeout, fs_farewell = True,
              fs_farewellReason = reasonRequestTimeout, fs_farewellStage = op, fs_farewellDetail = '''',
              fs_err = Some (ErrRequestTimeout op)\<rparr>\<rparr>)"

text \<open>The heartbeater: a tick sends a heartbeat unless a frame was written recently.\<close>

definition heartbeatTick :: "session_env \<Rightarrow> int \<Rightarrow> session \<Rightarrow> session" where
  "heartbeatTick v now s =
     (if (case se_lastSend s of None \<Rightarrow> True | Some t \<Rightarrow> now - t \<ge> idiv (imul (heartbeatInterval (sv_cfg v)) 4) 5)
      then
        (case send v now TypeHeartbeat '''' (PHeartbeat \<lparr>hb_Seq = se_hbSeq s + 1, hb_State = state_name (current s),
                hb_ActiveOp = activeOpName s\<rparr>) s of
           (s1, Some _) \<Rightarrow> s1
         | (s1, None) \<Rightarrow> s1\<lparr>se_hbSeq := se_hbSeq s1 + 1\<rparr>)
      else s)"

text \<open>
  What can happen to a running session: the cases of the loop's \<open>select\<close>, and the methods other
  goroutines call. The loop runs until \<open>fin\<close> is set; afterwards its cases no longer apply.
\<close>

datatype action =
    ParentDone string
  | CountdownTick
  | Event event
  | HeartbeatTick
  | PlanCall bool bool planStep string string int bool
  | CallReturned string
  | PlanWarn string string
  | ChannelSend string string payload
  | ChannelReceive

definition loop_action :: "action \<Rightarrow> bool" where
  "loop_action a = (case a of ParentDone _ \<Rightarrow> True | CountdownTick \<Rightarrow> True | Event _ \<Rightarrow> True | _ \<Rightarrow> False)"

definition act :: "session_env \<Rightarrow> int \<Rightarrow> action \<Rightarrow> session \<Rightarrow> session" where
  "act v now a s =
     (if loop_action a \<and> se_fin s \<noteq> None then s
      else case a of
        ParentDone cause \<Rightarrow> finishAbort reasonUserInterrupt (abortStage s) (ErrLocalAbort cause) s
      | CountdownTick \<Rightarrow> onCountdownTick v s
      | Event ev \<Rightarrow> handleEvent v now ev s
      | HeartbeatTick \<Rightarrow> heartbeatTick v now s
      | PlanCall cancelled armExpiry st op raw timeout onProgress \<Rightarrow>
          fst (call v now cancelled armExpiry st op raw timeout onProgress s)
      | CallReturned msgID \<Rightarrow> unregisterCall msgID s
      | PlanWarn code txt \<Rightarrow>
          fst (send v now TypeWarning '''' (PWarning \<lparr>wa_Code = code, wa_Text = txt, wa_Stage = state_name (current s)\<rparr>) s)
      | ChannelSend typ inReplyTo p \<Rightarrow> fst (channelSend v now typ inReplyTo p s)
      | ChannelReceive \<Rightarrow> fst (channelReceive s))"

definition run_actions :: "session_env \<Rightarrow> (int \<times> action) list \<Rightarrow> session \<Rightarrow> session" where
  "run_actions v as s = fold (\<lambda>(now, a) s. act v now a s) as s"

subsection \<open>Start and shutdown: \<open>session.go\<close>\<close>

text \<open>
  A session after a handshake that returned \<open>hs\<close>: \<open>run\<close> walks the machine to
  waiting-for-local-start, starts the goroutines and, under \<open>--non-interactive\<close>, announces readiness.
\<close>

record handshakeResult =
  hs_TestID :: string
  hs_PeerVersion :: string
  hs_PeerCaps :: Capabilities
  hs_IDs :: MessageIDMaker
  hs_Dedup :: DuplicateDetector

definition establish_path :: "string \<Rightarrow> State list" where
  "establish_path role =
     [StatePreflight, if role = RolePC1 then StateListening else StateConnecting, StateHandshake, StateWaitingForLocalStart]"

definition newSession :: "session_env \<Rightarrow> handshakeResult \<Rightarrow> session" where
  "newSession v hs =
     \<lparr>se_sm = run (establish_path (cf_Role (sv_cfg v))) (NewStateMachine StateInitializing),
      se_ids = hs_IDs hs, se_dedup = hs_Dedup hs, se_testID = hs_TestID hs, se_peerCaps = hs_PeerCaps hs,
      se_mode = (if cf_Role (sv_cfg v) = RolePC1 then cf_Mode (sv_cfg v) else ''''), se_steps = [],
      se_pending = Map.empty, se_pendingClosed = False, se_activeOp = None, se_localReady = False,
      se_peerReady = False, se_sentComplete = False, se_peerComplete = None, se_peerHB = None,
      se_lastRecvAt = None, se_lastSend = None, se_hbSeq = 0, se_invalidState = 0,
      se_cableWindowActive = False, se_countdown = [], se_transferBuf = [], se_transferOn = False,
      se_transferRan = False, se_fin = None, se_announcedStep = None, se_peerAbortStage = '''',
      se_peerAbortDetail = '''', se_writes = 0, se_sent = [], se_effects = []\<rparr>"

definition startSession :: "session_env \<Rightarrow> int \<Rightarrow> handshakeResult \<Rightarrow> session" where
  "startSession v now hs =
     (if cf_NonInteractive (sv_cfg v) then sendLocalReady v now (newSession v hs) else newSession v hs)"

definition sendFarewell :: "session_env \<Rightarrow> int \<Rightarrow> finishSpec \<Rightarrow> session \<Rightarrow> session" where
  "sendFarewell v now spec s =
     fst (send v now TypeAbort '''' (PAbort \<lparr>ab_Reason = fs_farewellReason spec, ab_Stage = fs_farewellStage spec,
            ab_Detail = fs_farewellDetail spec, ab_Initiator = cf_Role (sv_cfg v)\<rparr>) s)"

definition shutdown :: "session_env \<Rightarrow> int \<Rightarrow> finishSpec \<Rightarrow> session \<Rightarrow> session" where
  "shutdown v now spec s =
     (let s1 = (case se_activeOp s of None \<Rightarrow> s | Some op \<Rightarrow> emit (OpCancelled (ao_reqID op)) s);
          s2 = (if fs_farewell spec then sendFarewell v now spec s1 else s1);
          s3 = (if se_cableWindowActive s2 then (fst (windowHook v False s2))\<lparr>se_cableWindowActive := False\<rparr> else s2);
          s4 = closePendingCalls s3
      in fst (transition (fs_state spec) s4))"

record Outcome =
  oc_FinalState :: State
  oc_PeerComplete :: "Complete option"
  oc_AbortReason :: string
  oc_AbortStage :: string
  oc_AbortDetail :: string
  oc_PeerCaps :: Capabilities
  oc_TestID :: string
  oc_Mode :: string

definition outcome :: "string \<Rightarrow> session \<Rightarrow> Outcome" where
  "outcome reason s =
     \<lparr>oc_FinalState = current s, oc_PeerComplete = se_peerComplete s, oc_AbortReason = reason,
      oc_AbortStage = se_peerAbortStage s, oc_AbortDetail = se_peerAbortDetail s, oc_PeerCaps = se_peerCaps s,
      oc_TestID = se_testID s, oc_Mode = se_mode s\<rparr>"

text \<open>\<open>loop\<close>: the actions up to the one that sets \<open>fin\<close>, then the shutdown; \<open>None\<close> while it runs.\<close>

definition loop :: "session_env \<Rightarrow> int \<Rightarrow> (int \<times> action) list \<Rightarrow> session \<Rightarrow> (Outcome \<times> session_error option) option" where
  "loop v t as s =
     (let s' = run_actions v as s
      in case se_fin s' of
           None \<Rightarrow> None
         | Some spec \<Rightarrow> Some (outcome (fs_reason spec) (shutdown v t spec s'), fs_err spec))"

end
