(* ===== verification/Lifecycle.thy ===== *)
theory Lifecycle
  imports Session
begin

section \<open>The life of a session\<close>

text \<open>
  Which actions are enabled in a session, the sessions that can be reached, and what holds in all of them:
  the state machine, the readiness flags, the countdown, the transfer and the finish specification agree, so
  the final transition of the shutdown is never refused. Also what a session does to its counterpart: which
  frames it sends, that its frames are never dropped as duplicates, and that the cable-test window it opened
  is closed again.
\<close>

subsection \<open>What sending leaves alone\<close>

named_theorems session_simps \<open>fields that an operation of the session does not change\<close>

lemma send_shape:
  "\<exists>ids n xs t. fst (send v now typ r p s) = s\<lparr>se_ids := ids, se_writes := n, se_sent := xs, se_lastSend := t\<rparr>"
proof -
  have w: "\<exists>n xs t. fst (write_frame v now env s) = s\<lparr>se_writes := n, se_sent := xs, se_lastSend := t\<rparr>" for env s
  proof (cases "sv_writeErr v (se_writes s)")
    case None
    then show ?thesis by (auto simp: write_frame_def)
  next
    case (Some e)
    then have "fst (write_frame v now env s)
      = s\<lparr>se_writes := Suc (se_writes s), se_sent := se_sent s, se_lastSend := se_lastSend s\<rparr>" by (simp add: write_frame_def)
    then show ?thesis by blast
  qed
  obtain ids i where n: "Next (se_ids s) = (ids, i)" by fastforce
  show ?thesis
  proof (cases "NewEnvelope (cd_marshal (sv_codec v)) now typ (se_testID s) i (Some p)")
    case (Inl err)
    with n have "fst (send v now typ r p s) = s\<lparr>se_ids := ids, se_writes := se_writes s, se_sent := se_sent s,
      se_lastSend := se_lastSend s\<rparr>" by (simp add: send_def mintAndWrite_def)
    then show ?thesis by blast
  next
    case (Inr env)
    obtain n' xs t where "fst (write_frame v now (env\<lparr>en_InReplyTo := r\<rparr>) (s\<lparr>se_ids := ids\<rparr>))
      = s\<lparr>se_ids := ids, se_writes := n', se_sent := xs, se_lastSend := t\<rparr>"
      using w [of "env\<lparr>en_InReplyTo := r\<rparr>" "s\<lparr>se_ids := ids\<rparr>"] by auto
    then have "fst (send v now typ r p s) = s\<lparr>se_ids := ids, se_writes := n', se_sent := xs, se_lastSend := t\<rparr>"
      using Inr n by (auto simp: send_def mintAndWrite_def split: prod.split)
    then show ?thesis by blast
  qed
qed

lemma send_keeps [session_simps]:
  assumes "send v now typ r p s = (s', err)"
  shows "se_sm s' = se_sm s" "se_testID s' = se_testID s" "se_dedup s' = se_dedup s" "se_pending s' = se_pending s"
    "se_pendingClosed s' = se_pendingClosed s" "se_activeOp s' = se_activeOp s" "se_localReady s' = se_localReady s"
    "se_peerReady s' = se_peerReady s" "se_sentComplete s' = se_sentComplete s" "se_peerComplete s' = se_peerComplete s"
    "se_invalidState s' = se_invalidState s" "se_cableWindowActive s' = se_cableWindowActive s"
    "se_countdown s' = se_countdown s" "se_transferOn s' = se_transferOn s" "se_transferRan s' = se_transferRan s"
    "se_transferBuf s' = se_transferBuf s" "se_fin s' = se_fin s" "se_effects s' = se_effects s" "se_steps s' = se_steps s"
    "se_peerCaps s' = se_peerCaps s" "se_announcedStep s' = se_announcedStep s" "se_hbSeq s' = se_hbSeq s"
  using send_shape [of v now "typ" r p s] assms by auto

lemma sent_keeps [simp]:
  "se_sm (fst (send v now typ r p s)) = se_sm s" "se_activeOp (fst (send v now typ r p s)) = se_activeOp s"
  "se_localReady (fst (send v now typ r p s)) = se_localReady s" "se_peerReady (fst (send v now typ r p s)) = se_peerReady s"
  "se_sentComplete (fst (send v now typ r p s)) = se_sentComplete s" "se_peerComplete (fst (send v now typ r p s)) = se_peerComplete s"
  "se_invalidState (fst (send v now typ r p s)) = se_invalidState s"
  "se_cableWindowActive (fst (send v now typ r p s)) = se_cableWindowActive s"
  "se_countdown (fst (send v now typ r p s)) = se_countdown s" "se_transferOn (fst (send v now typ r p s)) = se_transferOn s"
  "se_transferRan (fst (send v now typ r p s)) = se_transferRan s" "se_fin (fst (send v now typ r p s)) = se_fin s"
  "se_effects (fst (send v now typ r p s)) = se_effects s" "se_peerCaps (fst (send v now typ r p s)) = se_peerCaps s"
  "se_transferBuf (fst (send v now typ r p s)) = se_transferBuf s" "se_pending (fst (send v now typ r p s)) = se_pending s"
  using send_keeps [of v now "typ" r p s] by (simp_all add: prod_eq_iff)

lemma current_simps [simp]:
  "current (fst (send v now typ r p s)) = current s" "current (emit x s) = current s"
  by (simp_all add: current_def emit_def)

lemma emit_keeps [simp]:
  "se_sm (emit x s) = se_sm s" "se_activeOp (emit x s) = se_activeOp s" "se_localReady (emit x s) = se_localReady s"
  "se_peerReady (emit x s) = se_peerReady s" "se_sentComplete (emit x s) = se_sentComplete s"
  "se_peerComplete (emit x s) = se_peerComplete s" "se_invalidState (emit x s) = se_invalidState s"
  "se_cableWindowActive (emit x s) = se_cableWindowActive s" "se_countdown (emit x s) = se_countdown s"
  "se_transferOn (emit x s) = se_transferOn s" "se_transferRan (emit x s) = se_transferRan s" "se_fin (emit x s) = se_fin s"
  "se_ids (emit x s) = se_ids s" "se_sent (emit x s) = se_sent s" "se_peerCaps (emit x s) = se_peerCaps s"
  "se_transferBuf (emit x s) = se_transferBuf s" "se_effects (emit x s) = se_effects s @ [x]" "se_pending (emit x s) = se_pending s"
  by (simp_all add: emit_def)

subsection \<open>Reachable sessions\<close>

text \<open>
  An action is enabled when its producer can perform it: a tick only when a countdown is armed, an
  operation ends only while it is active, the plan and a transfer end only while they run, and a
  transfer callback uses its channel only while it runs. Frames, operator lines and connection errors can
  come at any time.
\<close>

definition plan_running :: "session \<Rightarrow> bool" where
  "plan_running s \<longleftrightarrow> PlanStarted \<in> set (se_effects s) \<and> current s = StateTesting"

definition enabled :: "action \<Rightarrow> session \<Rightarrow> bool" where
  "enabled a s \<longleftrightarrow>
     (loop_action a \<longrightarrow> se_fin s = None)
     \<and> (case a of
          CountdownTick \<Rightarrow> se_countdown s \<noteq> []
        | Event (EvOpDone reqID _ _) \<Rightarrow> (case se_activeOp s of None \<Rightarrow> False | Some op \<Rightarrow> ao_reqID op = reqID)
        | Event (EvPlanDone _) \<Rightarrow> plan_running s
        | Event (EvTransferDone _) \<Rightarrow> se_transferOn s
        | ChannelSend _ _ _ \<Rightarrow> se_transferOn s
        | _ \<Rightarrow> True)"

inductive reachable :: "session_env \<Rightarrow> handshakeResult \<Rightarrow> session \<Rightarrow> bool" for v hs where
  start: "reachable v hs (startSession v now hs)"
| step: "reachable v hs s \<Longrightarrow> enabled a s \<Longrightarrow> reachable v hs (act v now a s)"

subsection \<open>The lifecycle invariant\<close>

text \<open>
  The flags agree with the state, a countdown runs only in \<open>ready\<close> and ends with GO, a transfer and the
  complete frame belong to \<open>generating_report\<close>, strikes are counted, and a finish specification names a
  terminal state that can be entered.
\<close>

definition phase_ok :: "State \<Rightarrow> bool \<Rightarrow> bool \<Rightarrow> bool" where
  "phase_ok st lready pready =
     (case st of
        StateWaitingForLocalStart \<Rightarrow> \<not> lready
      | StateWaitingForPeerStart \<Rightarrow> lready \<and> \<not> pready
      | StateReady \<Rightarrow> lready \<and> pready
      | StateTesting \<Rightarrow> lready \<and> pready
      | StateGeneratingReport \<Rightarrow> lready \<and> pready
      | _ \<Rightarrow> False)"

definition countdown_ok :: "countdownStep list \<Rightarrow> bool" where
  "countdown_ok cd \<longleftrightarrow> cd \<noteq> [] \<and> ct_label (last cd) = '''' \<and> (\<forall>c\<in>set (butlast cd). ct_label c \<noteq> '''')"

definition fin_ok :: "session \<Rightarrow> bool" where
  "fin_ok s \<longleftrightarrow>
     (se_fin s = None \<longrightarrow> se_invalidState s < maxInvalidState)
     \<and> (\<forall>spec. se_fin s = Some spec \<longrightarrow>
          (fs_state spec = StateAborted \<or> fs_state spec = StateFailed) \<and> fs_err spec \<noteq> None
          \<or> fs_state spec = StateCompleted \<and> current s = StateGeneratingReport \<and> se_peerComplete s \<noteq> None
            \<and> \<not> fs_farewell spec \<and> fs_err spec = None)"

definition life_inv :: "session \<Rightarrow> bool" where
  "life_inv s \<longleftrightarrow>
     phase_ok (current s) (se_localReady s) (se_peerReady s)
     \<and> (se_countdown s \<noteq> [] \<longrightarrow> current s = StateReady \<and> countdown_ok (se_countdown s))
     \<and> (se_transferOn s \<or> se_sentComplete s \<longrightarrow> current s = StateGeneratingReport)
     \<and> fin_ok s"

lemma transition_ok:
  "to \<in> set (validTransitions (current s)) \<Longrightarrow> \<exists>m. transition to s = (s\<lparr>se_sm := m\<rparr>, None) \<and> sm_cur m = to"
  by (intro exI [of _ "fst (Transition to (se_sm s))"]) (simp add: transition_def Transition_def current_def list_ex_iff)

lemma life_inv_warn [intro]:
  assumes "life_inv s" and "se_fin s = None"
  shows "life_inv (warnInvalidState v now env s)"
  using assms
  by (simp add: warnInvalidState_def Let_def life_inv_def fin_ok_def finishAbort_def maxInvalidState_def current_def)

lemma life_inv_send [simp]: "life_inv (fst (send v now typ r p s)) = life_inv s"
  by (simp add: life_inv_def fin_ok_def cong: option.case_cong)

lemma life_inv_emit [simp]: "life_inv (emit x s) = life_inv s"
  by (simp add: life_inv_def fin_ok_def cong: option.case_cong)

lemma countdown_ok_start: "countdown_ok (countdown_step now lead 3 @ countdown_step now lead 2 @ countdown_step now lead 1
    @ [\<lparr>ct_at = now + lead, ct_label = ''''\<rparr>])"
  by (auto simp: countdown_ok_def countdown_step_def butlast_append show_int_def show_nonneg_small split: if_splits)

lemma life_inv_countdown:
  "life_inv s \<Longrightarrow> current s = StateReady \<Longrightarrow> life_inv (startCountdown now lead s)"
  using countdown_ok_start [of now lead] by (simp add: life_inv_def startCountdown_def fin_ok_def current_def)

lemma life_inv_both:
  assumes "life_inv s" and "current s = StateReady"
  shows "life_inv (onBothReady v now s)"
proof -
  obtain s' e where s': "send v now TypeStartConfirm '''' (PStartConfirmation
     \<lparr>sc_StartAt = now + startCountdownMs * millisecond, sc_StartInMs = startCountdownMs, sc_Mode = cf_Mode (sv_cfg v),
      sc_Steps = cf_Steps (sv_cfg v)\<rparr>) (emit (Printed ''both sides ready'') s) = (s', e)" by fastforce
  then have "life_inv s'" "current s' = StateReady"
    using assms life_inv_send life_inv_emit current_simps by (metis fst_conv)+
  with s' assms show ?thesis
    by (auto simp: onBothReady_def Let_def split: option.split intro: life_inv_countdown)
qed

lemma life_inv_local:
  assumes "life_inv s" and "current s = StateWaitingForLocalStart"
  shows "life_inv (sendLocalReady v now s)"
proof -
  obtain s1 e where s1: "send v now TypeReady '''' (PReady \<lparr>rd_NonInteractive = cf_NonInteractive (sv_cfg v)\<rparr>) s = (s1, e)"
    by fastforce
  then have i: "life_inv s1" "current s1 = StateWaitingForLocalStart" "se_peerReady s1 = se_peerReady s"
    using assms life_inv_send current_simps sent_keeps by (metis fst_conv)+
  define to where "to = (if se_peerReady s1 then StateReady else StateWaitingForPeerStart)"
  obtain m where m: "transition to (s1\<lparr>se_localReady := True\<rparr>) = (s1\<lparr>se_localReady := True, se_sm := m\<rparr>, None)" "sm_cur m = to"
    using transition_ok [of to "s1\<lparr>se_localReady := True\<rparr>"] i by (auto simp: to_def current_def)
  have l: "life_inv (s1\<lparr>se_localReady := True, se_sm := m\<rparr>)"
    using i m by (auto simp: life_inv_def fin_ok_def current_def phase_ok_def to_def)
  have c: "current (s1\<lparr>se_localReady := True, se_sm := m\<rparr>) = to" using m by (simp add: current_def)
  show ?thesis
    using assms i s1 m l c life_inv_both
    by (auto simp: sendLocalReady_def Let_def to_def split: option.split)
qed

lemma life_inv_ready:
  assumes "life_inv s" and "se_fin s = None"
  shows "life_inv (handlePeerReady v now env s)"
proof (cases "current s = StateWaitingForPeerStart \<and> \<not> se_peerReady s")
  case True
  obtain m where m: "transition StateReady (s\<lparr>se_peerReady := True\<rparr>) = (s\<lparr>se_peerReady := True, se_sm := m\<rparr>, None)" "sm_cur m = StateReady"
    using transition_ok [of StateReady "s\<lparr>se_peerReady := True\<rparr>"] True by (auto simp: current_def)
  have "life_inv (s\<lparr>se_peerReady := True, se_sm := m\<rparr>)" "current (s\<lparr>se_peerReady := True, se_sm := m\<rparr>) = StateReady"
    using assms True m by (auto simp: life_inv_def fin_ok_def current_def phase_ok_def)
  with True m show ?thesis by (simp add: handlePeerReady_def life_inv_both)
next
  case False
  have "life_inv (s\<lparr>se_peerReady := True\<rparr>)" if "current s = StateWaitingForLocalStart"
    using assms that by (auto simp: life_inv_def fin_ok_def current_def phase_ok_def)
  with False assms show ?thesis
    by (auto simp: handlePeerReady_def split: State.split)
qed

text \<open>The fields the invariant reads; most operations leave them alone.\<close>

definition life_view :: "session \<Rightarrow> StateMachine \<times> bool \<times> bool \<times> countdownStep list \<times> bool \<times> bool \<times> finishSpec option \<times> int \<times> Complete option" where
  "life_view s = (se_sm s, se_localReady s, se_peerReady s, se_countdown s, se_transferOn s, se_sentComplete s,
     se_fin s, se_invalidState s, se_peerComplete s)"

lemma life_inv_view: "life_view s' = life_view s \<Longrightarrow> life_inv s \<Longrightarrow> life_inv s'"
  by (simp add: life_view_def life_inv_def fin_ok_def current_def)

lemma life_view_simps [simp]:
  "life_view (fst (send v now typ r p s)) = life_view s" "life_view (emit x s) = life_view s"
  "life_view (fst (windowHook v b s)) = life_view s" "life_view (fst (close_window v s)) = life_view s"
  "life_view (writeTestResult v now i res s) = life_view s" "life_view (announceRequestStep v req s) = life_view s"
  "life_view (startOp i req s) = life_view s" "life_view (writeComplete v now i s) = life_view s"
  "life_view (unregisterCall i s) = life_view s"
  by (simp_all add: life_view_def windowHook_def close_window_def writeTestResult_def announceRequestStep_def startOp_def
      writeComplete_def unregisterCall_def Let_def split: option.split prod.split)

lemma life_view_request: "life_view (acceptRequest v now env req s) = life_view s"
proof -
  have [simp]: "life_view (s\<lparr>se_cableWindowActive := b\<rparr>) = life_view s" for b s by (simp add: life_view_def)
  show ?thesis by (simp add: acceptRequest_def Let_def split: sum.split)
qed

lemma handleOpDone_cases:
  obtains opName s1 s2 res' where "handleOpDone v now i res p s = writeTestResult v now i res' s2"
    and "s1 = s \<and> opName = '''' \<or> (\<exists>op. se_activeOp s = Some op \<and> ao_reqID op = i \<and> opName = ao_op op \<and> s1 = s\<lparr>se_activeOp := None\<rparr>)"
    and "s2 = (if opName = OpCableTestWindowEnd \<or> opName = OpCableTestWindowStart \<and> ts_Status res \<noteq> ''ok''
      then fst (close_window v s1) else s1)"
proof -
  define P where "P = (case se_activeOp s of
      Some op \<Rightarrow> if ao_reqID op = i then (ao_op op, s\<lparr>se_activeOp := None\<rparr>) else ('''', s)
    | None \<Rightarrow> ('''', s))"
  obtain opName s1 where P: "P = (opName, s1)" by fastforce
  obtain s' n where c: "close_window v s1 = (s', n)" by fastforce
  have 1: "s1 = s \<and> opName = '''' \<or> (\<exists>op. se_activeOp s = Some op \<and> ao_reqID op = i \<and> opName = ao_op op \<and> s1 = s\<lparr>se_activeOp := None\<rparr>)"
    using P by (auto simp: P_def split: option.splits if_splits)
  have "\<exists>res'. handleOpDone v now i res p s = writeTestResult v now i res'
    (if opName = OpCableTestWindowEnd \<or> opName = OpCableTestWindowStart \<and> ts_Status res \<noteq> ''ok'' then s' else s1)"
    unfolding handleOpDone_def P_def [symmetric] P Let_def by (auto simp: c)
  then have "\<exists>res'. handleOpDone v now i res p s = writeTestResult v now i res'
    (if opName = OpCableTestWindowEnd \<or> opName = OpCableTestWindowStart \<and> ts_Status res \<noteq> ''ok'' then fst (close_window v s1) else s1)"
    unfolding c fst_conv .
  then show thesis using that [OF _ 1 refl] by blast
qed

lemma life_view_done: "life_view (handleOpDone v now i res p s) = life_view s"
proof -
  obtain opName s1 s2 res' where "handleOpDone v now i res p s = writeTestResult v now i res' s2"
    "s1 = s \<and> opName = '''' \<or> (\<exists>op. se_activeOp s = Some op \<and> ao_reqID op = i \<and> opName = ao_op op \<and> s1 = s\<lparr>se_activeOp := None\<rparr>)"
    "s2 = (if opName = OpCableTestWindowEnd \<or> opName = OpCableTestWindowStart \<and> ts_Status res \<noteq> ''ok''
      then fst (close_window v s1) else s1)" by (rule handleOpDone_cases)
  moreover from this have "life_view s1 = life_view s" by (auto simp: life_view_def)
  ultimately show ?thesis by simp
qed

lemma life_view_call: "life_view (fst (call v now c a st op raw t b s)) = life_view s"
  by (auto simp: call_def registerCall_def unregisterCall_def write_frame_def life_view_def Let_def
      split: prod.split option.split sum.split)

lemma life_inv_confirm: "life_inv s \<Longrightarrow> se_fin s = None \<Longrightarrow> life_inv (handleStartConfirmation v now env s)"
proof -
  assume i: "life_inv s" "se_fin s = None"
  have "life_inv (s\<lparr>se_mode := m, se_steps := xs\<rparr>)" "current (s\<lparr>se_mode := m, se_steps := xs\<rparr>) = current s" for m xs
    using i by (auto intro: life_inv_view [of _ s] simp: life_view_def current_def)
  with i show ?thesis
    by (auto simp: handleStartConfirmation_def Require_def current_def split: sum.split if_splits intro!: life_inv_countdown)
qed

lemma countdown_tail: "countdown_ok (c # cd) \<Longrightarrow> (ct_label c = '''' \<longleftrightarrow> cd = []) \<and> (cd \<noteq> [] \<longrightarrow> countdown_ok cd)"
  by (cases cd) (auto simp: countdown_ok_def)

lemma life_inv_tick:
  assumes "life_inv s" and "se_fin s = None"
  shows "life_inv (onCountdownTick v s)"
proof (cases "se_countdown s")
  case (Cons c cd)
  then have cd: "current s = StateReady" "countdown_ok (c # cd)" using assms by (simp_all add: life_inv_def)
  show ?thesis
  proof (cases "ct_label c = ''''")
    case True
    then have "cd = []" using countdown_tail [OF cd(2)] by simp
    moreover obtain m where m: "transition StateTesting (emit (Printed ''GO'') (s\<lparr>se_countdown := []\<rparr>))
        = ((emit (Printed ''GO'') (s\<lparr>se_countdown := []\<rparr>))\<lparr>se_sm := m\<rparr>, None)" "sm_cur m = StateTesting"
      using transition_ok [of StateTesting "emit (Printed ''GO'') (s\<lparr>se_countdown := []\<rparr>)"] cd(1) by (auto simp: current_def)
    moreover have "life_inv ((emit (Printed ''GO'') (s\<lparr>se_countdown := []\<rparr>))\<lparr>se_sm := m\<rparr>)"
      using assms cd(1) m(2) by (auto simp: life_inv_def fin_ok_def current_def phase_ok_def)
    ultimately show ?thesis using Cons True by (simp add: onCountdownTick_def)
  next
    case False
    have "life_inv (s\<lparr>se_countdown := cd\<rparr>)"
      using assms cd countdown_tail [OF cd(2)] by (auto simp: life_inv_def fin_ok_def current_def)
    with Cons False show ?thesis by (simp add: onCountdownTick_def)
  qed
qed (use assms in \<open>simp add: onCountdownTick_def\<close>)

lemma life_inv_fin:
  "life_inv s \<Longrightarrow> fs_state spec = StateAborted \<or> fs_state spec = StateFailed \<Longrightarrow> fs_err spec \<noteq> None
    \<Longrightarrow> life_inv (s\<lparr>se_fin := Some spec\<rparr>)"
  by (auto simp: life_inv_def fin_ok_def current_def)

lemma life_inv_finish: "life_inv s \<Longrightarrow> life_inv (finishAbort r st err s)"
  by (simp add: finishAbort_def life_inv_fin)

lemma life_inv_stdin: "life_inv s \<Longrightarrow> se_fin s = None \<Longrightarrow> life_inv (handleStdinLine v now line s)"
  by (auto simp: handleStdinLine_def Require_def current_def split: if_splits intro: life_inv_local life_inv_finish)

lemma life_inv_request: "life_inv s \<Longrightarrow> se_fin s = None \<Longrightarrow> life_inv (handleTestRequest v now env s)"
  by (auto simp: handleTestRequest_def life_view_request split: sum.split option.split
      intro: life_inv_view [of _ s])

lemma life_inv_manifest:
  assumes "life_inv s" and "se_fin s = None"
  shows "life_inv (handleReportManifest v now env s)"
proof (cases "current s = StateTesting \<or> current s = StateGeneratingReport")
  case True
  define p where "p = (if current s = StateTesting then transition StateGeneratingReport s else (s, None))"
  obtain m where m: "p = (s\<lparr>se_sm := m\<rparr>, None)" "sm_cur m = StateGeneratingReport"
  proof (cases "current s = StateTesting")
    case True
    then show ?thesis using that transition_ok [of StateGeneratingReport s] by (auto simp: p_def)
  next
    case False
    then show ?thesis using that [of "se_sm s"] \<open>_ \<or> _\<close> by (simp add: p_def current_def)
  qed
  let ?s = "s\<lparr>se_sm := m\<rparr>"
  have 1: "life_inv ?s" "current ?s = StateGeneratingReport" "se_fin ?s = None"
    using assms True m(2) by (auto simp: life_inv_def fin_ok_def current_def phase_ok_def)
  have 2: "life_inv (?s\<lparr>se_transferRan := True\<rparr>)" using 1 by (auto intro: life_inv_view [of _ ?s] simp: life_view_def)
  have 3: "life_inv (startTransfer ?s)" "se_transferOn (startTransfer ?s)"
    using 1 by (auto simp: startTransfer_def life_inv_def fin_ok_def current_def)
  have "life_inv (routeTransferFrame v now env (startTransfer ?s))"
    using 3 by (auto simp: routeTransferFrame_def intro: life_inv_view [of _ "startTransfer ?s"] simp: life_view_def)
  with 2 True show ?thesis
    unfolding handleReportManifest_def p_def [symmetric] m(1)
    using assms by (auto simp: Require_def current_def)
next
  case False
  then show ?thesis using assms by (auto simp: handleReportManifest_def Require_def current_def)
qed

lemma life_inv_route: "life_inv s \<Longrightarrow> se_fin s = None \<Longrightarrow> life_inv (routeTransferFrame v now env s)"
  by (auto simp: routeTransferFrame_def intro: life_inv_view [of _ s] simp: life_view_def)

definition valid_role :: "session_env \<Rightarrow> bool" where
  "valid_role v \<longleftrightarrow> cf_Role (sv_cfg v) = RolePC1 \<or> cf_Role (sv_cfg v) = RolePC2"

lemma roles_differ [simp]: "RolePC1 \<noteq> RolePC2" "RolePC2 \<noteq> RolePC1"
  by (simp_all add: RolePC1_def RolePC2_def)

lemma life_inv_completed:
  assumes "life_inv s" and "current s = StateGeneratingReport"
    and "fs_state spec = StateCompleted" "\<not> fs_farewell spec" "fs_err spec = None"
  shows "life_inv (s\<lparr>se_peerComplete := Some c, se_fin := Some spec\<rparr>)"
  using assms by (auto simp: life_inv_def fin_ok_def current_def)

lemma life_inv_complete:
  assumes "valid_role v" and "life_inv s" and "se_fin s = None"
  shows "life_inv (handleComplete v now env s)"
proof (cases "cf_Role (sv_cfg v) = RolePC2 \<and> current s = StateTesting")
  case True
  obtain m where m: "transition StateGeneratingReport s = (s\<lparr>se_sm := m\<rparr>, None)" "sm_cur m = StateGeneratingReport"
    using transition_ok [of StateGeneratingReport s] True by auto
  have "life_inv (s\<lparr>se_sm := m\<rparr>)" using assms True m(2) by (auto simp: life_inv_def fin_ok_def current_def phase_ok_def)
  then have "life_inv (writeComplete v now i (s\<lparr>se_sm := m\<rparr>))" for i by (rule life_inv_view [rotated]) simp
  moreover have "current (writeComplete v now i (s\<lparr>se_sm := m\<rparr>)) = StateGeneratingReport" for i
    using m(2) by (simp add: writeComplete_def current_def)
  ultimately show ?thesis using True m
    by (simp add: handleComplete_def Let_def Require_def current_def life_inv_completed assms(2)
        split: sum.split)
next
  case False
  have w: "life_inv (writeComplete v now i s)" "current (writeComplete v now i s) = current s" for i
    using assms(2) by (simp_all add: writeComplete_def)
  have g: "current s = StateGeneratingReport" if "se_sentComplete s" using that assms by (simp add: life_inv_def)
  show ?thesis
  proof (cases "cf_Role (sv_cfg v) = RolePC1 \<and> \<not> se_sentComplete s
      \<or> cf_Role (sv_cfg v) = RolePC2 \<and> current s \<noteq> StateGeneratingReport")
    case True
    with False assms show ?thesis
      by (auto simp: handleComplete_def Require_def current_def split: sum.split)
  next
    case ok: False
    with False w g assms show ?thesis
      by (auto simp: valid_role_def handleComplete_def Require_def Let_def current_def [symmetric] life_inv_completed split: sum.split)
  qed
qed

lemma life_inv_sendComplete: "life_inv s \<Longrightarrow> current s = StateGeneratingReport \<Longrightarrow> life_inv (sendComplete v now s)"
proof -
  assume i: "life_inv s" "current s = StateGeneratingReport"
  have "life_view (writeComplete v now [] s) = life_view s" by simp
  with i show ?thesis by (auto simp: sendComplete_def life_inv_def fin_ok_def life_view_def current_def)
qed

lemma life_inv_plan:
  assumes "life_inv s" and "se_fin s = None" and "current s = StateTesting"
  shows "life_inv (handlePlanDone v now r s)"
proof (cases r)
  case PlanOK
  obtain m where m: "transition StateGeneratingReport s = (s\<lparr>se_sm := m\<rparr>, None)" "sm_cur m = StateGeneratingReport"
    using transition_ok [of StateGeneratingReport s] assms(3) by auto
  have i: "life_inv (s\<lparr>se_sm := m\<rparr>)" "current (s\<lparr>se_sm := m\<rparr>) = StateGeneratingReport"
    using assms m(2) by (auto simp: life_inv_def fin_ok_def current_def phase_ok_def)
  have st: "life_inv x \<Longrightarrow> current x = StateGeneratingReport \<Longrightarrow> life_inv (startTransfer x)" for x
    by (auto simp: startTransfer_def life_inv_def fin_ok_def current_def)
  define x where "x = (if cf_PrepareComplete (sv_cfg v) then emit VerdictPrepared (s\<lparr>se_sm := m\<rparr>) else s\<lparr>se_sm := m\<rparr>)"
  have "life_inv x" "current x = StateGeneratingReport" using i by (simp_all add: x_def)
  with st life_inv_sendComplete have "life_inv (startTransfer x)" "life_inv (sendComplete v now x)" by blast+
  with PlanOK m show ?thesis by (simp add: handlePlanDone_def Let_def x_def)
next
  case (PlanFailed err)
  with assms show ?thesis by (auto simp: handlePlanDone_def Let_def life_inv_def fin_ok_def current_def)
qed (use assms in \<open>simp add: handlePlanDone_def\<close>)

lemma life_inv_transferDone:
  assumes "life_inv s" and "se_transferOn s"
  shows "life_inv (handleTransferDone v now err s)"
proof -
  let ?s = "s\<lparr>se_transferOn := False\<rparr>"
  have i: "life_inv ?s" "current ?s = StateGeneratingReport" using assms by (auto simp: life_inv_def fin_ok_def current_def)
  define s2 where "s2 = (case err of None \<Rightarrow> ?s | Some e \<Rightarrow> fst (send v now TypeWarning '''' (PWarning
      \<lparr>wa_Code = ''report_transfer_failed'', wa_Text = e, wa_Stage = state_name (current ?s)\<rparr>) ?s))"
  then have "life_inv s2" "current s2 = StateGeneratingReport" using i by (auto split: option.split)
  then show ?thesis unfolding handleTransferDone_def Let_def s2_def [symmetric] by (simp add: life_inv_sendComplete)
qed

lemma life_inv_abort: "life_inv s \<Longrightarrow> life_inv (handlePeerAbort v env s)"
  by (auto simp: handlePeerAbort_def Let_def life_inv_def fin_ok_def current_def)

lemma life_inv_dispatch:
  assumes "valid_role v" and "life_inv s" and "se_fin s = None"
  shows "life_inv (dispatch v now env s)"
proof -
  have "life_inv (s\<lparr>se_peerHB := x\<rparr>)" for x using assms by (auto intro: life_inv_view [of _ s] simp: life_view_def)
  moreover have "life_inv (handleProgress v env s)"
    using assms by (auto simp: handleProgress_def split: option.split sum.split)
  moreover have "life_view (handleTestResult v env s) = life_view s"
    by (auto simp: handleTestResult_def takeCall_def Let_def life_view_def split: option.split)
  then have "life_inv (handleTestResult v env s)" using assms life_inv_view by blast
  ultimately show ?thesis
    using assms life_inv_ready [OF assms(2,3)] life_inv_confirm [OF assms(2,3)] life_inv_request [OF assms(2,3)] life_inv_abort
      life_inv_manifest [OF assms(2,3)] life_inv_route [OF assms(2,3)] life_inv_complete [OF assms]
    by (simp add: dispatch_def life_inv_warn split: sum.split)
qed

lemma life_inv_frame:
  assumes "valid_role v" and "life_inv s" and "se_fin s = None"
  shows "life_inv (handleFrame v now env s)"
proof -
  have "life_inv (s\<lparr>se_lastRecvAt := t, se_dedup := d\<rparr>)" for t d
    using assms by (auto intro: life_inv_view [of _ s] simp: life_view_def)
  then show ?thesis using assms
    by (auto simp: handleFrame_def Let_def split: prod.split option.split intro!: life_inv_dispatch)
qed

lemma life_inv_act:
  assumes "valid_role v" and "life_inv s" and "enabled a s"
  shows "life_inv (act v now a s)"
proof -
  have f: "loop_action a \<Longrightarrow> se_fin s = None" using assms(3) by (simp add: enabled_def)
  have e: "life_inv (handleEvent v now ev s)" if a: "a = Event ev" for ev
  proof -
    have f: "se_fin s = None" using f a by (simp add: loop_action_def)
    show ?thesis
    proof (cases ev)
    case (EvFrame env)
    then show ?thesis using life_inv_frame [OF assms(1,2) f] by (simp add: handleEvent_def)
  next
    case (EvPlanDone r)
    then have "current s = StateTesting" using assms(3) a by (simp add: enabled_def plan_running_def)
    then show ?thesis using EvPlanDone life_inv_plan [OF assms(2) f] by (simp add: handleEvent_def)
  next
    case (EvTransferDone err)
    then have "se_transferOn s" using assms(3) a by (simp add: enabled_def)
    then show ?thesis using EvTransferDone life_inv_transferDone [OF assms(2)] by (simp add: handleEvent_def)
  next
    case (EvOpDone i res p)
    then show ?thesis using life_inv_view [OF life_view_done assms(2)] by (simp add: handleEvent_def)
  next
    case (EvStdin line)
    then show ?thesis using life_inv_stdin [OF assms(2) f] by (simp add: handleEvent_def)
  qed (use assms(2) f in \<open>simp_all add: handleEvent_def handleConnErr_def handleOpProgress_def life_inv_finish life_inv_fin\<close>)
  qed
  have h: "life_inv (heartbeatTick v now s)"
  proof -
    have "life_view (s'\<lparr>se_hbSeq := n\<rparr>) = life_view s'" for s' n by (simp add: life_view_def)
    then have "life_view (heartbeatTick v now s) = life_view s"
      by (auto simp: heartbeatTick_def split: prod.split option.split) (metis fst_conv life_view_simps(1))+
    then show ?thesis using assms(2) life_inv_view by blast
  qed
  show ?thesis
    using assms(2) f e h life_inv_tick [OF assms(2)] life_inv_finish [OF assms(2)] life_inv_view [OF life_view_call assms(2)]
      life_inv_view [OF life_view_simps(9) assms(2)]
    by (cases a) (auto simp: act_def loop_action_def channelSend_def channelReceive_def split: list.split
        intro: life_inv_view [of _ s] simp: life_view_def)
qed

lemma life_inv_new: "life_inv (newSession v hs)" "current (newSession v hs) = StateWaitingForLocalStart"
  by (auto simp: newSession_def life_inv_def fin_ok_def current_def phase_ok_def run_def establish_path_def
      NewStateMachine_def Transition_def maxInvalidState_def)

lemma life_inv_reachable: "reachable v hs s \<Longrightarrow> valid_role v \<Longrightarrow> life_inv s"
proof (induction rule: reachable.induct)
  case (start now)
  then show ?case using life_inv_new by (simp add: startSession_def life_inv_local)
qed (rule life_inv_act)

subsection \<open>The end of a session\<close>

lemma transition_terminal:
  assumes "phase_ok (current s) a b" and "st = StateAborted \<or> st = StateFailed \<or> st = StateCompleted \<and> current s = StateGeneratingReport"
  shows "current (fst (transition st s)) = st"
proof -
  have "st \<in> set (validTransitions (current s))" using assms by (cases "current s") (auto simp: phase_ok_def)
  from transition_ok [OF this] show ?thesis by (auto simp: current_def)
qed

lemma transition_keeps [simp]:
  "se_peerComplete (fst (transition st s)) = se_peerComplete s" "se_effects (fst (transition st s)) = se_effects s"
  "se_cableWindowActive (fst (transition st s)) = se_cableWindowActive s" "se_activeOp (fst (transition st s)) = se_activeOp s"
  "se_ids (fst (transition st s)) = se_ids s" "se_sent (fst (transition st s)) = se_sent s"
  "se_localReady (fst (transition st s)) = se_localReady s" "se_peerReady (fst (transition st s)) = se_peerReady s"
  "se_pendingClosed (fst (transition st s)) = se_pendingClosed s" "se_pending (fst (transition st s)) = se_pending s"
  by (simp_all add: transition_def split: prod.split)

lemma closed_simps [simp]:
  "se_pendingClosed (closePendingCalls s)" "se_cableWindowActive (closePendingCalls s) = se_cableWindowActive s"
  "life_view (closePendingCalls s) = life_view s" "se_effects (closePendingCalls s) = se_effects s"
  "se_ids (closePendingCalls s) = se_ids s" "se_sent (closePendingCalls s) = se_sent s"
  by (simp_all add: closePendingCalls_def life_view_def)

lemma shutdown_view:
  obtains s' where "shutdown v t spec s = fst (transition (fs_state spec) s')" "life_view s' = life_view s"
    "se_pendingClosed s'" "se_cableWindowActive s' = False"
proof -
  have [simp]: "life_view (s\<lparr>se_cableWindowActive := b\<rparr>) = life_view s" for b s by (simp add: life_view_def)
  show thesis
    by (rule that [OF shutdown_def [unfolded Let_def]])
      (auto simp: sendFarewell_def split: option.split)
qed


subsection \<open>A concrete session\<close>

text \<open>A codec that decodes a request to its own text, and the sessions of a run without report transfer.\<close>

definition demo_codec :: codec where
  "demo_codec = \<lparr>cd_marshal = (\<lambda>_. Inr ''{}''), cd_marshalWindow = (\<lambda>_. Inr ''{}''), cd_Hello = (\<lambda>_. Inl ''''),
     cd_HelloAck = (\<lambda>_. Inl ''''), cd_Capabilities = (\<lambda>_. Inl ''''),
     cd_StartConfirmation = (\<lambda>_. Inr \<lparr>sc_StartAt = 0, sc_StartInMs = 3500, sc_Mode = ''quick'', sc_Steps = [''ping'']\<rparr>),
     cd_TestRequest = (\<lambda>raw. Inr \<lparr>tq_Op = raw, tq_Params = ''{}'', tq_TimeoutMs = 1000, tq_Step = 1, tq_TotalSteps = 1, tq_StepName = ''''\<rparr>),
     cd_TestProgress = (\<lambda>_. Inl ''''), cd_TestResult = (\<lambda>_. Inr (result_now ''ok'' '''' 0)), cd_Warning = (\<lambda>_. Inl ''''),
     cd_Abort = (\<lambda>_. Inl ''''), cd_Heartbeat = (\<lambda>_. Inl ''''),
     cd_Complete = (\<lambda>_. Inr \<lparr>cp_Classification = ''GOOD'', cp_Summary = '''', cp_ExitCode = 0\<rparr>),
     cd_Window = (\<lambda>_. Inr \<lparr>cw_IdleTimeoutMs = 60000\<rparr>)\<rparr>"

definition demo_session_env :: "string \<Rightarrow> session_env" where
  "demo_session_env role =
     \<lparr>sv_cfg = \<lparr>cf_Role = role, cf_Token = ''t0'', cf_NonInteractive = True, cf_NoReportTransfer = True, cf_Mode = ''quick'',
        cf_Steps = [''ping''], cf_PrepareComplete = True, cf_SendReports = False, cf_ReceiveReports = False, cf_Complete = None,
        cf_OnStep = True, cf_OnCableTestWindow = Some (\<lambda>_ _. 2), cf_HeartbeatInterval = 0, cf_IdleTimeout = 0, cf_CallGrace = 0\<rparr>,
      sv_codec = demo_codec, sv_writeErr = (\<lambda>_. None), sv_quote = (\<lambda>x. x)\<rparr>"

definition demo_caps :: Capabilities where
  "demo_caps = \<lparr>ca_CablecheckVersion = ''1.0.0'', ca_OS = ''linux'', ca_Kernel = ''6.8'',
     ca_Iperf3 = \<lparr>ic_Version = ''3.16'', ic_JSON = True, ic_Reverse = True, ic_Bidir = True, ic_GetServerOutput = True,
       ic_UDP = True, ic_OneOff = True\<rparr>,
     ca_EthtoolVersion = ''6.7'', ca_PingVariant = ''iputils'',
     ca_NIC = \<lparr>ni_Name = ''eth0'', ni_Driver = ''igb'', ni_SpeedMbps = 1000, ni_Duplex = ''full'', ni_MTU = 1500,
       ni_MAC = ''02:00:00:00:00:01'', ni_USB = False\<rparr>,
     ca_SudoAvailable = False, ca_CableTestSupported = True, ca_AcceptReportTransfer = False\<rparr>"

definition demo_handshake :: "string \<Rightarrow> handshakeResult" where
  "demo_handshake role =
     \<lparr>hs_TestID = ''run1'', hs_PeerVersion = ''1.0.0'', hs_PeerCaps = demo_caps, hs_IDs = \<lparr>mk_role = role, mk_seq = 2\<rparr>,
      hs_Dedup = NewDuplicateDetector\<rparr>"

definition demo_frame :: "string \<Rightarrow> string \<Rightarrow> string \<Rightarrow> int \<times> action" where
  "demo_frame i typ raw =
     (0, Event (EvFrame \<lparr>en_ProtocolVersion = Version, en_TestID = ''run1'', en_MessageID = i, en_InReplyTo = '''', en_Type = typ,
        en_Timestamp = 0, en_Payload = raw\<rparr>))"

text \<open>The worker: synchronized start, a cable-test window opened and closed, the final handshake of reports.\<close>

definition demo_start :: "(int \<times> action) list" where
  "demo_start = [demo_frame ''pc1-3'' TypeReady ''{}'', demo_frame ''pc1-4'' TypeStartConfirm ''{}'',
     (1, CountdownTick), (2, CountdownTick), (3, CountdownTick), (4, CountdownTick)]"

definition demo_window :: "(int \<times> action) list" where
  "demo_window = [demo_frame ''pc1-5'' TypeTestRequest OpCableTestWindowStart,
     (5, Event (EvOpDone ''pc1-5'' (result_now ''ok'' '''' 5) None)), (6, HeartbeatTick),
     demo_frame ''pc1-6'' TypeTestRequest OpCableTestWindowEnd]"

definition demo_end :: "(int \<times> action) list" where
  "demo_end = [(7, Event (EvOpDone ''pc1-6'' (result_now ''ok'' '''' 7) None)), demo_frame ''pc1-7'' TypeComplete ''{}'']"

definition demo_worker :: "(int \<times> action) list \<Rightarrow> session" where
  "demo_worker as = run_actions (demo_session_env RolePC2) as (startSession (demo_session_env RolePC2) 0 (demo_handshake RolePC2))"

fun admissible :: "session_env \<Rightarrow> (int \<times> action) list \<Rightarrow> session \<Rightarrow> bool" where
  "admissible v [] s = True"
| "admissible v ((now, a) # as) s = (enabled a s \<and> admissible v as (act v now a s))"

lemma reachable_run: "reachable v hs s \<Longrightarrow> admissible v as s \<Longrightarrow> reachable v hs (run_actions v as s)"
proof (induction as arbitrary: s)
  case (Cons x as)
  then show ?case by (cases x) (auto simp: run_actions_def intro: reachable.step)
qed (simp add: run_actions_def)

lemma reachable_demo:
  assumes "admissible (demo_session_env RolePC2) as (startSession (demo_session_env RolePC2) 0 (demo_handshake RolePC2))"
  shows "reachable (demo_session_env RolePC2) (demo_handshake RolePC2) (demo_worker as)"
  unfolding demo_worker_def by (rule reachable_run [OF reachable.start assms])

lemma valid_role_demo [simp]: "valid_role (demo_session_env RolePC1)" "valid_role (demo_session_env RolePC2)"
  by (simp_all add: valid_role_def demo_session_env_def)
lemma demo_admissible:
  "admissible (demo_session_env RolePC2) (demo_start @ demo_window @ demo_end)
     (startSession (demo_session_env RolePC2) 0 (demo_handshake RolePC2))"
  by code_simp

lemma demo_run:
  "let s = demo_worker (demo_start @ demo_window @ demo_end)
   in map_option fs_state (se_fin s) = Some StateCompleted \<and> map en_Type (se_sent s) = [TypeReady, TypeTestResult, TypeTestResult, TypeComplete]
    \<and> filter (\<lambda>x. case x of WindowHook _ \<Rightarrow> True | _ \<Rightarrow> False) (se_effects s) = [WindowHook True, WindowHook False]"
  by code_simp

subsection \<open>The frames a handler writes\<close>

text \<open>
  \<open>grows n T s s'\<close>: on the way from \<open>s\<close> to \<open>s'\<close> at most \<open>n\<close> identifiers were minted and frames with
  increasing identifiers and types in \<open>T\<close> were appended.
\<close>

definition grows :: "nat \<Rightarrow> string set \<Rightarrow> session \<Rightarrow> session \<Rightarrow> bool" where
  "grows n T s s' \<longleftrightarrow>
     (\<forall>role k. se_ids s = \<lparr>mk_role = role, mk_seq = of_nat k\<rparr> \<longrightarrow>
        (\<exists>es ns k'. k \<le> k' \<and> k' \<le> k + n \<and> se_ids s' = \<lparr>mk_role = role, mk_seq = of_nat k'\<rparr> \<and> se_sent s' = se_sent s @ es
           \<and> map en_MessageID es = map (\<lambda>j. message_id role (of_nat j)) ns
           \<and> sorted_wrt (<) ns \<and> (\<forall>j\<in>set ns. k < j \<and> j \<le> k') \<and> en_Type ` set es \<subseteq> T))"

lemma growsI:
  assumes "\<And>role k. se_ids s = \<lparr>mk_role = role, mk_seq = of_nat k\<rparr> \<Longrightarrow>
     \<exists>es ns k'. k \<le> k' \<and> k' \<le> k + n \<and> se_ids s' = \<lparr>mk_role = role, mk_seq = of_nat k'\<rparr> \<and> se_sent s' = se_sent s @ es
           \<and> map en_MessageID es = map (\<lambda>j. message_id role (of_nat j)) ns
           \<and> sorted_wrt (<) ns \<and> (\<forall>j\<in>set ns. k < j \<and> j \<le> k') \<and> en_Type ` set es \<subseteq> T"
  shows "grows n T s s'"
  using assms unfolding grows_def by blast

lemma growsE:
  assumes "grows n T s s'" and "se_ids s = \<lparr>mk_role = role, mk_seq = of_nat k\<rparr>"
  obtains es ns k' where "k \<le> k'" "k' \<le> k + n" "se_ids s' = \<lparr>mk_role = role, mk_seq = of_nat k'\<rparr>" "se_sent s' = se_sent s @ es"
    "map en_MessageID es = map (\<lambda>j. message_id role (of_nat j)) ns" "sorted_wrt (<) ns" "\<forall>j\<in>set ns. k < j \<and> j \<le> k'"
    "en_Type ` set es \<subseteq> T"
  using assms unfolding grows_def by blast

lemma grows_refl: "se_ids s' = se_ids s \<Longrightarrow> se_sent s' = se_sent s \<Longrightarrow> grows n T s s'"
  by (rule growsI) (auto intro: exI [of _ "[]"])

lemma grows_trans:
  assumes "grows m T s s'" and "grows n T s' s''"
  shows "grows (m + n) T s s''"
proof (rule growsI)
  fix role k
  assume k: "se_ids s = \<lparr>mk_role = role, mk_seq = of_nat k\<rparr>"
  obtain es ns k' where 1: "k \<le> k'" "k' \<le> k + m" "se_ids s' = \<lparr>mk_role = role, mk_seq = of_nat k'\<rparr>" "se_sent s' = se_sent s @ es"
    "map en_MessageID es = map (\<lambda>j. message_id role (of_nat j)) ns" "sorted_wrt (<) ns" "\<forall>j\<in>set ns. k < j \<and> j \<le> k'"
    "en_Type ` set es \<subseteq> T" by (rule growsE [OF assms(1) k])
  obtain es' ns' k'' where 2: "k' \<le> k''" "k'' \<le> k' + n" "se_ids s'' = \<lparr>mk_role = role, mk_seq = of_nat k''\<rparr>" "se_sent s'' = se_sent s' @ es'"
    "map en_MessageID es' = map (\<lambda>j. message_id role (of_nat j)) ns'" "sorted_wrt (<) ns'" "\<forall>j\<in>set ns'. k' < j \<and> j \<le> k''"
    "en_Type ` set es' \<subseteq> T" by (rule growsE [OF assms(2) 1(3)])
  have "sorted_wrt (<) (ns @ ns')" using 1(6,7) 2(6,7) by (fastforce simp: sorted_wrt_append)
  moreover have "\<forall>j\<in>set (ns @ ns'). k < j \<and> j \<le> k''" using 1(1,7) 2(1,7) by fastforce
  ultimately show "\<exists>es ns l. k \<le> l \<and> l \<le> k + (m + n) \<and> se_ids s'' = \<lparr>mk_role = role, mk_seq = of_nat l\<rparr> \<and> se_sent s'' = se_sent s @ es
      \<and> map en_MessageID es = map (\<lambda>j. message_id role (of_nat j)) ns
      \<and> sorted_wrt (<) ns \<and> (\<forall>j\<in>set ns. k < j \<and> j \<le> l) \<and> en_Type ` set es \<subseteq> T"
    using 1 2 by (intro exI [of _ "es @ es'"] exI [of _ "ns @ ns'"] exI [of _ k'']) auto
qed

lemma grows_mono: "grows m T s s' \<Longrightarrow> m \<le> n \<Longrightarrow> T \<subseteq> U \<Longrightarrow> grows n U s s'"
  by (rule growsI, erule growsE, assumption) (meson add_left_mono order_trans)

lemma Next_of_nat: "Next \<lparr>mk_role = role, mk_seq = of_nat k\<rparr> = (\<lparr>mk_role = role, mk_seq = of_nat (Suc k)\<rparr>, message_id role (of_nat (Suc k)))"
  by (simp add: Next_def Let_def add.commute)

lemma grows_mint:
  assumes "\<And>ids i. Next (se_ids s) = (ids, i) \<Longrightarrow>
    se_ids s' = ids \<and> (se_sent s' = se_sent s \<or> (\<exists>e. se_sent s' = se_sent s @ [e] \<and> en_MessageID e = i \<and> en_Type e \<in> T))"
  shows "grows 1 T s s'"
proof (rule growsI)
  fix role k
  assume k: "se_ids s = \<lparr>mk_role = role, mk_seq = of_nat k\<rparr>"
  let ?ids = "\<lparr>mk_role = role, mk_seq = of_nat (Suc k)\<rparr> :: MessageIDMaker" and ?i = "message_id role (of_nat (Suc k))"
  have a: "se_ids s' = ?ids" "se_sent s' = se_sent s \<or> (\<exists>e. se_sent s' = se_sent s @ [e] \<and> en_MessageID e = ?i \<and> en_Type e \<in> T)"
    using assms [OF Next_of_nat [of role k, folded k]] by blast+
  then obtain es ns where "se_sent s' = se_sent s @ es" "map en_MessageID es = map (\<lambda>j. message_id role (of_nat j)) ns"
    "sorted_wrt (<) ns" "\<forall>j\<in>set ns. k < j \<and> j \<le> Suc k" "en_Type ` set es \<subseteq> T"
  proof (cases "se_sent s' = se_sent s")
    case False
    then obtain e where "se_sent s' = se_sent s @ [e]" "en_MessageID e = ?i" "en_Type e \<in> T" using a(2) by blast
    then show ?thesis using that [of "[e]" "[Suc k]"] by simp
  qed (use that [of "[]" "[]"] in simp)
  with a(1) show "\<exists>es ns l. k \<le> l \<and> l \<le> k + 1 \<and> se_ids s' = \<lparr>mk_role = role, mk_seq = of_nat l\<rparr> \<and> se_sent s' = se_sent s @ es
      \<and> map en_MessageID es = map (\<lambda>j. message_id role (of_nat j)) ns
      \<and> sorted_wrt (<) ns \<and> (\<forall>j\<in>set ns. k < j \<and> j \<le> l) \<and> en_Type ` set es \<subseteq> T"
    by (intro exI [of _ es] exI [of _ ns] exI [of _ "Suc k"]) simp
qed

lemma NewEnvelope_id: "NewEnvelope m now t testID i p = Inr env \<Longrightarrow> en_MessageID env = i \<and> en_Type env = t"
  by (auto simp: NewEnvelope_def Let_def split: option.splits sum.splits)

lemma grows_send [intro]:
  assumes "typ \<in> T"
  shows "grows 1 T s (fst (send v now typ r p s))"
proof (rule grows_mint)
  fix ids i
  assume n: "Next (se_ids s) = (ids, i)"
  show "se_ids (fst (send v now typ r p s)) = ids \<and> (se_sent (fst (send v now typ r p s)) = se_sent s
    \<or> (\<exists>e. se_sent (fst (send v now typ r p s)) = se_sent s @ [e] \<and> en_MessageID e = i \<and> en_Type e \<in> T))"
    using n assms
    by (auto simp: send_def mintAndWrite_def write_frame_def Let_def dest: NewEnvelope_id split: sum.split option.split)
qed

lemma grows_call: "TypeTestRequest \<in> T \<Longrightarrow> grows 1 T s (fst (call v now c a st op raw t b s))"
  by (rule grows_mint)
    (auto simp: call_def registerCall_def unregisterCall_def write_frame_def Let_def dest: NewEnvelope_id
      split: sum.split option.split)

lemma grows_send':
  "se_ids s0 = se_ids s \<Longrightarrow> se_sent s0 = se_sent s \<Longrightarrow> typ \<in> T \<Longrightarrow> 1 \<le> n \<Longrightarrow> grows n T s0 (fst (send v now typ r p s))"
  using grows_mono [OF grows_send [of "typ" T s v now r p], of n T] by (simp add: grows_def)

lemma grows_upd [simp]:
  "grows n T s (s'\<lparr>se_sm := a1\<rparr>) = grows n T s s'" "grows n T s (s'\<lparr>se_dedup := a2\<rparr>) = grows n T s s'"
  "grows n T s (s'\<lparr>se_pending := a3\<rparr>) = grows n T s s'" "grows n T s (s'\<lparr>se_activeOp := a4\<rparr>) = grows n T s s'"
  "grows n T s (s'\<lparr>se_localReady := a5\<rparr>) = grows n T s s'" "grows n T s (s'\<lparr>se_peerReady := a5\<rparr>) = grows n T s s'"
  "grows n T s (s'\<lparr>se_sentComplete := a5\<rparr>) = grows n T s s'" "grows n T s (s'\<lparr>se_peerComplete := a6\<rparr>) = grows n T s s'"
  "grows n T s (s'\<lparr>se_peerHB := a7\<rparr>) = grows n T s s'" "grows n T s (s'\<lparr>se_lastRecvAt := a8\<rparr>) = grows n T s s'"
  "grows n T s (s'\<lparr>se_hbSeq := a9\<rparr>) = grows n T s s'" "grows n T s (s'\<lparr>se_invalidState := b1\<rparr>) = grows n T s s'"
  "grows n T s (s'\<lparr>se_cableWindowActive := a5\<rparr>) = grows n T s s'" "grows n T s (s'\<lparr>se_countdown := b2\<rparr>) = grows n T s s'"
  "grows n T s (s'\<lparr>se_transferBuf := b3\<rparr>) = grows n T s s'" "grows n T s (s'\<lparr>se_transferOn := a5\<rparr>) = grows n T s s'"
  "grows n T s (s'\<lparr>se_transferRan := a5\<rparr>) = grows n T s s'" "grows n T s (s'\<lparr>se_fin := b4\<rparr>) = grows n T s s'"
  "grows n T s (s'\<lparr>se_announcedStep := b5\<rparr>) = grows n T s s'" "grows n T s (s'\<lparr>se_effects := b6\<rparr>) = grows n T s s'"
  "grows n T s (s'\<lparr>se_mode := b7\<rparr>) = grows n T s s'" "grows n T s (s'\<lparr>se_steps := b8\<rparr>) = grows n T s s'"
  "grows n T s (s'\<lparr>se_peerAbortStage := b7\<rparr>) = grows n T s s'" "grows n T s (s'\<lparr>se_peerAbortDetail := b7\<rparr>) = grows n T s s'"
  "grows n T s (emit e s') = grows n T s s'" "grows n T s (fst (transition st s')) = grows n T s s'"
  "grows n T s (startCountdown now lead s') = grows n T s s'" "grows n T s (fst (windowHook v b s')) = grows n T s s'"
  "grows n T s (fst (close_window v s')) = grows n T s s'" "grows n T s (finishAbort r sg err s') = grows n T s s'"
  "grows n T s (startTransfer s') = grows n T s s'" "grows n T s (announceRequestStep v req s') = grows n T s s'"
  "grows n T s (startOp i req s') = grows n T s s'" "grows n T s (unregisterCall i s') = grows n T s s'"
  "grows n T s (closePendingCalls s') = grows n T s s'"
  by (simp_all add: grows_def startCountdown_def windowHook_def close_window_def finishAbort_def startTransfer_def
      announceRequestStep_def startOp_def unregisterCall_def transition_def Let_def split: option.split prod.split)

lemma grows_self [simp, intro]: "grows n T s s"
  by (rule grows_refl) simp_all

text \<open>Every type of frame but \<open>ready\<close>.\<close>

definition not_ready :: "string set" where "not_ready = - {TypeReady}"

lemma not_ready_types [simp]:
  "TypeWarning \<in> not_ready" "TypeStartConfirm \<in> not_ready" "TypeTestRequest \<in> not_ready" "TypeTestResult \<in> not_ready"
  "TypeTestProgress \<in> not_ready" "TypeComplete \<in> not_ready" "TypeReportAck \<in> not_ready" "TypeReport \<in> not_ready"
  "TypeReportChunk \<in> not_ready" "TypeAbort \<in> not_ready" "TypeHeartbeat \<in> not_ready"
  by (simp_all add: not_ready_def TypeReady_def TypeWarning_def TypeStartConfirm_def TypeTestRequest_def TypeTestResult_def
      TypeTestProgress_def TypeComplete_def TypeReportAck_def TypeReport_def TypeReportChunk_def TypeAbort_def TypeHeartbeat_def)

lemma transition_wire: "transition st s = (s', e) \<Longrightarrow> se_ids s' = se_ids s \<and> se_sent s' = se_sent s"
  by (auto simp: transition_def split: prod.splits)

lemma grows_warn [simp]: "grows 2 not_ready s (warnInvalidState v now env s)"
  by (simp add: warnInvalidState_def Let_def grows_send')

lemma grows_result [simp]: "se_ids s0 = se_ids s \<Longrightarrow> se_sent s0 = se_sent s \<Longrightarrow> grows 2 not_ready s0 (writeTestResult v now i res s)"
  by (simp add: writeTestResult_def grows_send')

lemma grows_both: "se_ids s0 = se_ids s \<Longrightarrow> se_sent s0 = se_sent s \<Longrightarrow> grows 1 not_ready s0 (onBothReady v now s)"
proof -
  assume a: "se_ids s0 = se_ids s" "se_sent s0 = se_sent s"
  obtain s' e where s': "send v now TypeStartConfirm '''' (PStartConfirmation
     \<lparr>sc_StartAt = now + startCountdownMs * millisecond, sc_StartInMs = startCountdownMs, sc_Mode = cf_Mode (sv_cfg v),
      sc_Steps = cf_Steps (sv_cfg v)\<rparr>) (emit (Printed ''both sides ready'') s) = (s', e)" by fastforce
  then have "grows 1 not_ready s0 s'"
    using a grows_send' [of s0 "emit (Printed ''both sides ready'') s" TypeStartConfirm not_ready 1 v now] by (metis emit_keeps(13,14) fst_conv not_ready_types(2) order_refl)
  with s' a show ?thesis
    by (auto simp: onBothReady_def Let_def split: option.split intro: grows_refl)
qed

lemma grows_ready: "grows 2 not_ready s (handlePeerReady v now env s)"
proof -
  have "grows 2 not_ready s (onBothReady v now s1)" if "transition StateReady (s\<lparr>se_peerReady := True\<rparr>) = (s1, e)" for s1 e
    using transition_wire [OF that] grows_both [of s s1, THEN grows_mono] by simp
  then show ?thesis
    by (auto simp: handlePeerReady_def split: State.split option.split prod.split intro: grows_refl)
       (auto dest!: transition_wire intro: grows_refl)
qed

lemma grows_confirm: "grows 2 not_ready s (handleStartConfirmation v now env s)"
  by (auto simp: handleStartConfirmation_def split: sum.split)

lemma grows_request: "grows 2 not_ready s (handleTestRequest v now env s)"
  by (auto simp: handleTestRequest_def acceptRequest_def Let_def split: sum.split option.split)

lemma grows_done: "grows 2 not_ready s (handleOpDone v now i res p s)"
proof -
  obtain opName s1 s2 res' where "handleOpDone v now i res p s = writeTestResult v now i res' s2"
    "s1 = s \<and> opName = '''' \<or> (\<exists>op. se_activeOp s = Some op \<and> ao_reqID op = i \<and> opName = ao_op op \<and> s1 = s\<lparr>se_activeOp := None\<rparr>)"
    "s2 = (if opName = OpCableTestWindowEnd \<or> opName = OpCableTestWindowStart \<and> ts_Status res \<noteq> ''ok''
      then fst (close_window v s1) else s1)" by (rule handleOpDone_cases)
  moreover from this have "se_ids s2 = se_ids s" "se_sent s2 = se_sent s"
    by (auto simp: close_window_def windowHook_def split: option.split)
  ultimately show ?thesis by simp
qed

lemma grows_writeComplete: "se_ids s0 = se_ids s \<Longrightarrow> se_sent s0 = se_sent s \<Longrightarrow> grows 1 not_ready s0 (writeComplete v now i s)"
  by (simp add: writeComplete_def grows_send')

lemma grows_sendComplete: "se_ids s0 = se_ids s \<Longrightarrow> se_sent s0 = se_sent s \<Longrightarrow> grows 1 not_ready s0 (sendComplete v now s)"
  unfolding sendComplete_def grows_upd by (rule grows_writeComplete)

lemma grows_plan: "grows 2 not_ready s (handlePlanDone v now r s)"
  using grows_sendComplete [THEN grows_mono, of s _ 2 not_ready]
  by (auto simp: handlePlanDone_def Let_def split: plan_result.split prod.split option.split
      dest!: transition_wire intro: grows_refl)

lemma grows_complete: "grows 2 not_ready s (handleComplete v now env s)"
  using grows_writeComplete [THEN grows_mono, of s _ 2 not_ready]
  by (auto simp: handleComplete_def Let_def split: sum.split)

lemma grows_route: "grows 2 not_ready s (routeTransferFrame v now env s)"
  by (auto simp: routeTransferFrame_def)

lemma grows_manifest: "grows 2 not_ready s (handleReportManifest v now env s)"
proof -
  have "grows 2 not_ready s (routeTransferFrame v now env (startTransfer s1))" if "se_ids s1 = se_ids s" "se_sent s1 = se_sent s" for s1
    using that by (auto simp: routeTransferFrame_def startTransfer_def intro: grows_refl)
  then show ?thesis
    by (auto simp: handleReportManifest_def intro!: grows_send' split: prod.split option.split dest!: transition_wire intro: grows_refl)
qed

lemma grows_transferDone: "grows 2 not_ready s (handleTransferDone v now err s)"
proof -
  let ?s = "s\<lparr>se_transferOn := False\<rparr>"
  define s2 where "s2 = (case err of None \<Rightarrow> ?s | Some e \<Rightarrow> fst (send v now TypeWarning '''' (PWarning
      \<lparr>wa_Code = ''report_transfer_failed'', wa_Text = e, wa_Stage = state_name (current ?s)\<rparr>) ?s))"
  have "grows 1 not_ready s s2" by (auto simp: s2_def grows_send' split: option.split)
  moreover from this have "grows (1 + 1) not_ready s (sendComplete v now s2)"
    by (rule grows_trans) (simp_all only: grows_sendComplete)
  ultimately have "grows 2 not_ready s s2" "grows 2 not_ready s (sendComplete v now s2)"
    by (simp_all add: grows_mono)
  then show ?thesis unfolding handleTransferDone_def Let_def s2_def [symmetric] by simp
qed

lemma grows_dispatch: "grows 2 not_ready s (dispatch v now env s)"
proof -
  have "grows 2 not_ready s (handleProgress v env s)"
    by (auto simp: handleProgress_def split: option.split sum.split)
  moreover have "grows 2 not_ready s (handleTestResult v env s)"
    by (auto simp: handleTestResult_def takeCall_def Let_def split: option.split)
  moreover have "grows 2 not_ready s (handlePeerAbort v env s)"
    by (simp add: handlePeerAbort_def Let_def)
  ultimately show ?thesis
    by (simp add: dispatch_def grows_ready grows_confirm grows_request grows_complete grows_route grows_manifest split: sum.split)
qed

lemma grows_from:
  "se_ids s0 = se_ids s \<Longrightarrow> se_sent s0 = se_sent s \<Longrightarrow> grows n T s0 s' = grows n T s s'"
  by (simp add: grows_def)

lemma grows_frame: "grows 2 not_ready s (handleFrame v now env s)"
proof -
  have "grows 2 not_ready s (dispatch v now env (s\<lparr>se_lastRecvAt := t, se_dedup := d\<rparr>))" for t d
    using grows_dispatch [of "s\<lparr>se_lastRecvAt := t, se_dedup := d\<rparr>"] by (simp add: grows_from [of s "s\<lparr>se_lastRecvAt := t, se_dedup := d\<rparr>"])
  then show ?thesis by (auto simp: handleFrame_def Let_def split: prod.split option.split)
qed

lemma send_ok_sent:
  "send v now typ r p s = (s', None) \<Longrightarrow> \<exists>e. se_sent s' = se_sent s @ [e] \<and> en_Type e = typ"
  by (auto simp: send_def mintAndWrite_def write_frame_def Let_def dest!: NewEnvelope_id split: sum.splits option.splits prod.splits)

lemma send_err_sent: "send v now typ r p s = (s', Some err) \<Longrightarrow> se_sent s' = se_sent s"
  by (auto simp: send_def mintAndWrite_def write_frame_def Let_def split: sum.splits option.splits prod.splits)

lemma grows_local: "grows 2 UNIV s (sendLocalReady v now s)"
proof -
  obtain s1 e where s1: "send v now TypeReady '''' (PReady \<lparr>rd_NonInteractive = cf_NonInteractive (sv_cfg v)\<rparr>) s = (s1, e)"
    by fastforce
  then have g: "grows 1 UNIV s s1"
    using grows_send [of TypeReady UNIV s v now] by (metis UNIV_I fst_conv)
  have b: "grows 2 UNIV s (onBothReady v now s2)" if "se_ids s2 = se_ids s1" "se_sent s2 = se_sent s1" for s2
    using grows_trans [OF g, of 1 "onBothReady v now s2"] grows_both [of s1 s2 v now] that grows_mono [of 1 not_ready s1 "onBothReady v now s2" 1 UNIV]
    by (simp add: numeral_2_eq_2)
  have k: "grows 2 UNIV s s2" if "se_ids s2 = se_ids s1" "se_sent s2 = se_sent s1" for s2
    using g that grows_mono [of 1 UNIV s s1 2 UNIV] by (simp add: grows_def)
  show ?thesis
    using s1 g by (auto simp: sendLocalReady_def Let_def b k split: option.split prod.split dest!: transition_wire)
qed

lemma grows_act: "grows 2 UNIV s (act v now a s)"
proof -
  have u: "grows 2 not_ready s s' \<Longrightarrow> grows 2 UNIV s s'" for s' by (erule grows_mono) auto
  have st: "grows 2 UNIV s (handleStdinLine v now line s)" for line
    using grows_local by (auto simp: handleStdinLine_def)
  have e: "grows 2 UNIV s (handleEvent v now ev s)" for ev
    using st u [OF grows_frame] u [OF grows_done] u [OF grows_plan] u [OF grows_transferDone]
    by (cases ev) (simp_all add: handleEvent_def handleConnErr_def handleOpProgress_def grows_send')
  have h: "grows 2 UNIV s (heartbeatTick v now s)"
  proof (cases "(case se_lastSend s of None \<Rightarrow> True | Some t \<Rightarrow> now - t \<ge> idiv (imul (heartbeatInterval (sv_cfg v)) 4) 5)")
    case True
    obtain s1 e where s1: "send v now TypeHeartbeat '''' (PHeartbeat \<lparr>hb_Seq = se_hbSeq s + 1, hb_State = state_name (current s),
                hb_ActiveOp = activeOpName s\<rparr>) s = (s1, e)" by fastforce
    then have "grows 2 UNIV s s1" using grows_send' [of s s TypeHeartbeat UNIV 2 v now] by (metis UNIV_I fst_conv one_le_numeral)
    with True s1 show ?thesis by (auto simp: heartbeatTick_def split: option.splits)
  qed (simp add: heartbeatTick_def)
  have c: "grows 2 UNIV s (fst (call v now b1 b2 st op raw t b s))" for b1 b2 st op raw t b
    using grows_call [of UNIV, THEN grows_mono] by simp
  have t: "grows 2 UNIV s (onCountdownTick v s)"
    by (auto simp: onCountdownTick_def Let_def intro: grows_refl split: list.split option.split prod.split dest!: transition_wire)
  show ?thesis using e h c t
    by (cases a) (simp_all add: act_def channelSend_def channelReceive_def grows_send' split: list.split)
qed

lemma grows_run: "grows (2 * length as) UNIV s (run_actions v as s)"
proof (induction as arbitrary: s)
  case (Cons x as)
  have "grows (2 + 2 * length as) UNIV s (run_actions v as (act v (fst x) (snd x) s))"
    by (rule grows_trans [OF grows_act Cons.IH])
  then show ?case by (simp add: run_actions_def split_beta)
qed (simp add: run_actions_def)

lemma grows_start: "grows 2 UNIV (newSession v hs) (startSession v now hs)"
  using grows_local by (simp add: startSession_def)

text \<open>
  No frame of a session is ever dropped by its peer as a duplicate or out of order, whatever happens in
  the session and however its goroutines interleave: the identifiers of the frames that are written continue
  the numbering of the handshake and are all accepted, in the order of writing, by a detector that has seen
  at most the frames of the handshake.
\<close>

lemma session_frames_accepted:
  assumes "hs_IDs hs = \<lparr>mk_role = role, mk_seq = of_nat k\<rparr>" and "role \<noteq> []"
    and "k + 2 * (length as + 1) < 2 ^ 64" and "seen_below role k d"
  shows "let ids = map en_MessageID (se_sent (run_actions v as (startSession v now hs)))
    in accepted_ids ids d = ids"
proof -
  let ?init = "newSession v hs" and ?s = "run_actions v as (startSession v now hs)"
  have "grows (2 + 2 * length as) UNIV ?init ?s" by (rule grows_trans [OF grows_start grows_run])
  moreover have "se_ids ?init = \<lparr>mk_role = role, mk_seq = of_nat k\<rparr>" "se_sent ?init = []"
    using assms(1) by (simp_all add: newSession_def)
  ultimately obtain es ns k' where "k' \<le> k + (2 + 2 * length as)" "se_sent ?s = es"
    "map en_MessageID es = map (\<lambda>j. message_id role (of_nat j)) ns" "sorted_wrt (<) ns" "\<forall>j\<in>set ns. k < j \<and> j \<le> k'"
    using growsE [of "2 + 2 * length as" UNIV ?init ?s role k] by (metis append_Nil)
  moreover from this have "\<forall>j\<in>set ns. k < j \<and> j < 2 ^ 64" using assms(3) by fastforce
  ultimately show ?thesis using increasing_accepted [OF assms(2,4), of ns] by (simp add: Let_def)
qed



lemma onBoth_localReady [simp]: "se_localReady (onBothReady v now s) = se_localReady s"
  by (simp add: onBothReady_def Let_def startCountdown_def case_prod_beta split: option.split)

lemma warn_localReady [simp]: "se_localReady (warnInvalidState v now env s) = se_localReady s"
  by (simp add: warnInvalidState_def Let_def finishAbort_def)

lemma view_localReady: "life_view s' = life_view s \<Longrightarrow> se_localReady s' = se_localReady s"
  by (simp add: life_view_def)

lemma handlers_localReady:
  "se_localReady (handlePeerReady v now env s) = se_localReady s"
  "se_localReady (handleStartConfirmation v now env s) = se_localReady s"
  "se_localReady (handleTestRequest v now env s) = se_localReady s"
  "se_localReady (routeTransferFrame v now env s) = se_localReady s"
  "se_localReady (handleReportManifest v now env s) = se_localReady s"
  "se_localReady (handleComplete v now env s) = se_localReady s"
proof -
  have [simp]: "se_localReady (acceptRequest v now env req s) = se_localReady s" "se_localReady (writeTestResult v now i res s) = se_localReady s" 
   "se_localReady (writeComplete v now i s) = se_localReady s" for req i res s
    by (rule view_localReady, simp add: life_view_request)+
  show "se_localReady (handlePeerReady v now env s) = se_localReady s"
    by (simp add: handlePeerReady_def case_prod_beta split: State.split option.split)
  show "se_localReady (handleStartConfirmation v now env s) = se_localReady s"
    by (simp add: handleStartConfirmation_def startCountdown_def split: sum.split)
  show "se_localReady (handleTestRequest v now env s) = se_localReady s"
    by (simp add: handleTestRequest_def split: sum.split option.split)
  show r: "se_localReady (routeTransferFrame v now env s) = se_localReady s" for s
    by (simp add: routeTransferFrame_def)
  show "se_localReady (handleReportManifest v now env s) = se_localReady s"
    by (simp add: handleReportManifest_def r startTransfer_def case_prod_beta split: option.split)
  show "se_localReady (handleComplete v now env s) = se_localReady s"
    by (simp add: handleComplete_def Let_def split: sum.split)
qed

lemma dispatch_localReady: "se_localReady (dispatch v now env s) = se_localReady s"
proof -
  have "se_localReady (handleProgress v env s) = se_localReady s"
    by (simp add: handleProgress_def split: option.split sum.split)
  moreover have "se_localReady (handleTestResult v env s) = se_localReady s"
    by (simp add: handleTestResult_def takeCall_def Let_def split: option.split)
  moreover have "se_localReady (handlePeerAbort v env s) = se_localReady s"
    by (simp add: handlePeerAbort_def Let_def)
  ultimately show ?thesis by (simp add: dispatch_def handlers_localReady split: sum.split)
qed

text \<open>The frames that announce readiness, and that there is one exactly when the session counts itself ready.\<close>

definition readies :: "session \<Rightarrow> Envelope list" where
  "readies s = filter (\<lambda>e. en_Type e = TypeReady) (se_sent s)"

definition ready_inv :: "session \<Rightarrow> bool" where
  "ready_inv s \<longleftrightarrow> length (readies s) = (if se_localReady s then 1 else 0)"

lemma grows_readies:
  assumes "grows n not_ready s s'"
  shows "readies s' = readies s"
proof -
  have "se_ids s = \<lparr>mk_role = mk_role (se_ids s), mk_seq = of_nat (unat (mk_seq (se_ids s)))\<rparr>" by simp
  from growsE [OF assms this] obtain es where "se_sent s' = se_sent s @ es" "en_Type ` set es \<subseteq> not_ready" by metis
  then show ?thesis by (force simp: readies_def not_ready_def filter_empty_conv)
qed

lemma ready_inv_keep: "ready_inv s \<Longrightarrow> grows n not_ready s s' \<Longrightarrow> se_localReady s' = se_localReady s \<Longrightarrow> ready_inv s'"
  by (simp add: ready_inv_def grows_readies)

lemma ready_inv_local:
  assumes "ready_inv s"
  shows "ready_inv (sendLocalReady v now s)"
proof -
  obtain s1 e where s1: "send v now TypeReady '''' (PReady \<lparr>rd_NonInteractive = cf_NonInteractive (sv_cfg v)\<rparr>) s = (s1, e)"
    by fastforce
  show ?thesis
  proof (cases e)
    case None
    let ?s2 = "s1\<lparr>se_localReady := True\<rparr>" and ?to = "if se_peerReady s1 then StateReady else StateWaitingForPeerStart"
    obtain s3 e3 where s3: "transition ?to ?s2 = (s3, e3)" by fastforce
    have r: "ready_inv s3" if "\<not> se_localReady s"
      using send_ok_sent [of v now TypeReady] s1 None assms that transition_wire [OF s3] s3
      by (fastforce simp: ready_inv_def readies_def transition_def split: prod.splits)
    have "ready_inv (onBothReady v now s3)" if "\<not> se_localReady s"
      by (rule ready_inv_keep [OF r [OF that] grows_both]) simp_all
    with None s1 s3 r assms show ?thesis
      by (auto simp: sendLocalReady_def Let_def ready_inv_def readies_def split: option.split)
  next
    case (Some err)
    then have "ready_inv s1" using s1 assms send_err_sent [of v now TypeReady] sent_keeps(3) [of v now TypeReady]
      by (metis (no_types, lifting) fst_conv ready_inv_def readies_def)
    with Some s1 assms show ?thesis by (simp add: sendLocalReady_def)
  qed
qed

lemma ready_inv_act:
  assumes "ready_inv s"
  shows "ready_inv (act v now a s)"
proof -
  have "se_localReady (handleFrame v now env s) = se_localReady s" for env
    by (simp add: handleFrame_def Let_def dispatch_localReady split: prod.split option.split)
  then have f: "ready_inv (handleFrame v now env s)" for env using assms grows_frame ready_inv_keep by blast
  have d: "ready_inv (handleOpDone v now i res p s)" for i res p
    using ready_inv_keep [OF assms grows_done] view_localReady [OF life_view_done] by blast
  have "se_localReady (handlePlanDone v now r s) = se_localReady s" for r
    by (simp add: handlePlanDone_def Let_def startTransfer_def sendComplete_def writeComplete_def case_prod_beta
        split: plan_result.split option.split)
  then have p: "ready_inv (handlePlanDone v now r s)" for r using assms grows_plan ready_inv_keep by blast
  have "se_localReady (handleTransferDone v now err s) = se_localReady s" for err
    by (simp add: handleTransferDone_def Let_def sendComplete_def writeComplete_def split: option.split)
  then have x: "ready_inv (handleTransferDone v now err s)" for err using assms grows_transferDone ready_inv_keep by blast
  have n: "ready_inv (s\<lparr>se_fin := z\<rparr>)" "ready_inv (emit y s)" for z y
    using assms by (simp_all add: ready_inv_def readies_def)
  have snd: "ready_inv (fst (send v now typ r p s))" if "typ \<in> not_ready" for "typ" r p
    by (rule ready_inv_keep [OF assms grows_send [OF that]]) simp
  have "ready_inv (handleStdinLine v now line s)" for line
    using assms ready_inv_local n by (auto simp: handleStdinLine_def finishAbort_def)
  then have e: "ready_inv (handleEvent v now ev s)" for ev
    using f d p x n snd by (cases ev) (simp_all add: handleEvent_def handleConnErr_def finishAbort_def handleOpProgress_def)
  have "grows 1 not_ready s (heartbeatTick v now s)" "se_localReady (heartbeatTick v now s) = se_localReady s"
    by (simp_all add: heartbeatTick_def grows_send' case_prod_beta split: option.split)
  then have h: "ready_inv (heartbeatTick v now s)" using assms ready_inv_keep by blast
  have c: "ready_inv (fst (call v now b1 b2 st op raw t b s))" for b1 b2 st op raw t b
    by (rule ready_inv_keep [OF assms grows_call]) (simp_all add: view_localReady [OF life_view_call])
  have "grows 1 not_ready s (onCountdownTick v s)" "se_localReady (onCountdownTick v s) = se_localReady s"
    by (simp_all add: onCountdownTick_def Let_def case_prod_beta split: list.split option.split)
  then have t: "ready_inv (onCountdownTick v s)" using assms ready_inv_keep by blast
  have u: "ready_inv (unregisterCall i s)" "ready_inv (s\<lparr>se_transferBuf := b\<rparr>)" for i b
    using assms by (simp_all add: ready_inv_def readies_def unregisterCall_def)
  show ?thesis using e h c t u n snd assms
    by (cases a) (simp_all add: act_def channelSend_def channelReceive_def finishAbort_def split: list.split)
qed

lemma ready_inv_reachable: "reachable v hs s \<Longrightarrow> ready_inv s"
proof (induction rule: reachable.induct)
  case (start now)
  have "ready_inv (newSession v hs)" by (simp add: newSession_def ready_inv_def readies_def)
  then show ?case by (simp add: startSession_def ready_inv_local)
qed (rule ready_inv_act)

text \<open>
  C29. No measurement starts before both operators agreed: a session that counts down, tests or generates
  reports has written exactly one \<open>ready\<close> frame and accepted that of its peer, and no session ever writes a
  second one.
\<close>

theorem testing_needs_both_ready:
  assumes "reachable v hs s" and "valid_role v"
  shows "length (readies s) \<le> 1
    \<and> (current s \<in> {StateReady, StateTesting, StateGeneratingReport} \<or> se_countdown s \<noteq> []
       \<longrightarrow> length (readies s) = 1 \<and> se_peerReady s)"
  using ready_inv_reachable [OF assms(1)] life_inv_reachable [OF assms]
  by (auto simp: ready_inv_def life_inv_def phase_ok_def)

theorem testing_needs_both_ready_witness:
  "current (demo_worker demo_start) = StateTesting \<and> length (readies (demo_worker demo_start)) = 1"
proof -
  have "admissible (demo_session_env RolePC2) demo_start (startSession (demo_session_env RolePC2) 0 (demo_handshake RolePC2))"
    "current (demo_worker demo_start) = StateTesting" by code_simp+
  with testing_needs_both_ready [OF reachable_demo [OF this(1)] valid_role_demo(2)] show ?thesis by simp
qed

subsection \<open>The cable-test window\<close>

text \<open>The calls of the window hook, and lists that alternate between opening and closing.\<close>

definition hooks :: "session \<Rightarrow> bool list" where
  "hooks s = concat (map (\<lambda>x. case x of WindowHook b \<Rightarrow> [b] | _ \<Rightarrow> []) (se_effects s))"

fun alternating :: "bool \<Rightarrow> bool list \<Rightarrow> bool" where
  "alternating b [] = True"
| "alternating b (x # xs) = (x = b \<and> alternating (\<not> b) xs)"

lemma alternating_snoc: "alternating b (xs @ [x]) = (alternating b xs \<and> x = (b = even (length xs)))"
  by (induction b xs rule: alternating.induct) auto

definition window_ops :: "string set" where "window_ops = {OpCableTestWindowStart, OpCableTestWindowEnd}"

definition window_inv :: "session \<Rightarrow> bool" where
  "window_inv s \<longleftrightarrow> alternating True (hooks s) \<and> (se_cableWindowActive s \<longleftrightarrow> odd (length (hooks s)))
     \<and> (\<forall>op. se_activeOp s = Some op \<longrightarrow> ao_op op \<in> window_ops \<longrightarrow> se_cableWindowActive s)"

text \<open>
  The results handed to waiting calls. Window, active operation, results and pending calls are what the
  handlers change for the counterpart; most of them change none of it.
\<close>

definition results :: "session \<Rightarrow> string list" where
  "results s = concat (map (\<lambda>x. case x of CallResult i _ \<Rightarrow> [i] | _ \<Rightarrow> []) (se_effects s))"

definition window_view :: "session \<Rightarrow> (bool list \<times> bool \<times> activeOp option) \<times> string list \<times> (string \<rightharpoonup> pendingCall)" where
  "window_view s = ((hooks s, se_cableWindowActive s, se_activeOp s), results s, se_pending s)"

lemma window_inv_view: "fst (window_view s') = fst (window_view s) \<Longrightarrow> window_inv s' = window_inv s"
  by (simp add: window_inv_def window_view_def)

definition plain_effect :: "effect \<Rightarrow> bool" where
  "plain_effect x = (case x of WindowHook _ \<Rightarrow> False | CallResult _ _ \<Rightarrow> False | _ \<Rightarrow> True)"

lemma hooks_emit: "hooks (emit x s) = (case x of WindowHook b \<Rightarrow> hooks s @ [b] | _ \<Rightarrow> hooks s)"
  by (simp add: hooks_def split: effect.split)

lemma results_emit: "results (emit x s) = (case x of CallResult i _ \<Rightarrow> results s @ [i] | _ \<Rightarrow> results s)"
  by (simp add: results_def split: effect.split)

lemma window_view_emit [simp]: "plain_effect x \<Longrightarrow> window_view (emit x s) = window_view s"
  by (cases x) (simp_all add: plain_effect_def window_view_def hooks_emit results_emit)

lemma plain_effects [simp]:
  "plain_effect (Printed a)" "plain_effect PlanStarted" "plain_effect TransferStarted" "plain_effect (OpStarted i r)"
  "plain_effect (OpCancelled i)" "plain_effect (CallProgress i pr)"
  "plain_effect (StepAnnounced ps)" "plain_effect (IdleTimeoutSet n)" "plain_effect VerdictPrepared"
  by (simp_all add: plain_effect_def)

lemma window_view_upd [simp]:
  "window_view (s\<lparr>se_sm := a1\<rparr>) = window_view s" "window_view (s\<lparr>se_dedup := a2\<rparr>) = window_view s"
  "window_view (s\<lparr>se_pendingClosed := a5\<rparr>) = window_view s"
  "window_view (s\<lparr>se_localReady := a5\<rparr>) = window_view s" "window_view (s\<lparr>se_peerReady := a5\<rparr>) = window_view s"
  "window_view (s\<lparr>se_sentComplete := a5\<rparr>) = window_view s" "window_view (s\<lparr>se_peerComplete := a6\<rparr>) = window_view s"
  "window_view (s\<lparr>se_peerHB := a7\<rparr>) = window_view s" "window_view (s\<lparr>se_lastRecvAt := a8\<rparr>) = window_view s"
  "window_view (s\<lparr>se_hbSeq := a9\<rparr>) = window_view s" "window_view (s\<lparr>se_invalidState := b1\<rparr>) = window_view s"
  "window_view (s\<lparr>se_countdown := b2\<rparr>) = window_view s" "window_view (s\<lparr>se_transferBuf := b3\<rparr>) = window_view s"
  "window_view (s\<lparr>se_transferOn := a5\<rparr>) = window_view s" "window_view (s\<lparr>se_transferRan := a5\<rparr>) = window_view s"
  "window_view (s\<lparr>se_fin := b4\<rparr>) = window_view s" "window_view (s\<lparr>se_announcedStep := b5\<rparr>) = window_view s"
  "window_view (s\<lparr>se_mode := b7\<rparr>) = window_view s" "window_view (s\<lparr>se_steps := b8\<rparr>) = window_view s"
  "window_view (s\<lparr>se_peerAbortStage := b7\<rparr>) = window_view s" "window_view (s\<lparr>se_peerAbortDetail := b7\<rparr>) = window_view s"
  "window_view (fst (send v now typ r p s)) = window_view s" "window_view (fst (transition st s)) = window_view s"
  by (simp_all add: window_view_def hooks_def results_def)

lemma window_view_ops [simp]:
  "window_view (startCountdown now lead s) = window_view s" "window_view (finishAbort r sg err s) = window_view s"
  "window_view (startTransfer s) = window_view s" "window_view (announceRequestStep v req s) = window_view s"
  "window_view (writeTestResult v now i res s) = window_view s" "window_view (writeComplete v now i s) = window_view s"
  "window_view (sendComplete v now s) = window_view s" "window_view (warnInvalidState v now env s) = window_view s"
  "window_view (onBothReady v now s) = window_view s"
  by (simp_all add: startCountdown_def finishAbort_def startTransfer_def announceRequestStep_def
      writeTestResult_def writeComplete_def sendComplete_def warnInvalidState_def onBothReady_def Let_def
      case_prod_beta split: option.split)

lemma window_view_route [simp]: "window_view (routeTransferFrame v now env s) = window_view s"
  by (simp add: routeTransferFrame_def)

lemma window_view_local [simp]: "window_view (sendLocalReady v now s) = window_view s"
  by (simp add: sendLocalReady_def Let_def case_prod_beta split: option.split)

lemma window_view_handlers:
  "window_view (handlePeerReady v now env s) = window_view s" "window_view (handleStartConfirmation v now env s) = window_view s"
  "window_view (handleReportManifest v now env s) = window_view s"
  "window_view (handleComplete v now env s) = window_view s" "window_view (handleProgress v env s) = window_view s"
  "window_view (handlePeerAbort v env s) = window_view s"
  "window_view (handlePlanDone v now r s) = window_view s"
  "window_view (handleTransferDone v now err s) = window_view s" "window_view (heartbeatTick v now s) = window_view s"
  "window_view (onCountdownTick v s) = window_view s" "window_view (handleStdinLine v now line s) = window_view s"
  by (simp_all add: handlePeerReady_def handleStartConfirmation_def handleReportManifest_def handleComplete_def handleProgress_def
   handlePeerAbort_def handlePlanDone_def handleTransferDone_def heartbeatTick_def onCountdownTick_def
   handleStdinLine_def Let_def case_prod_beta split: option.split sum.split State.split plan_result.split list.split)

lemma window_inv_request:
  assumes "window_inv s" and "cf_OnCableTestWindow (sv_cfg v) = Some h"
  shows "window_inv (handleTestRequest v now env s)"
proof -
  have 1: "window_inv (startOp i req (announceRequestStep v req s))"
    if "tq_Op req \<noteq> OpCableTestWindowStart" "tq_Op req = OpCableTestWindowEnd \<longrightarrow> se_cableWindowActive s" for i req
  proof -
    have "window_view (announceRequestStep v req s) = window_view s" by simp
    with that assms(1) show ?thesis by (auto simp: window_inv_def window_view_def startOp_def hooks_emit hooks_def window_ops_def)
  qed
  have 2: "window_inv (startOp i req (announceRequestStep v req (fst (windowHook v True (s0\<lparr>se_cableWindowActive := True\<rparr>)))))"
    if "\<not> se_cableWindowActive s" "window_view s0 = window_view s" for i req s0
  proof -
    let ?s = "fst (windowHook v True (s0\<lparr>se_cableWindowActive := True\<rparr>))"
    have "window_view (announceRequestStep v req ?s) = window_view ?s" by simp
    moreover have "fst (window_view ?s) = (hooks s @ [True], True, se_activeOp s)"
      using that(2) assms(2) by (simp add: windowHook_def window_view_def hooks_emit hooks_def)
    ultimately show ?thesis using that(1) assms(1)
      by (auto simp: window_inv_def window_view_def startOp_def hooks_emit hooks_def alternating_snoc)
  qed
  have keep: "window_view s' = window_view s \<Longrightarrow> window_inv s'" for s' using assms(1) window_inv_view [of s' s] by simp
  show ?thesis
    using assms(1) 1 2
    by (auto simp: handleTestRequest_def acceptRequest_def Let_def keep split: sum.split option.split)
qed

lemma close_window_view:
  assumes "cf_OnCableTestWindow (sv_cfg v) = Some h"
  shows "fst (window_view (fst (close_window v s))) = (hooks s @ [False], False, se_activeOp s)"
proof -
  have "window_view (fst (close_window v s)) = window_view ((fst (windowHook v False s))\<lparr>se_cableWindowActive := False\<rparr>)"
    by (simp add: close_window_def case_prod_beta)
  then show ?thesis using assms by (simp add: windowHook_def window_view_def hooks_emit hooks_def)
qed

lemma window_inv_done:
  assumes "window_inv s" and "cf_OnCableTestWindow (sv_cfg v) = Some h"
  shows "window_inv (handleOpDone v now i res p s)"
proof -
  obtain opName s1 s2 res' where d: "handleOpDone v now i res p s = writeTestResult v now i res' s2"
    "s1 = s \<and> opName = '''' \<or> (\<exists>op. se_activeOp s = Some op \<and> ao_reqID op = i \<and> opName = ao_op op \<and> s1 = s\<lparr>se_activeOp := None\<rparr>)"
    "s2 = (if opName = OpCableTestWindowEnd \<or> opName = OpCableTestWindowStart \<and> ts_Status res \<noteq> ''ok''
      then fst (close_window v s1) else s1)" by (rule handleOpDone_cases)
  have "window_inv s2"
  proof (cases "opName = OpCableTestWindowEnd \<or> opName = OpCableTestWindowStart \<and> ts_Status res \<noteq> ''ok''")
    case True
    then have w: "s1 = s\<lparr>se_activeOp := None\<rparr>" "se_cableWindowActive s"
      using d(2) assms(1) by (auto simp: window_inv_def window_ops_def OpCableTestWindowStart_def OpCableTestWindowEnd_def)
    then have "fst (window_view s2) = (hooks s @ [False], False, None)"
      using True d(3) close_window_view [OF assms(2), of s1] by (simp add: hooks_def)
    then show ?thesis using assms(1) w(2) by (simp add: window_inv_def window_view_def alternating_snoc)
  next
    case False
    then have "s2 = s \<or> s2 = s\<lparr>se_activeOp := None\<rparr>" using d(2,3) by auto
    then show ?thesis using assms(1) by (auto simp: window_inv_def hooks_def)
  qed
  then show ?thesis unfolding d(1) by (simp add: window_inv_view [of "writeTestResult v now i res' s2" s2])
qed

lemma window_inv_act:
  assumes "window_inv s" and "cf_OnCableTestWindow (sv_cfg v) = Some h"
  shows "window_inv (act v now a s)"
proof -
  have keep: "window_view s' = window_view s \<Longrightarrow> window_inv s'" for s' using assms(1) window_inv_view [of s' s] by simp
  have fr: "window_inv (handleFrame v now env s)" for env
  proof -
    have "window_inv (dispatch v now env s')" if "window_view s' = window_view s" for s'
    proof -
      have i: "window_inv s'" by (rule keep [OF that])
      have "fst (window_view (handleTestResult v env s')) = fst (window_view s')"
        by (simp add: handleTestResult_def takeCall_def Let_def window_view_def hooks_emit hooks_def split: option.split)
      then have "window_inv (handleTestResult v env s')" using i window_inv_view by blast
      then show ?thesis using window_inv_request [OF i assms(2)] that
        by (simp add: dispatch_def keep window_view_handlers split: sum.split)
    qed
    then show ?thesis by (simp add: handleFrame_def Let_def keep split: prod.split option.split)
  qed
  have e: "window_inv (handleEvent v now ev s)" for ev
    using fr window_inv_done [OF assms]
    by (cases ev) (simp_all add: handleEvent_def handleConnErr_def handleOpProgress_def keep window_view_handlers)
  have c: "window_inv (fst (call v now b1 b2 st op raw t b s))" for b1 b2 st op raw t b
    using assms(1)
    by (subst window_inv_view [of _ s]) (simp_all add: call_def registerCall_def unregisterCall_def write_frame_def window_view_def
        hooks_def Let_def split: prod.split option.split sum.split)
  have "window_inv (unregisterCall i s)" for i
    using assms(1) window_inv_view [of "unregisterCall i s" s] by (simp add: unregisterCall_def window_view_def hooks_def)
  then show ?thesis using e c assms(1)
    by (cases a) (simp_all add: act_def channelSend_def channelReceive_def keep window_view_handlers split: list.split)
qed

lemma window_inv_reachable:
  "reachable v hs s \<Longrightarrow> cf_OnCableTestWindow (sv_cfg v) = Some h \<Longrightarrow> window_inv s"
proof (induction rule: reachable.induct)
  case (start now)
  have "window_inv (newSession v hs)" by (simp add: newSession_def window_inv_def hooks_def)
  then show ?case using window_inv_view [of "sendLocalReady v now (newSession v hs)" "newSession v hs"] by (simp add: startSession_def)
qed (rule window_inv_act)

text \<open>
  C30. The hook that tells the rest of the program about a cable-test window is called in strict alternation,
  opening first, whatever requests the coordinator sends; a window is open exactly between the two calls; and
  a shutdown, from whatever state and for whatever reason, leaves every opened window closed exactly once.
\<close>

theorem window_balanced:
  assumes "reachable v hs s" and "cf_OnCableTestWindow (sv_cfg v) = Some h"
  shows "alternating True (hooks s) \<and> (se_cableWindowActive s \<longleftrightarrow> odd (length (hooks s)))
    \<and> alternating True (hooks (shutdown v t spec s)) \<and> even (length (hooks (shutdown v t spec s)))"
proof -
  have i: "window_inv s" by (rule window_inv_reachable [OF assms])
  define s2 where "s2 = (let s1 = (case se_activeOp s of None \<Rightarrow> s | Some op \<Rightarrow> emit (OpCancelled (ao_reqID op)) s)
    in if fs_farewell spec then sendFarewell v t spec s1 else s1)"
  have "window_view s2 = window_view s" by (simp add: s2_def Let_def sendFarewell_def split: option.split)
  then have s2: "hooks s2 = hooks s" "se_cableWindowActive s2 = se_cableWindowActive s" by (simp_all add: window_view_def)
  have "hooks (shutdown v t spec s) = hooks (if se_cableWindowActive s2 then fst (windowHook v False s2) else s2)"
    by (simp add: shutdown_def s2_def Let_def hooks_def)
  also have "\<dots> = (if se_cableWindowActive s then hooks s @ [False] else hooks s)"
    using s2 assms(2) by (simp add: windowHook_def hooks_emit)
  finally show ?thesis using i by (simp add: window_inv_def alternating_snoc)
qed

theorem window_balanced_witness:
  "hooks (demo_worker (demo_start @ demo_window)) = [True]
   \<and> even (length (hooks (shutdown (demo_session_env RolePC2) 9
        \<lparr>fs_state = StateAborted, fs_reason = reasonUserInterrupt, fs_farewell = True, fs_farewellReason = reasonUserInterrupt,
         fs_farewellStage = '''', fs_farewellDetail = '''', fs_err = Some (ErrLocalAbort ''operator quit'')\<rparr>
        (demo_worker (demo_start @ demo_window)))))"
proof -
  have "admissible (demo_session_env RolePC2) (demo_start @ demo_window) (startSession (demo_session_env RolePC2) 0 (demo_handshake RolePC2))"
    "hooks (demo_worker (demo_start @ demo_window)) = [True]" by code_simp+
  moreover have "cf_OnCableTestWindow (sv_cfg (demo_session_env RolePC2)) = Some (\<lambda>_ _. 2)" by (simp add: demo_session_env_def)
  ultimately show ?thesis using window_balanced [OF reachable_demo] by simp
qed

end
