(* ===== verification/Calls.thy ===== *)
theory Calls
  imports Lifecycle
begin

section \<open>Heartbeats, calls and redaction\<close>

text \<open>
  What the coordinator and the worker can rely on in a running session: a peer that ticks is never taken
  for lost, every call gets at most one result and the requests that arrive too early get none, and an
  error text that leaves the machine no longer contains the session token.
\<close>

subsection \<open>Heartbeats keep the connection alive\<close>

lemma send_stamps:
  assumes "sv_writeErr v (se_writes s) = None" and "cd_marshal (sv_codec v) p = Inr raw"
  shows "se_lastSend (fst (send v now typ r p s)) = Some now" and "snd (send v now typ r p s) = None"
  using assms by (simp_all add: send_def mintAndWrite_def write_frame_def NewEnvelope_def Let_def case_prod_beta)

text \<open>
  A peer that is alive is never taken for lost between two ticks of its heartbeat: with the default
  settings, and as long as writes succeed, at every instant up to the next tick the last frame was written
  less than the session idle timeout ago, however the other frames of the session are spaced.
\<close>

theorem heartbeat_keeps_alive:
  assumes "cf_HeartbeatInterval (sv_cfg v) \<le> 0" and "cf_IdleTimeout (sv_cfg v) \<le> 0"
    and "sv_writeErr v (se_writes s) = None" and "\<And>hb. \<exists>raw. cd_marshal (sv_codec v) (PHeartbeat hb) = Inr raw"
    and "u \<le> now + heartbeatInterval (sv_cfg v)"
  shows "\<exists>t. se_lastSend (heartbeatTick v now s) = Some t \<and> u - t < idleTimeout (sv_cfg v)"
proof -
  have h: "heartbeatInterval (sv_cfg v) = 5000000000" "idleTimeout (sv_cfg v) = 20000000000"
    using assms(1,2) by (simp_all add: heartbeatInterval_def idleTimeout_def HeartbeatInterval_def SessionIdleTimeout_def second_def)
  have d: "idiv (imul (heartbeatInterval (sv_cfg v)) 4) 5 = 4000000000" unfolding h by code_simp
  show ?thesis
  proof (cases "case se_lastSend s of None \<Rightarrow> True | Some t \<Rightarrow> now - t \<ge> 4000000000")
    case True
    let ?p = "PHeartbeat \<lparr>hb_Seq = se_hbSeq s + 1, hb_State = state_name (current s), hb_ActiveOp = activeOpName s\<rparr>"
    obtain raw where "cd_marshal (sv_codec v) ?p = Inr raw" using assms(4) by blast
    from send_stamps [OF assms(3) this, of now TypeHeartbeat "''''"] True
    have "se_lastSend (heartbeatTick v now s) = Some now"
      by (auto simp: heartbeatTick_def d case_prod_beta split: option.splits)
    then show ?thesis using assms(5) h by simp
  next
    case False
    then obtain t where "se_lastSend s = Some t" "now - t < 4000000000" by (auto split: option.splits)
    moreover from this have "heartbeatTick v now s = s" by (simp add: heartbeatTick_def d)
    ultimately show ?thesis using assms(5) h by simp
  qed
qed

subsection \<open>Requests before the start\<close>

text \<open>
  A worker answers a request of its coordinator only after its own start: a request that arrives while
  the worker is still counting down starts no operation and gets no result, only a warning that does not
  name the request, and counts as a violation of the protocol.
\<close>

theorem early_request_unanswered:
  assumes "current s = StateReady" and "se_fin s = None" and "se_invalidState s + 1 < maxInvalidState"
  shows "let s' = handleTestRequest v now env s
    in se_activeOp s' = se_activeOp s \<and> current s' = StateReady \<and> se_effects s' = se_effects s
       \<and> se_invalidState s' = se_invalidState s + 1 \<and> se_fin s' = None
       \<and> (\<forall>e\<in>set (drop (length (se_sent s)) (se_sent s')). en_Type e = TypeWarning \<and> en_InReplyTo e = '''')"
proof -
  have w: "handleTestRequest v now env s = warnInvalidState v now env s"
    using assms(1) by (simp add: handleTestRequest_def Require_def current_def)
  have "\<forall>e\<in>set (drop (length (se_sent s)) (se_sent (fst (send v now TypeWarning '''' p s)))). en_Type e = TypeWarning \<and> en_InReplyTo e = ''''" for p
    by (auto simp: send_def mintAndWrite_def write_frame_def Let_def case_prod_beta dest!: NewEnvelope_id split: sum.splits option.splits)
  then show ?thesis unfolding w using assms by (simp add: warnInvalidState_def Let_def current_def)
qed

subsection \<open>Every call gets at most one result\<close>

text \<open>
  The identifiers of the requests a session has written. \<open>call_inv k s\<close>: the counter of the session is at
  \<open>k\<close>, identifiers of requests are numbers up to \<open>k\<close>, calls that wait and calls that were answered are
  different requests.
\<close>

definition requests :: "session \<Rightarrow> string set" where
  "requests s = {en_MessageID e | e. e \<in> set (se_sent s) \<and> en_Type e = TypeTestRequest}"

definition minted :: "string \<Rightarrow> nat \<Rightarrow> string set" where
  "minted role k = (\<lambda>j. message_id role (of_nat j)) ` {1..k}"

definition call_inv :: "string \<Rightarrow> nat \<Rightarrow> session \<Rightarrow> bool" where
  "call_inv role k s \<longleftrightarrow> se_ids s = \<lparr>mk_role = role, mk_seq = of_nat k\<rparr> \<and> requests s \<subseteq> minted role k
     \<and> dom (se_pending s) \<union> set (results s) \<subseteq> requests s
     \<and> dom (se_pending s) \<inter> set (results s) = {} \<and> distinct (results s)"

lemma grows_requests:
  assumes "grows n T s s'" and "se_ids s = \<lparr>mk_role = role, mk_seq = of_nat k\<rparr>" and "requests s \<subseteq> minted role k"
  obtains k' where "k' \<le> k + n" "se_ids s' = \<lparr>mk_role = role, mk_seq = of_nat k'\<rparr>" "requests s \<subseteq> requests s'"
    "requests s' \<subseteq> minted role k'"
proof -
  obtain es ns k' where g: "k \<le> k'" "k' \<le> k + n" "se_ids s' = \<lparr>mk_role = role, mk_seq = of_nat k'\<rparr>" "se_sent s' = se_sent s @ es"
    "map en_MessageID es = map (\<lambda>j. message_id role (of_nat j)) ns" "\<forall>j\<in>set ns. k < j \<and> j \<le> k'"
    by (rule growsE [OF assms(1,2)])
  have "en_MessageID ` set es \<subseteq> minted role k'"
  proof
    fix i assume "i \<in> en_MessageID ` set es"
    then have "i \<in> set (map (\<lambda>j. message_id role (of_nat j)) ns)" unfolding g(5) [symmetric] by simp
    then obtain j where j: "j \<in> set ns" "i = message_id role (of_nat j)" by auto
    with g(6) have "j \<in> {1..k'}" by fastforce
    with j show "i \<in> minted role k'" unfolding minted_def by blast
  qed
  moreover have "minted role k \<subseteq> minted role k'" using g(1) by (auto simp: minted_def)
  ultimately have "requests s' \<subseteq> minted role k'" using assms(3) g(4) by (auto simp: requests_def)
  moreover have "requests s \<subseteq> requests s'" using g(4) by (auto simp: requests_def)
  ultimately show thesis using that g by blast
qed

lemma call_inv_keep:
  assumes "call_inv role k s" and "grows n T s s'" and "results s' = results s" and "dom (se_pending s') \<subseteq> dom (se_pending s)"
  shows "\<exists>k' \<le> k + n. call_inv role k' s'"
proof -
  obtain k' where "k' \<le> k + n" "se_ids s' = \<lparr>mk_role = role, mk_seq = of_nat k'\<rparr>" "requests s \<subseteq> requests s'"
    "requests s' \<subseteq> minted role k'"
    using grows_requests [OF assms(2)] assms(1) unfolding call_inv_def by blast
  moreover from this have "dom (se_pending s') \<union> set (results s') \<subseteq> requests s'" "dom (se_pending s') \<inter> set (results s') = {}"
    using assms(1,4) unfolding call_inv_def assms(3) by blast+
  ultimately show ?thesis using assms(1,3) unfolding call_inv_def by auto
qed

lemma call_cases:
  assumes "Next (se_ids s) = (ids, i)"
  shows "se_effects (fst (call v now c a st op raw t b s)) = se_effects s"
    and "dom (se_pending (fst (call v now c a st op raw t b s))) \<subseteq> dom (se_pending s)
      \<or> (\<exists>e pc. se_sent (fst (call v now c a st op raw t b s)) = se_sent s @ [e] \<and> en_MessageID e = i \<and> en_Type e = TypeTestRequest
           \<and> se_pending (fst (call v now c a st op raw t b s)) = (se_pending s)(i \<mapsto> pc))"
  using assms
  by (auto simp: call_def registerCall_def unregisterCall_def write_frame_def Let_def dest: NewEnvelope_id
      split: sum.split option.split)

lemma call_inv_call:
  assumes "call_inv role k s" and "role \<noteq> []" and "k + 1 < 2 ^ 64"
  shows "\<exists>k' \<le> k + 1. call_inv role k' (fst (call v now c a st op raw t b s))"
proof -
  let ?i = "message_id role (of_nat (Suc k))" and ?s = "fst (call v now c a st op raw t b s)"
  have n: "Next (se_ids s) = (\<lparr>mk_role = role, mk_seq = of_nat (Suc k)\<rparr>, ?i)"
    using assms(1) Next_of_nat by (simp add: call_inv_def)
  have r: "results ?s = results s" using call_cases(1) [OF n, of v now c a st op raw t b] by (simp add: results_def)
  have g: "grows 1 {TypeTestRequest} s ?s" by (rule grows_call) simp
  show ?thesis
  proof (cases "dom (se_pending ?s) \<subseteq> dom (se_pending s)")
    case True
    show ?thesis by (rule call_inv_keep [OF assms(1) g r True])
  next
    case False
    then obtain e pc where e: "se_sent ?s = se_sent s @ [e]" "en_MessageID e = ?i" "en_Type e = TypeTestRequest"
      "se_pending ?s = (se_pending s)(?i \<mapsto> pc)" using call_cases(2) [OF n, of v now c a st op raw t b] by blast
    have "?i \<notin> minted role k" unfolding minted_def using fresh_message_id [OF assms(2), of k "Suc k"] assms(3) by simp
    then have fresh: "?i \<notin> set (results s)" using assms(1) unfolding call_inv_def by blast
    obtain k' where k': "k' \<le> k + 1" "se_ids ?s = \<lparr>mk_role = role, mk_seq = of_nat k'\<rparr>" "requests s \<subseteq> requests ?s"
      "requests ?s \<subseteq> minted role k'"
      using grows_requests [OF g] assms(1) unfolding call_inv_def by blast
    have "?i \<in> requests ?s" unfolding requests_def using e(1-3) by (intro CollectI exI [of _ e]) simp
    then have "dom (se_pending ?s) \<union> set (results ?s) \<subseteq> requests ?s" "dom (se_pending ?s) \<inter> set (results ?s) = {}"
      using assms(1) k'(3) fresh r e(4) unfolding call_inv_def by auto
    with k' r assms(1) show ?thesis unfolding call_inv_def by auto
  qed
qed

lemma call_inv_result:
  assumes "call_inv role k s"
  shows "call_inv role k (handleTestResult v env s)"
proof (cases "se_pending s (en_InReplyTo env)")
  case (Some pc)
  let ?i = "en_InReplyTo env" and ?s = "handleTestResult v env s"
  have s: "results ?s = results s @ [?i]" "se_pending ?s = (se_pending s)(?i := None)" "se_ids ?s = se_ids s" "se_sent ?s = se_sent s"
    using Some by (simp_all add: handleTestResult_def takeCall_def Let_def results_emit) (simp_all add: results_def)
  then have q: "requests ?s = requests s" by (simp add: requests_def)
  have "?i \<in> dom (se_pending s)" using Some by blast
  with assms show ?thesis unfolding call_inv_def q s by auto
next
  case None
  then have "handleTestResult v env s = s" by (simp add: handleTestResult_def takeCall_def fun_upd_idem)
  with assms show ?thesis by simp
qed

lemma view_calls:
  "window_view s' = window_view s \<Longrightarrow> results s' = results s" "window_view s' = window_view s \<Longrightarrow> se_pending s' = se_pending s"
  by (simp_all add: window_view_def)

lemma calls_upd [simp]:
  "results (writeTestResult v now i res s) = results s" "se_pending (writeTestResult v now i res s) = se_pending s"
  "results (announceRequestStep v req s) = results s" "se_pending (announceRequestStep v req s) = se_pending s"
  "results (warnInvalidState v now env s) = results s" "se_pending (warnInvalidState v now env s) = se_pending s"
  by (rule view_calls, simp)+

lemma calls_window [simp]:
  "results (s\<lparr>se_cableWindowActive := b\<rparr>) = results s" "results (s\<lparr>se_activeOp := ao\<rparr>) = results s"
  "results (fst (windowHook v b s)) = results s" "se_pending (fst (windowHook v b s)) = se_pending s"
  "results (startOp i req s) = results s" "se_pending (startOp i req s) = se_pending s"
  "results (fst (close_window v s)) = results s" "se_pending (fst (close_window v s)) = se_pending s"
  by (simp_all add: results_def startOp_def windowHook_def close_window_def case_prod_beta split: option.split)

lemma quiet_request:
  "results (handleTestRequest v now env s) = results s" "se_pending (handleTestRequest v now env s) = se_pending s"
  by (simp_all add: handleTestRequest_def acceptRequest_def Let_def results_emit split: sum.split option.split)

lemma quiet_done:
  "results (handleOpDone v now i res p s) = results s" "se_pending (handleOpDone v now i res p s) = se_pending s"
proof -
  obtain opName s1 s2 res' where "handleOpDone v now i res p s = writeTestResult v now i res' s2"
    "s1 = s \<and> opName = '''' \<or> (\<exists>op. se_activeOp s = Some op \<and> ao_reqID op = i \<and> opName = ao_op op \<and> s1 = s\<lparr>se_activeOp := None\<rparr>)"
    "s2 = (if opName = OpCableTestWindowEnd \<or> opName = OpCableTestWindowStart \<and> ts_Status res \<noteq> ''ok''
      then fst (close_window v s1) else s1)" by (rule handleOpDone_cases)
  then show "results (handleOpDone v now i res p s) = results s" "se_pending (handleOpDone v now i res p s) = se_pending s" by auto
qed

lemma call_inv_dispatch:
  assumes "call_inv role k s"
  shows "\<exists>k' \<le> k + 2. call_inv role k' (dispatch v now env s)"
proof (cases "en_Type env = TypeTestResult")
  case True
  then have "dispatch v now env s = handleTestResult v env s"
    by (simp add: dispatch_def TypeTestResult_def TypeHeartbeat_def TypeReady_def TypeStartConfirm_def TypeTestRequest_def
        TypeTestProgress_def)
  then show ?thesis using call_inv_result [OF assms, of v env] by (intro exI [of _ k]) simp
next
  case False
  have "window_view (dispatch v now env s) = window_view s" if "en_Type env \<noteq> TypeTestRequest"
    using False that by (simp add: dispatch_def window_view_handlers split: sum.split)
  then have "results (dispatch v now env s) = results s \<and> se_pending (dispatch v now env s) = se_pending s"
  proof (cases "en_Type env = TypeTestRequest")
    case True
    then have "dispatch v now env s = handleTestRequest v now env s"
      by (simp add: dispatch_def TypeHeartbeat_def TypeReady_def TypeStartConfirm_def TypeTestRequest_def)
    then show ?thesis by (simp add: quiet_request)
  qed (simp add: window_view_def)
  then show ?thesis using call_inv_keep [OF assms grows_dispatch, of v now env] by simp
qed

lemma call_inv_upd: "call_inv role k s \<Longrightarrow> call_inv role k (s\<lparr>se_lastRecvAt := t, se_dedup := d\<rparr>)"
  by (simp add: call_inv_def requests_def results_def)

lemma call_inv_frame:
  assumes "call_inv role k s"
  shows "\<exists>k' \<le> k + 2. call_inv role k' (handleFrame v now env s)"
proof -
  have "\<exists>k' \<le> k + 2. call_inv role k' (s\<lparr>se_lastRecvAt := t, se_dedup := d\<rparr>)" for t d
    using call_inv_upd [OF assms] le_add1 by blast
  then show ?thesis using call_inv_dispatch [OF call_inv_upd [OF assms]]
    by (simp add: handleFrame_def Let_def split: prod.split option.split)
qed

lemma call_inv_act:
  assumes "call_inv role k s" and "role \<noteq> []" and "k + 2 < 2 ^ 64"
  shows "\<exists>k' \<le> k + 2. call_inv role k' (act v now a s)"
proof -
  let ?s = "act v now a s"
  have keep: ?thesis if "results ?s = results s" "dom (se_pending ?s) \<subseteq> dom (se_pending s)"
    by (rule call_inv_keep [OF assms(1) grows_act that])
  have view: ?thesis if "window_view ?s = window_view s"
    by (rule keep [OF view_calls(1) [OF that]]) (simp add: view_calls(2) [OF that])
  show ?thesis
  proof (cases "loop_action a \<and> se_fin s \<noteq> None")
    case True
    then show ?thesis by (intro view) (simp add: act_def)
  next
    case go: False
    show ?thesis
    proof (cases a)
      case (PlanCall b1 b2 st op raw t b)
      then have "?s = fst (call v now b1 b2 st op raw t b s)" by (simp add: act_def loop_action_def)
      then show ?thesis using call_inv_call [OF assms(1,2), of v now b1 b2 st op raw t b] assms(3)
        by (auto intro: le_SucI)
    next
      case (Event ev)
      then have a: "?s = handleEvent v now ev s" using go by (auto simp: act_def)
      show ?thesis
      proof (cases "\<exists>env. ev = EvFrame env")
        case True
        then show ?thesis using call_inv_frame [OF assms(1)] a by (auto simp: handleEvent_def)
      next
        case frame: False
        show ?thesis
        proof (cases "\<exists>i res p. ev = EvOpDone i res p")
          case True
          then show ?thesis using a by (intro keep) (auto simp: handleEvent_def quiet_done)
        next
          case False
          with frame have "window_view (handleEvent v now ev s) = window_view s"
            by (cases ev) (simp_all add: handleEvent_def handleConnErr_def handleOpProgress_def window_view_handlers)
          then show ?thesis by (intro view) (simp add: a)
        qed
      qed
    next
      case (CallReturned i)
      then have "?s = unregisterCall i s" by (simp add: act_def loop_action_def)
      then show ?thesis by (intro keep) (auto simp: unregisterCall_def results_def)
    next
      case (ChannelSend ty r p)
      then show ?thesis by (intro view) (simp add: act_def loop_action_def channelSend_def)
    next
      case ChannelReceive
      then show ?thesis by (intro view) (simp add: act_def loop_action_def channelReceive_def split: list.split)
    qed (use go in \<open>intro view, simp add: act_def window_view_handlers\<close>)+
  qed
qed

lemma call_inv_run:
  "role \<noteq> [] \<Longrightarrow> call_inv role k s \<Longrightarrow> k + 2 * length as < 2 ^ 64 \<Longrightarrow> \<exists>k'. call_inv role k' (run_actions v as s)"
proof (induction as arbitrary: k s)
  case (Cons x as)
  obtain k' where k': "k' \<le> k + 2" "call_inv role k' (act v (fst x) (snd x) s)"
    using call_inv_act [OF Cons.prems(2,1), of v "fst x" "snd x"] Cons.prems(3) by auto
  then have "\<exists>k''. call_inv role k'' (run_actions v as (act v (fst x) (snd x) s))"
    using Cons.IH [OF Cons.prems(1) k'(2)] Cons.prems(3) by simp
  then show ?case by (simp add: run_actions_def split_beta)
qed (auto simp: run_actions_def)

lemma call_inv_start:
  assumes "hs_IDs hs = \<lparr>mk_role = role, mk_seq = of_nat k\<rparr>"
  shows "\<exists>k' \<le> k + 2. call_inv role k' (startSession v now hs)"
proof (rule call_inv_keep [OF _ grows_start])
  show "call_inv role k (newSession v hs)"
    using assms by (auto simp: call_inv_def newSession_def requests_def results_def)
  have v: "window_view (startSession v now hs) = window_view (newSession v hs)" by (simp add: startSession_def)
  show "results (startSession v now hs) = results (newSession v hs)" by (rule view_calls(1) [OF v])
  show "dom (se_pending (startSession v now hs)) \<subseteq> dom (se_pending (newSession v hs))" using view_calls(2) [OF v] by simp
qed

text \<open>
  C31. Calls and results correspond: however many \<open>test_result\<close> frames arrive, duplicated, late or naming
  unknown requests, a call of the coordinator receives at most one result, and only for a request that was
  written; a call that still waits has not received one.
\<close>

theorem call_results_once:
  assumes "hs_IDs hs = \<lparr>mk_role = role, mk_seq = of_nat k\<rparr>" and "role \<noteq> []" and "k + 2 * (length as + 1) < 2 ^ 64"
  shows "let s = run_actions v as (startSession v now hs)
    in distinct (results s) \<and> set (results s) \<union> dom (se_pending s) \<subseteq> requests s
       \<and> set (results s) \<inter> dom (se_pending s) = {}"
proof -
  obtain k1 where k1: "k1 \<le> k + 2" "call_inv role k1 (startSession v now hs)" using call_inv_start [OF assms(1)] by blast
  obtain k2 where "call_inv role k2 (run_actions v as (startSession v now hs))"
    using call_inv_run [OF assms(2) k1(2), of as v] k1(1) assms(3) by auto
  then show ?thesis unfolding call_inv_def Let_def by blast
qed

definition demo_reply :: "string \<Rightarrow> string \<Rightarrow> int \<times> action" where
  "demo_reply i re =
     (9, Event (EvFrame \<lparr>en_ProtocolVersion = Version, en_TestID = ''run1'', en_MessageID = i, en_InReplyTo = re,
        en_Type = TypeTestResult, en_Timestamp = 0, en_Payload = ''{}''\<rparr>))"

definition demo_coordinator :: "(int \<times> action) list" where
  "demo_coordinator =
     [(5, PlanCall False True \<lparr>ps_step = 1, ps_total = 1, ps_name = ''ping''\<rparr> ''ping'' ''{}'' 1000 False),
      demo_reply ''pc2-00000003'' ''pc1-00000004'', demo_reply ''pc2-00000004'' ''pc1-00000004''] "

theorem call_results_once_witness:
  "results (run_actions (demo_session_env RolePC1) demo_coordinator (startSession (demo_session_env RolePC1) 0 (demo_handshake RolePC1)))
     = [''pc1-00000004'']
   \<and> ''pc1-00000004'' \<in> requests (run_actions (demo_session_env RolePC1) demo_coordinator (startSession (demo_session_env RolePC1) 0 (demo_handshake RolePC1)))"
proof -
  let ?s = "run_actions (demo_session_env RolePC1) demo_coordinator (startSession (demo_session_env RolePC1) 0 (demo_handshake RolePC1))"
  have r: "results ?s = [''pc1-00000004'']" by code_simp
  have "hs_IDs (demo_handshake RolePC1) = \<lparr>mk_role = RolePC1, mk_seq = of_nat 2\<rparr>" "RolePC1 \<noteq> []"
    by (simp_all add: demo_handshake_def RolePC1_def)
  from call_results_once [OF this, of demo_coordinator "demo_session_env RolePC1" 0] r show ?thesis
    by (simp add: demo_coordinator_def Let_def)
qed

subsection \<open>Redaction\<close>

lemma contains_other_prefix: "set new \<inter> set old = {} \<Longrightarrow> old \<noteq> [] \<Longrightarrow> contains (new @ xs) old = contains xs old"
proof (induction new)
  case (Cons c new)
  then have "\<not> has_prefix ((c # new) @ xs) old" by (cases old) (auto simp: has_prefix_def)
  with Cons show ?case by simp
qed simp

lemma ReplaceAll_prefix:
  assumes "new \<noteq> []"
  shows "set new \<inter> set w = {} \<Longrightarrow> has_prefix (ReplaceAll s old new) w \<Longrightarrow> has_prefix s w"
proof (induction w arbitrary: s)
  case (Cons d w)
  show ?case
  proof (cases "old = [] \<or> s = []")
    case True
    with Cons.prems show ?thesis by (simp add: ReplaceAll.simps [of s])
  next
    case False
    then obtain c s' where s: "s = c # s'" by (cases s) auto
    show ?thesis
    proof (cases "has_prefix s old")
      case True
      with False Cons.prems(2) have "has_prefix (new @ ReplaceAll (drop (length old) s) old new) (d # w)"
        by (simp add: ReplaceAll.simps [of s])
      then have "hd new = d" using assms by (cases new) (simp_all add: has_prefix_def)
      then show ?thesis using assms Cons.prems(1) hd_in_set [OF assms] by simp
    next
      case no: False
      then have "ReplaceAll s old new = c # ReplaceAll s' old new" using False s by (simp add: ReplaceAll.simps [of "c # s'"])
      then show ?thesis using Cons s by (simp add: has_prefix_def)
    qed
  qed
qed (simp add: has_prefix_def)

lemma ReplaceAll_removes:
  assumes "set new \<inter> set old = {}" and "old \<noteq> []" and "new \<noteq> []"
  shows "\<not> contains (ReplaceAll s old new) old"
proof (induction "length s" arbitrary: s rule: less_induct)
  case less
  show ?case
  proof (cases s)
    case Nil
    with assms(2) show ?thesis by (simp add: ReplaceAll.simps [of "[]"])
  next
    case (Cons c s')
    show ?thesis
    proof (cases "has_prefix s old")
      case True
      then have "ReplaceAll s old new = new @ ReplaceAll (drop (length old) s) old new"
        using Cons assms(2) by (simp add: ReplaceAll.simps [of "c # s'"])
      then show ?thesis using less [of "drop (length old) s"] Cons assms(1,2) by (simp add: contains_other_prefix)
    next
      case False
      then have r: "ReplaceAll s old new = c # ReplaceAll s' old new" using Cons assms(2) by (simp add: ReplaceAll.simps [of "c # s'"])
      then have "\<not> has_prefix (c # ReplaceAll s' old new) old"
        using ReplaceAll_prefix [OF assms(3,1), of s old] False by auto
      then show ?thesis using r less [of s'] Cons by simp
    qed
  qed
qed

text \<open>
  A failing plan does not leak the session token: the text of its error, as it is sent to the peer in
  the \<open>abort\<close> frame and returned to the caller, does not contain the token, for every token that shares no
  character with the replacement marker, such as every generated one.
\<close>

theorem plan_error_redacted:
  assumes "set (cf_Token (sv_cfg v)) \<inter> set redactedMarker = {}" and "cf_Token (sv_cfg v) \<noteq> ''''"
    and "se_fin (handlePlanDone v now (PlanFailed err) s) = Some spec"
  shows "\<not> contains (fs_farewellDetail spec) (cf_Token (sv_cfg v))
    \<and> fs_err spec = Some (ErrPlanFailed (fs_farewellDetail spec))"
proof -
  have "fs_farewellDetail spec = redactToken err (cf_Token (sv_cfg v))"
    "fs_err spec = Some (ErrPlanFailed (redactToken err (cf_Token (sv_cfg v))))"
    using assms(3) by (auto simp: handlePlanDone_def Let_def)
  then show ?thesis
    using ReplaceAll_removes [of redactedMarker "cf_Token (sv_cfg v)" err] assms(1,2)
    by (simp add: redactToken_def) (simp add: redactedMarker_def inf_commute)
qed

lemma overlapping_token_survives: "contains (redactToken ''error: REDACTED'' ''REDACTED'') ''REDACTED''"
  by code_simp

end
