(* ===== verification/ReportTransfer.thy ===== *)
theory ReportTransfer
  imports GoFmt
begin

section \<open>Report transfer: \<open>internal/reporting/transfer.go\<close>, \<open>transfer_send.go\<close>, \<open>transfer_recv.go\<close>\<close>

text \<open>
  PC1 streams its report files to PC2 in acknowledged, digest-checked chunks. The channel is a pair of
  frame lists: a function takes the frames that will arrive and returns the state with the frames it
  sent; when the list is exhausted a receive returns the error of a closed session. Every operation on
  the channel and on the file system can fail: the environment has an oracle that answers the n-th
  operation with an error text or lets it succeed, so a theorem without a hypothesis on the oracle holds
  for every pattern of failures. The digest function is a parameter: the code relies on no property of
  SHA-256 beyond its being a function. Errors keep the structure of the \<open>fmt.Errorf\<close> calls: one
  constructor per message, \<open>Wrap\<close> for \<open>%w\<close>.
\<close>

definition ChunkSize :: int where "ChunkSize = 262144"
definition MaxTransferFileSize :: int where "MaxTransferFileSize = 8388608"
definition MaxTransferTotal :: int where "MaxTransferTotal = 16777216"

definition allowedReportFiles :: "string list" where
  "allowedReportFiles = [''report.json'', ''report.md'', ''summary.txt'']"

record TransferFile =
  tf_Name :: string
  tf_Size :: int
  tf_SHA256 :: string

record Manifest =
  mf_Files :: "TransferFile list"
  mf_TotalSize :: int

record ChunkFrame =
  ck_Name :: string
  ck_Seq :: int
  ck_Offset :: int
  ck_Data :: bytes
  ck_Last :: bool

datatype xfer_error =
    IOFail string
  | Wrap string xfer_error
  | NotRegular string
  | FileOverCap string int
  | SetOverCap int
  | RejectedName string
  | DeclaredOverCap string int
  | ManifestOverCap int
  | FirstNotManifest
  | UnexpectedManifest
  | BadChunkName string string
  | ExpectedChunks string string
  | OffsetGap int
  | OversizeChunk string int int int
  | DigestMismatch
  | NotADirectory
  | ManifestDeclined
  | Rejected string xfer_error
  | Joined xfer_error xfer_error

record AckFrame =
  ak_Name :: string
  ak_OK :: bool
  ak_Declined :: bool
  ak_Error :: "xfer_error option"

text \<open>What travels from the sender to the receiver: \<open>isManifest\<close> is the constructor.\<close>

datatype xfer_frame = ManifestFrame Manifest | ChunkOf ChunkFrame

definition SafeReportName :: "string \<Rightarrow> bool" where
  "SafeReportName name =
     (if CHR ''/'' \<in> set name \<or> CHR 0x5C \<in> set name \<or> contains name ''..'' then False
      else list_ex (\<lambda>allowed. name = allowed) allowedReportFiles)"

definition manifest_step :: "TransferFile \<Rightarrow> xfer_error + int \<Rightarrow> xfer_error + int" where
  "manifest_step f acc =
     (case acc of
        Inl e \<Rightarrow> Inl e
      | Inr s \<Rightarrow>
          if \<not> SafeReportName (tf_Name f) then Inl (RejectedName (tf_Name f))
          else if tf_Size f < 0 \<or> tf_Size f > MaxTransferFileSize then Inl (DeclaredOverCap (tf_Name f) (tf_Size f))
          else Inr (iadd s (tf_Size f)))"

definition validateManifest :: "Manifest \<Rightarrow> xfer_error option" where
  "validateManifest m =
     (case fold manifest_step (mf_Files m) (Inr 0) of
        Inl e \<Rightarrow> Some e
      | Inr s \<Rightarrow> if s > MaxTransferTotal then Some (ManifestOverCap s) else None)"

text \<open>\<open>hex.EncodeToString\<close>.\<close>

definition hex_digit :: "u8 \<Rightarrow> char" where
  "hex_digit d = ''0123456789abcdef'' ! unat d"

definition EncodeToString :: "bytes \<Rightarrow> string" where
  "EncodeToString bs = concat (map (\<lambda>b. [hex_digit (b div 16), hex_digit (b mod 16)]) bs)"

subsection \<open>The environment of a transfer\<close>

datatype io_op =
    OpSendManifest | OpSendChunk | OpSendAck | OpContext
  | OpStat string | OpOpen string | OpRead string | OpWrite string
  | OpSync string | OpClose string | OpRename string | OpRemove string

datatype dir_state = Directory | NoDirectory | StatFails string

record xfer_env =
  xe_fault :: "nat \<Rightarrow> io_op \<Rightarrow> string option"
  xe_short :: "nat \<Rightarrow> nat"
  xe_sha :: "bytes \<Rightarrow> bytes"
  xe_closed :: string
  xe_dir :: dir_state

text \<open>The state of the receiving side: the files of its directory, and the acknowledgements sent.\<close>

record rx_world =
  rw_disk :: "string \<rightharpoonup> bytes"
  rw_acks :: "AckFrame list"
  rw_ops :: nat

definition attempt :: "xfer_env \<Rightarrow> io_op \<Rightarrow> rx_world \<Rightarrow> rx_world \<times> string option" where
  "attempt e op w = (w\<lparr>rw_ops := Suc (rw_ops w)\<rparr>, xe_fault e (rw_ops w) op)"

definition SendAck :: "xfer_env \<Rightarrow> AckFrame \<Rightarrow> rx_world \<Rightarrow> rx_world \<times> string option" where
  "SendAck e a w =
     (case attempt e OpSendAck w of
        (w', None) \<Rightarrow> (w'\<lparr>rw_acks := rw_acks w' @ [a]\<rparr>, None)
      | (w', Some s) \<Rightarrow> (w', Some s))"

definition decline :: "xfer_error \<Rightarrow> AckFrame" where
  "decline reason = \<lparr>ak_Name = '''', ak_OK = False, ak_Declined = True, ak_Error = Some reason\<rparr>"

definition ok_ack :: "string \<Rightarrow> AckFrame" where
  "ok_ack name = \<lparr>ak_Name = name, ak_OK = True, ak_Declined = False, ak_Error = None\<rparr>"

definition bad_ack :: "string \<Rightarrow> xfer_error \<Rightarrow> AckFrame" where
  "bad_ack name reason = \<lparr>ak_Name = name, ak_OK = False, ak_Declined = False, ak_Error = Some reason\<rparr>"

subsection \<open>The part writer\<close>

text \<open>
  The open part file is the disk entry \<open><name>.part\<close>; \<open>pw_hashed\<close> are the bytes fed to the running
  digest.
\<close>

record partWriter =
  pw_name :: string
  pw_hashed :: bytes
  pw_written :: int

definition part_path :: "string \<Rightarrow> string" where
  "part_path name = name @ ''.part''"

definition newPartWriter :: "xfer_env \<Rightarrow> string \<Rightarrow> rx_world \<Rightarrow> rx_world \<times> (string + partWriter)" where
  "newPartWriter e name w =
     (case attempt e (OpOpen (part_path name)) w of
        (w', Some s) \<Rightarrow> (w', Inl s)
      | (w', None) \<Rightarrow>
          (w'\<lparr>rw_disk := (rw_disk w')(part_path name \<mapsto> [])\<rparr>,
           Inr \<lparr>pw_name = name, pw_hashed = [], pw_written = 0\<rparr>))"

definition append_part :: "string \<Rightarrow> bytes \<Rightarrow> rx_world \<Rightarrow> rx_world" where
  "append_part name data w =
     w\<lparr>rw_disk := (rw_disk w)(part_path name := map_option (\<lambda>old. old @ data) (rw_disk w (part_path name)))\<rparr>"

text \<open>A failing \<open>Write\<close> may have stored a prefix of the data.\<close>

definition part_write :: "xfer_env \<Rightarrow> bytes \<Rightarrow> partWriter \<Rightarrow> rx_world \<Rightarrow> rx_world \<times> (string + partWriter)" where
  "part_write e data p w =
     (case attempt e (OpWrite (part_path (pw_name p))) w of
        (w', Some s) \<Rightarrow> (append_part (pw_name p) (take (xe_short e (rw_ops w)) data) w', Inl s)
      | (w', None) \<Rightarrow>
          (append_part (pw_name p) data w',
           Inr (p\<lparr>pw_hashed := pw_hashed p @ data, pw_written := iadd (pw_written p) (int (length data))\<rparr>)))"

definition part_digest :: "xfer_env \<Rightarrow> partWriter \<Rightarrow> bytes" where
  "part_digest e p = xe_sha e (pw_hashed p)"

definition part_commit :: "xfer_env \<Rightarrow> partWriter \<Rightarrow> rx_world \<Rightarrow> rx_world \<times> string option" where
  "part_commit e p w =
     (case attempt e (OpSync (part_path (pw_name p))) w of
        (w1, Some s) \<Rightarrow> (fst (attempt e (OpClose (part_path (pw_name p))) w1), Some s)
      | (w1, None) \<Rightarrow>
          (case attempt e (OpClose (part_path (pw_name p))) w1 of
             (w2, Some s) \<Rightarrow> (w2, Some s)
           | (w2, None) \<Rightarrow>
               (case attempt e (OpRename (part_path (pw_name p))) w2 of
                  (w3, Some s) \<Rightarrow> (w3, Some s)
                | (w3, None) \<Rightarrow>
                    (w3\<lparr>rw_disk := (rw_disk w3)(part_path (pw_name p) := None,
                          pw_name p := rw_disk w3 (part_path (pw_name p)))\<rparr>, None))))"

definition part_abort :: "xfer_env \<Rightarrow> partWriter \<Rightarrow> rx_world \<Rightarrow> rx_world" where
  "part_abort e p w =
     (case attempt e (OpRemove (part_path (pw_name p))) (fst (attempt e (OpClose (part_path (pw_name p))) w)) of
        (w', Some _) \<Rightarrow> w'
      | (w', None) \<Rightarrow> w'\<lparr>rw_disk := (rw_disk w')(part_path (pw_name p) := None)\<rparr>)"

subsection \<open>The receiver\<close>

definition maxFileRetries :: int where "maxFileRetries = 1"

text \<open>The variables of the loop of \<open>receiveOneFile\<close>.\<close>

record rx_loop =
  rl_w :: "partWriter option"
  rl_draining :: bool
  rl_rejections :: int

definition rx_start :: rx_loop where
  "rx_start = \<lparr>rl_w = None, rl_draining = False, rl_rejections = 0\<rparr>"

definition cleanup :: "xfer_env \<Rightarrow> rx_loop \<Rightarrow> rx_world \<Rightarrow> rx_loop \<times> rx_world" where
  "cleanup e l w =
     (case rl_w l of
        None \<Rightarrow> (l, w)
      | Some p \<Rightarrow> (l\<lparr>rl_w := None\<rparr>, part_abort e p w))"

definition declineOnLocalFailure :: "xfer_env \<Rightarrow> xfer_error \<Rightarrow> rx_world \<Rightarrow> rx_world \<times> xfer_error" where
  "declineOnLocalFailure e cause w =
     (case SendAck e (decline cause) w of
        (w', Some s) \<Rightarrow> (w', Joined cause (Wrap ''send local-failure decline'' (IOFail s)))
      | (w', None) \<Rightarrow> (w', cause))"

text \<open>One pass of the loop either continues with new variables or returns an error or nil.\<close>

datatype rx_outcome = Continue rx_loop | Return "xfer_error option"

definition reject :: "xfer_env \<Rightarrow> TransferFile \<Rightarrow> xfer_error \<Rightarrow> rx_loop \<Rightarrow> rx_world \<Rightarrow> rx_outcome \<times> rx_world" where
  "reject e f reason l w =
     (case cleanup e l w of
        (l1, w1) \<Rightarrow>
          let l2 = l1\<lparr>rl_draining := True, rl_rejections := rl_rejections l1 + 1\<rparr>
          in case SendAck e (bad_ack (tf_Name f) reason) w1 of
               (w2, Some s) \<Rightarrow> (Return (Some (Wrap ''send reject ack'' (IOFail s))), w2)
             | (w2, None) \<Rightarrow>
                 (if rl_rejections l2 > maxFileRetries then Return None else Continue l2, w2))"

definition fatal :: "xfer_env \<Rightarrow> string \<Rightarrow> xfer_error \<Rightarrow> xfer_error \<Rightarrow> rx_loop \<Rightarrow> rx_world \<Rightarrow> rx_outcome \<times> rx_world" where
  "fatal e label reason result l w =
     (case SendAck e (decline reason) (snd (cleanup e l w)) of
        (w', Some s) \<Rightarrow> (Return (Some (Wrap label (IOFail s))), w')
      | (w', None) \<Rightarrow> (Return (Some result), w'))"

definition local_failure :: "xfer_env \<Rightarrow> xfer_error \<Rightarrow> rx_world \<Rightarrow> rx_outcome \<times> rx_world" where
  "local_failure e cause w = (case declineOnLocalFailure e cause w of (w', err) \<Rightarrow> (Return (Some err), w'))"

text \<open>The last chunk of a file: verify digest and size, then commit.\<close>

definition finish_file :: "xfer_env \<Rightarrow> TransferFile \<Rightarrow> partWriter \<Rightarrow> rx_loop \<Rightarrow> rx_world \<Rightarrow> rx_outcome \<times> rx_world" where
  "finish_file e f p l w =
     (if pw_written p \<noteq> tf_Size f \<or> EncodeToString (part_digest e p) \<noteq> tf_SHA256 f
      then reject e f DigestMismatch l w
      else case part_commit e p w of
             (w1, Some s) \<Rightarrow>
               local_failure e (Wrap (''commit '' @ pw_name p) (IOFail s)) (snd (cleanup e l w1))
           | (w1, None) \<Rightarrow>
               (case SendAck e (ok_ack (tf_Name f)) w1 of
                  (w2, Some s) \<Rightarrow> (Return (Some (Wrap (''send ok ack for '' @ tf_Name f) (IOFail s))), w2)
                | (w2, None) \<Rightarrow> (Return None, w2)))"

text \<open>The chunk is for the expected file: the offset and size fences, the write, and the last chunk.\<close>

definition accept_chunk :: "xfer_env \<Rightarrow> TransferFile \<Rightarrow> ChunkFrame \<Rightarrow> rx_loop \<Rightarrow> rx_world \<Rightarrow> rx_outcome \<times> rx_world" where
  "accept_chunk e f c l w =
     (case rl_w l of
        None \<Rightarrow> reject e f (OffsetGap (ck_Offset c)) l w
      | Some p \<Rightarrow>
          if ck_Offset c \<noteq> pw_written p then reject e f (OffsetGap (ck_Offset c)) l w
          else if int (length (ck_Data c)) > ChunkSize \<or> iadd (pw_written p) (int (length (ck_Data c))) > tf_Size f
          then fatal e ''send oversize decline''
                 (OversizeChunk (tf_Name f) (pw_written p) (int (length (ck_Data c))) (tf_Size f))
                 (OversizeChunk (tf_Name f) (pw_written p) (int (length (ck_Data c))) (tf_Size f)) l w
          else case part_write e (ck_Data c) p w of
                 (w1, Inl s) \<Rightarrow>
                   local_failure e (Wrap (''write part for '' @ ck_Name c) (IOFail s)) (snd (cleanup e l w1))
               | (w1, Inr p') \<Rightarrow>
                   if \<not> ck_Last c then (Continue (l\<lparr>rl_w := Some p'\<rparr>), w1)
                   else finish_file e f p' (l\<lparr>rl_w := Some p'\<rparr>) w1)"

definition receive_chunk :: "xfer_env \<Rightarrow> TransferFile \<Rightarrow> ChunkFrame \<Rightarrow> rx_loop \<Rightarrow> rx_world \<Rightarrow> rx_outcome \<times> rx_world" where
  "receive_chunk e f c l w =
     (let restart = (ck_Seq c = 0 \<and> ck_Offset c = 0)
      in if rl_draining l \<and> \<not> restart then (Continue l, w)
         else if ck_Name c \<noteq> tf_Name f \<or> \<not> SafeReportName (ck_Name c)
         then fatal e ''send fatal decline'' (BadChunkName (ck_Name c) (tf_Name f)) (ExpectedChunks (tf_Name f) (ck_Name c)) l w
         else if restart
         then case cleanup e l w of
                (l1, w1) \<Rightarrow>
                  (case newPartWriter e (ck_Name c) w1 of
                     (w2, Inl s) \<Rightarrow> local_failure e (Wrap (''open part file for '' @ ck_Name c) (IOFail s)) w2
                   | (w2, Inr p) \<Rightarrow> accept_chunk e f c (l1\<lparr>rl_draining := False, rl_w := Some p\<rparr>) w2)
         else accept_chunk e f c l w)"

definition receive_frame :: "xfer_env \<Rightarrow> TransferFile \<Rightarrow> xfer_frame \<Rightarrow> rx_loop \<Rightarrow> rx_world \<Rightarrow> rx_outcome \<times> rx_world" where
  "receive_frame e f fr l w =
     (case fr of
        ManifestFrame _ \<Rightarrow> (Return (Some UnexpectedManifest), snd (cleanup e l w))
      | ChunkOf c \<Rightarrow> receive_chunk e f c l w)"

text \<open>The loop: the frames not consumed are returned too.\<close>

fun receiveOneFile :: "xfer_env \<Rightarrow> TransferFile \<Rightarrow> rx_loop \<Rightarrow> xfer_frame list \<Rightarrow> rx_world
    \<Rightarrow> xfer_error option \<times> rx_world \<times> xfer_frame list" where
  "receiveOneFile e f l [] w =
     (Some (Wrap ''receive chunk'' (IOFail (xe_closed e))), snd (cleanup e l w), [])"
| "receiveOneFile e f l (fr # frs) w =
     (case receive_frame e f fr l w of
        (Return r, w') \<Rightarrow> (r, w', frs)
      | (Continue l', w') \<Rightarrow> receiveOneFile e f l' frs w')"

fun receiveFiles :: "xfer_env \<Rightarrow> TransferFile list \<Rightarrow> xfer_frame list \<Rightarrow> rx_world
    \<Rightarrow> xfer_error option \<times> rx_world \<times> xfer_frame list" where
  "receiveFiles e [] frs w = (None, w, frs)"
| "receiveFiles e (f # fs) frs w =
     (case receiveOneFile e f rx_start frs w of
        (Some err, w', frs') \<Rightarrow> (Some err, w', frs')
      | (None, w', frs') \<Rightarrow> receiveFiles e fs frs' w')"

definition ensureWritableDir :: "xfer_env \<Rightarrow> xfer_error option" where
  "ensureWritableDir e =
     (case xe_dir e of
        StatFails s \<Rightarrow> Some (Wrap ''report directory'' (IOFail s))
      | NoDirectory \<Rightarrow> Some NotADirectory
      | Directory \<Rightarrow> None)"

definition send_decline :: "xfer_env \<Rightarrow> xfer_error \<Rightarrow> rx_world \<Rightarrow> xfer_error option \<times> rx_world" where
  "send_decline e reason w =
     (case SendAck e (decline reason) w of
        (w', Some s) \<Rightarrow> (Some (Wrap ''send manifest decline'' (IOFail s)), w')
      | (w', None) \<Rightarrow> (None, w'))"

definition ReceiveReports :: "xfer_env \<Rightarrow> xfer_frame list \<Rightarrow> rx_world \<Rightarrow> xfer_error option \<times> rx_world" where
  "ReceiveReports e frames w =
     (case frames of
        [] \<Rightarrow> (Some (Wrap ''receive manifest'' (IOFail (xe_closed e))), w)
      | ChunkOf _ # _ \<Rightarrow> (Some FirstNotManifest, w)
      | ManifestFrame m # frs \<Rightarrow>
          (case validateManifest m of
             Some verr \<Rightarrow> send_decline e verr w
           | None \<Rightarrow>
               (case ensureWritableDir e of
                  Some aerr \<Rightarrow> send_decline e aerr w
                | None \<Rightarrow> (case receiveFiles e (mf_Files m) frs w of (r, w', _) \<Rightarrow> (r, w')))))"

subsection \<open>The sender\<close>

text \<open>
  What \<open>os.Stat\<close> and \<open>os.Open\<close> find under a name of the sender's report directory; the directory
  does not change during the transfer. A file's size fits in \<open>int64\<close>.
\<close>

datatype dirent = Absent | Irregular | RegularFile bytes

record tx_world =
  tw_sent :: "xfer_frame list"
  tw_ops :: nat

definition tx_attempt :: "xfer_env \<Rightarrow> io_op \<Rightarrow> tx_world \<Rightarrow> tx_world \<times> string option" where
  "tx_attempt e op w = (w\<lparr>tw_ops := Suc (tw_ops w)\<rparr>, xe_fault e (tw_ops w) op)"

definition tx_send :: "xfer_env \<Rightarrow> io_op \<Rightarrow> xfer_frame \<Rightarrow> tx_world \<Rightarrow> tx_world \<times> string option" where
  "tx_send e op fr w =
     (case tx_attempt e op w of
        (w', None) \<Rightarrow> (w'\<lparr>tw_sent := tw_sent w' @ [fr]\<rparr>, None)
      | (w', Some s) \<Rightarrow> (w', Some s))"

definition fileDigest :: "xfer_env \<Rightarrow> string \<Rightarrow> bytes \<Rightarrow> tx_world \<Rightarrow> tx_world \<times> (xfer_error + string)" where
  "fileDigest e name data w =
     (case tx_attempt e (OpOpen name) w of
        (w1, Some s) \<Rightarrow> (w1, Inl (Wrap (''open '' @ name) (IOFail s)))
      | (w1, None) \<Rightarrow>
          (case tx_attempt e (OpRead name) w1 of
             (w2, Some s) \<Rightarrow> (w2, Inl (Wrap (''hash '' @ name) (IOFail s)))
           | (w2, None) \<Rightarrow> (w2, Inr (EncodeToString (xe_sha e data)))))"

text \<open>One pass of the loop of \<open>BuildManifest\<close> over an allowed name.\<close>

definition build_step :: "xfer_env \<Rightarrow> (string \<Rightarrow> dirent) \<Rightarrow> string
    \<Rightarrow> tx_world \<times> (xfer_error + Manifest) \<Rightarrow> tx_world \<times> (xfer_error + Manifest)" where
  "build_step e dir name acc =
     (case acc of
        (w, Inl err) \<Rightarrow> (w, Inl err)
      | (w, Inr m) \<Rightarrow>
          (case dir name of
             Absent \<Rightarrow> (w, Inr m)
           | ent \<Rightarrow>
               (case tx_attempt e (OpStat name) w of
                  (w1, Some s) \<Rightarrow> (w1, Inl (Wrap (''stat '' @ name) (IOFail s)))
                | (w1, None) \<Rightarrow>
                    (case ent of
                       RegularFile data \<Rightarrow>
                         if int (length data) > MaxTransferFileSize
                         then (w1, Inl (FileOverCap name (int (length data))))
                         else (case fileDigest e name data w1 of
                                 (w2, Inl err) \<Rightarrow> (w2, Inl err)
                               | (w2, Inr digest) \<Rightarrow>
                                   (w2, Inr \<lparr>mf_Files = mf_Files m
                                          @ [\<lparr>tf_Name = name, tf_Size = int (length data), tf_SHA256 = digest\<rparr>],
                                        mf_TotalSize = iadd (mf_TotalSize m) (int (length data))\<rparr>))
                     | _ \<Rightarrow> (w1, Inl (NotRegular name))))))"

definition BuildManifest :: "xfer_env \<Rightarrow> (string \<Rightarrow> dirent) \<Rightarrow> tx_world \<Rightarrow> tx_world \<times> (xfer_error + Manifest)" where
  "BuildManifest e dir w =
     (case fold (build_step e dir) allowedReportFiles (w, Inr \<lparr>mf_Files = [], mf_TotalSize = 0\<rparr>) of
        (w', Inl err) \<Rightarrow> (w', Inl err)
      | (w', Inr m) \<Rightarrow>
          if mf_TotalSize m > MaxTransferTotal then (w', Inl (SetOverCap (mf_TotalSize m))) else (w', Inr m))"

text \<open>
  The loop of \<open>streamFileChunks\<close> on the bytes not yet read: \<open>io.ReadFull\<close> fills the buffer, or meets
  the end of the file, which makes the chunk the last one.
\<close>

function stream_loop :: "xfer_env \<Rightarrow> string \<Rightarrow> int \<Rightarrow> int \<Rightarrow> bytes \<Rightarrow> tx_world \<Rightarrow> tx_world \<times> xfer_error option" where
  "stream_loop e name seq offset data w =
     (let buf = take (nat ChunkSize) data; lst = (int (length data) < ChunkSize)
      in case tx_attempt e (OpRead name) w of
           (w1, Some s) \<Rightarrow> (w1, Some (Wrap ''read'' (IOFail s)))
         | (w1, None) \<Rightarrow>
             (case tx_attempt e OpContext w1 of
                (w2, Some s) \<Rightarrow> (w2, Some (IOFail s))
              | (w2, None) \<Rightarrow>
                  (case tx_send e OpSendChunk (ChunkOf \<lparr>ck_Name = name, ck_Seq = seq, ck_Offset = offset,
                          ck_Data = buf, ck_Last = lst\<rparr>) w2 of
                     (w3, Some s) \<Rightarrow> (w3, Some (Wrap (''send chunk '' @ show_int seq) (IOFail s)))
                   | (w3, None) \<Rightarrow>
                       if lst then (w3, None)
                       else stream_loop e name (seq + 1) (offset + int (length buf)) (drop (nat ChunkSize) data) w3)))"
  by pat_completeness auto
termination
  by (relation "measure (\<lambda>(e, name, seq, offset, data, w). length data)") (auto simp: ChunkSize_def)

definition streamFileChunks :: "xfer_env \<Rightarrow> (string \<Rightarrow> dirent) \<Rightarrow> TransferFile \<Rightarrow> tx_world \<Rightarrow> tx_world \<times> xfer_error option" where
  "streamFileChunks e dir f w =
     (case tx_attempt e (OpOpen (tf_Name f)) w of
        (w1, Some s) \<Rightarrow> (w1, Some (Wrap ''open'' (IOFail s)))
      | (w1, None) \<Rightarrow>
          (case dir (tf_Name f) of
             RegularFile data \<Rightarrow> stream_loop e (tf_Name f) 0 0 data w1
           | _ \<Rightarrow> (w1, Some (Wrap ''open'' (NotRegular (tf_Name f))))))"

text \<open>
  The loop of \<open>sendOneFile\<close>: \<open>left\<close> counts the attempts that remain and the acknowledgements not
  consumed are returned too.
\<close>

fun send_attempts :: "xfer_env \<Rightarrow> (string \<Rightarrow> dirent) \<Rightarrow> TransferFile \<Rightarrow> nat \<Rightarrow> xfer_error option \<Rightarrow> AckFrame list \<Rightarrow> tx_world
    \<Rightarrow> xfer_error option \<times> tx_world \<times> AckFrame list" where
  "send_attempts e dir f 0 lastErr acks w = (lastErr, w, acks)"
| "send_attempts e dir f (Suc left) lastErr acks w =
     (case streamFileChunks e dir f w of
        (w1, Some err) \<Rightarrow> (Some (Wrap (''stream '' @ tf_Name f) err), w1, acks)
      | (w1, None) \<Rightarrow>
          (case acks of
             [] \<Rightarrow> (Some (Wrap (''await ack for '' @ tf_Name f) (IOFail (xe_closed e))), w1, [])
           | ack # acks' \<Rightarrow>
               if ak_Declined ack then (Some ManifestDeclined, w1, acks')
               else if ak_OK ack \<and> ak_Name ack = tf_Name f then (None, w1, acks')
               else send_attempts e dir f left
                      (Some (Rejected (tf_Name f) (case ak_Error ack of Some r \<Rightarrow> r | None \<Rightarrow> IOFail ''''))) acks' w1))"

definition sendOneFile :: "xfer_env \<Rightarrow> (string \<Rightarrow> dirent) \<Rightarrow> TransferFile \<Rightarrow> AckFrame list \<Rightarrow> tx_world
    \<Rightarrow> xfer_error option \<times> tx_world \<times> AckFrame list" where
  "sendOneFile e dir f acks w = send_attempts e dir f (nat (maxFileRetries + 1)) None acks w"

fun sendFiles :: "xfer_env \<Rightarrow> (string \<Rightarrow> dirent) \<Rightarrow> TransferFile list \<Rightarrow> AckFrame list \<Rightarrow> tx_world
    \<Rightarrow> xfer_error option \<times> tx_world \<times> AckFrame list" where
  "sendFiles e dir [] acks w = (None, w, acks)"
| "sendFiles e dir (f # fs) acks w =
     (case sendOneFile e dir f acks w of
        (Some err, w', acks') \<Rightarrow> (if err = ManifestDeclined then None else Some err, w', acks')
      | (None, w', acks') \<Rightarrow> sendFiles e dir fs acks' w')"

definition SendReports :: "xfer_env \<Rightarrow> (string \<Rightarrow> dirent) \<Rightarrow> AckFrame list \<Rightarrow> tx_world \<Rightarrow> xfer_error option \<times> tx_world" where
  "SendReports e dir acks w =
     (case BuildManifest e dir w of
        (w1, Inl err) \<Rightarrow> (Some (Wrap ''build report manifest'' err), w1)
      | (w1, Inr m) \<Rightarrow>
          (case tx_send e OpSendManifest (ManifestFrame m) w1 of
             (w2, Some s) \<Rightarrow> (Some (Wrap ''send report manifest'' (IOFail s)), w2)
           | (w2, None) \<Rightarrow> (case sendFiles e dir (mf_Files m) acks w2 of (r, w3, _) \<Rightarrow> (r, w3))))"

declare stream_loop.simps [simp del]

subsection \<open>Policies on the receiver's disk\<close>

text \<open>
  The receiver changes its disk in four ways: it opens or extends the part file of the file in
  progress, removes it, publishes it after verification, or fails to remove it. A policy is an invariant
  on the disk that these four changes keep; every policy then holds after a whole transfer, whatever
  frames arrive and whatever operations fail.
\<close>

definition verified :: "xfer_env \<Rightarrow> TransferFile \<Rightarrow> bytes \<Rightarrow> bool" where
  "verified e f data \<longleftrightarrow> int (length data) = tf_Size f \<and> EncodeToString (xe_sha e data) = tf_SHA256 f"

definition removable :: "xfer_env \<Rightarrow> bool" where
  "removable e \<longleftrightarrow> (\<forall>k p. xe_fault e k (OpRemove p) = None)"

definition open_ok :: "TransferFile \<Rightarrow> rx_loop \<Rightarrow> (string \<rightharpoonup> bytes) \<Rightarrow> bool" where
  "open_ok f l d \<longleftrightarrow>
     (case rl_w l of
        None \<Rightarrow> True
      | Some p \<Rightarrow> pw_name p = tf_Name f \<and> d (part_path (tf_Name f)) = Some (pw_hashed p)
          \<and> pw_written p = int (length (pw_hashed p)) \<and> pw_written p \<le> tf_Size f)"

definition in_progress :: "TransferFile \<Rightarrow> rx_loop \<Rightarrow> TransferFile option" where
  "in_progress f l = (case rl_w l of None \<Rightarrow> None | Some _ \<Rightarrow> Some f)"

lemma disk_simps [simp]:
  "rw_disk (fst (attempt e op w)) = rw_disk w"
  "rw_disk (fst (SendAck e a w)) = rw_disk w"
  "rw_disk (fst (declineOnLocalFailure e err w)) = rw_disk w"
  "rw_disk (snd (local_failure e err w)) = rw_disk w"
  "rw_disk (snd (send_decline e err w)) = rw_disk w"
  by (simp_all add: attempt_def SendAck_def declineOnLocalFailure_def local_failure_def send_decline_def
      split: prod.splits option.splits)

lemma outcome_simps [simp]: "\<exists>r. fst (local_failure e err w) = Return r" "\<exists>r. fst (fatal e s a b l w) = Return r"
  by (simp_all add: local_failure_def fatal_def split: prod.splits option.splits)

lemma part_abort_disk:
  "rw_disk (part_abort e p w) = (rw_disk w)(part_path (pw_name p) := None)
   \<or> \<not> removable e \<and> rw_disk (part_abort e p w) = rw_disk w"
  by (auto simp: part_abort_def attempt_def removable_def split: option.splits)

lemma part_commit_disk:
  "part_commit e p w = (w', s) \<Longrightarrow>
     rw_disk w' = (if s = None then (rw_disk w)(part_path (pw_name p) := None, pw_name p := rw_disk w (part_path (pw_name p)))
                   else rw_disk w)"
  by (auto simp: part_commit_def attempt_def split: option.splits)

locale disk_policy =
  fixes P :: "xfer_env \<Rightarrow> TransferFile list \<Rightarrow> (string \<rightharpoonup> bytes) \<Rightarrow> TransferFile option \<Rightarrow> (string \<rightharpoonup> bytes) \<Rightarrow> bool"
  assumes start: "P e fs d None d"
    and store: "f \<in> set fs \<Longrightarrow> P e fs d0 None d \<or> P e fs d0 (Some f) d \<Longrightarrow> int (length data) \<le> tf_Size f
      \<Longrightarrow> P e fs d0 (Some f) (d(part_path (tf_Name f) \<mapsto> data))"
    and remove: "f \<in> set fs \<Longrightarrow> P e fs d0 (Some f) d \<Longrightarrow> P e fs d0 None (d(part_path (tf_Name f) := None))"
    and stuck: "f \<in> set fs \<Longrightarrow> P e fs d0 (Some f) d \<Longrightarrow> \<not> removable e \<Longrightarrow> P e fs d0 None d"
    and publish: "f \<in> set fs \<Longrightarrow> P e fs d0 (Some f) d \<Longrightarrow> verified e f data
      \<Longrightarrow> P e fs d0 None (d(part_path (tf_Name f) := None, tf_Name f \<mapsto> data))"
begin

definition kept :: "xfer_env \<Rightarrow> TransferFile list \<Rightarrow> (string \<rightharpoonup> bytes) \<Rightarrow> TransferFile \<Rightarrow> rx_loop \<Rightarrow> (string \<rightharpoonup> bytes) \<Rightarrow> bool" where
  "kept e fs d0 f l d \<longleftrightarrow> open_ok f l d \<and> P e fs d0 (in_progress f l) d"

definition kept_out :: "xfer_env \<Rightarrow> TransferFile list \<Rightarrow> (string \<rightharpoonup> bytes) \<Rightarrow> TransferFile \<Rightarrow> rx_outcome \<times> rx_world \<Rightarrow> bool" where
  "kept_out e fs d0 f o_w =
     (case o_w of
        (Continue l, w) \<Rightarrow> kept e fs d0 f l (rw_disk w)
      | (Return r, w) \<Rightarrow> P e fs d0 None (rw_disk w))"

lemma cleanup_closes:
  assumes "f \<in> set fs" and "kept e fs d0 f l (rw_disk w)"
  shows "P e fs d0 None (rw_disk (snd (cleanup e l w)))" and "rl_w (fst (cleanup e l w)) = None"
proof -
  show "P e fs d0 None (rw_disk (snd (cleanup e l w)))"
  proof (cases "rl_w l")
    case None
    then show ?thesis using assms by (simp add: cleanup_def kept_def in_progress_def)
  next
    case (Some p)
    then show ?thesis
      using assms part_abort_disk [of e p w] remove [of f fs e d0] stuck [of f fs e d0]
      by (auto simp: cleanup_def kept_def open_ok_def in_progress_def)
  qed
  show "rl_w (fst (cleanup e l w)) = None"
    by (simp add: cleanup_def split: option.split)
qed

lemma returned: "\<exists>r. fst ow = Return r \<Longrightarrow> P e fs d0 None (rw_disk (snd ow)) \<Longrightarrow> kept_out e fs d0 f ow"
  by (auto simp: kept_out_def split: prod.splits)

lemma fatal_kept:
  "f \<in> set fs \<Longrightarrow> kept e fs d0 f l (rw_disk w) \<Longrightarrow> kept_out e fs d0 f (fatal e s a b l w)"
  using cleanup_closes(1) [of f fs e d0 l w]
  by (intro returned) (auto simp: fatal_def SendAck_def attempt_def split: option.splits)

lemma reject_kept:
  assumes "f \<in> set fs" and "kept e fs d0 f l (rw_disk w)"
  shows "kept_out e fs d0 f (reject e f reason l w)"
proof -
  obtain l1 w1 where c: "cleanup e l w = (l1, w1)" by fastforce
  then have "P e fs d0 None (rw_disk w1)" "rl_w l1 = None" using cleanup_closes [OF assms] by simp_all
  then show ?thesis
    by (auto simp: reject_def c Let_def SendAck_def attempt_def kept_out_def kept_def open_ok_def in_progress_def
        split: option.splits)
qed

lemma finish_kept:
  assumes f: "f \<in> set fs" and k: "kept e fs d0 f l (rw_disk w)" and p: "rl_w l = Some p"
  shows "kept_out e fs d0 f (finish_file e f p l w)"
proof (cases "pw_written p \<noteq> tf_Size f \<or> EncodeToString (part_digest e p) \<noteq> tf_SHA256 f")
  case True
  then show ?thesis using reject_kept [OF f k] by (simp add: finish_file_def)
next
  case False
  have pn: "pw_name p = tf_Name f" and dp: "rw_disk w (part_path (tf_Name f)) = Some (pw_hashed p)"
    and len: "pw_written p = int (length (pw_hashed p))" and P: "P e fs d0 (Some f) (rw_disk w)"
    using k p by (simp_all add: kept_def open_ok_def in_progress_def)
  have ver: "verified e f (pw_hashed p)" using False len by (simp add: verified_def part_digest_def)
  obtain w1 s where c: "part_commit e p w = (w1, s)" by fastforce
  show ?thesis
  proof (cases s)
    case None
    then have "rw_disk w1 = (rw_disk w)(part_path (tf_Name f) := None, tf_Name f \<mapsto> pw_hashed p)"
      using part_commit_disk [OF c] pn dp by simp
    with publish [OF f P ver] have "P e fs d0 None (rw_disk w1)" by simp
    then show ?thesis using False None
      by (auto simp: finish_file_def c SendAck_def attempt_def kept_out_def split: option.splits)
  next
    case (Some s')
    then have "kept e fs d0 f l (rw_disk w1)" using k part_commit_disk [OF c] by simp
    from cleanup_closes(1) [OF f this] show ?thesis using False Some
      by (auto simp: finish_file_def c intro: returned)
  qed
qed

lemma write_kept:
  assumes f: "f \<in> set fs" and k: "kept e fs d0 f l (rw_disk w)" and p: "rl_w l = Some p"
    and fits: "pw_written p + int (length data) \<le> tf_Size f" "tf_Size f \<le> MaxTransferFileSize"
    and wr: "part_write e data p w = (w1, r)"
  shows "case r of Inl s \<Rightarrow> P e fs d0 None (rw_disk (snd (cleanup e l w1)))
    | Inr p' \<Rightarrow> kept e fs d0 f (l\<lparr>rl_w := Some p'\<rparr>) (rw_disk w1) \<and> pw_name p' = tf_Name f"
proof -
  have pn: "pw_name p = tf_Name f" and dp: "rw_disk w (part_path (tf_Name f)) = Some (pw_hashed p)"
    and len: "pw_written p = int (length (pw_hashed p))" and P: "P e fs d0 (Some f) (rw_disk w)"
    using k p by (simp_all add: kept_def open_ok_def in_progress_def)
  have all: "P e fs d0 (Some f) ((rw_disk w)(part_path (tf_Name f) \<mapsto> pw_hashed p @ xs))"
    if "length xs \<le> length data" for xs
    using store [OF f, of e d0 "rw_disk w" "pw_hashed p @ xs"] P that len fits by simp
  have sum: "iadd (pw_written p) (int (length data)) = pw_written p + int (length data)"
    using fits len by (intro iadd_exact) (simp add: in_i64_def minInt_def maxInt_def MaxTransferFileSize_def)
  show ?thesis
  proof (cases r)
    case (Inl s)
    define xs where "xs = take (xe_short e (rw_ops w)) data"
    have "rw_disk w1 = (rw_disk w)(part_path (tf_Name f) \<mapsto> pw_hashed p @ xs)"
      using wr Inl pn dp by (auto simp: part_write_def attempt_def append_part_def xs_def split: option.splits)
    then have a: "P e fs d0 (Some f) (rw_disk w1)" using all [of xs] by (simp add: xs_def)
    then have "P e fs d0 None (rw_disk (part_abort e p w1))"
      using part_abort_disk [of e p w1] remove [OF f a] stuck [OF f a] pn by auto
    then show ?thesis using Inl p by (simp add: cleanup_def)
  next
    case (Inr p')
    then have "rw_disk w1 = (rw_disk w)(part_path (tf_Name f) \<mapsto> pw_hashed p @ data)"
      "p' = p\<lparr>pw_hashed := pw_hashed p @ data, pw_written := pw_written p + int (length data)\<rparr>"
      using wr pn dp sum by (auto simp: part_write_def attempt_def append_part_def split: option.splits)
    then show ?thesis using Inr all [of data] pn len fits
      by (simp add: kept_def open_ok_def in_progress_def)
  qed
qed

end

context disk_policy
begin

lemma accept_kept:
  assumes f: "f \<in> set fs" and k: "kept e fs d0 f l (rw_disk w)"
    and cap: "tf_Size f \<le> MaxTransferFileSize" and nm: "ck_Name c = tf_Name f"
  shows "kept_out e fs d0 f (accept_chunk e f c l w)"
proof (cases "rl_w l")
  case None
  then show ?thesis using reject_kept [OF f k] by (simp add: accept_chunk_def)
next
  case (Some p)
  let ?n = "int (length (ck_Data c))"
  have w: "pw_written p \<le> tf_Size f" "0 \<le> pw_written p" using k Some by (simp_all add: kept_def open_ok_def)
  show ?thesis
  proof (cases "ck_Offset c \<noteq> pw_written p \<or> ?n > ChunkSize \<or> iadd (pw_written p) ?n > tf_Size f")
    case True
    then show ?thesis using reject_kept [OF f k] fatal_kept [OF f k] Some by (auto simp: accept_chunk_def)
  next
    case False
    have "iadd (pw_written p) ?n = pw_written p + ?n"
      using False w cap by (intro iadd_exact) (auto simp: in_i64_def minInt_def maxInt_def MaxTransferFileSize_def ChunkSize_def)
    then have fits: "pw_written p + ?n \<le> tf_Size f" using False by simp
    obtain w1 r where wr: "part_write e (ck_Data c) p w = (w1, r)" by fastforce
    note kept' = write_kept [OF f k Some fits cap wr]
    show ?thesis
    proof (cases r)
      case (Inl s)
      then show ?thesis using False Some wr kept' by (auto simp: accept_chunk_def intro: returned)
    next
      case (Inr p')
      then have "kept e fs d0 f (l\<lparr>rl_w := Some p'\<rparr>) (rw_disk w1)" using kept' by simp
      then show ?thesis using False Some wr Inr finish_kept [OF f, of e d0 "l\<lparr>rl_w := Some p'\<rparr>" w1 p']
        by (auto simp: accept_chunk_def kept_out_def)
    qed
  qed
qed

lemma restart_kept:
  assumes f: "f \<in> set fs" and k: "kept e fs d0 f l (rw_disk w)" and size: "0 \<le> tf_Size f"
    and c: "cleanup e l w = (l1, w1)" and n: "newPartWriter e (tf_Name f) w1 = (w2, r)"
  shows "case r of Inl s \<Rightarrow> P e fs d0 None (rw_disk w2)
    | Inr p \<Rightarrow> kept e fs d0 f (l1\<lparr>rl_draining := False, rl_w := Some p\<rparr>) (rw_disk w2)"
proof -
  have P: "P e fs d0 None (rw_disk w1)" using cleanup_closes(1) [OF f k] c by simp
  from store [OF f disjI1 [OF P], of "[]"] size
  have "P e fs d0 (Some f) ((rw_disk w1)(part_path (tf_Name f) \<mapsto> []))" by simp
  with P n size show ?thesis
    by (auto simp: newPartWriter_def attempt_def kept_def open_ok_def in_progress_def split: option.splits)
qed

lemma chunk_kept:
  assumes f: "f \<in> set fs" and k: "kept e fs d0 f l (rw_disk w)"
    and size: "0 \<le> tf_Size f" "tf_Size f \<le> MaxTransferFileSize"
  shows "kept_out e fs d0 f (receive_chunk e f c l w)"
proof (cases "ck_Name c = tf_Name f \<and> SafeReportName (ck_Name c) \<and> \<not> (rl_draining l \<and> \<not> (ck_Seq c = 0 \<and> ck_Offset c = 0))")
  case False
  then show ?thesis using fatal_kept [OF f k] k by (auto simp: receive_chunk_def kept_out_def Let_def)
next
  case True
  show ?thesis
  proof (cases "ck_Seq c = 0 \<and> ck_Offset c = 0")
    case False
    then show ?thesis using True accept_kept [OF f k size(2)] by (auto simp: receive_chunk_def)
  next
    case restart: True
    obtain l1 w1 where c: "cleanup e l w = (l1, w1)" by fastforce
    obtain w2 r where n: "newPartWriter e (tf_Name f) w1 = (w2, r)" by fastforce
    note r = restart_kept [OF f k size(1) c n]
    show ?thesis
    proof (cases r)
      case (Inl s)
      then show ?thesis using True restart c n r by (auto simp: receive_chunk_def intro: returned)
    next
      case (Inr p)
      then show ?thesis using True restart c n r accept_kept [OF f _ size(2)] by (auto simp: receive_chunk_def)
    qed
  qed
qed

lemma frame_kept:
  assumes "f \<in> set fs" and "kept e fs d0 f l (rw_disk w)" and "0 \<le> tf_Size f" "tf_Size f \<le> MaxTransferFileSize"
  shows "kept_out e fs d0 f (receive_frame e f fr l w)"
  using chunk_kept [OF assms] cleanup_closes(1) [OF assms(1,2)]
  by (cases fr) (auto simp: receive_frame_def kept_out_def)

lemma file_kept:
  assumes "f \<in> set fs" and "0 \<le> tf_Size f" "tf_Size f \<le> MaxTransferFileSize"
  shows "kept e fs d0 f l (rw_disk w) \<Longrightarrow> P e fs d0 None (rw_disk (fst (snd (receiveOneFile e f l frs w))))"
proof (induction frs arbitrary: l w)
  case Nil
  then show ?case using cleanup_closes(1) [OF assms(1)] by simp
next
  case (Cons fr frs)
  from frame_kept [OF assms(1) Cons.prems assms(2,3), of fr] show ?case
    using Cons.IH by (auto simp: kept_out_def split: prod.split rx_outcome.split)
qed

lemma files_kept:
  assumes "\<forall>f\<in>set gs. 0 \<le> tf_Size f \<and> tf_Size f \<le> MaxTransferFileSize" and "set gs \<subseteq> set fs"
  shows "P e fs d0 None (rw_disk w) \<Longrightarrow> P e fs d0 None (rw_disk (fst (snd (receiveFiles e gs frs w))))"
  using assms
proof (induction gs arbitrary: frs w)
  case (Cons f gs)
  then have "P e fs d0 None (rw_disk (fst (snd (receiveOneFile e f rx_start frs w))))"
    by (intro file_kept) (simp_all add: kept_def open_ok_def in_progress_def rx_start_def)
  then show ?case using Cons by (auto split: prod.split option.split)
qed simp

end

lemma manifest_step_simps [simp]:
  "manifest_step f (Inl e) = Inl e"
  "SafeReportName (tf_Name f) \<Longrightarrow> 0 \<le> tf_Size f \<Longrightarrow> tf_Size f \<le> MaxTransferFileSize
     \<Longrightarrow> manifest_step f (Inr s) = Inr (iadd s (tf_Size f))"
  by (simp_all add: manifest_step_def)

lemma manifest_fold_error: "fold manifest_step fs (Inl e) = Inl e"
  by (induction fs) simp_all

lemma manifest_fold_names:
  "fold manifest_step fs (Inr s) = Inr t \<Longrightarrow>
     \<forall>f\<in>set fs. SafeReportName (tf_Name f) \<and> 0 \<le> tf_Size f \<and> tf_Size f \<le> MaxTransferFileSize"
proof (induction fs arbitrary: s)
  case (Cons f fs)
  then obtain s' where s': "manifest_step f (Inr s) = Inr s'"
    by (cases "manifest_step f (Inr s)") (simp_all add: manifest_fold_error)
  with Cons show ?case by (auto simp: manifest_step_def split: if_splits)
qed simp

lemma valid_manifest:
  "validateManifest m = None \<Longrightarrow>
     \<forall>f\<in>set (mf_Files m). SafeReportName (tf_Name f) \<and> 0 \<le> tf_Size f \<and> tf_Size f \<le> MaxTransferFileSize"
  using manifest_fold_names by (fastforce simp: validateManifest_def split: sum.splits)

text \<open>The files an opening frame offers, empty unless the manifest is accepted.\<close>

definition offered :: "xfer_frame list \<Rightarrow> TransferFile list" where
  "offered frames =
     (case frames of
        ManifestFrame m # _ \<Rightarrow> if validateManifest m = None then mf_Files m else []
      | _ \<Rightarrow> [])"

context disk_policy
begin

lemma transfer_kept: "P e (offered frames) (rw_disk w) None (rw_disk (snd (ReceiveReports e frames w)))"
proof (cases "\<exists>m frs. frames = ManifestFrame m # frs \<and> validateManifest m = None \<and> ensureWritableDir e = None")
  case True
  then obtain m frs where "frames = ManifestFrame m # frs" "validateManifest m = None" "ensureWritableDir e = None"
    by blast
  then show ?thesis
    using files_kept [of "mf_Files m" "mf_Files m" e "rw_disk w" w frs] start valid_manifest [of m]
    by (auto simp: ReceiveReports_def offered_def split: prod.split)
next
  case False
  then have "rw_disk (snd (ReceiveReports e frames w)) = rw_disk w"
    by (auto simp: ReceiveReports_def split: list.split xfer_frame.split option.split)
  then show ?thesis using start by simp
qed

end

subsection \<open>What a transfer can do to the receiver's directory\<close>

definition contents_ok :: "xfer_env \<Rightarrow> TransferFile list \<Rightarrow> (string \<rightharpoonup> bytes) \<Rightarrow> TransferFile option \<Rightarrow> (string \<rightharpoonup> bytes) \<Rightarrow> bool" where
  "contents_ok e fs d0 cur d \<longleftrightarrow>
     (\<forall>n. d n = d0 n \<or>
       (\<exists>f\<in>set fs. n = tf_Name f \<and> (\<exists>data. d n = Some data \<and> verified e f data)
          \<or> n = part_path (tf_Name f) \<and> (case d n of None \<Rightarrow> True | Some data \<Rightarrow> int (length data) \<le> tf_Size f)))"

interpretation contents: disk_policy contents_ok
proof
  fix e fs d
  show "contents_ok e fs d None d" by (simp add: contents_ok_def)
next
  fix f fs e d0 d and data :: bytes
  assume "f \<in> set fs" "contents_ok e fs d0 None d \<or> contents_ok e fs d0 (Some f) d" "int (length data) \<le> tf_Size f"
  then show "contents_ok e fs d0 (Some f) (d(part_path (tf_Name f) \<mapsto> data))"
    unfolding contents_ok_def by fastforce
next
  fix f fs e d0 d
  assume "f \<in> set fs" "contents_ok e fs d0 (Some f) d"
  then show "contents_ok e fs d0 None (d(part_path (tf_Name f) := None))"
    unfolding contents_ok_def by fastforce
next
  fix f fs e d0 d
  assume "contents_ok e fs d0 (Some f) d"
  then show "contents_ok e fs d0 None d" by (simp add: contents_ok_def)
next
  fix f fs e d0 d data
  assume "f \<in> set fs" "contents_ok e fs d0 (Some f) d" "verified e f data"
  then show "contents_ok e fs d0 None (d(part_path (tf_Name f) := None, tf_Name f \<mapsto> data))"
    unfolding contents_ok_def by fastforce
qed

lemma part_not_safe: "SafeReportName n \<Longrightarrow> part_path m \<noteq> n"
proof
  assume "SafeReportName n" "part_path m = n"
  then have "rev n \<in> {rev ''report.json'', rev ''report.md'', rev ''summary.txt''}" "rev n = rev ''.part'' @ rev m"
    by (auto simp: SafeReportName_def allowedReportFiles_def part_path_def split: if_splits)
  then show False by auto
qed

text \<open>When removing a file never fails, the part files other than the open one are gone or as they were.\<close>

definition leftovers_ok :: "xfer_env \<Rightarrow> TransferFile list \<Rightarrow> (string \<rightharpoonup> bytes) \<Rightarrow> TransferFile option \<Rightarrow> (string \<rightharpoonup> bytes) \<Rightarrow> bool" where
  "leftovers_ok e fs d0 cur d \<longleftrightarrow>
     (removable e \<and> (\<forall>f\<in>set fs. SafeReportName (tf_Name f)) \<longrightarrow>
       (\<forall>f\<in>set fs. (\<forall>g. cur = Some g \<longrightarrow> tf_Name g \<noteq> tf_Name f) \<longrightarrow>
          d (part_path (tf_Name f)) = None \<or> d (part_path (tf_Name f)) = d0 (part_path (tf_Name f))))"

lemma part_path_inj [simp]: "part_path a = part_path b \<longleftrightarrow> a = b"
  by (simp add: part_path_def)

lemma leftovers_okI:
  assumes "\<And>f. removable e \<Longrightarrow> \<forall>f\<in>set fs. SafeReportName (tf_Name f) \<Longrightarrow> f \<in> set fs
    \<Longrightarrow> \<forall>g. cur = Some g \<longrightarrow> tf_Name g \<noteq> tf_Name f
    \<Longrightarrow> d (part_path (tf_Name f)) = None \<or> d (part_path (tf_Name f)) = d0 (part_path (tf_Name f))"
  shows "leftovers_ok e fs d0 cur d"
  using assms unfolding leftovers_ok_def by blast

lemma leftovers_okD:
  assumes "leftovers_ok e fs d0 cur d" "removable e" "\<forall>f\<in>set fs. SafeReportName (tf_Name f)" "f \<in> set fs"
    and "\<forall>g. cur = Some g \<longrightarrow> tf_Name g \<noteq> tf_Name f"
  shows "d (part_path (tf_Name f)) = None \<or> d (part_path (tf_Name f)) = d0 (part_path (tf_Name f))"
  using assms unfolding leftovers_ok_def by blast

interpretation leftovers: disk_policy leftovers_ok
proof
  fix e fs d
  show "leftovers_ok e fs d None d" by (rule leftovers_okI) simp
next
  fix f fs e d0 d and data :: bytes
  assume a: "leftovers_ok e fs d0 None d \<or> leftovers_ok e fs d0 (Some f) d"
  show "leftovers_ok e fs d0 (Some f) (d(part_path (tf_Name f) \<mapsto> data))"
  proof (rule leftovers_okI)
    fix g
    assume g: "removable e" "\<forall>f\<in>set fs. SafeReportName (tf_Name f)" "g \<in> set fs" "\<forall>h. Some f = Some h \<longrightarrow> tf_Name h \<noteq> tf_Name g"
    then have "d (part_path (tf_Name g)) = None \<or> d (part_path (tf_Name g)) = d0 (part_path (tf_Name g))"
      using a leftovers_okD [of e fs d0 None d g] leftovers_okD [of e fs d0 "Some f" d g] by auto
    then show "(d(part_path (tf_Name f) \<mapsto> data)) (part_path (tf_Name g)) = None
      \<or> (d(part_path (tf_Name f) \<mapsto> data)) (part_path (tf_Name g)) = d0 (part_path (tf_Name g))" using g(4) by auto
  qed
next
  fix f fs e d0 d
  assume a: "leftovers_ok e fs d0 (Some f) d"
  show "leftovers_ok e fs d0 None (d(part_path (tf_Name f) := None))"
  proof (rule leftovers_okI)
    fix g
    assume "removable e" "\<forall>f\<in>set fs. SafeReportName (tf_Name f)" "g \<in> set fs"
    from leftovers_okD [OF a this] show "(d(part_path (tf_Name f) := None)) (part_path (tf_Name g)) = None
      \<or> (d(part_path (tf_Name f) := None)) (part_path (tf_Name g)) = d0 (part_path (tf_Name g))"
      by (cases "tf_Name f = tf_Name g") simp_all
  qed
next
  fix f fs e d0 d
  assume "\<not> removable e"
  then show "leftovers_ok e fs d0 None d" by (simp add: leftovers_ok_def)
next
  fix f fs e d0 d and data :: bytes
  assume a: "f \<in> set fs" "leftovers_ok e fs d0 (Some f) d"
  show "leftovers_ok e fs d0 None (d(part_path (tf_Name f) := None, tf_Name f \<mapsto> data))"
  proof (rule leftovers_okI)
    fix g
    assume g: "removable e" "\<forall>f\<in>set fs. SafeReportName (tf_Name f)" "g \<in> set fs"
    then have "part_path (tf_Name g) \<noteq> tf_Name f" using part_not_safe a(1) by blast
    then show "(d(part_path (tf_Name f) := None, tf_Name f \<mapsto> data)) (part_path (tf_Name g)) = None
      \<or> (d(part_path (tf_Name f) := None, tf_Name f \<mapsto> data)) (part_path (tf_Name g)) = d0 (part_path (tf_Name g))"
      using leftovers_okD [OF a(2) g] by (cases "tf_Name f = tf_Name g") simp_all
  qed
qed

lemma offered_safe:
  "f \<in> set (offered frames) \<Longrightarrow> SafeReportName (tf_Name f) \<and> 0 \<le> tf_Size f \<and> tf_Size f \<le> MaxTransferFileSize"
  using valid_manifest by (auto simp: offered_def split: list.splits xfer_frame.splits if_splits)

lemma safe_allowed: "SafeReportName n \<longleftrightarrow> n \<in> set allowedReportFiles"
  by (auto simp: SafeReportName_def list_ex_iff allowedReportFiles_def has_prefix_def split: if_splits)

text \<open>
  C32. A sender cannot make the receiver write anything but the report. Whatever frames arrive and whatever
  operations fail, a file of the receiver's directory is changed by a transfer only if it bears one of the
  allowed names of an accepted manifest and then holds exactly the declared number of bytes with the
  declared digest, or if it is the part file of such a name, which is never longer than the declared size,
  itself at most the per-file cap.
\<close>

theorem receiver_confined:
  "let d = rw_disk w; d' = rw_disk (snd (ReceiveReports e frames w))
   in \<forall>n. d' n = d n \<or>
        (\<exists>f\<in>set (offered frames). tf_Name f \<in> set allowedReportFiles \<and> tf_Size f \<le> MaxTransferFileSize
           \<and> (n = tf_Name f \<and> (\<exists>data. d' n = Some data \<and> verified e f data)
              \<or> n = part_path (tf_Name f)
                \<and> (case d' n of None \<Rightarrow> True | Some data \<Rightarrow> int (length data) \<le> tf_Size f)))"
proof -
  have "\<forall>f\<in>set (offered frames). tf_Name f \<in> set allowedReportFiles \<and> tf_Size f \<le> MaxTransferFileSize"
    using offered_safe safe_allowed by blast
  then show ?thesis
    using contents.transfer_kept [of e frames w] unfolding contents_ok_def Let_def by blast
qed

text \<open>
  The receiver keeps nothing partial: when removals succeed, no part file of an offered name is left
  behind by the transfer, however it ends.
\<close>

theorem nothing_partial_kept:
  assumes "removable e" and "f \<in> set (offered frames)"
  shows "rw_disk (snd (ReceiveReports e frames w)) (part_path (tf_Name f)) = None
    \<or> rw_disk (snd (ReceiveReports e frames w)) (part_path (tf_Name f)) = rw_disk w (part_path (tf_Name f))"
proof -
  have "\<forall>f\<in>set (offered frames). SafeReportName (tf_Name f)" using offered_safe by blast
  then show ?thesis
    using leftovers.transfer_kept [of e frames w] assms unfolding leftovers_ok_def by blast
qed

subsection \<open>A transfer between two correct peers\<close>

text \<open>The chunks of a file: the reference for the streaming loop.\<close>

function chunks :: "string \<Rightarrow> int \<Rightarrow> int \<Rightarrow> bytes \<Rightarrow> ChunkFrame list" where
  "chunks name seq offset data =
     \<lparr>ck_Name = name, ck_Seq = seq, ck_Offset = offset, ck_Data = take (nat ChunkSize) data,
      ck_Last = (int (length data) < ChunkSize)\<rparr>
     # (if int (length data) < ChunkSize then []
        else chunks name (seq + 1) (offset + ChunkSize) (drop (nat ChunkSize) data))"
  by pat_completeness auto
termination
  by (relation "measure (\<lambda>(name, seq, offset, data). length data)") (auto simp: ChunkSize_def)

declare chunks.simps [simp del]

definition faultless :: "xfer_env \<Rightarrow> bool" where
  "faultless e \<longleftrightarrow> (\<forall>k op. xe_fault e k op = None) \<and> xe_dir e = Directory"

lemma tx_faultless [simp]:
  "faultless e \<Longrightarrow> tx_attempt e op tw = (tw\<lparr>tw_ops := Suc (tw_ops tw)\<rparr>, None)"
  "faultless e \<Longrightarrow> tx_send e op fr tw = (tw\<lparr>tw_ops := Suc (tw_ops tw), tw_sent := tw_sent tw @ [fr]\<rparr>, None)"
  by (simp_all add: faultless_def tx_attempt_def tx_send_def)

lemma stream_loop_chunks:
  "faultless e \<Longrightarrow>
     snd (stream_loop e name seq offset data tw) = None
     \<and> tw_sent (fst (stream_loop e name seq offset data tw)) = tw_sent tw @ map ChunkOf (chunks name seq offset data)"
proof (induction name seq offset data arbitrary: tw rule: chunks.induct)
  case (1 name seq offset data)
  show ?case
  proof (cases "int (length data) < ChunkSize")
    case True
    with 1 show ?thesis by (subst (1 2) stream_loop.simps, subst chunks.simps) (simp add: Let_def)
  next
    case False
    then have n: "int (length (take (nat ChunkSize) data)) = ChunkSize" by (simp add: ChunkSize_def)
    from False 1 n show ?thesis
      by (subst (1 2) stream_loop.simps, subst chunks.simps) (simp add: Let_def)
  qed
qed

definition file_of :: "xfer_env \<Rightarrow> string \<Rightarrow> bytes \<Rightarrow> TransferFile" where
  "file_of e name data =
     \<lparr>tf_Name = name, tf_Size = int (length data), tf_SHA256 = EncodeToString (xe_sha e data)\<rparr>"

lemma sendOneFile_ok:
  assumes "faultless e" and "dir name = RegularFile data"
  shows "\<exists>tw'. sendOneFile e dir (file_of e name data) (ok_ack name # acks) tw = (None, tw', acks)
    \<and> tw_sent tw' = tw_sent tw @ map ChunkOf (chunks name 0 0 data)"
proof -
  obtain tw' where "streamFileChunks e dir (file_of e name data) tw = (tw', None)"
    "tw_sent tw' = tw_sent tw @ map ChunkOf (chunks name 0 0 data)"
    using stream_loop_chunks [of e name 0 0 data "tw\<lparr>tw_ops := Suc (tw_ops tw)\<rparr>"] assms
    by (cases "stream_loop e name 0 0 data (tw\<lparr>tw_ops := Suc (tw_ops tw)\<rparr>)")
      (simp add: streamFileChunks_def file_of_def)
  then show ?thesis
    by (simp add: sendOneFile_def maxFileRetries_def numeral_2_eq_2 ok_ack_def file_of_def)
qed

lemma sendFiles_ok:
  assumes "faultless e"
  shows "\<forall>(name, data)\<in>set xs. dir name = RegularFile data \<Longrightarrow>
    \<exists>tw'. sendFiles e dir (map (\<lambda>(name, data). file_of e name data) xs) (map (\<lambda>x. ok_ack (fst x)) xs) tw = (None, tw', [])
      \<and> tw_sent tw' = tw_sent tw @ concat (map (\<lambda>(name, data). map ChunkOf (chunks name 0 0 data)) xs)"
proof (induction xs arbitrary: tw)
  case (Cons x xs)
  obtain name data where x: "x = (name, data)" by fastforce
  with Cons.prems have "dir name = RegularFile data" by simp
  from sendOneFile_ok [OF assms, of dir name data] this obtain tw1 where
    s: "sendOneFile e dir (file_of e name data) (ok_ack name # map (\<lambda>x. ok_ack (fst x)) xs) tw = (None, tw1, map (\<lambda>x. ok_ack (fst x)) xs)"
    "tw_sent tw1 = tw_sent tw @ map ChunkOf (chunks name 0 0 data)" by blast
  from Cons.IH [of tw1] Cons.prems obtain tw' where
    "sendFiles e dir (map (\<lambda>(name, data). file_of e name data) xs) (map (\<lambda>x. ok_ack (fst x)) xs) tw1 = (None, tw', [])"
    "tw_sent tw' = tw_sent tw1 @ concat (map (\<lambda>(name, data). map ChunkOf (chunks name 0 0 data)) xs)" by auto
  with s x show ?case by auto
qed simp

text \<open>The receiving side when nothing fails: each chunk extends the part file, the last one publishes it.\<close>

lemma rx_faultless [simp]:
  "faultless e \<Longrightarrow> attempt e op w = (w\<lparr>rw_ops := Suc (rw_ops w)\<rparr>, None)"
  "faultless e \<Longrightarrow> SendAck e a w = (w\<lparr>rw_ops := Suc (rw_ops w), rw_acks := rw_acks w @ [a]\<rparr>, None)"
  by (simp_all add: faultless_def attempt_def SendAck_def)

lemma accept_more:
  assumes "faultless e" and "rl_w l = Some p" and "pw_name p = tf_Name f" and "ck_Offset c = pw_written p"
    and "rw_disk w (part_path (tf_Name f)) = Some (pw_hashed p)"
    and "int (length (ck_Data c)) \<le> ChunkSize" and "\<not> ck_Last c"
    and "0 \<le> pw_written p" "pw_written p + int (length (ck_Data c)) \<le> tf_Size f" "tf_Size f \<le> MaxTransferFileSize"
  shows "\<exists>w'. accept_chunk e f c l w
      = (Continue (l\<lparr>rl_w := Some (p\<lparr>pw_hashed := pw_hashed p @ ck_Data c,
           pw_written := pw_written p + int (length (ck_Data c))\<rparr>)\<rparr>), w')
    \<and> rw_disk w' = (rw_disk w)(part_path (tf_Name f) \<mapsto> pw_hashed p @ ck_Data c) \<and> rw_acks w' = rw_acks w"
proof -
  have "iadd (pw_written p) (int (length (ck_Data c))) = pw_written p + int (length (ck_Data c))"
    using assms by (intro iadd_exact) (simp add: in_i64_def minInt_def maxInt_def MaxTransferFileSize_def)
  then show ?thesis using assms by (simp add: accept_chunk_def part_write_def append_part_def)
qed

lemma accept_last:
  assumes "faultless e" and "rl_w l = Some p" and "pw_name p = tf_Name f" and "ck_Offset c = pw_written p"
    and "rw_disk w (part_path (tf_Name f)) = Some (pw_hashed p)"
    and "int (length (ck_Data c)) \<le> ChunkSize" and "ck_Last c" and "tf_Size f \<le> MaxTransferFileSize"
    and "pw_written p = int (length (pw_hashed p))" and "verified e f (pw_hashed p @ ck_Data c)"
  shows "\<exists>w'. accept_chunk e f c l w = (Return None, w')
    \<and> rw_disk w' = (rw_disk w)(part_path (tf_Name f) := None, tf_Name f \<mapsto> pw_hashed p @ ck_Data c)
    \<and> rw_acks w' = rw_acks w @ [ok_ack (tf_Name f)]"
proof -
  have "iadd (pw_written p) (int (length (ck_Data c))) = tf_Size f"
    using assms by (subst iadd_exact) (simp_all add: verified_def in_i64_def minInt_def maxInt_def MaxTransferFileSize_def)
  then show ?thesis
    using assms by (simp add: accept_chunk_def part_write_def append_part_def finish_file_def part_digest_def verified_def
        part_commit_def fun_upd_twist)
qed

lemma receive_rest:
  assumes "faultless e" and "SafeReportName (tf_Name f)" and "tf_Size f \<le> MaxTransferFileSize"
  shows "0 < seq \<Longrightarrow> rl_w l = Some p \<Longrightarrow> pw_name p = tf_Name f \<Longrightarrow> \<not> rl_draining l
    \<Longrightarrow> pw_written p = offset \<Longrightarrow> offset = int (length (pw_hashed p))
    \<Longrightarrow> rw_disk w (part_path (tf_Name f)) = Some (pw_hashed p) \<Longrightarrow> verified e f (pw_hashed p @ data)
    \<Longrightarrow> \<exists>w'. receiveOneFile e f l (map ChunkOf (chunks (tf_Name f) seq offset data) @ frs) w = (None, w', frs)
      \<and> rw_disk w' = (rw_disk w)(part_path (tf_Name f) := None, tf_Name f \<mapsto> pw_hashed p @ data)
      \<and> rw_acks w' = rw_acks w @ [ok_ack (tf_Name f)]"
proof (induction "tf_Name f" seq offset data arbitrary: l p w rule: chunks.induct)
  case (1 seq offset data)
  define c where "c = \<lparr>ck_Name = tf_Name f, ck_Seq = seq, ck_Offset = offset, ck_Data = take (nat ChunkSize) data,
      ck_Last = (int (length data) < ChunkSize)\<rparr>"
  have step: "receive_frame e f (ChunkOf c) l w = accept_chunk e f c l w"
    using 1 assms by (simp add: receive_frame_def receive_chunk_def c_def)
  have buf: "int (length (ck_Data c)) \<le> ChunkSize" by (simp add: c_def ChunkSize_def)
  have ch: "chunks (tf_Name f) seq offset data
    = c # (if int (length data) < ChunkSize then [] else chunks (tf_Name f) (seq + 1) (offset + ChunkSize) (drop (nat ChunkSize) data))"
    by (subst chunks.simps) (simp add: c_def)
  show ?case
  proof (cases "int (length data) < ChunkSize")
    case True
    then have "ck_Data c = data" "ck_Last c" by (simp_all add: c_def)
    moreover obtain w' where "accept_chunk e f c l w = (Return None, w')"
      "rw_disk w' = (rw_disk w)(part_path (tf_Name f) := None, tf_Name f \<mapsto> pw_hashed p @ ck_Data c)"
      "rw_acks w' = rw_acks w @ [ok_ack (tf_Name f)]"
      using accept_last [OF assms(1) 1(3,4), of c w] 1 assms buf calculation by (auto simp: c_def)
    ultimately show ?thesis using True ch step by simp
  next
    case False
    let ?p = "p\<lparr>pw_hashed := pw_hashed p @ ck_Data c, pw_written := pw_written p + int (length (ck_Data c))\<rparr>"
    have n: "int (length (ck_Data c)) = ChunkSize" using False by (simp add: c_def ChunkSize_def)
    have "pw_written p + int (length (ck_Data c)) \<le> tf_Size f"
      using 1 n False by (simp add: verified_def c_def)
    then obtain w1 where a: "accept_chunk e f c l w = (Continue (l\<lparr>rl_w := Some ?p\<rparr>), w1)"
      "rw_disk w1 = (rw_disk w)(part_path (tf_Name f) \<mapsto> pw_hashed p @ ck_Data c)" "rw_acks w1 = rw_acks w"
      using accept_more [OF assms(1) 1(3,4), of c w] 1 assms buf False by (auto simp: c_def)
    have "\<exists>w'. receiveOneFile e f (l\<lparr>rl_w := Some ?p\<rparr>)
        (map ChunkOf (chunks (tf_Name f) (seq + 1) (offset + ChunkSize) (drop (nat ChunkSize) data)) @ frs) w1 = (None, w', frs)
      \<and> rw_disk w' = (rw_disk w1)(part_path (tf_Name f) := None, tf_Name f \<mapsto> pw_hashed ?p @ drop (nat ChunkSize) data)
      \<and> rw_acks w' = rw_acks w1 @ [ok_ack (tf_Name f)]"
      by (rule 1(1)) (use 1 False n a in \<open>simp_all add: c_def\<close>)
    then show ?thesis using False ch step a by (auto simp: c_def)
  qed
qed

lemma receiveOneFile_ok:
  assumes fl: "faultless e" and safe: "SafeReportName name" and cap: "int (length data) \<le> MaxTransferFileSize"
  shows "\<exists>w'. receiveOneFile e (file_of e name data) rx_start (map ChunkOf (chunks name 0 0 data) @ frs) w = (None, w', frs)
    \<and> rw_disk w' = (rw_disk w)(part_path name := None, name \<mapsto> data) \<and> rw_acks w' = rw_acks w @ [ok_ack name]"
proof -
  let ?f = "file_of e name data"
  define c where "c = \<lparr>ck_Name = name, ck_Seq = 0, ck_Offset = 0, ck_Data = take (nat ChunkSize) data,
      ck_Last = (int (length data) < ChunkSize)\<rparr>"
  define p where "p = \<lparr>pw_name = name, pw_hashed = [], pw_written = 0\<rparr>"
  define l where "l = rx_start\<lparr>rl_draining := False, rl_w := Some p\<rparr>"
  define w0 where "w0 = w\<lparr>rw_ops := Suc (rw_ops w), rw_disk := (rw_disk w)(part_path name \<mapsto> [])\<rparr>"
  have step: "receive_frame e ?f (ChunkOf c) rx_start w = accept_chunk e ?f c l w0"
    using fl safe by (simp add: receive_frame_def receive_chunk_def c_def file_of_def cleanup_def rx_start_def
        newPartWriter_def l_def p_def w0_def)
  have ch: "chunks name 0 0 data
    = c # (if int (length data) < ChunkSize then [] else chunks name 1 ChunkSize (drop (nat ChunkSize) data))"
    by (subst chunks.simps) (simp add: c_def)
  have buf: "int (length (ck_Data c)) \<le> ChunkSize" by (simp add: c_def ChunkSize_def)
  have ver: "verified e ?f data" by (simp add: verified_def file_of_def)
  have lw: "rl_w l = Some p" and pn: "pw_name p = tf_Name ?f" by (simp_all add: l_def p_def file_of_def)
  show ?thesis
  proof (cases "int (length data) < ChunkSize")
    case True
    then have "ck_Data c = data" "ck_Last c" by (simp_all add: c_def)
    moreover obtain w' where "accept_chunk e ?f c l w0 = (Return None, w')"
      "rw_disk w' = (rw_disk w0)(part_path name := None, name \<mapsto> data)" "rw_acks w' = rw_acks w0 @ [ok_ack name]"
      using accept_last [OF fl lw pn, of c w0] buf cap calculation ver
      by (auto simp: c_def p_def w0_def file_of_def)
    ultimately show ?thesis using True ch step by (simp add: w0_def)
  next
    case False
    let ?p = "p\<lparr>pw_hashed := ck_Data c, pw_written := ChunkSize\<rparr>"
    have n: "int (length (ck_Data c)) = ChunkSize" using False by (simp add: c_def ChunkSize_def)
    obtain w1 where a: "accept_chunk e ?f c l w0 = (Continue (l\<lparr>rl_w := Some ?p\<rparr>), w1)"
      "rw_disk w1 = (rw_disk w0)(part_path name \<mapsto> ck_Data c)" "rw_acks w1 = rw_acks w0"
      using accept_more [OF fl lw pn, of c w0] buf cap False n by (auto simp: c_def p_def w0_def file_of_def)
    have "\<exists>w'. receiveOneFile e ?f (l\<lparr>rl_w := Some ?p\<rparr>)
        (map ChunkOf (chunks (tf_Name ?f) 1 ChunkSize (drop (nat ChunkSize) data)) @ frs) w1 = (None, w', frs)
      \<and> rw_disk w' = (rw_disk w1)(part_path (tf_Name ?f) := None, tf_Name ?f \<mapsto> pw_hashed ?p @ drop (nat ChunkSize) data)
      \<and> rw_acks w' = rw_acks w1 @ [ok_ack (tf_Name ?f)]"
      by (rule receive_rest) (use fl safe cap ver a n in \<open>simp_all add: file_of_def p_def l_def c_def rx_start_def\<close>)
    then show ?thesis using False ch step a by (auto simp: c_def w0_def file_of_def)
  qed
qed

text \<open>The directory after the files of an association list were published in order.\<close>

fun published :: "(string \<times> bytes) list \<Rightarrow> (string \<rightharpoonup> bytes) \<Rightarrow> (string \<rightharpoonup> bytes)" where
  "published [] d = d"
| "published ((name, data) # xs) d = published xs (d(part_path name := None, name \<mapsto> data))"

lemma receiveFiles_ok:
  assumes "faultless e"
  shows "\<forall>(name, data)\<in>set xs. SafeReportName name \<and> int (length data) \<le> MaxTransferFileSize \<Longrightarrow>
    \<exists>w'. receiveFiles e (map (\<lambda>(name, data). file_of e name data) xs)
        (concat (map (\<lambda>(name, data). map ChunkOf (chunks name 0 0 data)) xs)) w = (None, w', [])
      \<and> rw_disk w' = published xs (rw_disk w) \<and> rw_acks w' = rw_acks w @ map (\<lambda>x. ok_ack (fst x)) xs"
proof (induction xs arbitrary: w)
  case (Cons x xs)
  obtain name data where x: "x = (name, data)" by fastforce
  let ?rest = "concat (map (\<lambda>(name, data). map ChunkOf (chunks name 0 0 data)) xs)"
  obtain w1 where r: "receiveOneFile e (file_of e name data) rx_start (map ChunkOf (chunks name 0 0 data) @ ?rest) w = (None, w1, ?rest)"
    "rw_disk w1 = (rw_disk w)(part_path name := None, name \<mapsto> data)" "rw_acks w1 = rw_acks w @ [ok_ack name]"
    using receiveOneFile_ok [OF assms, of name data ?rest w] Cons.prems x by auto
  have "\<forall>(name, data)\<in>set xs. SafeReportName name \<and> int (length data) \<le> MaxTransferFileSize" using Cons.prems by simp
  from Cons.IH [OF this, of w1] obtain w' where
    "receiveFiles e (map (\<lambda>(name, data). file_of e name data) xs) ?rest w1 = (None, w', [])"
    "rw_disk w' = published xs (rw_disk w1)" "rw_acks w' = rw_acks w1 @ map (\<lambda>x. ok_ack (fst x)) xs" by blast
  with r x show ?case by simp
qed simp

text \<open>The report files of the sender's directory, in the canonical order.\<close>

definition entry :: "(string \<Rightarrow> dirent) \<Rightarrow> string \<Rightarrow> (string \<times> bytes) option" where
  "entry dir name = (case dir name of RegularFile data \<Rightarrow> Some (name, data) | _ \<Rightarrow> None)"

definition report_files :: "(string \<Rightarrow> dirent) \<Rightarrow> (string \<times> bytes) list" where
  "report_files dir = List.map_filter (entry dir) allowedReportFiles"

lemma build_fold_error: "fold (build_step e dir) names (tw, Inl err) = (tw, Inl err)"
  by (induction names) (simp_all add: build_step_def)

lemma build_step_ok:
  assumes "faultless e" and "build_step e dir name (tw, Inr m) = (tw', Inr m')"
  shows "tw_sent tw' = tw_sent tw
    \<and> (case entry dir name of
         None \<Rightarrow> m' = m
       | Some (n, data) \<Rightarrow> n = name \<and> int (length data) \<le> MaxTransferFileSize
           \<and> m' = \<lparr>mf_Files = mf_Files m @ [file_of e name data], mf_TotalSize = iadd (mf_TotalSize m) (int (length data))\<rparr>)"
  using assms by (auto simp: build_step_def entry_def fileDigest_def file_of_def split: dirent.splits if_splits)

lemma build_fold:
  assumes "faultless e"
  shows "fold (build_step e dir) names (tw, Inr m) = (tw', Inr m') \<Longrightarrow>
    tw_sent tw' = tw_sent tw
    \<and> mf_Files m' = mf_Files m @ map (\<lambda>(n, d). file_of e n d) (List.map_filter (entry dir) names)
    \<and> mf_TotalSize m' = fold (\<lambda>f s. iadd s (tf_Size f)) (map (\<lambda>(n, d). file_of e n d) (List.map_filter (entry dir) names)) (mf_TotalSize m)
    \<and> (\<forall>(n, d)\<in>set (List.map_filter (entry dir) names). int (length d) \<le> MaxTransferFileSize)"
proof (induction names arbitrary: tw m)
  case (Cons name names)
  obtain tw1 r where s: "build_step e dir name (tw, Inr m) = (tw1, r)" by fastforce
  with Cons.prems obtain m1 where r: "r = Inr m1" by (cases r) (simp_all add: build_fold_error)
  from build_step_ok [OF assms s [unfolded r]] Cons.IH [of tw1 m1] Cons.prems s r show ?case
    by (cases "entry dir name") (auto simp: map_filter_simps file_of_def)
qed (simp add: map_filter_simps)

lemma manifest_fold_ok:
  "\<forall>f\<in>set fs. SafeReportName (tf_Name f) \<and> 0 \<le> tf_Size f \<and> tf_Size f \<le> MaxTransferFileSize
   \<Longrightarrow> fold manifest_step fs (Inr s) = Inr (fold (\<lambda>f s. iadd s (tf_Size f)) fs s)"
  by (induction fs arbitrary: s) simp_all

lemma report_files_names: "(n, d) \<in> set (report_files dir) \<longleftrightarrow> n \<in> set allowedReportFiles \<and> dir n = RegularFile d"
  by (force simp: report_files_def List.map_filter_def entry_def split: dirent.splits)

lemma BuildManifest_ok:
  assumes "faultless e" and "BuildManifest e dir tw = (tw', Inr m)"
  shows "tw_sent tw' = tw_sent tw" and "mf_Files m = map (\<lambda>(n, d). file_of e n d) (report_files dir)"
    and "validateManifest m = None"
    and "\<forall>(n, d)\<in>set (report_files dir). SafeReportName n \<and> int (length d) \<le> MaxTransferFileSize"
proof -
  have b: "fold (build_step e dir) allowedReportFiles (tw, Inr \<lparr>mf_Files = [], mf_TotalSize = 0\<rparr>) = (tw', Inr m)"
    and cap: "mf_TotalSize m \<le> MaxTransferTotal"
    using assms(2) by (auto simp: BuildManifest_def split: prod.splits sum.splits if_splits)
  note f = build_fold [OF assms(1) b, folded report_files_def]
  show "tw_sent tw' = tw_sent tw" and files: "mf_Files m = map (\<lambda>(n, d). file_of e n d) (report_files dir)"
    using f by simp_all
  show ok: "\<forall>(n, d)\<in>set (report_files dir). SafeReportName n \<and> int (length d) \<le> MaxTransferFileSize"
    using f report_files_names safe_allowed by fast
  then have "\<forall>f\<in>set (mf_Files m). SafeReportName (tf_Name f) \<and> 0 \<le> tf_Size f \<and> tf_Size f \<le> MaxTransferFileSize"
    unfolding files by (auto simp: file_of_def)
  from manifest_fold_ok [OF this, of 0] show "validateManifest m = None"
    using f cap by (simp add: validateManifest_def)
qed

lemma published_lookup:
  "distinct (map fst xs) \<Longrightarrow> \<forall>x\<in>set xs. SafeReportName (fst x) \<Longrightarrow>
   published xs d n = (case map_of xs n of Some data \<Rightarrow> Some data
     | None \<Rightarrow> if n \<in> part_path ` fst ` set xs then None else d n)"
proof (induction xs arbitrary: d)
  case (Cons x xs)
  obtain name data where x: "x = (name, data)" by fastforce
  have "SafeReportName name" using Cons.prems x by simp
  then have ne: "part_path m \<noteq> name" for m by (rule part_not_safe)
  have ih: "published xs (d(part_path name := None, name \<mapsto> data)) n = (case map_of xs n of Some data \<Rightarrow> Some data
     | None \<Rightarrow> if n \<in> part_path ` fst ` set xs then None else (d(part_path name := None, name \<mapsto> data)) n)"
    using Cons by simp
  show ?case
  proof (cases "n = name")
    case True
    then have "map_of xs n = None" "n \<notin> part_path ` fst ` set xs"
      using Cons.prems x ne by (auto simp: map_of_eq_None_iff)
    then show ?thesis using x True ih by simp
  next
    case False
    then show ?thesis using x ih by (simp split: option.split)
  qed
qed simp

lemma report_files_distinct: "distinct (map fst (report_files dir))"
  by (auto simp: report_files_def List.map_filter_def allowedReportFiles_def entry_def split: dirent.split)

lemma report_files_lookup:
  "map_of (report_files dir) n = (if n \<in> set allowedReportFiles then map_option snd (entry dir n) else None)"
proof (cases "n \<in> set allowedReportFiles \<and> entry dir n \<noteq> None")
  case True
  then obtain data where "dir n = RegularFile data" by (auto simp: entry_def split: dirent.splits)
  with True have "(n, data) \<in> set (report_files dir)" by (simp add: report_files_names)
  with report_files_distinct show ?thesis using True \<open>dir n = RegularFile data\<close> by (simp add: entry_def)
next
  case False
  then have "n \<notin> fst ` set (report_files dir)" by (auto simp: report_files_names entry_def)
  then have "map_of (report_files dir) n = None" by (simp add: map_of_eq_None_iff)
  then show ?thesis using False by (cases "entry dir n") auto
qed

lemma report_files_fst: "n \<in> fst ` set (report_files dir) \<longleftrightarrow> n \<in> set allowedReportFiles \<and> entry dir n \<noteq> None"
  using map_of_eq_None_iff [of "report_files dir" n] unfolding report_files_lookup
  by (cases "n \<in> set allowedReportFiles"; cases "entry dir n") simp_all

lemma published_report:
  assumes "\<forall>(n, data)\<in>set (report_files dir). SafeReportName n \<and> int (length data) \<le> MaxTransferFileSize"
  shows "published (report_files dir) d n =
    (if n \<in> set allowedReportFiles \<and> entry dir n \<noteq> None then map_option snd (entry dir n)
     else if \<exists>m\<in>set allowedReportFiles. n = part_path m \<and> entry dir m \<noteq> None then None
     else d n)"
proof -
  have "fst ` set (report_files dir) = {m \<in> set allowedReportFiles. entry dir m \<noteq> None}"
    using report_files_fst by blast
  then have p: "n \<in> part_path ` fst ` set (report_files dir) \<longleftrightarrow>
      (\<exists>m\<in>set allowedReportFiles. n = part_path m \<and> entry dir m \<noteq> None)" by blast
  have "\<forall>x\<in>set (report_files dir). SafeReportName (fst x)" using assms by auto
  from published_lookup [OF report_files_distinct this, of d n] show ?thesis
    unfolding p report_files_lookup
    by (cases "n \<in> set allowedReportFiles"; cases "entry dir n") simp_all
qed

text \<open>
  C33. Two correct peers transfer the report. When no operation fails and the sender's report fits the caps,
  the receiver accepts the manifest, the acknowledgements it sends are the ones that let the sender finish,
  both sides end without an error, and the receiver's directory afterwards holds every report file of the
  sender byte for byte, no part file of them, and is otherwise unchanged.
\<close>

theorem honest_transfer:
  assumes "faultless e" and "snd (BuildManifest e dir \<lparr>tw_sent = [], tw_ops = 0\<rparr>) = Inr m"
  shows "\<exists>acks frames tw w'.
    SendReports e dir acks \<lparr>tw_sent = [], tw_ops = 0\<rparr> = (None, tw) \<and> tw_sent tw = frames
    \<and> ReceiveReports e frames \<lparr>rw_disk = d, rw_acks = [], rw_ops = 0\<rparr> = (None, w') \<and> rw_acks w' = acks
    \<and> (\<forall>n. rw_disk w' n =
         (if n \<in> set allowedReportFiles \<and> entry dir n \<noteq> None then map_option snd (entry dir n)
          else if \<exists>m\<in>set allowedReportFiles. n = part_path m \<and> entry dir m \<noteq> None then None
          else d n))"
proof -
  let ?xs = "report_files dir" and ?tw = "\<lparr>tw_sent = [], tw_ops = 0\<rparr>" and ?w = "\<lparr>rw_disk = d, rw_acks = [], rw_ops = 0\<rparr>"
  let ?acks = "map (\<lambda>x. ok_ack (fst x)) ?xs"
  obtain tw1 where b: "BuildManifest e dir ?tw = (tw1, Inr m)" using assms(2) by (cases "BuildManifest e dir ?tw") simp
  note m = BuildManifest_ok [OF assms(1) b]
  have "\<forall>(n, data)\<in>set ?xs. dir n = RegularFile data" using report_files_names by blast
  from sendFiles_ok [OF assms(1) this, of "tw1\<lparr>tw_ops := Suc (tw_ops tw1), tw_sent := tw_sent tw1 @ [ManifestFrame m]\<rparr>"]
  obtain tw where tw: "SendReports e dir ?acks ?tw = (None, tw)"
    "tw_sent tw = ManifestFrame m # concat (map (\<lambda>(name, data). map ChunkOf (chunks name 0 0 data)) ?xs)"
    using b m(1,2) assms(1) by (auto simp: SendReports_def)
  from receiveFiles_ok [OF assms(1) m(4), of ?w] obtain w' where w': "ReceiveReports e (tw_sent tw) ?w = (None, w')"
    "rw_disk w' = published ?xs d" "rw_acks w' = ?acks"
    using tw(2) m(2,3) assms(1) by (auto simp: ReceiveReports_def ensureWritableDir_def faultless_def)
  have "rw_disk w' n =
         (if n \<in> set allowedReportFiles \<and> entry dir n \<noteq> None then map_option snd (entry dir n)
          else if \<exists>m\<in>set allowedReportFiles. n = part_path m \<and> entry dir m \<noteq> None then None
          else d n)" for n
    unfolding w'(2) by (rule published_report [OF m(4)])
  then show ?thesis using tw w' by blast
qed

subsection \<open>Witnesses\<close>

definition demo_env :: xfer_env where
  "demo_env = \<lparr>xe_fault = \<lambda>_ _. None, xe_short = \<lambda>_. 0, xe_sha = \<lambda>data. take 2 data, xe_closed = ''closed'', xe_dir = Directory\<rparr>"

definition demo_dir :: "string \<Rightarrow> dirent" where
  "demo_dir name = (if name = ''report.json'' then RegularFile [123, 125] else if name = ''summary.txt'' then RegularFile [] else Absent)"

theorem honest_transfer_witness:
  "\<exists>acks frames tw w'.
    SendReports demo_env demo_dir acks \<lparr>tw_sent = [], tw_ops = 0\<rparr> = (None, tw) \<and> tw_sent tw = frames
    \<and> ReceiveReports demo_env frames \<lparr>rw_disk = Map.empty, rw_acks = [], rw_ops = 0\<rparr> = (None, w') \<and> rw_acks w' = acks
    \<and> rw_disk w' ''report.json'' = Some [123, 125] \<and> rw_disk w' ''report.md'' = None"
proof -
  have f: "faultless demo_env" by (simp add: faultless_def demo_env_def)
  have "\<exists>m. snd (BuildManifest demo_env demo_dir \<lparr>tw_sent = [], tw_ops = 0\<rparr>) = Inr m"
    by (simp add: BuildManifest_def build_step_def allowedReportFiles_def demo_dir_def fileDigest_def f
        MaxTransferFileSize_def MaxTransferTotal_def iadd_def wrap64_def)
  then obtain m where m: "snd (BuildManifest demo_env demo_dir \<lparr>tw_sent = [], tw_ops = 0\<rparr>) = Inr m" ..
  have "entry demo_dir ''report.json'' = Some (''report.json'', [123, 125])" "entry demo_dir ''report.md'' = None"
    by (simp_all add: entry_def demo_dir_def)
  moreover have "''report.md'' \<noteq> part_path n" for n
    using part_not_safe [of "''report.md''" n] by (auto simp: safe_allowed allowedReportFiles_def)
  ultimately show ?thesis using honest_transfer [OF f m, of Map.empty]
    by (fastforce simp: allowedReportFiles_def)
qed

end
