(* ===== verification/NetIP.thy ===== *)
theory NetIP
  imports GoFmt
begin

section \<open>IP addresses: what the source uses of \<open>net/netip\<close>\<close>

text \<open>
  An address is invalid (the zero value), an IPv4 address of four bytes or an IPv6 address of sixteen bytes
  with a zone. The parser returns \<open>None\<close> for every error; the printer is exact for both families. Comparison
  of addresses is equality of values.
\<close>

datatype Addr = AddrInvalid | Addr4 bytes | Addr6 bytes string

definition IsValid :: "Addr \<Rightarrow> bool" where "IsValid a \<longleftrightarrow> a \<noteq> AddrInvalid"

definition Is4 :: "Addr \<Rightarrow> bool" where
  "Is4 a = (case a of Addr4 _ \<Rightarrow> True | _ \<Rightarrow> False)"

definition Zone :: "Addr \<Rightarrow> string" where
  "Zone a = (case a of Addr6 _ z \<Rightarrow> z | _ \<Rightarrow> '''')"

definition Is4In6 :: "Addr \<Rightarrow> bool" where
  "Is4In6 a = (case a of Addr6 b _ \<Rightarrow> take 12 b = replicate 10 0 @ [255, 255] | _ \<Rightarrow> False)"

definition Unmap :: "Addr \<Rightarrow> Addr" where
  "Unmap a = (case a of Addr6 b _ \<Rightarrow> if Is4In6 a then Addr4 (drop 12 b) else a | _ \<Rightarrow> a)"

definition IsUnspecified :: "Addr \<Rightarrow> bool" where
  "IsUnspecified a \<longleftrightarrow> a = Addr4 (replicate 4 0) \<or> a = Addr6 (replicate 16 0) ''''"

definition IsMulticast :: "Addr \<Rightarrow> bool" where
  "IsMulticast a =
     (case a of Addr4 (b # _) \<Rightarrow> 224 \<le> b \<and> b \<le> 239 | Addr6 (b # _) _ \<Rightarrow> b = 255 | _ \<Rightarrow> False)"

definition IsLoopback :: "Addr \<Rightarrow> bool" where
  "IsLoopback a =
     (case a of Addr4 (b # _) \<Rightarrow> b = 127 | Addr6 bs _ \<Rightarrow> bs = replicate 15 0 @ [1] | _ \<Rightarrow> False)"

subsection \<open>Parsing\<close>

text \<open>The value and the number of digits of the current field, and the fields before it.\<close>

fun parseIPv4Fields :: "int \<Rightarrow> nat \<Rightarrow> bytes \<Rightarrow> string \<Rightarrow> bytes option" where
  "parseIPv4Fields val digLen octets [] = (if length octets < 3 then None else Some (octets @ [of_int val]))"
| "parseIPv4Fields val digLen octets (c # s) =
     (if is_digit c then
        if digLen = 1 \<and> val = 0 then None
        else if val * 10 + digit_val c > 255 then None
        else parseIPv4Fields (val * 10 + digit_val c) (Suc digLen) octets s
      else if c = CHR ''.'' then
        if digLen = 0 \<or> s = [] then None
        else if length octets = 3 then None
        else parseIPv4Fields 0 0 (octets @ [of_int val]) s
      else None)"

definition hex_val :: "char \<Rightarrow> int option" where
  "hex_val c =
     (let n = int (of_char c)
      in if 48 \<le> n \<and> n \<le> 57 then Some (n - 48)
         else if 97 \<le> n \<and> n \<le> 102 then Some (n - 97 + 10)
         else if 65 \<le> n \<and> n \<le> 70 then Some (n - 65 + 10)
         else None)"

definition hex_digits :: "string \<Rightarrow> string" where
  "hex_digits s = takeWhile (\<lambda>c. hex_val c \<noteq> None) s"

definition hex_value :: "string \<Rightarrow> int" where
  "hex_value s = foldl (\<lambda>n c. n * 16 + (case hex_val c of Some d \<Rightarrow> d | None \<Rightarrow> 0)) 0 s"

definition group_bytes :: "int \<Rightarrow> bytes" where
  "group_bytes n = [of_int (n div 256), of_int (n mod 256)]"

text \<open>
  The loop over the fields: the bytes so far, the position of the ellipsis, the rest of the text. The result
  is the state in which the loop ends.
\<close>

function parse_fields :: "bytes \<Rightarrow> nat option \<Rightarrow> string \<Rightarrow> (bytes \<times> nat option \<times> string) option" where
  "parse_fields ip ellipsis s =
     (if length ip \<ge> 16 then Some (ip, ellipsis, s)
      else
        let off = length (hex_digits s); rest = drop off s; ip' = ip @ group_bytes (hex_value (hex_digits s))
        in if off = 0 \<or> off > 4 then None
           else if rest = [] then Some (ip', ellipsis, [])
           else if hd rest = CHR ''.'' then
             if ellipsis = None \<and> length ip \<noteq> 12 then None
             else if length ip + 4 > 16 then None
             else map_option (\<lambda>f. (ip @ f, ellipsis, [])) (parseIPv4Fields 0 0 [] s)
           else if hd rest \<noteq> CHR '':'' \<or> tl rest = [] then None
           else if hd (tl rest) = CHR '':'' then
             if ellipsis \<noteq> None then None
             else if tl (tl rest) = [] then Some (ip', Some (length ip'), [])
             else parse_fields ip' (Some (length ip')) (tl (tl rest))
           else parse_fields ip' ellipsis (tl rest))"
  by pat_completeness auto
termination
  by (relation "measure (\<lambda>(ip, e, s). length s)") (auto simp: Let_def)

declare parse_fields.simps [simp del]

definition expand_ellipsis :: "bytes \<Rightarrow> nat option \<Rightarrow> bytes option" where
  "expand_ellipsis ip ellipsis =
     (case ellipsis of
        None \<Rightarrow> if length ip < 16 then None else Some ip
      | Some e \<Rightarrow> if length ip < 16 then Some (take e ip @ replicate (16 - length ip) 0 @ drop e ip) else None)"

definition parseIPv6 :: "string \<Rightarrow> Addr option" where
  "parseIPv6 text =
     (let s = takeWhile (\<lambda>c. c \<noteq> CHR ''%'') text; zoned = CHR ''%'' \<in> set text; zone = drop (Suc (length s)) text
      in if zoned \<and> zone = [] then None
         else if s = ''::'' then Some (Addr6 (replicate 16 0) zone)
         else
           (case (if has_prefix s ''::'' then parse_fields [] (Some 0) (drop 2 s) else parse_fields [] None s) of
              None \<Rightarrow> None
            | Some (ip, ellipsis, rest) \<Rightarrow>
                if rest \<noteq> [] then None else map_option (\<lambda>b. Addr6 b zone) (expand_ellipsis ip ellipsis)))"

definition ParseAddr :: "string \<Rightarrow> Addr option" where
  "ParseAddr s =
     (case dropWhile (\<lambda>c. c \<noteq> CHR ''.'' \<and> c \<noteq> CHR '':'' \<and> c \<noteq> CHR ''%'') s of
        [] \<Rightarrow> None
      | c # _ \<Rightarrow>
          if c = CHR ''.'' then map_option Addr4 (parseIPv4Fields 0 0 [] s)
          else if c = CHR '':'' then parseIPv6 s
          else None)"

subsection \<open>Printing\<close>

definition show_byte :: "u8 \<Rightarrow> string" where
  "show_byte b = show_nonneg (uint b)"

definition string4 :: "bytes \<Rightarrow> string" where
  "string4 bs = join ''.'' (map show_byte bs)"

definition hex_char :: "int \<Rightarrow> char" where
  "hex_char n = (if n < 10 then char_of (nat n + 48) else char_of (nat n + 87))"

text \<open>A 16-bit group in hexadecimal, without leading zeros.\<close>

definition appendHex :: "int \<Rightarrow> string" where
  "appendHex x =
     (if x \<ge> 4096 then [hex_char (x div 4096)] else [])
     @ (if x \<ge> 256 then [hex_char (x div 256 mod 16)] else [])
     @ (if x \<ge> 16 then [hex_char (x div 16 mod 16)] else [])
     @ [hex_char (x mod 16)]"

fun groups16 :: "bytes \<Rightarrow> int list" where
  "groups16 (h # l # bs) = (uint h * 256 + uint l) # groups16 bs"
| "groups16 _ = []"

text \<open>The first of the longest runs of at least two zero groups.\<close>

fun zero_run :: "int list \<Rightarrow> nat \<Rightarrow> nat \<Rightarrow> nat \<Rightarrow> nat \<times> nat" where
  "zero_run [] i start len = (start, len)"
| "zero_run (g # gs) i start len =
     (let l = length (takeWhile (\<lambda>x. x = 0) (g # gs))
      in if l \<ge> 2 \<and> l > len then zero_run gs (Suc i) i l else zero_run gs (Suc i) start len)"

definition string6 :: "bytes \<Rightarrow> string \<Rightarrow> string" where
  "string6 bs zone =
     (let gs = groups16 bs; (start, len) = zero_run gs 0 0 0; hex = join '':'' \<circ> map appendHex
      in (if len = 0 then hex gs else hex (take start gs) @ ''::'' @ hex (drop (start + len) gs))
         @ (if zone = '''' then '''' else ''%'' @ zone))"

definition Addr_String :: "Addr \<Rightarrow> string" where
  "Addr_String a =
     (case a of
        AddrInvalid \<Rightarrow> ''invalid IP''
      | Addr4 bs \<Rightarrow> string4 bs
      | Addr6 bs zone \<Rightarrow>
          if Is4In6 a then ''::ffff:'' @ string4 (drop 12 bs) @ (if zone = '''' then '''' else ''%'' @ zone)
          else string6 bs zone)"

subsection \<open>Printing and parsing an IPv4 address\<close>

lemma digit_char_digit: "0 \<le> d \<Longrightarrow> d < 10 \<Longrightarrow> is_digit (digit_char d) \<and> digit_val (digit_char d) = d"
  by (auto simp: is_digit_def digit_char_def digit_val_def)

lemma show_byte_cases:
  fixes b :: u8
  obtains "uint b < 10" "show_byte b = [digit_char (uint b)]"
  | "10 \<le> uint b" "uint b < 100" "show_byte b = [digit_char (uint b div 10), digit_char (uint b mod 10)]"
  | "100 \<le> uint b" "uint b < 256"
    "show_byte b = [digit_char (uint b div 100), digit_char (uint b div 10 mod 10), digit_char (uint b mod 10)]"
proof -
  have "uint b < 256" "0 \<le> uint b" using uint_lt2p [of b] by simp_all
  then consider "uint b < 10" | "10 \<le> uint b" "uint b < 100" | "100 \<le> uint b" "uint b < 256" by linarith
  then show thesis
  proof cases
    case 1
    then show thesis using that(1) by (simp add: show_byte_def show_nonneg.simps [of "uint b"])
  next
    case 2
    then show thesis using that(2) by (simp add: show_byte_def show_nonneg.simps [of "uint b"] show_nonneg.simps [of "uint b div 10"])
  next
    case 3
    have h: "uint b div 10 div 10 = uint b div 100" by (simp add: zdiv_zmult2_eq [symmetric])
    have "\<not> uint b < 10" "\<not> uint b div 10 < 10" "uint b div 100 < 10" using 3 by linarith+
    then have "show_byte b = [digit_char (uint b div 100), digit_char (uint b div 10 mod 10), digit_char (uint b mod 10)]"
      by (simp add: show_byte_def show_nonneg.simps [of "uint b"] show_nonneg.simps [of "uint b div 10"]
          show_nonneg.simps [of "uint b div 100"] h)
    with 3 show thesis using that(3) by blast
  qed
qed

lemma parse_byte:
  "\<exists>n > 0. parseIPv4Fields 0 0 octets (show_byte b @ rest) = parseIPv4Fields (uint b) n octets rest"
proof (cases rule: show_byte_cases [of b])
  case 1
  then show ?thesis using digit_char_digit [of "uint b"] by (intro exI [of _ 1]) simp
next
  case 2
  have d: "0 \<le> uint b div 10" "uint b div 10 < 10" "uint b div 10 \<noteq> 0" using 2 by linarith+
  have "uint b div 10 * 10 + uint b mod 10 = uint b" by simp
  then show ?thesis using 2 d digit_char_digit [of "uint b div 10"] digit_char_digit [of "uint b mod 10"]
    by (intro exI [of _ 2]) (simp add: numeral_2_eq_2)
next
  case 3
  have d: "0 \<le> uint b div 100" "uint b div 100 < 10" "uint b div 100 \<noteq> 0" "\<not> 255 < uint b div 10" using 3 by linarith+
  have e: "uint b div 100 * 10 + uint b div 10 mod 10 = uint b div 10"
    using mult_div_mod_eq [of 10 "uint b div 10"] by (simp add: zdiv_zmult2_eq [symmetric])
  moreover have "uint b div 10 * 10 + uint b mod 10 = uint b" by simp
  ultimately show ?thesis
    using 3 d digit_char_digit [of "uint b div 100"] digit_char_digit [of "uint b div 10 mod 10"] digit_char_digit [of "uint b mod 10"]
    by (intro exI [of _ 3]) (simp add: numeral_3_eq_3)
qed

lemma parse_dot:
  "0 < n \<Longrightarrow> s \<noteq> [] \<Longrightarrow> length octets < 3
    \<Longrightarrow> parseIPv4Fields (uint b) n octets (CHR ''.'' # s) = parseIPv4Fields 0 0 (octets @ [b]) s"
  by (simp add: is_digit_def)

lemma parse_string4:
  "bs \<noteq> [] \<Longrightarrow> length octets + length bs = 4 \<Longrightarrow> parseIPv4Fields 0 0 octets (string4 bs) = Some (octets @ bs)"
proof (induction bs arbitrary: octets)
  case (Cons b bs)
  show ?case
  proof (cases bs)
    case Nil
    obtain n where "parseIPv4Fields 0 0 octets (show_byte b @ []) = parseIPv4Fields (uint b) n octets []"
      using parse_byte by blast
    with Nil Cons.prems(2) show ?thesis by (simp add: string4_def)
  next
    case (Cons b' bs')
    then have s: "string4 (b # bs) = show_byte b @ CHR ''.'' # string4 bs" "string4 bs \<noteq> []"
      by (cases rule: show_byte_cases [of b']; cases bs'; simp add: string4_def)+
    obtain n where "0 < n" "parseIPv4Fields 0 0 octets (string4 (b # bs)) = parseIPv4Fields (uint b) n octets (CHR ''.'' # string4 bs)"
      unfolding s(1) using parse_byte by blast
    then have "parseIPv4Fields 0 0 octets (string4 (b # bs)) = parseIPv4Fields 0 0 (octets @ [b]) (string4 bs)"
      using parse_dot [of n "string4 bs" octets b] s(2) Cons.prems(2) Cons by simp
    then show ?thesis using Cons.IH [of "octets @ [b]"] Cons.prems(2) Cons by simp
  qed
qed simp

lemma show_byte_plain: "c \<in> set (show_byte b) \<Longrightarrow> is_digit c"
  using show_nonneg_digits [of "uint b"] by (simp add: show_byte_def)

lemma ParseAddr_string4:
  assumes "length bs = 4"
  shows "ParseAddr (string4 bs) = Some (Addr4 bs)"
proof -
  obtain a b c d where bs: "bs = [a, b, c, d]"
    using assms by (auto simp: numeral_eq_Suc length_Suc_conv)
  let ?P = "\<lambda>c. c \<noteq> CHR ''.'' \<and> c \<noteq> CHR '':'' \<and> c \<noteq> CHR ''%''"
  have "\<forall>c\<in>set (show_byte a). ?P c" using show_byte_plain by (fastforce simp: is_digit_def)
  then have "dropWhile ?P (string4 bs) = CHR ''.'' # string4 [b, c, d]"
    by (simp add: bs string4_def dropWhile_append2)
  then show ?thesis using parse_string4 [of bs "[]"] bs by (simp add: ParseAddr_def)
qed

text \<open>The text of every IPv4 address parses to the address.\<close>

lemma ParseAddr_String: "length bs = 4 \<Longrightarrow> ParseAddr (Addr_String (Addr4 bs)) = Some (Addr4 bs)"
  by (simp add: Addr_String_def ParseAddr_string4)

lemma Unmap_idem [simp]: "Unmap (Unmap a) = Unmap a"
  by (auto simp: Unmap_def split: Addr.split)

subsection \<open>The size of an address\<close>

definition wf_addr :: "Addr \<Rightarrow> bool" where
  "wf_addr a = (case a of AddrInvalid \<Rightarrow> True | Addr4 bs \<Rightarrow> length bs = 4 | Addr6 bs _ \<Rightarrow> length bs = 16)"

lemma parseIPv4Fields_length: "parseIPv4Fields v n octets s = Some bs \<Longrightarrow> length octets \<le> 3 \<Longrightarrow> length bs = 4"
  by (induction v n octets s rule: parseIPv4Fields.induct) (auto split: if_splits)

lemma parse_fields_length:
  "parse_fields ip e s = Some (ip', e', s') \<Longrightarrow> length ip \<le> 16 \<Longrightarrow> even (length ip) \<Longrightarrow> length ip' \<le> 16"
proof (induction ip e s arbitrary: ip' e' s' rule: parse_fields.induct)
  case (1 ip e s)
  show ?case
  proof (cases "length ip \<ge> 16")
    case True
    with 1 show ?thesis by (simp add: parse_fields.simps [of ip])
  next
    case False
    then have l: "length ip \<le> 14" using 1(5) by presburger
    show ?thesis using 1(3) False l 1(1,2) [OF False refl refl refl] 1(5)
      by (subst (asm) parse_fields.simps)
        (auto simp: Let_def group_bytes_def dest: parseIPv4Fields_length split: if_splits)
  qed
qed

lemma wf_ParseAddr:
  assumes "ParseAddr s = Some a"
  shows "wf_addr a"
proof -
  have "length bs = 16" if "parseIPv6 s = Some (Addr6 bs z)" for bs z
    using that parse_fields_length [of "[]" None] parse_fields_length [of "[]" "Some 0"]
    by (fastforce simp: parseIPv6_def Let_def expand_ellipsis_def split: if_splits option.splits)
  moreover have "\<exists>bs z. a = Addr6 bs z" if "parseIPv6 s = Some a"
    using that by (auto simp: parseIPv6_def Let_def split: if_splits option.splits)
  ultimately show ?thesis using assms
    by (auto simp: ParseAddr_def wf_addr_def dest: parseIPv4Fields_length split: list.splits if_splits Addr.split)
qed

lemma wf_Unmap: "wf_addr a \<Longrightarrow> wf_addr (Unmap a)"
  by (auto simp: wf_addr_def Unmap_def split: Addr.splits)

end
