(* ===== verification/Handshake.thy ===== *)
theory Handshake
  imports Calls ReportTransfer NetIP
begin

section \<open>The handshake: \<open>internal/peer/handshake.go\<close>, \<open>transport.go\<close>, \<open>session.go\<close>\<close>

text \<open>
  A connection in the handshake is the list of what its reads will return, each with the clock at the start
  of the read, and the frames written so far; a read beyond the list waits until its deadline. Errors are the
  identities the code tests with \<open>errors.Is\<close>; their log texts are not modelled, the details of abort
  frames are. The random bytes and the time stamp of a test identifier, SHA-256 and the JSON codec are
  parameters.
\<close>

subsection \<open>Connection and errors\<close>

definition HandshakeTimeout :: int where "HandshakeTimeout = 30 * second"
definition HelloTimeout :: int where "HelloTimeout = 10 * second"

definition abortAuthFailed :: string where "abortAuthFailed = ''auth_failed''"
definition abortVersionMismatch :: string where "abortVersionMismatch = ''version_mismatch''"
definition abortCapabilityMissing :: string where "abortCapabilityMissing = ''capability_missing''"
definition stageHandshake :: string where "stageHandshake = ''handshake''"

datatype handshake_error =
    errAuthFailed
  | errTokenRejected
  | errVersionMismatch
  | errCapabilityMissing
  | errProtocol
  | errHandshakeTimeout
  | errPeerAborted
  | read_failure
  | internal_failure

definition handshakeRetryable :: "handshake_error \<Rightarrow> bool" where
  "handshakeRetryable err \<longleftrightarrow> err = errAuthFailed \<or> err = errProtocol \<or> err = errHandshakeTimeout"

datatype read_result = DeadlineExceeded | ReadFailed | FrameRead Envelope

record hs_conn =
  hc_in :: "(int \<times> read_result) list"
  hc_writeErr :: "nat \<Rightarrow> bool"
  hc_writes :: nat
  hc_sent :: "Envelope list"
  hc_idle :: "int option"
  hc_closed :: bool

record handshake_env =
  hv_session :: session_env
  hv_LocalIP :: Addr
  hv_PeerIP :: Addr
  hv_Version :: string
  hv_Caps :: Capabilities
  hv_sha :: "string \<Rightarrow> bytes"
  hv_stamp :: string
  hv_rand :: "bytes option"

abbreviation hv_cfg :: "handshake_env \<Rightarrow> Config" where "hv_cfg h \<equiv> sv_cfg (hv_session h)"
abbreviation hv_codec :: "handshake_env \<Rightarrow> codec" where "hv_codec h \<equiv> sv_codec (hv_session h)"

text \<open>What one half of the handshake threads through: connection, identifiers, detector.\<close>

record hs_state =
  ht_conn :: hs_conn
  ht_ids :: MessageIDMaker
  ht_dedup :: DuplicateDetector

definition hs_write :: "Envelope \<Rightarrow> hs_state \<Rightarrow> hs_state \<times> bool" where
  "hs_write env s =
     (let c = ht_conn s; c1 = c\<lparr>hc_writes := Suc (hc_writes c)\<rparr>
      in if hc_writeErr c (hc_writes c) then (s\<lparr>ht_conn := c1\<rparr>, False)
         else (s\<lparr>ht_conn := c1\<lparr>hc_sent := hc_sent c @ [env]\<rparr>\<rparr>, True))"

definition hs_mint :: "hs_state \<Rightarrow> hs_state \<times> string" where
  "hs_mint s = (case Next (ht_ids s) of (ids, i) \<Rightarrow> (s\<lparr>ht_ids := ids\<rparr>, i))"

text \<open>Mint, build and write a frame: \<open>Inl\<close> tells a failed construction from a failed write.\<close>

definition hs_send :: "handshake_env \<Rightarrow> int \<Rightarrow> string \<Rightarrow> string \<Rightarrow> string \<Rightarrow> payload \<Rightarrow> hs_state \<Rightarrow> hs_state \<times> (unit + bool)" where
  "hs_send h now typ testID inReplyTo p s =
     (case hs_mint s of
        (s1, i) \<Rightarrow>
          (case NewEnvelope (cd_marshal (hv_codec h)) now typ testID i (Some p) of
             Inl _ \<Rightarrow> (s1, Inl ())
           | Inr env \<Rightarrow> (case hs_write (env\<lparr>en_InReplyTo := inReplyTo\<rparr>) s1 of (s2, ok) \<Rightarrow> (s2, Inr ok))))"

definition newTestID :: "handshake_env \<Rightarrow> string option" where
  "newTestID h = map_option (\<lambda>b. ''ct-'' @ hv_stamp h @ ''-'' @ EncodeToString b) (hv_rand h)"

definition sendAbort :: "handshake_env \<Rightarrow> int \<Rightarrow> string \<Rightarrow> string \<Rightarrow> string \<Rightarrow> hs_state \<Rightarrow> hs_state" where
  "sendAbort h now testID reason detail s =
     fst (hs_send h now TypeAbort testID '''' (PAbort \<lparr>ab_Reason = reason, ab_Stage = stageHandshake, ab_Detail = detail,
            ab_Initiator = cf_Role (hv_cfg h)\<rparr>) s)"

definition set_idle :: "int \<Rightarrow> hs_state \<Rightarrow> hs_state" where
  "set_idle d s = s\<lparr>ht_conn := (ht_conn s)\<lparr>hc_idle := Some d\<rparr>\<rparr>"

definition hs_close :: "hs_state \<Rightarrow> hs_state" where
  "hs_close s = s\<lparr>ht_conn := (ht_conn s)\<lparr>hc_closed := True\<rparr>\<rparr>"

definition readHandshakeFrame :: "int \<Rightarrow> hs_state \<Rightarrow> hs_state \<times> (handshake_error + Envelope)" where
  "readHandshakeFrame deadline s =
     (case hc_in (ht_conn s) of
        [] \<Rightarrow> (s, Inl errHandshakeTimeout)
      | (now, r) # rest \<Rightarrow>
          if deadline - now \<le> 0 then (s, Inl errHandshakeTimeout)
          else
            let s1 = (set_idle (deadline - now) s)\<lparr>ht_conn := (ht_conn (set_idle (deadline - now) s))\<lparr>hc_in := rest\<rparr>\<rparr>
            in (case r of
                  DeadlineExceeded \<Rightarrow> (s1, Inl errHandshakeTimeout)
                | ReadFailed \<Rightarrow> (s1, Inl read_failure)
                | FrameRead env \<Rightarrow>
                    (case Observe (en_MessageID env) (ht_dedup s1) of
                       (d, Some _) \<Rightarrow> (s1\<lparr>ht_dedup := d\<rparr>, Inl errProtocol)
                     | (d, None) \<Rightarrow> (s1\<lparr>ht_dedup := d\<rparr>, Inr env))))"

definition versionDetail :: "string \<Rightarrow> string" where
  "versionDetail theirs = ''ours='' @ Version @ '' theirs='' @ theirs"

definition requireIperf3JSON :: "Capabilities \<Rightarrow> handshake_error option" where
  "requireIperf3JSON caps = (if \<not> ic_JSON (ca_Iperf3 caps) then Some errCapabilityMissing else None)"

definition capability_detail :: "handshake_env \<Rightarrow> Capabilities \<Rightarrow> string" where
  "capability_detail h caps =
     ''peer: required capability missing: peer iperf3 (version '' @ sv_quote (hv_session h) (ic_Version (ca_Iperf3 caps))
     @ '') lacks JSON output support''"

definition helloIPClaimMatches :: "string \<Rightarrow> Addr \<Rightarrow> bool" where
  "helloIPClaimMatches claim want = (case ParseAddr claim of None \<Rightarrow> False | Some a \<Rightarrow> Unmap a = Unmap want)"

definition checkVersionOrAbort :: "handshake_env \<Rightarrow> int \<Rightarrow> string \<Rightarrow> Envelope \<Rightarrow> hs_state \<Rightarrow> hs_state \<times> handshake_error option" where
  "checkVersionOrAbort h now testID env s =
     (if CheckVersion env = None then (s, None)
      else (sendAbort h now testID abortVersionMismatch (versionDetail (en_ProtocolVersion env)) s, Some errVersionMismatch))"

subsection \<open>The coordinator's half\<close>

text \<open>The checks of the hello after its decoding, in order.\<close>

definition check_hello :: "handshake_env \<Rightarrow> int \<Rightarrow> Hello \<Rightarrow> hs_state \<Rightarrow> hs_state \<times> handshake_error option" where
  "check_hello h now hello s =
     (if \<not> TokenEqual (hv_sha h) (he_Token hello) (cf_Token (hv_cfg h))
      then (sendAbort h now '''' abortAuthFailed '''' s, Some errAuthFailed)
      else if he_Role hello \<noteq> RolePC2
      then (sendAbort h now '''' abortProtocolError (''unexpected role '' @ sv_quote (hv_session h) (he_Role hello)) s, Some errProtocol)
      else if \<not> helloIPClaimMatches (he_PeerIP hello) (hv_LocalIP h)
      then (sendAbort h now '''' abortProtocolError
              (''hello peerIp '' @ sv_quote (hv_session h) (he_PeerIP hello) @ '' does not match our local IP'') s, Some errProtocol)
      else if \<not> helloIPClaimMatches (he_LocalIP hello) (hv_PeerIP h)
      then (sendAbort h now '''' abortProtocolError
              (''hello localIp '' @ sv_quote (hv_session h) (he_LocalIP hello) @ '' does not match expected peer IP'') s, Some errProtocol)
      else (s, None))"

definition read_hello :: "handshake_env \<Rightarrow> int \<Rightarrow> hs_state \<Rightarrow> hs_state \<times> (handshake_error + Envelope \<times> Hello)" where
  "read_hello h now s =
     (case readHandshakeFrame (min (now + HelloTimeout) (now + HandshakeTimeout)) s of
        (s1, Inl err) \<Rightarrow>
          (sendAbort h now '''' abortProtocolError ''expected hello as first frame'' s1,
           Inl (if err = errHandshakeTimeout \<or> err = errProtocol then err else errProtocol))
      | (s1, Inr env) \<Rightarrow>
          if en_Type env \<noteq> TypeHello
          then (sendAbort h now '''' abortProtocolError (''expected hello, got '' @ en_Type env) s1, Inl errProtocol)
          else
            (case checkVersionOrAbort h now '''' env s1 of
               (s2, Some err) \<Rightarrow> (s2, Inl err)
             | (s2, None) \<Rightarrow>
                 (case DecodePayload (cd_Hello (hv_codec h)) (Some env) of
                    Inl _ \<Rightarrow> (sendAbort h now '''' abortProtocolError ''malformed hello payload'' s2, Inl errProtocol)
                  | Inr hello \<Rightarrow>
                      (case check_hello h now hello s2 of
                         (s3, Some err) \<Rightarrow> (s3, Inl err)
                       | (s3, None) \<Rightarrow> (s3, Inr (env, hello))))))"

text \<open>The checks of the peer's capabilities both halves share, after the version check.\<close>

definition check_caps :: "handshake_env \<Rightarrow> int \<Rightarrow> string \<Rightarrow> Envelope \<Rightarrow> hs_state \<Rightarrow> hs_state \<times> (handshake_error + Capabilities)" where
  "check_caps h now testID env s =
     (if \<not> checkAssignedTestID env testID
      then (sendAbort h now testID abortProtocolError ''capabilities carry a foreign testId'' s, Inl errProtocol)
      else case DecodePayload (cd_Capabilities (hv_codec h)) (Some env) of
             Inl _ \<Rightarrow> (sendAbort h now testID abortProtocolError ''malformed capabilities payload'' s, Inl errProtocol)
           | Inr caps \<Rightarrow>
               (case requireIperf3JSON caps of
                  Some err \<Rightarrow> (sendAbort h now testID abortCapabilityMissing (capability_detail h caps) s, Inl err)
                | None \<Rightarrow> (s, Inr caps)))"

definition read_worker_caps :: "handshake_env \<Rightarrow> int \<Rightarrow> string \<Rightarrow> hs_state \<Rightarrow> hs_state \<times> (handshake_error + Capabilities)" where
  "read_worker_caps h now testID s =
     (case readHandshakeFrame (now + HandshakeTimeout) s of
        (s1, Inl err) \<Rightarrow>
          if err = errHandshakeTimeout then (s1, Inl err)
          else (sendAbort h now testID abortProtocolError ''reading capabilities failed'' s1, Inl errProtocol)
      | (s1, Inr env) \<Rightarrow>
          (case checkVersionOrAbort h now testID env s1 of
             (s2, Some err) \<Rightarrow> (s2, Inl err)
           | (s2, None) \<Rightarrow>
               if en_Type env \<noteq> TypeCapabilities
               then (sendAbort h now testID abortProtocolError (''expected capabilities, got '' @ en_Type env) s2, Inl errProtocol)
               else check_caps h now testID env s2))"

definition start_handshake :: "handshake_env \<Rightarrow> hs_conn \<Rightarrow> hs_state" where
  "start_handshake h c = \<lparr>ht_conn = c, ht_ids = NewMessageIDMaker (cf_Role (hv_cfg h)), ht_dedup = NewDuplicateDetector\<rparr>"

definition finish_handshake :: "handshake_env \<Rightarrow> string \<Rightarrow> string \<Rightarrow> Capabilities \<Rightarrow> hs_state \<Rightarrow> hs_state \<times> (handshake_error + handshakeResult)" where
  "finish_handshake h testID peerVersion caps s =
     (set_idle (idleTimeout (hv_cfg h)) s,
      Inr \<lparr>hs_TestID = testID, hs_PeerVersion = peerVersion, hs_PeerCaps = caps, hs_IDs = ht_ids s, hs_Dedup = ht_dedup s\<rparr>)"

definition close_on_error :: "hs_state \<times> (handshake_error + handshakeResult) \<Rightarrow> hs_conn \<times> (handshake_error + handshakeResult)" where
  "close_on_error r = (case r of (s, Inl err) \<Rightarrow> (ht_conn (hs_close s), Inl err) | (s, Inr hs) \<Rightarrow> (ht_conn s, Inr hs))"

definition coordinator_exchange :: "handshake_env \<Rightarrow> int \<Rightarrow> hs_state \<Rightarrow> hs_state \<times> (handshake_error + handshakeResult)" where
  "coordinator_exchange h now s =
     (case read_hello h now s of
        (s1, Inl err) \<Rightarrow> (s1, Inl err)
      | (s1, Inr (env, hello)) \<Rightarrow>
          (case newTestID h of
             None \<Rightarrow> (s1, Inl internal_failure)
           | Some testID \<Rightarrow>
               (case hs_send h now TypeHelloAck testID (en_MessageID env)
                       (PHelloAck \<lparr>ha_TestID = testID, ha_CablecheckVersion = hv_Version h\<rparr>) s1 of
                  (s2, Inl _) \<Rightarrow> (s2, Inl internal_failure)
                | (s2, Inr False) \<Rightarrow> (s2, Inl errProtocol)
                | (s2, Inr True) \<Rightarrow>
                    (case read_worker_caps h now testID s2 of
                       (s3, Inl err) \<Rightarrow> (s3, Inl err)
                     | (s3, Inr caps) \<Rightarrow>
                         (case hs_send h now TypeCapabilities testID '''' (PCapabilities (hv_Caps h)) s3 of
                            (s4, Inl _) \<Rightarrow> (s4, Inl internal_failure)
                          | (s4, Inr False) \<Rightarrow> (s4, Inl errProtocol)
                          | (s4, Inr True) \<Rightarrow> finish_handshake h testID (he_CablecheckVersion hello) caps s4)))))"

definition coordinatorHandshake :: "handshake_env \<Rightarrow> int \<Rightarrow> hs_conn \<Rightarrow> hs_conn \<times> (handshake_error + handshakeResult)" where
  "coordinatorHandshake h now c = close_on_error (coordinator_exchange h now (start_handshake h c))"

subsection \<open>The worker's half\<close>

definition mapWorkerAbort :: "handshake_env \<Rightarrow> Envelope \<Rightarrow> handshake_error" where
  "mapWorkerAbort h env =
     (case DecodePayload (cd_Abort (hv_codec h)) (Some env) of
        Inl _ \<Rightarrow> errProtocol
      | Inr ab \<Rightarrow>
          if ab_Reason ab = abortAuthFailed then errTokenRejected
          else if ab_Reason ab = abortVersionMismatch then errVersionMismatch
          else if ab_Reason ab = abortCapabilityMissing then errCapabilityMissing
          else errPeerAborted)"

definition workerReadReply ::
  "handshake_env \<Rightarrow> int \<Rightarrow> string \<Rightarrow> string \<Rightarrow> hs_state \<Rightarrow> hs_state \<times> (handshake_error + Envelope)" where
  "workerReadReply h now testID wantType s =
     (case readHandshakeFrame (now + HandshakeTimeout) s of
        (s1, Inl err) \<Rightarrow> (s1, Inl (if err = errHandshakeTimeout \<or> err = errProtocol then err else errPeerAborted))
      | (s1, Inr env) \<Rightarrow>
          if en_Type env = TypeAbort then (s1, Inl (mapWorkerAbort h env))
          else
            (case checkVersionOrAbort h now testID env s1 of
               (s2, Some err) \<Rightarrow> (s2, Inl err)
             | (s2, None) \<Rightarrow>
                 if en_Type env \<noteq> wantType
                 then (sendAbort h now testID abortProtocolError (''expected '' @ wantType @ '', got '' @ en_Type env) s2, Inl errProtocol)
                 else (s2, Inr env)))"

definition worker_exchange :: "handshake_env \<Rightarrow> int \<Rightarrow> hs_state \<Rightarrow> hs_state \<times> (handshake_error + handshakeResult)" where
  "worker_exchange h now s =
     (case hs_send h now TypeHello '''' '''' (PHello \<lparr>he_Token = cf_Token (hv_cfg h), he_Role = RolePC2,
             he_CablecheckVersion = hv_Version h, he_LocalIP = Addr_String (hv_LocalIP h), he_PeerIP = Addr_String (hv_PeerIP h)\<rparr>) s of
        (s1, Inl _) \<Rightarrow> (s1, Inl internal_failure)
      | (s1, Inr False) \<Rightarrow> (s1, Inl errPeerAborted)
      | (s1, Inr True) \<Rightarrow>
          (case workerReadReply h now '''' TypeHelloAck s1 of
             (s2, Inl err) \<Rightarrow> (s2, Inl err)
           | (s2, Inr ackEnv) \<Rightarrow>
               (case DecodePayload (cd_HelloAck (hv_codec h)) (Some ackEnv) of
                  Inl _ \<Rightarrow> (sendAbort h now '''' abortProtocolError ''malformed hello_ack payload'' s2, Inl errProtocol)
                | Inr ack \<Rightarrow>
                    if ha_TestID ack = ''''
                    then (sendAbort h now '''' abortProtocolError ''hello_ack carries no testId'' s2, Inl errProtocol)
                    else
                      (case hs_send h now TypeCapabilities (ha_TestID ack) '''' (PCapabilities (hv_Caps h)) s2 of
                         (s3, Inl _) \<Rightarrow> (s3, Inl internal_failure)
                       | (s3, Inr False) \<Rightarrow> (s3, Inl errPeerAborted)
                       | (s3, Inr True) \<Rightarrow>
                           (case workerReadReply h now (ha_TestID ack) TypeCapabilities s3 of
                              (s4, Inl err) \<Rightarrow> (s4, Inl err)
                            | (s4, Inr capsEnv) \<Rightarrow>
                                (case check_caps h now (ha_TestID ack) capsEnv s4 of
                                   (s5, Inl err) \<Rightarrow> (s5, Inl err)
                                 | (s5, Inr caps) \<Rightarrow> finish_handshake h (ha_TestID ack) (ha_CablecheckVersion ack) caps s5))))))"

definition workerHandshake :: "handshake_env \<Rightarrow> int \<Rightarrow> hs_conn \<Rightarrow> hs_conn \<times> (handshake_error + handshakeResult)" where
  "workerHandshake h now c = close_on_error (worker_exchange h now (start_handshake h c))"

subsection \<open>Establishing the connection: \<open>transport.go\<close>, \<open>session.go\<close>\<close>

text \<open>The host part of \<open>net.SplitHostPort\<close>.\<close>

definition index_of :: "char \<Rightarrow> string \<Rightarrow> nat" where
  "index_of c s = length (takeWhile (\<lambda>d. d \<noteq> c) s)"

definition SplitHost :: "string \<Rightarrow> string option" where
  "SplitHost s =
     (if CHR '':'' \<notin> set s then None
      else
        let i = length s - Suc (length (takeWhile (\<lambda>d. d \<noteq> CHR '':'') (rev s)))
        in if hd s = CHR ''['' then
             let e = index_of (CHR '']'') s
             in if CHR '']'' \<notin> set s \<or> Suc e \<noteq> i then None
                else if CHR ''['' \<in> set (drop 1 s) \<or> CHR '']'' \<in> set (drop (Suc e) s) then None
                else Some (take (e - 1) (drop 1 s))
           else
             if CHR '':'' \<in> set (take i s) \<or> CHR ''['' \<in> set s \<or> CHR '']'' \<in> set s then None
             else Some (take i s))"

definition verifyPeerIP :: "string \<Rightarrow> Addr \<Rightarrow> bool" where
  "verifyPeerIP remote want =
     (case SplitHost remote of
        None \<Rightarrow> False
      | Some host \<Rightarrow> (case ParseAddr host of None \<Rightarrow> False | Some got \<Rightarrow> Unmap got = Unmap want))"

definition maxAuthStrikes :: nat where "maxAuthStrikes = 3"
definition maxHandshakeRetries :: nat where "maxHandshakeRetries = 2"

text \<open>
  What the listener sees, and what became of each caller. The loop over \<open>Accept\<close> returns the outcome, or
  \<open>None\<close> while it still listens, and the connections it has dealt with.
\<close>

datatype incoming = AcceptFailed bool | Caller string hs_conn

datatype establish_error = ContextDone | AcceptError | GaveUp handshake_error | Fatal handshake_error

datatype caller_fate = WrongAddress | FailedWith handshake_error | Established

fun accept_loop :: "handshake_env \<Rightarrow> nat \<Rightarrow> nat \<Rightarrow> (int \<times> incoming) list
    \<Rightarrow> (establish_error + handshakeResult) option \<times> (hs_conn \<times> caller_fate) list" where
  "accept_loop h authStrikes retries [] = (None, [])"
| "accept_loop h authStrikes retries ((now, AcceptFailed cancelled) # ins) =
     (Some (Inl (if cancelled then ContextDone else AcceptError)), [])"
| "accept_loop h authStrikes retries ((now, Caller remote c) # ins) =
     (if \<not> verifyPeerIP remote (hv_PeerIP h) then
        (case accept_loop h authStrikes retries ins of (r, seen) \<Rightarrow> (r, (c\<lparr>hc_closed := True\<rparr>, WrongAddress) # seen))
      else
        (case coordinatorHandshake h now c of
           (c', Inr hs) \<Rightarrow> (Some (Inr hs), [(c', Established)])
         | (c', Inl err) \<Rightarrow>
             if err = errAuthFailed then
               if Suc authStrikes \<ge> maxAuthStrikes then (Some (Inl (GaveUp err)), [(c', FailedWith err)])
               else (case accept_loop h (Suc authStrikes) retries ins of (r, seen) \<Rightarrow> (r, (c', FailedWith err) # seen))
             else if handshakeRetryable err then
               if Suc retries \<ge> maxHandshakeRetries then (Some (Inl (GaveUp err)), [(c', FailedWith err)])
               else (case accept_loop h authStrikes (Suc retries) ins of (r, seen) \<Rightarrow> (r, (c', FailedWith err) # seen))
             else (Some (Inl (Fatal err)), [(c', FailedWith err)])))"

definition establishCoordinator :: "handshake_env \<Rightarrow> (int \<times> incoming) list
    \<Rightarrow> (establish_error + handshakeResult) option \<times> (hs_conn \<times> caller_fate) list" where
  "establishCoordinator h ins = accept_loop h 0 0 ins"

definition dialTotalBudget :: int where "dialTotalBudget = 60 * second"
definition dialRetryDelay :: int where "dialRetryDelay = 2 * second"

text \<open>
  \<open>Dial\<close>: for every attempt its outcome, whether the context was done after it, the clock after it and
  whether the context was done during the pause. \<open>None\<close> while attempts are outstanding; the second
  component counts attempts.
\<close>

datatype dial_outcome = DialOK | DialKeepAliveFailed | DialFailed

datatype dial_result = Dialed | DialKeepAlive | DialContext | DialGaveUp

fun dial_loop :: "int \<Rightarrow> (dial_outcome \<times> bool \<times> int \<times> bool) list \<Rightarrow> dial_result option \<times> nat" where
  "dial_loop deadline [] = (None, 0)"
| "dial_loop deadline ((ok, ctxErr, now, ctxDone) # rest) =
     (if ok = DialOK then (Some Dialed, 1)
      else if ok = DialKeepAliveFailed then (Some DialKeepAlive, 1)
      else if ctxErr then (Some DialContext, 1)
      else if now + dialRetryDelay > deadline then (Some DialGaveUp, 1)
      else if ctxDone then (Some DialContext, 1)
      else (case dial_loop deadline rest of (r, n) \<Rightarrow> (r, Suc n)))"

definition Dial :: "int \<Rightarrow> (dial_outcome \<times> bool \<times> int \<times> bool) list \<Rightarrow> dial_result option \<times> nat" where
  "Dial start attempts = dial_loop (start + dialTotalBudget) attempts"

subsection \<open>A successful handshake is authenticated\<close>

lemma readHandshakeFrame_ok:
  assumes "readHandshakeFrame deadline s = (s', Inr env)"
  obtains t rest d where "hc_in (ht_conn s) = (t, FrameRead env) # rest" "t < deadline"
    "Observe (en_MessageID env) (ht_dedup s) = (d, None)" "hc_in (ht_conn s') = rest" "hc_sent (ht_conn s') = hc_sent (ht_conn s)"
    "ht_ids s' = ht_ids s" "ht_dedup s' = d"
  using assms
  by (auto simp: readHandshakeFrame_def Let_def set_idle_def split: list.splits if_splits read_result.splits prod.splits option.splits)

lemma readHandshakeFrame_sent:
  "hc_sent (ht_conn (fst (readHandshakeFrame deadline s))) = hc_sent (ht_conn s)"
  by (auto simp: readHandshakeFrame_def Let_def set_idle_def split: list.splits read_result.splits prod.splits option.splits)

lemma check_hello_ok:
  "check_hello h now hello s = (s', None) \<longleftrightarrow> s' = s \<and> hv_sha h (he_Token hello) = hv_sha h (cf_Token (hv_cfg h))
     \<and> he_Role hello = RolePC2 \<and> helloIPClaimMatches (he_PeerIP hello) (hv_LocalIP h)
     \<and> helloIPClaimMatches (he_LocalIP hello) (hv_PeerIP h)"
  by (auto simp: check_hello_def TokenEqual_def)

lemma checkVersionOrAbort_ok: "checkVersionOrAbort h now i env s = (s', None) \<longleftrightarrow> s' = s \<and> en_ProtocolVersion env = Version"
  by (auto simp: checkVersionOrAbort_def CheckVersion_def)

lemma read_hello_ok:
  assumes "read_hello h now s = (s', Inr (env, hello))"
  shows "readHandshakeFrame (min (now + HelloTimeout) (now + HandshakeTimeout)) s = (s', Inr env)"
    "en_Type env = TypeHello" "en_ProtocolVersion env = Version" "DecodePayload (cd_Hello (hv_codec h)) (Some env) = Inr hello"
    "check_hello h now hello s' = (s', None)"
  using assms
  by (auto simp: read_hello_def check_hello_ok checkVersionOrAbort_ok split: prod.splits sum.splits if_splits option.splits)

lemma check_caps_ok:
  "check_caps h now i env s = (s', Inr caps) \<longleftrightarrow> s' = s \<and> checkAssignedTestID env i
     \<and> DecodePayload (cd_Capabilities (hv_codec h)) (Some env) = Inr caps \<and> ic_JSON (ca_Iperf3 caps)"
  by (auto simp: check_caps_def requireIperf3JSON_def split: sum.splits option.splits)

lemma read_worker_caps_ok:
  assumes "read_worker_caps h now i s = (s', Inr caps)"
  obtains env where "readHandshakeFrame (now + HandshakeTimeout) s = (s', Inr env)" "en_Type env = TypeCapabilities"
    "en_ProtocolVersion env = Version" "check_caps h now i env s' = (s', Inr caps)"
  using assms
  by (auto simp: read_worker_caps_def checkVersionOrAbort_ok check_caps_ok split: prod.splits sum.splits if_splits option.splits)

lemma hs_send_in: "hc_in (ht_conn (fst (hs_send h now typ i r p s))) = hc_in (ht_conn s)"
  by (auto simp: hs_send_def hs_mint_def hs_write_def Let_def split: prod.splits sum.splits)

text \<open>
  C25. Nobody gets a session without the token: when the coordinator's handshake succeeds, the first frame was a
  hello of the right protocol version that arrived in time, with a token of the same digest, the role pc2
  and address claims that match the configuration on both ends, the next frame was the capabilities of
  the worker, which include JSON output of iperf3, and the session carries the identifier the coordinator
  assigned.
\<close>

theorem coordinator_authenticates:
  assumes "coordinatorHandshake h now c = (c', Inr r)"
  shows "\<exists>t1 env1 hello t2 env2 rest.
    hc_in c = (t1, FrameRead env1) # (t2, FrameRead env2) # rest
    \<and> t1 < now + HelloTimeout \<and> en_Type env1 = TypeHello \<and> en_ProtocolVersion env1 = Version
    \<and> DecodePayload (cd_Hello (hv_codec h)) (Some env1) = Inr hello
    \<and> hv_sha h (he_Token hello) = hv_sha h (cf_Token (hv_cfg h)) \<and> he_Role hello = RolePC2
    \<and> helloIPClaimMatches (he_PeerIP hello) (hv_LocalIP h) \<and> helloIPClaimMatches (he_LocalIP hello) (hv_PeerIP h)
    \<and> t2 < now + HandshakeTimeout \<and> en_Type env2 = TypeCapabilities \<and> checkAssignedTestID env2 (hs_TestID r)
    \<and> DecodePayload (cd_Capabilities (hv_codec h)) (Some env2) = Inr (hs_PeerCaps r) \<and> ic_JSON (ca_Iperf3 (hs_PeerCaps r))
    \<and> newTestID h = Some (hs_TestID r)"
proof -
  let ?s = "start_handshake h c"
  obtain s' where x: "coordinator_exchange h now ?s = (s', Inr r)"
    using assms by (auto simp: coordinatorHandshake_def close_on_error_def split: prod.splits sum.splits)
  obtain s1 env1 hello i s2 s3 caps where e: "read_hello h now ?s = (s1, Inr (env1, hello))" "newTestID h = Some i"
    "hs_send h now TypeHelloAck i (en_MessageID env1) (PHelloAck \<lparr>ha_TestID = i, ha_CablecheckVersion = hv_Version h\<rparr>) s1 = (s2, Inr True)"
    "read_worker_caps h now i s2 = (s3, Inr caps)" "hs_TestID r = i" "hs_PeerCaps r = caps"
    using x by (auto simp: coordinator_exchange_def finish_handshake_def split: prod.splits sum.splits option.splits bool.splits)
  note hello = read_hello_ok [OF e(1)]
  obtain t1 rest1 where in1: "hc_in c = (t1, FrameRead env1) # rest1" "t1 < now + HelloTimeout" "hc_in (ht_conn s1) = rest1"
    by (rule readHandshakeFrame_ok [OF hello(1)]) (auto simp: start_handshake_def)
  obtain env2 where caps: "readHandshakeFrame (now + HandshakeTimeout) s2 = (s3, Inr env2)" "en_Type env2 = TypeCapabilities"
    "check_caps h now i env2 s3 = (s3, Inr caps)" by (rule read_worker_caps_ok [OF e(4)])
  obtain t2 rest where in2: "hc_in (ht_conn s2) = (t2, FrameRead env2) # rest" "t2 < now + HandshakeTimeout"
    by (rule readHandshakeFrame_ok [OF caps(1)])
  have "hc_in (ht_conn s2) = rest1" using hs_send_in [of h now TypeHelloAck i] e(3) in1(3) by (metis fst_conv)
  then show ?thesis using in1 in2 hello(2-5) caps(2,3) e(2,5,6) by (auto simp: check_hello_ok check_caps_ok)
qed

text \<open>A failed attempt to authenticate.\<close>

definition auth_abort :: "handshake_env \<Rightarrow> int \<Rightarrow> Envelope \<Rightarrow> bool" where
  "auth_abort h now e \<longleftrightarrow> en_Type e = TypeAbort \<and> en_TestID e = '''' \<and> en_InReplyTo e = '''' \<and> en_Timestamp e = now
     \<and> Inr (en_Payload e) = cd_marshal (hv_codec h) (PAbort \<lparr>ab_Reason = abortAuthFailed, ab_Stage = stageHandshake,
         ab_Detail = '''', ab_Initiator = cf_Role (hv_cfg h)\<rparr>)"

lemma sendAbort_sent:
  assumes "sendAbort h now '''' abortAuthFailed '''' s = s'"
  shows "hc_sent (ht_conn s') = hc_sent (ht_conn s) \<or> (\<exists>e. hc_sent (ht_conn s') = hc_sent (ht_conn s) @ [e] \<and> auth_abort h now e)"
  using assms
  by (auto simp: sendAbort_def hs_send_def hs_mint_def hs_write_def NewEnvelope_def auth_abort_def Let_def split: prod.splits sum.splits if_splits)

lemma check_caps_error: "check_caps h now i env s = (s', Inl err) \<Longrightarrow> err \<noteq> errAuthFailed"
  by (auto simp: check_caps_def requireIperf3JSON_def split: if_splits sum.splits option.splits)

lemma read_worker_caps_error: "read_worker_caps h now i s = (s', Inl err) \<Longrightarrow> err \<noteq> errAuthFailed"
  by (auto simp: read_worker_caps_def checkVersionOrAbort_def dest: check_caps_error
      split: prod.splits sum.splits if_splits option.splits)

lemma readHandshakeFrame_error: "readHandshakeFrame deadline s = (s', Inl err) \<Longrightarrow> err \<noteq> errAuthFailed"
  by (auto simp: readHandshakeFrame_def Let_def split: list.splits if_splits read_result.splits prod.splits option.splits)

lemma read_hello_auth:
  assumes "read_hello h now s = (s', Inl errAuthFailed)"
  obtains s1 where "hc_sent (ht_conn s1) = hc_sent (ht_conn s)" "s' = sendAbort h now '''' abortAuthFailed '''' s1"
proof -
  obtain s1 x where r: "readHandshakeFrame (min (now + HelloTimeout) (now + HandshakeTimeout)) s = (s1, x)" by fastforce
  have "hc_sent (ht_conn s1) = hc_sent (ht_conn s)" using readHandshakeFrame_sent r by (metis fst_conv)
  moreover have "s' = sendAbort h now '''' abortAuthFailed '''' s1"
    using assms r readHandshakeFrame_error [of _ s s1]
    by (auto simp: read_hello_def check_hello_def checkVersionOrAbort_def split: sum.splits if_splits option.splits)
  ultimately show thesis using that by blast
qed

text \<open>
  A wrong token learns nothing: when the coordinator rejects a caller for its token it has written at
  most one frame, an abort that carries only the reason, no detail and no test identifier, and it closes
  the connection.
\<close>

theorem wrong_token_learns_nothing:
  assumes "coordinatorHandshake h now c = (c', Inl errAuthFailed)"
  shows "hc_closed c' \<and> (hc_sent c' = hc_sent c \<or> (\<exists>e. hc_sent c' = hc_sent c @ [e] \<and> auth_abort h now e))"
proof -
  let ?s = "start_handshake h c"
  obtain s' where x: "coordinator_exchange h now ?s = (s', Inl errAuthFailed)" "c' = ht_conn (hs_close s')"
    using assms by (auto simp: coordinatorHandshake_def close_on_error_def split: prod.splits sum.splits)
  have "read_hello h now ?s = (s', Inl errAuthFailed)"
    using x(1) by (auto simp: coordinator_exchange_def finish_handshake_def dest: read_worker_caps_error
        split: prod.splits sum.splits option.splits bool.splits)
  then obtain s1 where "hc_sent (ht_conn s1) = hc_sent c" "s' = sendAbort h now '''' abortAuthFailed '''' s1"
    by (rule read_hello_auth) (simp add: start_handshake_def)
  with sendAbort_sent [of h now s1 s'] x(2) show ?thesis by (auto simp: hs_close_def)
qed

subsection \<open>Guessing is bounded\<close>

definition fate_count :: "(handshake_error \<Rightarrow> bool) \<Rightarrow> (hs_conn \<times> caller_fate) list \<Rightarrow> nat" where
  "fate_count P xs = length (filter (\<lambda>x. case snd x of FailedWith e \<Rightarrow> P e | _ \<Rightarrow> False) xs)"

lemma fate_count_simps [simp]:
  "fate_count P [] = 0"
  "fate_count P ((c, FailedWith e) # xs) = (if P e then Suc (fate_count P xs) else fate_count P xs)"
  "fate_count P ((c, WrongAddress) # xs) = fate_count P xs" "fate_count P ((c, Established) # xs) = fate_count P xs"
  by (simp_all add: fate_count_def)

lemma accept_loop_bounds:
  assumes "accept_loop h a r ins = (res, xs)" and "a < maxAuthStrikes" and "r < maxHandshakeRetries"
  shows "a + fate_count (\<lambda>e. e = errAuthFailed) xs \<le> maxAuthStrikes
    \<and> r + fate_count (\<lambda>e. e \<noteq> errAuthFailed \<and> handshakeRetryable e) xs \<le> maxHandshakeRetries
    \<and> fate_count (\<lambda>e. \<not> handshakeRetryable e) xs \<le> 1
    \<and> a + r + fate_count (\<lambda>_. True) xs < maxAuthStrikes + maxHandshakeRetries
    \<and> (\<forall>x\<in>set xs. hc_closed (fst x) \<or> snd x = Established)"
  using assms
proof (induction h a r ins arbitrary: res xs rule: accept_loop.induct)
  case (3 h a r now remote c ins)
  have closed: "hc_closed c'" if "coordinatorHandshake h now c = (c', Inl e)" for c' e
    using that by (auto simp: coordinatorHandshake_def close_on_error_def hs_close_def split: prod.splits sum.splits)
  show ?case
  proof (cases "verifyPeerIP remote (hv_PeerIP h)")
    case False
    with 3 show ?thesis by (auto split: prod.splits)
  next
    case True
    obtain c' out where o: "coordinatorHandshake h now c = (c', out)" by fastforce
    show ?thesis
    proof (cases out)
      case (Inr hs)
      with 3 True o show ?thesis by (auto simp: maxAuthStrikes_def maxHandshakeRetries_def)
    next
      case (Inl e)
      note IH = 3(2,3) [OF _ o [symmetric] Inl]
      have ra: "handshakeRetryable errAuthFailed" by (simp add: handshakeRetryable_def)
      show ?thesis
        using 3(4-6) True o Inl IH closed ra
        by (auto simp: maxAuthStrikes_def maxHandshakeRetries_def split: if_splits prod.splits)
    qed
  qed
qed auto

lemma accept_loop_Caller:
  assumes "accept_loop h a r ((now, Caller remote c) # ins) = (res, xs)"
  shows "\<exists>c' f xs'. xs = (c', f) # xs' \<and> (xs' = [] \<or> (\<exists>a' r' res'. accept_loop h a' r' ins = (res', xs')))
    \<and> (f = WrongAddress \<longrightarrow> \<not> verifyPeerIP remote (hv_PeerIP h) \<and> c' = c\<lparr>hc_closed := True\<rparr>)"
  using assms by (auto split: if_splits prod.splits sum.splits)

lemma accept_loop_wrong:
  "accept_loop h a r ins = (res, xs) \<Longrightarrow> x \<in> set xs \<Longrightarrow> snd x = WrongAddress
    \<Longrightarrow> \<exists>now remote c. (now, Caller remote c) \<in> set ins \<and> \<not> verifyPeerIP remote (hv_PeerIP h) \<and> fst x = c\<lparr>hc_closed := True\<rparr>"
proof (induction ins arbitrary: a r res xs)
  case (Cons i ins)
  obtain now y where i: "i = (now, y)" by fastforce
  show ?case
  proof (cases y)
    case (AcceptFailed b)
    with Cons.prems i show ?thesis by auto
  next
    case (Caller remote c)
    obtain c' f xs' a' r' res' where l: "xs = (c', f) # xs'" "xs' = [] \<or> accept_loop h a' r' ins = (res', xs')"
      "f = WrongAddress \<longrightarrow> \<not> verifyPeerIP remote (hv_PeerIP h) \<and> c' = c\<lparr>hc_closed := True\<rparr>"
      using accept_loop_Caller [OF Cons.prems(1) [unfolded i Caller]] by blast
    show ?thesis
    proof (cases "x = (c', f)")
      case True
      then have "\<not> verifyPeerIP remote (hv_PeerIP h) \<and> fst x = c\<lparr>hc_closed := True\<rparr>" using l(3) Cons.prems(3) by simp
      then show ?thesis using i Caller by (metis list.set_intros(1))
    next
      case False
      then have "x \<in> set xs'" "accept_loop h a' r' ins = (res', xs')" using l(1,2) Cons.prems(2) by auto
      from Cons.IH [OF this(2,1) Cons.prems(3)] show ?thesis by (meson list.set_intros(2))
    qed
  qed
qed simp



text \<open>
  The dialing worker stops: with a clock that advances by the pause between two attempts there are at most 31
  attempts.
\<close>

fun paced :: "int \<Rightarrow> (dial_outcome \<times> bool \<times> int \<times> bool) list \<Rightarrow> bool" where
  "paced lo [] = True"
| "paced lo ((ok, ctxErr, now, ctxDone) # rest) = (lo \<le> now \<and> paced (now + dialRetryDelay) rest)"

lemma dial_loop_attempts:
  "paced lo as \<Longrightarrow> dial_loop deadline as = (r, Suc (Suc n)) \<Longrightarrow> lo + dialRetryDelay * int (Suc n) \<le> deadline"
proof (induction as arbitrary: lo n)
  case (Cons a as)
  obtain ok ctxErr now ctxDone where a: "a = (ok, ctxErr, now, ctxDone)" by (metis prod_cases4)
  have go: "now + dialRetryDelay \<le> deadline" "dial_loop deadline as = (r, Suc n)"
    using Cons.prems(2) unfolding a by (auto split: if_splits prod.splits)
  have lo: "lo \<le> now" "paced (now + dialRetryDelay) as" using Cons.prems(1) a by simp_all
  show ?case
  proof (cases n)
    case 0
    then show ?thesis using go(1) lo(1) by simp
  next
    case (Suc m)
    have "now + dialRetryDelay + dialRetryDelay * int (Suc m) \<le> deadline" by (rule Cons.IH [OF lo(2) go(2) [unfolded Suc]])
    moreover have "dialRetryDelay * int (Suc n) = dialRetryDelay + dialRetryDelay * int (Suc m)" by (simp add: Suc distrib_left)
    ultimately show ?thesis using lo(1) by linarith
  qed
qed simp

lemma dial_bounded:
  assumes "paced start as"
  shows "snd (Dial start as) \<le> 31"
proof (cases "snd (Dial start as)")
  case (Suc k)
  show ?thesis
  proof (cases k)
    case (Suc n)
    then have "dial_loop (start + dialTotalBudget) as = (fst (Dial start as), Suc (Suc n))"
      using \<open>snd (Dial start as) = Suc k\<close> by (simp add: Dial_def prod_eq_iff)
    from dial_loop_attempts [OF assms this] have "int (Suc n) \<le> 30"
      by (simp add: dialTotalBudget_def dialRetryDelay_def second_def)
    then show ?thesis using \<open>snd (Dial start as) = Suc k\<close> Suc by simp
  qed (use \<open>snd (Dial start as) = Suc k\<close> in simp)
qed simp

subsection \<open>The two halves agree\<close>

text \<open>The frame a half writes as its n-th.\<close>

definition hs_frame :: "handshake_env \<Rightarrow> int \<Rightarrow> string \<Rightarrow> string \<Rightarrow> string \<Rightarrow> nat \<Rightarrow> string \<Rightarrow> Envelope" where
  "hs_frame h now typ testID inReplyTo n raw =
     \<lparr>en_ProtocolVersion = Version, en_TestID = testID, en_MessageID = message_id (cf_Role (hv_cfg h)) (of_nat n),
      en_InReplyTo = inReplyTo, en_Type = typ, en_Timestamp = now, en_Payload = raw\<rparr>"

definition fresh_conn :: "(int \<times> read_result) list \<Rightarrow> hs_conn" where
  "fresh_conn ins = \<lparr>hc_in = ins, hc_writeErr = (\<lambda>_. False), hc_writes = 0, hc_sent = [], hc_idle = None, hc_closed = False\<rparr>"

lemma hs_send_ok:
  assumes "cd_marshal (hv_codec h) p = Inr raw" and "ht_ids s = \<lparr>mk_role = cf_Role (hv_cfg h), mk_seq = of_nat k\<rparr>"
    and "hc_writeErr (ht_conn s) = (\<lambda>_. False)"
  shows "hs_send h now typ testID r p s
    = (s\<lparr>ht_conn := (ht_conn s)\<lparr>hc_writes := Suc (hc_writes (ht_conn s)), hc_sent := hc_sent (ht_conn s) @ [hs_frame h now typ testID r (Suc k) raw]\<rparr>,
         ht_ids := \<lparr>mk_role = cf_Role (hv_cfg h), mk_seq = of_nat (Suc k)\<rparr>\<rparr>, Inr True)"
  using assms Next_of_nat [of "cf_Role (hv_cfg h)" k]
  by (simp add: hs_send_def hs_mint_def hs_write_def NewEnvelope_def hs_frame_def Let_def del: of_nat_Suc)

lemma read_ok:
  assumes "hc_in (ht_conn s) = (t, FrameRead env) # rest" and "t < deadline" and "Observe (en_MessageID env) (ht_dedup s) = (d, None)"
  shows "readHandshakeFrame deadline s
    = (s\<lparr>ht_conn := (ht_conn s)\<lparr>hc_idle := Some (deadline - t), hc_in := rest\<rparr>, ht_dedup := d\<rparr>, Inr env)"
  using assms by (simp add: readHandshakeFrame_def set_idle_def Let_def)

lemma claim_matches: "length bs = 4 \<Longrightarrow> helloIPClaimMatches (Addr_String (Addr4 bs)) (Addr4 bs)"
  by (simp add: helloIPClaimMatches_def ParseAddr_String)

text \<open>
  Two peers that can talk to each other: configured for each other's addresses, the same token, capabilities
  with JSON output, payloads the codec carries.
\<close>

definition paired :: "handshake_env \<Rightarrow> handshake_env \<Rightarrow> bytes \<Rightarrow> bytes \<Rightarrow> bool" where
  "paired hc hw a b \<longleftrightarrow> cf_Role (hv_cfg hc) = RolePC1 \<and> cf_Role (hv_cfg hw) = RolePC2
     \<and> length a = 4 \<and> length b = 4 \<and> hv_LocalIP hc = Addr4 a \<and> hv_PeerIP hc = Addr4 b \<and> hv_LocalIP hw = Addr4 b \<and> hv_PeerIP hw = Addr4 a
     \<and> cf_Token (hv_cfg hw) = cf_Token (hv_cfg hc) \<and> hv_codec hw = hv_codec hc
     \<and> ic_JSON (ca_Iperf3 (hv_Caps hc)) \<and> ic_JSON (ca_Iperf3 (hv_Caps hw))"

definition hello_payload :: "handshake_env \<Rightarrow> payload" where
  "hello_payload h = PHello \<lparr>he_Token = cf_Token (hv_cfg h), he_Role = RolePC2,
     he_CablecheckVersion = hv_Version h, he_LocalIP = Addr_String (hv_LocalIP h), he_PeerIP = Addr_String (hv_PeerIP h)\<rparr>"

definition ack_payload :: "handshake_env \<Rightarrow> string \<Rightarrow> payload" where
  "ack_payload h testID = PHelloAck \<lparr>ha_TestID = testID, ha_CablecheckVersion = hv_Version h\<rparr>"

lemma carries_marshal: "carries c p \<Longrightarrow> \<exists>raw. cd_marshal c p = Inr raw \<and> raw \<noteq> '''' \<and> raw \<noteq> ''null''"
  by (auto simp: carries_def split: sum.splits)

lemma decode_carried:
  "cd_marshal c (PHello x) = Inr raw \<Longrightarrow> carries c (PHello x) \<Longrightarrow> en_Payload e = raw \<Longrightarrow> DecodePayload (cd_Hello c) (Some e) = Inr x"
  "cd_marshal c (PHelloAck y) = Inr raw \<Longrightarrow> carries c (PHelloAck y) \<Longrightarrow> en_Payload e = raw \<Longrightarrow> DecodePayload (cd_HelloAck c) (Some e) = Inr y"
  "cd_marshal c (PCapabilities z) = Inr raw \<Longrightarrow> carries c (PCapabilities z) \<Longrightarrow> en_Payload e = raw
    \<Longrightarrow> DecodePayload (cd_Capabilities c) (Some e) = Inr z"
  by (simp_all add: carries_def DecodePayload_def)

lemma observe_two:
  assumes "role \<noteq> []"
  obtains d1 d2 where "Observe (message_id role (of_nat 1)) NewDuplicateDetector = (d1, None)"
    "Observe (message_id role (of_nat 2)) d1 = (d2, None)" "seen_below role 2 d2"
proof -
  have "seen_below role 0 NewDuplicateDetector" by (auto simp: seen_below_def NewDuplicateDetector_def)
  then obtain d1 where d1: "Observe (message_id role (of_nat 1)) NewDuplicateDetector = (d1, None)" "seen_below role 1 d1"
    using observe_later [OF assms, of 0 _ 1] by auto
  then obtain d2 where "Observe (message_id role (of_nat 2)) d1 = (d2, None)" "seen_below role 2 d2"
    using observe_later [OF assms d1(2), of 2] by auto
  with d1(1) show thesis using that by blast
qed

lemma roles_not_Nil [simp]: "RolePC1 \<noteq> []" "RolePC2 \<noteq> []"
  by (simp_all add: RolePC1_def RolePC2_def)

lemma coordinator_run:
  assumes "paired hc hw a b" and "newTestID hc = Some i"
    and raws: "cd_marshal (hv_codec hc) (hello_payload hw) = Inr rh" "cd_marshal (hv_codec hc) (ack_payload hc i) = Inr ra"
      "cd_marshal (hv_codec hc) (PCapabilities (hv_Caps hw)) = Inr rw" "cd_marshal (hv_codec hc) (PCapabilities (hv_Caps hc)) = Inr rc"
    and carried: "carries (hv_codec hc) (hello_payload hw)" "carries (hv_codec hc) (PCapabilities (hv_Caps hw))"
    and times: "t1 < n + HelloTimeout" "t2 < n + HandshakeTimeout"
  shows "\<exists>c' d. coordinatorHandshake hc n (fresh_conn [(t1, FrameRead (hs_frame hw m TypeHello '''' '''' 1 rh)),
        (t2, FrameRead (hs_frame hw m TypeCapabilities i '''' 2 rw))])
      = (c', Inr \<lparr>hs_TestID = i, hs_PeerVersion = hv_Version hw, hs_PeerCaps = hv_Caps hw,
           hs_IDs = \<lparr>mk_role = RolePC1, mk_seq = of_nat 2\<rparr>, hs_Dedup = d\<rparr>)
    \<and> hc_sent c' = [hs_frame hc n TypeHelloAck i (message_id RolePC2 (of_nat 1)) 1 ra, hs_frame hc n TypeCapabilities i '''' 2 rc]
    \<and> seen_below RolePC2 2 d"
proof -
  let ?e1 = "hs_frame hw m TypeHello '''' '''' 1 rh" and ?e2 = "hs_frame hw m TypeCapabilities i '''' 2 rw"
  obtain d1 d2 where d: "Observe (message_id RolePC2 (of_nat 1)) NewDuplicateDetector = (d1, None)"
    "Observe (message_id RolePC2 (of_nat 2)) d1 = (d2, None)" "seen_below RolePC2 2 d2" by (rule observe_two [OF roles_not_Nil(2)])
  note P = assms(1) [unfolded paired_def]
  define s0 where "s0 = start_handshake hc (fresh_conn [(t1, FrameRead ?e1), (t2, FrameRead ?e2)])"
  have ids: "en_MessageID ?e1 = message_id RolePC2 (of_nat 1)" "en_MessageID ?e2 = message_id RolePC2 (of_nat 2)"
    using P by (simp_all add: hs_frame_def)
  obtain s1 where s1: "read_hello hc n s0 = (s1, Inr (?e1, \<lparr>he_Token = cf_Token (hv_cfg hw), he_Role = RolePC2,
     he_CablecheckVersion = hv_Version hw, he_LocalIP = Addr_String (hv_LocalIP hw), he_PeerIP = Addr_String (hv_PeerIP hw)\<rparr>))"
    "hc_in (ht_conn s1) = [(t2, FrameRead ?e2)]" "ht_dedup s1 = d1" "ht_ids s1 = \<lparr>mk_role = RolePC1, mk_seq = of_nat 0\<rparr>"
    "hc_sent (ht_conn s1) = []" "hc_writeErr (ht_conn s1) = (\<lambda>_. False)"
  proof -
    have dec: "DecodePayload (cd_Hello (hv_codec hc)) (Some ?e1) = Inr \<lparr>he_Token = cf_Token (hv_cfg hw), he_Role = RolePC2,
     he_CablecheckVersion = hv_Version hw, he_LocalIP = Addr_String (hv_LocalIP hw), he_PeerIP = Addr_String (hv_PeerIP hw)\<rparr>"
      using decode_carried(1) raws(1) carried(1) unfolding hello_payload_def by (simp add: hs_frame_def)
    have "readHandshakeFrame (min (n + HelloTimeout) (n + HandshakeTimeout)) s0
      = (s0\<lparr>ht_conn := (ht_conn s0)\<lparr>hc_idle := Some (min (n + HelloTimeout) (n + HandshakeTimeout) - t1), hc_in := [(t2, FrameRead ?e2)]\<rparr>, ht_dedup := d1\<rparr>, Inr ?e1)"
      using times(1) d(1) ids(1)
      by (intro read_ok) (simp_all add: s0_def start_handshake_def fresh_conn_def HelloTimeout_def HandshakeTimeout_def second_def)
    moreover have "en_Type ?e1 = TypeHello" "en_ProtocolVersion ?e1 = Version" by (simp_all add: hs_frame_def)
    ultimately show thesis using dec P that
      by (simp add: read_hello_def checkVersionOrAbort_def CheckVersion_def check_hello_def TokenEqual_def claim_matches
          s0_def start_handshake_def fresh_conn_def NewMessageIDMaker_def)
  qed
  obtain s2 where s2: "hs_send hc n TypeHelloAck i (en_MessageID ?e1) (PHelloAck \<lparr>ha_TestID = i, ha_CablecheckVersion = hv_Version hc\<rparr>) s1 = (s2, Inr True)"
    "hc_in (ht_conn s2) = [(t2, FrameRead ?e2)]" "ht_dedup s2 = d1" "ht_ids s2 = \<lparr>mk_role = RolePC1, mk_seq = of_nat 1\<rparr>"
    "hc_sent (ht_conn s2) = [hs_frame hc n TypeHelloAck i (message_id RolePC2 (of_nat 1)) 1 ra]" "hc_writeErr (ht_conn s2) = (\<lambda>_. False)"
    using hs_send_ok [OF raws(2), of s1 0 n TypeHelloAck i "en_MessageID ?e1"] s1 P ids(1) by (simp add: ack_payload_def)
  obtain s3 where s3: "read_worker_caps hc n i s2 = (s3, Inr (hv_Caps hw))" "ht_dedup s3 = d2" "ht_ids s3 = ht_ids s2"
    "hc_sent (ht_conn s3) = hc_sent (ht_conn s2)" "hc_writeErr (ht_conn s3) = (\<lambda>_. False)"
  proof -
    have "DecodePayload (cd_Capabilities (hv_codec hc)) (Some ?e2) = Inr (hv_Caps hw)"
      using decode_carried(3) raws(3) carried(2) by (simp add: hs_frame_def)
    moreover have "readHandshakeFrame (n + HandshakeTimeout) s2
      = (s2\<lparr>ht_conn := (ht_conn s2)\<lparr>hc_idle := Some (n + HandshakeTimeout - t2), hc_in := []\<rparr>, ht_dedup := d2\<rparr>, Inr ?e2)"
      using times(2) d(2) ids(2) s2(2,3) by (intro read_ok) simp_all
    moreover have "en_Type ?e2 = TypeCapabilities" "en_ProtocolVersion ?e2 = Version" "checkAssignedTestID ?e2 i"
      by (simp_all add: hs_frame_def checkAssignedTestID_def)
    ultimately show thesis using P s2(6) that
      by (simp add: read_worker_caps_def checkVersionOrAbort_def CheckVersion_def check_caps_def requireIperf3JSON_def)
  qed
  obtain s4 where s4: "hs_send hc n TypeCapabilities i '''' (PCapabilities (hv_Caps hc)) s3 = (s4, Inr True)" "ht_dedup s4 = d2"
    "ht_ids s4 = \<lparr>mk_role = RolePC1, mk_seq = of_nat 2\<rparr>"
    "hc_sent (ht_conn s4) = hc_sent (ht_conn s3) @ [hs_frame hc n TypeCapabilities i '''' 2 rc]"
    using hs_send_ok [OF raws(4), of s3 1 n TypeCapabilities i "''''"] s2(4) s3 P by (simp add: numeral_2_eq_2)
  have "coordinator_exchange hc n s0 = finish_handshake hc i (hv_Version hw) (hv_Caps hw) s4"
    using s1(1) s2(1) s3(1) s4(1) assms(2) by (simp add: coordinator_exchange_def)
  then show ?thesis using s4 s3(4) s2(5) d(3) unfolding coordinatorHandshake_def s0_def [symmetric]
    by (simp add: finish_handshake_def close_on_error_def set_idle_def)
qed


lemma worker_run:
  assumes "paired hc hw a b" and "i \<noteq> ''''"
    and raws: "cd_marshal (hv_codec hc) (hello_payload hw) = Inr rh" "cd_marshal (hv_codec hc) (ack_payload hc i) = Inr ra"
      "cd_marshal (hv_codec hc) (PCapabilities (hv_Caps hw)) = Inr rw" "cd_marshal (hv_codec hc) (PCapabilities (hv_Caps hc)) = Inr rc"
    and carried: "carries (hv_codec hc) (ack_payload hc i)" "carries (hv_codec hc) (PCapabilities (hv_Caps hc))"
    and times: "t1 < m + HandshakeTimeout" "t2 < m + HandshakeTimeout"
  shows "\<exists>c' d. workerHandshake hw m (fresh_conn [(t1, FrameRead (hs_frame hc n TypeHelloAck i r 1 ra)),
        (t2, FrameRead (hs_frame hc n TypeCapabilities i '''' 2 rc))])
      = (c', Inr \<lparr>hs_TestID = i, hs_PeerVersion = hv_Version hc, hs_PeerCaps = hv_Caps hc,
           hs_IDs = \<lparr>mk_role = RolePC2, mk_seq = of_nat 2\<rparr>, hs_Dedup = d\<rparr>)
    \<and> hc_sent c' = [hs_frame hw m TypeHello '''' '''' 1 rh, hs_frame hw m TypeCapabilities i '''' 2 rw]
    \<and> seen_below RolePC1 2 d"
proof -
  let ?e1 = "hs_frame hc n TypeHelloAck i r 1 ra" and ?e2 = "hs_frame hc n TypeCapabilities i '''' 2 rc"
  obtain d1 d2 where d: "Observe (message_id RolePC1 (of_nat 1)) NewDuplicateDetector = (d1, None)"
    "Observe (message_id RolePC1 (of_nat 2)) d1 = (d2, None)" "seen_below RolePC1 2 d2" by (rule observe_two [OF roles_not_Nil(1)])
  note P = assms(1) [unfolded paired_def]
  have raws': "cd_marshal (hv_codec hw) (hello_payload hw) = Inr rh" "cd_marshal (hv_codec hw) (PCapabilities (hv_Caps hw)) = Inr rw"
    using raws P by simp_all
  define s0 where "s0 = start_handshake hw (fresh_conn [(t1, FrameRead ?e1), (t2, FrameRead ?e2)])"
  have ids: "en_MessageID ?e1 = message_id RolePC1 (of_nat 1)" "en_MessageID ?e2 = message_id RolePC1 (of_nat 2)"
    and types: "en_Type ?e1 = TypeHelloAck" "en_Type ?e2 = TypeCapabilities" "en_ProtocolVersion ?e1 = Version" "en_ProtocolVersion ?e2 = Version"
    "checkAssignedTestID ?e2 i"
    using P by (simp_all add: hs_frame_def checkAssignedTestID_def)
  have other: "TypeHelloAck \<noteq> TypeAbort" "TypeCapabilities \<noteq> TypeAbort" by (simp_all add: TypeHelloAck_def TypeAbort_def TypeCapabilities_def)
  obtain s1 where s1: "hs_send hw m TypeHello '''' '''' (hello_payload hw) s0 = (s1, Inr True)"
    "hc_in (ht_conn s1) = [(t1, FrameRead ?e1), (t2, FrameRead ?e2)]" "ht_dedup s1 = NewDuplicateDetector"
    "ht_ids s1 = \<lparr>mk_role = RolePC2, mk_seq = of_nat 1\<rparr>" "hc_writeErr (ht_conn s1) = (\<lambda>_. False)"
    "hc_sent (ht_conn s1) = [hs_frame hw m TypeHello '''' '''' 1 rh]"
    using hs_send_ok [OF raws'(1), of s0 0 m TypeHello "''''" "''''"] P
    by (simp add: s0_def start_handshake_def fresh_conn_def NewMessageIDMaker_def)
  have "readHandshakeFrame (m + HandshakeTimeout) s1
      = (s1\<lparr>ht_conn := (ht_conn s1)\<lparr>hc_idle := Some (m + HandshakeTimeout - t1), hc_in := [(t2, FrameRead ?e2)]\<rparr>, ht_dedup := d1\<rparr>, Inr ?e1)"
    using times(1) d(1) ids(1) s1(2,3) by (intro read_ok) simp_all
  then obtain s2 where s2: "workerReadReply hw m '''' TypeHelloAck s1 = (s2, Inr ?e1)" "hc_in (ht_conn s2) = [(t2, FrameRead ?e2)]"
    "ht_dedup s2 = d1" "ht_ids s2 = ht_ids s1" "hc_writeErr (ht_conn s2) = (\<lambda>_. False)" "hc_sent (ht_conn s2) = hc_sent (ht_conn s1)"
    using types other s1(5) by (simp add: workerReadReply_def checkVersionOrAbort_def CheckVersion_def)
  obtain s3 where s3: "hs_send hw m TypeCapabilities i '''' (PCapabilities (hv_Caps hw)) s2 = (s3, Inr True)"
    "hc_in (ht_conn s3) = [(t2, FrameRead ?e2)]" "ht_dedup s3 = d1" "ht_ids s3 = \<lparr>mk_role = RolePC2, mk_seq = of_nat 2\<rparr>"
    "hc_sent (ht_conn s3) = [hs_frame hw m TypeHello '''' '''' 1 rh, hs_frame hw m TypeCapabilities i '''' 2 rw]"
    using hs_send_ok [OF raws'(2), of s2 1 m TypeCapabilities i "''''"] s2 s1(4,6) P by (simp add: numeral_2_eq_2)
  have "readHandshakeFrame (m + HandshakeTimeout) s3
      = (s3\<lparr>ht_conn := (ht_conn s3)\<lparr>hc_idle := Some (m + HandshakeTimeout - t2), hc_in := []\<rparr>, ht_dedup := d2\<rparr>, Inr ?e2)"
    using times(2) d(2) ids(2) s3(2,3) by (intro read_ok) simp_all
  then obtain s4 where s4: "workerReadReply hw m i TypeCapabilities s3 = (s4, Inr ?e2)" "ht_dedup s4 = d2" "ht_ids s4 = ht_ids s3"
    "hc_sent (ht_conn s4) = hc_sent (ht_conn s3)"
    using types other by (simp add: workerReadReply_def checkVersionOrAbort_def CheckVersion_def)
  have ack: "DecodePayload (cd_HelloAck (hv_codec hw)) (Some ?e1) = Inr \<lparr>ha_TestID = i, ha_CablecheckVersion = hv_Version hc\<rparr>"
    using decode_carried(2) raws(2) carried(1) P unfolding ack_payload_def by (simp add: hs_frame_def)
  have "check_caps hw m i ?e2 s4 = (s4, Inr (hv_Caps hc))"
    using decode_carried(3) raws(4) carried(2) P types(5) by (simp add: check_caps_ok) (simp add: hs_frame_def)
  then have "worker_exchange hw m s0 = finish_handshake hw i (hv_Version hc) (hv_Caps hc) s4"
    using s1(1) s2(1) s3(1) s4(1) ack assms(2) by (simp add: worker_exchange_def hello_payload_def)
  then show ?thesis using s4 s3(4,5) d(3) unfolding workerHandshake_def s0_def [symmetric]
    by (simp add: finish_handshake_def close_on_error_def set_idle_def)
qed

lemma test_id_not_Nil: "newTestID h = Some i \<Longrightarrow> i \<noteq> ''''"
  by (auto simp: newTestID_def)

text \<open>
  C24. The two halves fit together: between peers configured for each other, with the same token, the frames
  each side writes are exactly those the other expects; both handshakes succeed with the same test
  identifier and each other's capabilities; and from then on no frame of either session, whatever happens in
  it, is dropped by the other as a duplicate.
\<close>

theorem handshake_agreement:
  assumes "paired hc hw a b" and "newTestID hc = Some i"
    and "carries (hv_codec hc) (hello_payload hw)" "carries (hv_codec hc) (ack_payload hc i)"
      "carries (hv_codec hc) (PCapabilities (hv_Caps hw))" "carries (hv_codec hc) (PCapabilities (hv_Caps hc))"
    and "t1 < n + HelloTimeout" "t2 < n + HandshakeTimeout" "t3 < m + HandshakeTimeout" "t4 < m + HandshakeTimeout"
  shows "\<exists>hello wcaps ack ccaps c1 r1 c2 r2.
      coordinatorHandshake hc n (fresh_conn [(t1, FrameRead hello), (t2, FrameRead wcaps)]) = (c1, Inr r1) \<and> hc_sent c1 = [ack, ccaps]
    \<and> workerHandshake hw m (fresh_conn [(t3, FrameRead ack), (t4, FrameRead ccaps)]) = (c2, Inr r2) \<and> hc_sent c2 = [hello, wcaps]
    \<and> hs_TestID r1 = i \<and> hs_TestID r2 = i \<and> hs_PeerCaps r1 = hv_Caps hw \<and> hs_PeerCaps r2 = hv_Caps hc
    \<and> (\<forall>as now. 2 * length as < 2 ^ 64 - 8 \<longrightarrow>
         (let ids1 = map en_MessageID (se_sent (run_actions (hv_session hc) as (startSession (hv_session hc) now r1)));
              ids2 = map en_MessageID (se_sent (run_actions (hv_session hw) as (startSession (hv_session hw) now r2)))
          in accepted_ids ids1 (hs_Dedup r2) = ids1 \<and> accepted_ids ids2 (hs_Dedup r1) = ids2))"
proof -
  obtain rh ra rw rc where raws: "cd_marshal (hv_codec hc) (hello_payload hw) = Inr rh" "cd_marshal (hv_codec hc) (ack_payload hc i) = Inr ra"
    "cd_marshal (hv_codec hc) (PCapabilities (hv_Caps hw)) = Inr rw" "cd_marshal (hv_codec hc) (PCapabilities (hv_Caps hc)) = Inr rc"
    using assms(3-6) carries_marshal by meson
  obtain c1 d1 where 1: "coordinatorHandshake hc n (fresh_conn [(t1, FrameRead (hs_frame hw m TypeHello '''' '''' 1 rh)),
        (t2, FrameRead (hs_frame hw m TypeCapabilities i '''' 2 rw))])
      = (c1, Inr \<lparr>hs_TestID = i, hs_PeerVersion = hv_Version hw, hs_PeerCaps = hv_Caps hw,
           hs_IDs = \<lparr>mk_role = RolePC1, mk_seq = of_nat 2\<rparr>, hs_Dedup = d1\<rparr>)"
    "hc_sent c1 = [hs_frame hc n TypeHelloAck i (message_id RolePC2 (of_nat 1)) 1 ra, hs_frame hc n TypeCapabilities i '''' 2 rc]"
    "seen_below RolePC2 2 d1"
    using coordinator_run [OF assms(1,2) raws assms(3,5,7,8), of m] by blast
  obtain c2 d2 where 2: "workerHandshake hw m (fresh_conn [(t3, FrameRead (hs_frame hc n TypeHelloAck i (message_id RolePC2 (of_nat 1)) 1 ra)),
        (t4, FrameRead (hs_frame hc n TypeCapabilities i '''' 2 rc))])
      = (c2, Inr \<lparr>hs_TestID = i, hs_PeerVersion = hv_Version hc, hs_PeerCaps = hv_Caps hc,
           hs_IDs = \<lparr>mk_role = RolePC2, mk_seq = of_nat 2\<rparr>, hs_Dedup = d2\<rparr>)"
    "hc_sent c2 = [hs_frame hw m TypeHello '''' '''' 1 rh, hs_frame hw m TypeCapabilities i '''' 2 rw]" "seen_below RolePC1 2 d2"
    using worker_run [OF assms(1) test_id_not_Nil [OF assms(2)] raws assms(4,6,9,10), of n "message_id RolePC2 (of_nat 1)"] by blast
  have acc: "let ids = map en_MessageID (se_sent (run_actions v as (startSession v now r))) in accepted_ids ids d = ids"
    if "hs_IDs r = \<lparr>mk_role = role, mk_seq = of_nat 2\<rparr>" "role \<noteq> []" "seen_below role 2 d" "2 * length as < 2 ^ 64 - 8" for v as now r role d
    using session_frames_accepted [OF that(1,2) _ that(3), of as v now] that(4) by simp
  show ?thesis
    using 1 2 acc [of _ RolePC1 d2 _ "hv_session hc"] acc [of _ RolePC2 d1 _ "hv_session hw"]
    by (intro exI conjI allI impI) (assumption | simp add: Let_def)+
qed

subsection \<open>Two concrete peers\<close>

definition pair_hello :: Hello where
  "pair_hello = \<lparr>he_Token = ''t0'', he_Role = ''pc2'', he_CablecheckVersion = ''1.0.0'', he_LocalIP = ''10.0.0.2'', he_PeerIP = ''10.0.0.1''\<rparr>"

definition pair_ack :: HelloAck where
  "pair_ack = \<lparr>ha_TestID = ''ct-20260101-000000-00ff'', ha_CablecheckVersion = ''1.0.0''\<rparr>"

definition pair_codec :: codec where
  "pair_codec = demo_codec\<lparr>cd_Hello := (\<lambda>_. Inr pair_hello), cd_HelloAck := (\<lambda>_. Inr pair_ack), cd_Capabilities := (\<lambda>_. Inr demo_caps)\<rparr>"

definition pair_env :: "string \<Rightarrow> string \<Rightarrow> bytes \<Rightarrow> bytes \<Rightarrow> handshake_env" where
  "pair_env role token ip peer =
     \<lparr>hv_session = (demo_session_env role)\<lparr>sv_codec := pair_codec, sv_cfg := (sv_cfg (demo_session_env role))\<lparr>cf_Token := token\<rparr>\<rparr>,
      hv_LocalIP = Addr4 ip, hv_PeerIP = Addr4 peer, hv_Version = ''1.0.0'', hv_Caps = demo_caps, hv_sha = map of_char,
      hv_stamp = ''20260101-000000'', hv_rand = Some [0, 255]\<rparr>"

abbreviation pair_pc1 :: handshake_env where "pair_pc1 \<equiv> pair_env RolePC1 ''t0'' [10, 0, 0, 1] [10, 0, 0, 2]"
abbreviation pair_pc2 :: handshake_env where "pair_pc2 \<equiv> pair_env RolePC2 ''t0'' [10, 0, 0, 2] [10, 0, 0, 1]"
abbreviation pair_wrong :: handshake_env where "pair_wrong \<equiv> pair_env RolePC1 ''t1'' [10, 0, 0, 1] [10, 0, 0, 2]"

definition pair_conn :: hs_conn where
  "pair_conn = fresh_conn [(1, FrameRead (hs_frame pair_pc2 0 TypeHello '''' '''' 1 ''{}'')),
     (2, FrameRead (hs_frame pair_pc2 0 TypeCapabilities (ha_TestID pair_ack) '''' 2 ''{}''))]"

lemma pair_facts:
  "paired pair_pc1 pair_pc2 [10, 0, 0, 1] [10, 0, 0, 2]" "newTestID pair_pc1 = Some (ha_TestID pair_ack)"
  "carries (hv_codec pair_pc1) (hello_payload pair_pc2)" "carries (hv_codec pair_pc1) (ack_payload pair_pc1 (ha_TestID pair_ack))"
  "carries (hv_codec pair_pc1) (PCapabilities (hv_Caps pair_pc2))" "carries (hv_codec pair_pc1) (PCapabilities (hv_Caps pair_pc1))"
  subgoal by (simp add: paired_def pair_env_def demo_session_env_def demo_caps_def)
  subgoal by code_simp
  subgoal
  proof -
    have "hello_payload pair_pc2 = PHello pair_hello" by code_simp
    then show ?thesis by (simp add: carries_def pair_env_def pair_codec_def demo_codec_def)
  qed
  subgoal
  proof -
    have "ack_payload pair_pc1 (ha_TestID pair_ack) = PHelloAck pair_ack" by code_simp
    then show ?thesis by (simp add: carries_def pair_env_def pair_codec_def demo_codec_def)
  qed
  by (simp_all add: carries_def pair_env_def pair_codec_def demo_codec_def)

theorem handshake_agreement_witness:
  "\<exists>hello wcaps ack ccaps c1 r1 c2 r2.
      coordinatorHandshake pair_pc1 0 (fresh_conn [(1, FrameRead hello), (2, FrameRead wcaps)]) = (c1, Inr r1) \<and> hc_sent c1 = [ack, ccaps]
    \<and> workerHandshake pair_pc2 0 (fresh_conn [(1, FrameRead ack), (2, FrameRead ccaps)]) = (c2, Inr r2) \<and> hc_sent c2 = [hello, wcaps]
    \<and> hs_TestID r1 = hs_TestID r2"
proof -
  have t: "1 < 0 + HelloTimeout" "2 < 0 + HandshakeTimeout" "1 < 0 + HandshakeTimeout"
    by (simp_all add: HelloTimeout_def HandshakeTimeout_def second_def)
  show ?thesis using handshake_agreement [OF pair_facts t(1,2,3,2)] by metis
qed

theorem coordinator_authenticates_witness:
  "\<exists>c' r. coordinatorHandshake pair_pc1 0 pair_conn = (c', Inr r) \<and> newTestID pair_pc1 = Some (hs_TestID r) \<and> ic_JSON (ca_Iperf3 (hs_PeerCaps r))"
proof -
  have "case snd (coordinatorHandshake pair_pc1 0 pair_conn) of Inl _ \<Rightarrow> False | Inr _ \<Rightarrow> True" by code_simp
  then obtain c' r where "coordinatorHandshake pair_pc1 0 pair_conn = (c', Inr r)" by (metis prod.collapse sum.case_eq_if sum.collapse(2))
  with coordinator_authenticates [OF this] show ?thesis by blast
qed


end
