(* ===== verification/Settings.thy ===== *)
theory Settings
  imports NetIP Bitrate
begin

section \<open>The run configuration: \<open>internal/config\<close>\<close>

text \<open>
  \<open>Resolve\<close> turns the raw flags into a configuration or the first error in the canonical order; each of its
  numbered steps is a definition. Flags set explicitly are a set of names. The working directory, the file
  system and the random source are parameters. An error is a constructor of \<open>config_msg\<close> with the values
  its text shows; the formatting is not modelled.
\<close>

subsection \<open>Types: \<open>config.go\<close>, \<open>presets.go\<close>\<close>

definition role_pc1 :: string where "role_pc1 = ''pc1''"
definition role_pc2 :: string where "role_pc2 = ''pc2''"

definition ModeQuick :: string where "ModeQuick = ''quick''"
definition ModeStandard :: string where "ModeStandard = ''standard''"
definition ModeSoak :: string where "ModeSoak = ''soak''"

definition SoakLoadPeriodic :: string where "SoakLoadPeriodic = ''periodic''"
definition SoakLoadContinuous :: string where "SoakLoadContinuous = ''continuous''"

record RunConfig =
  rc_Role :: string
  rc_LocalIP :: Addr
  rc_PeerIP :: Addr
  rc_Interface :: string
  rc_Mode :: string
  rc_ControlPort :: u16
  rc_IperfPort :: u16
  rc_Token :: string
  rc_TokenGenerated :: bool
  rc_TCPDuration :: int
  rc_UDPDuration :: int
  rc_UDPRate :: bitrate
  rc_ParallelStreams :: int
  rc_PingCount :: int
  rc_PingInterval :: int
  rc_TCPRepeats :: int
  rc_SoakDuration :: int
  rc_SoakLoad :: string
  rc_MonitorInterval :: int
  rc_CableTest :: bool
  rc_CableTestTDR :: bool
  rc_OutputDir :: string
  rc_Color :: string
  rc_Quiet :: bool
  rc_Verbose :: bool
  rc_NonInteractive :: bool
  rc_NoSudo :: bool
  rc_NoReportTransfer :: bool
  rc_AllowVirtualInterface :: bool

record RawRunFlags =
  rf_Role :: string
  rf_LocalIP :: string
  rf_PeerIP :: string
  rf_Interface :: string
  rf_Mode :: string
  rf_ControlPort :: int
  rf_IperfPort :: int
  rf_Token :: string
  rf_TCPDuration :: int
  rf_UDPDuration :: int
  rf_UDPRate :: string
  rf_ParallelStreams :: int
  rf_SoakDuration :: int
  rf_SoakLoad :: string
  rf_MonitorInterval :: int
  rf_CableTest :: bool
  rf_CableTestTDR :: bool
  rf_Output :: string
  rf_Color :: string
  rf_Quiet :: bool
  rf_Verbose :: bool
  rf_NonInteractive :: bool
  rf_NoSudo :: bool
  rf_NoReportTransfer :: bool
  rf_AllowVirtualInterface :: bool

record preset =
  ps_tcpDuration :: int
  ps_udpDuration :: int
  ps_parallelStreams :: int
  ps_pingCount :: int
  ps_pingInterval :: int
  ps_tcpRepeats :: int
  ps_monitorInterval :: int
  ps_soakDuration :: int
  ps_soakLoad :: string

definition presets :: "(string \<times> preset) list" where
  "presets =
     [(ModeQuick, \<lparr>ps_tcpDuration = 30 * second, ps_udpDuration = 20 * second, ps_parallelStreams = 4, ps_pingCount = 500,
         ps_pingInterval = 20 * millisecond, ps_tcpRepeats = 1, ps_monitorInterval = second, ps_soakDuration = 0, ps_soakLoad = ''''\<rparr>),
      (ModeStandard, \<lparr>ps_tcpDuration = 60 * second, ps_udpDuration = 30 * second, ps_parallelStreams = 4, ps_pingCount = 1500,
         ps_pingInterval = 20 * millisecond, ps_tcpRepeats = 2, ps_monitorInterval = second, ps_soakDuration = 0, ps_soakLoad = ''''\<rparr>),
      (ModeSoak, \<lparr>ps_tcpDuration = 60 * second, ps_udpDuration = 20 * second, ps_parallelStreams = 4, ps_pingCount = 500,
         ps_pingInterval = 20 * millisecond, ps_tcpRepeats = 1, ps_monitorInterval = second, ps_soakDuration = 3600 * second,
         ps_soakLoad = SoakLoadPeriodic\<rparr>)]"

subsection \<open>UDP rates: \<open>config.go\<close>\<close>

definition udpRateFloor :: bitrate where "udpRateFloor = 10000000"
definition udpUnknownLinkRate :: bitrate where "udpUnknownLinkRate = 100000000"

definition DefaultUDPRate :: "bitrate \<Rightarrow> bitrate \<times> string list" where
  "DefaultUDPRate negotiated =
     (if negotiated = 0
      then (udpUnknownLinkRate,
        [''link speed unknown; defaulting UDP rate to 100M '' @ em_dash @ '' UDP loss results may be unreliable''])
      else
        let rate = negotiated * 80 div 100;
            rate' = (if rate < udpRateFloor then udpRateFloor else rate);
            ceiling = negotiated * 95 div 100
        in (if rate' > ceiling then ceiling else rate', []))"

definition CheckExplicitUDPRate :: "bitrate \<Rightarrow> bitrate \<Rightarrow> bool \<times> string list" where
  "CheckExplicitUDPRate rate negotiated =
     (if negotiated = 0 \<or> rate \<le> negotiated * 95 div 100 then (False, [])
      else (True, [''requested UDP rate '' @ bitrate_string rate @ '' exceeds 95% of the negotiated link speed ''
        @ bitrate_string negotiated @ ''; UDP loss at self-inflicted saturation does not indicate a faulty cable'']))"

subsection \<open>Validation: \<open>validate.go\<close>\<close>

definition minPort :: int where "minPort = 1024"
definition maxPort :: int where "maxPort = 65535"
definition minTestDuration :: int where "minTestDuration = 5 * second"
definition maxTestDuration :: int where "maxTestDuration = 600 * second"
definition minMonitorInterval :: int where "minMonitorInterval = 200 * millisecond"
definition maxMonitorInterval :: int where "maxMonitorInterval = 30 * second"
definition minSoakDuration :: int where "minSoakDuration = 60 * second"
definition maxSoakDuration :: int where "maxSoakDuration = 86400 * second"
definition minParallelStreams :: int where "minParallelStreams = 1"
definition maxParallelStreams :: int where "maxParallelStreams = 16"
definition minTokenLen :: nat where "minTokenLen = 6"
definition maxTokenLen :: nat where "maxTokenLen = 128"
definition minUDPRate :: bitrate where "minUDPRate = 1000000"
definition maxUDPRate :: bitrate where "maxUDPRate = 40000000000"

datatype config_msg =
    InvalidMode string | InvalidColor string | RoleRequired | InvalidRole string
  | AddressRequired | NotAnAddress string | ZonedAddress string | NotIPv4 string | UnspecifiedAddress
  | MulticastAddress string | LoopbackAddress string | SameAddress Addr
  | PrivilegedPort int | PortOutOfRange int | IperfPortTooHigh int | PortsClash int
  | TokenRequired | TokenLength nat | TokenNotPrintable
  | InvalidSoakLoad string | OnlyWithSoak | DurationOutOfRange int int int | StreamsOutOfRange int
  | InvalidRate string bitrate_error | RateOutOfRange bitrate
  | ParentElement string | CannotResolve string | NoDirectory string | CannotStat string | NotADirectory string

datatype config_error = ValidationError (ve_Flag: string) (ve_Msg: config_msg) | TokenSourceError string

datatype stat_result = StatNotExist | StatError string | StatFile | StatDir

record config_env =
  ce_rand :: "string + int"
  ce_getwd :: "string + string"
  ce_stat :: "string \<Rightarrow> stat_result"

definition parseIPv4 :: "string \<Rightarrow> string \<Rightarrow> bool \<Rightarrow> config_error + Addr" where
  "parseIPv4 flagName val allowLoopback =
     (if val = '''' then Inl (ValidationError flagName AddressRequired)
      else case ParseAddr val of
             None \<Rightarrow> Inl (ValidationError flagName (NotAnAddress val))
           | Some a \<Rightarrow>
               if Zone a \<noteq> '''' then Inl (ValidationError flagName (ZonedAddress val))
               else
                 let addr = Unmap a
                 in if \<not> Is4 addr then Inl (ValidationError flagName (NotIPv4 val))
                    else if IsUnspecified addr then Inl (ValidationError flagName UnspecifiedAddress)
                    else if IsMulticast addr then Inl (ValidationError flagName (MulticastAddress val))
                    else if IsLoopback addr \<and> \<not> allowLoopback then Inl (ValidationError flagName (LoopbackAddress val))
                    else Inr addr)"

definition validatePort :: "string \<Rightarrow> int \<Rightarrow> config_error + u16" where
  "validatePort flagName p =
     (if p \<ge> 1 \<and> p < minPort then Inl (ValidationError flagName (PrivilegedPort p))
      else if p < 1 \<or> p > maxPort then Inl (ValidationError flagName (PortOutOfRange p))
      else Inr (of_int p))"

definition checkDurationBounds :: "string \<Rightarrow> int \<Rightarrow> int \<Rightarrow> int \<Rightarrow> config_error option" where
  "checkDurationBounds flagName d minBound maxBound =
     (if d < minBound \<or> d > maxBound then Some (ValidationError flagName (DurationOutOfRange minBound maxBound d)) else None)"

definition generateToken :: "config_env \<Rightarrow> string + string" where
  "generateToken e = (case ce_rand e of Inl err \<Rightarrow> Inl err | Inr n \<Rightarrow> Inr (pad_zeros 6 (show_int n)))"

definition token_char :: "char \<Rightarrow> bool" where
  "token_char c \<longleftrightarrow> 33 \<le> (of_char c :: nat) \<and> (of_char c :: nat) \<le> 126"

definition resolveToken :: "config_env \<Rightarrow> string \<Rightarrow> string \<Rightarrow> config_error + string \<times> bool" where
  "resolveToken e role token =
     (if token = '''' then
        if role = role_pc2 then Inl (ValidationError ''--token'' TokenRequired)
        else (case generateToken e of Inl err \<Rightarrow> Inl (TokenSourceError err) | Inr t \<Rightarrow> Inr (t, True))
      else if length token < minTokenLen \<or> length token > maxTokenLen
      then Inl (ValidationError ''--token'' (TokenLength (length token)))
      else if list_ex (\<lambda>c. \<not> token_char c) token then Inl (ValidationError ''--token'' TokenNotPrintable)
      else Inr (token, False))"

text \<open>\<open>strings.Split\<close> at a separator character, \<open>filepath.Clean\<close> and \<open>filepath.Abs\<close> on Unix.\<close>

fun split_at :: "char \<Rightarrow> string \<Rightarrow> string list" where
  "split_at sep [] = [[]]"
| "split_at sep (c # s) =
     (if c = sep then [] # split_at sep s
      else case split_at sep s of [] \<Rightarrow> [[c]] | w # ws \<Rightarrow> (c # w) # ws)"

definition clean_step :: "bool \<Rightarrow> string list \<Rightarrow> string \<Rightarrow> string list" where
  "clean_step rooted stack elem =
     (if elem = '''' \<or> elem = ''.'' then stack
      else if elem = ''..'' then
        if stack \<noteq> [] \<and> last stack \<noteq> ''..'' then butlast stack
        else if rooted then stack else stack @ [''..'']
      else stack @ [elem])"

definition Clean :: "string \<Rightarrow> string" where
  "Clean path =
     (let rooted = has_prefix path ''/''; elems = foldl (clean_step rooted) [] (split_at (CHR ''/'') path)
      in if rooted then ''/'' @ join ''/'' elems else if elems = [] then ''.'' else join ''/'' elems)"

definition Abs :: "config_env \<Rightarrow> string \<Rightarrow> string + string" where
  "Abs e path =
     (if has_prefix path ''/'' then Inr (Clean path)
      else case ce_getwd e of Inl err \<Rightarrow> Inl err | Inr wd \<Rightarrow> Inr (Clean (wd @ ''/'' @ path)))"

definition validateOutputDir :: "config_env \<Rightarrow> string \<Rightarrow> config_error + string" where
  "validateOutputDir e raw0 =
     (let raw = (if raw0 = '''' then ''.'' else raw0)
      in if ''..'' \<in> set (split_at (CHR ''/'') raw) then Inl (ValidationError ''--output'' (ParentElement raw))
         else case Abs e raw of
                Inl _ \<Rightarrow> Inl (ValidationError ''--output'' (CannotResolve raw))
              | Inr abs0 \<Rightarrow>
                  let abs = Clean abs0
                  in (case ce_stat e abs of
                        StatNotExist \<Rightarrow> Inl (ValidationError ''--output'' (NoDirectory abs))
                      | StatError _ \<Rightarrow> Inl (ValidationError ''--output'' (CannotStat abs))
                      | StatFile \<Rightarrow> Inl (ValidationError ''--output'' (NotADirectory abs))
                      | StatDir \<Rightarrow> Inr abs))"

subsection \<open>\<open>Resolve\<close>\<close>

text \<open>Steps 1 to 3: mode, color, role.\<close>

definition resolve_mode :: "RawRunFlags \<Rightarrow> config_error + preset" where
  "resolve_mode raw =
     (case map_of presets (rf_Mode raw) of
        None \<Rightarrow> Inl (ValidationError ''--mode'' (InvalidMode (rf_Mode raw)))
      | Some p \<Rightarrow> Inr p)"

definition resolve_color :: "RawRunFlags \<Rightarrow> config_error option" where
  "resolve_color raw =
     (if rf_Color raw = ''auto'' \<or> rf_Color raw = ''always'' \<or> rf_Color raw = ''never'' then None
      else Some (ValidationError ''--color'' (InvalidColor (rf_Color raw))))"

definition resolve_role :: "RawRunFlags \<Rightarrow> config_error option" where
  "resolve_role raw =
     (if rf_Role raw = role_pc1 \<or> rf_Role raw = role_pc2 then None
      else if rf_Role raw = '''' then Some (ValidationError ''--role'' RoleRequired)
      else Some (ValidationError ''--role'' (InvalidRole (rf_Role raw))))"

text \<open>Steps 4 to 6: the addresses; a local address left to the interface is the zero value.\<close>

definition resolve_ips :: "RawRunFlags \<Rightarrow> config_error + Addr \<times> Addr" where
  "resolve_ips raw =
     (case (if rf_LocalIP raw \<noteq> '''' \<or> rf_Interface raw = ''''
            then parseIPv4 ''--local-ip'' (rf_LocalIP raw) (rf_AllowVirtualInterface raw) else Inr AddrInvalid) of
        Inl e \<Rightarrow> Inl e
      | Inr localIP \<Rightarrow>
          (case parseIPv4 ''--peer-ip'' (rf_PeerIP raw) (rf_AllowVirtualInterface raw) of
             Inl e \<Rightarrow> Inl e
           | Inr peerIP \<Rightarrow>
               if IsValid localIP \<and> localIP = peerIP then Inl (ValidationError ''--peer-ip'' (SameAddress localIP))
               else Inr (localIP, peerIP)))"

text \<open>Step 7: the ports.\<close>

definition resolve_ports :: "RawRunFlags \<Rightarrow> config_error + u16 \<times> u16" where
  "resolve_ports raw =
     (case validatePort ''--control-port'' (rf_ControlPort raw) of
        Inl e \<Rightarrow> Inl e
      | Inr controlPort \<Rightarrow>
          (case validatePort ''--iperf-port'' (rf_IperfPort raw) of
             Inl e \<Rightarrow> Inl e
           | Inr iperfPort \<Rightarrow>
               if rf_IperfPort raw > maxPort - 1 then Inl (ValidationError ''--iperf-port'' (IperfPortTooHigh (rf_IperfPort raw)))
               else if rf_ControlPort raw = rf_IperfPort raw \<or> rf_ControlPort raw = rf_IperfPort raw + 1
               then Inl (ValidationError ''--control-port'' (PortsClash (rf_IperfPort raw)))
               else Inr (controlPort, iperfPort)))"

text \<open>Step 9: an explicit value wins over the preset; then the bounds.\<close>

definition explicit :: "string set \<Rightarrow> string \<Rightarrow> 'a \<Rightarrow> 'a \<Rightarrow> 'a" where
  "explicit set_flags name val dflt = (if name \<in> set_flags then val else dflt)"

definition resolve_soak :: "RawRunFlags \<Rightarrow> string set \<Rightarrow> preset \<Rightarrow> config_error + int \<times> string" where
  "resolve_soak raw is_set p =
     (if rf_Mode raw = ModeSoak then
        let soakDuration = explicit is_set ''soak-duration'' (rf_SoakDuration raw) (ps_soakDuration p);
            soakLoad = explicit is_set ''soak-load'' (rf_SoakLoad raw) (ps_soakLoad p)
        in if soakLoad \<noteq> SoakLoadPeriodic \<and> soakLoad \<noteq> SoakLoadContinuous
           then Inl (ValidationError ''--soak-load'' (InvalidSoakLoad (rf_SoakLoad raw)))
           else case checkDurationBounds ''--soak-duration'' soakDuration minSoakDuration maxSoakDuration of
                  Some e \<Rightarrow> Inl e
                | None \<Rightarrow> Inr (soakDuration, soakLoad)
      else if ''soak-duration'' \<in> is_set then Inl (ValidationError ''--soak-duration'' OnlyWithSoak)
      else if ''soak-load'' \<in> is_set then Inl (ValidationError ''--soak-load'' OnlyWithSoak)
      else Inr (0, ''''))"

definition check_bounds :: "int \<Rightarrow> int \<Rightarrow> int \<Rightarrow> int \<Rightarrow> config_error option" where
  "check_bounds tcpDuration udpDuration monitorInterval parallelStreams =
     (case checkDurationBounds ''--tcp-duration'' tcpDuration minTestDuration maxTestDuration of
        Some e \<Rightarrow> Some e
      | None \<Rightarrow>
          (case checkDurationBounds ''--udp-duration'' udpDuration minTestDuration maxTestDuration of
             Some e \<Rightarrow> Some e
           | None \<Rightarrow>
               (case checkDurationBounds ''--monitor-interval'' monitorInterval minMonitorInterval maxMonitorInterval of
                  Some e \<Rightarrow> Some e
                | None \<Rightarrow>
                    if parallelStreams < minParallelStreams \<or> parallelStreams > maxParallelStreams
                    then Some (ValidationError ''--parallel-streams'' (StreamsOutOfRange parallelStreams)) else None)))"

text \<open>Step 10: an explicit UDP rate; 0 leaves it to the link.\<close>

definition resolve_rate :: "RawRunFlags \<Rightarrow> config_error + bitrate" where
  "resolve_rate raw =
     (if rf_UDPRate raw = '''' then Inr 0
      else case ParseBitrate (rf_UDPRate raw) of
             Inl err \<Rightarrow> Inl (ValidationError ''--udp-rate'' (InvalidRate (rf_UDPRate raw) err))
           | Inr r \<Rightarrow>
               if r < minUDPRate \<or> r > maxUDPRate then Inl (ValidationError ''--udp-rate'' (RateOutOfRange r)) else Inr r)"

definition Resolve :: "config_env \<Rightarrow> RawRunFlags \<Rightarrow> string set \<Rightarrow> config_error + RunConfig" where
  "Resolve env raw is_set =
     (case resolve_mode raw of Inl e \<Rightarrow> Inl e | Inr p \<Rightarrow>
     (case resolve_color raw of Some e \<Rightarrow> Inl e | None \<Rightarrow>
     (case resolve_role raw of Some e \<Rightarrow> Inl e | None \<Rightarrow>
     (case resolve_ips raw of Inl e \<Rightarrow> Inl e | Inr (localIP, peerIP) \<Rightarrow>
     (case resolve_ports raw of Inl e \<Rightarrow> Inl e | Inr (controlPort, iperfPort) \<Rightarrow>
     (case resolveToken env (rf_Role raw) (rf_Token raw) of Inl e \<Rightarrow> Inl e | Inr (token, tokenGenerated) \<Rightarrow>
     (let tcpDuration = explicit is_set ''tcp-duration'' (rf_TCPDuration raw) (ps_tcpDuration p);
          udpDuration = explicit is_set ''udp-duration'' (rf_UDPDuration raw) (ps_udpDuration p);
          parallelStreams = explicit is_set ''parallel-streams'' (rf_ParallelStreams raw) (ps_parallelStreams p);
          monitorInterval = explicit is_set ''monitor-interval'' (rf_MonitorInterval raw) (ps_monitorInterval p)
      in
     (case resolve_soak raw is_set p of Inl e \<Rightarrow> Inl e | Inr (soakDuration, soakLoad) \<Rightarrow>
     (case check_bounds tcpDuration udpDuration monitorInterval parallelStreams of Some e \<Rightarrow> Inl e | None \<Rightarrow>
     (case resolve_rate raw of Inl e \<Rightarrow> Inl e | Inr udpRate \<Rightarrow>
     (case validateOutputDir env (rf_Output raw) of Inl e \<Rightarrow> Inl e | Inr outputDir \<Rightarrow>
        Inr \<lparr>rc_Role = rf_Role raw, rc_LocalIP = localIP, rc_PeerIP = peerIP, rc_Interface = rf_Interface raw,
             rc_Mode = rf_Mode raw, rc_ControlPort = controlPort, rc_IperfPort = iperfPort, rc_Token = token,
             rc_TokenGenerated = tokenGenerated, rc_TCPDuration = tcpDuration, rc_UDPDuration = udpDuration,
             rc_UDPRate = udpRate, rc_ParallelStreams = parallelStreams, rc_PingCount = ps_pingCount p,
             rc_PingInterval = ps_pingInterval p, rc_TCPRepeats = ps_tcpRepeats p, rc_SoakDuration = soakDuration,
             rc_SoakLoad = soakLoad, rc_MonitorInterval = monitorInterval,
             rc_CableTest = (rf_CableTest raw \<or> rf_CableTestTDR raw), rc_CableTestTDR = rf_CableTestTDR raw,
             rc_OutputDir = outputDir, rc_Color = rf_Color raw, rc_Quiet = rf_Quiet raw, rc_Verbose = rf_Verbose raw,
             rc_NonInteractive = rf_NonInteractive raw, rc_NoSudo = rf_NoSudo raw,
             rc_NoReportTransfer = rf_NoReportTransfer raw, rc_AllowVirtualInterface = rf_AllowVirtualInterface raw\<rparr>)))))))))))"

subsection \<open>What a resolved configuration satisfies\<close>

text \<open>The bounds and exclusions the rest of the program relies on.\<close>

definition usable_ip :: "bool \<Rightarrow> Addr \<Rightarrow> bool" where
  "usable_ip loopback a \<longleftrightarrow> Is4 a \<and> wf_addr a \<and> \<not> IsUnspecified a \<and> \<not> IsMulticast a \<and> (IsLoopback a \<longrightarrow> loopback)"

definition ports_ok :: "RunConfig \<Rightarrow> bool" where
  "ports_ok c \<longleftrightarrow> 1024 \<le> uint (rc_ControlPort c) \<and> 1024 \<le> uint (rc_IperfPort c) \<and> uint (rc_IperfPort c) < 65535
     \<and> rc_ControlPort c \<noteq> rc_IperfPort c \<and> rc_ControlPort c \<noteq> rc_IperfPort c + 1"

definition token_ok :: "RunConfig \<Rightarrow> bool" where
  "token_ok c \<longleftrightarrow> 6 \<le> length (rc_Token c) \<and> length (rc_Token c) \<le> 128 \<and> list_all token_char (rc_Token c)
     \<and> (rc_TokenGenerated c \<longrightarrow> rc_Role c = role_pc1 \<and> length (rc_Token c) = 6 \<and> list_all is_digit (rc_Token c))"

definition bounds_ok :: "RunConfig \<Rightarrow> bool" where
  "bounds_ok c \<longleftrightarrow> 5 * second \<le> rc_TCPDuration c \<and> rc_TCPDuration c \<le> 600 * second
     \<and> 5 * second \<le> rc_UDPDuration c \<and> rc_UDPDuration c \<le> 600 * second
     \<and> 200 * millisecond \<le> rc_MonitorInterval c \<and> rc_MonitorInterval c \<le> 30 * second
     \<and> 1 \<le> rc_ParallelStreams c \<and> rc_ParallelStreams c \<le> 16
     \<and> (rc_UDPRate c = 0 \<or> 1000000 \<le> rc_UDPRate c \<and> rc_UDPRate c \<le> 40000000000)"

definition soak_ok :: "RunConfig \<Rightarrow> bool" where
  "soak_ok c \<longleftrightarrow>
     (if rc_Mode c = ModeSoak
      then 60 * second \<le> rc_SoakDuration c \<and> rc_SoakDuration c \<le> 86400 * second
           \<and> (rc_SoakLoad c = SoakLoadPeriodic \<or> rc_SoakLoad c = SoakLoadContinuous)
      else rc_SoakDuration c = 0 \<and> rc_SoakLoad c = '''')"

lemma parseIPv4_usable: "parseIPv4 f s l = Inr a \<Longrightarrow> usable_ip l a"
  using wf_ParseAddr [of s] wf_Unmap
  by (auto simp: parseIPv4_def usable_ip_def Let_def split: if_splits option.splits)

lemma resolve_ips_ok:
  assumes "resolve_ips raw = Inr (l, p)"
  shows "usable_ip (rf_AllowVirtualInterface raw) p"
    and "l = AddrInvalid \<and> rf_Interface raw \<noteq> '''' \<and> rf_LocalIP raw = '''' \<or> usable_ip (rf_AllowVirtualInterface raw) l"
    and "l \<noteq> p"
proof -
  show p: "usable_ip (rf_AllowVirtualInterface raw) p"
    and "l = AddrInvalid \<and> rf_Interface raw \<noteq> '''' \<and> rf_LocalIP raw = '''' \<or> usable_ip (rf_AllowVirtualInterface raw) l"
    using assms parseIPv4_usable by (auto simp: resolve_ips_def split: if_splits sum.splits)
  have "p \<noteq> AddrInvalid" using p by (auto simp: usable_ip_def Is4_def)
  then show "l \<noteq> p" using assms by (auto simp: resolve_ips_def IsValid_def split: if_splits sum.splits)
qed

lemma resolve_ports_ok:
  assumes "resolve_ports raw = Inr (c, i)"
  shows "uint c = rf_ControlPort raw" "uint i = rf_IperfPort raw" "1024 \<le> uint c" "1024 \<le> uint i" "uint i < 65535"
    "uint c \<noteq> uint i" "uint c \<noteq> uint i + 1"
proof -
  have a: "1024 \<le> rf_ControlPort raw" "rf_ControlPort raw < 65536" "1024 \<le> rf_IperfPort raw" "rf_IperfPort raw < 65535"
    "rf_ControlPort raw \<noteq> rf_IperfPort raw" "rf_ControlPort raw \<noteq> rf_IperfPort raw + 1"
    "c = of_int (rf_ControlPort raw)" "i = of_int (rf_IperfPort raw)"
    using assms by (auto simp: resolve_ports_def validatePort_def minPort_def maxPort_def split: if_splits sum.splits)
  then show "uint c = rf_ControlPort raw" "uint i = rf_IperfPort raw" by (simp_all add: uint_word_of_int)
  with a show "1024 \<le> uint c" "1024 \<le> uint i" "uint i < 65535" "uint c \<noteq> uint i" "uint c \<noteq> uint i + 1" by simp_all
qed

lemma show_nonneg_length: "0 \<le> n \<Longrightarrow> n < 10 ^ Suc k \<Longrightarrow> length (show_nonneg n) \<le> Suc k"
proof (induction k arbitrary: n)
  case (Suc k)
  show ?case
  proof (cases "n < 10")
    case False
    have "n div 10 < 10 ^ Suc k" using Suc.prems(2) by auto
    with Suc.IH [of "n div 10"] Suc.prems(1) have "length (show_nonneg (n div 10)) \<le> Suc k" by simp
    with False show ?thesis by (simp add: show_nonneg.simps [of n])
  qed (simp add: show_nonneg.simps [of n])
qed (simp add: show_nonneg.simps)

lemma digit_token_char: "is_digit c \<Longrightarrow> token_char c"
  by (simp add: is_digit_def token_char_def)

lemma generated_token:
  assumes "generateToken e = Inr t" and "\<And>n. ce_rand e = Inr n \<Longrightarrow> 0 \<le> n \<and> n < 1000000"
  shows "length t = 6" and "list_all is_digit t"
proof -
  obtain n where n: "t = pad_zeros 6 (show_nonneg n)" "0 \<le> n" "n < 1000000"
    using assms by (fastforce simp: generateToken_def show_int_def split: sum.splits)
  then show "length t = 6" using show_nonneg_length [of n 5] by (simp add: pad_zeros_def)
  have "is_digit (CHR ''0'')" by (simp add: is_digit_def)
  then show "list_all is_digit t" using n show_nonneg_digits [of n] by (auto simp: pad_zeros_def list_all_iff)
qed

lemma resolveToken_ok:
  assumes "resolveToken e role token = Inr (t, g)" and "\<And>n. ce_rand e = Inr n \<Longrightarrow> 0 \<le> n \<and> n < 1000000"
    and "role = role_pc1 \<or> role = role_pc2"
  shows "6 \<le> length t \<and> length t \<le> 128 \<and> list_all token_char t \<and> (g \<longrightarrow> role = role_pc1 \<and> length t = 6 \<and> list_all is_digit t)"
proof (cases "token = ''''")
  case True
  then have g: "generateToken e = Inr t" "g" "role = role_pc1"
    using assms(1,3) by (auto simp: resolveToken_def split: if_splits sum.splits)
  from generated_token [OF g(1) assms(2)] g(2,3) show ?thesis
    using digit_token_char by (auto simp: list_all_iff)
next
  case False
  then show ?thesis using assms(1)
    by (auto simp: resolveToken_def minTokenLen_def maxTokenLen_def list_ex_iff list_all_iff split: if_splits)
qed

lemma check_bounds_ok:
  "check_bounds t u m n = None \<Longrightarrow> 5 * second \<le> t \<and> t \<le> 600 * second \<and> 5 * second \<le> u \<and> u \<le> 600 * second
    \<and> 200 * millisecond \<le> m \<and> m \<le> 30 * second \<and> 1 \<le> n \<and> n \<le> 16"
  by (auto simp: check_bounds_def checkDurationBounds_def minTestDuration_def maxTestDuration_def minMonitorInterval_def
      maxMonitorInterval_def minParallelStreams_def maxParallelStreams_def split: if_splits)

lemma resolve_rate_ok: "resolve_rate raw = Inr r \<Longrightarrow> r = 0 \<or> 1000000 \<le> r \<and> r \<le> 40000000000"
  by (auto simp: resolve_rate_def minUDPRate_def maxUDPRate_def split: if_splits sum.splits)

lemma resolve_soak_ok:
  "resolve_soak raw is_set p = Inr (d, l) \<Longrightarrow>
    (if rf_Mode raw = ModeSoak
     then 60 * second \<le> d \<and> d \<le> 86400 * second \<and> (l = SoakLoadPeriodic \<or> l = SoakLoadContinuous)
     else d = 0 \<and> l = '''')"
  by (auto simp: resolve_soak_def checkDurationBounds_def minSoakDuration_def maxSoakDuration_def Let_def
      split: if_splits option.splits)

lemma resolve_role_ok: "resolve_role raw = None \<Longrightarrow> rf_Role raw = role_pc1 \<or> rf_Role raw = role_pc2"
  by (auto simp: resolve_role_def split: if_splits)

text \<open>A successful resolution passed every step.\<close>

lemma Resolve_steps:
  assumes "Resolve env raw is_set = Inr c"
  obtains p where "map_of presets (rf_Mode raw) = Some p" "resolve_color raw = None" "resolve_role raw = None"
    "resolve_ips raw = Inr (rc_LocalIP c, rc_PeerIP c)" "resolve_ports raw = Inr (rc_ControlPort c, rc_IperfPort c)"
    "resolveToken env (rf_Role raw) (rf_Token raw) = Inr (rc_Token c, rc_TokenGenerated c)"
    "resolve_soak raw is_set p = Inr (rc_SoakDuration c, rc_SoakLoad c)"
    "check_bounds (rc_TCPDuration c) (rc_UDPDuration c) (rc_MonitorInterval c) (rc_ParallelStreams c) = None"
    "resolve_rate raw = Inr (rc_UDPRate c)" "validateOutputDir env (rf_Output raw) = Inr (rc_OutputDir c)"
    "rc_Role c = rf_Role raw" "rc_Mode c = rf_Mode raw" "rc_Interface c = rf_Interface raw"
    "rc_AllowVirtualInterface c = rf_AllowVirtualInterface raw"
    "rc_TCPDuration c = explicit is_set ''tcp-duration'' (rf_TCPDuration raw) (ps_tcpDuration p)"
    "rc_UDPDuration c = explicit is_set ''udp-duration'' (rf_UDPDuration raw) (ps_udpDuration p)"
    "rc_ParallelStreams c = explicit is_set ''parallel-streams'' (rf_ParallelStreams raw) (ps_parallelStreams p)"
    "rc_MonitorInterval c = explicit is_set ''monitor-interval'' (rf_MonitorInterval raw) (ps_monitorInterval p)"
    "rc_CableTest c = (rf_CableTest raw \<or> rf_CableTestTDR raw)" "rc_CableTestTDR c = rf_CableTestTDR raw"
  using assms
  by (auto simp: Resolve_def resolve_mode_def Let_def split: sum.splits option.splits prod.splits)

text \<open>
  C27. Whatever flags are given, a configuration that is accepted is usable: the addresses are distinct usable IPv4
  addresses (the local one possibly left to the named interface), the control port collides with neither
  port of iperf3 and all three fit 16 bits, the token has 6 to 128 printable characters and a
  generated one is six digits and only made for pc1, every duration, interval, stream count and rate is
  within its bounds, soak parameters exist in soak mode only, and a TDR request implies the cable test.
\<close>

theorem Resolve_sound:
  assumes "Resolve env raw is_set = Inr c" and "\<And>n. ce_rand env = Inr n \<Longrightarrow> 0 \<le> n \<and> n < 1000000"
  shows "usable_ip (rc_AllowVirtualInterface c) (rc_PeerIP c) \<and> rc_LocalIP c \<noteq> rc_PeerIP c
    \<and> (rc_LocalIP c = AddrInvalid \<and> rc_Interface c \<noteq> '''' \<or> usable_ip (rc_AllowVirtualInterface c) (rc_LocalIP c))
    \<and> ports_ok c \<and> token_ok c \<and> bounds_ok c \<and> soak_ok c \<and> (rc_CableTestTDR c \<longrightarrow> rc_CableTest c)"
proof -
  obtain p where s: "resolve_role raw = None"
    "resolve_ips raw = Inr (rc_LocalIP c, rc_PeerIP c)" "resolve_ports raw = Inr (rc_ControlPort c, rc_IperfPort c)"
    "resolveToken env (rf_Role raw) (rf_Token raw) = Inr (rc_Token c, rc_TokenGenerated c)"
    "resolve_soak raw is_set p = Inr (rc_SoakDuration c, rc_SoakLoad c)"
    "check_bounds (rc_TCPDuration c) (rc_UDPDuration c) (rc_MonitorInterval c) (rc_ParallelStreams c) = None"
    "resolve_rate raw = Inr (rc_UDPRate c)"
    and f: "rc_Role c = rf_Role raw" "rc_Mode c = rf_Mode raw" "rc_Interface c = rf_Interface raw"
    "rc_AllowVirtualInterface c = rf_AllowVirtualInterface raw"
    "rc_CableTest c = (rf_CableTest raw \<or> rf_CableTestTDR raw)" "rc_CableTestTDR c = rf_CableTestTDR raw"
    by (rule Resolve_steps [OF assms(1)])
  have "uint (rc_IperfPort c + 1) = uint (rc_IperfPort c) + 1"
    using resolve_ports_ok(5) [OF s(3)] by (simp add: uint_plus_if_size word_size)
  then have "ports_ok c" using resolve_ports_ok [OF s(3)] by (auto simp: ports_ok_def)
  moreover have "token_ok c"
    using resolveToken_ok [OF s(4) assms(2) resolve_role_ok [OF s(1)]] f(1) by (simp add: token_ok_def)
  moreover have "bounds_ok c" using check_bounds_ok [OF s(6)] resolve_rate_ok [OF s(7)] by (simp add: bounds_ok_def)
  moreover have "soak_ok c" using resolve_soak_ok [OF s(5)] f(2) by (simp add: soak_ok_def)
  ultimately show ?thesis using resolve_ips_ok [OF s(2)] f by auto
qed

definition demo_flags :: RawRunFlags where
  "demo_flags = \<lparr>rf_Role = ''pc1'', rf_LocalIP = ''10.0.0.1'', rf_PeerIP = ''::ffff:10.0.0.2'', rf_Interface = '''',
     rf_Mode = ''quick'', rf_ControlPort = 18650, rf_IperfPort = 18651, rf_Token = '''', rf_TCPDuration = 10000000000,
     rf_UDPDuration = 0, rf_UDPRate = ''800M'', rf_ParallelStreams = 0, rf_SoakDuration = 0, rf_SoakLoad = '''',
     rf_MonitorInterval = 0, rf_CableTest = False, rf_CableTestTDR = True, rf_Output = ''out/./runs'', rf_Color = ''auto'',
     rf_Quiet = False, rf_Verbose = False, rf_NonInteractive = True, rf_NoSudo = False, rf_NoReportTransfer = False,
     rf_AllowVirtualInterface = False\<rparr>"

definition demo_config_env :: config_env where
  "demo_config_env = \<lparr>ce_rand = Inr 4711, ce_getwd = Inr ''/home/op'', ce_stat = (\<lambda>_. StatDir)\<rparr>"

theorem Resolve_sound_witness:
  "\<exists>c. Resolve demo_config_env demo_flags {''tcp-duration''} = Inr c \<and> ports_ok c \<and> rc_Token c = ''004711''
     \<and> rc_PeerIP c = Addr4 [10, 0, 0, 2] \<and> rc_OutputDir c = ''/home/op/out/runs''"
proof -
  let ?r = "Resolve demo_config_env demo_flags {''tcp-duration''}"
  have "(case ?r of Inl _ \<Rightarrow> False
      | Inr c \<Rightarrow> rc_Token c = ''004711'' \<and> rc_PeerIP c = Addr4 [10, 0, 0, 2] \<and> rc_OutputDir c = ''/home/op/out/runs'')"
    by code_simp
  then obtain c where c: "?r = Inr c" "rc_Token c = ''004711''" "rc_PeerIP c = Addr4 [10, 0, 0, 2]" "rc_OutputDir c = ''/home/op/out/runs''"
    by (auto split: sum.splits)
  have "0 \<le> n \<and> n < 1000000" if "ce_rand demo_config_env = Inr n" for n
    using that by (simp add: demo_config_env_def)
  from Resolve_sound [OF c(1) this] c show ?thesis by blast
qed

subsection \<open>The output directory\<close>

text \<open>The names along a path.\<close>

definition path_elems :: "string \<Rightarrow> string list" where
  "path_elems p = filter (\<lambda>e. e \<noteq> '''' \<and> e \<noteq> ''.'') (split_at (CHR ''/'') p)"

lemma split_at_not_Nil [simp]: "split_at sep s \<noteq> []"
  by (induction s) (auto split: list.split)

lemma split_at_append: "split_at sep (s @ sep # t) = split_at sep s @ split_at sep t"
proof (induction s)
  case (Cons c s)
  obtain w ws where "split_at sep s = w # ws" by (cases "split_at sep s") auto
  with Cons show ?case by simp
qed simp

lemma split_at_elems: "w \<in> set (split_at sep s) \<Longrightarrow> sep \<notin> set w"
proof (induction s arbitrary: w)
  case (Cons c s)
  obtain u us where u: "split_at sep s = u # us" by (cases "split_at sep s") auto
  show ?case
  proof (cases "c = sep")
    case True
    then show ?thesis using Cons by auto
  next
    case False
    then have "w = c # u \<or> w \<in> set us" using Cons.prems u by simp
    then show ?thesis using Cons.IH [of u] Cons.IH [of w] u False by auto
  qed
qed simp

lemma split_at_word: "sep \<notin> set w \<Longrightarrow> split_at sep w = [w]"
  by (induction w) auto

lemma split_at_join: "ws \<noteq> [] \<Longrightarrow> \<forall>w\<in>set ws. sep \<notin> set w \<Longrightarrow> split_at sep (join [sep] ws) = ws"
proof (induction ws rule: induct_list012)
  case (2 w)
  then show ?case by (simp add: split_at_word)
next
  case (3 w w' ws)
  have "join [sep] (w # w' # ws) = w @ sep # join [sep] (w' # ws)" by simp
  with 3 show ?case by (simp add: split_at_append split_at_word del: join.simps)
qed simp

lemma clean_no_parent:
  "''..'' \<notin> set es \<Longrightarrow> foldl (clean_step r) stack es = stack @ filter (\<lambda>e. e \<noteq> '''' \<and> e \<noteq> ''.'') es"
  by (induction es arbitrary: stack) (auto simp: clean_step_def)

lemma Clean_rooted:
  assumes "has_prefix p ''/''" and "''..'' \<notin> set (split_at (CHR ''/'') p)"
  shows "Clean p = ''/'' @ join ''/'' (path_elems p)"
  using assms by (simp add: Clean_def Let_def clean_no_parent path_elems_def)

lemma split_rooted:
  assumes "\<forall>e\<in>set es. CHR ''/'' \<notin> set e"
  shows "split_at (CHR ''/'') (''/'' @ join ''/'' es) = (if es = [] then ['''', ''''] else '''' # es)"
  using assms split_at_join [of es "CHR ''/''"] by (cases es) auto

lemma path_elems_rooted:
  assumes "\<forall>e\<in>set es. CHR ''/'' \<notin> set e \<and> e \<noteq> '''' \<and> e \<noteq> ''.''"
  shows "path_elems (''/'' @ join ''/'' es) = es"
proof -
  have "\<forall>e\<in>set es. CHR ''/'' \<notin> set e" "filter (\<lambda>e. e \<noteq> '''' \<and> e \<noteq> ''.'') es = es" using assms by (simp_all add: filter_id_conv)
  then show ?thesis unfolding path_elems_def split_rooted [OF \<open>\<forall>e\<in>set es. CHR ''/'' \<notin> set e\<close>] by auto
qed

lemma path_elems_plain: "e \<in> set (path_elems p) \<Longrightarrow> CHR ''/'' \<notin> set e \<and> e \<noteq> '''' \<and> e \<noteq> ''.''"
  using split_at_elems by (auto simp: path_elems_def)

lemma Clean_twice:
  assumes "has_prefix p ''/''" and "''..'' \<notin> set (split_at (CHR ''/'') p)"
  shows "Clean (Clean p) = Clean p" and "path_elems (Clean p) = path_elems p"
proof -
  let ?c = "''/'' @ join ''/'' (path_elems p)"
  have c: "Clean p = ?c" by (rule Clean_rooted [OF assms])
  have s: "\<forall>e\<in>set (path_elems p). CHR ''/'' \<notin> set e" using path_elems_plain by blast
  have "''..'' \<notin> set (split_at (CHR ''/'') ?c)"
    using assms(2) unfolding split_rooted [OF s] by (auto simp: path_elems_def)
  moreover show "path_elems (Clean p) = path_elems p"
    unfolding c by (rule path_elems_rooted) (use path_elems_plain in blast)
  ultimately show "Clean (Clean p) = Clean p"
    using Clean_rooted [of ?c] c by (simp add: has_prefix_def)
qed

text \<open>
  The report directory cannot escape: a relative output path resolves to a directory below the working
  directory, an absolute one to itself, in both cases cleaned, without parent elements and with exactly the
  given names in order; the directory exists.
\<close>

theorem output_dir_confined:
  assumes "validateOutputDir env raw = Inr d" and "ce_getwd env = Inr wd"
    and "has_prefix wd ''/''" and "''..'' \<notin> set (split_at (CHR ''/'') wd)"
  shows "path_elems d = (if has_prefix raw ''/'' then [] else path_elems wd) @ path_elems raw
    \<and> ''..'' \<notin> set (path_elems d) \<and> Clean d = d \<and> ce_stat env d = StatDir"
proof -
  define r where "r = (if raw = '''' then ''.'' else raw)"
  have r: "has_prefix r ''/'' = has_prefix raw ''/''" "path_elems r = path_elems raw"
    by (simp_all add: r_def has_prefix_def path_elems_def)
  define p where "p = (if has_prefix r ''/'' then r else wd @ ''/'' @ r)"
  have v: "''..'' \<notin> set (split_at (CHR ''/'') r)" "d = Clean (Clean p)" "ce_stat env d = StatDir"
    using assms(1,2) by (auto simp: validateOutputDir_def Abs_def Let_def p_def r_def [symmetric] split: if_splits stat_result.splits)
  have rooted: "has_prefix p ''/''" using assms(3) by (cases wd) (auto simp: p_def has_prefix_def)
  have np: "''..'' \<notin> set (split_at (CHR ''/'') p)" using v(1) assms(4) by (auto simp: p_def split_at_append)
  have "path_elems p = (if has_prefix raw ''/'' then [] else path_elems wd) @ path_elems raw"
    using r by (simp add: p_def path_elems_def split_at_append)
  moreover have "d = Clean p" "path_elems d = path_elems p" using v(2) Clean_twice [OF rooted np] by simp_all
  moreover have "''..'' \<notin> set (path_elems p)" using np by (simp add: path_elems_def)
  ultimately show ?thesis using v(2,3) Clean_twice [OF rooted np] by simp
qed

subsection \<open>UDP rates\<close>

text \<open>
  The automatic UDP rate never saturates the link: for every link speed of at least 1 bit/s at which 95
  times the speed fits 64 bits it stays at or below 95 percent of the speed, so it is never reported as near saturation,
  and it is at least 80 percent of the speed.
\<close>

theorem default_rate_below_saturation:
  assumes "unat n * 95 < 2 ^ 64" and "n \<noteq> 0"
  shows "let r = fst (DefaultUDPRate n)
    in 100 * unat r \<le> 95 * unat n \<and> unat n * 80 div 100 \<le> unat r \<and> CheckExplicitUDPRate r n = (False, [])"
proof -
  have m: "unat (n * 95) = unat n * 95" "unat (n * 80) = unat n * 80"
    using assms(1) by (simp_all add: unat_mult_lem [THEN iffD1])
  then have d: "unat (n * 95 div 100) = unat n * 95 div 100" "unat (n * 80 div 100) = unat n * 80 div 100"
    by (simp_all add: unat_div)
  define r where "r = fst (DefaultUDPRate n)"
  have r: "r = min (max (n * 80 div 100) udpRateFloor) (n * 95 div 100)"
    using assms(2) by (auto simp: r_def DefaultUDPRate_def Let_def min_def max_def)
  have "n * 80 div 100 \<le> n * 95 div 100" using d by (simp add: word_le_nat_alt div_le_mono)
  then have "n * 80 div 100 \<le> r" "r \<le> n * 95 div 100" using r by (auto simp: min_def max_def)
  then show ?thesis using d unfolding r_def [symmetric] Let_def
    by (auto simp: word_le_nat_alt CheckExplicitUDPRate_def)
qed

end
