(* ===== verification/GoText.thy ===== *)
theory GoText
  imports Bitrate
begin

section \<open>What the parsers use of \<open>regexp\<close>, \<open>bufio\<close>, \<open>strings\<close> and \<open>strconv\<close>\<close>

text \<open>
  The parsers of \<open>src/internal/parser\<close> read the output of external tools with Go's
  \<open>bufio.Scanner\<close>, \<open>regexp\<close>, \<open>strings.TrimSpace\<close>, \<open>strings.Fields\<close> and \<open>strconv\<close>. This
  theory models these library functions on byte strings: \<open>rmatch\<close> is the leftmost-first
  (Perl-like) matching of Go's \<open>regexp\<close> as the list of all matches in order of preference, with
  submatches. All repetitions in the source are repetitions of one character class, so
  \<open>RMany\<close>, \<open>RPlus\<close> and \<open>RLazy\<close> take a class. The lemmas \<open>rmatch_splits\<close> and
  \<open>rmatch_determined\<close> carry the proofs about the regular expressions of the parsers.
\<close>

subsection \<open>Regular expressions\<close>

datatype re =
    RLit string
  | RSet "char \<Rightarrow> bool"
  | RMany "char \<Rightarrow> bool"
  | RPlus "char \<Rightarrow> bool"
  | RLazy "char \<Rightarrow> bool"
  | RSeq re re
  | RAlt re re
  | ROpt re
  | RGroup nat re
  | REnd
  | RWordB

text \<open>A position in the subject: the bytes before it in reverse order, the bytes after it, the submatches so far.\<close>

type_synonym rstate = "string \<times> string \<times> (nat \<times> string) list"

definition word_char :: "char \<Rightarrow> bool" where
  "word_char c \<longleftrightarrow>
     (let n = (of_char c :: nat)
      in (48 \<le> n \<and> n \<le> 57) \<or> (65 \<le> n \<and> n \<le> 90) \<or> n = 95 \<or> (97 \<le> n \<and> n \<le> 122))"

text \<open>The ways to consume a run of a class: longest first (greedy) or shortest first (lazy).\<close>

fun greedy :: "(char \<Rightarrow> bool) \<Rightarrow> string \<Rightarrow> string \<Rightarrow> (string \<times> string) list" where
  "greedy p pre [] = [(pre, [])]"
| "greedy p pre (x # xs) = (if p x then greedy p (x # pre) xs @ [(pre, x # xs)] else [(pre, x # xs)])"

definition step_set :: "(char \<Rightarrow> bool) \<Rightarrow> string \<Rightarrow> string \<Rightarrow> (string \<times> string) list" where
  "step_set p pre s = (case s of [] \<Rightarrow> [] | x # xs \<Rightarrow> if p x then [(x # pre, xs)] else [])"

primrec rmatch :: "re \<Rightarrow> rstate \<Rightarrow> rstate list" where
  "rmatch (RLit w) st =
     (case st of (pre, s, c) \<Rightarrow> if has_prefix s w then [(rev w @ pre, drop (length w) s, c)] else [])"
| "rmatch (RSet p) st = (case st of (pre, s, c) \<Rightarrow> map (\<lambda>(a, b). (a, b, c)) (step_set p pre s))"
| "rmatch (RMany p) st = (case st of (pre, s, c) \<Rightarrow> map (\<lambda>(a, b). (a, b, c)) (greedy p pre s))"
| "rmatch (RPlus p) st =
     (case st of (pre, s, c) \<Rightarrow>
        map (\<lambda>(a, b). (a, b, c)) (concat (map (\<lambda>(a, b). greedy p a b) (step_set p pre s))))"
| "rmatch (RLazy p) st =
     (case st of (pre, s, c) \<Rightarrow>
        map (\<lambda>(a, b). (a, b, c)) (concat (map (\<lambda>(a, b). rev (greedy p a b)) (step_set p pre s))))"
| "rmatch (RSeq a b) st = concat (map (rmatch b) (rmatch a st))"
| "rmatch (RAlt a b) st = rmatch a st @ rmatch b st"
| "rmatch (ROpt a) st = rmatch a st @ [st]"
| "rmatch (RGroup n a) st =
     map (\<lambda>(pre, s, c). (pre, s, (n, rev (take (length pre - length (fst st)) pre)) # c)) (rmatch a st)"
| "rmatch REnd st = (case st of (pre, s, c) \<Rightarrow> if s = [] then [st] else [])"
| "rmatch RWordB st =
     (case st of (pre, s, c) \<Rightarrow>
        if (pre \<noteq> [] \<and> word_char (hd pre)) \<noteq> (s \<noteq> [] \<and> word_char (hd s)) then [st] else [])"

text \<open>\<open>FindStringSubmatch\<close> of an expression that starts with \<open>^\<close>, and of one that does not.\<close>

definition submatch_at :: "re \<Rightarrow> string \<Rightarrow> string \<Rightarrow> (nat \<times> string) list option" where
  "submatch_at r pre s = (case rmatch r (pre, s, []) of [] \<Rightarrow> None | (_, _, c) # _ \<Rightarrow> Some c)"

definition FindAnchored :: "re \<Rightarrow> string \<Rightarrow> (nat \<times> string) list option" where
  "FindAnchored r s = submatch_at r [] s"

fun find_from :: "re \<Rightarrow> string \<Rightarrow> string \<Rightarrow> (nat \<times> string) list option" where
  "find_from r pre [] = submatch_at r pre []"
| "find_from r pre (x # xs) =
     (case submatch_at r pre (x # xs) of None \<Rightarrow> find_from r (x # pre) xs | Some c \<Rightarrow> Some c)"

definition FindAnywhere :: "re \<Rightarrow> string \<Rightarrow> (nat \<times> string) list option" where
  "FindAnywhere r s = find_from r [] s"

text \<open>A submatch that did not take part reads as the empty string.\<close>

definition grp :: "nat \<Rightarrow> (nat \<times> string) list \<Rightarrow> string" where
  "grp n c = (case map_of c n of None \<Rightarrow> [] | Some w \<Rightarrow> w)"

text \<open>The concatenation of a list of expressions.\<close>

fun rseq :: "re list \<Rightarrow> re" where
  "rseq [] = RLit []"
| "rseq [r] = r"
| "rseq (r # q # rs) = RSeq r (rseq (q # rs))"

text \<open>
  A literal under \<open>(?i)\<close>: simple case folding relates an ASCII letter to its other case, and
  besides U+212A to \<open>k\<close> and U+017F to \<open>s\<close>.
\<close>

definition fold_char :: "char \<Rightarrow> re" where
  "fold_char c =
     (let same = RSet (\<lambda>x. lower_char x = lower_char c)
      in if lower_char c = CHR ''k'' then RAlt same (RLit [CHR 0xE2, CHR 0x84, CHR 0xAA])
         else if lower_char c = CHR ''s'' then RAlt same (RLit [CHR 0xC5, CHR 0xBF])
         else same)"

definition fold_lit :: "string \<Rightarrow> re" where
  "fold_lit w = rseq (map fold_char w)"

text \<open>The classes \<open>\d\<close>, \<open>\s\<close>, \<open>\S\<close> and \<open>.\<close>. A negated class consumes a whole rune in Go; the classes below
  consume its bytes, which accepts the same strings because none of them is an ASCII byte.\<close>

definition re_space :: "char \<Rightarrow> bool" where
  "re_space c \<longleftrightarrow> c \<in> {CHR 0x09, CHR 0x0A, CHR 0x0C, CHR 0x0D, CHR '' ''}"

definition not_space :: "char \<Rightarrow> bool" where
  "not_space c \<longleftrightarrow> \<not> re_space c"

definition any_char :: "char \<Rightarrow> bool" where
  "any_char c \<longleftrightarrow> c \<noteq> CHR 0x0A"

definition digit_or_dot :: "char \<Rightarrow> bool" where
  "digit_or_dot c \<longleftrightarrow> is_digit c \<or> c = CHR ''.''"

subsection \<open>\<open>bufio.Scanner\<close> with \<open>ScanLines\<close>\<close>

definition maxScanTokenSize :: nat where
  "maxScanTokenSize = 65536"

definition drop_cr :: "string \<Rightarrow> string" where
  "drop_cr l = (if l \<noteq> [] \<and> last l = CHR 0x0D then butlast l else l)"

definition is_nl :: "char \<Rightarrow> bool" where
  "is_nl c \<longleftrightarrow> c = CHR 0x0A"

text \<open>A line that does not fit into the buffer ends the scan: the remaining input is not read.\<close>

function scan_lines :: "string \<Rightarrow> string list" where
  "scan_lines s =
     (if s = [] then []
      else let l = takeWhile (Not \<circ> is_nl) s
           in if length l \<ge> maxScanTokenSize then []
              else drop_cr l # scan_lines (drop (Suc (length l)) s))"
  by pat_completeness auto
termination
  by (relation "measure length") auto

declare scan_lines.simps [simp del]

subsection \<open>\<open>strings.TrimSpace\<close>, \<open>strings.Fields\<close>\<close>

text \<open>The UTF-8 encodings of the code points \<open>unicode.IsSpace\<close> accepts.\<close>

definition space_runes :: "string list" where
  "space_runes =
     [[CHR 0x20], [CHR 0x09], [CHR 0x0A], [CHR 0x0B], [CHR 0x0C], [CHR 0x0D],
      [CHR 0xC2, CHR 0x85], [CHR 0xC2, CHR 0xA0], [CHR 0xE1, CHR 0x9A, CHR 0x80],
      [CHR 0xE2, CHR 0x80, CHR 0x80], [CHR 0xE2, CHR 0x80, CHR 0x81], [CHR 0xE2, CHR 0x80, CHR 0x82],
      [CHR 0xE2, CHR 0x80, CHR 0x83], [CHR 0xE2, CHR 0x80, CHR 0x84], [CHR 0xE2, CHR 0x80, CHR 0x85],
      [CHR 0xE2, CHR 0x80, CHR 0x86], [CHR 0xE2, CHR 0x80, CHR 0x87], [CHR 0xE2, CHR 0x80, CHR 0x88],
      [CHR 0xE2, CHR 0x80, CHR 0x89], [CHR 0xE2, CHR 0x80, CHR 0x8A], [CHR 0xE2, CHR 0x80, CHR 0xA8],
      [CHR 0xE2, CHR 0x80, CHR 0xA9], [CHR 0xE2, CHR 0x80, CHR 0xAF], [CHR 0xE2, CHR 0x81, CHR 0x9F],
      [CHR 0xE3, CHR 0x80, CHR 0x80]]"

function trim_with :: "string list \<Rightarrow> string \<Rightarrow> string" where
  "trim_with ws s =
     (case find (\<lambda>w. w \<noteq> [] \<and> has_prefix s w) ws of
        None \<Rightarrow> s
      | Some w \<Rightarrow> trim_with ws (drop (length w) s))"
  by pat_completeness auto
termination
  by (relation "measure (\<lambda>(ws, s). length s)")
     (auto simp: find_Some_iff has_prefix_def neq_Nil_conv intro: diff_less split: if_splits)

declare trim_with.simps [simp del]

definition TrimLeftSpace :: "string \<Rightarrow> string" where
  "TrimLeftSpace s = trim_with space_runes s"

definition TrimRightSpace :: "string \<Rightarrow> string" where
  "TrimRightSpace s = rev (trim_with (map rev space_runes) (rev s))"

definition TrimSpace :: "string \<Rightarrow> string" where
  "TrimSpace s = TrimRightSpace (TrimLeftSpace s)"

text \<open>\<open>strings.TrimRight(s, cutset)\<close>.\<close>

definition TrimRight :: "char list \<Rightarrow> string \<Rightarrow> string" where
  "TrimRight cutset s = rev (dropWhile (\<lambda>c. c \<in> set cutset) (rev s))"

fun next_word :: "string \<Rightarrow> string \<times> string" where
  "next_word [] = ([], [])"
| "next_word (c # cs) =
     (if list_ex (has_prefix (c # cs)) space_runes then ([], c # cs)
      else (c # fst (next_word cs), snd (next_word cs)))"

lemma next_word_append: "fst (next_word s) @ snd (next_word s) = s"
  by (induction s) auto

lemma next_word_le: "length (snd (next_word s)) \<le> length s"
  by (induction s) auto

function Fields :: "string \<Rightarrow> string list" where
  "Fields s =
     (let t = TrimLeftSpace s
      in if t = [] \<or> fst (next_word t) = [] then []
         else fst (next_word t) # Fields (snd (next_word t)))"
  by pat_completeness auto

lemma trim_with_le: "length (trim_with ws s) \<le> length s"
proof (induction ws s rule: trim_with.induct)
  case (1 ws s)
  show ?case
  proof (cases "find (\<lambda>w. w \<noteq> [] \<and> has_prefix s w) ws")
    case None
    then show ?thesis by (simp add: trim_with.simps [of ws s])
  next
    case (Some w)
    with 1 have "length (trim_with ws (drop (length w) s)) \<le> length (drop (length w) s)" by simp
    with Some show ?thesis by (simp add: trim_with.simps [of ws s])
  qed
qed

termination Fields
proof (relation "measure length", goal_cases)
  case (2 s t)
  have "length (fst (next_word t)) + length (snd (next_word t)) = length t"
    by (metis length_append next_word_append)
  moreover have "length t \<le> length s"
    using 2 by (simp add: TrimLeftSpace_def trim_with_le)
  ultimately show ?case using 2 by (cases "fst (next_word t)") auto
qed simp

declare Fields.simps [simp del]

subsection \<open>\<open>strconv.Atoi\<close> and \<open>strconv.ParseFloat\<close>\<close>

text \<open>The value and whether the error is nil: callers that drop the error use the value of a failed conversion.\<close>

definition atoi_digits :: "bool \<Rightarrow> string \<Rightarrow> int \<times> bool" where
  "atoi_digits neg ds =
     (if ds = [] \<or> \<not> list_all is_digit ds then (0, False)
      else let n = parse_digits ds
           in if neg then (if n > 2 ^ 63 then (minInt, False) else (- n, True))
              else if n > maxInt then (maxInt, False) else (n, True))"

definition Atoi :: "string \<Rightarrow> int \<times> bool" where
  "Atoi s =
     (case s of
        [] \<Rightarrow> (0, False)
      | c # cs \<Rightarrow>
          if c = CHR ''-'' then atoi_digits True cs
          else if c = CHR ''+'' then atoi_digits False cs
          else atoi_digits False s)"

text \<open>On the strings the regular expressions let through, digits and dots. An overflow is \<open>+Inf\<close> with an error.\<close>

definition ParseFloat :: "string \<Rightarrow> f64 \<times> bool" where
  "ParseFloat s =
     (let a = takeWhile is_digit s; r = drop (length a) s; b = drop 1 r
      in if (r \<noteq> [] \<and> (hd r \<noteq> CHR ''.'' \<or> \<not> list_all is_digit b)) \<or> (a = [] \<and> b = []) then (Fin 0, False)
         else let v = f64_of_rat (of_int (parse_digits (a @ b)) / 10 ^ length b)
              in (v, v \<noteq> PInf))"

subsection \<open>Matching a printed line\<close>

text \<open>
  Matching with a continuation: all ways to match \<open>a\<close> and then what \<open>K\<close> finds. On a line whose
  runs end where the next literal begins, every step of the match is determined; the rules below
  are the steps.
\<close>

definition then_match :: "re \<Rightarrow> (rstate \<Rightarrow> rstate list) \<Rightarrow> rstate \<Rightarrow> rstate list" where
  "then_match a K st = concat (map K (rmatch a st))"

definition refuses :: "(char \<Rightarrow> bool) \<Rightarrow> (rstate \<Rightarrow> rstate list) \<Rightarrow> bool" where
  "refuses p K \<longleftrightarrow> (\<forall>pre x w c. p x \<longrightarrow> K (pre, x # w, c) = [])"

definition stops :: "(char \<Rightarrow> bool) \<Rightarrow> string \<Rightarrow> bool" where
  "stops p t \<longleftrightarrow> t = [] \<or> \<not> p (hd t)"

lemma rmatch_then: "rmatch r st = then_match r (\<lambda>st. [st]) st"
  by (simp add: then_match_def)

lemma concat_map_concat: "concat (map K (concat xss)) = concat (map (\<lambda>xs. concat (map K xs)) xss)"
  by (induction xss) auto

lemma then_match_RSeq [simp]: "then_match (RSeq a b) K = then_match a (then_match b K)"
  by (rule ext) (simp add: then_match_def [abs_def] concat_map_concat comp_def)

lemma then_match_RAlt [simp]: "then_match (RAlt a b) K st = then_match a K st @ then_match b K st"
  by (simp add: then_match_def)

lemma then_match_ROpt [simp]: "then_match (ROpt a) K st = then_match a K st @ K st"
  by (simp add: then_match_def)

lemma then_match_REnd [simp]: "then_match REnd K (pre, s, c) = (if s = [] then K (pre, s, c) else [])"
  by (simp add: then_match_def)

lemma then_match_RGroup [simp]:
  "then_match (RGroup n a) K (pre, s, c) =
     then_match a (\<lambda>(pre', s', c'). K (pre', s', (n, rev (take (length pre' - length pre) pre')) # c')) (pre, s, c)"
  by (simp add: then_match_def comp_def case_prod_unfold)

lemma has_prefix_append [simp]: "has_prefix (w @ t) w"
  by (simp add: has_prefix_def)

lemma then_match_RLit: "then_match (RLit w) K (pre, w @ t, c) = K (rev w @ pre, t, c)"
  by (simp add: then_match_def)

lemma then_match_RLit_Cons:
  "then_match (RLit (a # w)) K (pre, x # t, c) =
     (if a = x then then_match (RLit w) K (x # pre, t, c) else [])"
  by (simp add: then_match_def has_prefix_def)

lemma then_match_RLit_Nil [simp]:
  "then_match (RLit []) K (pre, t, c) = K (pre, t, c)"
  "then_match (RLit (a # w)) K (pre, [], c) = []"
  by (simp_all add: then_match_def has_prefix_def)

lemma greedy_refused:
  assumes "\<forall>x \<in> set u. p x" and "stops p t" and "\<forall>x \<in> set u. \<forall>pre w. K (pre, x # w, c) = []"
  shows "concat (map K (map (\<lambda>(a, b). (a, b, c)) (greedy p pre (u @ t)))) = K (rev u @ pre, t, c)"
  using assms(1,3)
proof (induction u arbitrary: pre)
  case Nil
  with \<open>stops p t\<close> show ?case by (cases t) (auto simp: stops_def)
next
  case (Cons x u)
  then have "p x" by simp
  with Cons.IH [of "x # pre"] Cons.prems show ?case by simp
qed

lemma greedy_step:
  assumes "\<forall>x \<in> set u. p x" and "stops p t" and "refuses p K"
  shows "concat (map K (map (\<lambda>(a, b). (a, b, c)) (greedy p pre (u @ t)))) = K (rev u @ pre, t, c)"
  using assms by (intro greedy_refused) (auto simp: refuses_def)

lemma then_match_RMany:
  assumes "\<forall>x \<in> set u. p x" and "stops p t" and "refuses p K"
  shows "then_match (RMany p) K (pre, u @ t, c) = K (rev u @ pre, t, c)"
  using greedy_step [OF assms] by (simp add: then_match_def)

lemma step_set_Cons [simp]: "step_set p pre (x # s) = (if p x then [(x # pre, s)] else [])"
  by (simp add: step_set_def)

lemma then_match_RPlus_on:
  assumes "u \<noteq> []" and "\<forall>x \<in> set u. p x" and "stops p t" and "\<forall>x \<in> set u. \<forall>pre w. K (pre, x # w, c) = []"
  shows "then_match (RPlus p) K (pre, u @ t, c) = K (rev u @ pre, t, c)"
proof -
  obtain x v where u: "u = x # v" using assms(1) by (cases u) auto
  with assms have "p x" "\<forall>x \<in> set v. p x" "\<forall>x \<in> set v. \<forall>pre w. K (pre, x # w, c) = []" by auto
  with greedy_refused [of v p t K c "x # pre"] assms(3) u show ?thesis
    by (simp add: then_match_def)
qed

lemma then_match_RPlus:
  assumes "u \<noteq> []" and "\<forall>x \<in> set u. p x" and "stops p t" and "refuses p K"
  shows "then_match (RPlus p) K (pre, u @ t, c) = K (rev u @ pre, t, c)"
  using assms by (intro then_match_RPlus_on) (auto simp: refuses_def)

lemma then_match_RPlus_fails [simp]:
  "\<not> p x \<Longrightarrow> then_match (RPlus p) K (pre, x # t, c) = []"
  "then_match (RPlus p) K (pre, [], c) = []"
  by (simp_all add: then_match_def step_set_def)

text \<open>The literal after the run may begin inside the class, if its second byte is outside: the run then gives one byte back.\<close>

lemma greedy_back:
  assumes "\<forall>x \<in> set u. p x" and "p a" and "\<not> p b"
    and K: "\<And>pre x y w. K (pre, x # y # w, c) \<noteq> [] \<Longrightarrow> x = a \<and> y = b"
    and Kb: "\<And>pre w. K (pre, b # w, c) = []"
  shows "concat (map K (map (\<lambda>(a, b). (a, b, c)) (greedy p pre (u @ a # b # t)))) = K (rev u @ pre, a # b # t, c)"
  using assms(1)
proof (induction u arbitrary: pre)
  case Nil
  show ?case using \<open>p a\<close> \<open>\<not> p b\<close> Kb by simp
next
  case (Cons x u)
  obtain y w where s: "u @ a # b # t = y # w" by (cases u) auto
  have "y \<noteq> b" using s Cons.prems \<open>p a\<close> \<open>\<not> p b\<close> by (cases u) auto
  then have "K (pre, x # y # w, c) = []" using K by blast
  with Cons.IH [of "x # pre"] Cons.prems s show ?case by simp
qed

lemma then_match_RPlus_back:
  assumes "u \<noteq> []" and "\<forall>x \<in> set u. p x" and "p a" and "\<not> p b"
    and K: "\<And>pre x y w. K (pre, x # y # w, c) \<noteq> [] \<Longrightarrow> x = a \<and> y = b"
    and Kb: "\<And>pre w. K (pre, b # w, c) = []"
  shows "then_match (RPlus p) K (pre, u @ a # b # t, c) = K (rev u @ pre, a # b # t, c)"
proof -
  obtain x v where u: "u = x # v" using assms(1) by (cases u) auto
  with assms(2) have "p x" "\<forall>x \<in> set v. p x" by auto
  moreover have "concat (map K (map (\<lambda>(a, b). (a, b, c)) (greedy p (x # pre) (v @ a # b # t)))) =
      K (rev v @ x # pre, a # b # t, c)"
    by (rule greedy_back) (use assms(3,4) \<open>\<forall>x \<in> set v. p x\<close> K Kb in auto)
  ultimately show ?thesis using u
    by (simp add: then_match_def)
qed

lemma refuses_lit: "\<not> p a \<Longrightarrow> refuses p (then_match (RLit (a # w)) K)"
  by (auto simp: refuses_def then_match_RLit_Cons)

lemma refuses_group_lit:
  "\<not> p a \<Longrightarrow> refuses p (\<lambda>(pre, s, c). then_match (RLit (a # w)) K (pre, s, f pre c))"
  by (auto simp: refuses_def then_match_RLit_Cons)

lemma refuses_end: "refuses p (then_match REnd K)"
  by (simp add: refuses_def)

lemma refuses_nonempty: "refuses p (\<lambda>(pre, s, c). if s = [] then f pre s c else [])"
  by (simp add: refuses_def)

lemma refuses_group_end: "refuses p (\<lambda>(pre, s, c). then_match REnd K (pre, s, f pre c))"
  by (simp add: refuses_def)

lemma take_back [simp]: "take (length (rev u @ pre) - length pre) (rev u @ pre) = rev u"
  by simp

text \<open>Every match splits the subject at its end, and every submatch is a part of the subject.\<close>

lemma greedy_splits: "(a, b) \<in> set (greedy p pre s) \<Longrightarrow> rev a @ b = rev pre @ s \<and> (\<exists>u. a = rev u @ pre)"
proof (induction p pre s rule: greedy.induct)
  case (2 p pre x xs)
  show ?case
  proof (cases "p x \<and> (a, b) \<in> set (greedy p (x # pre) xs)")
    case True
    with 2 obtain u where "rev a @ b = rev (x # pre) @ xs" "a = rev u @ x # pre" by auto
    then show ?thesis by (intro conjI exI [of _ "x # u"]) auto
  next
    case False
    with 2 show ?thesis by (auto split: if_splits)
  qed
qed simp

lemma rmatch_splits:
  "(pre', s', c') \<in> set (rmatch r (pre, s, c)) \<Longrightarrow> rev pre' @ s' = rev pre @ s \<and> (\<exists>u. pre' = rev u @ pre)"
proof (induction r arbitrary: pre s c pre' s' c')
  case (RLit w)
  then show ?case
    by (auto simp: has_prefix_def split: if_splits) (metis append_take_drop_id)
next
  case (RSet p)
  then show ?case by (cases s) (auto simp: step_set_def split: if_splits intro: exI [of _ "[_]"])
next
  case (RMany p)
  then show ?case using greedy_splits by fastforce
next
  case (RPlus p)
  then obtain x xs where "s = x # xs" "(pre', s') \<in> set (greedy p (x # pre) xs)"
    by (cases s) (auto simp: step_set_def split: if_splits)
  with greedy_splits [of pre' s' p "x # pre" xs] show ?case
    by (auto intro: exI [of _ "x # _"])
next
  case (RLazy p)
  then obtain x xs where "s = x # xs" "(pre', s') \<in> set (greedy p (x # pre) xs)"
    by (cases s) (auto simp: step_set_def split: if_splits)
  with greedy_splits [of pre' s' p "x # pre" xs] show ?case
    by (auto intro: exI [of _ "x # _"])
next
  case (RSeq a b)
  then obtain q t d where 1: "(q, t, d) \<in> set (rmatch a (pre, s, c))" "(pre', s', c') \<in> set (rmatch b (q, t, d))"
    by auto
  from RSeq.IH(1) [OF 1(1)] obtain u where u: "rev q @ t = rev pre @ s" "q = rev u @ pre" by auto
  from RSeq.IH(2) [OF 1(2)] obtain v where v: "rev pre' @ s' = rev q @ t" "pre' = rev v @ q" by auto
  with u show ?case by (intro conjI exI [of _ "u @ v"]) auto
next
  case (RAlt a b)
  then show ?case by auto
next
  case (ROpt a)
  then show ?case by (auto intro: exI [of _ "[]"])
next
  case (RGroup n a)
  then show ?case by auto
qed (auto split: if_splits)

end
