(* ===== verification/JsonParsers.thy ===== *)
theory JsonParsers
  imports GoText Report TcpMetrics "HOL-Library.Sublist"
begin

section \<open>The parsers of JSON tool output\<close>

text \<open>
  Models \<open>src/internal/parser/iperf.go\<close> and \<open>src/internal/parser/iplink.go\<close>: what happens to a
  document once \<open>encoding/json\<close> has decoded it into the wire structs. The decoder is a parameter:
  \<open>unmarshal\<close> gives the decoded document or the text of its error. A Go pointer field is an option,
  a nil slice an empty list.
\<close>

subsection \<open>\<open>math.Sqrt\<close>\<close>

text \<open>
  The square root is correctly rounded. \<open>isqrt\<close> is the integer square root; the scaled root has more
  than 55 bits, so that an inexact root is rounded from a value strictly between two neighbours.
\<close>

function isqrt :: "int \<Rightarrow> int" where
  "isqrt n = (if n \<le> 0 then 0 else let r = 2 * isqrt (n div 4) in if (r + 1) * (r + 1) \<le> n then r + 1 else r)"
  by pat_completeness auto
termination
  by (relation "measure nat") auto

declare isqrt.simps [simp del]

definition sqrt_rat :: "rat \<Rightarrow> rat" where
  "sqrt_rat q =
     (let k = 60 - expo q div 2; m = q * pow2 (2 * k); n = isqrt \<lfloor>m\<rfloor>
      in if of_int (n * n) = m then of_int n / pow2 k else (of_int n + 1 / 2) / pow2 k)"

fun fsqrt :: "f64 \<Rightarrow> f64" where
  "fsqrt FNaN = FNaN"
| "fsqrt PInf = PInf"
| "fsqrt NInf = FNaN"
| "fsqrt (Fin q) = (if q < 0 then FNaN else if q = 0 then Fin 0 else f64_of_rat (sqrt_rat q))"

lemma isqrt_spec: "0 \<le> n \<Longrightarrow> 0 \<le> isqrt n \<and> isqrt n * isqrt n \<le> n \<and> n < (isqrt n + 1) * (isqrt n + 1)"
proof (induction n rule: isqrt.induct)
  case (1 n)
  show ?case
  proof (cases "n \<le> 0")
    case True
    with "1.prems" show ?thesis by (simp add: isqrt.simps [of n] isqrt.simps [of 0])
  next
    case False
    define s where "s = isqrt (n div 4)"
    have s: "0 \<le> s" "s * s \<le> n div 4" "n div 4 < (s + 1) * (s + 1)"
      using 1 False by (auto simp: s_def)
    have "4 * (s * s) \<le> n" "n < 4 * ((s + 1) * (s + 1))" using s(2,3) by linarith+
    then have "(2 * s) * (2 * s) \<le> n" "n < (2 * s + 2) * (2 * s + 2)" by (simp_all add: algebra_simps)
    with s(1) False show ?thesis by (simp add: isqrt.simps [of n] Let_def s_def [symmetric] algebra_simps)
  qed
qed

subsection \<open>iperf3: the wire document\<close>

record iperfSum =
  su_Start :: f64
  su_End :: f64
  su_Seconds :: f64
  su_Bytes :: u64
  su_BitsPerSecond :: f64
  su_Retransmits :: "u64 option"
  su_Sender :: bool

record iperfUDP =
  iu_Bytes :: u64
  iu_BitsPerSecond :: f64
  iu_JitterMs :: f64
  iu_LostPackets :: int
  iu_Packets :: int
  iu_LostPercent :: f64
  iu_OutOfOrder :: "int option"
  iu_Sender :: bool

record iperfInterval =
  ii_Streams :: "iperfSum list"
  ii_Sum :: "iperfSum option"
  ii_SumBidirReverse :: "iperfSum option"

record iperfEndStream =
  es_Sender :: "iperfSum option"
  es_Receiver :: "iperfSum option"
  es_UDP :: "iperfUDP option"

text \<open>\<open>start\<close>, \<open>intervals\<close>, \<open>end\<close> and \<open>error\<close> of the document; the CPU block has the six fields of \<open>CPUUtil\<close>.\<close>

record CPUUtil =
  cu_HostTotal :: f64
  cu_HostUser :: f64
  cu_HostSystem :: f64
  cu_RemoteTotal :: f64
  cu_RemoteUser :: f64
  cu_RemoteSystem :: f64

record iperfWire =
  iw_Version :: string
  iw_Protocol :: string
  iw_NumStreams :: int
  iw_Duration :: f64
  iw_Reverse :: int
  iw_Blksize :: int
  iw_Intervals :: "iperfInterval list"
  iw_EndStreams :: "iperfEndStream list"
  iw_SumSent :: "iperfSum option"
  iw_SumReceived :: "iperfSum option"
  iw_Sum :: "iperfUDP option"
  iw_CPU :: "CPUUtil option"
  iw_SenderTCPCongestion :: string
  iw_ReceiverTCPCongestion :: string
  iw_Error :: string

subsection \<open>iperf3: the normalized result\<close>

record DirStats =
  ds_Bytes :: u64
  ds_BitsPerSecond :: f64
  ds_ReceiverBitsPerSecond :: f64
  ds_Retransmits :: "u64 option"

record BidirStats =
  bs_LocalToPeer :: DirStats
  bs_PeerToLocal :: DirStats

record UDPStats =
  us_TargetBps :: u64
  us_ActualBps :: f64
  us_JitterMs :: f64
  us_Lost :: int
  us_Total :: int
  us_LostPercent :: f64
  us_OutOfOrder :: "int option"

record IntervalStat =
  in_StartSec :: f64
  in_EndSec :: f64
  in_Bytes :: u64
  in_Bps :: f64
  in_Retransmits :: "u64 option"

record Iperf3Result =
  ir_Version :: string
  ir_Protocol :: string
  ir_Streams :: int
  ir_DurationSec :: f64
  ir_Sent :: "DirStats option"
  ir_Received :: "DirStats option"
  ir_Bidir :: "BidirStats option"
  ir_UDP :: "UDPStats option"
  ir_Intervals :: "IntervalStat list"
  ir_IntervalMinBps :: f64
  ir_IntervalMaxBps :: f64
  ir_IntervalAvgBps :: f64
  ir_IntervalCoV :: f64
  ir_Collapses :: "TCPCollapseEvent list option"
  ir_CPU :: "CPUUtil option"
  ir_CongSender :: string
  ir_CongReceiver :: string
  ir_Error :: string

text \<open>
  The error of \<open>ParseIperf3\<close>: \<open>DecodeError\<close> with the decoder's text and the first 256 bytes, the
  client's own error (\<open>ErrIperfClient\<close>, with \<open>ErrIperfUnreachable\<close> in its chain or not), or
  \<open>ParseError\<close>.
\<close>

datatype iperf_error =
    DecodeError string string
  | IperfClient bool string
  | ParseError string

definition IsUnreachableMessage :: "string \<Rightarrow> bool" where
  "IsUnreachableMessage msg \<longleftrightarrow> contains (to_lower msg) ''unable to connect to server''"

definition decodePrefixLen :: nat where
  "decodePrefixLen = 256"

definition zero_dirStats :: DirStats where
  "zero_dirStats = \<lparr> ds_Bytes = 0, ds_BitsPerSecond = Fin 0, ds_ReceiverBitsPerSecond = Fin 0, ds_Retransmits = None \<rparr>"

definition zero_interval :: IntervalStat where
  "zero_interval = \<lparr> in_StartSec = Fin 0, in_EndSec = Fin 0, in_Bytes = 0, in_Bps = Fin 0, in_Retransmits = None \<rparr>"

definition zero_iperf :: Iperf3Result where
  "zero_iperf = \<lparr> ir_Version = '''', ir_Protocol = '''', ir_Streams = 0, ir_DurationSec = Fin 0, ir_Sent = None,
     ir_Received = None, ir_Bidir = None, ir_UDP = None, ir_Intervals = [], ir_IntervalMinBps = Fin 0,
     ir_IntervalMaxBps = Fin 0, ir_IntervalAvgBps = Fin 0, ir_IntervalCoV = Fin 0, ir_Collapses = None, ir_CPU = None,
     ir_CongSender = '''', ir_CongReceiver = '''', ir_Error = '''' \<rparr>"

definition streamDirRow :: "iperfEndStream \<Rightarrow> iperfSum option" where
  "streamDirRow st = (case es_Sender st of Some s \<Rightarrow> Some s | None \<Rightarrow> es_Receiver st)"

definition addRetransmits :: "u64 option \<Rightarrow> u64 \<Rightarrow> u64 option" where
  "addRetransmits dst v = Some ((case dst of Some d \<Rightarrow> d | None \<Rightarrow> 0) + v)"

definition intervalRow :: "iperfSum \<Rightarrow> IntervalStat" where
  "intervalRow s = \<lparr> in_StartSec = su_Start s, in_EndSec = su_End s, in_Bytes = su_Bytes s,
     in_Bps = su_BitsPerSecond s, in_Retransmits = su_Retransmits s \<rparr>"

definition derive_step :: "bool \<Rightarrow> iperfSum \<Rightarrow> IntervalStat option \<Rightarrow> IntervalStat option" where
  "derive_step sender s acc =
     (if su_Sender s \<noteq> sender then acc
      else let r = (case acc of Some r \<Rightarrow> r | None \<Rightarrow> zero_interval\<lparr> in_StartSec := su_Start s, in_EndSec := su_End s \<rparr>)
           in Some (r\<lparr> in_Bytes := in_Bytes r + su_Bytes s, in_Bps := fadd (in_Bps r) (su_BitsPerSecond s),
                       in_Retransmits := (case su_Retransmits s of
                          Some v \<Rightarrow> addRetransmits (in_Retransmits r) v | None \<Rightarrow> in_Retransmits r) \<rparr>))"

definition deriveIntervalRow :: "iperfSum list \<Rightarrow> bool \<Rightarrow> IntervalStat option" where
  "deriveIntervalRow streams sender = fold (derive_step sender) streams None"

definition interval_timing :: "iperfInterval \<Rightarrow> iperfSum option" where
  "interval_timing iv =
     (case ii_Sum iv of
        Some s \<Rightarrow> Some s
      | None \<Rightarrow>
          (case ii_SumBidirReverse iv of
             Some s \<Rightarrow> Some s
           | None \<Rightarrow> (case ii_Streams iv of s # _ \<Rightarrow> Some s | [] \<Rightarrow> None)))"

definition missingIntervalRow :: "iperfInterval \<Rightarrow> IntervalStat" where
  "missingIntervalRow iv =
     (case interval_timing iv of
        None \<Rightarrow> zero_interval
      | Some t \<Rightarrow> zero_interval\<lparr> in_StartSec := su_Start t, in_EndSec := su_End t \<rparr>)"

definition out_of_order_step :: "iperfEndStream \<Rightarrow> int option \<Rightarrow> int option" where
  "out_of_order_step st out =
     (case es_UDP st of
        None \<Rightarrow> out
      | Some u \<Rightarrow>
          (case iu_OutOfOrder u of
             None \<Rightarrow> out
           | Some n \<Rightarrow> Some (iadd (case out of Some m \<Rightarrow> m | None \<Rightarrow> 0) n)))"

definition sumOutOfOrder :: "iperfEndStream list \<Rightarrow> int option" where
  "sumOutOfOrder streams = fold out_of_order_step streams None"

definition dirStats :: "iperfSum option \<Rightarrow> DirStats option" where
  "dirStats s =
     map_option (\<lambda>s. zero_dirStats\<lparr> ds_Bytes := su_Bytes s, ds_BitsPerSecond := su_BitsPerSecond s,
        ds_Retransmits := su_Retransmits s \<rparr>) s"

text \<open>Minimum, maximum, average and coefficient of variation of the rows after the first, and the collapses.\<close>

definition interval_set :: "IntervalStat list \<Rightarrow> IntervalStat list" where
  "interval_set rows = (if length rows \<ge> 2 then tl rows else rows)"

definition interval_avg :: "IntervalStat list \<Rightarrow> f64" where
  "interval_avg s = fdiv (fold (\<lambda>r acc. fadd acc (in_Bps r)) s (Fin 0)) (f64_of_int (int (length s)))"

definition interval_cov :: "IntervalStat list \<Rightarrow> f64" where
  "interval_cov s =
     (let avg = interval_avg s
      in if fgt avg (Fin 0)
         then fdiv (fsqrt (fdiv (fold (\<lambda>r acc. let d = fsub (in_Bps r) avg in fadd acc (fmul d d)) s (Fin 0))
                (f64_of_int (int (length s))))) avg
         else Fin 0)"

definition analyzeIntervals :: "IntervalStat list \<Rightarrow> f64 \<times> f64 \<times> f64 \<times> f64 \<times> TCPCollapseEvent list" where
  "analyzeIntervals rows =
     (let collapses = CollapseEvents (map (\<lambda>r. \<lparr> sm_StartSec = in_StartSec r, sm_BitsPerSecond = in_Bps r \<rparr>) rows);
          s = interval_set rows
      in if s = [] then (Fin 0, Fin 0, Fin 0, Fin 0, collapses)
         else (fold (\<lambda>r acc. mathMin acc (in_Bps r)) s (in_Bps (hd s)),
               fold (\<lambda>r acc. mathMax acc (in_Bps r)) s (in_Bps (hd s)),
               interval_avg s, interval_cov s, collapses))"

subsection \<open>\<open>ParseIperf3\<close>\<close>

definition is_bidir :: "iperfWire \<Rightarrow> bool" where
  "is_bidir w \<longleftrightarrow>
     list_ex (\<lambda>st. case streamDirRow st of Some row \<Rightarrow> \<not> su_Sender row | None \<Rightarrow> False) (iw_EndStreams w)"

definition forward_row :: "iperfInterval \<Rightarrow> IntervalStat" where
  "forward_row iv =
     (case ii_Sum iv of
        Some s \<Rightarrow>
          if su_Sender s then intervalRow s
          else (case deriveIntervalRow (ii_Streams iv) True of Some r \<Rightarrow> r | None \<Rightarrow> missingIntervalRow iv)
      | None \<Rightarrow> (case deriveIntervalRow (ii_Streams iv) True of Some r \<Rightarrow> r | None \<Rightarrow> missingIntervalRow iv))"

definition interval_rows :: "bool \<Rightarrow> iperfInterval list \<Rightarrow> IntervalStat list" where
  "interval_rows bidir ivs =
     (if bidir then map forward_row ivs
      else concat (map (\<lambda>iv. case ii_Sum iv of Some s \<Rightarrow> [intervalRow s] | None \<Rightarrow> []) ivs))"

text \<open>One end stream added to the totals of its direction.\<close>

definition add_stream :: "iperfEndStream \<Rightarrow> DirStats \<Rightarrow> DirStats" where
  "add_stream st dir =
     (let dir =
        (case es_Sender st of
           Some s \<Rightarrow> dir\<lparr> ds_Bytes := ds_Bytes dir + su_Bytes s, ds_BitsPerSecond := fadd (ds_BitsPerSecond dir) (su_BitsPerSecond s),
              ds_Retransmits := (case su_Retransmits s of Some v \<Rightarrow> addRetransmits (ds_Retransmits dir) v | None \<Rightarrow> ds_Retransmits dir) \<rparr>
         | None \<Rightarrow>
             (case es_Receiver st of
                Some r \<Rightarrow> dir\<lparr> ds_Bytes := ds_Bytes dir + su_Bytes r, ds_BitsPerSecond := fadd (ds_BitsPerSecond dir) (su_BitsPerSecond r) \<rparr>
              | None \<Rightarrow> dir))
      in case es_Receiver st of
           Some r \<Rightarrow> dir\<lparr> ds_ReceiverBitsPerSecond := fadd (ds_ReceiverBitsPerSecond dir) (su_BitsPerSecond r) \<rparr>
         | None \<Rightarrow> dir)"

definition bidir_step :: "iperfEndStream \<Rightarrow> BidirStats \<Rightarrow> BidirStats" where
  "bidir_step st b =
     (case streamDirRow st of
        None \<Rightarrow> b
      | Some direction \<Rightarrow>
          if su_Sender direction then b\<lparr> bs_LocalToPeer := add_stream st (bs_LocalToPeer b) \<rparr>
          else b\<lparr> bs_PeerToLocal := add_stream st (bs_PeerToLocal b) \<rparr>)"

definition udp_stats :: "iperfWire \<Rightarrow> UDPStats option" where
  "udp_stats w =
     map_option (\<lambda>s. \<lparr> us_TargetBps = 0, us_ActualBps = iu_BitsPerSecond s, us_JitterMs = iu_JitterMs s,
        us_Lost = iu_LostPackets s, us_Total = iu_Packets s, us_LostPercent = iu_LostPercent s,
        us_OutOfOrder = (case iu_OutOfOrder s of Some n \<Rightarrow> Some n | None \<Rightarrow> sumOutOfOrder (iw_EndStreams w)) \<rparr>) (iw_Sum w)"

definition missing_sums :: iperf_error where
  "missing_sums = ParseError ''TCP result has neither end.sum_sent nor end.sum_received''"

definition iperf_header :: "iperfWire \<Rightarrow> Iperf3Result" where
  "iperf_header w = zero_iperf\<lparr> ir_Version := iw_Version w, ir_Protocol := iw_Protocol w, ir_Streams := iw_NumStreams w,
     ir_DurationSec := iw_Duration w, ir_CongSender := iw_SenderTCPCongestion w,
     ir_CongReceiver := iw_ReceiverTCPCongestion w, ir_Error := iw_Error w \<rparr>"

definition iperf_intervals :: "iperfWire \<Rightarrow> Iperf3Result" where
  "iperf_intervals w =
     (let rows = interval_rows (is_bidir w) (iw_Intervals w)
      in case analyzeIntervals rows of (mn, mx, avg, cov, collapses) \<Rightarrow>
           (iperf_header w)\<lparr> ir_CPU := iw_CPU w, ir_Intervals := rows, ir_IntervalMinBps := mn, ir_IntervalMaxBps := mx,
             ir_IntervalAvgBps := avg, ir_IntervalCoV := cov, ir_Collapses := Some collapses \<rparr>)"

definition normalize_iperf :: "iperfWire \<Rightarrow> Iperf3Result \<times> iperf_error option" where
  "normalize_iperf w =
     (if iw_Error w \<noteq> '''' then (iperf_header w, Some (IperfClient (IsUnreachableMessage (iw_Error w)) (iw_Error w)))
      else
        let res = iperf_intervals w
        in if is_bidir w then
             (res\<lparr> ir_Bidir := Some (fold bidir_step (iw_EndStreams w) \<lparr> bs_LocalToPeer = zero_dirStats, bs_PeerToLocal = zero_dirStats \<rparr>) \<rparr>, None)
           else if ir_Protocol res = ''UDP'' then (res\<lparr> ir_UDP := udp_stats w \<rparr>, None)
           else
             let res = res\<lparr> ir_Sent := dirStats (iw_SumSent w), ir_Received := dirStats (iw_SumReceived w) \<rparr>
             in if ir_Sent res = None \<and> ir_Received res = None then (res, Some missing_sums) else (res, None))"

definition ParseIperf3 :: "(string \<Rightarrow> string + iperfWire) \<Rightarrow> string \<Rightarrow> Iperf3Result \<times> iperf_error option" where
  "ParseIperf3 unmarshal out =
     (case unmarshal out of
        Inl err \<Rightarrow> (zero_iperf, Some (DecodeError err (take decodePrefixLen out)))
      | Inr w \<Rightarrow> normalize_iperf w)"

subsection \<open>\<open>ip -j\<close>\<close>

record IPAddrInfo =
  ai_Family :: string
  ai_Local :: string
  ai_Prefixlen :: int
  ai_Scope :: string
  ai_Label :: string
  ai_Dynamic :: bool

record IPLink =
  li_Ifindex :: int
  li_Ifname :: string
  li_Flags :: "string list"
  li_MTU :: int
  li_Operstate :: string
  li_LinkType :: string
  li_Address :: string
  li_Altnames :: "string list"
  li_AddrInfo :: "IPAddrInfo list"
  li_Stats64 :: "IPStats64 option"

datatype iplink_error = LinkJSON string | LinkCount nat | NoStats64 string

definition lower_state :: "IPLink \<Rightarrow> IPLink" where
  "lower_state l = l\<lparr> li_Operstate := to_lower (li_Operstate l) \<rparr>"

definition ParseIPAddr :: "(string \<Rightarrow> string + IPLink list) \<Rightarrow> string \<Rightarrow> iplink_error + IPLink list" where
  "ParseIPAddr unmarshal out =
     (case unmarshal out of Inl e \<Rightarrow> Inl (LinkJSON e) | Inr links \<Rightarrow> Inr (map lower_state links))"

definition ParseIPLinkStats :: "(string \<Rightarrow> string + IPLink list) \<Rightarrow> string \<Rightarrow> iplink_error + IPLink" where
  "ParseIPLinkStats unmarshal out =
     (case unmarshal out of
        Inl e \<Rightarrow> Inl (LinkJSON e)
      | Inr links \<Rightarrow>
          (case links of
             [link] \<Rightarrow>
               let link = lower_state link
               in (case li_Stats64 link of None \<Rightarrow> Inl (NoStats64 (li_Ifname link)) | Some _ \<Rightarrow> Inr link)
           | _ \<Rightarrow> Inl (LinkCount (length links))))"

subsection \<open>What a parsed document says\<close>

definition goes_forward :: "iperfEndStream \<Rightarrow> bool" where
  "goes_forward st \<longleftrightarrow> (case streamDirRow st of Some row \<Rightarrow> su_Sender row | None \<Rightarrow> False)"

definition goes_back :: "iperfEndStream \<Rightarrow> bool" where
  "goes_back st \<longleftrightarrow> (case streamDirRow st of Some row \<Rightarrow> \<not> su_Sender row | None \<Rightarrow> False)"

definition stream_bytes :: "iperfEndStream \<Rightarrow> u64" where
  "stream_bytes st = (case streamDirRow st of Some row \<Rightarrow> su_Bytes row | None \<Rightarrow> 0)"

definition reports_retransmits :: "iperfEndStream \<Rightarrow> bool" where
  "reports_retransmits st \<longleftrightarrow> (case es_Sender st of Some s \<Rightarrow> su_Retransmits s \<noteq> None | None \<Rightarrow> False)"

lemma bidir_split:
  "fold bidir_step sts b =
     \<lparr> bs_LocalToPeer = fold add_stream (filter goes_forward sts) (bs_LocalToPeer b),
       bs_PeerToLocal = fold add_stream (filter goes_back sts) (bs_PeerToLocal b) \<rparr>"
proof (induction sts arbitrary: b)
  case (Cons st sts)
  then show ?case
    by (simp add: bidir_step_def goes_forward_def goes_back_def split: option.split)
qed simp

lemma add_stream_bytes: "ds_Bytes (add_stream st d) = ds_Bytes d + stream_bytes st"
  by (simp add: add_stream_def stream_bytes_def streamDirRow_def Let_def split: option.split)

lemma add_stream_retransmits:
  "ds_Retransmits (add_stream st d) = None \<longleftrightarrow> ds_Retransmits d = None \<and> \<not> reports_retransmits st"
  by (simp add: add_stream_def reports_retransmits_def addRetransmits_def Let_def split: option.split)

lemma fold_streams_bytes: "ds_Bytes (fold add_stream sts d) = ds_Bytes d + sum_list (map stream_bytes sts)"
  by (induction sts arbitrary: d) (simp_all add: add_stream_bytes add.assoc)

lemma fold_streams_retransmits:
  "ds_Retransmits (fold add_stream sts d) = None \<longleftrightarrow> ds_Retransmits d = None \<and> \<not> list_ex reports_retransmits sts"
  by (induction sts arbitrary: d) (auto simp: add_stream_retransmits)

text \<open>A gap in the forward series keeps its place: every interval has one row, with a time of that interval.\<close>

definition interval_starts :: "iperfInterval \<Rightarrow> f64 set" where
  "interval_starts iv = su_Start ` (set (ii_Streams iv) \<union> set_option (ii_Sum iv) \<union> set_option (ii_SumBidirReverse iv))"

lemma derive_start:
  "fold (derive_step sender) sts acc = Some r \<Longrightarrow>
     (\<forall>r0. acc = Some r0 \<longrightarrow> in_StartSec r0 \<in> S) \<Longrightarrow> in_StartSec r \<in> S \<union> su_Start ` set sts"
proof (induction sts arbitrary: acc S)
  case (Cons s sts)
  show ?case
  proof (cases "su_Sender s = sender")
    case True
    from Cons.IH [of "derive_step sender s acc" "S \<union> {su_Start s}"] Cons.prems True show ?thesis
      by (auto simp: derive_step_def Let_def split: option.splits)
  next
    case False
    with Cons.IH [of acc S] Cons.prems show ?thesis by (auto simp: derive_step_def)
  qed
qed simp

lemma missing_row_start: "interval_starts iv \<noteq> {} \<Longrightarrow> in_StartSec (missingIntervalRow iv) \<in> interval_starts iv"
  by (auto simp: missingIntervalRow_def interval_timing_def interval_starts_def split: option.split list.split)

lemma forward_row_start: "interval_starts iv \<noteq> {} \<Longrightarrow> in_StartSec (forward_row iv) \<in> interval_starts iv"
  using derive_start [of True "ii_Streams iv" None _ "{}"] missing_row_start [of iv]
  by (auto simp: forward_row_def deriveIntervalRow_def intervalRow_def interval_starts_def split: option.split)

lemma normalize_ok:
  assumes "normalize_iperf w = (res, None)"
  shows "iw_Error w = '''' \<and> ir_Intervals res = interval_rows (is_bidir w) (iw_Intervals w) \<and>
    (if is_bidir w then ir_Bidir res = Some (fold bidir_step (iw_EndStreams w) \<lparr> bs_LocalToPeer = zero_dirStats, bs_PeerToLocal = zero_dirStats \<rparr>)
     else if iw_Protocol w = ''UDP'' then ir_UDP res = udp_stats w
     else (ir_Sent res, ir_Received res) = (dirStats (iw_SumSent w), dirStats (iw_SumReceived w)) \<and>
       (iw_SumSent w \<noteq> None \<or> iw_SumReceived w \<noteq> None))"
  using assms
  by (auto simp: normalize_iperf_def iperf_intervals_def iperf_header_def zero_iperf_def Let_def dirStats_def
      split: if_splits prod.splits)

text \<open>
  In a bidirectional run each direction is measured from its own streams: the bytes of a
  direction are the sum over exactly the end streams that carry its flag, its retransmit count is
  absent exactly when none of these streams reports one (absent never turns into zero), and the
  interval series has one row per interval of the document, with a start time taken from that
  interval, so a gap does not shift later rows.
\<close>

theorem bidir_by_direction:
  assumes "unmarshal out = Inr w" and "ParseIperf3 unmarshal out = (res, None)" and "is_bidir w"
  shows "\<exists>b. ir_Bidir res = Some b \<and>
    ds_Bytes (bs_LocalToPeer b) = sum_list (map stream_bytes (filter goes_forward (iw_EndStreams w))) \<and>
    ds_Bytes (bs_PeerToLocal b) = sum_list (map stream_bytes (filter goes_back (iw_EndStreams w))) \<and>
    (ds_Retransmits (bs_LocalToPeer b) = None \<longleftrightarrow> \<not> list_ex reports_retransmits (filter goes_forward (iw_EndStreams w))) \<and>
    (ds_Retransmits (bs_PeerToLocal b) = None \<longleftrightarrow> \<not> list_ex reports_retransmits (filter goes_back (iw_EndStreams w))) \<and>
    length (ir_Intervals res) = length (iw_Intervals w) \<and>
    (\<forall>i < length (iw_Intervals w). interval_starts (iw_Intervals w ! i) \<noteq> {} \<longrightarrow>
       in_StartSec (ir_Intervals res ! i) \<in> interval_starts (iw_Intervals w ! i))"
proof -
  have "normalize_iperf w = (res, None)" using assms(1,2) by (simp add: ParseIperf3_def)
  note normalize_ok [OF this]
  with assms(3) show ?thesis
    by (simp add: bidir_split fold_streams_bytes fold_streams_retransmits zero_dirStats_def interval_rows_def forward_row_start)
qed

definition demo_sum :: "bool \<Rightarrow> u64 \<Rightarrow> u64 option \<Rightarrow> iperfSum" where
  "demo_sum sender bytes retr = \<lparr> su_Start = Fin 0, su_End = Fin 1, su_Seconds = Fin 1, su_Bytes = bytes,
     su_BitsPerSecond = Fin 8, su_Retransmits = retr, su_Sender = sender \<rparr>"

definition demo_wire :: iperfWire where
  "demo_wire = \<lparr> iw_Version = ''iperf 3.7'', iw_Protocol = ''TCP'', iw_NumStreams = 1, iw_Duration = Fin 1, iw_Reverse = 0,
     iw_Blksize = 1, iw_Intervals = [\<lparr> ii_Streams = [], ii_Sum = Some (demo_sum False 1 None), ii_SumBidirReverse = None \<rparr>],
     iw_EndStreams = [\<lparr> es_Sender = Some (demo_sum True 100 (Some 0)), es_Receiver = None, es_UDP = None \<rparr>,
       \<lparr> es_Sender = None, es_Receiver = Some (demo_sum False 50 None), es_UDP = None \<rparr>],
     iw_SumSent = None, iw_SumReceived = None, iw_Sum = None, iw_CPU = None, iw_SenderTCPCongestion = '''',
     iw_ReceiverTCPCongestion = '''', iw_Error = '''' \<rparr>"

text \<open>
  A run counts as measured only when it is: without an error the document decoded, iperf3
  itself reported no error, and the result carries a bidirectional, a UDP or at least one one-way
  TCP total; a failed client is told apart as unreachable exactly by iperf3's connect message.
\<close>

theorem iperf_outcome:
  "case ParseIperf3 unmarshal out of
     (res, None) \<Rightarrow> \<exists>w. unmarshal out = Inr w \<and> iw_Error w = '''' \<and>
        (is_bidir w \<and> ir_Bidir res \<noteq> None \<or> \<not> is_bidir w \<and> iw_Protocol w = ''UDP'' \<and> ir_UDP res = udp_stats w \<or>
         \<not> is_bidir w \<and> iw_Protocol w \<noteq> ''UDP'' \<and> (ir_Sent res \<noteq> None \<or> ir_Received res \<noteq> None))
   | (res, Some (DecodeError e p)) \<Rightarrow> unmarshal out = Inl e \<and> prefix p out \<and> length p \<le> 256 \<and> res = zero_iperf
   | (res, Some (IperfClient unreachable msg)) \<Rightarrow> \<exists>w. unmarshal out = Inr w \<and> msg = iw_Error w \<and> msg \<noteq> '''' \<and>
        (unreachable \<longleftrightarrow> contains (to_lower msg) ''unable to connect to server'')
   | (res, Some (ParseError p)) \<Rightarrow> \<exists>w. unmarshal out = Inr w \<and> iw_Error w = '''' \<and>
        iw_SumSent w = None \<and> iw_SumReceived w = None \<and> ir_Sent res = None \<and> ir_Received res = None"
proof (cases "unmarshal out")
  case (Inl e)
  then show ?thesis by (simp add: ParseIperf3_def take_is_prefix decodePrefixLen_def)
next
  case (Inr w)
  then have run: "ParseIperf3 unmarshal out = normalize_iperf w" by (simp add: ParseIperf3_def)
  show ?thesis
  proof (cases "snd (normalize_iperf w)")
    case None
    then obtain res where res: "normalize_iperf w = (res, None)" by (cases "normalize_iperf w") auto
    from normalize_ok [OF this] res run Inr show ?thesis by (auto simp: dirStats_def split: if_splits)
  next
    case (Some e)
    with run Inr show ?thesis
      by (auto simp: normalize_iperf_def IsUnreachableMessage_def missing_sums_def Let_def dirStats_def split: if_splits)
  qed
qed

end
