(* ===== verification/Rendering.thy ===== *)
theory Rendering
  imports JsonParsers
begin

section \<open>Formatting, the terminal summary and trial statistics\<close>

text \<open>
  Models \<open>src/internal/reporting/format.go\<close>, \<open>summary.go\<close> and \<open>tcp_spread.go\<close>: the formatters
  the renderers share, the plain-ASCII summary, and the statistics over repeated TCP trials. The
  RFC 3339 rendering of a time stamp depends on its zone and is the parameter \<open>rfc3339\<close>; the zero
  time is 0.
\<close>

subsection \<open>Runes\<close>

definition byte_in :: "nat \<Rightarrow> nat \<Rightarrow> char \<Rightarrow> bool" where
  "byte_in lo hi c \<longleftrightarrow> lo \<le> (of_char c :: nat) \<and> (of_char c :: nat) \<le> hi"

definition cont_byte :: "char \<Rightarrow> bool" where
  "cont_byte c \<longleftrightarrow> byte_in 128 191 c"

text \<open>
  The width of the first rune as \<open>utf8.DecodeRuneInString\<close> finds it: a byte that does not start a
  valid encoding is a rune of width 1.
\<close>

definition lead2 :: "char \<Rightarrow> char \<Rightarrow> bool" where
  "lead2 a b \<longleftrightarrow> byte_in 194 223 a \<and> cont_byte b"

definition lead3 :: "char \<Rightarrow> char \<Rightarrow> char \<Rightarrow> bool" where
  "lead3 a b c \<longleftrightarrow> cont_byte c \<and>
     (byte_in 224 224 a \<and> byte_in 160 191 b \<or> byte_in 225 236 a \<and> cont_byte b \<or>
      byte_in 237 237 a \<and> byte_in 128 159 b \<or> byte_in 238 239 a \<and> cont_byte b)"

definition lead4 :: "char \<Rightarrow> char \<Rightarrow> char \<Rightarrow> char \<Rightarrow> bool" where
  "lead4 a b c d \<longleftrightarrow> cont_byte c \<and> cont_byte d \<and>
     (byte_in 240 240 a \<and> byte_in 144 191 b \<or> byte_in 241 243 a \<and> cont_byte b \<or> byte_in 244 244 a \<and> byte_in 128 143 b)"

definition rune_width :: "string \<Rightarrow> nat" where
  "rune_width s =
     (case s of
        a # b # c # d # _ \<Rightarrow> if lead2 a b then 2 else if lead3 a b c then 3 else if lead4 a b c d then 4 else 1
      | [a, b, c] \<Rightarrow> if lead2 a b then 2 else if lead3 a b c then 3 else 1
      | [a, b] \<Rightarrow> if lead2 a b then 2 else 1
      | _ \<Rightarrow> 1)"

definition ascii_char :: "char \<Rightarrow> bool" where
  "ascii_char c \<longleftrightarrow> (of_char c :: nat) < 128"

definition en_dash :: string where "en_dash = [CHR 0xE2, CHR 0x80, CHR 0x93]"
definition right_arrow :: string where "right_arrow = [CHR 0xE2, CHR 0x86, CHR 0x92]"

text \<open>What \<open>toASCII\<close> writes for one rune.\<close>

definition ascii_rune :: "string \<Rightarrow> string" where
  "ascii_rune r =
     (if list_all ascii_char r then r
      else if r = em_dash \<or> r = en_dash then ''-''
      else if r = right_arrow then ''->''
      else ''?'')"

lemma rune_width_pos: "0 < rune_width s"
  by (simp add: rune_width_def split: list.split)

function toASCII :: "string \<Rightarrow> string" where
  "toASCII s = (if s = [] then [] else ascii_rune (take (rune_width s) s) @ toASCII (drop (rune_width s) s))"
  by pat_completeness auto
termination
  by (relation "measure length") (auto simp: rune_width_pos)

declare toASCII.simps [simp del]

subsection \<open>Formatters\<close>

definition class_name :: "HealthClass \<Rightarrow> string" where
  "class_name c =
     (case c of HealthExcellent \<Rightarrow> ''EXCELLENT'' | HealthGood \<Rightarrow> ''GOOD'' | HealthWarning \<Rightarrow> ''WARNING''
      | HealthPoor \<Rightarrow> ''POOR'' | HealthFailed \<Rightarrow> ''FAILED'' | HealthInconclusive \<Rightarrow> ''INCONCLUSIVE'')"

text \<open>The string of a saved classification; a report without one has the empty string.\<close>

definition saved_class :: "HealthClass option \<Rightarrow> string" where
  "saved_class c = (case c of None \<Rightarrow> '''' | Some h \<Rightarrow> class_name h)"

definition optionalUint :: "u64 option \<Rightarrow> string" where
  "optionalUint v = (case v of None \<Rightarrow> ''not reported'' | Some n \<Rightarrow> show_u64 n)"

definition fmtBps :: "f64 \<Rightarrow> string" where
  "fmtBps bps =
     (if fle bps (Fin 0) then ''0 bit/s''
      else if fge bps (Fin 1000000000) then fmt_f 2 (fdiv bps (Fin 1000000000)) @ '' Gbit/s''
      else if fge bps (Fin 1000000) then fmt_f 1 (fdiv bps (Fin 1000000)) @ '' Mbit/s''
      else if fge bps (Fin 1000) then fmt_f 1 (fdiv bps (Fin 1000)) @ '' Kbit/s''
      else fmt_f 0 bps @ '' bit/s'')"

definition fmtPct :: "f64 \<Rightarrow> string" where
  "fmtPct v = fmt_f 2 v @ ''%''"

definition fmtSpeedMbps :: "int \<Rightarrow> string" where
  "fmtSpeedMbps mbps = (if mbps \<le> 0 then ''unknown'' else show_int mbps @ '' Mb/s'')"

definition fmtTime :: "(gotime \<Rightarrow> string) \<Rightarrow> gotime \<Rightarrow> string" where
  "fmtTime rfc3339 t = (if t = 0 then ''unknown'' else rfc3339 t)"

definition yesNo :: "bool \<Rightarrow> string" where
  "yesNo v = (if v then ''yes'' else ''no'')"

definition orUnknown :: "string \<Rightarrow> string" where
  "orUnknown s = (if s = '''' then ''unknown'' else s)"

definition ScoreOrNA :: "int option \<Rightarrow> string" where
  "ScoreOrNA score = (case score of None \<Rightarrow> ''N/A'' | Some n \<Rightarrow> show_int n @ ''/100'')"

definition HealthSlug :: "HealthClass option \<Rightarrow> string" where
  "HealthSlug c =
     (case c of None \<Rightarrow> ''unknown'' | Some h \<Rightarrow>
        (case h of HealthExcellent \<Rightarrow> ''excellent'' | HealthGood \<Rightarrow> ''good'' | HealthWarning \<Rightarrow> ''warning''
         | HealthPoor \<Rightarrow> ''poor'' | HealthFailed \<Rightarrow> ''failed'' | HealthInconclusive \<Rightarrow> ''inconclusive''))"

definition HealthLabel :: "HealthClass option \<Rightarrow> string" where
  "HealthLabel c =
     (case c of None \<Rightarrow> ''Unknown'' | Some h \<Rightarrow>
        (case h of HealthExcellent \<Rightarrow> ''Excellent'' | HealthGood \<Rightarrow> ''Good'' | HealthWarning \<Rightarrow> ''Warning''
         | HealthPoor \<Rightarrow> ''Poor'' | HealthFailed \<Rightarrow> ''Failed'' | HealthInconclusive \<Rightarrow> ''Inconclusive''))"

definition VerdictText :: "HealthClass option \<Rightarrow> string" where
  "VerdictText c =
     (case c of None \<Rightarrow> '''' | Some h \<Rightarrow>
        (case h of
           HealthExcellent \<Rightarrow> ''The cable passed every test with no anomalies.''
         | HealthGood \<Rightarrow> ''The cable is healthy; only minor deviations were observed.''
         | HealthWarning \<Rightarrow> ''The cable works but shows signs that deserve attention.''
         | HealthPoor \<Rightarrow> ''The link shows significant physical problems '' @ em_dash @
             '' the cable or its connectors are the leading suspect; confirm by substitution.''
         | HealthFailed \<Rightarrow> ''The link failed critical physical tests. Replace the cable first; if the fault persists, suspect connectors or the NIC port.''
         | HealthInconclusive \<Rightarrow> ''The collected evidence does not support a verdict about the cable.''))"

definition SeveritySlug :: "severity \<Rightarrow> string" where
  "SeveritySlug s =
     (if s = SevInfo then ''info'' else if s = SevWarning then ''warning'' else if s = SevPoor then ''poor''
      else if s = SevFailed then ''failed'' else if s = SevMarker then ''marker'' else ''unknown'')"

definition SeverityLabel :: "severity \<Rightarrow> string" where
  "SeverityLabel s =
     (if s = SevInfo then ''Info'' else if s = SevWarning then ''Warning'' else if s = SevPoor then ''Poor''
      else if s = SevFailed then ''Failed'' else if s = SevMarker then ''Marker'' else ''Unknown'')"

definition barPct :: "f64 \<Rightarrow> f64 \<Rightarrow> f64" where
  "barPct v mx =
     (if fle mx (Fin 0) \<or> mx = FNaN then Fin 0
      else let pct = fmul (fdiv v mx) (Fin 100)
           in if pct = FNaN \<or> fle pct (Fin 0) then Fin 0 else if fge pct (Fin 100) then Fin 100 else pct)"

definition dirLabel :: "string \<Rightarrow> string" where
  "dirLabel direction =
     (if direction = DirectionPC1ToPC2 then ''pc1 '' @ right_arrow @ '' pc2''
      else if direction = DirectionPC2ToPC1 then ''pc2 '' @ right_arrow @ '' pc1''
      else orUnknown direction)"

definition counterCell :: "CounterSnapshot option \<Rightarrow> string \<Rightarrow> string" where
  "counterCell s key =
     (case s of None \<Rightarrow> ''n/a'' | Some c \<Rightarrow> (case map_of (cs_Standard c) key of None \<Rightarrow> ''n/a'' | Some v \<Rightarrow> show_u64 v))"

definition deltaCell :: "CounterDeltaSet \<Rightarrow> string \<Rightarrow> string" where
  "deltaCell s key =
     (case map_of s key of
        None \<Rightarrow> ''n/a''
      | Some d \<Rightarrow> if \<not> cd_OK d then ''unreliable (reset/wrap)'' else ''+'' @ show_u64 (cd_Delta d))"

text \<open>Byte order of strings and \<open>slices.Sort\<close> on them; \<open>unionKeys\<close> is the sorted union of two key sets.\<close>

fun string_le :: "string \<Rightarrow> string \<Rightarrow> bool" where
  "string_le [] _ = True"
| "string_le (_ # _) [] = False"
| "string_le (a # as) (b # bs) =
     (let x = (of_char a :: nat); y = (of_char b :: nat) in x < y \<or> (x = y \<and> string_le as bs))"

fun insert_string :: "string \<Rightarrow> string list \<Rightarrow> string list" where
  "insert_string x [] = [x]"
| "insert_string x (y # ys) = (if string_le x y then x # y # ys else y # insert_string x ys)"

definition sort_strings :: "string list \<Rightarrow> string list" where
  "sort_strings xs = foldr insert_string xs []"

definition unionKeys :: "'a gomap \<Rightarrow> 'b gomap \<Rightarrow> string list" where
  "unionKeys a b = sort_strings (remdups (map fst a @ map fst b))"

subsection \<open>Trial statistics\<close>

definition trial_bitrate :: "TCPResult \<Rightarrow> f64" where
  "trial_bitrate t = (if fle (tr_ReceiverBitsPerSecond t) (Fin 0) then tr_SenderBitsPerSecond t else tr_ReceiverBitsPerSecond t)"

definition populationCoV :: "f64 list \<Rightarrow> f64" where
  "populationCoV vs =
     (let mx = last vs
      in if feq mx (Fin 0) then Fin 0
         else
           let mean = fdiv (fold (\<lambda>v acc. fadd acc (fdiv v mx)) vs (Fin 0)) (f64_of_int (int (length vs)))
           in if feq mean (Fin 0) then Fin 0
              else
                let variance = fold (\<lambda>v acc. let delta = fsub (fdiv v mx) mean in fadd acc (fmul delta delta)) vs (Fin 0)
                in fdiv (fsqrt (fdiv variance (f64_of_int (int (length vs))))) (mathAbs mean))"

definition tcpTrialStats :: "TCPResult list \<Rightarrow> string \<Rightarrow> TCPTrialStats option" where
  "tcpTrialStats results direction =
     (let bitrates = sort (map trial_bitrate (filter (\<lambda>t. tr_Direction t = direction \<and> \<not> tr_Incomplete t) results))
      in if length bitrates < 2 then None
         else Some \<lparr> ts_CompletedTrials = int (length bitrates), ts_MinimumBitsPerSecond = bitrates ! 0,
                ts_MedianBitsPerSecond = bitrates ! ((length bitrates - 1) div 2),
                ts_MaximumBitsPerSecond = bitrates ! (length bitrates - 1),
                ts_CoefficientOfVariation = populationCoV bitrates \<rparr>)"

definition tcpTrialSpread :: "TCPResult list \<Rightarrow> TCPTrialSpread option" where
  "tcpTrialSpread results =
     (let a = tcpTrialStats results DirectionPC1ToPC2; b = tcpTrialStats results DirectionPC2ToPC1
      in if a = None \<and> b = None then None else Some \<lparr> sp_PC1ToPC2 = a, sp_PC2ToPC1 = b \<rparr>)"

subsection \<open>The summary\<close>

definition summaryMaxItems :: nat where
  "summaryMaxItems = 3"

definition scoreText :: "int option \<Rightarrow> string" where
  "scoreText score = (case score of None \<Rightarrow> '''' | Some n \<Rightarrow> ''   Score: '' @ show_int n @ ''/100'')"

definition partialText :: "bool \<Rightarrow> string" where
  "partialText partial = (if partial then ''   (PARTIAL RUN)'' else '''')"

definition summary_speed :: "Report \<Rightarrow> string \<times> string" where
  "summary_speed r =
     (case map_option (le_Before \<circ> ln_PC1) (rp_Link r) of
        Some (Some s) \<Rightarrow> (fmtSpeedMbps (ls_SpeedMbps s), orUnknown (ls_Duplex s))
      | _ \<Rightarrow>
          let nic = pr_NIC (rp_PC1 r)
          in if nic_SpeedMbps nic > 0 then (fmtSpeedMbps (nic_SpeedMbps nic), orUnknown (nic_Duplex nic))
             else (''unknown'', ''unknown''))"

definition summaryLinkLine :: "Report \<Rightarrow> string" where
  "summaryLinkLine r =
     (let (speed, duplex) = summary_speed r; n1 = nic_Name (pr_NIC (rp_PC1 r)); n2 = nic_Name (pr_NIC (rp_PC2 r));
          nics = (if n1 \<noteq> '''' \<or> n2 \<noteq> '''' then ''  (pc1 '' @ orUnknown n1 @ '', pc2 '' @ orUnknown n2 @ '')'' else '''')
      in speed @ '' '' @ duplex @ '' duplex'' @ nics)"

text \<open>The first text of each direction; \<open>map_of\<close> finds the first entry.\<close>

definition perDirection :: "('a \<Rightarrow> string \<times> string) \<Rightarrow> 'a list \<Rightarrow> string" where
  "perDirection extract results =
     (let vals = map extract results;
          cell = (\<lambda>dir label. case map_of vals dir of Some v \<Rightarrow> label @ '' '' @ v | None \<Rightarrow> label @ '' n/a'')
      in if vals = [] then ''not run''
         else cell DirectionPC1ToPC2 ''pc1->pc2'' @ ''  |  '' @ cell DirectionPC2ToPC1 ''pc2->pc1'')"

definition unlines :: "string list \<Rightarrow> string" where
  "unlines ls = concat (map (\<lambda>l. l @ [CHR 0x0A]) ls)"

definition summary_findings :: "Finding list \<Rightarrow> string list" where
  "summary_findings fs =
     (if fs = [] then [''Findings: none'']
      else (''Findings (top '' @ show_int (int (min summaryMaxItems (length fs))) @ '' of '' @ show_int (int (length fs)) @ ''):'') #
        map (\<lambda>f. ''  ['' @ severity_string (fd_Severity f) @ ''] '' @ fd_RuleID f @ '': '' @ fd_Text f) (take summaryMaxItems fs))"

definition summary_recommendations :: "string list \<Rightarrow> string list" where
  "summary_recommendations rs =
     (if rs = [] then [''Recommendations: none'']
      else (''Recommendations (top '' @ show_int (int (min summaryMaxItems (length rs))) @ '' of '' @ show_int (int (length rs)) @ ''):'') #
        map (\<lambda>r. ''  - '' @ r) (take summaryMaxItems rs))"

definition RenderSummary :: "(gotime \<Rightarrow> string) \<Rightarrow> Report \<Rightarrow> string" where
  "RenderSummary rfc3339 r = toASCII (unlines (
     [''CableCheck summary'', ''=================='',
      ''Test:     '' @ orUnknown (rp_TestID r) @ ''  (mode '' @ orUnknown (ec_Mode (rp_Configuration r)) @ '')'',
      ''Started:  '' @ fmtTime rfc3339 (rp_StartedAt r) @ ''   Duration: '' @ show_duration (rp_Duration r),
      ''Result:   '' @ orUnknown (saved_class (rp_Classification r)) @ scoreText (rp_Score r) @ partialText (rp_Partial r),
      ''Link:     '' @ summaryLinkLine r,
      '''',
      ''Ping loss:        '' @ perDirection (\<lambda>p. (pg_Direction p, fmtPct (pg_LossPercent p))) (te_Ping (rp_Tests r)),
      ''TCP throughput:   '' @ perDirection (\<lambda>t. (tr_Direction t,
          if tr_Incomplete t then ''n/a (incomplete)'' else fmtBps (tr_ReceiverBitsPerSecond t))) (te_TCP (rp_Tests r)),
      ''TCP retransmits:  '' @ perDirection (\<lambda>t. (tr_Direction t,
          case tr_Retransmissions t of None \<Rightarrow> ''n/a'' | Some n \<Rightarrow> if tr_Incomplete t then ''n/a'' else show_u64 n)) (te_TCP (rp_Tests r)),
      ''UDP loss:         '' @ perDirection (\<lambda>u. (ud_Direction u, fmtPct (ud_LossPercent u))) (te_UDP (rp_Tests r)),
      ''''] @ summary_findings (rp_Findings r) @ summary_recommendations (rp_Recommendations r) @
     ['''', ''Full report: report.md and report.json in the report directory.'']))"

end
