(* ===== verification/Compare.thy ===== *)
theory Compare
  imports Rendering
begin

section \<open>The comparison of two saved reports\<close>

text \<open>
  Models \<open>src/internal/reporting/compare.go\<close>: the assessment from the saved classes, the
  comparability warnings, the metric table with its relations, and the difference of the findings.
  A \<open>measuredUint\<close> or \<open>measuredFloat\<close> whose \<open>ok\<close> is false carries no value in the source; both are
  records with the \<open>ok\<close> field here as there. The theorems show that the table is about the two
  reports and not about their order: exchanging them exchanges the columns and turns better into
  worse, and a report compared with itself shows no change.
\<close>

datatype metricRelation = RelBetter | RelWorse | RelSame | RelUnavailable

fun relation_text :: "metricRelation \<Rightarrow> string" where
  "relation_text RelBetter = ''BETTER''"
| "relation_text RelWorse = ''WORSE''"
| "relation_text RelSame = ''SAME''"
| "relation_text RelUnavailable = ''N/A''"

record comparisonMetric =
  cm_name :: string
  cm_baseline :: string
  cm_candidate :: string
  cm_relation :: metricRelation

record measuredUint =
  mu_value :: u64
  mu_coverage :: string
  mu_ok :: bool

record measuredFloat =
  mf_value :: f64
  mf_ok :: bool

definition no_uint :: measuredUint where "no_uint = \<lparr> mu_value = 0, mu_coverage = '''', mu_ok = False \<rparr>"
definition no_float :: measuredFloat where "no_float = \<lparr> mf_value = Fin 0, mf_ok = False \<rparr>"

subsection \<open>Assessment\<close>

definition healthRank :: "HealthClass option \<Rightarrow> int option" where
  "healthRank c =
     (case c of
        Some HealthExcellent \<Rightarrow> Some 0 | Some HealthGood \<Rightarrow> Some 1 | Some HealthWarning \<Rightarrow> Some 2
      | Some HealthPoor \<Rightarrow> Some 3 | Some HealthFailed \<Rightarrow> Some 4 | _ \<Rightarrow> None)"

definition savedAssessment :: "HealthClass option \<Rightarrow> HealthClass option \<Rightarrow> string \<times> string" where
  "savedAssessment baseline candidate =
     (if baseline = Some HealthInconclusive \<or> candidate = Some HealthInconclusive then
        if baseline = candidate then (''INCONCLUSIVE'', ''both saved reports are inconclusive'')
        else (''INCONCLUSIVE'', ''one saved report is inconclusive, so no directional comparison is valid'')
      else
        case (healthRank baseline, healthRank candidate) of
          (Some b, Some c) \<Rightarrow>
            if c < b then (''BETTER'', ''the candidate saved classification improved'')
            else if c > b then (''WORSE'', ''the candidate saved classification regressed'')
            else (''UNCHANGED'', ''both reports have the same saved classification'')
        | _ \<Rightarrow> (''INCONCLUSIVE'', ''a saved classification is unknown''))"

subsection \<open>Measurements\<close>

definition link_settings :: "Report \<Rightarrow> LinkSettings list" where
  "link_settings r =
     (case rp_Link r of
        None \<Rightarrow> []
      | Some l \<Rightarrow> concat (map (\<lambda>x. case x of None \<Rightarrow> [] | Some s \<Rightarrow> [s])
          [le_Before (ln_PC1 l), le_Before (ln_PC2 l), le_After (ln_PC1 l), le_After (ln_PC2 l)]))"

definition comparedSpeed :: "Report \<Rightarrow> measuredUint" where
  "comparedSpeed r =
     (case find (\<lambda>s. s > 0) (map ls_SpeedMbps (link_settings r) @
              [nic_SpeedMbps (pr_NIC (rp_PC1 r)), nic_SpeedMbps (pr_NIC (rp_PC2 r))]) of
        Some s \<Rightarrow> \<lparr> mu_value = word_of_int s, mu_coverage = '''', mu_ok = True \<rparr>
      | None \<Rightarrow> no_uint)"

definition counterSet :: "Report \<Rightarrow> string \<Rightarrow> CounterDeltaSet" where
  "counterSet r side = (if side = ''pc1'' then pd_PC1 (rp_CounterDeltas r) else pd_PC2 (rp_CounterDeltas r))"

text \<open>The loop of \<open>counterGroup\<close>: \<open>None\<close> once a delta is unreliable or the sum would overflow.\<close>

definition counter_step :: "CounterDeltaSet \<Rightarrow> string \<Rightarrow> (u64 \<times> string list) option \<Rightarrow> (u64 \<times> string list) option" where
  "counter_step s key acc =
     (case acc of
        None \<Rightarrow> None
      | Some (v, coverage) \<Rightarrow>
          (case map_of s key of
             None \<Rightarrow> acc
           | Some d \<Rightarrow> if \<not> cd_OK d \<or> maxUint64 - v < cd_Delta d then None else Some (v + cd_Delta d, coverage @ [key])))"

definition counterGroup :: "CounterDeltaSet \<Rightarrow> string list \<Rightarrow> measuredUint" where
  "counterGroup s keys =
     (case fold (counter_step s) keys (Some (0, [])) of
        None \<Rightarrow> no_uint
      | Some (v, coverage) \<Rightarrow>
          if coverage = [] then no_uint else \<lparr> mu_value = v, mu_coverage = join '','' coverage, mu_ok = True \<rparr>)"

definition selfInflictedCarrier :: "Report \<Rightarrow> string \<Rightarrow> u64" where
  "selfInflictedCarrier r side =
     (case te_CableTest (rp_Tests r) of
        None \<Rightarrow> 0
      | Some c \<Rightarrow> if side = ''pc1'' then pce_PC1 (ct_SelfInflictedCarrierEvents c) else pce_PC2 (ct_SelfInflictedCarrierEvents c))"

definition subtractSelfInflicted :: "measuredUint \<Rightarrow> u64 \<Rightarrow> measuredUint" where
  "subtractSelfInflicted v n =
     (if \<not> mu_ok v then v
      else if n \<ge> mu_value v then v\<lparr> mu_value := 0 \<rparr> else v\<lparr> mu_value := mu_value v - n \<rparr>)"

text \<open>The worst loss of the usable results: the common loop of \<open>worstPingLoss\<close> and \<open>udpLoss\<close>.\<close>

definition loss_step :: "f64 \<Rightarrow> measuredFloat \<Rightarrow> measuredFloat" where
  "loss_step v res = (if \<not> mf_ok res \<or> fgt v (mf_value res) then \<lparr> mf_value = v, mf_ok = True \<rparr> else res)"

definition worstPingLoss :: "PingResult list \<Rightarrow> string \<Rightarrow> measuredFloat" where
  "worstPingLoss results direction =
     fold loss_step
       (map pg_LossPercent (filter (\<lambda>p. \<not> (pg_Direction p \<noteq> direction \<or> pg_Transmitted p \<le> 0 \<or> flt (pg_LossPercent p) (Fin 0))) results))
       no_float"

record directionTCPMetrics =
  dm_throughput :: measuredFloat
  dm_retransmits :: measuredUint

record tcp_acc =
  ta_bitrates :: "f64 list"
  ta_retransmits :: "u64 list"
  ta_observed :: int
  ta_incomplete :: bool
  ta_missing :: bool

definition trial_step :: "string \<Rightarrow> TCPResult \<Rightarrow> tcp_acc \<Rightarrow> tcp_acc" where
  "trial_step direction t a =
     (if tr_Direction t \<noteq> direction then a
      else
        let a = a\<lparr> ta_observed := iadd (ta_observed a) 1 \<rparr>
        in if tr_Incomplete t then a\<lparr> ta_incomplete := True \<rparr>
           else if fle (trial_bitrate t) (Fin 0) then a\<lparr> ta_incomplete := True \<rparr>
           else
             let a = a\<lparr> ta_bitrates := ta_bitrates a @ [trial_bitrate t] \<rparr>
             in case tr_Retransmissions t of
                  None \<Rightarrow> a\<lparr> ta_missing := True \<rparr>
                | Some n \<Rightarrow> a\<lparr> ta_retransmits := ta_retransmits a @ [n] \<rparr>)"

definition expected_trials :: "Report \<Rightarrow> int" where
  "expected_trials r =
     (let n = ec_TCPRepeats (rp_Configuration r)
      in if ec_Mode (rp_Configuration r) = ''soak'' \<and> n > 0 then imul n (rp_SoakCyclesCompleted r) else n)"

definition max_u64 :: "u64 list \<Rightarrow> u64" where
  "max_u64 vs = fold max vs 0"

definition tcpMetricsForDirection :: "Report \<Rightarrow> string \<Rightarrow> directionTCPMetrics" where
  "tcpMetricsForDirection r direction =
     (let a = fold (trial_step direction) (te_TCP (rp_Tests r))
            \<lparr> ta_bitrates = [], ta_retransmits = [], ta_observed = 0, ta_incomplete = False, ta_missing = False \<rparr>;
          n = length (ta_bitrates a)
      in if ta_incomplete a \<or> (expected_trials r > 0 \<and> ta_observed a < expected_trials r) \<or> n = 0
         then \<lparr> dm_throughput = no_float, dm_retransmits = no_uint \<rparr>
         else \<lparr> dm_throughput = \<lparr> mf_value = sort (ta_bitrates a) ! ((n - 1) div 2), mf_ok = True \<rparr>,
                dm_retransmits =
                  (if \<not> ta_missing a \<and> length (ta_retransmits a) = n
                   then \<lparr> mu_value = max_u64 (ta_retransmits a), mu_coverage = '''', mu_ok = True \<rparr> else no_uint) \<rparr>)"

type_synonym udpMetricKey = "string \<times> u64"

definition udp_keys_of :: "UDPResult list \<Rightarrow> udpMetricKey list" where
  "udp_keys_of rs =
     map (\<lambda>u. (ud_Direction u, ud_TargetBps u))
       (filter (\<lambda>u. ud_Direction u = DirectionPC1ToPC2 \<or> ud_Direction u = DirectionPC2ToPC1) rs)"

text \<open>Sorted by direction, pc1 to pc2 first, then by rate.\<close>

definition udpMetricKeys :: "UDPResult list \<Rightarrow> UDPResult list \<Rightarrow> udpMetricKey list" where
  "udpMetricKeys a b =
     (let rates = (\<lambda>dir. sorted_list_of_set (snd ` {k \<in> set (udp_keys_of a @ udp_keys_of b). fst k = dir}))
      in map (Pair DirectionPC1ToPC2) (rates DirectionPC1ToPC2) @ map (Pair DirectionPC2ToPC1) (rates DirectionPC2ToPC1))"

definition udpLoss :: "UDPResult list \<Rightarrow> udpMetricKey \<Rightarrow> measuredFloat" where
  "udpLoss results key =
     fold loss_step
       (map ud_LossPercent (filter (\<lambda>u. \<not> (ud_Direction u \<noteq> fst key \<or> ud_TargetBps u \<noteq> snd key \<or> ud_TotalPackets u \<le> 0 \<or>
          flt (ud_LossPercent u) (Fin 0))) results))
       no_float"

subsection \<open>Metrics\<close>

definition orderedRelation :: "u64 \<Rightarrow> u64 \<Rightarrow> bool \<Rightarrow> metricRelation" where
  "orderedRelation baseline candidate higherIsBetter =
     (if candidate = baseline then RelSame
      else if (candidate > baseline) = higherIsBetter then RelBetter else RelWorse)"

definition uintMetric :: "string \<Rightarrow> measuredUint \<Rightarrow> measuredUint \<Rightarrow> bool \<Rightarrow> (u64 \<Rightarrow> string) \<Rightarrow> comparisonMetric" where
  "uintMetric name baseline candidate higherIsBetter format =
     \<lparr> cm_name = name,
       cm_baseline = (if mu_ok baseline then format (mu_value baseline) else ''n/a''),
       cm_candidate = (if mu_ok candidate then format (mu_value candidate) else ''n/a''),
       cm_relation =
         (if \<not> mu_ok baseline \<or> \<not> mu_ok candidate \<or> mu_coverage baseline \<noteq> mu_coverage candidate then RelUnavailable
          else orderedRelation (mu_value baseline) (mu_value candidate) higherIsBetter) \<rparr>"

definition roundTo :: "f64 \<Rightarrow> f64 \<Rightarrow> f64" where
  "roundTo v quantum = fmul (mathRound (fdiv v quantum)) quantum"

definition floatMetric ::
  "string \<Rightarrow> measuredFloat \<Rightarrow> measuredFloat \<Rightarrow> bool \<Rightarrow> f64 \<Rightarrow> (f64 \<Rightarrow> string) \<Rightarrow> comparisonMetric" where
  "floatMetric name baseline candidate higherIsBetter quantum format =
     (let a = roundTo (mf_value baseline) quantum; b = roundTo (mf_value candidate) quantum
      in \<lparr> cm_name = name,
           cm_baseline = (if mf_ok baseline then format a else ''n/a''),
           cm_candidate = (if mf_ok candidate then format b else ''n/a''),
           cm_relation =
             (if \<not> mf_ok baseline \<or> \<not> mf_ok candidate then RelUnavailable
              else if feq b a then RelSame
              else if fgt b a = higherIsBetter then RelBetter else RelWorse) \<rparr>)"

definition percentMetric :: "string \<Rightarrow> measuredFloat \<Rightarrow> measuredFloat \<Rightarrow> bool \<Rightarrow> comparisonMetric" where
  "percentMetric name baseline candidate higherIsBetter =
     floatMetric name baseline candidate higherIsBetter (f64_of_rat (1 / 100)) fmtPct"

definition comparisonDirectionLabel :: "string \<Rightarrow> string" where
  "comparisonDirectionLabel direction =
     (if direction = DirectionPC1ToPC2 then ''pc1 -> pc2''
      else if direction = DirectionPC2ToPC1 then ''pc2 -> pc1''
      else orUnknown direction)"

definition counterGroups :: "(string \<times> string list) list" where
  "counterGroups =
     [(''CRC/framing errors'', [''rx_crc'', ''rx_frame'', ''rx_align'', ''rx_symbol'']),
      (''Driver RX-error aggregate'', [''rx_errors_total'']),
      (''Frame-size errors'', [''jabber'', ''oversize'', ''undersize'', ''rx_length'']),
      (''FIFO overruns'', [''rx_fifo'']),
      (''Missed RX errors'', [''rx_missed'']),
      (''Carrier events'', [''link_resets'']),
      (''Carrier/PHY errors'', [''tx_carrier'', ''phy_errors''])]"

definition group_value :: "Report \<Rightarrow> string \<times> string list \<Rightarrow> string \<Rightarrow> measuredUint" where
  "group_value r g side =
     (let v = counterGroup (counterSet r side) (snd g)
      in if fst g = ''Carrier events'' then subtractSelfInflicted v (selfInflictedCarrier r side) else v)"

definition direction_metrics :: "Report \<Rightarrow> Report \<Rightarrow> string \<Rightarrow> comparisonMetric list" where
  "direction_metrics baseline candidate direction =
     (let label = comparisonDirectionLabel direction;
          baseTCP = tcpMetricsForDirection baseline direction; candidateTCP = tcpMetricsForDirection candidate direction
      in [percentMetric (''Ping loss ('' @ label @ '')'') (worstPingLoss (te_Ping (rp_Tests baseline)) direction)
            (worstPingLoss (te_Ping (rp_Tests candidate)) direction) False,
          percentMetric (''Full-size loss ('' @ label @ '')'') (worstPingLoss (te_FullSizePing (rp_Tests baseline)) direction)
            (worstPingLoss (te_FullSizePing (rp_Tests candidate)) direction) False,
          floatMetric (''TCP throughput ('' @ label @ '')'') (dm_throughput baseTCP) (dm_throughput candidateTCP) True (Fin 100000)
            (\<lambda>v. fmt_f 1 (fdiv v (Fin 1000000)) @ '' Mbps''),
          uintMetric (''TCP retransmits ('' @ label @ '')'') (dm_retransmits baseTCP) (dm_retransmits candidateTCP) False show_u64])"

definition comparisonMetrics :: "Report \<Rightarrow> Report \<Rightarrow> comparisonMetric list" where
  "comparisonMetrics baseline candidate =
     uintMetric ''Negotiated speed'' (comparedSpeed baseline) (comparedSpeed candidate) True (\<lambda>v. show_u64 v @ '' Mb/s'') #
     concat (map (\<lambda>g. map (\<lambda>side.
         uintMetric (fst g @ '' ('' @ side @ '')'') (group_value baseline g side) (group_value candidate g side) False show_u64)
       [''pc1'', ''pc2'']) counterGroups) @
     concat (map (direction_metrics baseline candidate) [DirectionPC1ToPC2, DirectionPC2ToPC1]) @
     map (\<lambda>key. percentMetric
         (''UDP loss ('' @ comparisonDirectionLabel (fst key) @ '', '' @ fmtBps (f64_of_u64 (snd key)) @ '')'')
         (udpLoss (te_UDP (rp_Tests baseline)) key) (udpLoss (te_UDP (rp_Tests candidate)) key) False)
       (udpMetricKeys (te_UDP (rp_Tests baseline)) (te_UDP (rp_Tests candidate)))"

subsection \<open>Comparability\<close>

text \<open>
  \<open>strings.EqualFold\<close> and \<open>strings.ToLower\<close> are exact on text whose letters are ASCII, as those of a MAC
  address are.
\<close>

definition nicWarning :: "string \<Rightarrow> NICReport \<Rightarrow> NICReport \<Rightarrow> string list" where
  "nicWarning side baseline candidate =
     (if nic_MAC baseline \<noteq> '''' \<and> nic_MAC candidate \<noteq> '''' then
        if fold_case (nic_MAC baseline) = fold_case (nic_MAC candidate) then []
        else [side @ '' NICs differ ('' @ to_lower (nic_MAC baseline) @ '' vs '' @ to_lower (nic_MAC candidate) @ '')'']
      else if nic_Name baseline \<noteq> '''' \<and> nic_Driver baseline \<noteq> '''' \<and> nic_Name candidate \<noteq> '''' \<and> nic_Driver candidate \<noteq> '''' then
        let a = nic_Name baseline @ ''/'' @ nic_Driver baseline; b = nic_Name candidate @ ''/'' @ nic_Driver candidate
        in if a = b then [] else [side @ '' NICs differ ('' @ a @ '' vs '' @ b @ '')'']
      else [side @ '' NIC identity could not be verified in both reports''])"

definition differingTestParameters :: "ConfigEcho \<Rightarrow> ConfigEcho \<Rightarrow> string list" where
  "differingTestParameters a b =
     map fst (filter snd
       [(''TCP duration'', ec_TCPDuration a \<noteq> ec_TCPDuration b), (''UDP duration'', ec_UDPDuration a \<noteq> ec_UDPDuration b),
        (''UDP rate'', ec_UDPRate a \<noteq> ec_UDPRate b), (''parallel streams'', ec_ParallelStreams a \<noteq> ec_ParallelStreams b),
        (''ping count'', ec_PingCount a \<noteq> ec_PingCount b), (''ping interval'', ec_PingInterval a \<noteq> ec_PingInterval b),
        (''TCP repeats'', ec_TCPRepeats a \<noteq> ec_TCPRepeats b), (''soak duration'', ec_SoakDuration a \<noteq> ec_SoakDuration b),
        (''soak load'', ec_SoakLoad a \<noteq> ec_SoakLoad b), (''cable test'', ec_CableTest a \<noteq> ec_CableTest b),
        (''cable-test TDR'', ec_CableTestTDR a \<noteq> ec_CableTestTDR b)])"

definition differ_warning :: "string \<Rightarrow> string \<Rightarrow> string \<Rightarrow> string list" where
  "differ_warning what a b =
     (if a \<noteq> b then [what @ '' differ ('' @ orUnknown a @ '' vs '' @ orUnknown b @ '')''] else [])"

definition speed_warning :: "measuredUint \<Rightarrow> measuredUint \<Rightarrow> string list" where
  "speed_warning a b =
     (if \<not> mu_ok a \<or> \<not> mu_ok b then [''negotiated speed could not be verified in both reports'']
      else if mu_value a \<noteq> mu_value b
      then [''negotiated speeds differ ('' @ show_u64 (mu_value a) @ '' Mb/s vs '' @ show_u64 (mu_value b) @ '' Mb/s)'']
      else [])"

definition comparabilityWarnings :: "Report \<Rightarrow> Report \<Rightarrow> string list" where
  "comparabilityWarnings baseline candidate =
     differ_warning ''schema versions'' (rp_SchemaVersion baseline) (rp_SchemaVersion candidate) @
     differ_warning ''CableCheck versions'' (rp_ToolVersion baseline) (rp_ToolVersion candidate) @
     differ_warning ''test modes'' (ec_Mode (rp_Configuration baseline)) (ec_Mode (rp_Configuration candidate)) @
     speed_warning (comparedSpeed baseline) (comparedSpeed candidate) @
     nicWarning ''pc1'' (pr_NIC (rp_PC1 baseline)) (pr_NIC (rp_PC1 candidate)) @
     nicWarning ''pc2'' (pr_NIC (rp_PC2 baseline)) (pr_NIC (rp_PC2 candidate)) @
     (let fs = differingTestParameters (rp_Configuration baseline) (rp_Configuration candidate)
      in if fs \<noteq> [] then [''test parameters differ: '' @ join '', '' fs] else [])"

subsection \<open>Findings\<close>

definition finding_id :: "nat \<Rightarrow> Finding \<Rightarrow> string" where
  "finding_id i f = (if fd_RuleID f = '''' then ''unknown-'' @ pad_zeros 4 (show_nonneg (int i + 1)) else fd_RuleID f)"

definition numbered :: "Finding list \<Rightarrow> (string \<times> Finding) list" where
  "numbered fs = map (\<lambda>(i, f). (finding_id i f, f)) (zip [0..<length fs] fs)"

text \<open>The group of an id: its findings in order. An id has a group exactly when the group is not empty.\<close>

definition finding_group :: "Finding list \<Rightarrow> string \<Rightarrow> Finding list" where
  "finding_group fs fid = map snd (filter (\<lambda>(k, _). k = fid) (numbered fs))"

definition finding_ids :: "Finding list \<Rightarrow> Finding list \<Rightarrow> string list" where
  "finding_ids a b = sort_strings (remdups (map fst (numbered a) @ map fst (numbered b)))"

definition findingsEqual :: "Finding list \<Rightarrow> Finding list \<Rightarrow> bool" where
  "findingsEqual a b \<longleftrightarrow>
     length a = length b \<and>
     list_all (\<lambda>(x, y). \<not> (fd_RuleID x \<noteq> fd_RuleID y \<or> fd_Category x \<noteq> fd_Category y \<or> fd_Severity x \<noteq> fd_Severity y \<or>
        fd_Text x \<noteq> fd_Text y \<or> fd_HostSensitive x \<noteq> fd_HostSensitive y \<or> fd_Evidence x \<noteq> fd_Evidence y)) (zip a b)"

definition findingSummary :: "Finding list \<Rightarrow> string" where
  "findingSummary fs =
     (case fs of [f] \<Rightarrow> severity_string (fd_Severity f) | _ \<Rightarrow> show_int (int (length fs)) @ '' entries'')"

definition finding_line :: "string \<Rightarrow> Finding \<Rightarrow> string" where
  "finding_line kind f = kind @ ''['' @ severity_string (fd_Severity f) @ ''] '' @ fd_RuleID f @ '': '' @ fd_Text f"

text \<open>What the diff says about one id: its lines, and how many findings it counts as unchanged.\<close>

definition diff_id :: "Finding list \<Rightarrow> Finding list \<Rightarrow> string \<Rightarrow> string list \<times> nat" where
  "diff_id baseline candidate fid =
     (let base = finding_group baseline fid; cand = finding_group candidate fid
      in if base = [] then (map (finding_line ''ADDED:    '') cand, 0)
         else if cand = [] then (map (finding_line ''RESOLVED: '') base, 0)
         else if findingsEqual base cand then ([], length base)
         else ([''CHANGED:  '' @ fid @ '' ('' @ findingSummary base @ '' -> '' @ findingSummary cand @ '')''], 0))"

definition renderFindingDiff :: "Finding list \<Rightarrow> Finding list \<Rightarrow> string list" where
  "renderFindingDiff baseline candidate =
     [''Findings'', ''--------''] @
     (let ids = finding_ids baseline candidate
      in if ids = [] then [''No findings in either report.'']
         else concat (map (fst \<circ> diff_id baseline candidate) ids) @
              [''Unchanged findings: '' @ show_int (int (sum_list (map (snd \<circ> diff_id baseline candidate) ids)))])"

subsection \<open>The text\<close>

definition pad_right :: "nat \<Rightarrow> string \<Rightarrow> string" where
  "pad_right w s = s @ replicate (w - length s) (CHR '' '')"

definition metric_width :: "comparisonMetric list \<Rightarrow> nat" where
  "metric_width ms = fold (\<lambda>m w. max w (length (cm_name m))) ms 34"

definition table_row :: "nat \<Rightarrow> string \<Rightarrow> string \<Rightarrow> string \<Rightarrow> string \<Rightarrow> string" where
  "table_row w a b c d = pad_right w a @ '' '' @ pad_right 18 b @ '' '' @ pad_right 18 c @ '' '' @ d"

definition tally :: "comparisonMetric list \<Rightarrow> metricRelation \<Rightarrow> int" where
  "tally ms rel = int (length (filter (\<lambda>m. cm_relation m = rel) ms))"

definition report_line :: "string \<Rightarrow> Report \<Rightarrow> string" where
  "report_line name r =
     name @ orUnknown (rp_TestID r) @ ''  '' @ orUnknown (saved_class (rp_Classification r)) @ ''  score '' @
     ScoreOrNA (rp_Score r) @ ''  mode '' @ orUnknown (ec_Mode (rp_Configuration r))"

definition RenderComparison :: "Report \<Rightarrow> Report \<Rightarrow> string" where
  "RenderComparison baseline candidate =
     (let assessment = savedAssessment (rp_Classification baseline) (rp_Classification candidate);
          warnings = comparabilityWarnings baseline candidate;
          ms = comparisonMetrics baseline candidate; w = metric_width ms
      in toASCII (unlines (
           [''CableCheck comparison'', ''====================='',
            report_line ''Baseline:  '' baseline, report_line ''Candidate: '' candidate,
            ''Saved verdict: '' @ orUnknown (saved_class (rp_Classification baseline)) @ '' -> '' @
              orUnknown (saved_class (rp_Classification candidate)),
            ''Assessment: '' @ fst assessment @ '' - '' @ snd assessment, '''', ''Comparability'', ''-------------''] @
           (if warnings = [] then [''No comparability warnings; speed, mode, NICs, and test parameters match.'']
            else map (\<lambda>x. ''WARNING: '' @ x) warnings) @
           ['''', ''Metrics'', ''-------'', table_row w ''Metric'' ''Baseline'' ''Candidate'' ''Change'',
            table_row w (replicate w (CHR ''-'')) (replicate 18 (CHR ''-'')) (replicate 18 (CHR ''-'')) (replicate 6 (CHR ''-''))] @
           map (\<lambda>m. table_row w (cm_name m) (cm_baseline m) (cm_candidate m) (relation_text (cm_relation m))) ms @
           ['''', ''Metric tally: BETTER '' @ show_int (tally ms RelBetter) @ '' | WORSE '' @ show_int (tally ms RelWorse) @
              '' | SAME '' @ show_int (tally ms RelSame) @ '' | N/A '' @ show_int (tally ms RelUnavailable), ''''] @
           renderFindingDiff (rp_Findings baseline) (rp_Findings candidate) @
           ['''', ''Conclusion'', ''----------'', ''Candidate assessment: '' @ fst assessment,
            ''The saved classifications are authoritative; the descriptive metric tally cannot override them.''])))"

subsection \<open>Exchanging the two reports\<close>

fun flip :: "metricRelation \<Rightarrow> metricRelation" where
  "flip RelBetter = RelWorse"
| "flip RelWorse = RelBetter"
| "flip r = r"

definition swap_metric :: "comparisonMetric \<Rightarrow> comparisonMetric" where
  "swap_metric m = \<lparr> cm_name = cm_name m, cm_baseline = cm_candidate m, cm_candidate = cm_baseline m,
     cm_relation = flip (cm_relation m) \<rparr>"

definition real_report :: "Report \<Rightarrow> bool" where
  "real_report r \<longleftrightarrow>
     list_all (\<lambda>p. pg_LossPercent p \<noteq> FNaN) (te_Ping (rp_Tests r) @ te_FullSizePing (rp_Tests r)) \<and>
     list_all (\<lambda>u. ud_LossPercent u \<noteq> FNaN) (te_UDP (rp_Tests r)) \<and>
     list_all (\<lambda>t. tr_ReceiverBitsPerSecond t \<noteq> FNaN \<and> tr_SenderBitsPerSecond t \<noteq> FNaN) (te_TCP (rp_Tests r))"

lemma orderedRelation_swap: "orderedRelation b a h = flip (orderedRelation a b h)"
  by (cases h) (auto simp: orderedRelation_def)

lemma uintMetric_swap: "uintMetric n b a h f = swap_metric (uintMetric n a b h f)"
  using orderedRelation_swap [of "mu_value b" "mu_value a" h]
  by (simp add: uintMetric_def swap_metric_def)

lemma roundTo_not_nan:
  assumes "v \<noteq> FNaN" and "0 < q"
  shows "roundTo v (Fin q) \<noteq> FNaN"
proof -
  have "fdiv v (Fin q) \<noteq> FNaN" using assms by (cases v) (auto simp: finf_def)
  moreover have "mathRound x \<noteq> FNaN" if "x \<noteq> FNaN" for x using that by (cases x) auto
  moreover have "fmul x (Fin q) \<noteq> FNaN" if "x \<noteq> FNaN" for x using that assms(2) by (cases x) (auto simp: finf_def)
  ultimately show ?thesis by (simp add: roundTo_def)
qed

lemma feq_flt_total: "a \<noteq> FNaN \<Longrightarrow> b \<noteq> FNaN \<Longrightarrow> (feq a b \<longleftrightarrow> feq b a) \<and> (\<not> feq a b \<longrightarrow> (flt a b \<longleftrightarrow> \<not> flt b a))"
  by (cases a; cases b) (auto simp: feq_def)

definition real_float :: "measuredFloat \<Rightarrow> bool" where
  "real_float m \<longleftrightarrow> (mf_ok m \<longrightarrow> mf_value m \<noteq> FNaN)"

lemma floatMetric_swap:
  assumes "real_float a" "real_float b" "0 < q"
  shows "floatMetric n b a h (Fin q) f = swap_metric (floatMetric n a b h (Fin q) f)"
proof (cases "mf_ok a \<and> mf_ok b")
  case True
  with assms have "roundTo (mf_value a) (Fin q) \<noteq> FNaN" "roundTo (mf_value b) (Fin q) \<noteq> FNaN"
    by (auto simp: real_float_def roundTo_not_nan)
  from feq_flt_total [OF this] True show ?thesis
    by (cases h) (auto simp: floatMetric_def swap_metric_def Let_def)
next
  case False
  then show ?thesis by (auto simp: floatMetric_def swap_metric_def Let_def)
qed

lemma hundredth: "\<exists>q > 0. f64_of_rat (1 / 100) = Fin q"
proof -
  have "case f64_of_rat (1 / 100) of Fin q \<Rightarrow> 0 < q | _ \<Rightarrow> False" by code_simp
  then show ?thesis by (auto split: f64.splits)
qed

lemma percentMetric_swap:
  "real_float a \<Longrightarrow> real_float b \<Longrightarrow> percentMetric n b a h = swap_metric (percentMetric n a b h)"
proof -
  assume ab: "real_float a" "real_float b"
  obtain q where q: "0 < q" "f64_of_rat (1 / 100) = Fin q" using hundredth by blast
  show ?thesis unfolding percentMetric_def q(2) by (rule floatMetric_swap [OF ab q(1)])
qed

lemma real_worst: "\<forall>v \<in> set vs. v \<noteq> FNaN \<Longrightarrow> real_float m \<Longrightarrow> real_float (fold loss_step vs m)"
  by (induction vs arbitrary: m) (auto simp: loss_step_def real_float_def)

lemma real_no_float: "real_float no_float"
  by (simp add: real_float_def no_float_def)

lemma real_ping:
  "real_report r \<Longrightarrow> real_float (worstPingLoss (te_Ping (rp_Tests r)) d) \<and> real_float (worstPingLoss (te_FullSizePing (rp_Tests r)) d)"
  by (auto simp: worstPingLoss_def real_report_def list_all_iff intro!: real_worst real_no_float) (metis Un_iff)+

lemma real_udp: "real_report r \<Longrightarrow> real_float (udpLoss (te_UDP (rp_Tests r)) k)"
  by (auto simp: udpLoss_def real_report_def list_all_iff intro!: real_worst real_no_float) metis

lemma tcp_step_real:
  "tr_ReceiverBitsPerSecond t \<noteq> FNaN \<Longrightarrow> tr_SenderBitsPerSecond t \<noteq> FNaN \<Longrightarrow> FNaN \<notin> set (ta_bitrates a) \<Longrightarrow>
     FNaN \<notin> set (ta_bitrates (trial_step d t a))"
  by (auto simp: trial_step_def trial_bitrate_def Let_def split: option.split)

lemma real_tcp:
  assumes "real_report r"
  shows "real_float (dm_throughput (tcpMetricsForDirection r d))"
proof -
  define a where "a = fold (trial_step d) (te_TCP (rp_Tests r))
    \<lparr> ta_bitrates = [], ta_retransmits = [], ta_observed = 0, ta_incomplete = False, ta_missing = False \<rparr>"
  have "FNaN \<notin> set (ta_bitrates a)"
    unfolding a_def
  proof (rule fold_induct)
    fix t and a :: tcp_acc assume "t \<in> set (te_TCP (rp_Tests r))" "FNaN \<notin> set (ta_bitrates a)"
    with assms show "FNaN \<notin> set (ta_bitrates (trial_step d t a))"
      by (intro tcp_step_real) (auto simp: real_report_def list_all_iff)
  qed simp
  then have "sort (ta_bitrates a) ! i \<noteq> FNaN" if "i < length (ta_bitrates a)" for i
    using that nth_mem [of i "sort (ta_bitrates a)"] by auto
  moreover have "(length (ta_bitrates a) - Suc 0) div 2 < length (ta_bitrates a)" if "ta_bitrates a \<noteq> []"
    using that by (cases "ta_bitrates a") (auto intro: le_less_trans [OF div_le_dividend])
  ultimately show ?thesis
    by (auto simp: tcpMetricsForDirection_def a_def [symmetric] Let_def real_float_def no_float_def)
qed

lemma udpMetricKeys_commute: "udpMetricKeys a b = udpMetricKeys b a"
  by (simp add: udpMetricKeys_def Un_commute)

lemma direction_metrics_swap:
  assumes "real_report a" "real_report b"
  shows "direction_metrics b a d = map swap_metric (direction_metrics a b d)"
proof -
  note real = real_ping [OF assms(1), of d] real_ping [OF assms(2), of d] real_tcp [OF assms(1), of d] real_tcp [OF assms(2), of d]
  have "percentMetric n (worstPingLoss (te_Ping (rp_Tests b)) d) (worstPingLoss (te_Ping (rp_Tests a)) d) False =
      swap_metric (percentMetric n (worstPingLoss (te_Ping (rp_Tests a)) d) (worstPingLoss (te_Ping (rp_Tests b)) d) False)"
    "percentMetric n (worstPingLoss (te_FullSizePing (rp_Tests b)) d) (worstPingLoss (te_FullSizePing (rp_Tests a)) d) False =
      swap_metric (percentMetric n (worstPingLoss (te_FullSizePing (rp_Tests a)) d) (worstPingLoss (te_FullSizePing (rp_Tests b)) d) False)"
    "floatMetric n (dm_throughput (tcpMetricsForDirection b d)) (dm_throughput (tcpMetricsForDirection a d)) True (Fin 100000) f =
      swap_metric (floatMetric n (dm_throughput (tcpMetricsForDirection a d)) (dm_throughput (tcpMetricsForDirection b d)) True (Fin 100000) f)"
    "uintMetric n (dm_retransmits (tcpMetricsForDirection b d)) (dm_retransmits (tcpMetricsForDirection a d)) False show_u64 =
      swap_metric (uintMetric n (dm_retransmits (tcpMetricsForDirection a d)) (dm_retransmits (tcpMetricsForDirection b d)) False show_u64)"
    for n f
    using real
    by (blast intro: percentMetric_swap, blast intro: percentMetric_swap, intro floatMetric_swap) (simp_all, rule uintMetric_swap)
  then show ?thesis by (simp only: direction_metrics_def Let_def list.map)
qed

lemma assessment_cases:
  "savedAssessment x y =
     (if x = Some HealthInconclusive \<and> y = Some HealthInconclusive then (''INCONCLUSIVE'', ''both saved reports are inconclusive'')
      else if x = Some HealthInconclusive \<or> y = Some HealthInconclusive
      then (''INCONCLUSIVE'', ''one saved report is inconclusive, so no directional comparison is valid'')
      else if healthRank x = None \<or> healthRank y = None then (''INCONCLUSIVE'', ''a saved classification is unknown'')
      else if the (healthRank y) < the (healthRank x) then (''BETTER'', ''the candidate saved classification improved'')
      else if the (healthRank x) < the (healthRank y) then (''WORSE'', ''the candidate saved classification regressed'')
      else (''UNCHANGED'', ''both reports have the same saved classification''))"
  by (auto simp: savedAssessment_def split: option.split)

lemma savedAssessment_swap:
  "fst (savedAssessment x y) = ''BETTER'' \<longleftrightarrow> fst (savedAssessment y x) = ''WORSE''"
  "fst (savedAssessment x y) \<in> {''UNCHANGED'', ''INCONCLUSIVE''} \<Longrightarrow> savedAssessment x y = savedAssessment y x"
  unfolding assessment_cases [of x y] assessment_cases [of y x]
  by (cases "x = Some HealthInconclusive"; cases "y = Some HealthInconclusive"; cases "healthRank x"; cases "healthRank y"; simp)
     (cases "x = Some HealthInconclusive"; cases "y = Some HealthInconclusive"; cases "healthRank x"; cases "healthRank y";
      cases "the (healthRank y) < the (healthRank x)"; cases "the (healthRank x) < the (healthRank y)"; simp)

lemma comparison_swapped:
  assumes "real_report a" and "real_report b"
  shows "comparisonMetrics b a = map swap_metric (comparisonMetrics a b)"
proof -
  have counters: "(\<lambda>side. uintMetric (n side) (group_value b g side) (group_value a g side) False show_u64) =
      (\<lambda>side. swap_metric (uintMetric (n side) (group_value a g side) (group_value b g side) False show_u64))" for n g
    by (rule ext) (rule uintMetric_swap)
  have udp: "(\<lambda>key. percentMetric (n key) (udpLoss (te_UDP (rp_Tests b)) key) (udpLoss (te_UDP (rp_Tests a)) key) False) =
      (\<lambda>key. swap_metric (percentMetric (n key) (udpLoss (te_UDP (rp_Tests a)) key) (udpLoss (te_UDP (rp_Tests b)) key) False))" for n
    using assms by (intro ext percentMetric_swap real_udp)
  show ?thesis
    unfolding comparisonMetrics_def direction_metrics_swap [OF assms] counters udp
      uintMetric_swap [of _ "comparedSpeed b" "comparedSpeed a"] udpMetricKeys_commute [of "te_UDP (rp_Tests b)" "te_UDP (rp_Tests a)"]
    by (simp only: list.map map_append map_concat map_map comp_def)
qed

text \<open>
  The comparison is about the two reports, not about their order: exchanging baseline and
  candidate exchanges the two columns of every metric, turns \<open>BETTER\<close> into \<open>WORSE\<close> and back, and
  leaves \<open>SAME\<close> and \<open>N/A\<close> alone; and the candidate is assessed as better than the baseline exactly
  when the baseline is assessed as worse than the candidate.
\<close>

theorem comparison_symmetric:
  assumes "real_report a" and "real_report b"
  shows "comparisonMetrics b a = map swap_metric (comparisonMetrics a b) \<and>
    (fst (savedAssessment (rp_Classification a) (rp_Classification b)) = ''BETTER'' \<longleftrightarrow>
     fst (savedAssessment (rp_Classification b) (rp_Classification a)) = ''WORSE'') \<and>
    (fst (savedAssessment (rp_Classification a) (rp_Classification b)) \<in> {''UNCHANGED'', ''INCONCLUSIVE''} \<longrightarrow>
     savedAssessment (rp_Classification a) (rp_Classification b) = savedAssessment (rp_Classification b) (rp_Classification a))"
  using comparison_swapped [OF assms] savedAssessment_swap by blast

definition demo_baseline :: Report where
  "demo_baseline = zero_report\<lparr> rp_Classification := Some HealthPoor,
     rp_Tests := zero_tests\<lparr> te_UDP := [zero_udp\<lparr> ud_Direction := DirectionPC1ToPC2, ud_TargetBps := 5, ud_TotalPackets := 10, ud_LossPercent := Fin 3 \<rparr>] \<rparr> \<rparr>"

definition demo_candidate :: Report where
  "demo_candidate = zero_report\<lparr> rp_Classification := Some HealthGood \<rparr>"

subsection \<open>A report compared with itself\<close>

lemma findingsEqual_refl: "findingsEqual fs fs"
  by (auto simp: findingsEqual_def list_all_iff set_zip)

lemma diff_id_self: "diff_id fs fs fid = ([], length (finding_group fs fid))"
  by (simp add: diff_id_def Let_def findingsEqual_refl)

lemma insert_string_set: "mset (insert_string x ys) = add_mset x (mset ys)"
  by (induction ys) auto

lemma sort_strings_mset: "mset (sort_strings xs) = mset xs"
  by (induction xs) (simp_all add: sort_strings_def insert_string_set)

lemma count_id: "distinct ids \<Longrightarrow> k \<in> set ids \<Longrightarrow> (\<Sum>i\<leftarrow>ids. if i = k then 1 else (0::nat)) = 1"
proof (induction ids)
  case (Cons i ids)
  moreover have "k \<notin> set ids \<Longrightarrow> (\<Sum>i\<leftarrow>ids. if i = k then 1 else (0::nat)) = 0" by (induction ids) auto
  ultimately show ?case by auto
qed simp

lemma group_lengths:
  "distinct ids \<Longrightarrow> fst ` set kvs \<subseteq> set ids \<Longrightarrow> (\<Sum>i\<leftarrow>ids. length (filter (\<lambda>(k, _). k = i) kvs)) = length kvs"
proof (induction kvs)
  case (Cons kv kvs)
  obtain k v where kv: "kv = (k, v)" by (cases kv)
  have "(\<Sum>i\<leftarrow>ids. length (filter (\<lambda>(k, _). k = i) (kv # kvs))) =
      (\<Sum>i\<leftarrow>ids. (if i = k then 1 else 0) + length (filter (\<lambda>(k, _). k = i) kvs))"
    by (intro arg_cong [where f = sum_list] map_cong) (auto simp: kv)
  also have "\<dots> = (\<Sum>i\<leftarrow>ids. if i = k then 1 else 0) + (\<Sum>i\<leftarrow>ids. length (filter (\<lambda>(k, _). k = i) kvs))"
    by (simp add: sum_list_addf)
  also have "(\<Sum>i\<leftarrow>ids. if i = k then 1 else (0::nat)) = 1"
    using Cons.prems kv by (intro count_id) auto
  finally show ?case using Cons by simp
qed simp

lemma unchanged_count: "(\<Sum>i\<leftarrow>finding_ids fs fs. length (finding_group fs i)) = length fs"
proof -
  define ids where "ids = finding_ids fs fs"
  have "mset ids = mset (remdups (map fst (numbered fs) @ map fst (numbered fs)))"
    by (simp only: ids_def finding_ids_def sort_strings_mset)
  then have "distinct ids" "set ids = fst ` set (numbered fs)"
    using mset_eq_imp_distinct_iff [of ids] mset_eq_setD [of ids] by auto
  then have "(\<Sum>i\<leftarrow>ids. length (filter (\<lambda>(k, _). k = i) (numbered fs))) = length (numbered fs)"
    by (intro group_lengths) auto
  then show ?thesis by (simp add: ids_def finding_group_def numbered_def)
qed

lemma swap_fixpoint:
  assumes "swap_metric m = m"
  shows "cm_relation m \<in> {RelSame, RelUnavailable} \<and> cm_baseline m = cm_candidate m"
proof -
  have "flip (cm_relation m) = cm_relation m" "cm_candidate m = cm_baseline m"
    using arg_cong [OF assms, of cm_relation] arg_cong [OF assms, of cm_baseline] by (simp_all add: swap_metric_def)
  then show ?thesis by (cases "cm_relation m") simp_all
qed

lemma metrics_self:
  assumes "real_report r" and "m \<in> set (comparisonMetrics r r)"
  shows "swap_metric m = m"
proof -
  have "map swap_metric (comparisonMetrics r r) = map (\<lambda>m. m) (comparisonMetrics r r)"
    unfolding list.map_ident by (rule comparison_swapped [OF assms(1) assms(1), symmetric])
  then show ?thesis using assms(2) unfolding map_eq_conv by (rule bspec)
qed

lemma assessment_self: "fst (savedAssessment c c) \<in> {''UNCHANGED'', ''INCONCLUSIVE''}"
  unfolding assessment_cases [of c c] by simp

lemma finding_ids_self: "finding_ids fs fs = [] \<longleftrightarrow> fs = []"
proof -
  have "mset (finding_ids fs fs) = mset (remdups (map fst (numbered fs) @ map fst (numbered fs)))"
    by (simp only: finding_ids_def sort_strings_mset)
  then have "finding_ids fs fs = [] \<longleftrightarrow> remdups (map fst (numbered fs) @ map fst (numbered fs)) = []"
    by (metis mset_zero_iff)
  then show ?thesis by (auto simp: numbered_def)
qed

lemma finding_diff_self:
  "renderFindingDiff fs fs = [''Findings'', ''--------''] @
     (if fs = [] then [''No findings in either report.''] else [''Unchanged findings: '' @ show_int (int (length fs))])"
  by (simp add: renderFindingDiff_def diff_id_self comp_def unchanged_count finding_ids_self)

text \<open>
  A report compared with itself shows no change: every metric is the same or not available, the
  two columns agree, no finding is added, resolved or changed, and all findings count as unchanged.
\<close>

theorem comparison_self:
  assumes "real_report r"
  shows "(\<forall>m \<in> set (comparisonMetrics r r). cm_relation m \<in> {RelSame, RelUnavailable} \<and> cm_baseline m = cm_candidate m) \<and>
    fst (savedAssessment (rp_Classification r) (rp_Classification r)) \<in> {''UNCHANGED'', ''INCONCLUSIVE''} \<and>
    renderFindingDiff (rp_Findings r) (rp_Findings r) =
      [''Findings'', ''--------''] @
      (if rp_Findings r = [] then [''No findings in either report.'']
       else [''Unchanged findings: '' @ show_int (int (length (rp_Findings r)))])"
  using swap_fixpoint [OF metrics_self [OF assms]] assessment_self finding_diff_self by blast

theorem comparison_self_witness:
  "real_report demo_baseline \<and>
   (\<forall>m \<in> set (comparisonMetrics demo_baseline demo_baseline). cm_relation m \<in> {RelSame, RelUnavailable})"
proof -
  have "real_report demo_baseline" by code_simp
  with comparison_self [OF this] show ?thesis by blast
qed

subsection \<open>Plain ASCII\<close>

lemma ascii_rune_ascii: "list_all ascii_char (ascii_rune r)"
  by (simp add: ascii_rune_def ascii_char_def)

lemma toASCII_ascii: "list_all ascii_char (toASCII s)"
proof (induction s rule: toASCII.induct)
  case (1 s)
  then show ?case by (simp add: toASCII.simps [of s] ascii_rune_ascii)
qed

lemma ascii_width: "ascii_char c \<Longrightarrow> rune_width (c # s) = 1"
  by (auto simp: rune_width_def ascii_char_def lead2_def lead3_def lead4_def byte_in_def split: list.split)

lemma toASCII_id: "list_all ascii_char s \<Longrightarrow> toASCII s = s"
proof (induction s)
  case (Cons c s)
  then show ?case by (simp add: toASCII.simps [of "c # s"] ascii_width ascii_rune_def)
qed (simp add: toASCII.simps)

text \<open>
  What goes to a terminal is plain ASCII: the summary and the comparison contain no byte above
  127 whatever text the reports carry, and a text that is plain ASCII already is not changed.
\<close>

theorem terminal_output_ascii:
  "list_all ascii_char (RenderSummary rfc3339 r) \<and> list_all ascii_char (RenderComparison a b) \<and>
   (list_all ascii_char s \<longrightarrow> toASCII s = s)"
  by (simp add: RenderSummary_def RenderComparison_def Let_def toASCII_ascii toASCII_id)

theorem terminal_output_ascii_witness:
  "list_all ascii_char ''1 Gbit/s'' \<and> toASCII ''1 Gbit/s'' = ''1 Gbit/s''"
proof -
  have "list_all ascii_char ''1 Gbit/s''" by code_simp
  with terminal_output_ascii [where s = "''1 Gbit/s''"] show ?thesis by blast
qed

end
