(* ===== verification/Registry.thy ===== *)
theory Registry
  imports GoText Settings
begin

section \<open>The process registry\<close>

text \<open>
  Models \<open>src/internal/runner/registry.go\<close>: the identity of external processes, the trust boundary
  of the state directory, the pidfiles and the two places that act on other processes and files,
  \<open>KillAll\<close> and \<open>ScanStale\<close>. The operating system is the parameter \<open>os\<close>: what \<open>lstat\<close>, \<open>chmod\<close>,
  \<open>readdir\<close> and reads answer, and the JSON codec. Every change the code asks for is recorded in the
  order it is asked (\<open>fs_op\<close>, \<open>signal_op\<close>). The process table changes under the code: \<open>tables t\<close> is
  \<open>/proc\<close> at the \<open>t\<close>-th ownership check.
\<close>

subsection \<open>Identity of a process\<close>

record ProcessInfo =
  pr_PID :: int
  pr_PGID :: int
  pr_StartTicks :: u64
  pr_Argv0 :: string
  pr_Label :: string
  pr_TestID :: string

text \<open>\<open>/proc\<close>: the contents of \<open>stat\<close> and \<open>cmdline\<close> of a process, if they can be read.\<close>

record proc_table =
  pt_stat :: "int \<Rightarrow> string option"
  pt_cmdline :: "int \<Rightarrow> string option"

record procStat =
  ps_pgrp :: int
  ps_startTicks :: u64

definition after_last :: "char \<Rightarrow> string \<Rightarrow> string option" where
  "after_last c s = (if c \<in> set s then Some (rev (takeWhile (\<lambda>x. x \<noteq> c) (rev s))) else None)"

definition parse_stat :: "string \<Rightarrow> procStat option" where
  "parse_stat data =
     (case after_last (CHR '')'') data of
        None \<Rightarrow> None
      | Some rest \<Rightarrow>
          let fs = Fields rest
          in if length fs \<le> 19 then None
             else case (Atoi (fs ! 2), ParseUint (fs ! 19)) of
                    ((pgrp, True), Some ticks) \<Rightarrow> Some \<lparr> ps_pgrp = pgrp, ps_startTicks = ticks \<rparr>
                  | _ \<Rightarrow> None)"

definition readProcStat :: "proc_table \<Rightarrow> int \<Rightarrow> procStat option" where
  "readProcStat tab pid = (case pt_stat tab pid of None \<Rightarrow> None | Some data \<Rightarrow> parse_stat data)"

definition readProcArgv0 :: "proc_table \<Rightarrow> int \<Rightarrow> string option" where
  "readProcArgv0 tab pid =
     (case pt_cmdline tab pid of
        None \<Rightarrow> None
      | Some data \<Rightarrow> let a = takeWhile (\<lambda>c. c \<noteq> CHR 0x00) data in if a = '''' then None else Some a)"

text \<open>\<open>filepath.Base\<close> on a Unix path.\<close>

definition strip_slashes :: "string \<Rightarrow> string" where
  "strip_slashes s = rev (dropWhile (\<lambda>c. c = CHR ''/'') (rev s))"

definition Base :: "string \<Rightarrow> string" where
  "Base path =
     (if path = '''' then ''.''
      else let p = strip_slashes path
           in if p = '''' then ''/'' else rev (takeWhile (\<lambda>c. c \<noteq> CHR ''/'') (rev p)))"

definition VerifyOwnership :: "proc_table \<Rightarrow> ProcessInfo \<Rightarrow> bool" where
  "VerifyOwnership tab p =
     (case readProcStat tab (pr_PID p) of
        None \<Rightarrow> False
      | Some st \<Rightarrow>
          if ps_startTicks st \<noteq> pr_StartTicks p \<or> ps_pgrp st \<noteq> pr_PGID p then False
          else case readProcArgv0 tab (pr_PID p) of None \<Rightarrow> False | Some argv0 \<Rightarrow> Base argv0 = Base (pr_Argv0 p))"

definition NewProcessInfo :: "proc_table \<Rightarrow> int \<Rightarrow> string \<Rightarrow> string \<Rightarrow> ProcessInfo option" where
  "NewProcessInfo tab pid label testID =
     (case (readProcStat tab pid, readProcArgv0 tab pid) of
        (Some st, Some argv0) \<Rightarrow>
          Some \<lparr> pr_PID = pid, pr_PGID = ps_pgrp st, pr_StartTicks = ps_startTicks st, pr_Argv0 = Base argv0,
                 pr_Label = label, pr_TestID = testID \<rparr>
      | _ \<Rightarrow> None)"

subsection \<open>The operating system\<close>

record file_info =
  fi_Symlink :: bool
  fi_Dir :: bool
  fi_Uid :: "int option"
  fi_Perm :: nat

record state_entry =
  de_Name :: string
  de_Dir :: bool
  de_Symlink :: bool

datatype lstat_result = LstatOK file_info | LstatNotExist | LstatError string

datatype write_result = WroteAndRenamed | CreateFailed string | WriteFailed string | CloseFailed string | RenameFailed string

record os_env =
  os_XDG :: string
  os_Euid :: int
  os_Getpid :: int
  os_lstat :: "string \<Rightarrow> lstat_result"
  os_chmod :: "string \<Rightarrow> string option"
  os_mkdirAll :: "string \<Rightarrow> string option"
  os_readDir :: "string \<Rightarrow> string + state_entry list"
  os_readFile :: "string \<Rightarrow> string option"
  os_write :: "string \<Rightarrow> write_result"
  os_marshal :: "ProcessInfo \<Rightarrow> string option"
  os_unmarshal :: "string \<Rightarrow> ProcessInfo option"

datatype fs_op =
    MkdirAll string
  | Chmod string
  | CreateTemp string
  | RemoveTemp string
  | Replace string string
  | Remove string

text \<open>\<open>filepath.Join\<close> of two non-empty elements.\<close>

definition Join :: "string \<Rightarrow> string \<Rightarrow> string" where
  "Join dir name = Clean (dir @ ''/'' @ name)"

definition sessionFileName :: string where
  "sessionFileName = ''session.json''"

definition DefaultBaseDir :: "os_env \<Rightarrow> string" where
  "DefaultBaseDir os =
     (if os_XDG os \<noteq> '''' then Join (os_XDG os) ''cablecheck''
      else if os_Euid os = 0 \<and> (case os_lstat os ''/run'' of LstatOK fi \<Rightarrow> fi_Dir fi | _ \<Rightarrow> False)
      then Join ''/run'' ''cablecheck''
      else Join ''/tmp'' ''cablecheck'')"

datatype state_dir_reason =
    LstatFailed string
  | IsSymlink
  | NotDirectory
  | NoOwnership
  | OwnedBy int int
  | ChmodFailed nat string

text \<open>\<open>checkStateDir\<close>: the reason of the \<open>StateDirError\<close>, or nothing, and the repairs asked for.\<close>

definition checkStateDir :: "os_env \<Rightarrow> string \<Rightarrow> state_dir_reason option \<times> fs_op list" where
  "checkStateDir os path =
     (case os_lstat os path of
        LstatNotExist \<Rightarrow> (Some (LstatFailed ''no such file or directory''), [])
      | LstatError e \<Rightarrow> (Some (LstatFailed e), [])
      | LstatOK fi \<Rightarrow>
          if fi_Symlink fi then (Some IsSymlink, [])
          else if \<not> fi_Dir fi then (Some NotDirectory, [])
          else case fi_Uid fi of
                 None \<Rightarrow> (Some NoOwnership, [])
               | Some uid \<Rightarrow>
                   if uid \<noteq> os_Euid os then (Some (OwnedBy uid (os_Euid os)), [])
                   else if fi_Perm fi \<noteq> 448 then
                     (case os_chmod os path of
                        Some e \<Rightarrow> (Some (ChmodFailed (fi_Perm fi) e), [Chmod path])
                      | None \<Rightarrow> (None, [Chmod path]))
                   else (None, []))"

text \<open>\<open>writeFileAtomic\<close>: a temporary file in the same directory, renamed over the target when it is complete.\<close>

definition writeFileAtomic :: "os_env \<Rightarrow> string \<Rightarrow> string \<Rightarrow> string option \<times> fs_op list" where
  "writeFileAtomic os path data =
     (case os_write os path of
        CreateFailed e \<Rightarrow> (Some e, [])
      | WriteFailed e \<Rightarrow> (Some e, [CreateTemp path, RemoveTemp path])
      | CloseFailed e \<Rightarrow> (Some e, [CreateTemp path, RemoveTemp path])
      | RenameFailed e \<Rightarrow> (Some e, [CreateTemp path, RemoveTemp path])
      | WroteAndRenamed \<Rightarrow> (None, [CreateTemp path, Replace path data]))"

definition pidfilePath :: "string \<Rightarrow> int \<Rightarrow> string" where
  "pidfilePath stateDir pid = Join stateDir (show_int pid @ ''.json'')"

subsection \<open>The registry\<close>

record registry =
  rg_procs :: "(int \<times> ProcessInfo) list"
  rg_baseDir :: string
  rg_stateDir :: string
  rg_session :: ProcessInfo

datatype registry_error =
    InvalidTestID
  | NoOwnIdentity
  | MkdirFailed string
  | UnsafeDir string state_dir_reason
  | MarshalFailed
  | MarkerWriteFailed string
  | InvalidPID int
  | PidfileWriteFailed string

text \<open>The marker is left alone only when it already identifies this very session.\<close>

definition marker_current :: "os_env \<Rightarrow> registry \<Rightarrow> bool" where
  "marker_current os r \<longleftrightarrow>
     (case os_readFile os (Join (rg_stateDir r) sessionFileName) of
        None \<Rightarrow> False
      | Some data \<Rightarrow> os_unmarshal os data = Some (rg_session r))"

definition write_marker :: "os_env \<Rightarrow> registry \<Rightarrow> registry_error option \<times> fs_op list" where
  "write_marker os r =
     (if marker_current os r then (None, [])
      else case os_marshal os (rg_session r) of
             None \<Rightarrow> (Some MarshalFailed, [])
           | Some data \<Rightarrow>
               (case writeFileAtomic os (Join (rg_stateDir r) sessionFileName) data of
                  (Some e, ops) \<Rightarrow> (Some (MarkerWriteFailed e), ops)
                | (None, ops) \<Rightarrow> (None, ops)))"

definition ensureStateDir :: "os_env \<Rightarrow> registry \<Rightarrow> registry_error option \<times> fs_op list" where
  "ensureStateDir os r =
     (case os_mkdirAll os (rg_stateDir r) of
        Some e \<Rightarrow> (Some (MkdirFailed e), [MkdirAll (rg_stateDir r)])
      | None \<Rightarrow>
          (case checkStateDir os (rg_baseDir r) of
             (Some reason, ops1) \<Rightarrow> (Some (UnsafeDir (rg_baseDir r) reason), MkdirAll (rg_stateDir r) # ops1)
           | (None, ops1) \<Rightarrow>
               (case checkStateDir os (rg_stateDir r) of
                  (Some reason, ops2) \<Rightarrow> (Some (UnsafeDir (rg_stateDir r) reason), MkdirAll (rg_stateDir r) # ops1 @ ops2)
                | (None, ops2) \<Rightarrow>
                    (case write_marker os r of (err, ops3) \<Rightarrow> (err, MkdirAll (rg_stateDir r) # ops1 @ ops2 @ ops3)))))"

definition valid_test_id :: "string \<Rightarrow> bool" where
  "valid_test_id testID \<longleftrightarrow> testID \<noteq> '''' \<and> testID = Base testID \<and> testID \<noteq> ''.'' \<and> testID \<noteq> ''..''"

definition NewRegistry :: "os_env \<Rightarrow> proc_table \<Rightarrow> string \<Rightarrow> (registry_error + registry) \<times> fs_op list" where
  "NewRegistry os tab testID =
     (if \<not> valid_test_id testID then (Inl InvalidTestID, [])
      else case NewProcessInfo tab (os_Getpid os) ''cablecheck-session'' testID of
             None \<Rightarrow> (Inl NoOwnIdentity, [])
           | Some session \<Rightarrow>
               let r = \<lparr> rg_procs = [], rg_baseDir = DefaultBaseDir os, rg_stateDir = Join (DefaultBaseDir os) testID,
                         rg_session = session \<rparr>
               in case ensureStateDir os r of
                    (Some e, ops) \<Rightarrow> (Inl e, ops)
                  | (None, ops) \<Rightarrow> (Inr r, ops))"

definition Register :: "os_env \<Rightarrow> ProcessInfo \<Rightarrow> registry \<Rightarrow> registry_error option \<times> registry \<times> fs_op list" where
  "Register os p r =
     (if pr_PID p \<le> 0 then (Some (InvalidPID (pr_PID p)), r, [])
      else case os_marshal os p of
             None \<Rightarrow> (Some MarshalFailed, r, [])
           | Some data \<Rightarrow>
               (case ensureStateDir os r of
                  (Some e, ops) \<Rightarrow> (Some e, r, ops)
                | (None, ops) \<Rightarrow>
                    (case writeFileAtomic os (pidfilePath (rg_stateDir r) (pr_PID p)) data of
                       (Some e, ops') \<Rightarrow> (Some (PidfileWriteFailed e), r, ops @ ops')
                     | (None, ops') \<Rightarrow>
                         (None, r\<lparr> rg_procs := (pr_PID p, p) # filter (\<lambda>(k, _). k \<noteq> pr_PID p) (rg_procs r) \<rparr>, ops @ ops'))))"

definition forget :: "ProcessInfo \<Rightarrow> registry \<Rightarrow> registry \<times> fs_op list" where
  "forget p r =
     (r\<lparr> rg_procs := filter (\<lambda>(k, _). k \<noteq> pr_PID p) (rg_procs r) \<rparr>, [Remove (pidfilePath (rg_stateDir r) (pr_PID p))])"

subsection \<open>\<open>KillAll\<close>\<close>

datatype signal = SIGTERM | SIGKILL

datatype kill_result = KillOK | KillESRCH | KillError string

text \<open>A signal as it is sent: to which process group, and after which ownership check.\<close>

record signal_op =
  so_Signal :: signal
  so_Group :: int
  so_Check :: nat

record kill_env =
  ke_tables :: "nat \<Rightarrow> proc_table"
  ke_kill :: "nat \<Rightarrow> signal \<Rightarrow> int \<Rightarrow> kill_result"

datatype wake = Tick | Grace | CtxDone

record kill_state =
  ks_time :: nat
  ks_signals :: "signal_op list"
  ks_errs :: "string list"

text \<open>One ownership check: the answer at the current instant, and the instant moves on.\<close>

definition check_owner :: "kill_env \<Rightarrow> ProcessInfo \<Rightarrow> kill_state \<Rightarrow> bool \<times> kill_state" where
  "check_owner ke p ks = (VerifyOwnership (ke_tables ke (ks_time ks)) p, ks\<lparr> ks_time := Suc (ks_time ks) \<rparr>)"

definition signal_if_owned :: "kill_env \<Rightarrow> signal \<Rightarrow> ProcessInfo \<Rightarrow> kill_state \<Rightarrow> bool \<times> kill_state" where
  "signal_if_owned ke sig p ks =
     (case check_owner ke p ks of
        (False, ks') \<Rightarrow> (False, ks')
      | (True, ks') \<Rightarrow>
          let ks' = ks'\<lparr> ks_signals := ks_signals ks' @
                [\<lparr> so_Signal = sig, so_Group = pr_PGID p, so_Check = ks_time ks \<rparr>] \<rparr>
          in (True, case ke_kill ke (ks_time ks) sig (pr_PGID p) of
                 KillError e \<Rightarrow> ks'\<lparr> ks_errs := ks_errs ks' @ [e] \<rparr>
               | _ \<Rightarrow> ks'))"

fun signal_each :: "kill_env \<Rightarrow> signal \<Rightarrow> ProcessInfo list \<Rightarrow> kill_state \<Rightarrow> ProcessInfo list \<times> kill_state" where
  "signal_each ke sig [] ks = ([], ks)"
| "signal_each ke sig (p # ps) ks =
     (case signal_if_owned ke sig p ks of
        (owned, ks') \<Rightarrow>
          (case signal_each ke sig ps ks' of (live, ks'') \<Rightarrow> (if owned then p # live else live, ks'')))"

fun still_owned :: "kill_env \<Rightarrow> ProcessInfo list \<Rightarrow> kill_state \<Rightarrow> ProcessInfo list \<times> kill_state" where
  "still_owned ke [] ks = ([], ks)"
| "still_owned ke (p # ps) ks =
     (case check_owner ke p ks of
        (owned, ks') \<Rightarrow>
          (case still_owned ke ps ks' of (live, ks'') \<Rightarrow> (if owned then p # live else live, ks'')))"

text \<open>The wait: \<open>None\<close> when neither the grace period nor the context has ended within the given wake-ups.\<close>

fun wait_exit :: "kill_env \<Rightarrow> wake list \<Rightarrow> ProcessInfo list \<Rightarrow> kill_state \<Rightarrow> (ProcessInfo list \<times> kill_state) option" where
  "wait_exit ke wakes live ks =
     (case still_owned ke live ks of
        (live', ks') \<Rightarrow>
          if live' = [] then Some ([], ks')
          else case wakes of
                 [] \<Rightarrow> None
               | Tick # ws \<Rightarrow> wait_exit ke ws live' ks'
               | _ # ws \<Rightarrow> Some (live', ks'))"

declare wait_exit.simps [simp del]

definition forget_all :: "ProcessInfo list \<Rightarrow> registry \<Rightarrow> registry \<times> fs_op list" where
  "forget_all ps r = fold (\<lambda>p (r, ops). case forget p r of (r', ops') \<Rightarrow> (r', ops @ ops')) ps (r, [])"

definition KillAll :: "kill_env \<Rightarrow> wake list \<Rightarrow> registry \<Rightarrow> (registry \<times> kill_state \<times> fs_op list) option" where
  "KillAll ke wakes r =
     (let snapshot = map snd (rg_procs r)
      in case signal_each ke SIGTERM snapshot \<lparr> ks_time = 0, ks_signals = [], ks_errs = [] \<rparr> of
           (live, ks) \<Rightarrow>
             (case (if live = [] then Some ks
                    else case wait_exit ke wakes live ks of
                           None \<Rightarrow> None
                         | Some (live', ks') \<Rightarrow> Some (snd (signal_each ke SIGKILL live' ks'))) of
                None \<Rightarrow> None
              | Some ks' \<Rightarrow> (case forget_all snapshot r of (r', ops) \<Rightarrow> Some (r', ks', ops))))"

subsection \<open>\<open>ScanStale\<close>\<close>

definition sessionAlive :: "os_env \<Rightarrow> proc_table \<Rightarrow> string \<Rightarrow> bool" where
  "sessionAlive os tab dir =
     (case os_readFile os (Join dir sessionFileName) of
        None \<Rightarrow> False
      | Some data \<Rightarrow> (case os_unmarshal os data of None \<Rightarrow> False | Some p \<Rightarrow> VerifyOwnership tab p))"

definition has_suffix :: "string \<Rightarrow> string \<Rightarrow> bool" where
  "has_suffix s w \<longleftrightarrow> has_prefix (rev s) (rev w)"

definition scan_file :: "os_env \<Rightarrow> proc_table \<Rightarrow> string \<Rightarrow> state_entry \<Rightarrow> ProcessInfo list \<times> fs_op list" where
  "scan_file os tab dir f =
     (if de_Dir f then ([], [])
      else
        let path = Join dir (de_Name f)
        in if de_Name f = sessionFileName \<or> \<not> has_suffix (de_Name f) ''.json'' then ([], [Remove path])
           else case os_readFile os path of
                  None \<Rightarrow> ([], [])
                | Some data \<Rightarrow>
                    (case os_unmarshal os data of
                       None \<Rightarrow> ([], [Remove path])
                     | Some p \<Rightarrow> if VerifyOwnership tab p then ([p], []) else ([], [Remove path])))"

definition scan_dir :: "os_env \<Rightarrow> proc_table \<Rightarrow> string \<Rightarrow> ProcessInfo list \<times> fs_op list" where
  "scan_dir os tab dir =
     (case os_readDir os dir of
        Inl _ \<Rightarrow> ([], [])
      | Inr files \<Rightarrow>
          (concat (map (\<lambda>f. fst (scan_file os tab dir f)) files),
           concat (map (\<lambda>f. snd (scan_file os tab dir f)) files) @ [Remove dir]))"

record scan_result =
  sc_stale :: "ProcessInfo list"
  sc_warnings :: "(string \<times> state_dir_reason) list"
  sc_ops :: "fs_op list"

definition scan_entry :: "os_env \<Rightarrow> proc_table \<Rightarrow> string \<Rightarrow> state_entry \<Rightarrow> scan_result \<Rightarrow> scan_result" where
  "scan_entry os tab baseDir d res =
     (if \<not> de_Dir d \<and> \<not> de_Symlink d then res
      else
        let dir = Join baseDir (de_Name d)
        in case checkStateDir os dir of
             (Some reason, ops) \<Rightarrow> res\<lparr> sc_warnings := sc_warnings res @ [(dir, reason)], sc_ops := sc_ops res @ ops \<rparr>
           | (None, ops) \<Rightarrow>
               if sessionAlive os tab dir then res\<lparr> sc_ops := sc_ops res @ ops \<rparr>
               else case scan_dir os tab dir of
                      (stale, ops') \<Rightarrow> res\<lparr> sc_stale := sc_stale res @ stale, sc_ops := sc_ops res @ ops @ ops' \<rparr>)"

definition ScanStale :: "os_env \<Rightarrow> proc_table \<Rightarrow> string \<Rightarrow> string + scan_result" where
  "ScanStale os tab baseDir =
     (let none = \<lparr> sc_stale = [], sc_warnings = [], sc_ops = [] \<rparr>
      in if os_lstat os baseDir = LstatNotExist then Inr none
         else case checkStateDir os baseDir of
                (Some reason, ops) \<Rightarrow> Inr (none\<lparr> sc_warnings := [(baseDir, reason)], sc_ops := ops \<rparr>)
              | (None, ops) \<Rightarrow>
                  (case os_readDir os baseDir of
                     Inl e \<Rightarrow> Inl e
                   | Inr dirs \<Rightarrow> Inr (fold (scan_entry os tab baseDir) dirs (none\<lparr> sc_ops := ops \<rparr>))))"

subsection \<open>Signals only reach owned processes\<close>

definition owned_signal :: "kill_env \<Rightarrow> ProcessInfo set \<Rightarrow> signal_op \<Rightarrow> bool" where
  "owned_signal ke ps s \<longleftrightarrow> (\<exists>p \<in> ps. so_Group s = pr_PGID p \<and> VerifyOwnership (ke_tables ke (so_Check s)) p)"

lemma check_owner_signals: "ks_signals (snd (check_owner ke p ks)) = ks_signals ks"
  by (simp add: check_owner_def)

lemma signal_if_owned_signals:
  "set (ks_signals (snd (signal_if_owned ke sig p ks))) \<subseteq> set (ks_signals ks) \<union> {s. owned_signal ke {p} s}"
  by (auto simp: signal_if_owned_def check_owner_def owned_signal_def Let_def split: bool.splits kill_result.splits)

lemma owned_signal_mono: "owned_signal ke ps s \<Longrightarrow> ps \<subseteq> qs \<Longrightarrow> owned_signal ke qs s"
  by (auto simp: owned_signal_def)

lemma signal_each_props:
  "set (fst (signal_each ke sig ps ks)) \<subseteq> set ps \<and>
   set (ks_signals (snd (signal_each ke sig ps ks))) \<subseteq> set (ks_signals ks) \<union> {s. owned_signal ke (set ps) s}"
proof (induction ps arbitrary: ks)
  case (Cons p ps)
  obtain owned ks' where o: "signal_if_owned ke sig p ks = (owned, ks')" by force
  have "set (ks_signals ks') \<subseteq> set (ks_signals ks) \<union> {s. owned_signal ke {p} s}"
    using signal_if_owned_signals [of ke sig p ks] o by simp
  then have "set (ks_signals ks') \<subseteq> set (ks_signals ks) \<union> {s. owned_signal ke (set (p # ps)) s}"
    using owned_signal_mono [of ke "{p}" _ "set (p # ps)"] by auto
  moreover have "{s. owned_signal ke (set ps) s} \<subseteq> {s. owned_signal ke (set (p # ps)) s}"
    using owned_signal_mono [of ke "set ps" _ "set (p # ps)"] by auto
  ultimately show ?case using Cons.IH [of ks'] o by (auto simp: case_prod_beta)
qed simp

lemma still_owned_props:
  "set (fst (still_owned ke ps ks)) \<subseteq> set ps \<and> ks_signals (snd (still_owned ke ps ks)) = ks_signals ks"
proof (induction ps arbitrary: ks)
  case (Cons p ps)
  then show ?case
    using check_owner_signals [of ke p ks] by (auto simp: case_prod_beta)
qed simp

lemma wait_exit_props:
  "wait_exit ke wakes live ks = Some (live', ks') \<Longrightarrow> set live' \<subseteq> set live \<and> ks_signals ks' = ks_signals ks"
proof (induction wakes arbitrary: live ks)
  case Nil
  then show ?case
    using still_owned_props [of ke live ks] by (auto simp: wait_exit.simps [of ke "[]"] split: prod.splits if_splits)
next
  case (Cons w ws)
  have "set (fst (still_owned ke live ks)) \<subseteq> set live" "ks_signals (snd (still_owned ke live ks)) = ks_signals ks"
    using still_owned_props by auto
  with Cons show ?case
    by (cases w) (fastforce simp: wait_exit.simps [of ke "w # ws"] wait_exit.simps [of ke "_ # ws"] split: prod.splits if_splits)+
qed

lemma wait_exit_returns:
  "list_ex (\<lambda>w. w \<noteq> Tick) wakes \<Longrightarrow> \<exists>live' ks'. wait_exit ke wakes live ks = Some (live', ks')"
proof (induction wakes arbitrary: live ks)
  case (Cons w ws)
  then show ?case
    by (cases w) (auto simp: wait_exit.simps [of ke "_ # ws"] split: prod.split)
qed simp

definition wf_registry :: "registry \<Rightarrow> bool" where
  "wf_registry r \<longleftrightarrow> (\<forall>(k, p) \<in> set (rg_procs r). k = pr_PID p \<and> 0 < k) \<and> distinct (map fst (rg_procs r))"

lemma forget_all_fold:
  "fold (\<lambda>p (r, ops). case forget p r of (r', ops') \<Rightarrow> (r', ops @ ops')) ps (r, ops) =
     (r\<lparr> rg_procs := filter (\<lambda>(k, _). k \<notin> pr_PID ` set ps) (rg_procs r) \<rparr>,
      ops @ map (\<lambda>p. Remove (pidfilePath (rg_stateDir r) (pr_PID p))) ps)"
proof (induction ps arbitrary: r ops)
  case (Cons p ps)
  have "(\<lambda>(k, x). k \<noteq> pr_PID p \<and> k \<notin> pr_PID ` set ps) = (\<lambda>(k, x :: ProcessInfo). k \<notin> pr_PID ` set (p # ps))"
    by auto
  then show ?case using Cons.IH by (simp add: forget_def conj_commute case_prod_unfold)
qed (simp add: case_prod_unfold)

lemma forget_all_empties:
  assumes "wf_registry r"
  shows "forget_all (map snd (rg_procs r)) r =
    (r\<lparr> rg_procs := [] \<rparr>, map (\<lambda>(k, p). Remove (pidfilePath (rg_stateDir r) k)) (rg_procs r))"
proof -
  have "filter (\<lambda>(k, _). k \<notin> pr_PID ` set (map snd (rg_procs r))) (rg_procs r) = []"
    using assms by (force simp: wf_registry_def filter_empty_conv)
  moreover have "map (\<lambda>p. Remove (pidfilePath (rg_stateDir r) (pr_PID p))) (map snd (rg_procs r)) =
      map (\<lambda>(k, p). Remove (pidfilePath (rg_stateDir r) k)) (rg_procs r)"
    using assms by (auto simp: wf_registry_def)
  ultimately show ?thesis unfolding forget_all_def forget_all_fold by simp
qed

text \<open>
  C37. \<open>KillAll\<close> never signals a process it does not own: every signal goes to the group of a
  registered process which, at the check right before that signal, was alive with the recorded
  start time, in the recorded group and with the recorded program; so a reused pid or a changed
  group is left alone. When the grace period or the context ends, it returns, with no process
  registered any more and the pidfile of each removed.
\<close>

theorem kill_all_safe:
  assumes "wf_registry r" and "list_ex (\<lambda>w. w \<noteq> Tick) wakes"
  shows "\<exists>ks. KillAll ke wakes r =
      Some (r\<lparr> rg_procs := [] \<rparr>, ks, map (\<lambda>(k, p). Remove (pidfilePath (rg_stateDir r) k)) (rg_procs r)) \<and>
    (\<forall>s \<in> set (ks_signals ks). \<exists>p \<in> snd ` set (rg_procs r). \<exists>st argv0.
       readProcStat (ke_tables ke (so_Check s)) (pr_PID p) = Some st \<and> ps_startTicks st = pr_StartTicks p \<and>
       ps_pgrp st = so_Group s \<and> so_Group s = pr_PGID p \<and>
       readProcArgv0 (ke_tables ke (so_Check s)) (pr_PID p) = Some argv0 \<and> Base argv0 = Base (pr_Argv0 p))"
proof -
  define ps where "ps = map snd (rg_procs r)"
  define k0 where "k0 = \<lparr> ks_time = 0, ks_signals = [], ks_errs = [] \<rparr>"
  obtain live ks1 where 1: "signal_each ke SIGTERM ps k0 = (live, ks1)" by force
  have s1: "set live \<subseteq> set ps" "set (ks_signals ks1) \<subseteq> {s. owned_signal ke (set ps) s}"
    using signal_each_props [of ke SIGTERM ps k0] 1 by (auto simp: k0_def)
  obtain live2 ks2 where 2: "wait_exit ke wakes live ks1 = Some (live2, ks2)"
    using wait_exit_returns [OF assms(2)] by blast
  have s2: "set live2 \<subseteq> set ps" "ks_signals ks2 = ks_signals ks1" using wait_exit_props [OF 2] s1 by auto
  define ks where "ks = (if live = [] then ks1 else snd (signal_each ke SIGKILL live2 ks2))"
  have "set (ks_signals ks) \<subseteq> {s. owned_signal ke (set ps) s}"
    using signal_each_props [of ke SIGKILL live2 ks2] s1(2) s2 owned_signal_mono [of ke "set live2" _ "set ps"]
    by (auto simp: ks_def)
  moreover have "KillAll ke wakes r =
      Some (r\<lparr> rg_procs := [] \<rparr>, ks, map (\<lambda>(k, p). Remove (pidfilePath (rg_stateDir r) k)) (rg_procs r))"
    using 1 2 by (simp add: KillAll_def ps_def [symmetric] k0_def [symmetric] ks_def)
      (simp add: ps_def forget_all_empties [OF assms(1)])
  ultimately show ?thesis
    by (fastforce simp: owned_signal_def ps_def VerifyOwnership_def split: option.splits if_splits)
qed

definition demo_tables :: "nat \<Rightarrow> proc_table" where
  "demo_tables t = \<lparr> pt_stat = (\<lambda>pid. if pid = 42 then Some ''42 (iperf3) S 1 42 42 0 0 0 0 0 0 0 0 0 0 0 20 0 1 0 777'' else None),
     pt_cmdline = (\<lambda>pid. if pid = 42 then Some ''iperf3'' else None) \<rparr>"

definition demo_proc :: ProcessInfo where
  "demo_proc = \<lparr> pr_PID = 42, pr_PGID = 42, pr_StartTicks = 777, pr_Argv0 = ''iperf3'', pr_Label = ''tcp'', pr_TestID = ''t1'' \<rparr>"

definition demo_registry :: registry where
  "demo_registry = \<lparr> rg_procs = [(42, demo_proc)], rg_baseDir = ''/run/cablecheck'', rg_stateDir = ''/run/cablecheck/t1'',
     rg_session = demo_proc \<rparr>"

theorem kill_all_safe_witness:
  "wf_registry demo_registry \<and> VerifyOwnership (demo_tables 0) demo_proc \<and>
   (\<exists>ks ops. KillAll \<lparr> ke_tables = demo_tables, ke_kill = (\<lambda>_ _ _. KillOK) \<rparr> [Grace] demo_registry =
      Some (demo_registry\<lparr> rg_procs := [] \<rparr>, ks, ops))"
proof -
  have "wf_registry demo_registry" by (simp add: wf_registry_def demo_registry_def demo_proc_def)
  moreover have "VerifyOwnership (demo_tables 0) demo_proc" by code_simp
  ultimately show ?thesis
    using kill_all_safe [of demo_registry "[Grace]" "\<lparr> ke_tables = demo_tables, ke_kill = (\<lambda>_ _ _. KillOK) \<rparr>"] by auto
qed

subsection \<open>Untrusted and live directories are left alone\<close>

definition trusted_dir :: "os_env \<Rightarrow> string \<Rightarrow> bool" where
  "trusted_dir os path \<longleftrightarrow> fst (checkStateDir os path) = None"

definition own_dir :: "os_env \<Rightarrow> string \<Rightarrow> bool" where
  "own_dir os path \<longleftrightarrow>
     (\<exists>fi. os_lstat os path = LstatOK fi \<and> \<not> fi_Symlink fi \<and> fi_Dir fi \<and> fi_Uid fi = Some (os_Euid os))"

lemma checkStateDir_ops: "op \<in> set (snd (checkStateDir os path)) \<Longrightarrow> op = Chmod path \<and> own_dir os path"
  by (auto simp: checkStateDir_def own_dir_def split: lstat_result.splits option.splits if_splits)

lemma trusted_dir_own:
  "trusted_dir os path \<Longrightarrow> own_dir os path \<and>
     (\<forall>fi. os_lstat os path = LstatOK fi \<longrightarrow> fi_Perm fi = 448 \<or> Chmod path \<in> set (snd (checkStateDir os path)))"
  by (auto simp: trusted_dir_def checkStateDir_def own_dir_def split: lstat_result.splits option.splits if_splits)

text \<open>A directory \<open>ScanStale\<close> may clean: it passed the trust boundary and its session is dead.\<close>

definition dead_dir :: "os_env \<Rightarrow> proc_table \<Rightarrow> string \<Rightarrow> bool" where
  "dead_dir os tab dir \<longleftrightarrow> trusted_dir os dir \<and> \<not> sessionAlive os tab dir"

definition session_dirs :: "os_env \<Rightarrow> string \<Rightarrow> string set" where
  "session_dirs os baseDir = {Join baseDir (de_Name d) | d ds. os_readDir os baseDir = Inr ds \<and> d \<in> set ds}"

definition allowed_op :: "os_env \<Rightarrow> proc_table \<Rightarrow> string set \<Rightarrow> fs_op \<Rightarrow> bool" where
  "allowed_op os tab dirs op \<longleftrightarrow>
     (\<exists>path. op = Chmod path \<and> own_dir os path) \<or>
     (\<exists>dir \<in> dirs. dead_dir os tab dir \<and> (op = Remove dir \<or>
        (\<exists>files f. os_readDir os dir = Inr files \<and> f \<in> set files \<and> op = Remove (Join dir (de_Name f)))))"

definition stale_entry :: "os_env \<Rightarrow> proc_table \<Rightarrow> string set \<Rightarrow> ProcessInfo \<Rightarrow> bool" where
  "stale_entry os tab dirs p \<longleftrightarrow> VerifyOwnership tab p \<and>
     (\<exists>dir \<in> dirs. dead_dir os tab dir \<and>
        (\<exists>files f data. os_readDir os dir = Inr files \<and> f \<in> set files \<and>
           os_readFile os (Join dir (de_Name f)) = Some data \<and> os_unmarshal os data = Some p))"

definition scan_inv :: "os_env \<Rightarrow> proc_table \<Rightarrow> string set \<Rightarrow> scan_result \<Rightarrow> bool" where
  "scan_inv os tab dirs res \<longleftrightarrow>
     (\<forall>op \<in> set (sc_ops res). allowed_op os tab dirs op) \<and> (\<forall>p \<in> set (sc_stale res). stale_entry os tab dirs p) \<and>
     (\<forall>(dir, reason) \<in> set (sc_warnings res). \<not> trusted_dir os dir)"

lemma scan_file_props:
  assumes "dead_dir os tab dir" and "dir \<in> dirs" and "os_readDir os dir = Inr files" and "f \<in> set files"
  shows "\<forall>op \<in> set (snd (scan_file os tab dir f)). allowed_op os tab dirs op"
    "\<forall>p \<in> set (fst (scan_file os tab dir f)). stale_entry os tab dirs p"
proof -
  have "set (snd (scan_file os tab dir f)) \<subseteq> {Remove (Join dir (de_Name f))}"
    by (auto simp: scan_file_def Let_def split: option.splits)
  moreover have "allowed_op os tab dirs (Remove (Join dir (de_Name f)))"
    unfolding allowed_op_def using assms by blast
  ultimately show "\<forall>op \<in> set (snd (scan_file os tab dir f)). allowed_op os tab dirs op" by blast
  have "VerifyOwnership tab p \<and> (\<exists>data. os_readFile os (Join dir (de_Name f)) = Some data \<and> os_unmarshal os data = Some p)"
    if "p \<in> set (fst (scan_file os tab dir f))" for p
    using that by (auto simp: scan_file_def Let_def split: option.splits if_splits)
  then show "\<forall>p \<in> set (fst (scan_file os tab dir f)). stale_entry os tab dirs p"
    unfolding stale_entry_def using assms by blast
qed

lemma scan_dir_props:
  assumes "dead_dir os tab dir" and "dir \<in> dirs"
  shows "\<forall>op \<in> set (snd (scan_dir os tab dir)). allowed_op os tab dirs op"
    "\<forall>p \<in> set (fst (scan_dir os tab dir)). stale_entry os tab dirs p"
  using assms scan_file_props [OF assms]
  by (auto simp: scan_dir_def split: sum.splits) (auto simp: allowed_op_def)

lemma scan_entry_inv:
  assumes "scan_inv os tab dirs res" and "Join baseDir (de_Name d) \<in> dirs"
  shows "scan_inv os tab dirs (scan_entry os tab baseDir d res)"
proof -
  define dir where "dir = Join baseDir (de_Name d)"
  obtain err ops where c: "checkStateDir os dir = (err, ops)" by force
  have ops: "\<forall>op \<in> set ops. allowed_op os tab dirs op"
    using checkStateDir_ops [of _ os dir] c by (auto simp: allowed_op_def)
  show ?thesis
  proof (cases "err = None \<and> \<not> sessionAlive os tab dir")
    case True
    with c have "dead_dir os tab dir" by (simp add: dead_dir_def trusted_dir_def)
    from scan_dir_props [OF this, of dirs] assms True c ops show ?thesis
      by (auto simp: scan_entry_def scan_inv_def dir_def [symmetric] Let_def case_prod_beta)
  next
    case False
    with assms c ops show ?thesis
      by (auto simp: scan_entry_def scan_inv_def dir_def [symmetric] trusted_dir_def Let_def split: option.split)
  qed
qed


definition demo_os :: os_env where
  "demo_os = \<lparr> os_XDG = ''/x'', os_Euid = 1000, os_Getpid = 7,
     os_lstat = (\<lambda>p. LstatOK \<lparr> fi_Symlink = (p = ''/x/cablecheck/evil''), fi_Dir = True, fi_Uid = Some 1000, fi_Perm = 448 \<rparr>),
     os_chmod = (\<lambda>p. None), os_mkdirAll = (\<lambda>p. None),
     os_readDir = (\<lambda>p. if p = ''/x/cablecheck'' then Inr [\<lparr> de_Name = ''evil'', de_Dir = False, de_Symlink = True \<rparr>,
          \<lparr> de_Name = ''t1'', de_Dir = True, de_Symlink = False \<rparr>]
        else Inr [\<lparr> de_Name = ''42.json'', de_Dir = False, de_Symlink = False \<rparr>]),
     os_readFile = (\<lambda>p. if p = ''/x/cablecheck/t1/42.json'' then Some ''42'' else None), os_write = (\<lambda>p. WroteAndRenamed),
     os_marshal = (\<lambda>p. Some ''42''), os_unmarshal = (\<lambda>d. if d = ''42'' then Some demo_proc else None) \<rparr>"


subsection \<open>Registration\<close>

lemma ensureStateDir_trusted:
  "ensureStateDir os r = (None, ops) \<Longrightarrow> trusted_dir os (rg_baseDir r) \<and> trusted_dir os (rg_stateDir r) \<and>
     (marker_current os r \<or>
      (\<exists>data. os_marshal os (rg_session r) = Some data \<and> Replace (Join (rg_stateDir r) sessionFileName) data \<in> set ops))"
  by (auto simp: ensureStateDir_def trusted_dir_def write_marker_def writeFileAtomic_def
      split: option.splits prod.splits if_splits write_result.splits)

lemma writeFileAtomic_outcome:
  "writeFileAtomic os path data = (err, ops) \<Longrightarrow>
     (err = None \<longrightarrow> ops = [CreateTemp path, Replace path data]) \<and> (err \<noteq> None \<longrightarrow> (\<forall>d. Replace path d \<notin> set ops))"
  by (auto simp: writeFileAtomic_def split: write_result.splits)

text \<open>
  Registering a process either changes nothing in the registry or records it: on success both
  state directories passed the trust boundary, the session marker identifies this session, the
  complete pidfile was renamed into place and the table maps the pid to the process; the table
  stays well-formed in every case.
\<close>

theorem register_outcome:
  assumes "wf_registry r" and "Register os p r = (err, r', ops)"
  shows "wf_registry r' \<and> (err \<noteq> None \<longrightarrow> r' = r) \<and>
    (err = None \<longrightarrow> 0 < pr_PID p \<and> map_of (rg_procs r') (pr_PID p) = Some p \<and>
       trusted_dir os (rg_baseDir r) \<and> trusted_dir os (rg_stateDir r) \<and>
       (\<exists>data. os_marshal os p = Some data \<and> Replace (pidfilePath (rg_stateDir r) (pr_PID p)) data \<in> set ops) \<and>
       (\<forall>pid. pid \<noteq> pr_PID p \<longrightarrow> map_of (rg_procs r') pid = map_of (rg_procs r) pid))"
proof (cases err)
  case (Some e)
  with assms have "r' = r"
    by (auto simp: Register_def split: if_splits option.splits prod.splits)
  with assms(1) Some show ?thesis by simp
next
  case None
  then obtain data ops1 ops2 where *: "0 < pr_PID p" "os_marshal os p = Some data" "ensureStateDir os r = (None, ops1)"
    "writeFileAtomic os (pidfilePath (rg_stateDir r) (pr_PID p)) data = (None, ops2)" "ops = ops1 @ ops2"
    and r': "r' = r\<lparr> rg_procs := (pr_PID p, p) # filter (\<lambda>(k, _). k \<noteq> pr_PID p) (rg_procs r) \<rparr>"
    using assms(2) by (auto simp: Register_def split: if_splits option.splits prod.splits)
  have "wf_registry r'"
    using assms(1) *(1) by (auto simp: r' wf_registry_def distinct_map inj_on_def)
  moreover have "map_of (filter (\<lambda>(k, _). k \<noteq> pr_PID p) ps) pid = map_of ps pid" if "pid \<noteq> pr_PID p"
    for pid and ps :: "(int \<times> ProcessInfo) list"
    using that by (induction ps) auto
  ultimately show ?thesis
    using * ensureStateDir_trusted [OF *(3)] writeFileAtomic_outcome [OF *(4)] None by (auto simp: r')
qed

theorem register_outcome_witness:
  "\<exists>r' ops. Register demo_os demo_proc (demo_registry\<lparr> rg_procs := [] \<rparr>) = (None, r', ops) \<and>
     map_of (rg_procs r') 42 = Some demo_proc \<and> trusted_dir demo_os ''/run/cablecheck/t1''"
proof -
  have wf: "wf_registry (demo_registry\<lparr> rg_procs := [] \<rparr>)" by (simp add: wf_registry_def)
  obtain err r' ops where reg: "Register demo_os demo_proc (demo_registry\<lparr> rg_procs := [] \<rparr>) = (err, r', ops)"
    by (cases "Register demo_os demo_proc (demo_registry\<lparr> rg_procs := [] \<rparr>)")
  have "fst (Register demo_os demo_proc (demo_registry\<lparr> rg_procs := [] \<rparr>)) = None" by code_simp
  with reg have "err = None" by simp
  with register_outcome [OF wf reg] reg show ?thesis by (auto simp: demo_registry_def demo_proc_def)
qed

end
