(* ===== verification/PingParser.thy ===== *)
theory PingParser
  imports GoText Report
begin

section \<open>The ping parser\<close>

text \<open>
  Models \<open>src/internal/parser/ping.go\<close>: the line grammar of iputils \<open>ping -n -D\<close>, the
  accumulation over the lines and the analysis of the replies (percentiles, spikes, runs of missing
  sequence numbers, longest silence). \<open>ParsePing\<close> is \<open>None\<close> where the Go function does not return:
  its loop over the sequence numbers ends only when the transmitted count is below the largest
  \<open>int\<close>.
\<close>

subsection \<open>Line grammar\<close>

definition addr_char :: "char \<Rightarrow> bool" where
  "addr_char c \<longleftrightarrow>
     (let n = (of_char c :: nat)
      in (48 \<le> n \<and> n \<le> 57) \<or> (97 \<le> n \<and> n \<le> 102) \<or> (65 \<le> n \<and> n \<le> 70) \<or> n = 58 \<or> n = 46)"

definition pingReplyRe :: re where
  "pingReplyRe = rseq
     [RLit ''['', RGroup 1 (rseq [RPlus is_digit, RLit ''.'', RPlus is_digit]), RLit ''] '',
      RGroup 2 (RPlus is_digit), RLit '' bytes from '', RGroup 3 (RPlus addr_char), RLit '': icmp_seq='',
      RGroup 4 (RPlus is_digit), RLit '' ttl='', RGroup 5 (RPlus is_digit), RLit '' time='',
      RGroup 6 (RPlus digit_or_dot), RLit '' ms'', ROpt (RGroup 7 (RLit '' (DUP!)'')), REnd]"

definition pingIcmpErrRe :: re where
  "pingIcmpErrRe = rseq
     [ROpt (RLit ''[''), RMany digit_or_dot, ROpt (RLit '']''), ROpt (RLit '' ''), RLit ''From '',
      RGroup 1 (RPlus not_space), ROpt (RLit '':''), RLit '' icmp_seq='', RGroup 2 (RPlus is_digit),
      RLit '' '', RGroup 3 (RPlus any_char), REnd]"

definition pingLocalErrRe :: re where
  "pingLocalErrRe = rseq
     [ROpt (RGroup 1 (rseq [RLit ''['', RPlus digit_or_dot, RLit ''] ''])), RLit ''ping: '',
      RGroup 2 (RAlt (rseq [RLit ''local error: '', RPlus any_char]) (rseq [RLit ''sendmsg: '', RPlus any_char])),
      REnd]"

definition pingSummaryRe :: re where
  "pingSummaryRe = rseq
     [RGroup 1 (RPlus is_digit), RLit '' packets transmitted, '', RGroup 2 (RPlus is_digit), RLit '' received'',
      ROpt (rseq [RLit '', +'', RGroup 3 (RPlus is_digit), RLit '' duplicates'']),
      ROpt (rseq [RLit '', +'', RGroup 4 (RPlus is_digit), RLit '' errors'']),
      RLit '', '', RGroup 5 (RPlus digit_or_dot), RLit ''% packet loss, time '', RGroup 6 (RPlus is_digit),
      RLit ''ms'', REnd]"

definition pingRTTRe :: re where
  "pingRTTRe = rseq
     [RLit ''rtt min/avg/max/mdev = '', RGroup 1 (RPlus digit_or_dot), RLit ''/'', RGroup 2 (RPlus digit_or_dot),
      RLit ''/'', RGroup 3 (RPlus digit_or_dot), RLit ''/'', RGroup 4 (RPlus digit_or_dot), RLit '' ms'',
      ROpt (RGroup 5 (rseq [RLit '', pipe '', RPlus is_digit])), REnd]"

definition pingHeaderRe :: re where
  "pingHeaderRe = rseq
     [RLit ''PING '', RGroup 1 (RPlus not_space), RLit '' ('', RGroup 2 (RPlus addr_char), RLit '') '',
      RPlus is_digit, RLit ''('', RPlus is_digit, RLit '') bytes of data.'', REnd]"

definition pingFooterRe :: re where
  "pingFooterRe = rseq
     [RLit ''--- '', RGroup 1 (RPlus not_space), RLit '' ping statistics ---'', REnd]"

definition fragNeededRe :: re where
  "fragNeededRe = RAlt (fold_lit ''frag needed'') (RAlt (fold_lit ''packet too big'') (fold_lit ''message too long''))"

definition busyboxReplyRe :: re where
  "busyboxReplyRe = rseq
     [RPlus is_digit, RLit '' bytes from '', RPlus not_space, RLit '': seq='', RPlus is_digit, RLit '' '']"

definition busyboxRTTRe :: re where
  "busyboxRTTRe = RLit ''round-trip min/avg/max = ''"

text \<open>What the switch of \<open>ParsePing\<close> reads from a line, in the order of its cases.\<close>

datatype ping_line =
    PReply f64 int f64 bool
  | PHeader string
  | PSummary int int "int option" f64
  | PRTT f64 f64 f64 f64
  | PIcmpErr bool
  | PLocalErr bool
  | PFooter string
  | PBusybox
  | PUnparsed

definition frag_needed :: "string \<Rightarrow> bool" where
  "frag_needed s \<longleftrightarrow> FindAnywhere fragNeededRe s \<noteq> None"

definition flt_of :: "string \<Rightarrow> f64" where "flt_of s = fst (ParseFloat s)"
definition int_of :: "string \<Rightarrow> int" where "int_of s = fst (Atoi s)"

definition ping_reply :: "(nat \<times> string) list \<Rightarrow> ping_line" where
  "ping_reply m = PReply (flt_of (grp 1 m)) (int_of (grp 4 m)) (flt_of (grp 6 m)) (grp 7 m \<noteq> '''')"

definition ping_summary :: "(nat \<times> string) list \<Rightarrow> ping_line" where
  "ping_summary m =
     PSummary (int_of (grp 1 m)) (int_of (grp 2 m)) (if grp 3 m \<noteq> '''' then Some (int_of (grp 3 m)) else None)
       (flt_of (grp 5 m))"

definition ping_rtt :: "(nat \<times> string) list \<Rightarrow> ping_line" where
  "ping_rtt m = PRTT (flt_of (grp 1 m)) (flt_of (grp 2 m)) (flt_of (grp 3 m)) (flt_of (grp 4 m))"

definition try_re :: "re \<Rightarrow> ((nat \<times> string) list \<Rightarrow> ping_line) \<Rightarrow> string \<Rightarrow> ping_line \<Rightarrow> ping_line" where
  "try_re r f line rest = (case FindAnchored r line of Some m \<Rightarrow> f m | None \<Rightarrow> rest)"

definition classify_ping_line :: "string \<Rightarrow> ping_line" where
  "classify_ping_line line =
     try_re pingReplyRe ping_reply line (
     try_re pingHeaderRe (\<lambda>m. PHeader (grp 1 m)) line (
     try_re pingSummaryRe ping_summary line (
     try_re pingRTTRe ping_rtt line (
     try_re pingIcmpErrRe (\<lambda>m. PIcmpErr (frag_needed (grp 3 m))) line (
     try_re pingLocalErrRe (\<lambda>m. PLocalErr (frag_needed (grp 2 m))) line (
     try_re pingFooterRe (\<lambda>m. PFooter (grp 1 m)) line (
     try_re busyboxReplyRe (\<lambda>m. PBusybox) line (
     try_re busyboxRTTRe (\<lambda>m. PBusybox) line PUnparsed))))))))"

subsection \<open>Accumulation\<close>

definition zero_ping :: PingResult where
  "zero_ping = \<lparr> pg_Direction = '''', pg_Target = '''', pg_Transmitted = 0, pg_Received = 0, pg_Duplicates = 0,
     pg_SendErrors = 0, pg_IcmpErrors = 0, pg_FragNeededErrors = 0, pg_LossPercent = Fin 0, pg_RTTMinMs = Fin 0,
     pg_RTTAvgMs = Fin 0, pg_RTTMaxMs = Fin 0, pg_RTTMdevMs = Fin 0, pg_Percentiles = [], pg_Spikes = [],
     pg_MissingSeqRuns = [], pg_LongestMissingRunLen = 0, pg_LongestGapMs = Fin 0, pg_IntervalUsedSec = Fin 0,
     pg_ExitCode = 0, pg_UnparsedLines = 0 \<rparr>"

text \<open>The local variables of the scan; \<open>firstRTT\<close> is the map from a sequence number to the RTT of its first reply.\<close>

record ping_acc =
  pa_res :: PingResult
  pa_firstRTT :: "(int \<times> f64) list"
  pa_replyTimes :: "f64 list"
  pa_summaryFound :: bool
  pa_summaryDups :: int
  pa_busybox :: bool

definition ping_init :: "int \<Rightarrow> ping_acc" where
  "ping_init exitCode = \<lparr> pa_res = zero_ping\<lparr> pg_ExitCode := exitCode \<rparr>, pa_firstRTT = [], pa_replyTimes = [],
     pa_summaryFound = False, pa_summaryDups = 0, pa_busybox = False \<rparr>"

fun output_step :: "ping_line \<Rightarrow> ping_acc \<Rightarrow> ping_acc" where
  "output_step (PReply ts seq rtt dup) a =
     (let a = a\<lparr> pa_replyTimes := pa_replyTimes a @ [ts] \<rparr>
      in if dup \<or> map_of (pa_firstRTT a) seq \<noteq> None
         then a\<lparr> pa_res := (pa_res a)\<lparr> pg_Duplicates := iadd (pg_Duplicates (pa_res a)) 1 \<rparr> \<rparr>
         else a\<lparr> pa_firstRTT := pa_firstRTT a @ [(seq, rtt)] \<rparr>)"
| "output_step (PHeader target) a = a\<lparr> pa_res := (pa_res a)\<lparr> pg_Target := target \<rparr> \<rparr>"
| "output_step (PSummary tx rx dups loss) a =
     a\<lparr> pa_summaryFound := True,
        pa_res := (pa_res a)\<lparr> pg_Transmitted := tx, pg_Received := rx, pg_LossPercent := loss \<rparr>,
        pa_summaryDups := (case dups of Some d \<Rightarrow> d | None \<Rightarrow> pa_summaryDups a) \<rparr>"
| "output_step (PRTT mn av mx md) a =
     a\<lparr> pa_res := (pa_res a)\<lparr> pg_RTTMinMs := mn, pg_RTTAvgMs := av, pg_RTTMaxMs := mx, pg_RTTMdevMs := md \<rparr> \<rparr>"
| "output_step (PIcmpErr frag) a =
     a\<lparr> pa_res := (pa_res a)\<lparr> pg_IcmpErrors := iadd (pg_IcmpErrors (pa_res a)) 1,
          pg_FragNeededErrors := (if frag then iadd (pg_FragNeededErrors (pa_res a)) 1 else pg_FragNeededErrors (pa_res a)) \<rparr> \<rparr>"
| "output_step (PLocalErr frag) a =
     a\<lparr> pa_res := (pa_res a)\<lparr> pg_SendErrors := iadd (pg_SendErrors (pa_res a)) 1,
          pg_FragNeededErrors := (if frag then iadd (pg_FragNeededErrors (pa_res a)) 1 else pg_FragNeededErrors (pa_res a)) \<rparr> \<rparr>"
| "output_step (PFooter target) a =
     (if pg_Target (pa_res a) = '''' then a\<lparr> pa_res := (pa_res a)\<lparr> pg_Target := target \<rparr> \<rparr> else a)"
| "output_step PBusybox a = a\<lparr> pa_busybox := True \<rparr>"
| "output_step PUnparsed a =
     a\<lparr> pa_res := (pa_res a)\<lparr> pg_UnparsedLines := iadd (pg_UnparsedLines (pa_res a)) 1 \<rparr> \<rparr>"

definition ping_lines :: "string \<Rightarrow> string list" where
  "ping_lines stdout = filter (\<lambda>l. l \<noteq> '''') (map TrimSpace (scan_lines stdout))"

definition ping_scan :: "string \<Rightarrow> int \<Rightarrow> ping_acc" where
  "ping_scan stdout exitCode =
     fold output_step (map classify_ping_line (ping_lines stdout)) (ping_init exitCode)"

subsection \<open>Analysis of the replies\<close>

definition nearestRank :: "f64 list \<Rightarrow> int \<Rightarrow> f64" where
  "nearestRank vs p =
     (let rank = idiv (iadd (imul p (int (length vs))) 99) 100;
          rank = (if rank < 1 then 1 else rank)
      in vs ! nat (rank - 1))"

definition spike_threshold :: "f64 \<Rightarrow> f64" where
  "spike_threshold p50 = mathMax (fmul (Fin 5) p50) (fadd p50 (Fin 10))"

definition ping_percentiles :: "(int \<times> f64) list \<Rightarrow> (int \<times> f64) list" where
  "ping_percentiles firstRTT = map (\<lambda>p. (p, nearestRank (sort (map snd firstRTT)) p)) [50, 90, 95, 99]"

definition ping_spikes :: "(int \<times> f64) list \<Rightarrow> PingSpike list" where
  "ping_spikes firstRTT =
     (let threshold = spike_threshold (nearestRank (sort (map snd firstRTT)) 50)
      in concat (map (\<lambda>seq. case map_of firstRTT seq of
           Some rtt \<Rightarrow> if fgt rtt threshold then [\<lparr> pk_Seq = seq, pk_RTTMs = rtt \<rparr>] else []
         | None \<Rightarrow> []) (sort (map fst firstRTT))))"

text \<open>The state of the loop over the sequence numbers: the open run, the finished runs, the longest length.\<close>

type_synonym run_state = "SeqRun \<times> SeqRun list \<times> int"

definition flush_run :: "run_state \<Rightarrow> run_state" where
  "flush_run st =
     (case st of (run, rs, longest) \<Rightarrow>
        if sr_Len run > 0 then (\<lparr> sr_FirstSeq = 0, sr_Len = 0 \<rparr>, rs @ [run], max longest (sr_Len run)) else st)"

definition missing_step :: "(int \<times> f64) list \<Rightarrow> int \<Rightarrow> run_state \<Rightarrow> run_state" where
  "missing_step firstRTT seq st =
     (if map_of firstRTT seq \<noteq> None then flush_run st
      else case st of (run, rs, longest) \<Rightarrow>
             (\<lparr> sr_FirstSeq = (if sr_Len run = 0 then seq else sr_FirstSeq run), sr_Len = iadd (sr_Len run) 1 \<rparr>, rs, longest))"

definition missing_runs :: "(int \<times> f64) list \<Rightarrow> int \<Rightarrow> (SeqRun list \<times> int) option" where
  "missing_runs firstRTT transmitted =
     (if transmitted = maxInt then None
      else Some (snd (flush_run (fold (missing_step firstRTT) [1..transmitted] (\<lparr> sr_FirstSeq = 0, sr_Len = 0 \<rparr>, [], 0)))))"

fun longest_gap :: "f64 list \<Rightarrow> f64 \<Rightarrow> f64" where
  "longest_gap (t # u # ts) g =
     (let gap = fmul (fsub u t) (Fin 1000) in longest_gap (u # ts) (if fgt gap g then gap else g))"
| "longest_gap _ g = g"

subsection \<open>\<open>ParsePing\<close>\<close>

datatype ping_error =
    IntervalRejected string
  | InvocationFailed string
  | UnsupportedPingFormat
  | NotRecognized

fun split_nl :: "string \<Rightarrow> string list" where
  "split_nl [] = [[]]"
| "split_nl (c # cs) = (if is_nl c then [] # split_nl cs else (c # hd (split_nl cs)) # tl (split_nl cs))"

definition firstLine :: "string \<Rightarrow> string" where
  "firstLine b = (case find (\<lambda>t. t \<noteq> '''') (map TrimSpace (split_nl b)) of Some t \<Rightarrow> t | None \<Rightarrow> '''')"

definition finish_ping :: "ping_acc \<Rightarrow> PingResult option" where
  "finish_ping a =
     (let res = pa_res a;
          res = (if pa_summaryDups a > pg_Duplicates res then res\<lparr> pg_Duplicates := pa_summaryDups a \<rparr> else res);
          res = (if pa_firstRTT a \<noteq> [] then res\<lparr> pg_Percentiles := ping_percentiles (pa_firstRTT a),
                   pg_Spikes := ping_spikes (pa_firstRTT a) \<rparr> else res)
      in case missing_runs (pa_firstRTT a) (pg_Transmitted res) of
           None \<Rightarrow> None
         | Some (rs, longest) \<Rightarrow> Some (res\<lparr> pg_MissingSeqRuns := rs, pg_LongestMissingRunLen := longest,
             pg_LongestGapMs := longest_gap (pa_replyTimes a) (pg_LongestGapMs res) \<rparr>))"

definition ParsePing :: "string \<Rightarrow> string \<Rightarrow> int \<Rightarrow> (PingResult \<times> ping_error option) option" where
  "ParsePing stdout stderr exitCode =
     (let failed = zero_ping\<lparr> pg_ExitCode := exitCode \<rparr>
      in if exitCode = 2 then
           if contains stderr ''cannot flood'' \<and> contains stderr ''minimal interval''
           then Some (failed, Some (IntervalRejected (firstLine stderr)))
           else Some (failed, Some (InvocationFailed (firstLine stderr)))
         else
           let a = ping_scan stdout exitCode
           in if pa_busybox a \<and> pa_firstRTT a = [] \<and> \<not> pa_summaryFound a
              then Some (failed, Some UnsupportedPingFormat)
              else if \<not> pa_summaryFound a \<and> pa_firstRTT a = []
              then Some (failed, Some NotRecognized)
              else map_option (\<lambda>res. (res, None)) (finish_ping a))"

subsection \<open>Lines as iputils prints them\<close>

text \<open>
  The lines of an iputils transcript with their varying parts: a reply with its \<open>-D\<close> timestamp,
  the header, the statistics and the error lines. Numbers the parser keeps as floats are given by
  their digits.
\<close>

datatype ping_out =
    OReply string string string string int string string bool
  | OHeader string string string string
  | OSummary int int "int option" "int option" string string
  | ORTT string string string string
  | OIcmpErr string string string
  | OLocalErr string
  | OFooter string

fun print_ping :: "ping_out \<Rightarrow> string" where
  "print_ping (OReply secs frc sz addr seq ttl rtt dup) =
     ''['' @ (secs @ (''.'' @ (frc @ (''] '' @ (sz @ ('' bytes from '' @ (addr @ ('': icmp_seq='' @ (show_nonneg seq @
     ('' ttl='' @ (ttl @ ('' time='' @ (rtt @ ('' ms'' @ (if dup then '' (DUP!)'' else '''')))))))))))))))"
| "print_ping (OHeader target addr n m) =
     ''PING '' @ (target @ ('' ('' @ (addr @ ('') '' @ (n @ (''('' @ (m @ '') bytes of data.'')))))))"
| "print_ping (OSummary tx rx dups errs loss ms) =
     show_nonneg tx @ ('' packets transmitted, '' @ (show_nonneg rx @ ('' received'' @
     ((case dups of None \<Rightarrow> '''' | Some d \<Rightarrow> '', +'' @ (show_nonneg d @ '' duplicates'')) @
     ((case errs of None \<Rightarrow> '''' | Some e \<Rightarrow> '', +'' @ (show_nonneg e @ '' errors'')) @
     ('', '' @ (loss @ (''% packet loss, time '' @ (ms @ ''ms'')))))))))"
| "print_ping (ORTT mn av mx md) =
     ''rtt min/avg/max/mdev = '' @ (mn @ (''/'' @ (av @ (''/'' @ (mx @ (''/'' @ (md @ '' ms'')))))))"
| "print_ping (OIcmpErr addr seq msg) =
     ''From '' @ (addr @ ('' icmp_seq='' @ (seq @ ('' '' @ msg))))"
| "print_ping (OLocalErr msg) = ''ping: local error: '' @ msg"
| "print_ping (OFooter target) = ''--- '' @ (target @ '' ping statistics ---'')"

fun ping_event :: "ping_out \<Rightarrow> ping_line" where
  "ping_event (OReply secs frc sz addr seq ttl rtt dup) =
     PReply (flt_of (secs @ ''.'' @ frc)) seq (flt_of rtt) dup"
| "ping_event (OHeader target addr n m) = PHeader target"
| "ping_event (OSummary tx rx dups errs loss ms) = PSummary tx rx dups (flt_of loss)"
| "ping_event (ORTT mn av mx md) = PRTT (flt_of mn) (flt_of av) (flt_of mx) (flt_of md)"
| "ping_event (OIcmpErr addr seq msg) = PIcmpErr (frag_needed msg)"
| "ping_event (OLocalErr msg) = PLocalErr (frag_needed (''local error: '' @ msg))"
| "ping_event (OFooter target) = PFooter target"

definition digits1 :: "string \<Rightarrow> bool" where
  "digits1 s \<longleftrightarrow> s \<noteq> [] \<and> (\<forall>x \<in> set s. is_digit x)"

definition decimal1 :: "string \<Rightarrow> bool" where
  "decimal1 s \<longleftrightarrow> s \<noteq> [] \<and> (\<forall>x \<in> set s. digit_or_dot x)"

definition addr1 :: "string \<Rightarrow> bool" where
  "addr1 s \<longleftrightarrow> s \<noteq> [] \<and> (\<forall>x \<in> set s. addr_char x)"

text \<open>Printable ASCII, which neither \<open>TrimSpace\<close> nor the line scanner touches.\<close>

definition graph_char :: "char \<Rightarrow> bool" where
  "graph_char c \<longleftrightarrow> 32 < (of_char c :: nat) \<and> (of_char c :: nat) < 127"

definition name1 :: "string \<Rightarrow> bool" where
  "name1 s \<longleftrightarrow> s \<noteq> [] \<and> (\<forall>x \<in> set s. graph_char x)"

definition message1 :: "string \<Rightarrow> bool" where
  "message1 s \<longleftrightarrow> s \<noteq> [] \<and> (\<forall>x \<in> set s. x = CHR '' '' \<or> graph_char x) \<and> graph_char (last s)"

definition count64 :: "int \<Rightarrow> bool" where
  "count64 n \<longleftrightarrow> 0 \<le> n \<and> n \<le> maxInt"

fun printable_ping :: "ping_out \<Rightarrow> bool" where
  "printable_ping (OReply secs frc sz addr seq ttl rtt dup) \<longleftrightarrow>
     digits1 secs \<and> digits1 frc \<and> digits1 sz \<and> addr1 addr \<and> count64 seq \<and> digits1 ttl \<and> decimal1 rtt"
| "printable_ping (OHeader target addr n m) \<longleftrightarrow> name1 target \<and> addr1 addr \<and> digits1 n \<and> digits1 m"
| "printable_ping (OSummary tx rx dups errs loss ms) \<longleftrightarrow>
     count64 tx \<and> count64 rx \<and> pred_option count64 dups \<and> pred_option count64 errs \<and> decimal1 loss \<and> digits1 ms"
| "printable_ping (ORTT mn av mx md) \<longleftrightarrow> decimal1 mn \<and> decimal1 av \<and> decimal1 mx \<and> decimal1 md"
| "printable_ping (OIcmpErr addr seq msg) \<longleftrightarrow>
     name1 addr \<and> CHR '':'' \<notin> set addr \<and> digits1 seq \<and> message1 msg"
| "printable_ping (OLocalErr msg) \<longleftrightarrow> message1 msg"
| "printable_ping (OFooter target) \<longleftrightarrow> name1 target"

lemma char_class_simps [simp]:
  "\<not> is_digit (CHR ''['')" "\<not> is_digit (CHR '']'')" "\<not> is_digit (CHR ''.'')" "\<not> is_digit (CHR '' '')"
  "\<not> is_digit (CHR '')'')" "\<not> is_digit (CHR ''('')" "\<not> is_digit (CHR '','')" "\<not> is_digit (CHR ''m'')"
  "\<not> is_digit (CHR ''P'')" "\<not> is_digit (CHR ''F'')" "\<not> is_digit (CHR ''p'')" "\<not> is_digit (CHR ''r'')"
  "\<not> is_digit (CHR ''-'')"
  "\<not> addr_char (CHR '')'')" "\<not> addr_char (CHR '' '')" "addr_char (CHR '':'')"
  "\<not> digit_or_dot (CHR '' '')" "\<not> digit_or_dot (CHR ''/'')" "\<not> digit_or_dot (CHR ''%'')"
  "\<not> digit_or_dot (CHR ''F'')" "\<not> digit_or_dot (CHR ''p'')" "\<not> digit_or_dot (CHR ''-'')"
  "\<not> digit_or_dot (CHR ''r'')" "\<not> digit_or_dot (CHR ''P'')"
  "\<not> not_space (CHR '' '')"
  by (simp_all add: is_digit_def addr_char_def digit_or_dot_def not_space_def re_space_def)

lemma int_of_show [simp]: "count64 n \<Longrightarrow> int_of (show_nonneg n) = n"
proof -
  assume n: "count64 n"
  then have d: "\<forall>c \<in> set (show_nonneg n). is_digit c" by (intro show_nonneg_digits) (simp add: count64_def)
  obtain c cs where s: "show_nonneg n = c # cs" by (cases "show_nonneg n") auto
  with d have "is_digit c" by simp
  then have "c \<noteq> CHR ''-''" "c \<noteq> CHR ''+''" by (auto simp: is_digit_def)
  with s have "Atoi (show_nonneg n) = atoi_digits False (show_nonneg n)" by (simp add: Atoi_def)
  also have "\<dots> = (n, True)"
    using n d by (simp add: atoi_digits_def parse_show_nonneg count64_def list_all_iff Let_def)
  finally show ?thesis by (simp add: int_of_def)
qed

lemma digits1_show [simp]: "count64 n \<Longrightarrow> digits1 (show_nonneg n)"
  using show_nonneg_digits [of n] by (simp add: digits1_def count64_def)

text \<open>The steps of a match over the parts of a printed line.\<close>

lemma digits_step:
  "digits1 u \<Longrightarrow> stops is_digit t \<Longrightarrow> refuses is_digit K \<Longrightarrow>
     then_match (RPlus is_digit) K (pre, u @ t, c) = K (rev u @ pre, t, c)"
  by (rule then_match_RPlus) (auto simp: digits1_def)

lemma decimal_step:
  "decimal1 u \<Longrightarrow> stops digit_or_dot t \<Longrightarrow> refuses digit_or_dot K \<Longrightarrow>
     then_match (RPlus digit_or_dot) K (pre, u @ t, c) = K (rev u @ pre, t, c)"
  by (rule then_match_RPlus) (auto simp: decimal1_def)

lemma addr_step:
  "addr1 u \<Longrightarrow> stops addr_char t \<Longrightarrow> refuses addr_char K \<Longrightarrow>
     then_match (RPlus addr_char) K (pre, u @ t, c) = K (rev u @ pre, t, c)"
  by (rule then_match_RPlus) (auto simp: addr1_def)

lemma name_step:
  "name1 u \<Longrightarrow> stops not_space t \<Longrightarrow> refuses not_space K \<Longrightarrow>
     then_match (RPlus not_space) K (pre, u @ t, c) = K (rev u @ pre, t, c)"
  by (rule then_match_RPlus) (auto simp: name1_def graph_char_def not_space_def re_space_def)

lemma colon_step:
  assumes "addr1 u"
  shows "then_match (RPlus addr_char)
     (\<lambda>(pre, s, c). then_match (RLit (CHR '':'' # CHR '' '' # w)) K (pre, s, f pre c)) (pre, u @ CHR '':'' # CHR '' '' # t, c) =
     then_match (RLit (CHR '':'' # CHR '' '' # w)) K (rev u @ pre, CHR '':'' # CHR '' '' # t, f (rev u @ pre) c)"
  using assms
  by (subst then_match_RPlus_back) (auto simp: addr1_def then_match_RLit_Cons split: if_splits)

lemmas match_steps =
  digits_step decimal_step addr_step name_step colon_step
  refuses_lit refuses_group_lit refuses_end refuses_group_end then_match_RLit_Cons

lemma FindAnchored_then:
  "FindAnchored r s = (case then_match r (\<lambda>st. [st]) ([], s, []) of [] \<Rightarrow> None | (_, _, c) # _ \<Rightarrow> Some c)"
  by (simp add: FindAnchored_def submatch_at_def rmatch_then)

lemma reply_found:
  assumes "printable_ping (OReply secs frc sz addr seq ttl rtt dup)"
  shows "FindAnchored pingReplyRe (print_ping (OReply secs frc sz addr seq ttl rtt dup)) =
    Some ((if dup then [(7, '' (DUP!)'')] else []) @
      [(6, rtt), (5, ttl), (4, show_nonneg seq), (3, addr), (2, sz), (1, secs @ ''.'' @ frc)])"
  using assms
  by (simp add: FindAnchored_then pingReplyRe_def match_steps stops_def)

lemma reply_elsewhere [simp]:
  "FindAnchored pingReplyRe (CHR ''P'' # s) = None" "FindAnchored pingReplyRe (CHR ''r'' # s) = None"
  "FindAnchored pingReplyRe (CHR ''F'' # s) = None" "FindAnchored pingReplyRe (CHR ''p'' # s) = None"
  "FindAnchored pingReplyRe (CHR ''-'' # s) = None"
  by (simp_all add: FindAnchored_then pingReplyRe_def then_match_RLit_Cons)

lemma header_elsewhere [simp]:
  "FindAnchored pingHeaderRe (CHR ''r'' # s) = None" "FindAnchored pingHeaderRe (CHR ''F'' # s) = None"
  "FindAnchored pingHeaderRe (CHR ''p'' # s) = None" "FindAnchored pingHeaderRe (CHR ''-'' # s) = None"
  by (simp_all add: FindAnchored_then pingHeaderRe_def then_match_RLit_Cons)

lemma summary_elsewhere [simp]:
  "FindAnchored pingSummaryRe (CHR ''r'' # s) = None" "FindAnchored pingSummaryRe (CHR ''F'' # s) = None"
  "FindAnchored pingSummaryRe (CHR ''p'' # s) = None" "FindAnchored pingSummaryRe (CHR ''-'' # s) = None"
  by (simp_all add: FindAnchored_then pingSummaryRe_def)

lemma rtt_elsewhere [simp]:
  "FindAnchored pingRTTRe (CHR ''F'' # s) = None" "FindAnchored pingRTTRe (CHR ''p'' # s) = None"
  "FindAnchored pingRTTRe (CHR ''-'' # s) = None"
  by (simp_all add: FindAnchored_then pingRTTRe_def then_match_RLit_Cons)

lemma many_none: "\<not> p x \<Longrightarrow> then_match (RMany p) K (pre, x # s, c) = K (pre, x # s, c)"
  by (simp add: then_match_def)

lemma icmp_elsewhere [simp]:
  "FindAnchored pingIcmpErrRe (CHR ''p'' # s) = None" "FindAnchored pingIcmpErrRe (CHR ''-'' # s) = None"
  by (simp_all add: FindAnchored_then pingIcmpErrRe_def then_match_RLit_Cons many_none)

lemma local_elsewhere [simp]: "FindAnchored pingLocalErrRe (CHR ''-'' # s) = None"
  by (simp add: FindAnchored_then pingLocalErrRe_def then_match_RLit_Cons)

lemma digit_first:
  assumes "digits1 d"
  shows "FindAnchored pingReplyRe (d @ s) = None" "FindAnchored pingHeaderRe (d @ s) = None"
proof -
  from assms obtain x u where "d = x # u" "is_digit x" by (cases d) (auto simp: digits1_def)
  then have "x \<noteq> CHR ''[''" "x \<noteq> CHR ''P''" by auto
  with \<open>d = x # u\<close> show "FindAnchored pingReplyRe (d @ s) = None" "FindAnchored pingHeaderRe (d @ s) = None"
    by (simp_all add: FindAnchored_then pingReplyRe_def pingHeaderRe_def then_match_RLit_Cons)
qed

lemma header_found:
  assumes "printable_ping (OHeader target addr n m)"
  shows "FindAnchored pingHeaderRe (print_ping (OHeader target addr n m)) = Some [(2, addr), (1, target)]"
  using assms by (simp add: FindAnchored_then pingHeaderRe_def match_steps stops_def)

lemma plus_no_decimal: "decimal1 u \<Longrightarrow> then_match (RLit (CHR ''+'' # w)) K (pre, u @ t, c) = []"
  by (cases u) (auto simp: decimal1_def digit_or_dot_def is_digit_def then_match_RLit_Cons)

lemma summary_found:
  assumes "printable_ping (OSummary tx rx dups errs loss ms)"
  shows "FindAnchored pingSummaryRe (print_ping (OSummary tx rx dups errs loss ms)) =
    Some ([(6, ms), (5, loss)] @ (case errs of None \<Rightarrow> [] | Some e \<Rightarrow> [(4, show_nonneg e)]) @
      (case dups of None \<Rightarrow> [] | Some d \<Rightarrow> [(3, show_nonneg d)]) @ [(2, show_nonneg rx), (1, show_nonneg tx)])"
  using assms
  by (cases dups; cases errs)
     (simp_all add: FindAnchored_then pingSummaryRe_def match_steps plus_no_decimal stops_def)

lemma rtt_found:
  assumes "printable_ping (ORTT mn av mx md)"
  shows "FindAnchored pingRTTRe (print_ping (ORTT mn av mx md)) = Some [(4, md), (3, mx), (2, av), (1, mn)]"
  using assms by (simp add: FindAnchored_then pingRTTRe_def match_steps stops_def)

lemma footer_found:
  assumes "printable_ping (OFooter target)"
  shows "FindAnchored pingFooterRe (print_ping (OFooter target)) = Some [(1, target)]"
  using assms by (simp add: FindAnchored_then pingFooterRe_def match_steps stops_def)

lemma message_step:
  assumes "message1 u" and "refuses any_char K"
  shows "then_match (RPlus any_char) K (pre, u, c) = K (rev u @ pre, [], c)"
proof -
  have "any_char x" if "x = CHR '' '' \<or> graph_char x" for x
    using that by (auto simp: any_char_def graph_char_def)
  then have "\<forall>x \<in> set u. any_char x" using assms(1) unfolding message1_def by blast
  with assms then_match_RPlus [of u any_char "[]" K pre c] show ?thesis
    by (simp add: message1_def stops_def)
qed

lemma from_step:
  assumes "name1 u" and "CHR '':'' \<notin> set u" and "stops not_space t"
  shows "then_match (RPlus not_space) (\<lambda>(pre, s, c).
      then_match (RLit (CHR '':'' # v)) K (pre, s, f pre c) @ then_match (RLit (CHR '' '' # w)) L (pre, s, f pre c)) (pre, u @ t, c) =
    then_match (RLit (CHR '':'' # v)) K (rev u @ pre, t, f (rev u @ pre) c) @
    then_match (RLit (CHR '' '' # w)) L (rev u @ pre, t, f (rev u @ pre) c)"
proof (subst then_match_RPlus_on)
  show "\<forall>x \<in> set u. not_space x"
    using assms(1) by (auto simp: name1_def graph_char_def not_space_def re_space_def)
  have "\<forall>x \<in> set u. x \<noteq> CHR '':'' \<and> x \<noteq> CHR '' ''"
    using assms(1,2) by (auto simp: name1_def graph_char_def)
  then show "\<forall>x \<in> set u. \<forall>pre w'. (case (pre, x # w', c) of (pre, s, c) \<Rightarrow>
      then_match (RLit (CHR '':'' # v)) K (pre, s, f pre c) @ then_match (RLit (CHR '' '' # w)) L (pre, s, f pre c)) = []"
    by (auto simp: then_match_RLit_Cons)
qed (use assms in \<open>auto simp: name1_def\<close>)

lemma icmp_found:
  assumes "printable_ping (OIcmpErr addr seq msg)"
  shows "\<exists>c. FindAnchored pingIcmpErrRe (print_ping (OIcmpErr addr seq msg)) = Some c \<and> grp 3 c = msg"
  using assms
  by (simp add: FindAnchored_then pingIcmpErrRe_def match_steps from_step stops_def many_none message_step
      refuses_nonempty grp_def)

lemma local_found:
  assumes "printable_ping (OLocalErr msg)"
  shows "\<exists>c. FindAnchored pingLocalErrRe (print_ping (OLocalErr msg)) = Some c \<and> grp 2 c = ''local error: '' @ msg"
  using assms
  by (simp add: FindAnchored_then pingLocalErrRe_def match_steps stops_def message_step refuses_nonempty grp_def)

lemma classify_print:
  assumes "printable_ping e"
  shows "classify_ping_line (print_ping e) = ping_event e"
proof (cases e)
  case (OReply secs frc sz addr seq ttl rtt dup)
  with assms reply_found [of secs frc sz addr seq ttl rtt dup] show ?thesis
    by (simp add: classify_ping_line_def try_re_def ping_reply_def grp_def)
next
  case (OHeader target addr n m)
  with assms header_found [of target addr n m] show ?thesis
    by (simp add: classify_ping_line_def try_re_def grp_def)
next
  case (OSummary tx rx dups errs loss ms)
  with assms summary_found [of tx rx dups errs loss ms] digit_first [of "show_nonneg tx"] show ?thesis
    by (cases dups; cases errs) (simp_all add: classify_ping_line_def try_re_def ping_summary_def grp_def)
next
  case (ORTT mn av mx md)
  with assms rtt_found [of mn av mx md] show ?thesis
    by (simp add: classify_ping_line_def try_re_def ping_rtt_def grp_def)
next
  case (OIcmpErr addr seq msg)
  with assms icmp_found [of addr seq msg] show ?thesis
    by (auto simp: classify_ping_line_def try_re_def)
next
  case (OLocalErr msg)
  with assms local_found [of msg] show ?thesis
    by (auto simp: classify_ping_line_def try_re_def)
next
  case (OFooter target)
  with assms footer_found [of target] show ?thesis
    by (simp add: classify_ping_line_def try_re_def grp_def)
qed

text \<open>A printed line passes the scanner and \<open>TrimSpace\<close> unchanged.\<close>

definition text_char :: "char \<Rightarrow> bool" where
  "text_char c \<longleftrightarrow> c = CHR '' '' \<or> graph_char c"

definition plain_line :: "string \<Rightarrow> bool" where
  "plain_line l \<longleftrightarrow> l \<noteq> [] \<and> graph_char (hd l) \<and> graph_char (last l) \<and> list_all text_char l"

lemma graph_literals: "list_all graph_char ''abcdefghiklmnopqrstuvxyzPINGFDU[]().,:=+%/-!_''"
  by code_simp

lemmas graph_literal [simp] = graph_literals [simplified]

lemma text_literal [simp]: "text_char (CHR '' '')" "graph_char c \<Longrightarrow> text_char c"
  by (simp_all add: text_char_def)

lemma graph_classes:
  "is_digit c \<Longrightarrow> graph_char c" "digit_or_dot c \<Longrightarrow> graph_char c" "addr_char c \<Longrightarrow> graph_char c"
  by (auto simp: is_digit_def digit_or_dot_def addr_char_def graph_char_def Let_def)

lemma all_graph:
  "digits1 s \<Longrightarrow> \<forall>x \<in> set s. graph_char x" "decimal1 s \<Longrightarrow> \<forall>x \<in> set s. graph_char x"
  "addr1 s \<Longrightarrow> \<forall>x \<in> set s. graph_char x" "name1 s \<Longrightarrow> \<forall>x \<in> set s. graph_char x"
  by (auto simp: digits1_def decimal1_def addr1_def name1_def graph_classes)

lemma all_text:
  "digits1 s \<Longrightarrow> list_all text_char s" "decimal1 s \<Longrightarrow> list_all text_char s" "addr1 s \<Longrightarrow> list_all text_char s"
  "name1 s \<Longrightarrow> list_all text_char s" "message1 s \<Longrightarrow> list_all text_char s"
  using all_graph [of s] by (auto simp: message1_def text_char_def list_all_iff)

lemma last_message: "message1 s \<Longrightarrow> graph_char (last s) \<and> s \<noteq> []"
  by (simp add: message1_def)

lemma plain_print:
  assumes "printable_ping e"
  shows "plain_line (print_ping e)"
proof (cases e)
  case (OSummary tx rx dups errs loss ms)
  with assms have "digits1 (show_nonneg tx)" by simp
  from all_graph(1) [OF this] have "graph_char (hd (show_nonneg tx))" by simp
  with assms OSummary show ?thesis
    by (cases dups; cases errs) (simp_all add: plain_line_def all_text)
qed (use assms in \<open>simp_all add: plain_line_def all_text last_message\<close>)

lemma space_runes_not_graph: "list_all (\<lambda>w. \<not> graph_char (hd w)) (space_runes @ map rev space_runes)"
  by code_simp

lemma no_space_prefix:
  assumes "graph_char c" and "set ws \<subseteq> set (space_runes @ map rev space_runes)"
  shows "find (\<lambda>w. w \<noteq> [] \<and> has_prefix (c # s) w) ws = None"
proof -
  have "hd w = c" if "w \<noteq> []" "has_prefix (c # s) w" for w
    using that by (cases w) (auto simp: has_prefix_def)
  moreover have "\<forall>w \<in> set ws. \<not> graph_char (hd w)"
    using assms(2) space_runes_not_graph unfolding list_all_iff by blast
  ultimately show ?thesis using assms(1) unfolding find_None_iff by blast
qed

lemma trim_with_graph:
  "graph_char c \<Longrightarrow> set ws \<subseteq> set (space_runes @ map rev space_runes) \<Longrightarrow> trim_with ws (c # s) = c # s"
  using no_space_prefix [of c ws s] by (simp only: trim_with.simps [of ws "c # s"] option.case)

lemma TrimSpace_plain: "plain_line l \<Longrightarrow> TrimSpace l = l"
proof -
  assume l: "plain_line l"
  then obtain c s where c: "l = c # s" "graph_char c" by (cases l) (simp_all add: plain_line_def)
  then have "TrimLeftSpace l = l" by (simp add: TrimLeftSpace_def trim_with_graph)
  moreover have d: "rev l = last l # rev (butlast l)" "graph_char (last l)"
    using l arg_cong [OF append_butlast_last_id, of l rev] by (simp_all add: plain_line_def)
  have "trim_with (map rev space_runes) (rev l) = rev l"
    unfolding d(1) by (rule trim_with_graph [OF d(2)]) simp
  then have "TrimRightSpace l = l" by (simp add: TrimRightSpace_def)
  ultimately show ?thesis by (simp add: TrimSpace_def)
qed

lemma plain_line_no_nl: "plain_line l \<Longrightarrow> \<forall>x \<in> set l. \<not> is_nl x"
proof -
  have "\<not> graph_char (CHR 0x0A)" by (simp add: graph_char_def)
  moreover assume "plain_line l"
  ultimately show ?thesis unfolding plain_line_def is_nl_def text_char_def list_all_iff by fastforce
qed

lemma drop_cr_plain: "plain_line l \<Longrightarrow> drop_cr l = l"
proof -
  assume "plain_line l"
  then have "graph_char (last l)" by (simp add: plain_line_def)
  moreover have "\<not> graph_char (CHR 0x0D)" by (simp add: graph_char_def)
  ultimately have "last l \<noteq> CHR 0x0D" by metis
  then show ?thesis by (simp add: drop_cr_def)
qed

lemma scan_lines_plain:
  assumes "plain_line l" and "length l < maxScanTokenSize"
  shows "scan_lines (l @ CHR 0x0A # s) = l # scan_lines s"
proof -
  have "takeWhile (Not \<circ> is_nl) (l @ CHR 0x0A # s) = l"
    using plain_line_no_nl [OF assms(1)] by (subst takeWhile_append2) (simp_all add: is_nl_def)
  with assms(2) drop_cr_plain [OF assms(1)] show ?thesis
    by (simp add: scan_lines.simps [of "l @ CHR 0x0A # s"] Let_def)
qed

definition print_transcript :: "ping_out list \<Rightarrow> string" where
  "print_transcript es = concat (map (\<lambda>e. print_ping e @ [CHR 0x0A]) es)"

lemma ping_lines_printed:
  "\<forall>e \<in> set es. printable_ping e \<and> length (print_ping e) < maxScanTokenSize \<Longrightarrow>
     ping_lines (print_transcript es) = map print_ping es"
proof (induction es)
  case Nil
  then show ?case by (simp add: ping_lines_def print_transcript_def scan_lines.simps)
next
  case (Cons e es)
  then have e: "plain_line (print_ping e)" using plain_print by simp
  then have "print_ping e \<noteq> []" by (simp add: plain_line_def)
  with e Cons show ?case
    by (simp add: ping_lines_def print_transcript_def scan_lines_plain TrimSpace_plain)
qed

subsection \<open>Missing sequence numbers\<close>

definition run_seqs :: "SeqRun \<Rightarrow> int list" where
  "run_seqs r = [sr_FirstSeq r..sr_FirstSeq r + sr_Len r - 1]"

definition missing_inv :: "(int \<times> f64) list \<Rightarrow> int \<Rightarrow> run_state \<Rightarrow> bool" where
  "missing_inv f n st \<longleftrightarrow>
     (case st of (run, rs, longest) \<Rightarrow>
        concat (map run_seqs rs) @ (if sr_Len run = 0 then [] else run_seqs run) =
          filter (\<lambda>s. map_of f s = None) [1..n] \<and>
        (\<forall>r \<in> set rs. 0 < sr_Len r \<and> (sr_FirstSeq r = 1 \<or> map_of f (sr_FirstSeq r - 1) \<noteq> None) \<and>
           map_of f (sr_FirstSeq r + sr_Len r) \<noteq> None) \<and>
        longest = fold max (map sr_Len rs) 0 \<and>
        0 \<le> sr_Len run \<and> sr_Len run \<le> n \<and>
        (sr_Len run = 0 \<longrightarrow> n = 0 \<or> map_of f n \<noteq> None) \<and>
        (sr_Len run > 0 \<longrightarrow> sr_FirstSeq run + sr_Len run - 1 = n \<and>
           (sr_FirstSeq run = 1 \<or> map_of f (sr_FirstSeq run - 1) \<noteq> None)))"

lemma missing_inv_step:
  assumes "missing_inv f n st" and "0 \<le> n" and "n < maxInt"
  shows "missing_inv f (n + 1) (missing_step f (n + 1) st)"
proof -
  obtain run rs longest where st: "st = (run, rs, longest)" by (cases st)
  have up: "[1..n + 1] = [1..n] @ [n + 1]" using assms(2) by (simp add: upto_rec2)
  have add: "iadd (sr_Len run) 1 = sr_Len run + 1" if "0 \<le> sr_Len run" "sr_Len run \<le> n"
    using that assms(3) by (intro iadd_exact) (simp_all add: in_i64_def minInt_def maxInt_def)
  show ?thesis
  proof (cases "map_of f (n + 1) = None")
    case True
    have grow: "run_seqs \<lparr> sr_FirstSeq = sr_FirstSeq run, sr_Len = sr_Len run + 1 \<rparr> = run_seqs run @ [n + 1]"
      if "sr_Len run > 0" "sr_FirstSeq run + sr_Len run - 1 = n"
      using that by (simp add: run_seqs_def upto_rec2)
    with True assms(1) show ?thesis
      by (auto simp: st missing_inv_def missing_step_def up add run_seqs_def)
  next
    case False
    with assms(1) show ?thesis
      by (auto simp: st missing_inv_def missing_step_def flush_run_def up max.commute add.commute [of 1 "sr_Len run"] split: if_splits)
  qed
qed

lemma missing_inv_fold: "0 \<le> n \<Longrightarrow> n < maxInt \<Longrightarrow>
  missing_inv f n (fold (missing_step f) [1..n] (\<lparr> sr_FirstSeq = 0, sr_Len = 0 \<rparr>, [], 0))"
proof (induction n rule: int_ge_induct)
  case base
  then show ?case by (simp add: missing_inv_def)
next
  case (step n)
  then have "missing_inv f n (fold (missing_step f) [1..n] (\<lparr> sr_FirstSeq = 0, sr_Len = 0 \<rparr>, [], 0))" by simp
  from missing_inv_step [OF this] step show ?case by (simp add: upto_rec2)
qed

lemma missing_runs_spec:
  assumes "0 \<le> n" and "n < maxInt"
  shows "\<exists>rs longest. missing_runs f n = Some (rs, longest) \<and>
    concat (map run_seqs rs) = filter (\<lambda>s. map_of f s = None) [1..n] \<and>
    (\<forall>r \<in> set rs. 0 < sr_Len r \<and> (sr_FirstSeq r = 1 \<or> map_of f (sr_FirstSeq r - 1) \<noteq> None) \<and>
      (sr_FirstSeq r + sr_Len r = n + 1 \<or> map_of f (sr_FirstSeq r + sr_Len r) \<noteq> None)) \<and>
    longest = fold max (map sr_Len rs) 0"
proof -
  define st where "st = fold (missing_step f) [1..n] (\<lparr> sr_FirstSeq = 0, sr_Len = 0 \<rparr>, [], 0)"
  obtain run rs longest where run: "st = (run, rs, longest)" by (cases st)
  have "missing_inv f n (run, rs, longest)" using missing_inv_fold [OF assms, of f] run st_def by simp
  moreover have "missing_runs f n = Some (snd (flush_run (run, rs, longest)))"
    using assms(2) run by (simp add: missing_runs_def st_def)
  ultimately show ?thesis
    by (auto simp: missing_inv_def flush_run_def max.commute split: if_splits)
qed

lemma missing_runs_negative: "n \<le> 0 \<Longrightarrow> missing_runs f n = Some ([], 0)"
  by (simp add: missing_runs_def flush_run_def maxInt_def)

subsection \<open>Percentiles\<close>

lemma nearest_rank_index:
  assumes "0 < p" "p \<le> 100" "vs \<noteq> []" "100 * int (length vs) + 99 \<le> maxInt"
  shows "\<exists>k < length vs. nearestRank vs p = vs ! k \<and>
    p * int (length vs) \<le> 100 * int (Suc k) \<and> 100 * int k < p * int (length vs)"
proof -
  define n where "n = int (length vs)"
  define rank where "rank = (p * n + 99) div 100"
  have n: "1 \<le> n" using assms(3) by (cases vs) (simp_all add: n_def)
  have pn: "1 \<le> p * n" "p * n \<le> 100 * n"
    using assms(1,2) n by (simp_all add: mult_le_cancel_right int_one_le_iff_zero_less)
  have "in_i64 (p * n)" "in_i64 (p * n + 99)"
    using pn assms(4) n by (auto simp: in_i64_def minInt_def n_def)
  then have "iadd (imul p n) 99 = p * n + 99" by (simp add: iadd_exact imul_def wrap64_id)
  then have "idiv (iadd (imul p n) 99) 100 = rank" using pn by (simp add: idiv_def rank_def)
  moreover obtain r where "p * n + 99 = 100 * rank + r" "0 \<le> r" "r < 100"
    using that [of "(p * n + 99) mod 100"] by (simp add: rank_def)
  then have r: "1 \<le> rank" "p * n \<le> 100 * rank" "100 * rank < p * n + 100" "rank \<le> n"
    using pn by linarith+
  ultimately have "nearestRank vs p = vs ! nat (rank - 1)"
    by (simp add: nearestRank_def n_def)
  with r show ?thesis
    by (intro exI [of _ "nat (rank - 1)"]) (auto simp: n_def)
qed

lemma sorted_rank:
  fixes vs :: "'a::linorder list"
  assumes "sorted vs" "k < length vs"
  shows "Suc k \<le> length (filter (\<lambda>x. x \<le> vs ! k) vs)" "length (filter (\<lambda>x. x < vs ! k) vs) \<le> k"
proof -
  have split: "vs = take (Suc k) vs @ drop (Suc k) vs" "vs = take k vs @ drop k vs" by simp_all
  have "\<forall>x \<in> set (take (Suc k) vs). x \<le> vs ! k"
    using assms by (auto simp: in_set_conv_nth sorted_iff_nth_mono)
  then have "filter (\<lambda>x. x \<le> vs ! k) (take (Suc k) vs) = take (Suc k) vs" by simp
  then have "length (filter (\<lambda>x. x \<le> vs ! k) vs) \<ge> length (take (Suc k) vs)"
    by (metis filter_append le_add1 length_append split(1))
  with assms(2) show "Suc k \<le> length (filter (\<lambda>x. x \<le> vs ! k) vs)" by simp
  have "\<forall>x \<in> set (drop k vs). \<not> x < vs ! k"
    using assms by (auto simp: in_set_conv_nth sorted_iff_nth_mono not_less)
  then have "filter (\<lambda>x. x < vs ! k) (drop k vs) = []" by simp
  then have "length (filter (\<lambda>x. x < vs ! k) vs) = length (filter (\<lambda>x. x < vs ! k) (take k vs))"
    by (metis append_Nil2 filter_append split(2))
  also have "\<dots> \<le> k" by (metis length_filter_le length_take min.cobounded2 order.trans)
  finally show "length (filter (\<lambda>x. x < vs ! k) vs) \<le> k" .
qed

text \<open>
  The percentile the parser reports for the RTTs of the first replies is a percentile: it is
  one of the values, at least \<open>p\<close> percent of the values are at most it, and fewer than \<open>p\<close> percent
  are below it.
\<close>

theorem reported_percentile:
  assumes "firstRTT \<noteq> []" and "100 * int (length firstRTT) + 99 \<le> maxInt"
    and "(p, v) \<in> set (ping_percentiles firstRTT)"
  shows "v \<in> set (map snd firstRTT) \<and>
    p * int (length firstRTT) \<le> 100 * int (length (filter (\<lambda>(seq, rtt). rtt \<le> v) firstRTT)) \<and>
    100 * int (length (filter (\<lambda>(seq, rtt). rtt < v) firstRTT)) < p * int (length firstRTT)"
proof -
  define vs where "vs = sort (map snd firstRTT)"
  from assms(3) have p: "0 < p" "p \<le> 100" and v: "v = nearestRank vs p"
    by (auto simp: ping_percentiles_def vs_def)
  have len: "length vs = length firstRTT" by (simp add: vs_def)
  with assms(1) have "vs \<noteq> []" by auto
  from nearest_rank_index [OF p \<open>vs \<noteq> []\<close>] assms(2) len v obtain k where k: "k < length vs" "v = vs ! k"
    "p * int (length vs) \<le> 100 * int (Suc k)" "100 * int k < p * int (length vs)" by auto
  have "sorted vs" by (simp add: vs_def)
  note sorted_rank [OF this k(1)]
  moreover have "length (filter P vs) = length (filter (\<lambda>(seq, rtt). P rtt) firstRTT)" for P
  proof -
    have "mset (filter P vs) = mset (filter P (map snd firstRTT))" by (simp add: vs_def)
    then have "length (filter P vs) = length (filter P (map snd firstRTT))" by (rule mset_eq_length)
    also have "\<dots> = length (filter (\<lambda>(seq, rtt). P rtt) firstRTT)"
      by (simp add: filter_map comp_def case_prod_unfold)
    finally show ?thesis .
  qed
  moreover have "v \<in> set (map snd firstRTT)" using k nth_mem [OF k(1)] by (simp add: vs_def)
  ultimately show ?thesis using k len by (auto simp: case_prod_unfold)
qed

subsection \<open>What a parsed run reports\<close>

abbreviation ping_events :: "string \<Rightarrow> ping_line list" where
  "ping_events stdout \<equiv> map classify_ping_line (ping_lines stdout)"

lemma first_replies:
  "map_of (pa_firstRTT (fold output_step es a)) seq \<noteq> None \<longleftrightarrow>
     map_of (pa_firstRTT a) seq \<noteq> None \<or> (\<exists>ts rtt. PReply ts seq rtt False \<in> set es)"
proof (induction es arbitrary: a)
  case (Cons e es)
  have "map_of (pa_firstRTT (output_step e a)) seq \<noteq> None \<longleftrightarrow>
      map_of (pa_firstRTT a) seq \<noteq> None \<or> (\<exists>ts rtt. e = PReply ts seq rtt False)"
    by (cases e) (auto simp: Let_def map_of_append map_add_def split: option.splits)
  with Cons.IH [of "output_step e a"] show ?case by auto
qed simp

lemma summary_found_iff:
  "pa_summaryFound (fold output_step es a) \<longleftrightarrow> pa_summaryFound a \<or> (\<exists>tx rx d l. PSummary tx rx d l \<in> set es)"
proof (induction es arbitrary: a)
  case (Cons e es)
  have "pa_summaryFound (output_step e a) \<longleftrightarrow> pa_summaryFound a \<or> (\<exists>tx rx d l. e = PSummary tx rx d l)"
    by (cases e) (auto simp: Let_def)
  with Cons.IH [of "output_step e a"] show ?case by auto
qed simp

lemma transmitted_from_summary:
  "pg_Transmitted (pa_res (fold output_step es a)) = pg_Transmitted (pa_res a) \<or>
     (\<exists>rx d l. PSummary (pg_Transmitted (pa_res (fold output_step es a))) rx d l \<in> set es)"
proof (induction es arbitrary: a)
  case (Cons e es)
  have "pg_Transmitted (pa_res (output_step e a)) = pg_Transmitted (pa_res a) \<or>
      (\<exists>rx d l. e = PSummary (pg_Transmitted (pa_res (output_step e a))) rx d l)"
    by (cases e) (auto simp: Let_def)
  with Cons.IH [of "output_step e a"] show ?case by simp metis
qed simp

lemma finish_ping_fields:
  "finish_ping a = Some res \<Longrightarrow>
     missing_runs (pa_firstRTT a) (pg_Transmitted (pa_res a)) = Some (pg_MissingSeqRuns res, pg_LongestMissingRunLen res) \<and>
     pg_Transmitted res = pg_Transmitted (pa_res a)"
  by (cases "pa_firstRTT a = []"; cases "pg_Duplicates (pa_res a) < pa_summaryDups a")
     (auto simp: finish_ping_def Let_def split: option.splits)

lemma finish_ping_returns: "pg_Transmitted (pa_res a) \<noteq> maxInt \<Longrightarrow> \<exists>res. finish_ping a = Some res"
  by (cases "pa_firstRTT a = []"; cases "pg_Duplicates (pa_res a) < pa_summaryDups a")
     (auto simp: finish_ping_def missing_runs_def Let_def case_prod_beta)

lemma ParsePing_ok:
  "ParsePing stdout stderr code = Some (res, None) \<Longrightarrow> finish_ping (ping_scan stdout code) = Some res"
  by (auto simp: ParsePing_def Let_def split: if_splits)

lemma init_fields:
  "pa_firstRTT (ping_init code) = []" "\<not> pa_summaryFound (ping_init code)"
  "pg_Transmitted (pa_res (ping_init code)) = 0"
  by (simp_all add: ping_init_def zero_ping_def)

lemma zero_le_maxInt: "0 \<le> maxInt"
  by (simp add: maxInt_def)

lemma int_of_le: "int_of s \<le> maxInt"
proof -
  have "fst (atoi_digits neg ds) \<le> maxInt" for neg ds
    using parse_digits_bounds [of ds]
    by (auto simp: atoi_digits_def minInt_def maxInt_def Let_def list_all_iff)
  then show ?thesis by (auto simp: int_of_def Atoi_def maxInt_def split: list.split)
qed

lemma classified_transmitted: "classify_ping_line l = PSummary tx rx d lo \<Longrightarrow> tx \<le> maxInt"
  by (auto simp: classify_ping_line_def try_re_def ping_reply_def ping_summary_def ping_rtt_def int_of_le
      split: option.splits)

lemma scan_transmitted_le: "pg_Transmitted (pa_res (ping_scan stdout code)) \<le> maxInt"
proof -
  have "\<exists>l \<in> set (ping_lines stdout). classify_ping_line l = PSummary tx rx d lo"
    if "PSummary tx rx d lo \<in> set (ping_events stdout)" for tx rx d lo using that by auto
  with transmitted_from_summary [of "ping_events stdout" "ping_init code"] classified_transmitted
  show ?thesis unfolding ping_scan_def init_fields by (metis zero_le_maxInt)
qed


definition demo_outs :: "ping_out list" where
  "demo_outs = [OReply ''1'' ''5'' ''64'' ''10.0.0.2'' 2 ''64'' ''0.5'' False, OSummary 3 1 None None ''66'' ''1'']"

definition demo_missing :: string where
  "demo_missing = print_transcript demo_outs"

lemma demo_outs_printable: "\<forall>e \<in> set demo_outs. printable_ping e \<and> length (print_ping e) < maxScanTokenSize"
proof -
  have "list_all printable_ping demo_outs"
    by (simp add: demo_outs_def digits1_def decimal1_def addr1_def count64_def maxInt_def is_digit_def
        digit_or_dot_def addr_char_def)
  moreover have "list_all (\<lambda>e. length (print_ping e) < maxScanTokenSize) demo_outs"
    by (simp add: demo_outs_def maxScanTokenSize_def show_nonneg_small)
  ultimately show ?thesis by (simp add: list_all_iff)
qed


text \<open>
  In a successfully parsed run the reported runs of missing sequence numbers list, in order,
  exactly the numbers from 1 to the transmitted count that no reply line answers (a line marked
  \<open>DUP!\<close> does not count); every run is as long as it can be, and the reported longest length is
  the length of the longest run.
\<close>

theorem missing_sequence_numbers:
  assumes "ParsePing stdout stderr code = Some (res, None)"
  shows "concat (map run_seqs (pg_MissingSeqRuns res)) =
      filter (\<lambda>seq. \<not> (\<exists>ts rtt. PReply ts seq rtt False \<in> set (ping_events stdout))) [1..pg_Transmitted res] \<and>
    (\<forall>r \<in> set (pg_MissingSeqRuns res). 0 < sr_Len r \<and>
      (sr_FirstSeq r = 1 \<or> (\<exists>ts rtt. PReply ts (sr_FirstSeq r - 1) rtt False \<in> set (ping_events stdout))) \<and>
      (sr_FirstSeq r + sr_Len r = pg_Transmitted res + 1 \<or>
       (\<exists>ts rtt. PReply ts (sr_FirstSeq r + sr_Len r) rtt False \<in> set (ping_events stdout)))) \<and>
    pg_LongestMissingRunLen res = fold max (map sr_Len (pg_MissingSeqRuns res)) 0"
proof -
  define f where "f = pa_firstRTT (ping_scan stdout code)"
  have f: "map_of f seq = None \<longleftrightarrow> \<not> (\<exists>ts rtt. PReply ts seq rtt False \<in> set (ping_events stdout))" for seq
    using first_replies [of "ping_events stdout" "ping_init code" seq]
    by (auto simp: f_def ping_scan_def init_fields simp del: set_map)
  from finish_ping_fields [OF ParsePing_ok [OF assms]]
  have run: "missing_runs f (pg_Transmitted res) = Some (pg_MissingSeqRuns res, pg_LongestMissingRunLen res)"
    by (simp add: f_def)
  have "pg_Transmitted res \<le> maxInt" "pg_Transmitted res \<noteq> maxInt"
    using finish_ping_fields [OF ParsePing_ok [OF assms]] scan_transmitted_le [of stdout code] run
    by (auto simp: missing_runs_def)
  show ?thesis
  proof (cases "0 \<le> pg_Transmitted res")
    case True
    with missing_runs_spec [of "pg_Transmitted res" f] run \<open>pg_Transmitted res \<le> maxInt\<close> \<open>pg_Transmitted res \<noteq> maxInt\<close>
    show ?thesis by (simp add: f)
  next
    case False
    with run show ?thesis by (simp add: missing_runs_negative)
  qed
qed

lemma demo_missing_events:
  "ping_events demo_missing = [PReply (Fin (3 / 2)) 2 (Fin (1 / 2)) False, PSummary 3 1 None (Fin 66)]"
proof -
  have "ping_events demo_missing = map ping_event demo_outs"
    using demo_outs_printable
    by (simp add: demo_missing_def ping_lines_printed comp_def classify_print cong: map_cong)
  also have "\<dots> = [PReply (Fin (3 / 2)) 2 (Fin (1 / 2)) False, PSummary 3 1 None (Fin 66)]" by code_simp
  finally show ?thesis .
qed

lemma demo_missing_scan:
  "ping_scan demo_missing 1 =
     fold output_step [PReply (Fin (3 / 2)) 2 (Fin (1 / 2)) False, PSummary 3 1 None (Fin 66)] (ping_init 1)"
  by (simp only: ping_scan_def demo_missing_events)

text \<open>
  \<open>ParsePing\<close> returns unless the summary claims as many transmissions as the largest integer,
  and it never invents a measurement: it succeeds only when ping did not refuse its arguments
  (exit code 2) and printed a summary or a reply; on every failure the result carries only the
  exit code.
\<close>

theorem ping_result_or_error:
  assumes "\<forall>rx d l. PSummary maxInt rx d l \<notin> set (ping_events stdout)"
  shows "\<exists>res err. ParsePing stdout stderr code = Some (res, err) \<and>
    (err = None \<longrightarrow> code \<noteq> 2 \<and>
       ((\<exists>tx rx d l. PSummary tx rx d l \<in> set (ping_events stdout)) \<or>
        (\<exists>ts seq rtt. PReply ts seq rtt False \<in> set (ping_events stdout)))) \<and>
    (err \<noteq> None \<longrightarrow> res = zero_ping\<lparr> pg_ExitCode := code \<rparr>)"
proof -
  define a where "a = ping_scan stdout code"
  have "pg_Transmitted (pa_res a) \<noteq> maxInt"
    using transmitted_from_summary [of "ping_events stdout" "ping_init code"] assms
    by (auto simp: a_def ping_scan_def init_fields maxInt_def simp del: set_map)
  then obtain res where res: "finish_ping a = Some res"
    using finish_ping_returns by blast
  have found: "pa_summaryFound a \<longleftrightarrow> (\<exists>tx rx d l. PSummary tx rx d l \<in> set (ping_events stdout))"
    unfolding a_def ping_scan_def summary_found_iff by (simp add: init_fields)
  have "(\<exists>ts seq rtt. PReply ts seq rtt False \<in> set (ping_events stdout))" if "pa_firstRTT a \<noteq> []"
  proof -
    from that obtain seq rtt r where "pa_firstRTT a = (seq, rtt) # r" by (cases "pa_firstRTT a") auto
    then have "map_of (pa_firstRTT a) seq \<noteq> None" by simp
    then show ?thesis
      unfolding a_def ping_scan_def first_replies by (auto simp: init_fields)
  qed
  with res found show ?thesis
    by (auto simp: ParsePing_def Let_def a_def [symmetric])
qed

theorem reported_percentile_witness:
  "(50, Fin 2) \<in> set (ping_percentiles [(1, Fin 3), (2, Fin 1), (3, Fin 2)]) \<and>
   50 * 3 \<le> 100 * int (length (filter (\<lambda>(seq, rtt). rtt \<le> Fin 2) [(1::int, Fin 3), (2, Fin 1), (3, Fin 2)]))"
proof -
  have "(50, Fin 2) \<in> set (ping_percentiles [(1, Fin 3), (2, Fin 1), (3, Fin 2)])" by code_simp
  with reported_percentile [of "[(1, Fin 3), (2, Fin 1), (3, Fin 2)]" 50 "Fin 2"] show ?thesis
    by (simp add: maxInt_def)
qed

end
