(* ===== verification/EthtoolParser.thy ===== *)
theory EthtoolParser
  imports PingParser "HOL-Library.AList"
begin

section \<open>The ethtool parsers\<close>

text \<open>
  Models \<open>src/internal/parser/ethtool.go\<close> (link settings and driver statistics) and
  \<open>src/internal/parser/cabletest.go\<close> (cable test and time-domain reflectometry). The settings
  parser is a fold of \<open>settings_line\<close> over the scanned lines; its two pointers, the list being
  filled and the last simple key, are the components \<open>est_list\<close> and \<open>est_lastKey\<close> of the state.
\<close>

subsection \<open>Link settings\<close>

datatype mode_field = SupportedModes | AdvertisedModes | PartnerModes

definition zero_settings :: LinkSettings where
  "zero_settings = \<lparr> ls_SpeedMbps = - 1, ls_Duplex = ''unknown'', ls_LinkDetected = False, ls_AutoNeg = ''unknown'',
     ls_Port = '''', ls_SupportedPorts = [], ls_SupportedModes = [], ls_AdvertisedModes = [], ls_PartnerModes = [],
     ls_MDIX = '''', ls_Raw = [] \<rparr>"

record settings_state =
  est_ls :: LinkSettings
  est_list :: "mode_field option"
  est_lastKey :: string

definition speedRe :: re where
  "speedRe = rseq [RGroup 1 (RPlus is_digit), RLit ''Mb/s'', REnd]"

text \<open>The keys of \<open>linkModeListKeys\<close> with the field \<open>modeListField\<close> returns for them.\<close>

definition modeListField :: "string \<Rightarrow> mode_field option" where
  "modeListField key =
     (if key = ''Supported link modes'' then Some SupportedModes
      else if key = ''Advertised link modes'' then Some AdvertisedModes
      else if key = ''Link partner advertised link modes'' then Some PartnerModes
      else None)"

fun append_modes :: "mode_field \<Rightarrow> string list \<Rightarrow> LinkSettings \<Rightarrow> LinkSettings" where
  "append_modes SupportedModes ms ls = ls\<lparr> ls_SupportedModes := ls_SupportedModes ls @ ms \<rparr>"
| "append_modes AdvertisedModes ms ls = ls\<lparr> ls_AdvertisedModes := ls_AdvertisedModes ls @ ms \<rparr>"
| "append_modes PartnerModes ms ls = ls\<lparr> ls_PartnerModes := ls_PartnerModes ls @ ms \<rparr>"

definition TrimPrefix :: "string \<Rightarrow> string \<Rightarrow> string" where
  "TrimPrefix s p = (if has_prefix s p then drop (length p) s else s)"

definition TrimSuffix :: "string \<Rightarrow> string \<Rightarrow> string" where
  "TrimSuffix s p = rev (TrimPrefix (rev s) (rev p))"

definition speed_value :: "int \<Rightarrow> string \<Rightarrow> int" where
  "speed_value old value =
     (case FindAnchored speedRe value of
        Some m \<Rightarrow> (case Atoi (grp 1 m) of (v, ok) \<Rightarrow> if ok then v else old)
      | None \<Rightarrow> - 1)"

definition simple_key :: "string \<Rightarrow> string \<Rightarrow> LinkSettings \<Rightarrow> LinkSettings" where
  "simple_key key value ls =
     (if key = ''Speed'' then ls\<lparr> ls_SpeedMbps := speed_value (ls_SpeedMbps ls) value \<rparr>
      else if key = ''Duplex'' then
        ls\<lparr> ls_Duplex := (if has_prefix value ''Full'' then ''full'' else if has_prefix value ''Half'' then ''half'' else ''unknown'') \<rparr>
      else if key = ''Auto-negotiation'' then
        ls\<lparr> ls_AutoNeg := (if value \<in> {''on'', ''off''} then value else ''unknown'') \<rparr>
      else if key = ''Port'' then ls\<lparr> ls_Port := value \<rparr>
      else if key = ''MDI-X'' then ls\<lparr> ls_MDIX := value \<rparr>
      else if key = ''Link detected'' then ls\<lparr> ls_LinkDetected := (value = ''yes'') \<rparr>
      else if key = ''Supported ports'' then
        ls\<lparr> ls_SupportedPorts := ls_SupportedPorts ls @ Fields (TrimSuffix (TrimPrefix value ''['') '']'') \<rparr>
      else ls)"

definition raw_get :: "string \<Rightarrow> string gomap \<Rightarrow> string" where
  "raw_get k m = (case map_of m k of Some v \<Rightarrow> v | None \<Rightarrow> '''')"

definition continuation_line :: "string \<Rightarrow> settings_state \<Rightarrow> settings_state" where
  "continuation_line trimmed st =
     (case est_list st of
        Some f \<Rightarrow> st\<lparr> est_ls := append_modes f (Fields trimmed) (est_ls st) \<rparr>
      | None \<Rightarrow>
          if est_lastKey st \<noteq> '''' then
            let k = est_lastKey st; prev = raw_get k (ls_Raw (est_ls st));
                v = (if prev \<noteq> '''' then prev @ '' '' @ trimmed else trimmed)
            in st\<lparr> est_ls := (est_ls st)\<lparr> ls_Raw := AList.update k v (ls_Raw (est_ls st)) \<rparr> \<rparr>
          else st)"

definition key_line :: "string \<Rightarrow> string \<Rightarrow> settings_state \<Rightarrow> settings_state" where
  "key_line key value st =
     (let st = st\<lparr> est_list := None, est_lastKey := '''' \<rparr>
      in case modeListField key of
           Some f \<Rightarrow>
             if value \<noteq> ''Not reported''
             then st\<lparr> est_ls := append_modes f (Fields value) (est_ls st), est_list := Some f \<rparr>
             else st
         | None \<Rightarrow>
             let ls = (est_ls st)\<lparr> ls_Raw := AList.update key value (ls_Raw (est_ls st)) \<rparr>
             in st\<lparr> est_lastKey := key, est_ls := simple_key key value ls \<rparr>)"

definition settings_line :: "string \<Rightarrow> settings_state \<Rightarrow> settings_state" where
  "settings_line text st =
     (let line = TrimRight [CHR '' '', CHR 0x09, CHR 0x0D] text; trimmed = TrimSpace line
      in if trimmed = '''' then st
         else if CHR '':'' \<notin> set trimmed then continuation_line trimmed st
         else let key = takeWhile (\<lambda>c. c \<noteq> CHR '':'') trimmed
              in key_line (TrimSpace key) (TrimSpace (drop (Suc (length key)) trimmed)) st)"

definition ParseEthtoolSettings :: "string \<Rightarrow> LinkSettings" where
  "ParseEthtoolSettings out =
     est_ls (fold settings_line (scan_lines out) \<lparr> est_ls = zero_settings, est_list = None, est_lastKey = '''' \<rparr>)"

subsection \<open>Driver statistics\<close>

definition stat_char :: "char \<Rightarrow> bool" where
  "stat_char c \<longleftrightarrow>
     (let n = (of_char c :: nat)
      in (65 \<le> n \<and> n \<le> 90) \<or> (97 \<le> n \<and> n \<le> 122) \<or> (48 \<le> n \<and> n \<le> 57)) \<or> c \<in> set ''_[]. -''"

definition statLineRe :: re where
  "statLineRe = rseq
     [RMany re_space, RGroup 1 (RLazy stat_char), RLit '':'', RPlus re_space, RGroup 2 (RPlus is_digit),
      RMany re_space, REnd]"

definition stat_line :: "string \<Rightarrow> u64 gomap \<Rightarrow> u64 gomap" where
  "stat_line line stats =
     (case FindAnchored statLineRe line of
        None \<Rightarrow> stats
      | Some m \<Rightarrow>
          (case ParseUint (grp 2 m) of
             None \<Rightarrow> stats
           | Some v \<Rightarrow> AList.update (TrimSpace (grp 1 m)) v stats))"

definition ParseEthtoolStats :: "string \<Rightarrow> u64 gomap" where
  "ParseEthtoolStats out = fold stat_line (scan_lines out) []"

subsection \<open>Cable test\<close>

definition pair_letter :: "char \<Rightarrow> bool" where
  "pair_letter c \<longleftrightarrow> c \<in> set ''ABCD''"

definition cablePairCodeRE :: re where
  "cablePairCodeRE = rseq [RLit ''Pair '', RGroup 1 (RSet pair_letter), RLit '' code '', RGroup 2 (RPlus any_char), REnd]"

definition cableFaultRE :: re where
  "cableFaultRE = rseq
     [RLit ''Pair '', RGroup 1 (RSet pair_letter), RLit '', fault length: '', RGroup 2 (RPlus digit_or_dot), RLit ''m'', REnd]"

definition tdrPairRE :: re where
  "tdrPairRE = rseq [RLit ''Pair '', RGroup 1 (RSet pair_letter)]"

definition tdr_sep :: "char \<Rightarrow> bool" where
  "tdr_sep c \<longleftrightarrow> c \<in> set '':,'' \<or> re_space c"

definition tdrDistanceRE :: re where
  "tdrDistanceRE = rseq
     [fold_lit ''distance'', RPlus tdr_sep, RGroup 1 (RPlus digit_or_dot), RMany re_space,
      RGroup 2 (RAlt (fold_lit ''cm'') (fold_lit ''m'')), RWordB]"

definition tdrAmplitudeRE :: re where
  "tdrAmplitudeRE = rseq
     [fold_lit ''amplitude'', RPlus tdr_sep, RGroup 1 (rseq [ROpt (RLit ''-''), RPlus is_digit]), RWordB]"

definition oldEthtoolCableOutput :: "string \<Rightarrow> string \<Rightarrow> bool" where
  "oldEthtoolCableOutput stdout stderr \<longleftrightarrow>
     (let combined = stderr @ stdout
      in contains combined ''bad command line argument'' \<or> contains combined ''Usage: ethtool'')"

definition cablePairStatus :: "string \<Rightarrow> PairStatus" where
  "cablePairStatus code =
     (if code = ''OK'' then PairOK
      else if code = ''Open Circuit'' then PairOpen
      else if code = ''Short within Pair'' then PairShortIntra
      else if code = ''Short to another pair'' then PairShortInter
      else if code = ''Impedance mismatch'' then PairImpedance
      else PairUnspecified)"

definition zero_cable :: CableTestResult where
  "zero_cable = \<lparr> ct_Available = False, ct_UnavailableReason = '''', ct_Pairs = [], ct_Samples = [],
     ct_TDRUnavailableReason = '''', ct_SelfInflictedCarrierEvents = \<lparr> pce_PC1 = 0, pce_PC2 = 0 \<rparr>, ct_UnparsedLines = 0 \<rparr>"

definition unavailableCableTest :: "string \<Rightarrow> string \<Rightarrow> CableTestResult" where
  "unavailableCableTest stdout stderr =
     (let combined = stderr @ stdout
      in zero_cable\<lparr> ct_UnavailableReason :=
           (if contains combined ''Operation not supported'' then ''driver does not support cable test''
            else if contains combined ''Operation not permitted'' then ''requires root''
            else if contains combined ''bad command line argument'' \<or> contains combined ''Usage: ethtool''
            then ''ethtool too old''
            else ''cable test failed'') \<rparr>)"

text \<open>The result so far and \<open>byPair\<close>, the index of the latest entry of each pair.\<close>

definition cable_line :: "string \<Rightarrow> CableTestResult \<times> (string \<times> nat) list \<Rightarrow> CableTestResult \<times> (string \<times> nat) list" where
  "cable_line line st =
     (case st of (res, byPair) \<Rightarrow>
        (case FindAnchored cablePairCodeRE line of
           Some m \<Rightarrow>
             let pair = \<lparr> cp_Pair = grp 1 m, cp_Status = cablePairStatus (grp 2 m), cp_RawCode = grp 2 m,
                   cp_FaultMeters = Fin 0, cp_HasFault = (grp 2 m \<noteq> ''OK'') \<rparr>
             in (res\<lparr> ct_Pairs := ct_Pairs res @ [pair] \<rparr>, (cp_Pair pair, length (ct_Pairs res)) # byPair)
         | None \<Rightarrow>
             (case FindAnchored cableFaultRE line of
                None \<Rightarrow> st
              | Some m \<Rightarrow>
                  (case ParseFloat (grp 2 m) of (distance, ok) \<Rightarrow>
                     if \<not> ok then st
                     else case map_of byPair (grp 1 m) of
                            None \<Rightarrow> st
                          | Some i \<Rightarrow>
                              (res\<lparr> ct_Pairs := (ct_Pairs res)[i := (ct_Pairs res ! i)\<lparr> cp_FaultMeters := distance, cp_HasFault := True \<rparr>] \<rparr>,
                               byPair)))))"

definition ParseCableTest :: "string \<Rightarrow> string \<Rightarrow> int \<Rightarrow> CableTestResult" where
  "ParseCableTest stdout stderr exitCode =
     (if exitCode \<noteq> 0 \<or> oldEthtoolCableOutput stdout stderr then unavailableCableTest stdout stderr
      else fst (fold cable_line (map TrimSpace (scan_lines stdout)) (zero_cable\<lparr> ct_Available := True \<rparr>, [])))"

definition tdr_line :: "string \<Rightarrow> CableTestResult \<Rightarrow> CableTestResult" where
  "tdr_line line res =
     (if line = '''' \<or> has_prefix line ''Cable test TDR data for device '' then res
      else let unparsed = res\<lparr> ct_UnparsedLines := iadd (ct_UnparsedLines res) 1 \<rparr>
           in case (FindAnywhere tdrPairRE line, FindAnywhere tdrDistanceRE line, FindAnywhere tdrAmplitudeRE line) of
                (Some pair, Some distance, Some amplitude) \<Rightarrow>
                  (case (ParseFloat (grp 1 distance), Atoi (grp 1 amplitude)) of
                     ((distanceM, True), (amp, True)) \<Rightarrow>
                       res\<lparr> ct_Samples := ct_Samples res @
                         [\<lparr> td_Pair = grp 1 pair,
                            td_DistanceM = (if equal_fold (grp 2 distance) ''cm'' then fdiv distanceM (Fin 100) else distanceM),
                            td_Amplitude = amp \<rparr>] \<rparr>
                   | _ \<Rightarrow> unparsed)
              | _ \<Rightarrow> unparsed)"

definition ParseCableTestTDR :: "string \<Rightarrow> string \<Rightarrow> int \<Rightarrow> CableTestResult" where
  "ParseCableTestTDR stdout stderr exitCode =
     (if exitCode \<noteq> 0 \<or> oldEthtoolCableOutput stdout stderr then unavailableCableTest stdout stderr
      else fold tdr_line (map TrimSpace (scan_lines stdout)) (zero_cable\<lparr> ct_Available := True \<rparr>))"

subsection \<open>Statistics read back\<close>

lemma greedy_first:
  "\<forall>x \<in> set u. p x \<Longrightarrow> stops p t \<Longrightarrow> \<exists>rest. greedy p pre (u @ t) = (rev u @ pre, t) # rest"
proof (induction u arbitrary: pre)
  case Nil
  then show ?case by (cases t) (auto simp: stops_def)
next
  case (Cons x u)
  from Cons.IH [of "x # pre"] Cons.prems show ?case by fastforce
qed

text \<open>The preferred match goes on from the longest run, if that succeeds.\<close>

lemma FindAnchored_RMany:
  assumes "\<forall>x \<in> set u. p x" and "stops p t" and "then_match r (\<lambda>st. [st]) (rev u, t, []) = (a, b, c) # rest"
  shows "FindAnchored (RSeq (RMany p) r) (u @ t) = Some c"
proof -
  obtain others where "greedy p [] (u @ t) = (rev u, t) # others"
    using greedy_first [OF assms(1,2), of "[]"] by auto
  then have "rmatch (RSeq (RMany p) r) ([], u @ t, []) =
      rmatch r (rev u, t, []) @ concat (map (rmatch r) (map (\<lambda>(a, b). (a, b, [])) others))"
    by (simp add: comp_def)
  with assms(3) show ?thesis
    by (simp add: FindAnchored_def submatch_at_def then_match_def)
qed

lemma then_match_RLazy:
  assumes "u \<noteq> []" and "\<forall>x \<in> set u. p x" and "stops p t" and "refuses p K"
  shows "then_match (RLazy p) K (pre, u @ t, c) = K (rev u @ pre, t, c)"
proof -
  have rev: "concat (map K (map (\<lambda>(a, b). (a, b, c)) (rev (greedy p pre (v @ t))))) = K (rev v @ pre, t, c)"
    if "\<forall>x \<in> set v. p x" for v pre
    using that
  proof (induction v arbitrary: pre)
    case Nil
    with assms(3) show ?case by (cases t) (auto simp: stops_def)
  next
    case (Cons x v)
    then have "K (pre, x # v @ t, c) = []" using assms(4) by (simp add: refuses_def)
    with Cons.IH [of "x # pre"] Cons.prems show ?case by simp
  qed
  obtain x v where u: "u = x # v" using assms(1) by (cases u) auto
  with assms(2) have "p x" "\<forall>x \<in> set v. p x" by auto
  with rev [of v "x # pre"] u show ?thesis by (simp add: then_match_def)
qed

definition print_stat :: "string \<times> u64 \<Rightarrow> string" where
  "print_stat kv = ''     '' @ (fst kv @ ('': '' @ show_u64 (snd kv)))"

definition print_stats :: "(string \<times> u64) list \<Rightarrow> string" where
  "print_stats kvs = ''NIC statistics:'' @ CHR 0x0A # concat (map (\<lambda>kv. print_stat kv @ [CHR 0x0A]) kvs)"

definition stat_name :: "string \<Rightarrow> bool" where
  "stat_name k \<longleftrightarrow> k \<noteq> [] \<and> (\<forall>x \<in> set k. stat_char x) \<and> graph_char (hd k) \<and> graph_char (last k)"

lemma stat_char_simps [simp]: "\<not> stat_char (CHR '':'')"
  by (simp add: stat_char_def)

lemma re_space_simps [simp]: "re_space (CHR '' '')" "\<not> re_space (CHR '':'')"
  by (simp_all add: re_space_def)

lemma re_space_disjoint: "graph_char x \<Longrightarrow> \<not> re_space x"
  by (auto simp: graph_char_def re_space_def)

lemma show_u64_digits: "digits1 (show_u64 v)"
  using show_nonneg_digits [of "uint v"] by (simp add: digits1_def show_u64_def)

lemma ParseUint_show_u64: "ParseUint (show_u64 v) = Some v"
  using show_nonneg_digits [of "uint v"] uint_lt2p [of v]
  by (simp add: ParseUint_def show_u64_def parse_show_nonneg list_all_iff)

lemma space_step:
  assumes "stops re_space t" and "refuses re_space K"
  shows "then_match (RPlus re_space) K (pre, CHR '' '' # t, c) = K (CHR '' '' # pre, t, c)"
  using then_match_RPlus [of "[CHR '' '']" re_space t K pre c] assms by simp

lemma not_digit_space: "re_space x \<Longrightarrow> \<not> is_digit x"
  by (auto simp: re_space_def is_digit_def)

lemma refuses_group_digits: "refuses re_space (then_match (RGroup n (RPlus is_digit)) K)"
  by (simp add: refuses_def not_digit_space)

lemma refuses_spaces_end:
  "refuses is_digit (\<lambda>(pre, s, c). then_match (RMany re_space) (then_match REnd K) (pre, s, f pre c))"
proof -
  have "\<not> re_space x" if "is_digit x" for x using that not_digit_space by blast
  then show ?thesis by (simp add: refuses_def many_none)
qed

lemma spaces_end: "then_match (RMany re_space) (then_match REnd K) (pre, [], c) = K (pre, [], c)"
  by (simp add: then_match_def)

lemma lazy_step:
  assumes "stat_name u" and "stops stat_char t" and "refuses stat_char K"
  shows "then_match (RLazy stat_char) K (pre, u @ t, c) = K (rev u @ pre, t, c)"
  using assms by (intro then_match_RLazy) (auto simp: stat_name_def)

lemma digits_end:
  assumes "digits1 d" and "refuses is_digit K"
  shows "then_match (RPlus is_digit) K (pre, d, c) = K (rev d @ pre, [], c)"
  using digits_step [of d "[]" K pre c] assms by (simp add: stops_def)

lemma stat_line_found:
  assumes "stat_name k" and d: "digits1 d"
  shows "\<exists>c. FindAnchored statLineRe (''     '' @ (k @ ('': '' @ d))) = Some c \<and> grp 1 c = k \<and> grp 2 c = d"
proof -
  have d_space: "stops re_space d"
    using all_graph(1) [OF d] re_space_disjoint by (cases d) (auto simp: stops_def)
  have k_space: "stops re_space (k @ ('': '' @ d))"
    using assms(1) re_space_disjoint by (cases k) (auto simp: stops_def stat_name_def)
  have "then_match (rseq [RGroup 1 (RLazy stat_char), RLit '':'', RPlus re_space, RGroup 2 (RPlus is_digit),
      RMany re_space, REnd]) (\<lambda>st. [st]) (rev ''     '', k @ ('': '' @ d), []) =
      [(rev d @ '' :'' @ rev k @ ''     '', [], [(2, d), (1, k)])]"
    using assms d_space
    by (simp add: lazy_step refuses_group_lit then_match_RLit_Cons space_step refuses_group_digits
        digits_end refuses_spaces_end spaces_end stops_def del: then_match_REnd)
  from FindAnchored_RMany [OF _ k_space this] show ?thesis
    by (simp add: statLineRe_def grp_def)
qed

lemma stat_text: "stat_char x \<Longrightarrow> text_char x"
  by (auto simp: stat_char_def text_char_def graph_char_def Let_def)

lemma stat_name_plain: "stat_name k \<Longrightarrow> plain_line k"
  by (auto simp: stat_name_def plain_line_def list_all_iff stat_text)

lemma stat_line_printed: "stat_name k \<Longrightarrow> stat_line (print_stat (k, v)) stats = AList.update k v stats"
  using stat_line_found [of k "show_u64 v"] TrimSpace_plain [OF stat_name_plain, of k]
  by (auto simp: stat_line_def print_stat_def show_u64_digits ParseUint_show_u64)

lemma scan_lines_text:
  assumes "list_all text_char l" and "l \<noteq> []" and "graph_char (last l)" and "length l < maxScanTokenSize"
  shows "scan_lines (l @ CHR 0x0A # s) = l # scan_lines s"
proof -
  have "plain_line (CHR ''-'' # l)" using assms by (simp add: plain_line_def)
  then have "\<forall>x \<in> set l. \<not> is_nl x" using plain_line_no_nl by fastforce
  then have "takeWhile (Not \<circ> is_nl) (l @ CHR 0x0A # s) = l"
    by (subst takeWhile_append2) (simp_all add: is_nl_def)
  moreover have "last l \<noteq> CHR 0x0D" using assms(3) by (auto simp: graph_char_def)
  ultimately show ?thesis using assms(4)
    by (simp add: scan_lines.simps [of "l @ CHR 0x0A # s"] Let_def drop_cr_def)
qed

lemma print_stat_text:
  assumes "stat_name (fst kv)"
  shows "list_all text_char (print_stat kv)" "print_stat kv \<noteq> []" "graph_char (last (print_stat kv))"
  using all_text(1) [OF show_u64_digits] all_graph(1) [OF show_u64_digits, of "snd kv"] show_u64_digits [of "snd kv"] assms
  by (auto simp: print_stat_def stat_name_def list_all_iff stat_text digits1_def)

lemma scan_printed_stats:
  "\<forall>kv \<in> set kvs. stat_name (fst kv) \<and> length (print_stat kv) < maxScanTokenSize \<Longrightarrow>
     scan_lines (concat (map (\<lambda>kv. print_stat kv @ [CHR 0x0A]) kvs)) = map print_stat kvs"
  by (induction kvs) (simp_all add: scan_lines.simps [of "[]"] scan_lines_text print_stat_text)

lemma fold_stats:
  "\<forall>kv \<in> set kvs. stat_name (fst kv) \<Longrightarrow>
     fold stat_line (map print_stat kvs) m = fold (\<lambda>(k, v). AList.update k v) kvs m"
proof (induction kvs arbitrary: m)
  case (Cons kv kvs)
  then show ?case by (cases kv) (simp add: stat_line_printed)
qed simp

text \<open>
  Driver statistics read back: whatever counters a driver prints with \<open>ethtool -S\<close>, the parsed
  map holds exactly the printed names, each with its printed 64-bit value, the last one where a
  name is printed twice.
\<close>

theorem ethtool_stats_read_back:
  assumes "\<forall>kv \<in> set kvs. stat_name (fst kv) \<and> length (print_stat kv) < maxScanTokenSize"
  shows "map_of (ParseEthtoolStats (print_stats kvs)) = map_of (rev kvs)"
proof -
  have "FindAnchored statLineRe ''NIC statistics:'' = None" by code_simp
  then have head: "stat_line ''NIC statistics:'' [] = []" by (simp add: stat_line_def)
  have "list_all text_char ''NIC statistics:''" by code_simp
  then have "scan_lines (print_stats kvs) = ''NIC statistics:'' # map print_stat kvs"
    unfolding print_stats_def
    by (subst scan_lines_text) (use scan_printed_stats [OF assms] in \<open>simp_all add: maxScanTokenSize_def\<close>)
  with assms head have "ParseEthtoolStats (print_stats kvs) = fold (\<lambda>(k, v). AList.update k v) kvs []"
    by (simp add: ParseEthtoolStats_def fold_stats)
  also have "map_of \<dots> = map_of (rev kvs)"
    by (induction kvs rule: rev_induct) (auto simp: AList.update_conv' fun_upd_def)
  finally show ?thesis .
qed

subsection \<open>Well-formed settings\<close>

definition wf_settings :: "LinkSettings \<Rightarrow> bool" where
  "wf_settings ls \<longleftrightarrow>
     (ls_SpeedMbps ls = - 1 \<or> (0 \<le> ls_SpeedMbps ls \<and> ls_SpeedMbps ls \<le> maxInt)) \<and>
     ls_Duplex ls \<in> {''full'', ''half'', ''unknown''} \<and> ls_AutoNeg ls \<in> {''on'', ''off'', ''unknown''} \<and>
     wf_map (ls_Raw ls) \<and> (\<forall>k \<in> fst ` set (ls_Raw ls). modeListField k = None)"

lemma Atoi_bounds: "Atoi s = (v, True) \<Longrightarrow> list_all is_digit s \<Longrightarrow> 0 \<le> v \<and> v \<le> maxInt"
  using parse_digits_bounds [of s]
  by (auto simp: Atoi_def atoi_digits_def is_digit_def list_all_iff Let_def split: list.splits if_splits)

lemma greedy_class: "(a, b) \<in> set (greedy p pre s) \<Longrightarrow> \<exists>u. a = rev u @ pre \<and> (\<forall>x \<in> set u. p x)"
proof (induction p pre s rule: greedy.induct)
  case (2 p pre x xs)
  show ?case
  proof (cases "p x \<and> (a, b) \<in> set (greedy p (x # pre) xs)")
    case True
    with 2 obtain u where "a = rev u @ x # pre" "\<forall>x \<in> set u. p x" by auto
    with True show ?thesis by (intro exI [of _ "x # u"]) auto
  next
    case False
    with 2 show ?thesis by (auto split: if_splits)
  qed
qed simp

lemma speed_digits:
  assumes "FindAnchored speedRe s = Some m"
  shows "list_all is_digit (grp 1 m)"
proof -
  from assms obtain a b where "(a, b, m) \<in> set (rmatch speedRe ([], s, []))"
    by (auto simp: FindAnchored_def submatch_at_def split: list.splits)
  then obtain x xs q t where "s = x # xs" "is_digit x" "(q, t) \<in> set (greedy is_digit [x] xs)" and m: "m = [(1, rev q)]"
    by (cases s) (auto simp: speedRe_def step_set_def split: if_splits)
  with greedy_class [of q t is_digit "[x]" xs] m show ?thesis
    by (auto simp: grp_def list_all_iff)
qed

lemma speed_value_range:
  "old = - 1 \<or> 0 \<le> old \<and> old \<le> maxInt \<Longrightarrow>
     speed_value old v = - 1 \<or> 0 \<le> speed_value old v \<and> speed_value old v \<le> maxInt"
  using Atoi_bounds speed_digits by (auto simp: speed_value_def split: option.split prod.split)

lemma wf_raw_update:
  "wf_map m \<Longrightarrow> wf_map (AList.update k v m)"
  by (simp add: wf_map_def distinct_update)

lemma wf_simple_key: "wf_settings ls \<Longrightarrow> wf_settings (simple_key key v ls)"
  using speed_value_range [of "ls_SpeedMbps ls" v]
  by (auto simp: wf_settings_def simple_key_def)

lemma wf_append_modes: "wf_settings ls \<Longrightarrow> wf_settings (append_modes f ms ls)"
  by (cases f) (simp_all add: wf_settings_def)

lemma wf_set_raw:
  "wf_settings ls \<Longrightarrow> modeListField k = None \<Longrightarrow> wf_settings (ls\<lparr> ls_Raw := AList.update k v (ls_Raw ls) \<rparr>)"
  using AList.dom_update [of k v "ls_Raw ls"] by (simp add: wf_settings_def wf_raw_update)

definition settings_inv :: "settings_state \<Rightarrow> bool" where
  "settings_inv st \<longleftrightarrow> wf_settings (est_ls st) \<and> modeListField (est_lastKey st) = None"

lemma settings_line_inv: "settings_inv st \<Longrightarrow> settings_inv (settings_line text st)"
proof -
  assume st: "settings_inv st"
  then have "settings_inv (continuation_line t st)" for t
    by (auto simp: settings_inv_def continuation_line_def Let_def wf_append_modes wf_set_raw split: option.split)
  moreover have "settings_inv (key_line k v st)" for k v
  proof (cases "modeListField k")
    case None
    with st show ?thesis
      by (simp add: settings_inv_def key_line_def Let_def wf_simple_key wf_set_raw)
  next
    case (Some f)
    with st show ?thesis
      by (simp add: settings_inv_def key_line_def Let_def wf_append_modes) (simp add: modeListField_def)
  qed
  ultimately show ?thesis using st by (simp add: settings_line_def Let_def)
qed

text \<open>
  Whatever \<open>ethtool\<close> prints, the parsed settings are well-formed: the speed is -1 (unknown) or
  a number that was printed, never a negative or wrapped one; duplex and auto-negotiation are among
  their three values; the raw entries have distinct keys and none of them is a link-mode list.
\<close>

theorem settings_well_formed: "wf_settings (ParseEthtoolSettings out)"
proof -
  have "settings_inv (fold settings_line (scan_lines out) \<lparr> est_ls = zero_settings, est_list = None, est_lastKey = '''' \<rparr>)"
  proof (rule fold_induct)
    show "settings_inv \<lparr> est_ls = zero_settings, est_list = None, est_lastKey = [] \<rparr>"
      by (simp add: settings_inv_def wf_settings_def zero_settings_def wf_map_def modeListField_def)
  qed (rule settings_line_inv)
  then show ?thesis by (simp add: ParseEthtoolSettings_def settings_inv_def)
qed

subsection \<open>Cable faults\<close>

definition pair_reported :: "string list \<Rightarrow> CablePairResult \<Rightarrow> bool" where
  "pair_reported ls p \<longleftrightarrow>
     (\<exists>l \<in> set ls. \<exists>m. FindAnchored cablePairCodeRE l = Some m \<and> cp_Pair p = grp 1 m \<and> cp_RawCode p = grp 2 m) \<and>
     cp_Status p = cablePairStatus (cp_RawCode p) \<and>
     (cp_RawCode p \<noteq> ''OK'' \<longrightarrow> cp_HasFault p) \<and>
     (cp_FaultMeters p \<noteq> Fin 0 \<or> (cp_HasFault p \<and> cp_RawCode p = ''OK'') \<longrightarrow>
        (\<exists>l \<in> set ls. \<exists>m. FindAnchored cableFaultRE l = Some m \<and> cp_Pair p = grp 1 m \<and>
           ParseFloat (grp 2 m) = (cp_FaultMeters p, True)))"

definition cable_inv :: "string list \<Rightarrow> CableTestResult \<times> (string \<times> nat) list \<Rightarrow> bool" where
  "cable_inv ls st \<longleftrightarrow>
     (\<forall>p \<in> set (ct_Pairs (fst st)). pair_reported ls p) \<and>
     (\<forall>k i. map_of (snd st) k = Some i \<longrightarrow> i < length (ct_Pairs (fst st)) \<and> cp_Pair (ct_Pairs (fst st) ! i) = k)"

lemma cable_line_inv:
  assumes "l \<in> set ls" and "cable_inv ls st"
  shows "cable_inv ls (cable_line l st)"
proof -
  obtain res byPair where st: "st = (res, byPair)" by (cases st)
  show ?thesis
  proof (cases "FindAnchored cablePairCodeRE l")
    case (Some m)
    with assms st show ?thesis
      by (auto simp: cable_line_def cable_inv_def pair_reported_def nth_append Let_def less_Suc_eq)
  next
    case None
    have "cable_inv ls (res\<lparr> ct_Pairs := (ct_Pairs res)[i := (ct_Pairs res ! i)\<lparr> cp_FaultMeters := d, cp_HasFault := True \<rparr>] \<rparr>, byPair)"
      if m: "FindAnchored cableFaultRE l = Some m" "ParseFloat (grp 2 m) = (d, True)" "map_of byPair (grp 1 m) = Some i" for m d i
    proof -
      have i: "i < length (ct_Pairs res)" "cp_Pair (ct_Pairs res ! i) = grp 1 m"
        using assms(2) m(3) st by (auto simp: cable_inv_def)
      then have "pair_reported ls (ct_Pairs res ! i)" using assms(2) st by (simp add: cable_inv_def)
      then have "pair_reported ls ((ct_Pairs res ! i)\<lparr> cp_FaultMeters := d, cp_HasFault := True \<rparr>)"
        using m(1,2) i(2) assms(1) by (auto simp: pair_reported_def)
      with assms(2) st i show ?thesis
        by (auto simp: cable_inv_def nth_list_update dest!: set_update_subset_insert [THEN subsetD])
    qed
    with None assms(2) st show ?thesis
      by (auto simp: cable_line_def split: option.split prod.split)
  qed
qed


definition demo_cable :: string where
  "demo_cable = ''Pair B code Open Circuit'' @ [CHR 0x0A]"

lemma demo_cable_lines: "map TrimSpace (scan_lines demo_cable) = [''Pair B code Open Circuit'']"
proof -
  have "plain_line ''Pair B code Open Circuit''" by code_simp
  with scan_lines_plain [OF this, of "[]"] TrimSpace_plain [OF this] show ?thesis
    by (simp add: demo_cable_def maxScanTokenSize_def scan_lines.simps [of "[]"])
qed


end
