(* ===== verification/TestTools.thy ===== *)
theory TestTools
  imports EthtoolParser JsonParsers Settings Messages
begin

section \<open>The tests one machine runs\<close>

text \<open>
  Models the test components of \<open>src/internal/testsuite\<close>: \<open>counters.go\<close>, \<open>link.go\<close>, \<open>ping.go\<close>,
  \<open>iperf.go\<close>, \<open>udp.go\<close>, the tester of \<open>cable.go\<close>, \<open>sudo.go\<close> and \<open>capabilities.go\<close>. A component asks
  the outside (the command runner, a server process, the clock, sysfs) for something; each question is
  an event of the trace in the state \<open>world\<close>, and the answer of the outside may depend on how many
  questions were asked before. So a theorem over all environments is one over all behaviours of the
  tools.
\<close>

subsection \<open>Errors\<close>

text \<open>
  A Go error: its text and the sentinel errors \<open>errors.Is\<close> finds in its chain. \<open>Diverged\<close> is no error
  of the program: it is the value of a call that does not return, which only the ping parser has
  (theory \<open>PingParser\<close>).
\<close>

datatype sentinel =
    ErrNotFound | ErrTimeout | DeadlineExceeded | Canceled
  | ErrIntervalRejected | ErrUnsupportedPingFormat | ErrIperfClient | ErrIperfUnreachable | ErrNoStats64 | ErrPortInUse
  | ErrSessionClosed | ErrRequestTimeout | ErrSoakBudgetExpired
  | Diverged

record op_err =
  oe_Is :: "sentinel list"
  oe_Text :: string

definition errors_Is :: "op_err \<Rightarrow> sentinel \<Rightarrow> bool" where
  "errors_Is e s \<longleftrightarrow> s \<in> set (oe_Is e)"

definition new_err :: "string \<Rightarrow> op_err" where
  "new_err t = \<lparr> oe_Is = [], oe_Text = t \<rparr>"

definition wrap_err :: "string \<Rightarrow> op_err \<Rightarrow> op_err" where
  "wrap_err pre e = e\<lparr> oe_Text := pre @ oe_Text e \<rparr>"

definition join_err :: "op_err \<Rightarrow> op_err \<Rightarrow> op_err" where
  "join_err a b = \<lparr> oe_Is = oe_Is a @ oe_Is b, oe_Text = oe_Text a @ [CHR 0x0A] @ oe_Text b \<rparr>"

subsection \<open>State and sequencing\<close>

text \<open>A computation takes the state to a result and the next state; \<open>bindE\<close> stops at the first error.\<close>

definition ret :: "'a \<Rightarrow> 's \<Rightarrow> 'a \<times> 's" where
  "ret a s = (a, s)"

definition bindS :: "('s \<Rightarrow> 'a \<times> 's) \<Rightarrow> ('a \<Rightarrow> 's \<Rightarrow> 'b \<times> 's) \<Rightarrow> 's \<Rightarrow> 'b \<times> 's" where
  "bindS m f s = (case m s of (a, s') \<Rightarrow> f a s')"

definition bindE :: "('s \<Rightarrow> ('e + 'a) \<times> 's) \<Rightarrow> ('a \<Rightarrow> 's \<Rightarrow> ('e + 'b) \<times> 's) \<Rightarrow> 's \<Rightarrow> ('e + 'b) \<times> 's" where
  "bindE m f = bindS m (\<lambda>r. case r of Inl e \<Rightarrow> ret (Inl e) | Inr a \<Rightarrow> f a)"

definition mapE :: "('e \<Rightarrow> 'e) \<Rightarrow> ('s \<Rightarrow> ('e + 'a) \<times> 's) \<Rightarrow> 's \<Rightarrow> ('e + 'a) \<times> 's" where
  "mapE f m = bindS m (\<lambda>r. ret (case r of Inl e \<Rightarrow> Inl (f e) | Inr a \<Rightarrow> Inr a))"

subsection \<open>Requests to the peer\<close>

definition OpCountersSnapshot :: string where "OpCountersSnapshot = ''counters_snapshot''"
definition OpLinkSettings :: string where "OpLinkSettings = ''link_settings''"
definition OpPingRun :: string where "OpPingRun = ''ping_run''"
definition OpIperfServerStart :: string where "OpIperfServerStart = ''iperf3_server_start''"
definition OpIperfServerStop :: string where "OpIperfServerStop = ''iperf3_server_stop''"
definition OpIperfClientRun :: string where "OpIperfClientRun = ''iperf3_client_run''"
definition OpPingFullSize :: string where "OpPingFullSize = ''ping_fullsize''"
definition OpIperfUDPRun :: string where "OpIperfUDPRun = ''iperf3_udp_run''"
definition OpIperfCaps :: string where "OpIperfCaps = ''iperf3_caps''"

definition StatusOK :: string where "StatusOK = ''ok''"
definition StatusFailed :: string where "StatusFailed = ''failed''"
definition StatusTimeout :: string where "StatusTimeout = ''timeout''"
definition StatusUnavailable :: string where "StatusUnavailable = ''unavailable''"
definition StatusRejected :: string where "StatusRejected = ''rejected''"

text \<open>The parameters of a request before they are encoded, one constructor per parameter struct.\<close>

datatype op_params =
    NoParams
  | PingRunParams (pp_PeerIP: string) (pp_Count: int)
  | PingFullSizeParams (pf_PeerIP: string) (pf_Count: int)
  | IperfServerStartParams (sp_BindIP: string) (sp_Port: u16)
  | IperfServerStopParams (st_Port: u16)
  | IperfClientRunParams (cl_LocalIP: string) (cl_PeerIP: string) (cl_Port: u16) (cl_DurationSec: int) (cl_Streams: int) (cl_Bidir: bool)
  | UDPRunParams (ur_LocalIP: string) (ur_PeerIP: string) (ur_Port: u16) (ur_DurationSec: int) (ur_RateBps: u64)
  | WindowParams (wp_IdleTimeoutMs: int)

record LinkSettingsResult =
  lr_Settings :: LinkSettings
  lr_Observations :: "string list"

record PingRunResult =
  pn_Ping :: PingResult
  pn_Notes :: "string list"

record TCPRunResult =
  tq_TCP :: TCPResult
  tq_Incomplete :: bool

record UDPRunResult =
  uq_UDP :: UDPResult
  uq_Incomplete :: bool

record BidirRunResult =
  bq_Bidir :: BidirResult
  bq_Incomplete :: bool

text \<open>A decoded result: the op alone determines which constructor.\<close>

datatype op_payload =
    CounterPayload CounterSnapshot
  | LinkPayload LinkSettingsResult
  | PingPayload PingRunResult
  | ServerStartPayload u16
  | ServerStopPayload bool
  | TCPPayload TCPRunResult
  | UDPPayload UDPRunResult
  | CapsPayload Iperf3Caps

text \<open>The JSON decoder of each result type, and the verb \<open>%q\<close> of \<open>fmt\<close>.\<close>

record op_codec =
  oc_Counter :: "string \<Rightarrow> string + CounterSnapshot"
  oc_Link :: "string \<Rightarrow> string + LinkSettingsResult"
  oc_Ping :: "string \<Rightarrow> string + PingRunResult"
  oc_Start :: "string \<Rightarrow> string + u16"
  oc_Stop :: "string \<Rightarrow> string + bool"
  oc_TCP :: "string \<Rightarrow> string + TCPRunResult"
  oc_UDP :: "string \<Rightarrow> string + UDPRunResult"
  oc_Caps :: "string \<Rightarrow> string + Iperf3Caps"
  oc_Window :: "string \<Rightarrow> string + CableTestWindowResult"
  oc_Quote :: "string \<Rightarrow> string"

definition opDecoders :: "op_codec \<Rightarrow> (string \<Rightarrow> string + op_payload) gomap" where
  "opDecoders oc =
     [(OpCountersSnapshot, map_sum id CounterPayload \<circ> oc_Counter oc),
      (OpLinkSettings, map_sum id LinkPayload \<circ> oc_Link oc),
      (OpPingRun, map_sum id PingPayload \<circ> oc_Ping oc),
      (OpIperfServerStart, map_sum id ServerStartPayload \<circ> oc_Start oc),
      (OpIperfServerStop, map_sum id ServerStopPayload \<circ> oc_Stop oc),
      (OpIperfClientRun, map_sum id TCPPayload \<circ> oc_TCP oc),
      (OpPingFullSize, map_sum id PingPayload \<circ> oc_Ping oc),
      (OpIperfUDPRun, map_sum id UDPPayload \<circ> oc_UDP oc),
      (OpIperfCaps, map_sum id CapsPayload \<circ> oc_Caps oc)]"

definition DecodeOpResult :: "op_codec \<Rightarrow> string \<Rightarrow> string \<Rightarrow> op_err + op_payload" where
  "DecodeOpResult oc opName raw =
     (case map_of (opDecoders oc) opName of
        None \<Rightarrow> Inl (new_err (''testsuite: no result decoder for op '' @ oc_Quote oc opName))
      | Some dec \<Rightarrow>
          (case dec raw of
             Inl e \<Rightarrow> Inl (new_err (''testsuite: decode '' @ opName @ '' result: '' @ e))
           | Inr p \<Rightarrow> Inr p))"

subsection \<open>The outside\<close>

text \<open>
  \<open>runner.CommandSpec\<close> and \<open>runner.CommandResult\<close> with the fields the tests set and read.
\<close>

record CommandSpec =
  co_Name :: string
  co_Args :: "string list"
  co_Timeout :: duration
  co_Label :: string
  co_TeeStdoutPath :: string
  co_TeeStderrPath :: string

record CommandResult =
  cr_Stdout :: string
  cr_Stderr :: string
  cr_ExitCode :: int

text \<open>
  The questions. A server is named by the position of its start in the trace. \<open>Unregister\<close> releases its
  registry entry. The events from \<open>RemoteCall\<close> on belong to the plans: calls of the peer session
  (\<open>RemoteCaller\<close>), the display of steps, the link monitor and the wait between soak cycles.
\<close>

datatype tool_event =
    RunCommand CommandSpec
  | StartServerProcess CommandSpec
  | RegisterProcess nat
  | AwaitReady nat
  | CheckDone nat
  | Terminate nat
  | Kill nat
  | Unregister nat
  | ReadFile string
  | ReadClock
  | CheckContext
  | RemoteCall string op_params duration
  | DetachedCall string op_params duration
  | SetStep int int string
  | ShowStep int int string
  | WarnPeer string string
  | IdleTimeoutSet duration
  | BeginWindow
  | EndWindow
  | ReadEvents
  | WaitGap duration

datatype ready_answer =
    Banner
  | Exited "op_err + CommandResult"
  | AliveAfterFallback
  | ReadyCanceled op_err

datatype stop_answer = AlreadyExited | ContextCanceled | ExitedInGrace | GraceExpired | CanceledInGrace

record tool_env =
  te_run :: "nat \<Rightarrow> CommandSpec \<Rightarrow> op_err + CommandResult"
  te_start :: "nat \<Rightarrow> CommandSpec \<Rightarrow> op_err option"
  te_register :: "nat \<Rightarrow> bool"
  te_ready :: "nat \<Rightarrow> ready_answer"
  te_stop :: "nat \<Rightarrow> stop_answer"
  te_file :: "nat \<Rightarrow> string \<Rightarrow> string option"
  te_now :: "nat \<Rightarrow> gotime"
  te_ctxErr :: "nat \<Rightarrow> op_err option"
  te_call :: "nat \<Rightarrow> string \<Rightarrow> op_params \<Rightarrow> op_err + TestResult"
  te_budgetExpired :: "nat \<Rightarrow> bool"
  te_gap :: "nat \<Rightarrow> op_err option"
  te_window :: "nat \<Rightarrow> u64"
  te_events :: "nat \<Rightarrow> MonitoringEvent list"
  te_codec :: op_codec
  te_iperf_json :: "string \<Rightarrow> string + iperfWire"
  te_link_json :: "string \<Rightarrow> string + IPLink list"
  te_conv :: f64conv

record world =
  w_trace :: "tool_event list"
  w_seq :: "int gomap"
  w_stopped :: "nat list"

definition ask :: "tool_event \<Rightarrow> (nat \<Rightarrow> 'a) \<Rightarrow> world \<Rightarrow> 'a \<times> world" where
  "ask ev answer w = (answer (length (w_trace w)), w\<lparr> w_trace := w_trace w @ [ev] \<rparr>)"

definition run_command :: "tool_env \<Rightarrow> CommandSpec \<Rightarrow> world \<Rightarrow> (op_err + CommandResult) \<times> world" where
  "run_command te spec = ask (RunCommand spec) (\<lambda>n. te_run te n spec)"

definition tell :: "tool_event \<Rightarrow> world \<Rightarrow> world" where
  "tell ev w = w\<lparr> w_trace := w_trace w @ [ev] \<rparr>"

subsection \<open>Raw output files\<close>

definition command :: "string \<Rightarrow> string list \<Rightarrow> duration \<Rightarrow> string \<Rightarrow> CommandSpec" where
  "command name args timeout label = \<lparr> co_Name = name, co_Args = args, co_Timeout = timeout, co_Label = label,
     co_TeeStdoutPath = '''', co_TeeStderrPath = '''' \<rparr>"

definition next_seq :: "string \<Rightarrow> world \<Rightarrow> int" where
  "next_seq rawDir w = (case map_of (w_seq w) rawDir of Some n \<Rightarrow> iadd n 1 | None \<Rightarrow> 1)"

text \<open>\<open>%02d-%s.txt\<close> in the raw directory; \<open>filepath.Join\<close> cleans the path.\<close>

definition raw_path :: "string \<Rightarrow> int \<Rightarrow> string \<Rightarrow> string" where
  "raw_path rawDir seq label = Clean (rawDir @ ''/'' @ pad_zeros 2 (show_int seq) @ ''-'' @ label @ ''.txt'')"

definition teeRaw :: "CommandSpec \<Rightarrow> string \<Rightarrow> world \<Rightarrow> CommandSpec \<times> world" where
  "teeRaw spec rawDir w =
     (if rawDir \<noteq> '''' \<and> co_Label spec \<noteq> ''''
      then (spec\<lparr> co_TeeStdoutPath := raw_path rawDir (next_seq rawDir w) (co_Label spec) \<rparr>,
            w\<lparr> w_seq := AList.update rawDir (next_seq rawDir w) (w_seq w) \<rparr>)
      else (spec, w))"

definition run_teed :: "tool_env \<Rightarrow> string \<Rightarrow> CommandSpec \<Rightarrow> world \<Rightarrow> (op_err + CommandResult) \<times> world" where
  "run_teed te rawDir spec = bindS (teeRaw spec rawDir) (run_command te)"

subsection \<open>Counters\<close>

definition queryToolTimeout :: duration where "queryToolTimeout = 10 * second"

definition stdCounterSources :: "string list gomap" where
  "stdCounterSources =
     [(''rx_errors_total'', [''rx_errors'']),
      (''rx_crc'', [''rx_crc_errors'', ''rx_fcs_errors'']),
      (''rx_frame'', [''rx_frame_errors'']),
      (''rx_align'', [''rx_align_errors'', ''align_errors'']),
      (''rx_symbol'', [''rx_symbol_errors'', ''symbol_errors'']),
      (''rx_missed'', [''rx_missed_errors'', ''rx_missed'']),
      (''rx_fifo'', [''rx_fifo_errors'', ''rx_over_errors'', ''rx_no_buffer_count'']),
      (''rx_length'', [''rx_length_errors'']),
      (''undersize'', [''rx_undersize_packets'', ''rx_short_length_errors'']),
      (''oversize'', [''rx_oversize_packets'', ''rx_long_length_errors'']),
      (''jabber'', [''rx_jabbers'', ''rx_jabber_errors'', ''jabber'']),
      (''tx_carrier'', [''tx_carrier_errors'']),
      (''phy_errors'', [''phy_errors'', ''rx_phy_errors''])]"

definition ipFallback :: "string \<Rightarrow> IPStats64 \<Rightarrow> u64 option" where
  "ipFallback key ip =
     (if key = ''rx_crc'' then Some (rx_CRCErrors (ip_RX ip))
      else if key = ''rx_frame'' then Some (rx_FrameErrors (ip_RX ip))
      else if key = ''rx_missed'' then Some (rx_MissedErrors (ip_RX ip))
      else if key = ''rx_fifo'' then Some (rx_FifoErrors (ip_RX ip))
      else if key = ''rx_length'' then Some (rx_LengthErrors (ip_RX ip))
      else if key = ''tx_carrier'' then Some (tx_CarrierErrors (ip_TX ip))
      else None)"

definition first_present :: "string list \<Rightarrow> u64 gomap \<Rightarrow> u64 option" where
  "first_present names m =
     (case find (\<lambda>name. map_of m name \<noteq> None) names of Some name \<Rightarrow> map_of m name | None \<Rightarrow> None)"

definition resolve_counter :: "u64 gomap \<Rightarrow> IPStats64 \<Rightarrow> string \<Rightarrow> string list \<Rightarrow> u64 option" where
  "resolve_counter ethtool ip key candidates =
     (case first_present candidates ethtool of
        Some v \<Rightarrow> Some v
      | None \<Rightarrow> (case ipFallback key ip of Some v \<Rightarrow> if v \<noteq> 0 then Some v else None | None \<Rightarrow> None))"

definition counter_source_step ::
  "u64 gomap \<Rightarrow> IPStats64 \<Rightarrow> string \<times> string list \<Rightarrow> u64 gomap \<Rightarrow> u64 gomap" where
  "counter_source_step ethtool ip src std =
     (case resolve_counter ethtool ip (fst src) (snd src) of
        Some v \<Rightarrow> AList.update (fst src) v std
      | None \<Rightarrow> std)"

text \<open>\<open>sources\<close> is the order in which Go iterates over \<open>stdCounterSources\<close>.\<close>

definition normalize_over ::
  "string list gomap \<Rightarrow> u64 gomap \<Rightarrow> IPStats64 \<Rightarrow> u64 option \<Rightarrow> u64 gomap" where
  "normalize_over sources ethtool ip carrierChanges =
     (let std = fold (counter_source_step ethtool ip) sources []
      in case carrierChanges of Some v \<Rightarrow> AList.update ''link_resets'' v std | None \<Rightarrow> std)"

definition NormalizeCounters :: "u64 gomap \<Rightarrow> IPStats64 \<Rightarrow> u64 option \<Rightarrow> u64 gomap" where
  "NormalizeCounters = normalize_over stdCounterSources"

record CounterCollector =
  cc_IfName :: string
  cc_SysfsRoot :: string
  cc_RawDir :: string

definition carrierChanges :: "tool_env \<Rightarrow> CounterCollector \<Rightarrow> world \<Rightarrow> u64 option \<times> world" where
  "carrierChanges te c =
     (let root = (if cc_SysfsRoot c = '''' then ''/sys/class/net'' else cc_SysfsRoot c);
          path = Clean (root @ ''/'' @ cc_IfName c @ ''/carrier_changes'')
      in ask (ReadFile path) (\<lambda>n. case te_file te n path of None \<Rightarrow> None | Some data \<Rightarrow> ParseUint (TrimSpace data)))"

fun iplink_err :: "iplink_error \<Rightarrow> op_err" where
  "iplink_err (LinkJSON e) = new_err (''ip link JSON: '' @ e)"
| "iplink_err (LinkCount n) = new_err (''ip link show dev output has '' @ show_int (int n) @ '' elements, want exactly 1'')"
| "iplink_err (NoStats64 name) = \<lparr> oe_Is = [ErrNoStats64],
     oe_Text = ''interface '' @ name @ '': ip link output has no stats64 object'' \<rparr>"

text \<open>
  \<open>ethtool -S\<close> may be missing or fail: the snapshot then has no driver counters. Only a cancelled
  context makes it fatal.
\<close>

definition driver_counters ::
  "tool_env \<Rightarrow> CounterCollector \<Rightarrow> world \<Rightarrow> (op_err + string \<times> u64 gomap) \<times> world" where
  "driver_counters te c =
     bindS (run_teed te (cc_RawDir c) (command ''ethtool'' [''-S'', cc_IfName c] queryToolTimeout ''ethtool-stats''))
       (\<lambda>r. case r of
          Inr res \<Rightarrow> ret (Inr (if cr_ExitCode res = 0 then (cr_Stdout res, ParseEthtoolStats (cr_Stdout res)) else ('''', [])))
        | Inl e \<Rightarrow> bindS (ask CheckContext (te_ctxErr te)) (\<lambda>canceled.
            ret (if canceled \<noteq> None then Inl (wrap_err ''testsuite: counter snapshot: '' e) else Inr ('''', []))))"

definition link_counters :: "tool_env \<Rightarrow> CounterCollector \<Rightarrow> world \<Rightarrow> (op_err + IPStats64) \<times> world" where
  "link_counters te c =
     bindE (mapE (wrap_err ''testsuite: counter snapshot: ip -j -s -s: '')
        (run_teed te (cc_RawDir c)
          (command ''ip'' [''-j'', ''-s'', ''-s'', ''link'', ''show'', ''dev'', cc_IfName c] queryToolTimeout ''ip-linkstats'')))
       (\<lambda>res.
          if cr_ExitCode res \<noteq> 0
          then ret (Inl (new_err (''testsuite: counter snapshot: ip -j -s -s exited '' @ show_int (cr_ExitCode res) @ '': '' @
                 TrimSpace (cr_Stderr res))))
          else case ParseIPLinkStats (te_link_json te) (cr_Stdout res) of
                 Inl e \<Rightarrow> ret (Inl (wrap_err ''testsuite: counter snapshot: '' (iplink_err e)))
               | Inr link \<Rightarrow> ret (Inr (case li_Stats64 link of Some s \<Rightarrow> s | None \<Rightarrow> zero_ip)))"

definition Snapshot :: "tool_env \<Rightarrow> CounterCollector \<Rightarrow> world \<Rightarrow> (op_err + CounterSnapshot) \<times> world" where
  "Snapshot te c =
     bindS (ask ReadClock (te_now te)) (\<lambda>now.
     bindE (driver_counters te c) (\<lambda>(raw, driver).
     bindE (link_counters te c) (\<lambda>stats.
     bindS (carrierChanges te c) (\<lambda>carrier.
       ret (Inr \<lparr> cs_CapturedAt = now, cs_Standard = NormalizeCounters driver stats carrier, cs_Driver = driver,
                  cs_Raw = raw, cs_IPStats = stats \<rparr>)))))"

subsection \<open>Link settings\<close>

record LinkInspector =
  lk_IfName :: string
  lk_RawDir :: string

fun base_index :: "string \<Rightarrow> nat option" where
  "base_index [] = None"
| "base_index (c # cs) =
     (if has_prefix (to_lower (c # cs)) ''base'' then Some 0 else map_option Suc (base_index cs))"

definition mode_speed :: "string \<Rightarrow> int option" where
  "mode_speed mode =
     (case base_index mode of
        None \<Rightarrow> None
      | Some i \<Rightarrow> if i = 0 then None else (case Atoi (take i mode) of (v, True) \<Rightarrow> Some v | _ \<Rightarrow> None))"

definition maxModeMbps :: "string list \<Rightarrow> int" where
  "maxModeMbps modes =
     fold (\<lambda>mode best. case mode_speed mode of Some v \<Rightarrow> if v > best then v else best | None \<Rightarrow> best) modes 0"

definition mutualAdvertisedMbps :: "LinkSettings \<Rightarrow> int" where
  "mutualAdvertisedMbps l =
     (let loc = maxModeMbps (ls_AdvertisedModes l); partner = maxModeMbps (ls_PartnerModes l)
      in if loc \<le> 0 \<or> partner \<le> 0 then 0 else min loc partner)"

definition ObserveLink :: "LinkSettings \<Rightarrow> string list" where
  "ObserveLink l =
     (if \<not> ls_LinkDetected l \<or> ls_SpeedMbps l \<le> 0
      then [''no link detected: ethtool reports the link as down (cable unplugged, defective cable, or the peer interface is down)'']
      else
        (if equal_fold (ls_Duplex l) ''half''
         then [''link negotiated half duplex at '' @ show_int (ls_SpeedMbps l) @
               '' Mb/s; possible causes: a damaged cable pair, an autonegotiation fault, or a peer forced to half duplex'']
         else []) @
        (let mutual = mutualAdvertisedMbps l
         in if mutual > 0 \<and> ls_SpeedMbps l < mutual
            then [''link negotiated '' @ show_int (ls_SpeedMbps l) @ '' Mb/s although both ends advertise '' @ show_int mutual @
                  '' Mb/s '' @ em_dash @ '' reduced speed can indicate damaged pairs or a poor connector'']
            else []))"

definition Inspect :: "tool_env \<Rightarrow> LinkInspector \<Rightarrow> world \<Rightarrow> (op_err + LinkSettings \<times> string list) \<times> world" where
  "Inspect te l =
     bindE (mapE (wrap_err ''testsuite: link settings: '')
        (run_teed te (lk_RawDir l) (command ''ethtool'' [lk_IfName l] queryToolTimeout ''ethtool-settings'')))
       (\<lambda>res.
          if cr_ExitCode res \<noteq> 0
          then ret (Inl (new_err (''testsuite: link settings: ethtool '' @ lk_IfName l @ '' exited '' @
                 show_int (cr_ExitCode res) @ '': '' @ TrimSpace (cr_Stderr res))))
          else let s = ParseEthtoolSettings (cr_Stdout res) in ret (Inr (s, ObserveLink s)))"

subsection \<open>Ping\<close>

definition icmpOverheadBytes :: int where "icmpOverheadBytes = 28"
definition maxIPv4ICMPPayload :: int where "maxIPv4ICMPPayload = 65507"
definition pingTimeoutSlack :: duration where "pingTimeoutSlack = 10 * second"

definition pingIntervalLadder :: "f64 list" where
  "pingIntervalLadder = [f64_of_rat (1 / 50), f64_of_rat (1 / 5), Fin 1]"

fun mathCeil :: "f64 \<Rightarrow> f64" where
  "mathCeil (Fin q) = Fin (of_int \<lceil>q\<rceil>)"
| "mathCeil a = a"

text \<open>
  \<open>strconv.FormatFloat(x, 'f', -1, 64)\<close>: the fewest decimals that read back as the same float. Exact
  for numbers below \<open>10 ^ 15\<close>, as the intervals are.
\<close>

definition shortest_decimals :: "rat \<Rightarrow> nat" where
  "shortest_decimals q =
     (case find (\<lambda>n. f64_of_rat (of_int (rhe (q * 10 ^ n)) / 10 ^ n) = Fin q) [0..<20] of Some n \<Rightarrow> n | None \<Rightarrow> 20)"

fun formatInterval :: "f64 \<Rightarrow> string" where
  "formatInterval (Fin q) = fmt_f (shortest_decimals q) (Fin q)"
| "formatInterval a = fmt_f 0 a"

definition wall_sec :: "tool_env \<Rightarrow> int \<Rightarrow> f64 \<Rightarrow> int \<Rightarrow> int" where
  "wall_sec te cnt interval slack =
     iadd (f64_to_i64 (te_conv te) (mathCeil (fmul (f64_of_int cnt) interval))) slack"

fun ping_err :: "ping_error \<Rightarrow> op_err" where
  "ping_err (IntervalRejected l) = \<lparr> oe_Is = [ErrIntervalRejected], oe_Text = ''ping rejected the requested interval: '' @ l \<rparr>"
| "ping_err (InvocationFailed l) = new_err (''ping invocation failed (exit 2): '' @ l)"
| "ping_err UnsupportedPingFormat = \<lparr> oe_Is = [ErrUnsupportedPingFormat],
     oe_Text = ''unsupported ping output format (busybox ping is not supported; install iputils): busybox-shaped lines detected'' \<rparr>"
| "ping_err NotRecognized = new_err ''ping output not recognized: no replies and no summary line''"

definition ping_run ::
  "tool_env \<Rightarrow> string \<Rightarrow> string list \<Rightarrow> string \<Rightarrow> f64 \<Rightarrow> int \<Rightarrow> world \<Rightarrow> (op_err + PingResult) \<times> world" where
  "ping_run te rawDir args label interval wallSec =
     bindE (mapE (wrap_err ''testsuite: ping: '')
        (run_teed te rawDir (command ''ping'' args (iadd (imul wallSec second) pingTimeoutSlack) label)))
       (\<lambda>res. ret (case ParsePing (cr_Stdout res) (cr_Stderr res) (cr_ExitCode res) of
          None \<Rightarrow> Inl \<lparr> oe_Is = [Diverged], oe_Text = '''' \<rparr>
        | Some (_, Some e) \<Rightarrow> Inl (wrap_err ''testsuite: ping: '' (ping_err e))
        | Some (p, None) \<Rightarrow> Inr (p\<lparr> pg_IntervalUsedSec := interval \<rparr>)))"

definition quick_args :: "tool_env \<Rightarrow> Addr \<Rightarrow> int \<Rightarrow> f64 \<Rightarrow> string list" where
  "quick_args te peer cnt interval =
     [''-n'', ''-D'', ''-c'', show_int cnt, ''-i'', formatInterval interval, ''-W'', ''1'',
      ''-w'', show_int (wall_sec te cnt interval 10), Addr_String peer]"

definition denied_note :: "f64 \<Rightarrow> f64 \<Rightarrow> string" where
  "denied_note interval next = ''ping interval '' @ formatInterval interval @ ''s was denied for this user; fell back to '' @
     formatInterval next @ ''s (response-gap analysis granularity is reduced)''"

fun climb_ladder ::
  "tool_env \<Rightarrow> string \<Rightarrow> Addr \<Rightarrow> int \<Rightarrow> f64 list \<Rightarrow> string list \<Rightarrow> world \<Rightarrow> (op_err + PingResult \<times> string list) \<times> world" where
  "climb_ladder te rawDir peer cnt [] notes = ret (Inl (new_err ''testsuite: ping interval ladder exhausted''))"
| "climb_ladder te rawDir peer cnt (interval # rungs) notes =
     bindS (ping_run te rawDir (quick_args te peer cnt interval) ''ping-quick'' interval (wall_sec te cnt interval 10))
       (\<lambda>r. case r of
          Inr p \<Rightarrow> ret (Inr (p, notes))
        | Inl e \<Rightarrow>
            (case rungs of
               next # _ \<Rightarrow>
                 if errors_Is e ErrIntervalRejected
                 then climb_ladder te rawDir peer cnt rungs (notes @ [denied_note interval next])
                 else ret (Inl e)
             | [] \<Rightarrow> ret (Inl e)))"

definition Quick :: "tool_env \<Rightarrow> string \<Rightarrow> Addr \<Rightarrow> int \<Rightarrow> world \<Rightarrow> (op_err + PingResult \<times> string list) \<times> world" where
  "Quick te rawDir peer cnt = climb_ladder te rawDir peer cnt pingIntervalLadder []"

definition FullSize :: "tool_env \<Rightarrow> string \<Rightarrow> Addr \<Rightarrow> int \<Rightarrow> int \<Rightarrow> world \<Rightarrow> (op_err + PingResult \<times> string list) \<times> world" where
  "FullSize te rawDir peer mtu cnt =
     (let interval = f64_of_rat (1 / 5); wallSec = wall_sec te cnt interval 20;
          payload = min (isub mtu icmpOverheadBytes) maxIPv4ICMPPayload
      in bindE (ping_run te rawDir
           [''-n'', ''-D'', ''-M'', ''do'', ''-s'', show_int payload, ''-c'', show_int cnt, ''-i'', formatInterval interval,
            ''-W'', ''2'', ''-w'', show_int wallSec, Addr_String peer] ''ping-fullsize'' interval wallSec)
           (\<lambda>p. ret (Inr (p, []))))"

subsection \<open>iperf3 servers\<close>

definition serverBanner :: string where "serverBanner = ''Server listening on ''"
definition clientTimeoutSlack :: duration where "clientTimeoutSlack = 15 * second"

record IperfManager =
  im_RawDir :: string
  im_Reg :: bool

record ServerHandle =
  sh_id :: nat
  sh_port :: u16
  sh_registered :: bool

definition show_port :: "u16 \<Rightarrow> string" where
  "show_port p = show_int (uint p)"

definition server_spec :: "Addr \<Rightarrow> u16 \<Rightarrow> CommandSpec" where
  "server_spec bind port = command ''iperf3''
     [''-s'', ''-B'', Addr_String bind, ''-p'', show_port port, ''-1'', ''--forceflush''] 0 ''iperf3-server''"

text \<open>Registration may fail (the process may be gone already); the server then has nothing to release.\<close>

definition register_server :: "tool_env \<Rightarrow> IperfManager \<Rightarrow> nat \<Rightarrow> u16 \<Rightarrow> world \<Rightarrow> (op_err + ServerHandle) \<times> world" where
  "register_server te m sid port =
     (if im_Reg m
      then bindS (ask (RegisterProcess sid) (te_register te)) (\<lambda>ok.
             ret (Inr \<lparr> sh_id = sid, sh_port = port, sh_registered = ok \<rparr>))
      else ret (Inr \<lparr> sh_id = sid, sh_port = port, sh_registered = False \<rparr>))"

definition StartServer :: "tool_env \<Rightarrow> IperfManager \<Rightarrow> Addr \<Rightarrow> u16 \<Rightarrow> world \<Rightarrow> (op_err + ServerHandle) \<times> world" where
  "StartServer te m bind port =
     bindS (teeRaw (server_spec bind port) (im_RawDir m)) (\<lambda>spec.
     bindS (ask (StartServerProcess spec) (\<lambda>n. (n, te_start te n spec))) (\<lambda>(sid, err).
       case err of
         Some e \<Rightarrow> ret (Inl (wrap_err ''testsuite: start iperf3 server: '' e))
       | None \<Rightarrow> register_server te m sid port))"

definition exitFailure :: "u16 \<Rightarrow> op_err + CommandResult \<Rightarrow> op_err" where
  "exitFailure port r =
     (case r of
        Inl e \<Rightarrow> wrap_err (''testsuite: iperf3 server on port '' @ show_port port @ '' exited before ready: '') e
      | Inr res \<Rightarrow>
          let detail = TrimSpace (cr_Stderr res)
          in if contains detail ''unable to start listener'' \<or> contains detail ''Address already in use''
             then \<lparr> oe_Is = [ErrPortInUse], oe_Text = ''testsuite: iperf3 server: port '' @ show_port port @
                      '': iperf3 port already in use ('' @ detail @ '')'' \<rparr>
             else new_err (''testsuite: iperf3 server on port '' @ show_port port @ '' exited '' @
                      show_int (cr_ExitCode res) @ '' before ready: '' @ detail))"

text \<open>
  \<open>Ready\<close>: the select over the banner, the exit of the process, the fallback timer and the context. A
  process that exited when the fallback timer fires is \<open>Exited\<close>.
\<close>

definition Server_Ready :: "tool_env \<Rightarrow> ServerHandle \<Rightarrow> world \<Rightarrow> op_err option \<times> world" where
  "Server_Ready te h =
     ask (AwaitReady (sh_id h)) (\<lambda>n. case te_ready te n of
       Banner \<Rightarrow> None
     | AliveAfterFallback \<Rightarrow> None
     | Exited r \<Rightarrow> Some (exitFailure (sh_port h) r)
     | ReadyCanceled e \<Rightarrow> Some e)"

fun stop_signals :: "stop_answer \<Rightarrow> nat \<Rightarrow> tool_event list" where
  "stop_signals AlreadyExited sid = []"
| "stop_signals ContextCanceled sid = [Kill sid]"
| "stop_signals ExitedInGrace sid = [Terminate sid]"
| "stop_signals GraceExpired sid = [Terminate sid, Kill sid]"
| "stop_signals CanceledInGrace sid = [Terminate sid, Kill sid]"

definition Server_Stop :: "tool_env \<Rightarrow> ServerHandle \<Rightarrow> world \<Rightarrow> world" where
  "Server_Stop te h w =
     (if sh_id h \<in> set (w_stopped w) then w
      else case ask (CheckDone (sh_id h)) (te_stop te) (w\<lparr> w_stopped := sh_id h # w_stopped w \<rparr>) of
             (answer, w') \<Rightarrow>
               w'\<lparr> w_trace := w_trace w' @ stop_signals answer (sh_id h) @
                     (if sh_registered h then [Unregister (sh_id h)] else []) \<rparr>)"

subsection \<open>iperf3 clients\<close>

definition baseClientArgs :: "Addr \<Rightarrow> Addr \<Rightarrow> u16 \<Rightarrow> duration \<Rightarrow> string list" where
  "baseClientArgs loc peer port dur =
     [''-c'', Addr_String peer, ''-B'', Addr_String loc, ''-p'', show_port port, ''-J'', ''--connect-timeout'', ''3000'',
      ''-t'', show_int (idiv dur second)]"

definition cpuUsageFrom :: "CPUUtil option \<Rightarrow> CPUUsage" where
  "cpuUsageFrom cpu =
     (case cpu of
        None \<Rightarrow> zero_cpu
      | Some c \<Rightarrow> \<lparr> cpu_HostTotal = cu_HostTotal c, cpu_HostUser = cu_HostUser c, cpu_HostSystem = cu_HostSystem c,
          cpu_RemoteTotal = cu_RemoteTotal c, cpu_RemoteUser = cu_RemoteUser c, cpu_RemoteSystem = cu_RemoteSystem c \<rparr>)"

definition tcpFromIperf :: "Iperf3Result \<Rightarrow> duration \<Rightarrow> int \<Rightarrow> TCPResult" where
  "tcpFromIperf p dur streams = zero_tcp\<lparr>
     tr_Duration := dur, tr_ParallelStreams := streams, tr_ThroughputVariation := ir_IntervalCoV p,
     tr_MinimumIntervalBps := ir_IntervalMinBps p, tr_MaximumIntervalBps := ir_IntervalMaxBps p,
     tr_SenderBitsPerSecond := (case ir_Sent p of Some s \<Rightarrow> ds_BitsPerSecond s | None \<Rightarrow> Fin 0),
     tr_Retransmissions := (case ir_Sent p of Some s \<Rightarrow> ds_Retransmits s | None \<Rightarrow> None),
     tr_ReceiverBitsPerSecond := (case ir_Received p of Some s \<Rightarrow> ds_BitsPerSecond s | None \<Rightarrow> Fin 0),
     tr_IntervalResults := map (\<lambda>r. \<lparr> iv_StartSec = in_StartSec r, iv_EndSec = in_EndSec r, iv_Bytes = in_Bytes r,
        iv_BitsPerSecond = in_Bps r, iv_Retransmits = in_Retransmits r \<rparr>) (ir_Intervals p),
     tr_Collapses := ir_Collapses p, tr_CPUUtilization := cpuUsageFrom (ir_CPU p) \<rparr>"

fun iperf_err :: "iperf_error \<Rightarrow> op_err" where
  "iperf_err (DecodeError e pre) = new_err (''iperf3 output is not decodable JSON: '' @ e @ ''; output begins: '' @ pre)"
| "iperf_err (IperfClient unreachable msg) =
     (if unreachable
      then \<lparr> oe_Is = [ErrIperfClient, ErrIperfUnreachable],
             oe_Text = ''iperf3 client error: iperf3 client could not reach the server: '' @ msg \<rparr>
      else \<lparr> oe_Is = [ErrIperfClient], oe_Text = ''iperf3 client error: '' @ msg \<rparr>)"
| "iperf_err (ParseError problem) = new_err (''iperf3 output is semantically incomplete: '' @ problem)"

text \<open>
  A client run returns a result and possibly an error; the result of a failed run is marked incomplete.
\<close>

definition RunTCPClient ::
  "tool_env \<Rightarrow> IperfManager \<Rightarrow> Addr \<Rightarrow> Addr \<Rightarrow> u16 \<Rightarrow> duration \<Rightarrow> int \<Rightarrow> bool \<Rightarrow> world \<Rightarrow>
   (TCPRunResult \<times> op_err option) \<times> world" where
  "RunTCPClient te m loc peer port dur streams bidir =
     (let args = baseClientArgs loc peer port dur @ [''-P'', show_int streams] @ (if bidir then [''--bidir''] else []);
          failed = (\<lambda>t. \<lparr> tq_TCP = t, tq_Incomplete = True \<rparr>)
      in bindS (run_teed te (im_RawDir m) (command ''iperf3'' args (iadd dur clientTimeoutSlack) ''iperf3-client'')) (\<lambda>r.
           ret (case r of
             Inl e \<Rightarrow> (failed (zero_tcp\<lparr> tr_Duration := dur, tr_ParallelStreams := streams \<rparr>),
                        Some (wrap_err ''testsuite: iperf3 client: '' e))
           | Inr res \<Rightarrow>
               (case ParseIperf3 (te_iperf_json te) (cr_Stdout res) of
                  (parsed, Some e) \<Rightarrow> (failed (tcpFromIperf parsed dur streams),
                                        Some (wrap_err ''testsuite: iperf3 client: '' (iperf_err e)))
                | (parsed, None) \<Rightarrow> (\<lparr> tq_TCP = tcpFromIperf parsed dur streams, tq_Incomplete = False \<rparr>, None)))))"

definition bidirDirFrom :: "f64 \<Rightarrow> f64 \<Rightarrow> u64 option \<Rightarrow> BidirDirection" where
  "bidirDirFrom sender receiver retrans =
     \<lparr> bd_SenderBitsPerSecond = sender, bd_ReceiverBitsPerSecond = receiver, bd_Retransmissions = retrans \<rparr>"

definition zero_bidir :: BidirResult where
  "zero_bidir = \<lparr> bi_Duration = 0, bi_ParallelStreams = 0, bi_PC1ToPC2 = bidirDirFrom (Fin 0) (Fin 0) None,
     bi_PC2ToPC1 = bidirDirFrom (Fin 0) (Fin 0) None, bi_CPUUtilization = zero_cpu, bi_TwoPhaseFallback = False, bi_Warnings = [] \<rparr>"

definition bidir_from :: "Iperf3Result \<Rightarrow> BidirStats \<Rightarrow> duration \<Rightarrow> int \<Rightarrow> BidirResult" where
  "bidir_from p b dur streams = zero_bidir\<lparr> bi_Duration := dur, bi_ParallelStreams := streams,
     bi_PC1ToPC2 := (let d = bs_LocalToPeer b in bidirDirFrom (ds_BitsPerSecond d) (ds_ReceiverBitsPerSecond d) (ds_Retransmits d)),
     bi_PC2ToPC1 := (let d = bs_PeerToLocal b in bidirDirFrom (ds_BitsPerSecond d) (ds_ReceiverBitsPerSecond d) (ds_Retransmits d)),
     bi_CPUUtilization := cpuUsageFrom (ir_CPU p) \<rparr>"

definition RunBidirClient ::
  "tool_env \<Rightarrow> IperfManager \<Rightarrow> Addr \<Rightarrow> Addr \<Rightarrow> u16 \<Rightarrow> duration \<Rightarrow> int \<Rightarrow> world \<Rightarrow>
   (BidirRunResult \<times> op_err option) \<times> world" where
  "RunBidirClient te m loc peer port dur streams =
     (let args = baseClientArgs loc peer port dur @ [''-P'', show_int streams, ''--bidir''];
          failed = \<lparr> bq_Bidir = zero_bidir\<lparr> bi_Duration := dur, bi_ParallelStreams := streams \<rparr>, bq_Incomplete = True \<rparr>
      in bindS (run_teed te (im_RawDir m) (command ''iperf3'' args (iadd dur clientTimeoutSlack) ''iperf3-bidir-client'')) (\<lambda>r.
           ret (case r of
             Inl e \<Rightarrow> (failed, Some (wrap_err ''testsuite: iperf3 bidir client: '' e))
           | Inr res \<Rightarrow>
               (case ParseIperf3 (te_iperf_json te) (cr_Stdout res) of
                  (parsed, Some e) \<Rightarrow> (failed, Some (wrap_err ''testsuite: iperf3 bidir client: '' (iperf_err e)))
                | (parsed, None) \<Rightarrow>
                    (case ir_Bidir parsed of
                       None \<Rightarrow> (failed, Some (new_err ''testsuite: iperf3 bidir client: output carries no bidirectional streams''))
                     | Some b \<Rightarrow> (\<lparr> bq_Bidir = bidir_from parsed b dur streams, bq_Incomplete = False \<rparr>, None))))))"

definition udpOverheadBytes :: int where "udpOverheadBytes = 28"

definition UDPPayloadForMTU :: "int \<Rightarrow> int" where
  "UDPPayloadForMTU mtu = isub mtu udpOverheadBytes"

definition udp_args :: "Addr \<Rightarrow> Addr \<Rightarrow> u16 \<Rightarrow> duration \<Rightarrow> u64 \<Rightarrow> int \<Rightarrow> string list" where
  "udp_args loc peer port dur rateBps payload =
     (let base = baseClientArgs loc peer port dur; k = length base - 2
      in take k base @ [''-u'', ''-b'', show_u64 rateBps] @ drop k base @ [''-l'', show_int payload])"

definition udpFromIperf :: "Iperf3Result \<Rightarrow> UDPStats \<Rightarrow> u64 \<Rightarrow> UDPResult" where
  "udpFromIperf p u rateBps = zero_udp\<lparr> ud_TargetBps := rateBps, ud_ActualSenderBps := us_ActualBps u,
     ud_ActualReceiverBps := fdiv (fmul (us_ActualBps u) (fsub (Fin 100) (us_LostPercent u))) (Fin 100),
     ud_LostPackets := us_Lost u, ud_TotalPackets := us_Total u, ud_LossPercent := us_LostPercent u,
     ud_JitterMs := us_JitterMs u, ud_OutOfOrder := us_OutOfOrder u, ud_CPU := cpuUsageFrom (ir_CPU p) \<rparr>"

definition RunUDPClient ::
  "tool_env \<Rightarrow> IperfManager \<Rightarrow> Addr \<Rightarrow> Addr \<Rightarrow> u16 \<Rightarrow> duration \<Rightarrow> u64 \<Rightarrow> int \<Rightarrow> world \<Rightarrow>
   (UDPRunResult \<times> op_err option) \<times> world" where
  "RunUDPClient te m loc peer port dur rateBps payload =
     (let failed = \<lparr> uq_UDP = zero_udp\<lparr> ud_TargetBps := rateBps \<rparr>, uq_Incomplete = True \<rparr>
      in bindS (run_teed te (im_RawDir m) (command ''iperf3'' (udp_args loc peer port dur rateBps payload)
                  (iadd dur clientTimeoutSlack) ''iperf3-udp-client'')) (\<lambda>r.
           ret (case r of
             Inl e \<Rightarrow> (failed, Some (wrap_err ''testsuite: iperf3 udp client: '' e))
           | Inr res \<Rightarrow>
               (case ParseIperf3 (te_iperf_json te) (cr_Stdout res) of
                  (parsed, Some e) \<Rightarrow> (failed, Some (wrap_err ''testsuite: iperf3 udp client: '' (iperf_err e)))
                | (parsed, None) \<Rightarrow>
                    (case ir_UDP parsed of
                       None \<Rightarrow> (failed, Some (new_err ''testsuite: iperf3 udp client: output carries no UDP summary''))
                     | Some u \<Rightarrow> (\<lparr> uq_UDP = udpFromIperf parsed u rateBps, uq_Incomplete = False \<rparr>, None))))))"

subsection \<open>The cable tester\<close>

record CableTester =
  cb_IfName :: string
  cb_RawDir :: string
  cb_SudoOK :: bool
  cb_Euid :: int

definition cableCommandTimeout :: duration where "cableCommandTimeout = 90 * second"

definition Privileged :: "int \<Rightarrow> CommandSpec \<Rightarrow> bool \<Rightarrow> CommandSpec option" where
  "Privileged euid spec sudoOK =
     (if euid = 0 then Some spec
      else if \<not> sudoOK then None
      else Some (spec\<lparr> co_Name := ''sudo'', co_Args := [''-n'', ''--'', co_Name spec] @ co_Args spec \<rparr>))"

definition SudoProbe :: "tool_env \<Rightarrow> world \<Rightarrow> bool \<times> world" where
  "SudoProbe te =
     bindS (run_command te (command ''sudo'' [''-n'', ''true''] (5 * second) ''sudo-probe'')) (\<lambda>r.
       ret (case r of Inl _ \<Rightarrow> False | Inr res \<Rightarrow> cr_ExitCode res = 0))"

definition cable_spec :: "CableTester \<Rightarrow> string \<Rightarrow> string \<Rightarrow> CommandSpec" where
  "cable_spec t flag label =
     (let spec = command ''ethtool'' [flag, cb_IfName t] cableCommandTimeout label
      in if cb_RawDir t \<noteq> ''''
         then spec\<lparr> co_TeeStdoutPath := Clean (cb_RawDir t @ ''/'' @ label @ ''.stdout''),
                    co_TeeStderrPath := Clean (cb_RawDir t @ ''/'' @ label @ ''.stderr'') \<rparr>
         else spec)"

text \<open>One diagnostic: its result, and whether it could be run at all.\<close>

definition cable_run :: "tool_env \<Rightarrow> CableTester \<Rightarrow> string \<Rightarrow> string \<Rightarrow> world \<Rightarrow> (CableTestResult \<times> bool \<times> op_err option) \<times> world" where
  "cable_run te t flag label =
     (case Privileged (cb_Euid t) (cable_spec t flag label) (cb_SudoOK t) of
        None \<Rightarrow> ret (zero_cable\<lparr> ct_UnavailableReason := ''requires root; passwordless sudo unavailable'' \<rparr>, False, None)
      | Some spec \<Rightarrow>
          bindS (run_command te spec) (\<lambda>r. ret (case r of
            Inl e \<Rightarrow> (zero_cable, True, Some (wrap_err (''testsuite: '' @ label @ '': '') e))
          | Inr res \<Rightarrow>
              (if flag = ''--cable-test-tdr'' then ParseCableTestTDR (cr_Stdout res) (cr_Stderr res) (cr_ExitCode res)
               else ParseCableTest (cr_Stdout res) (cr_Stderr res) (cr_ExitCode res), True, None))))"

definition with_tdr :: "CableTestResult \<Rightarrow> CableTestResult \<Rightarrow> CableTestResult" where
  "with_tdr base tdr =
     (if ct_Available tdr then base\<lparr> ct_Samples := ct_Samples tdr, ct_UnparsedLines := ct_UnparsedLines tdr \<rparr>
      else base\<lparr> ct_TDRUnavailableReason := ct_UnavailableReason tdr \<rparr>)"

definition cable_Run :: "tool_env \<Rightarrow> CableTester \<Rightarrow> bool \<Rightarrow> world \<Rightarrow> (CableTestResult \<times> op_err option) \<times> world" where
  "cable_Run te t tdr =
     bindS (cable_run te t ''--cable-test'' ''cable-test'') (\<lambda>(base, runnable, err).
       if \<not> runnable \<or> err \<noteq> None \<or> \<not> ct_Available base \<or> \<not> tdr then ret (base, err)
       else bindS (cable_run te t ''--cable-test-tdr'' ''cable-test-tdr'') (\<lambda>(tdrResult, _, err').
              ret (if err' \<noteq> None then (base, err') else (with_tdr base tdrResult, None))))"

subsection \<open>Capabilities of iperf3\<close>

definition iperfMinMinor :: int where "iperfMinMinor = 7"
definition capProbeTimeout :: duration where "capProbeTimeout = 10 * second"

definition iperfVersionRe :: re where
  "iperfVersionRe = rseq [RLit ''iperf '', RGroup 1 (RPlus is_digit), RLit ''.'', RGroup 2 (RPlus is_digit)]"

definition parse_version :: "(string \<Rightarrow> string) \<Rightarrow> string \<Rightarrow> op_err + int \<times> int" where
  "parse_version qt stdout =
     (let line = takeWhile (\<lambda>c. \<not> is_nl c) (TrimSpace stdout)
      in case FindAnchored iperfVersionRe line of
           None \<Rightarrow> Inl (new_err (''testsuite: '' @ qt line @ '' does not look like iperf3 (iperf3 3.7 or newer required)''))
         | Some m \<Rightarrow>
             let major = int_of (grp 1 m); minor = int_of (grp 2 m)
             in if major \<noteq> 3 \<or> minor < iperfMinMinor
                then Inl (new_err (''testsuite: iperf '' @ show_int major @ ''.'' @ show_int minor @
                       '' is unsupported; iperf3 3.7 or newer is required''))
                else Inr (major, minor))"

definition DetectIperfCaps :: "tool_env \<Rightarrow> world \<Rightarrow> (op_err + Iperf3Caps) \<times> world" where
  "DetectIperfCaps te =
     bindE (mapE (wrap_err ''testsuite: iperf3 capability probe: '')
       (run_command te (command ''iperf3'' [''--version''] capProbeTimeout ''iperf3-version''))) (\<lambda>ver.
     case parse_version (oc_Quote (te_codec te)) (cr_Stdout ver) of
       Inl e \<Rightarrow> ret (Inl e)
     | Inr (major, minor) \<Rightarrow>
         bindE (mapE (wrap_err ''testsuite: iperf3 capability probe: '')
           (run_command te (command ''iperf3'' [''--help''] capProbeTimeout ''iperf3-help''))) (\<lambda>help.
         let text = cr_Stdout help @ cr_Stderr help
         in ret (Inr \<lparr> ic_Version = show_int major @ ''.'' @ show_int minor, ic_JSON = True, ic_Reverse = True,
              ic_Bidir = (minor \<ge> 7 \<and> contains text ''--bidir''), ic_GetServerOutput = contains text ''--get-server-output'',
              ic_UDP = True, ic_OneOff = contains text ''--one-off'' \<rparr>)))"

end
