(* ===== verification/Plans.thy ===== *)
theory Plans
  imports TestTools Framing
begin

section \<open>The test plans\<close>

text \<open>
  Models \<open>src/internal/testsuite/suite.go\<close>, \<open>standard.go\<close>, \<open>soak.go\<close> and the plan of \<open>cable.go\<close>: the
  coordinator's sequence of tests. The state is what was measured so far and the trace of questions to
  the outside; a step is a function from state to state that may fail. In the two-phase fallback the
  local client runs beside the call of the peer; the two share no data until both are done, so their
  order in the trace is immaterial.
\<close>

subsection \<open>Results and plans\<close>

definition RolePC1Key :: string where "RolePC1Key = ''pc1''"
definition RolePC2Key :: string where "RolePC2Key = ''pc2''"

definition opCallTimeout :: duration where "opCallTimeout = 30 * second"
definition detachedCounterTimeout :: duration where "detachedCounterTimeout = 5 * second"

record SessionResults =
  sx_Link :: "LinkSettingsResult gomap"
  sx_InitialCounters :: PeerCounters
  sx_FinalCounters :: PeerCounters
  sx_Ping :: "PingResult list"
  sx_FullSizePing :: "PingResult list"
  sx_TCP :: "TCPResult list"
  sx_Bidir :: "BidirResult option"
  sx_UDP :: "UDPResult list"
  sx_CableTest :: "CableTestResult option"
  sx_UDPRateAssumed :: bool
  sx_UDPNearSaturation :: bool
  sx_Notes :: "string list"
  sx_SkippedTests :: "SkippedTest list"
  sx_MonitoringEvents :: "MonitoringEvent list"
  sx_CyclesCompleted :: int
  sx_CycleCounters :: "PeerCounters list"
  sx_Incomplete :: bool

definition zero_results :: SessionResults where
  "zero_results = \<lparr> sx_Link = [], sx_InitialCounters = zero_counters, sx_FinalCounters = zero_counters, sx_Ping = [],
     sx_FullSizePing = [], sx_TCP = [], sx_Bidir = None, sx_UDP = [], sx_CableTest = None, sx_UDPRateAssumed = False,
     sx_UDPNearSaturation = False, sx_Notes = [], sx_SkippedTests = [], sx_MonitoringEvents = [], sx_CyclesCompleted = 0,
     sx_CycleCounters = [], sx_Incomplete = False \<rparr>"

text \<open>The components of \<open>Ops\<close> and the parameters of the plan.\<close>

record QuickPlan =
  qp_Counters :: CounterCollector
  qp_Link :: LinkInspector
  qp_PingRawDir :: string
  qp_Iperf :: IperfManager
  qp_LocalIP :: Addr
  qp_PeerIP :: Addr
  qp_IperfPort :: u16
  qp_TCPDuration :: duration
  qp_UDPDuration :: duration
  qp_UDPRate :: bitrate
  qp_MTU :: int
  qp_Streams :: int
  qp_PingCount :: int
  qp_LocalIperfCaps :: Iperf3Caps
  qp_OnStep :: bool

text \<open>\<open>ps_rate\<close> is the rate the first UDP pass of the standard plan leaves for the second.\<close>

record plan_state =
  ps_w :: world
  ps_res :: SessionResults
  ps_rate :: bitrate

definition tool :: "(world \<Rightarrow> 'a \<times> world) \<Rightarrow> plan_state \<Rightarrow> 'a \<times> plan_state" where
  "tool m s = (case m (ps_w s) of (r, w) \<Rightarrow> (r, s\<lparr> ps_w := w \<rparr>))"

definition modify :: "(SessionResults \<Rightarrow> SessionResults) \<Rightarrow> plan_state \<Rightarrow> unit \<times> plan_state" where
  "modify f s = ((), s\<lparr> ps_res := f (ps_res s) \<rparr>)"

definition get_results :: "plan_state \<Rightarrow> SessionResults \<times> plan_state" where
  "get_results s = (ps_res s, s)"

definition add_notes :: "string list \<Rightarrow> SessionResults \<Rightarrow> SessionResults" where
  "add_notes ns r = r\<lparr> sx_Notes := sx_Notes r @ ns \<rparr>"

definition announceStep :: "bool \<Rightarrow> int \<Rightarrow> int \<Rightarrow> int \<Rightarrow> string \<Rightarrow> plan_state \<Rightarrow> unit \<times> plan_state" where
  "announceStep onStep rcTotal step tot name =
     tool (\<lambda>w. ((), (if onStep then tell (ShowStep step tot name) else id)
       (tell (SetStep step (if rcTotal > 0 then rcTotal else tot) name) w)))"

subsection \<open>Calls\<close>

definition add_skipped :: "string \<Rightarrow> string \<Rightarrow> SessionResults \<Rightarrow> SessionResults" where
  "add_skipped name reason r =
     (if name = '''' then r
      else if list_ex (\<lambda>k. st_Name k = name) (sx_SkippedTests r) then r
      else r\<lparr> sx_SkippedTests := sx_SkippedTests r @ [\<lparr> st_Name = name, st_Reason = reason \<rparr>] \<rparr>)"

definition remote_call :: "tool_env \<Rightarrow> string \<Rightarrow> op_params \<Rightarrow> duration \<Rightarrow> plan_state \<Rightarrow> (op_err + TestResult) \<times> plan_state" where
  "remote_call te opName params timeout = tool (ask (RemoteCall opName params timeout) (\<lambda>n. te_call te n opName params))"

definition remote_err :: "string \<Rightarrow> op_err \<Rightarrow> op_err" where
  "remote_err opName = wrap_err (''remote '' @ opName @ '': '')"

definition unavailable_reason :: "string \<Rightarrow> string \<Rightarrow> string" where
  "unavailable_reason opName err =
     (if IsUnreachableMessage err
      then SkipReasonUnreachable @ '': peer'' @ [CHR 0x27] @ ''s '' @ opName @ '' client could not connect: '' @ err
      else ''peer could not run '' @ opName @ '': '' @ err)"

text \<open>The result: a payload, an error, both (a partial result), or neither (the peer could not run it).\<close>

definition callRemoteForTest ::
  "tool_env \<Rightarrow> string \<Rightarrow> op_params \<Rightarrow> duration \<Rightarrow> string \<Rightarrow> plan_state \<Rightarrow> (op_payload option \<times> op_err option) \<times> plan_state" where
  "callRemoteForTest te opName params timeout testName =
     bindS (remote_call te opName params timeout) (\<lambda>r. case r of
       Inl e \<Rightarrow> ret (None, Some (remote_err opName e))
     | Inr res \<Rightarrow>
         if ts_Status res = StatusOK then
           (case DecodeOpResult (te_codec te) opName (ts_Result res) of
              Inl e \<Rightarrow> ret (None, Some (remote_err opName e))
            | Inr p \<Rightarrow> ret (Some p, None))
         else if ts_Status res = StatusUnavailable then
           bindS (modify (add_skipped testName (unavailable_reason opName (ts_Error res)) \<circ>
                          add_notes [unavailable_reason opName (ts_Error res)])) (\<lambda>_. ret (None, None))
         else
           ret (if ts_Result res = '''' then None
                else (case DecodeOpResult (te_codec te) opName (ts_Result res) of Inl _ \<Rightarrow> None | Inr p \<Rightarrow> Some p),
                Some (new_err (''remote '' @ opName @ '': status '' @ ts_Status res @ '': '' @ ts_Error res))))"

definition callRemote ::
  "tool_env \<Rightarrow> string \<Rightarrow> op_params \<Rightarrow> duration \<Rightarrow> plan_state \<Rightarrow> (op_payload option \<times> op_err option) \<times> plan_state" where
  "callRemote te opName params timeout = callRemoteForTest te opName params timeout ''''"

definition callRemoteDetached ::
  "tool_env \<Rightarrow> string \<Rightarrow> op_params \<Rightarrow> duration \<Rightarrow> plan_state \<Rightarrow> (op_err + op_payload) \<times> plan_state" where
  "callRemoteDetached te opName params timeout =
     bindE (mapE (remote_err opName) (tool (ask (DetachedCall opName params timeout) (\<lambda>n. te_call te n opName params)))) (\<lambda>res.
       ret (if ts_Status res \<noteq> StatusOK
            then Inl (new_err (''remote '' @ opName @ '': status '' @ ts_Status res @ '': '' @ ts_Error res))
            else case DecodeOpResult (te_codec te) opName (ts_Result res) of
                   Inl e \<Rightarrow> Inl (remote_err opName e)
                 | Inr p \<Rightarrow> Inr p))"

text \<open>The error of a pair of a payload and an error, as a step sees it.\<close>

definition payload_or_err ::
  "(plan_state \<Rightarrow> ('a \<times> op_err option) \<times> plan_state) \<Rightarrow> plan_state \<Rightarrow> (op_err + 'a) \<times> plan_state" where
  "payload_or_err m = bindS m (\<lambda>(p, err). ret (case err of Some e \<Rightarrow> Inl e | None \<Rightarrow> Inr p))"

type_synonym test_step = "plan_state \<Rightarrow> (op_err + unit) \<times> plan_state"

definition done_step :: test_step where
  "done_step = ret (Inr ())"

definition record_result :: "(SessionResults \<Rightarrow> SessionResults) \<Rightarrow> test_step" where
  "record_result f = bindS (modify f) (\<lambda>_. done_step)"

subsection \<open>Link settings and counters\<close>

definition stepLink :: "tool_env \<Rightarrow> QuickPlan \<Rightarrow> test_step" where
  "stepLink te q =
     bindE (tool (Inspect te (qp_Link q))) (\<lambda>(settings, obs).
     bindS (modify (\<lambda>r. r\<lparr> sx_Link := AList.update RolePC1Key \<lparr> lr_Settings = settings, lr_Observations = obs \<rparr> (sx_Link r) \<rparr>)) (\<lambda>_.
     bindE (payload_or_err (callRemoteForTest te OpLinkSettings NoParams opCallTimeout ''link_settings'')) (\<lambda>out.
       case out of
         Some (LinkPayload lr) \<Rightarrow> record_result (\<lambda>r. r\<lparr> sx_Link := AList.update RolePC2Key lr (sx_Link r) \<rparr>)
       | _ \<Rightarrow> done_step)))"

text \<open>
  The capture of both sides' counters; \<open>put\<close> says which pair of the results (or of the soak cycle) it
  fills. The local snapshot is stored before the peer is asked.
\<close>

definition snapshotCounters ::
  "tool_env \<Rightarrow> QuickPlan \<Rightarrow> ((PeerCounters \<Rightarrow> PeerCounters) \<Rightarrow> SessionResults \<Rightarrow> SessionResults) \<Rightarrow> test_step" where
  "snapshotCounters te q put =
     bindE (tool (Snapshot te (qp_Counters q))) (\<lambda>snap.
     bindS (modify (put (\<lambda>c. c\<lparr> pc_PC1 := Some snap \<rparr>))) (\<lambda>_.
     bindE (payload_or_err (callRemoteForTest te OpCountersSnapshot NoParams opCallTimeout ''counters'')) (\<lambda>out.
       case out of
         Some (CounterPayload cs) \<Rightarrow> record_result (put (\<lambda>c. c\<lparr> pc_PC2 := Some cs \<rparr>))
       | _ \<Rightarrow> done_step)))"

definition snapshotCountersDetached ::
  "tool_env \<Rightarrow> QuickPlan \<Rightarrow> ((PeerCounters \<Rightarrow> PeerCounters) \<Rightarrow> SessionResults \<Rightarrow> SessionResults) \<Rightarrow> test_step" where
  "snapshotCountersDetached te q put =
     bindE (tool (Snapshot te (qp_Counters q))) (\<lambda>snap.
     bindS (modify (put (\<lambda>c. c\<lparr> pc_PC1 := Some snap \<rparr>))) (\<lambda>_.
     bindE (callRemoteDetached te OpCountersSnapshot NoParams detachedCounterTimeout) (\<lambda>out.
       case out of
         CounterPayload cs \<Rightarrow> record_result (put (\<lambda>c. c\<lparr> pc_PC2 := Some cs \<rparr>))
       | _ \<Rightarrow> done_step)))"

definition put_initial :: "(PeerCounters \<Rightarrow> PeerCounters) \<Rightarrow> SessionResults \<Rightarrow> SessionResults" where
  "put_initial f r = r\<lparr> sx_InitialCounters := f (sx_InitialCounters r) \<rparr>"

definition put_final :: "(PeerCounters \<Rightarrow> PeerCounters) \<Rightarrow> SessionResults \<Rightarrow> SessionResults" where
  "put_final f r = r\<lparr> sx_FinalCounters := f (sx_FinalCounters r) \<rparr>"

definition stepInitialCounters :: "tool_env \<Rightarrow> QuickPlan \<Rightarrow> test_step" where
  "stepInitialCounters te q = snapshotCounters te q put_initial"

definition stepFinalCounters :: "tool_env \<Rightarrow> QuickPlan \<Rightarrow> test_step" where
  "stepFinalCounters te q = snapshotCounters te q put_final"

definition isCleanupCancellation :: "op_err \<Rightarrow> bool" where
  "isCleanupCancellation e \<longleftrightarrow> errors_Is e Canceled \<or> errors_Is e ErrSessionClosed \<or> errors_Is e ErrRequestTimeout"

definition has_baseline :: "CounterSnapshot option \<Rightarrow> bool" where
  "has_baseline c = (case c of None \<Rightarrow> False | Some s \<Rightarrow> cs_Standard s \<noteq> [])"

text \<open>The final capture of an aborted run; it returns the error of the run, extended where the capture failed.\<close>

definition salvage_remote :: "tool_env \<Rightarrow> op_err \<Rightarrow> plan_state \<Rightarrow> op_err \<times> plan_state" where
  "salvage_remote te runErr =
     bindS (callRemoteDetached te OpCountersSnapshot NoParams detachedCounterTimeout) (\<lambda>out.
       case out of
         Inl e \<Rightarrow> ret (if isCleanupCancellation e then runErr
                        else join_err runErr (wrap_err ''testsuite: remote final counters after abort: '' e))
       | Inr (CounterPayload cs) \<Rightarrow> bindS (modify (put_final (\<lambda>c. c\<lparr> pc_PC2 := Some cs \<rparr>))) (\<lambda>_. ret runErr)
       | Inr _ \<Rightarrow> ret runErr)"

definition salvage_local :: "tool_env \<Rightarrow> QuickPlan \<Rightarrow> op_err \<Rightarrow> plan_state \<Rightarrow> op_err \<times> plan_state" where
  "salvage_local te q runErr =
     bindS (tool (Snapshot te (qp_Counters q))) (\<lambda>r. case r of
       Inl e \<Rightarrow> ret (join_err runErr (wrap_err ''testsuite: final counters after abort: '' e))
     | Inr snap \<Rightarrow>
         bindS (modify (put_final (\<lambda>c. c\<lparr> pc_PC1 := Some snap \<rparr>))) (\<lambda>_.
         bindS get_results (\<lambda>res.
           if has_baseline (pc_PC2 (sx_InitialCounters res)) then salvage_remote te runErr else ret runErr)))"

definition salvageFinalCounters :: "tool_env \<Rightarrow> QuickPlan \<Rightarrow> op_err + unit \<Rightarrow> plan_state \<Rightarrow> (op_err + unit) \<times> plan_state" where
  "salvageFinalCounters te q outcome =
     (case outcome of
        Inr _ \<Rightarrow> ret (Inr ())
      | Inl runErr \<Rightarrow>
          bindS get_results (\<lambda>res.
            if pc_PC1 (sx_FinalCounters res) \<noteq> None \<or> pc_PC2 (sx_FinalCounters res) \<noteq> None then ret (Inl runErr)
            else if \<not> has_baseline (pc_PC1 (sx_InitialCounters res)) then ret (Inl runErr)
            else bindS (salvage_local te q runErr) (\<lambda>e. ret (Inl e))))"

subsection \<open>Ping\<close>

definition fullSizePingCount :: int where "fullSizePingCount = 100"

definition pingTimeout :: "QuickPlan \<Rightarrow> duration" where
  "pingTimeout q = iadd (imul (imul (qp_PingCount q) 1250) millisecond) (30 * second)"

definition fullSizeTimeout :: duration where
  "fullSizeTimeout = iadd (imul (imul fullSizePingCount 250) millisecond) (60 * second)"

text \<open>The common shape of the two ping steps; \<open>put\<close> is the list the results go to.\<close>

definition ping_both ::
  "tool_env \<Rightarrow> (world \<Rightarrow> (op_err + PingResult \<times> string list) \<times> world) \<Rightarrow> string \<Rightarrow> op_params \<Rightarrow> duration \<Rightarrow> string \<Rightarrow>
   (PingResult \<Rightarrow> SessionResults \<Rightarrow> SessionResults) \<Rightarrow> test_step" where
  "ping_both te loc opName params timeout testName put =
     bindE (tool loc) (\<lambda>(p, notes).
     bindS (modify (add_notes notes \<circ> put (p\<lparr> pg_Direction := DirectionPC1ToPC2 \<rparr>))) (\<lambda>_.
     bindE (payload_or_err (callRemoteForTest te opName params timeout testName)) (\<lambda>out.
       case out of
         Some (PingPayload pr) \<Rightarrow>
           record_result (add_notes (pn_Notes pr) \<circ> put ((pn_Ping pr)\<lparr> pg_Direction := DirectionPC2ToPC1 \<rparr>))
       | _ \<Rightarrow> done_step)))"

definition add_ping :: "PingResult \<Rightarrow> SessionResults \<Rightarrow> SessionResults" where
  "add_ping p r = r\<lparr> sx_Ping := sx_Ping r @ [p] \<rparr>"

definition add_fullsize :: "PingResult \<Rightarrow> SessionResults \<Rightarrow> SessionResults" where
  "add_fullsize p r = r\<lparr> sx_FullSizePing := sx_FullSizePing r @ [p] \<rparr>"

definition stepPing :: "tool_env \<Rightarrow> QuickPlan \<Rightarrow> test_step" where
  "stepPing te q =
     ping_both te (Quick te (qp_PingRawDir q) (qp_PeerIP q) (qp_PingCount q)) OpPingRun
       (PingRunParams (Addr_String (qp_LocalIP q)) (qp_PingCount q)) (pingTimeout q) ''ping'' add_ping"

definition stepFullSizePing :: "tool_env \<Rightarrow> QuickPlan \<Rightarrow> test_step" where
  "stepFullSizePing te q =
     ping_both te (FullSize te (qp_PingRawDir q) (qp_PeerIP q) (qp_MTU q) fullSizePingCount) OpPingFullSize
       (PingFullSizeParams (Addr_String (qp_LocalIP q)) fullSizePingCount) fullSizeTimeout ''full_size_ping'' add_fullsize"

subsection \<open>Throughput\<close>

definition tcpTimeout :: "QuickPlan \<Rightarrow> duration" where
  "tcpTimeout q = iadd (iadd (qp_TCPDuration q) clientTimeoutSlack) (20 * second)"

definition udpTimeout :: "QuickPlan \<Rightarrow> duration" where
  "udpTimeout q = iadd (iadd (qp_UDPDuration q) clientTimeoutSlack) (20 * second)"

definition unreachable_skip :: "string \<Rightarrow> op_err \<Rightarrow> SessionResults \<Rightarrow> SessionResults" where
  "unreachable_skip stage e =
     (let reason = SkipReasonUnreachable @ '': '' @ stage @ '' throughput client could not connect: '' @ oe_Text e
      in add_skipped stage reason \<circ> add_notes [reason])"

definition stop_remote :: "tool_env \<Rightarrow> QuickPlan \<Rightarrow> plan_state \<Rightarrow> op_err option \<times> plan_state" where
  "stop_remote te q =
     bindS (callRemote te OpIperfServerStop (IperfServerStopParams (qp_IperfPort q)) opCallTimeout) (\<lambda>(_, err). ret err)"

text \<open>
  \<open>withRemoteServer\<close>: one client phase against a server of the peer. The flag says whether the phase ran.
\<close>

definition after_client :: "string \<Rightarrow> op_err option \<Rightarrow> op_err option \<Rightarrow> plan_state \<Rightarrow> (op_err + bool) \<times> plan_state" where
  "after_client stage runErr stopErr =
     (case runErr of
        Some e \<Rightarrow>
          if errors_Is e ErrIperfUnreachable
          then bindS (modify ((case stopErr of
                  Some se \<Rightarrow> add_notes [''stopping the '' @ stage @ '' server also failed: '' @ oe_Text se]
                | None \<Rightarrow> id) \<circ> unreachable_skip stage e)) (\<lambda>_. ret (Inr True))
          else ret (Inl e)
      | None \<Rightarrow> ret (case stopErr of Some se \<Rightarrow> Inl se | None \<Rightarrow> Inr True))"

definition withRemoteServer ::
  "tool_env \<Rightarrow> QuickPlan \<Rightarrow> string \<Rightarrow> string \<Rightarrow> (plan_state \<Rightarrow> op_err option \<times> plan_state) \<Rightarrow>
   plan_state \<Rightarrow> (op_err + bool) \<times> plan_state" where
  "withRemoteServer te q stage skipNote runClient =
     bindE (payload_or_err (callRemoteForTest te OpIperfServerStart
              (IperfServerStartParams (Addr_String (qp_PeerIP q)) (qp_IperfPort q)) opCallTimeout stage)) (\<lambda>out.
       case out of
         None \<Rightarrow> bindS (modify (add_notes [skipNote])) (\<lambda>_. ret (Inr False))
       | Some _ \<Rightarrow>
           bindS runClient (\<lambda>runErr.
           bindS (stop_remote te q) (\<lambda>stopErr.
             after_client stage runErr stopErr)))"

text \<open>A phase against a server of this machine: started, awaited, and stopped on every path after the start.\<close>

definition with_local_server :: "tool_env \<Rightarrow> QuickPlan \<Rightarrow> u16 \<Rightarrow> (plan_state \<Rightarrow> (op_err + 'a) \<times> plan_state) \<Rightarrow>
  plan_state \<Rightarrow> (op_err + 'a) \<times> plan_state" where
  "with_local_server te q port phase =
     bindE (tool (StartServer te (qp_Iperf q) (qp_LocalIP q) port)) (\<lambda>h.
     bindS (tool (Server_Ready te h)) (\<lambda>err.
     bindS (case err of Some e \<Rightarrow> ret (Inl e) | None \<Rightarrow> phase) (\<lambda>r.
     bindS (tool (\<lambda>w. ((), Server_Stop te h w))) (\<lambda>_. ret r))))"

definition recordTCP :: "TCPRunResult \<Rightarrow> string \<Rightarrow> SessionResults \<Rightarrow> SessionResults" where
  "recordTCP t direction r =
     r\<lparr> sx_TCP := sx_TCP r @ [(tq_TCP t)\<lparr> tr_Direction := direction, tr_Incomplete := tq_Incomplete t \<rparr>],
        sx_Incomplete := sx_Incomplete r \<or> tq_Incomplete t \<rparr>"

definition recordUDP :: "UDPRunResult \<Rightarrow> string \<Rightarrow> SessionResults \<Rightarrow> SessionResults" where
  "recordUDP u direction r =
     r\<lparr> sx_UDP := sx_UDP r @ [(uq_UDP u)\<lparr> ud_Direction := direction \<rparr>],
        sx_Incomplete := sx_Incomplete r \<or> uq_Incomplete u \<rparr>"

definition unreachable :: "op_err option \<Rightarrow> bool" where
  "unreachable err = (case err of Some e \<Rightarrow> errors_Is e ErrIperfUnreachable | None \<Rightarrow> False)"

definition ignore_flag :: "(plan_state \<Rightarrow> (op_err + bool) \<times> plan_state) \<Rightarrow> test_step" where
  "ignore_flag m = bindE m (\<lambda>_. done_step)"

definition right_arrow_text :: string where
  "right_arrow_text = [CHR 0xE2, CHR 0x86, CHR 0x92]"

definition stepTCPForward :: "tool_env \<Rightarrow> QuickPlan \<Rightarrow> test_step" where
  "stepTCPForward te q =
     ignore_flag (withRemoteServer te q ''tcp''
       (''TCP throughput PC1 '' @ right_arrow_text @ '' PC2 skipped: peer iperf3 unavailable'')
       (bindS (tool (RunTCPClient te (qp_Iperf q) (qp_LocalIP q) (qp_PeerIP q) (qp_IperfPort q) (qp_TCPDuration q) (qp_Streams q) False))
         (\<lambda>(res, runErr).
          bindS (modify (if unreachable runErr then id else recordTCP res DirectionPC1ToPC2)) (\<lambda>_. ret runErr))))"

definition client_params :: "QuickPlan \<Rightarrow> u16 \<Rightarrow> op_params" where
  "client_params q port = IperfClientRunParams (Addr_String (qp_PeerIP q)) (Addr_String (qp_LocalIP q)) port
     (idiv (qp_TCPDuration q) second) (qp_Streams q) False"

text \<open>A remote client phase records what it got, also beside an error.\<close>

definition record_payload :: "op_payload option \<Rightarrow> op_err option \<Rightarrow> (op_payload \<Rightarrow> SessionResults \<Rightarrow> SessionResults) \<Rightarrow> test_step" where
  "record_payload out err put =
     bindS (modify (case out of Some p \<Rightarrow> put p | None \<Rightarrow> id)) (\<lambda>_.
       ret (case err of Some e \<Rightarrow> Inl e | None \<Rightarrow> Inr ()))"

definition put_tcp :: "op_payload \<Rightarrow> SessionResults \<Rightarrow> SessionResults" where
  "put_tcp p = (case p of TCPPayload t \<Rightarrow> recordTCP t DirectionPC2ToPC1 | _ \<Rightarrow> id)"

definition put_udp :: "op_payload \<Rightarrow> SessionResults \<Rightarrow> SessionResults" where
  "put_udp p = (case p of UDPPayload u \<Rightarrow> recordUDP u DirectionPC2ToPC1 | _ \<Rightarrow> id)"

definition stepTCPReverse :: "tool_env \<Rightarrow> QuickPlan \<Rightarrow> test_step" where
  "stepTCPReverse te q =
     with_local_server te q (qp_IperfPort q)
       (bindS (callRemoteForTest te OpIperfClientRun (client_params q (qp_IperfPort q)) (tcpTimeout q) ''tcp'')
         (\<lambda>(out, err). record_payload out err put_tcp))"

subsection \<open>The bidirectional stress test\<close>

definition bidirNative :: "tool_env \<Rightarrow> QuickPlan \<Rightarrow> test_step" where
  "bidirNative te q =
     ignore_flag (withRemoteServer te q ''bidirectional'' ''bidirectional stress skipped: peer iperf3 unavailable''
       (bindS (tool (RunBidirClient te (qp_Iperf q) (qp_LocalIP q) (qp_PeerIP q) (qp_IperfPort q) (qp_TCPDuration q) (qp_Streams q)))
         (\<lambda>(res, runErr).
          bindS (modify (if unreachable runErr then id
                 else (\<lambda>r. r\<lparr> sx_Bidir := Some (bq_Bidir res), sx_Incomplete := sx_Incomplete r \<or> bq_Incomplete res \<rparr>)))
            (\<lambda>_. ret runErr))))"

definition bidir_local :: "TCPRunResult option \<Rightarrow> BidirResult \<Rightarrow> BidirResult" where
  "bidir_local loc b =
     (case loc of
        None \<Rightarrow> b
      | Some t \<Rightarrow>
          let b = b\<lparr> bi_PC1ToPC2 := bidirDirFrom (tr_SenderBitsPerSecond (tq_TCP t)) (tr_ReceiverBitsPerSecond (tq_TCP t))
                      (tr_Retransmissions (tq_TCP t)) \<rparr>
          in if tq_Incomplete t then b else b\<lparr> bi_CPUUtilization := tr_CPUUtilization (tq_TCP t) \<rparr>)"

definition bidir_remote :: "op_payload option \<Rightarrow> BidirResult \<Rightarrow> BidirResult" where
  "bidir_remote out b =
     (case out of
        Some (TCPPayload t) \<Rightarrow>
          b\<lparr> bi_PC2ToPC1 := bidirDirFrom (tr_SenderBitsPerSecond (tq_TCP t)) (tr_ReceiverBitsPerSecond (tq_TCP t))
               (tr_Retransmissions (tq_TCP t)) \<rparr>
      | _ \<Rightarrow> b)"

definition bidir_incomplete :: "TCPRunResult option \<Rightarrow> op_payload option \<Rightarrow> bool" where
  "bidir_incomplete loc out \<longleftrightarrow>
     (case loc of Some t \<Rightarrow> tq_Incomplete t | None \<Rightarrow> False) \<or>
     (case out of Some (TCPPayload t) \<Rightarrow> tq_Incomplete t | _ \<Rightarrow> False)"

definition fallback_result :: "QuickPlan \<Rightarrow> string \<Rightarrow> TCPRunResult option \<Rightarrow> op_payload option \<Rightarrow> SessionResults \<Rightarrow> SessionResults" where
  "fallback_result q note loc out r =
     r\<lparr> sx_Bidir := Some (bidir_remote out (bidir_local loc (zero_bidir\<lparr> bi_Duration := qp_TCPDuration q,
          bi_ParallelStreams := qp_Streams q, bi_TwoPhaseFallback := True, bi_Warnings := [note] \<rparr>))),
        sx_Incomplete := sx_Incomplete r \<or> bidir_incomplete loc out \<rparr>"

text \<open>
  Both clients, the recording of what they measured and the stop of the remote server; what is returned is
  the outcome and that the remote server has been stopped.
\<close>

definition fallback_clients :: "tool_env \<Rightarrow> QuickPlan \<Rightarrow> string \<Rightarrow> test_step" where
  "fallback_clients te q note =
     bindS (tool (RunTCPClient te (qp_Iperf q) (qp_LocalIP q) (qp_PeerIP q) (qp_IperfPort q) (qp_TCPDuration q) (qp_Streams q) False))
       (\<lambda>(localRes, localErr).
     bindS (callRemoteForTest te OpIperfClientRun (client_params q (qp_IperfPort q + 1)) (tcpTimeout q) ''bidirectional'')
       (\<lambda>(remoteOut, remoteErr).
     bindS (modify (fallback_result q note (if unreachable localErr then None else Some localRes) remoteOut \<circ>
              (case localErr of Some e \<Rightarrow> if unreachable localErr then unreachable_skip ''bidirectional'' e else id | None \<Rightarrow> id)))
       (\<lambda>_.
     bindS (stop_remote te q) (\<lambda>stopErr.
       let localErr = (if unreachable localErr then None else localErr)
       in ret (case (localErr, remoteErr, stopErr) of
                 (None, None, Some e) \<Rightarrow> Inl e
               | (Some e, _, _) \<Rightarrow> Inl e
               | (None, Some e, _) \<Rightarrow> Inl e
               | (None, None, None) \<Rightarrow> Inr ())))))"

text \<open>
  The remote server is stopped by \<open>fallback_clients\<close> itself; on the paths that do not reach it, the
  deferred stop runs after the local server is stopped.
\<close>

definition bidirFallback :: "tool_env \<Rightarrow> QuickPlan \<Rightarrow> string \<Rightarrow> test_step" where
  "bidirFallback te q note =
     bindE (payload_or_err (callRemoteForTest te OpIperfServerStart
              (IperfServerStartParams (Addr_String (qp_PeerIP q)) (qp_IperfPort q)) opCallTimeout ''bidirectional'')) (\<lambda>out.
       case out of
         None \<Rightarrow> record_result (add_notes [''bidirectional stress skipped: peer iperf3 unavailable''])
       | Some _ \<Rightarrow>
           bindS (with_local_server te q (qp_IperfPort q + 1)
                    (bindS (fallback_clients te q note) (\<lambda>r. ret (Inr r)))) (\<lambda>r. case r of
             Inr outcome \<Rightarrow> ret outcome
           | Inl e \<Rightarrow> bindS (stop_remote te q) (\<lambda>_. ret (Inl e))))"

definition fallback_note :: "QuickPlan \<Rightarrow> string" where
  "fallback_note q = ''iperf3 --bidir is unavailable on at least one peer; the bidirectional stress test ran as two coordinated one-way phases on ports '' @
     show_port (qp_IperfPort q) @ '' and '' @ show_port (qp_IperfPort q + 1) @ '' instead of a single simultaneous run''"

definition stepBidir :: "tool_env \<Rightarrow> QuickPlan \<Rightarrow> test_step" where
  "stepBidir te q =
     bindE (payload_or_err (callRemote te OpIperfCaps NoParams opCallTimeout)) (\<lambda>out.
       if ic_Bidir (qp_LocalIperfCaps q) \<and> (case out of Some (CapsPayload c) \<Rightarrow> ic_Bidir c | _ \<Rightarrow> False)
       then bidirNative te q
       else bindS (modify (add_notes [fallback_note q])) (\<lambda>_. bidirFallback te q (fallback_note q)))"

subsection \<open>UDP\<close>

definition negotiated_step :: "LinkSettingsResult gomap \<Rightarrow> string \<Rightarrow> int \<Rightarrow> int" where
  "negotiated_step links key best =
     (case map_of links key of
        None \<Rightarrow> best
      | Some lr \<Rightarrow>
          if ls_SpeedMbps (lr_Settings lr) \<le> 0 then best
          else if best = 0 \<or> ls_SpeedMbps (lr_Settings lr) < best then ls_SpeedMbps (lr_Settings lr) else best)"

definition negotiatedBitrate :: "SessionResults \<Rightarrow> bitrate" where
  "negotiatedBitrate r = word_of_int (fold (negotiated_step (sx_Link r)) [RolePC1Key, RolePC2Key] 0) * 1000000"

definition udpRate :: "QuickPlan \<Rightarrow> plan_state \<Rightarrow> bitrate \<times> plan_state" where
  "udpRate q =
     bindS get_results (\<lambda>res.
       let negotiated = negotiatedBitrate res
       in if qp_UDPRate q > 0 then
            (case CheckExplicitUDPRate (qp_UDPRate q) negotiated of (near, warns) \<Rightarrow>
               bindS (modify (\<lambda>r. (add_notes warns r)\<lparr> sx_UDPNearSaturation := sx_UDPNearSaturation r \<or> near \<rparr>)) (\<lambda>_.
               ret (qp_UDPRate q)))
          else
            (case DefaultUDPRate negotiated of (rate, warns) \<Rightarrow>
               bindS (modify (\<lambda>r. (add_notes warns r)\<lparr> sx_UDPRateAssumed := sx_UDPRateAssumed r \<or> negotiated = 0 \<rparr>)) (\<lambda>_.
               ret rate)))"

definition udp_params :: "QuickPlan \<Rightarrow> bitrate \<Rightarrow> op_params" where
  "udp_params q rate = UDPRunParams (Addr_String (qp_PeerIP q)) (Addr_String (qp_LocalIP q)) (qp_IperfPort q)
     (idiv (qp_UDPDuration q) second) rate"

definition stepUDPAtRate :: "tool_env \<Rightarrow> QuickPlan \<Rightarrow> bitrate \<Rightarrow> test_step" where
  "stepUDPAtRate te q rate =
     bindE (withRemoteServer te q ''udp'' ''UDP loss/jitter skipped: peer iperf3 unavailable''
       (bindS (tool (RunUDPClient te (qp_Iperf q) (qp_LocalIP q) (qp_PeerIP q) (qp_IperfPort q) (qp_UDPDuration q) rate
                      (UDPPayloadForMTU (qp_MTU q))))
         (\<lambda>(res, runErr).
          bindS (modify (if unreachable runErr then id else recordUDP res DirectionPC1ToPC2)) (\<lambda>_. ret runErr)))) (\<lambda>ran.
       if \<not> ran then done_step
       else with_local_server te q (qp_IperfPort q)
              (bindS (callRemoteForTest te OpIperfUDPRun (udp_params q rate) (udpTimeout q) ''udp'')
                (\<lambda>(out, err). record_payload out err put_udp)))"

definition stepUDP :: "tool_env \<Rightarrow> QuickPlan \<Rightarrow> test_step" where
  "stepUDP te q = bindS (udpRate q) (stepUDPAtRate te q)"

subsection \<open>The quick and the standard plan\<close>

type_synonym plan_step = "string \<times> test_step"

text \<open>\<open>rcTotal\<close> is the total that a wrapping cable plan announces to the peer, 0 without one.\<close>

fun run_steps :: "string \<Rightarrow> bool \<Rightarrow> int \<Rightarrow> int \<Rightarrow> int \<Rightarrow> plan_step list \<Rightarrow> test_step" where
  "run_steps what onStep rcTotal tot i [] = done_step"
| "run_steps what onStep rcTotal tot i ((name, stp) # steps) =
     bindS (announceStep onStep rcTotal i tot name) (\<lambda>_.
     bindS stp (\<lambda>r. case r of
       Inl e \<Rightarrow> bindS (modify (\<lambda>r. r\<lparr> sx_Incomplete := True \<rparr>)) (\<lambda>_.
                  ret (Inl (wrap_err (''testsuite: '' @ what @ ''step '' @ show_int i @ '' ('' @ name @ ''): '') e)))
     | Inr _ \<Rightarrow> run_steps what onStep rcTotal tot (i + 1) steps))"

definition tcp_name :: "string \<Rightarrow> string \<Rightarrow> string" where
  "tcp_name a b = ''TCP throughput '' @ a @ '' '' @ right_arrow_text @ '' '' @ b"

definition quickSteps :: "string list" where
  "quickSteps = [''link settings'', ''initial counter snapshot'', ''ping stability'', ''full-size ping'',
     tcp_name ''PC1'' ''PC2'', tcp_name ''PC2'' ''PC1'', ''bidirectional stress'', ''UDP loss and jitter'', ''final counter snapshot'']"

definition quick_plan :: "tool_env \<Rightarrow> QuickPlan \<Rightarrow> plan_step list" where
  "quick_plan te q = zip quickSteps
     [stepLink te q, stepInitialCounters te q, stepPing te q, stepFullSizePing te q, stepTCPForward te q, stepTCPReverse te q,
      stepBidir te q, stepUDP te q, stepFinalCounters te q]"

definition QuickPlan_Run :: "tool_env \<Rightarrow> QuickPlan \<Rightarrow> int \<Rightarrow> test_step" where
  "QuickPlan_Run te q rcTotal =
     bindS (run_steps '''' (qp_OnStep q) rcTotal (int (length quickSteps)) 1 (quick_plan te q)) (salvageFinalCounters te q)"

definition repeats :: "int \<Rightarrow> int" where
  "repeats n = (if n < 1 then 1 else n)"

definition repeat_names :: "string \<Rightarrow> int \<Rightarrow> string list" where
  "repeat_names name reps = map (\<lambda>i. name @ '' (repeat '' @ show_int i @ ''/'' @ show_int reps @ '')'') [1..reps]"

definition planSteps :: "int \<Rightarrow> string list" where
  "planSteps tcpRepeats =
     (let reps = repeats tcpRepeats
      in [''link settings'', ''initial counter snapshot'', ''ping stability'', ''full-size ping''] @
         repeat_names (tcp_name ''PC1'' ''PC2'') reps @ repeat_names (tcp_name ''PC2'' ''PC1'') reps @
         [''bidirectional stress'', ''UDP loss and jitter'', ''reduced-rate UDP loss and jitter'', ''final counter snapshot''])"

definition standardExtraUDPRateFraction :: bitrate where "standardExtraUDPRateFraction = 50"

definition reducedRate :: "bitrate \<Rightarrow> bitrate" where
  "reducedRate defaultRate = defaultRate * standardExtraUDPRateFraction div 100"

definition udp_default_pass :: "tool_env \<Rightarrow> QuickPlan \<Rightarrow> test_step" where
  "udp_default_pass te q =
     bindS (udpRate q) (\<lambda>rate.
     bindS (\<lambda>s. ((), s\<lparr> ps_rate := rate \<rparr>)) (\<lambda>_. stepUDPAtRate te q rate))"

definition udp_reduced_pass :: "tool_env \<Rightarrow> QuickPlan \<Rightarrow> test_step" where
  "udp_reduced_pass te q s = stepUDPAtRate te q (reducedRate (ps_rate s)) s"

definition standard_plan :: "tool_env \<Rightarrow> QuickPlan \<Rightarrow> int \<Rightarrow> plan_step list" where
  "standard_plan te q tcpRepeats =
     (let reps = nat (repeats tcpRepeats)
      in zip (planSteps tcpRepeats)
         ([stepLink te q, stepInitialCounters te q, stepPing te q, stepFullSizePing te q] @
          replicate reps (stepTCPForward te q) @ replicate reps (stepTCPReverse te q) @
          [stepBidir te q, udp_default_pass te q, udp_reduced_pass te q, stepFinalCounters te q]))"

definition StandardPlan_Run :: "tool_env \<Rightarrow> QuickPlan \<Rightarrow> int \<Rightarrow> int \<Rightarrow> test_step" where
  "StandardPlan_Run te q tcpRepeats rcTotal =
     bindS (run_steps ''standard '' (qp_OnStep q) rcTotal (int (length (planSteps tcpRepeats))) 1 (standard_plan te q tcpRepeats))
       (salvageFinalCounters te q)"

subsection \<open>The soak plan\<close>

record SoakPlan =
  so_Engine :: QuickPlan
  so_TCPRepeats :: int
  so_SoakDuration :: duration
  so_SoakLoad :: string
  so_CycleGap :: duration
  so_EventSource :: bool

definition soakSteps :: "string list" where
  "soakSteps = [''cycle counter snapshot'', ''ping stability'', tcp_name ''PC1'' ''PC2'', tcp_name ''PC2'' ''PC1'', ''UDP loss and jitter'']"

definition cycle_gap :: "SoakPlan \<Rightarrow> duration" where
  "cycle_gap p = (if so_SoakLoad p = SoakLoadContinuous then 0 else if so_CycleGap p > 0 then so_CycleGap p else 0)"

text \<open>\<open>n\<close> times the same step, stopping at the first error.\<close>

fun repeat_step :: "nat \<Rightarrow> test_step \<Rightarrow> test_step" where
  "repeat_step 0 stp = done_step"
| "repeat_step (Suc n) stp = bindE stp (\<lambda>_. repeat_step n stp)"

definition announce_cycle :: "SoakPlan \<Rightarrow> int \<Rightarrow> int \<Rightarrow> nat \<Rightarrow> test_step" where
  "announce_cycle p rcTotal cycle k =
     bindS (announceStep (qp_OnStep (so_Engine p)) rcTotal (int k + 1) (int (length soakSteps))
       (''cycle '' @ show_int cycle @ '': '' @ soakSteps ! k)) (\<lambda>_. done_step)"

text \<open>
  One cycle on an accumulator of its own, which holds the link settings of the session; the cycle's first
  counters are kept in its initial, its last ones in its final counters.
\<close>

definition cycle_steps :: "tool_env \<Rightarrow> SoakPlan \<Rightarrow> int \<Rightarrow> int \<Rightarrow> test_step" where
  "cycle_steps te p rcTotal cycle =
     (let q = so_Engine p; reps = nat (repeats (so_TCPRepeats p))
      in bindE (announce_cycle p rcTotal cycle 0) (\<lambda>_.
         bindE (snapshotCounters te q put_initial) (\<lambda>_.
         bindE (announce_cycle p rcTotal cycle 1) (\<lambda>_.
         bindE (stepPing te q) (\<lambda>_.
         bindE (announce_cycle p rcTotal cycle 2) (\<lambda>_.
         bindE (repeat_step reps (stepTCPForward te q)) (\<lambda>_.
         bindE (announce_cycle p rcTotal cycle 3) (\<lambda>_.
         bindE (repeat_step reps (stepTCPReverse te q)) (\<lambda>_.
         bindE (if qp_UDPDuration q > 0
                then bindE (announce_cycle p rcTotal cycle 4) (\<lambda>_. stepUDP te q) else done_step) (\<lambda>_.
           snapshotCounters te q put_final))))))))))"

definition runCycle :: "tool_env \<Rightarrow> SoakPlan \<Rightarrow> int \<Rightarrow> int \<Rightarrow> plan_state \<Rightarrow> (op_err + SessionResults) \<times> plan_state" where
  "runCycle te p rcTotal cycle s =
     (case cycle_steps te p rcTotal cycle (s\<lparr> ps_res := zero_results\<lparr> sx_Link := sx_Link (ps_res s) \<rparr> \<rparr>) of
        (Inl e, s') \<Rightarrow> (Inl e, s'\<lparr> ps_res := ps_res s \<rparr>)
      | (Inr _, s') \<Rightarrow> (Inr (ps_res s'), s'\<lparr> ps_res := ps_res s \<rparr>))"

definition commitCycle :: "SessionResults \<Rightarrow> SessionResults \<Rightarrow> SessionResults" where
  "commitCycle c r = r\<lparr> sx_Ping := sx_Ping r @ sx_Ping c, sx_FullSizePing := sx_FullSizePing r @ sx_FullSizePing c,
     sx_TCP := sx_TCP r @ sx_TCP c, sx_UDP := sx_UDP r @ sx_UDP c, sx_Notes := sx_Notes r @ sx_Notes c,
     sx_SkippedTests := sx_SkippedTests r @ sx_SkippedTests c,
     sx_UDPRateAssumed := sx_UDPRateAssumed r \<or> sx_UDPRateAssumed c,
     sx_UDPNearSaturation := sx_UDPNearSaturation r \<or> sx_UDPNearSaturation c,
     sx_CycleCounters := sx_CycleCounters r @ [sx_InitialCounters c] \<rparr>"

definition count_cycle :: "SessionResults \<Rightarrow> SessionResults" where
  "count_cycle r = r\<lparr> sx_CyclesCompleted := iadd (sx_CyclesCompleted r) 1 \<rparr>"

definition recordEvents :: "tool_env \<Rightarrow> SoakPlan \<Rightarrow> plan_state \<Rightarrow> unit \<times> plan_state" where
  "recordEvents te p =
     (if so_EventSource p
      then bindS (tool (ask ReadEvents (te_events te))) (\<lambda>events.
             modify (\<lambda>r. if events = [] then r else r\<lparr> sx_MonitoringEvents := events \<rparr>))
      else ret ())"

definition clock_now :: "tool_env \<Rightarrow> plan_state \<Rightarrow> gotime \<times> plan_state" where
  "clock_now te = tool (ask ReadClock (te_now te))"

definition stoppedBySoakBudget :: "tool_env \<Rightarrow> op_err \<Rightarrow> plan_state \<Rightarrow> bool \<times> plan_state" where
  "stoppedBySoakBudget te e =
     bindS (tool (ask CheckContext (te_budgetExpired te))) (\<lambda>expired. ret (expired \<and> errors_Is e Canceled))"

definition waitGap :: "tool_env \<Rightarrow> SoakPlan \<Rightarrow> duration \<Rightarrow> plan_state \<Rightarrow> op_err option \<times> plan_state" where
  "waitGap te p remaining =
     (let gap = min (cycle_gap p) remaining
      in if gap \<le> 0 then ret None else tool (ask (WaitGap gap) (te_gap te)))"

definition mark_incomplete :: "op_err \<Rightarrow> test_step" where
  "mark_incomplete e = bindS (modify (\<lambda>r. r\<lparr> sx_Incomplete := True \<rparr>)) (\<lambda>_. ret (Inl e))"

definition interrupted_err :: "SessionResults \<Rightarrow> op_err \<Rightarrow> op_err" where
  "interrupted_err r = wrap_err (''testsuite: soak interrupted after '' @ show_int (sx_CyclesCompleted r) @ '' cycles: '')"

text \<open>What one round of the loop decides: go on with the next cycle, or leave the loop with an outcome.\<close>

datatype soak_round = NextCycle | LeaveLoop "op_err + unit"

definition leave :: "op_err + unit \<Rightarrow> plan_state \<Rightarrow> soak_round \<times> plan_state" where
  "leave r = ret (LeaveLoop r)"

definition leave_with :: "(SessionResults \<Rightarrow> op_err) \<Rightarrow> plan_state \<Rightarrow> soak_round \<times> plan_state" where
  "leave_with err =
     bindS get_results (\<lambda>r. bindS (mark_incomplete (err r)) leave)"

definition soak_gap :: "tool_env \<Rightarrow> SoakPlan \<Rightarrow> gotime \<Rightarrow> plan_state \<Rightarrow> soak_round \<times> plan_state" where
  "soak_gap te p deadline =
     bindS (clock_now te) (\<lambda>now.
       if now \<ge> deadline then leave (Inr ())
       else if cycle_gap p = 0 then ret NextCycle
       else bindS (clock_now te) (\<lambda>now.
            bindS (waitGap te p (deadline - now)) (\<lambda>err. case err of
              None \<Rightarrow> ret NextCycle
            | Some e \<Rightarrow> bindS (stoppedBySoakBudget te e) (\<lambda>stopped.
                if stopped then leave (Inr ()) else leave_with (\<lambda>r. interrupted_err r e)))))"

definition soak_cycle :: "tool_env \<Rightarrow> SoakPlan \<Rightarrow> int \<Rightarrow> gotime \<Rightarrow> int \<Rightarrow> plan_state \<Rightarrow> soak_round \<times> plan_state" where
  "soak_cycle te p rcTotal deadline cycle =
     bindS (runCycle te p rcTotal cycle) (\<lambda>r. case r of
       Inl e \<Rightarrow> bindS (stoppedBySoakBudget te e) (\<lambda>stopped.
           if stopped then leave (Inr ())
           else leave_with (\<lambda>_. wrap_err (''testsuite: soak cycle '' @ show_int cycle @ '': '') e))
     | Inr c \<Rightarrow>
         bindS (modify (count_cycle \<circ> commitCycle c)) (\<lambda>_.
         bindS (recordEvents te p) (\<lambda>_. soak_gap te p deadline)))"

definition soak_round_of :: "tool_env \<Rightarrow> SoakPlan \<Rightarrow> int \<Rightarrow> gotime \<Rightarrow> int \<Rightarrow> plan_state \<Rightarrow> soak_round \<times> plan_state" where
  "soak_round_of te p rcTotal deadline cycle =
     bindS (clock_now te) (\<lambda>now.
       if now \<ge> deadline then leave (Inr ())
       else bindS (tool (ask CheckContext (te_ctxErr te))) (\<lambda>err. case err of
              Some e \<Rightarrow> leave_with (\<lambda>r. interrupted_err r e)
            | None \<Rightarrow> soak_cycle te p rcTotal deadline cycle))"

text \<open>The loop has no bound of its own: \<open>None\<close> is the value of a run whose clock never reaches the deadline.\<close>

partial_function (option) soak_loop ::
  "tool_env \<Rightarrow> SoakPlan \<Rightarrow> int \<Rightarrow> gotime \<Rightarrow> int \<Rightarrow> plan_state \<Rightarrow> ((op_err + unit) \<times> plan_state) option" where
  "soak_loop te p rcTotal deadline cycle s =
     (case soak_round_of te p rcTotal deadline cycle s of
        (LeaveLoop r, s') \<Rightarrow> Some (r, s')
      | (NextCycle, s') \<Rightarrow> soak_loop te p rcTotal deadline (iadd cycle 1) s')"

definition soak_setup :: "tool_env \<Rightarrow> SoakPlan \<Rightarrow> plan_state \<Rightarrow> (op_err + gotime) \<times> plan_state" where
  "soak_setup te p =
     bindS (clock_now te) (\<lambda>now.
     bindS (stepLink te (so_Engine p)) (\<lambda>r. case r of
       Inl e \<Rightarrow> bindS (mark_incomplete e) (\<lambda>_. ret (Inl (wrap_err ''testsuite: soak link settings: '' e)))
     | Inr _ \<Rightarrow>
         bindS (snapshotCounters te (so_Engine p) put_initial) (\<lambda>r. case r of
           Inl e \<Rightarrow> bindS (mark_incomplete e) (\<lambda>_. ret (Inl (wrap_err ''testsuite: soak initial counters: '' e)))
         | Inr _ \<Rightarrow> ret (Inr (now + so_SoakDuration p)))))"

definition soak_body :: "tool_env \<Rightarrow> SoakPlan \<Rightarrow> int \<Rightarrow> plan_state \<Rightarrow> ((op_err + unit) \<times> plan_state) option" where
  "soak_body te p rcTotal s =
     (case soak_setup te p s of
        (Inl e, s') \<Rightarrow> Some (Inl e, s')
      | (Inr deadline, s') \<Rightarrow> soak_loop te p rcTotal deadline 1 s')"

definition soak_final :: "tool_env \<Rightarrow> SoakPlan \<Rightarrow> op_err + unit \<Rightarrow> test_step" where
  "soak_final te p outcome =
     bindS (snapshotCountersDetached te (so_Engine p) put_final) (\<lambda>r. case r of
       Inr _ \<Rightarrow> ret outcome
     | Inl e \<Rightarrow>
         bindS (modify (\<lambda>r. r\<lparr> sx_Incomplete := True \<rparr>)) (\<lambda>_.
           let finalErr = wrap_err ''testsuite: soak final counters: '' e
           in ret (case outcome of
                Inr _ \<Rightarrow> Inl finalErr
              | Inl runErr \<Rightarrow> if isCleanupCancellation e then Inl runErr else Inl (join_err runErr finalErr))))"

definition SoakPlan_Run :: "tool_env \<Rightarrow> SoakPlan \<Rightarrow> int \<Rightarrow> plan_state \<Rightarrow> ((op_err + unit) \<times> plan_state) option" where
  "SoakPlan_Run te p rcTotal s =
     (case soak_body te p rcTotal s of
        None \<Rightarrow> None
      | Some (r, s') \<Rightarrow> Some (soak_final te p r s'))"

subsection \<open>The cable diagnostic\<close>

record CablePlan =
  cq_Tester :: CableTester
  cq_TDR :: bool
  cq_NormalIdleTimeout :: duration
  cq_Window :: bool
  cq_OnStep :: bool
  cq_Step :: int
  cq_Total :: int

definition cableWindowTimeout :: duration where "cableWindowTimeout = 240 * second"

definition window_failed :: "op_err + TestResult \<Rightarrow> string option" where
  "window_failed r =
     (case r of
        Inl e \<Rightarrow> Some ('': '' @ oe_Text e)
      | Inr res \<Rightarrow>
          if ts_Status res = StatusOK then None
          else Some (if ts_Error res \<noteq> '''' then '': '' @ ts_Error res else ''''))"

definition set_carrier1 :: "u64 \<Rightarrow> SessionResults \<Rightarrow> SessionResults" where
  "set_carrier1 n r = r\<lparr> sx_CableTest := map_option (\<lambda>c. c\<lparr> ct_SelfInflictedCarrierEvents :=
      (ct_SelfInflictedCarrierEvents c)\<lparr> pce_PC1 := n \<rparr> \<rparr>) (sx_CableTest r) \<rparr>"

definition set_carrier2 :: "u64 \<Rightarrow> SessionResults \<Rightarrow> SessionResults" where
  "set_carrier2 n r = r\<lparr> sx_CableTest := map_option (\<lambda>c. c\<lparr> ct_SelfInflictedCarrierEvents :=
      (ct_SelfInflictedCarrierEvents c)\<lparr> pce_PC2 := n \<rparr> \<rparr>) (sx_CableTest r) \<rparr>"

definition end_window :: "tool_env \<Rightarrow> CablePlan \<Rightarrow> plan_state \<Rightarrow> unit \<times> plan_state" where
  "end_window te p =
     (if cq_Window p then bindS (tool (ask EndWindow (te_window te))) (\<lambda>n. modify (set_carrier1 n)) else ret ())"

definition restore_timeout :: "CablePlan \<Rightarrow> plan_state \<Rightarrow> unit \<times> plan_state" where
  "restore_timeout p =
     tool (\<lambda>w. ((), tell (IdleTimeoutSet (if cq_NormalIdleTimeout p \<le> 0 then DefaultIdleTimeout else cq_NormalIdleTimeout p)) w))"

definition close_peer_window :: "tool_env \<Rightarrow> plan_state \<Rightarrow> unit \<times> plan_state" where
  "close_peer_window te =
     bindS (remote_call te OpCableTestWindowEnd NoParams (30 * second)) (\<lambda>r.
       case window_failed r of
         Some why \<Rightarrow> modify (add_notes [''cable-test peer recovery was best-effort; the local diagnostic result was retained'' @ why])
       | None \<Rightarrow>
           (case r of
              Inl _ \<Rightarrow> ret ()
            | Inr res \<Rightarrow>
                (case oc_Window (te_codec te) (ts_Result res) of
                   Inl e \<Rightarrow> modify (add_notes [''cable-test peer window result was malformed: '' @ e])
                 | Inr w \<Rightarrow> modify (set_carrier2 (cw_SelfInflictedCarrierEvents w)))))"

definition cable_window :: "tool_env \<Rightarrow> CablePlan \<Rightarrow> test_step" where
  "cable_window te p =
     bindS (tool (\<lambda>w. ((), (if cq_Window p then tell BeginWindow else id) w))) (\<lambda>_.
     bindS (tool (cable_Run te (cq_Tester p) (cq_TDR p))) (\<lambda>(result, runErr).
     bindS (modify (\<lambda>r. r\<lparr> sx_CableTest := Some result \<rparr>)) (\<lambda>_.
     bindS (case runErr of Some e \<Rightarrow> ret (Inl e) | None \<Rightarrow> bindS (close_peer_window te) (\<lambda>_. done_step)) (\<lambda>outcome.
     bindS (end_window te p) (\<lambda>_. ret outcome)))))"

definition cable_step :: "tool_env \<Rightarrow> CablePlan \<Rightarrow> test_step" where
  "cable_step te p =
     bindS (announceStep (cq_OnStep p) 0 (cq_Step p) (cq_Total p) ''cable diagnostics'') (\<lambda>_.
     bindS (tool (\<lambda>w. ((), tell (IdleTimeoutSet cableWindowTimeout) (tell (WarnPeer ''cable_test_window''
        ''cable diagnostics are starting; the tested link may temporarily go down'') w)))) (\<lambda>_.
     bindS (remote_call te OpCableTestWindowStart (WindowParams (idiv cableWindowTimeout millisecond)) (30 * second)) (\<lambda>start.
     bindS (case window_failed start of
              Some why \<Rightarrow>
                let reason = ''peer coordination failed before cable-test window'' @ why
                in record_result (add_notes [reason] \<circ>
                     (\<lambda>r. r\<lparr> sx_CableTest := Some (zero_cable\<lparr> ct_UnavailableReason := reason \<rparr>) \<rparr>))
            | None \<Rightarrow> cable_window te p) (\<lambda>outcome.
     bindS (restore_timeout p) (\<lambda>_. ret outcome)))))"

definition CablePlan_Run :: "tool_env \<Rightarrow> CablePlan \<Rightarrow> (int \<Rightarrow> test_step) \<Rightarrow> test_step" where
  "CablePlan_Run te p base = bindE (base (cq_Total p)) (\<lambda>_. cable_step te p)"

end
