(* ===== verification/PlanGuarantees.thy ===== *)
theory PlanGuarantees
  imports Plans
begin

section \<open>What the test plans guarantee\<close>

text \<open>
  The properties of the plans of theory \<open>Plans\<close>, over all behaviours of the tools and of the peer. A
  preorder on states (locale \<open>state_preorder\<close>) that the primitive operations follow is followed by
  every plan; the sections below instantiate it with what is added to the trace of questions, with the
  servers that are left running, and with what the results keep.
\<close>

subsection \<open>Relations a computation moves along\<close>

definition moves :: "('s \<Rightarrow> 's \<Rightarrow> bool) \<Rightarrow> ('s \<Rightarrow> 'a \<times> 's) \<Rightarrow> bool" where
  "moves R m \<longleftrightarrow> (\<forall>s. R s (snd (m s)))"

lemma movesD: "moves R m \<Longrightarrow> m s = (a, s') \<Longrightarrow> R s s'"
  unfolding moves_def by (metis snd_conv)

text \<open>
  A preorder on states. Sequencing, branching and error handling stay inside it when their parts do, so a
  plan moves along it as soon as the primitive operations do.
\<close>

locale state_preorder =
  fixes R :: "'s \<Rightarrow> 's \<Rightarrow> bool"
  assumes refl: "R s s"
    and trans: "R s t \<Longrightarrow> R t u \<Longrightarrow> R s u"
begin

lemma moves_ret: "moves R (ret a)"
  by (simp add: moves_def ret_def refl)

lemma moves_bindS:
  assumes "moves R m" and "\<And>a. moves R (f a)"
  shows "moves R (bindS m f)"
  unfolding moves_def bindS_def
proof
  fix s
  obtain a s' where m: "m s = (a, s')" by (cases "m s")
  then have "R s s'" using assms(1) by (metis moves_def snd_conv)
  moreover have "R s' (snd (f a s'))" using assms(2) by (simp add: moves_def)
  ultimately show "R s (snd (case m s of (a, s') \<Rightarrow> f a s'))" by (simp add: m trans)
qed

lemma moves_bindE:
  assumes "moves R m" and "\<And>a. moves R (f a)"
  shows "moves R (bindE m f)"
  unfolding bindE_def using assms by (auto intro!: moves_bindS moves_ret split: sum.split)

lemma moves_mapE: "moves R m \<Longrightarrow> moves R (mapE g m)"
  unfolding mapE_def by (intro moves_bindS moves_ret)

lemmas moves_rules = moves_ret moves_bindS moves_bindE moves_mapE

end

definition on_world :: "(world \<Rightarrow> world \<Rightarrow> bool) \<Rightarrow> plan_state \<Rightarrow> plan_state \<Rightarrow> bool" where
  "on_world R s s' \<longleftrightarrow> R (ps_w s) (ps_w s')"

definition on_results :: "(SessionResults \<Rightarrow> SessionResults \<Rightarrow> bool) \<Rightarrow> plan_state \<Rightarrow> plan_state \<Rightarrow> bool" where
  "on_results R s s' \<longleftrightarrow> R (ps_res s) (ps_res s')"

lemma moves_tool_world: "moves R m \<Longrightarrow> moves (on_world R) (tool m)"
  by (auto simp: moves_def on_world_def tool_def split: prod.split) (metis snd_conv)

lemma snd_tool_results: "ps_res (snd (tool m s)) = ps_res s"
  by (simp add: tool_def split: prod.split)

subsection \<open>What is added to the trace\<close>

definition adds :: "(tool_event \<Rightarrow> bool) \<Rightarrow> world \<Rightarrow> world \<Rightarrow> bool" where
  "adds P w w' \<longleftrightarrow>
     (\<exists>ext. w_trace w' = w_trace w @ ext \<and> list_all P ext) \<and>
     (\<forall>i \<in> set (w_stopped w'). i \<in> set (w_stopped w) \<or> CheckDone i \<in> set (w_trace w'))"

lemma adds_refl: "adds P w w"
  by (simp add: adds_def exI [of _ "[]"])

lemma adds_trans:
  assumes "adds P w v" and "adds P v u"
  shows "adds P w u"
proof -
  from assms obtain e1 e2 where e: "w_trace v = w_trace w @ e1" "w_trace u = w_trace v @ e2" "list_all P e1" "list_all P e2"
    by (auto simp: adds_def)
  then have "w_trace u = w_trace w @ (e1 @ e2)" "list_all P (e1 @ e2)" by simp_all
  moreover have "\<forall>i \<in> set (w_stopped u). i \<in> set (w_stopped w) \<or> CheckDone i \<in> set (w_trace u)"
    using assms e(2) by (auto simp: adds_def)
  ultimately show ?thesis unfolding adds_def by blast
qed

interpretation tr: state_preorder "adds P" for P
  by unfold_locales (auto intro: adds_refl adds_trans)

interpretation pt: state_preorder "on_world (adds P)" for P
  by unfold_locales (auto simp: on_world_def intro: adds_refl adds_trans)

lemma adds_mono: "adds P w w' \<Longrightarrow> (\<And>e. P e \<Longrightarrow> Q e) \<Longrightarrow> adds Q w w'"
  unfolding adds_def by (metis (no_types, lifting) list_all_iff)

lemma moves_adds_mono: "moves (adds P) m \<Longrightarrow> (\<And>e. P e \<Longrightarrow> Q e) \<Longrightarrow> moves (adds Q) m"
  unfolding moves_def using adds_mono by blast

lemma moves_ask: "P ev \<Longrightarrow> moves (adds P) (ask ev f)"
  by (auto simp: moves_def ask_def adds_def)

lemma moves_tell: "P ev \<Longrightarrow> adds P w (tell ev w)"
  by (simp add: adds_def tell_def)

lemma moves_tee: "moves (adds P) (teeRaw spec d)"
  by (auto simp: moves_def teeRaw_def adds_def)

lemma moves_run: "P (RunCommand spec) \<Longrightarrow> moves (adds P) (run_command te spec)"
  unfolding run_command_def by (rule moves_ask)

lemma tee_name: "co_Name (fst (teeRaw spec d w)) = co_Name spec"
  by (simp add: teeRaw_def)

lemma moves_run_teed:
  assumes "\<And>spec'. co_Name spec' = co_Name spec \<Longrightarrow> P (RunCommand spec')"
  shows "moves (adds P) (run_teed te d spec)"
  unfolding moves_def
proof
  fix w
  obtain spec' w' where t: "teeRaw spec d w = (spec', w')" by (cases "teeRaw spec d w")
  have "adds P w w'" using moves_tee [of P spec d] t by (metis moves_def snd_conv)
  moreover have "co_Name spec' = co_Name spec" using tee_name [of spec d w] t by simp
  then have "adds P w' (snd (run_command te spec' w'))"
    using moves_run [of P spec' te] assms by (simp add: moves_def)
  ultimately show "adds P w (snd (run_teed te d spec w))"
    by (simp add: run_teed_def bindS_def t adds_trans)
qed

lemma command_name: "co_Name (command name args t l) = name"
  by (simp add: command_def)

lemmas adds_rules = tr.moves_rules moves_ask moves_run moves_run_teed moves_tee

text \<open>Commands that put load on the link, and requests that make the peer do so.\<close>

fun traffic :: "tool_event \<Rightarrow> bool" where
  "traffic (RunCommand spec) \<longleftrightarrow> co_Name spec = ''ping'' \<or> co_Name spec = ''iperf3''"
| "traffic (StartServerProcess spec) \<longleftrightarrow> True"
| "traffic (RemoteCall opName params d) \<longleftrightarrow>
     opName \<in> {OpPingRun, OpPingFullSize, OpIperfServerStart, OpIperfClientRun, OpIperfUDPRun}"
| "traffic _ \<longleftrightarrow> False"

text \<open>Events that neither start nor stop a server, here or at the peer.\<close>

fun neutral :: "tool_event \<Rightarrow> bool" where
  "neutral (StartServerProcess spec) \<longleftrightarrow> False"
| "neutral (CheckDone n) \<longleftrightarrow> False"
| "neutral (RemoteCall opName params d) \<longleftrightarrow> opName \<noteq> OpIperfServerStart \<and> opName \<noteq> OpIperfServerStop"
| "neutral _ \<longleftrightarrow> True"

abbreviation unloaded :: "tool_event \<Rightarrow> bool" where
  "unloaded ev \<equiv> neutral ev \<and> \<not> traffic ev"

lemma Snapshot_calm: "moves (adds unloaded) (Snapshot te c)"
  unfolding Snapshot_def driver_counters_def link_counters_def carrierChanges_def Let_def
  by (auto intro!: adds_rules simp: command_name split: sum.split prod.split)

lemma Inspect_calm: "moves (adds unloaded) (Inspect te l)"
  unfolding Inspect_def Let_def by (auto intro!: adds_rules simp: command_name)

lemma ping_run_neutral: "moves (adds neutral) (ping_run te d args label i n)"
  unfolding ping_run_def by (auto intro!: adds_rules)

lemma climb_neutral: "moves (adds neutral) (climb_ladder te d peer n rungs ns)"
proof (induction rungs arbitrary: ns)
  case (Cons r rungs)
  then show ?case
    by (cases rungs) (auto intro!: adds_rules ping_run_neutral split: sum.split)
qed (simp add: tr.moves_ret)

lemma ping_neutral:
  "moves (adds neutral) (Quick te d peer n)" "moves (adds neutral) (FullSize te d peer mtu n)"
  unfolding Quick_def FullSize_def Let_def by (auto intro!: adds_rules climb_neutral ping_run_neutral)

lemma clients_neutral:
  "moves (adds neutral) (RunTCPClient te m a b port dur streams bidir)"
  "moves (adds neutral) (RunBidirClient te m a b port dur streams)"
  "moves (adds neutral) (RunUDPClient te m a b port dur rate payload)"
  unfolding RunTCPClient_def RunBidirClient_def RunUDPClient_def Let_def by (auto intro!: adds_rules)

subsection \<open>Servers\<close>

text \<open>
  The servers of this machine that were started and not stopped, by the position of their start, and
  whether the peer holds a server it confirmed and was not asked to stop.
\<close>

definition running :: "tool_env \<Rightarrow> tool_event list \<Rightarrow> nat set" where
  "running te tr =
     {i. i < length tr \<and> (\<exists>spec. tr ! i = StartServerProcess spec \<and> te_start te i spec = None) \<and> CheckDone i \<notin> set tr}"

definition confirms :: "tool_env \<Rightarrow> nat \<Rightarrow> string \<Rightarrow> op_params \<Rightarrow> bool" where
  "confirms te i opName params =
     (case te_call te i opName params of
        Inl _ \<Rightarrow> False
      | Inr res \<Rightarrow> ts_Status res = StatusOK \<and>
          (case DecodeOpResult (te_codec te) opName (ts_Result res) of Inl _ \<Rightarrow> False | Inr _ \<Rightarrow> True))"

fun remote_step :: "tool_env \<Rightarrow> u16 \<Rightarrow> nat \<times> tool_event \<Rightarrow> bool \<Rightarrow> bool" where
  "remote_step te port (i, RemoteCall opName params d) up =
     (if opName = OpIperfServerStart \<and> (\<exists>ip. params = IperfServerStartParams ip port)
      then up \<or> confirms te i opName params
      else if opName = OpIperfServerStop \<and> params = IperfServerStopParams port then False
      else up)"
| "remote_step te port (i, _) up = up"

definition remote_up :: "tool_env \<Rightarrow> u16 \<Rightarrow> tool_event list \<Rightarrow> bool" where
  "remote_up te port tr = fold (remote_step te port) (enumerate 0 tr) False"

definition wf_world :: "world \<Rightarrow> bool" where
  "wf_world w \<longleftrightarrow>
     (\<forall>i. CheckDone i \<in> set (w_trace w) \<longrightarrow> i < length (w_trace w)) \<and>
     (\<forall>i \<in> set (w_stopped w). CheckDone i \<in> set (w_trace w))"

lemma remote_up_snoc: "remote_up te port (tr @ [ev]) = remote_step te port (length tr, ev) (remote_up te port tr)"
  by (simp add: remote_up_def enumerate_append_eq)

lemma neutral_remote_step: "neutral ev \<Longrightarrow> remote_step te port (i, ev) up = up"
  by (cases ev) auto

lemma neutral_remote_up: "list_all neutral ext \<Longrightarrow> remote_up te port (tr @ ext) = remote_up te port tr"
proof (induction ext rule: rev_induct)
  case (snoc ev ext)
  then show ?case
    using remote_up_snoc [of te port "tr @ ext" ev] by (simp add: neutral_remote_step)
qed simp

lemma neutral_running:
  assumes "list_all neutral ext"
  shows "running te (tr @ ext) = running te tr"
proof -
  have n: "CheckDone i \<notin> set ext" "StartServerProcess spec \<notin> set ext" for i spec
    using assms by (auto simp: list_all_iff)
  show ?thesis
  proof (rule set_eqI)
    fix i
    have "ext ! (i - length tr) \<in> set ext" if "\<not> i < length tr" "i < length tr + length ext"
      using that by (intro nth_mem) linarith
    then have "ext ! (i - length tr) \<noteq> StartServerProcess spec" if "\<not> i < length tr" "i < length tr + length ext" for spec
      using that n(2) [of spec] by metis
    then show "i \<in> running te (tr @ ext) \<longleftrightarrow> i \<in> running te tr"
      using n(1) by (cases "i < length tr") (auto simp: running_def nth_append)
  qed
qed

text \<open>
  \<open>keeps_servers\<close>: the servers of this machine are as before. \<open>keeps_remote\<close>: a server at the peer is not
  left behind.
\<close>

definition keeps_servers :: "tool_env \<Rightarrow> world \<Rightarrow> world \<Rightarrow> bool" where
  "keeps_servers te w w' \<longleftrightarrow> (wf_world w \<longrightarrow> wf_world w' \<and> running te (w_trace w') = running te (w_trace w))"

definition keeps_remote :: "tool_env \<Rightarrow> u16 \<Rightarrow> world \<Rightarrow> world \<Rightarrow> bool" where
  "keeps_remote te port w w' \<longleftrightarrow> (remote_up te port (w_trace w') \<longrightarrow> remote_up te port (w_trace w))"

interpretation ks: state_preorder "on_world (keeps_servers te)" for te
  by unfold_locales (auto simp: on_world_def keeps_servers_def)

interpretation kr: state_preorder "on_world (keeps_remote te port)" for te port
  by unfold_locales (auto simp: on_world_def keeps_remote_def)

lemma neutral_keeps_servers:
  assumes "adds neutral w w'"
  shows "keeps_servers te w w'"
proof -
  obtain ext where e: "w_trace w' = w_trace w @ ext" "list_all neutral ext" using assms by (auto simp: adds_def)
  have "CheckDone i \<notin> set ext" for i using e(2) by (auto simp: list_all_iff)
  then have "wf_world w \<Longrightarrow> wf_world w'"
    using assms e(1) unfolding wf_world_def adds_def by (auto simp: trans_less_add1)
  then show ?thesis by (simp add: keeps_servers_def e neutral_running)
qed

lemma neutral_moves:
  assumes "moves (adds neutral) m"
  shows "moves (on_world (keeps_servers te)) (tool m)" "moves (on_world (keeps_remote te port)) (tool m)"
proof -
  have "moves (on_world (adds neutral)) (tool m)" by (rule moves_tool_world [OF assms])
  then show "moves (on_world (keeps_servers te)) (tool m)"
    unfolding moves_def on_world_def using neutral_keeps_servers by blast
  show "moves (on_world (keeps_remote te port)) (tool m)"
    using \<open>moves (on_world (adds neutral)) (tool m)\<close>
    by (auto simp: moves_def on_world_def adds_def keeps_remote_def neutral_remote_up) (metis neutral_remote_up)
qed

text \<open>An event that is no request to the peer leaves the server of the peer as it is.\<close>

fun local_event :: "tool_event \<Rightarrow> bool" where
  "local_event (RemoteCall opName params d) \<longleftrightarrow> False"
| "local_event _ \<longleftrightarrow> True"

lemma local_remote_up: "list_all local_event ext \<Longrightarrow> remote_up te port (tr @ ext) = remote_up te port tr"
proof (induction ext rule: rev_induct)
  case (snoc ev ext)
  have "remote_step te port (i, ev) up = up" for i up using snoc.prems by (cases ev) auto
  then show ?case using snoc remote_up_snoc [of te port "tr @ ext" ev] by simp
qed simp

lemma local_keeps_remote: "adds local_event w w' \<Longrightarrow> remote_up te port (w_trace w') = remote_up te port (w_trace w)"
  by (auto simp: adds_def local_remote_up)

lemma run_start:
  assumes "wf_world w" and "te_start te (length (w_trace w)) spec = None"
  shows "running te (w_trace w @ [StartServerProcess spec]) = insert (length (w_trace w)) (running te (w_trace w))"
  using assms by (auto simp: running_def wf_world_def nth_append less_Suc_eq)

lemma run_start_failed:
  assumes "te_start te (length (w_trace w)) spec = Some e"
  shows "running te (w_trace w @ [StartServerProcess spec]) = running te (w_trace w)"
  using assms by (auto simp: running_def nth_append less_Suc_eq)

lemma running_stop:
  assumes "wf_world w" and "list_all neutral ext" and "i < length (w_trace w)"
  shows "running te (w_trace w @ CheckDone i # ext) = running te (w_trace w) - {i}"
proof -
  have "running te ((w_trace w @ [CheckDone i]) @ ext) = running te (w_trace w @ [CheckDone i])"
    by (rule neutral_running [OF assms(2)])
  also have "\<dots> = running te (w_trace w) - {i}" by (auto simp: running_def nth_append less_Suc_eq)
  finally show ?thesis by simp
qed

subsection \<open>One server of this machine\<close>

lemma StartServer_world:
  assumes "StartServer te m bind port w = (r, w')"
  shows "\<exists>spec mid. w_trace w' = w_trace w @ StartServerProcess spec # mid \<and> list_all neutral mid \<and> w_stopped w' = w_stopped w \<and>
     (case r of Inl _ \<Rightarrow> te_start te (length (w_trace w)) spec \<noteq> None
      | Inr h \<Rightarrow> te_start te (length (w_trace w)) spec = None \<and> sh_id h = length (w_trace w))"
  using assms
  by (auto simp: StartServer_def bindS_def teeRaw_def ask_def ret_def register_server_def split: prod.splits option.splits if_splits)

lemma wf_append:
  assumes "wf_world w" and "w_trace w' = w_trace w @ ext" and "w_stopped w' = w_stopped w" and "\<And>i. CheckDone i \<notin> set ext"
  shows "wf_world w'"
proof -
  have "CheckDone i \<in> set (w_trace w') \<longleftrightarrow> CheckDone i \<in> set (w_trace w)" for i using assms(2,4) by simp
  moreover have "length (w_trace w) \<le> length (w_trace w')" using assms(2) by simp
  ultimately show ?thesis using assms(1,3) unfolding wf_world_def by (metis order_less_le_trans)
qed

lemma StartServer_failed:
  assumes "StartServer te m bind port w = (Inl e, w')"
  shows "keeps_servers te w w'"
proof -
  obtain spec mid where w': "w_trace w' = (w_trace w @ [StartServerProcess spec]) @ mid" "list_all neutral mid" "w_stopped w' = w_stopped w"
    "te_start te (length (w_trace w)) spec \<noteq> None"
    using StartServer_world [OF assms] by auto
  have "CheckDone i \<notin> set (StartServerProcess spec # mid)" for i using w'(2) by (auto simp: list_all_iff)
  then have "wf_world w \<Longrightarrow> wf_world w'" using w'(1,3) by (intro wf_append [of w w' "StartServerProcess spec # mid"]) simp_all
  moreover obtain e' where "te_start te (length (w_trace w)) spec = Some e'" using w'(4) by blast
  then have "running te (w_trace w') = running te (w_trace w)"
    unfolding w'(1) neutral_running [OF w'(2)] by (rule run_start_failed)
  ultimately show ?thesis by (simp add: keeps_servers_def)
qed

lemma StartServer_started:
  assumes "StartServer te m bind port w = (Inr h, w')" and "wf_world w"
  shows "wf_world w'" "running te (w_trace w') = insert (sh_id h) (running te (w_trace w))"
    "sh_id h \<notin> running te (w_trace w)"
proof -
  obtain spec mid where w': "w_trace w' = (w_trace w @ [StartServerProcess spec]) @ mid" "list_all neutral mid" "w_stopped w' = w_stopped w"
    "te_start te (length (w_trace w)) spec = None" "sh_id h = length (w_trace w)"
    using StartServer_world [OF assms(1)] by auto
  have "CheckDone i \<notin> set (StartServerProcess spec # mid)" for i using w'(2) by (auto simp: list_all_iff)
  then show "wf_world w'" using w'(1,3) assms(2) by (intro wf_append [of w w' "StartServerProcess spec # mid"]) simp_all
  show "running te (w_trace w') = insert (sh_id h) (running te (w_trace w))"
    unfolding w'(1) neutral_running [OF w'(2)] w'(5) by (rule run_start [OF assms(2) w'(4)])
  show "sh_id h \<notin> running te (w_trace w)" using w'(5) by (simp add: running_def)
qed

lemma Server_Stop_stops:
  assumes "wf_world w" and "sh_id h < length (w_trace w)"
  shows "wf_world (Server_Stop te h w)"
    "running te (w_trace (Server_Stop te h w)) = running te (w_trace w) - {sh_id h}"
proof -
  let ?i = "sh_id h"
  have neu: "list_all neutral (stop_signals a ?i @ (if sh_registered h then [Unregister ?i] else []))" for a
    by (cases a) auto
  show "running te (w_trace (Server_Stop te h w)) = running te (w_trace w) - {?i}"
  proof (cases "?i \<in> set (w_stopped w)")
    case True
    then have "CheckDone ?i \<in> set (w_trace w)" using assms(1) by (simp add: wf_world_def)
    then show ?thesis using True by (auto simp: Server_Stop_def running_def)
  next
    case False
    then show ?thesis
      using running_stop [OF assms(1) neu assms(2), of te "te_stop te (length (w_trace w))"]
      by (simp add: Server_Stop_def ask_def)
  qed
  have "CheckDone i \<notin> set (stop_signals a ?i)" for i a by (cases a) auto
  then show "wf_world (Server_Stop te h w)"
    using assms by (auto simp: wf_world_def Server_Stop_def ask_def split: if_splits)
qed

lemma Server_Ready_neutral: "moves (adds neutral) (Server_Ready te h)"
  unfolding Server_Ready_def by (rule moves_ask) simp

lemma server_local:
  "moves (adds local_event) (StartServer te m bind port)" "moves (adds local_event) (Server_Ready te h)"
  "moves (adds local_event) (\<lambda>w. ((), Server_Stop te h w))"
proof -
  show "moves (adds local_event) (StartServer te m bind port)"
    unfolding StartServer_def register_server_def by (auto intro!: adds_rules split: option.split)
  show "moves (adds local_event) (Server_Ready te h)" unfolding Server_Ready_def by (rule moves_ask) simp
  have "list_all local_event (stop_signals a i)" for a i by (cases a) auto
  then show "moves (adds local_event) (\<lambda>w. ((), Server_Stop te h w))"
    by (auto simp: moves_def adds_def Server_Stop_def ask_def)
qed

lemma with_local_server_keeps:
  assumes phase: "moves (on_world (keeps_servers te)) phase"
  shows "moves (on_world (keeps_servers te)) (with_local_server te q port phase)"
  unfolding moves_def on_world_def
proof (intro allI)
  fix s
  obtain r s1 where st: "tool (StartServer te (qp_Iperf q) (qp_LocalIP q) port) s = (r, s1)" by fastforce
  then have start: "StartServer te (qp_Iperf q) (qp_LocalIP q) port (ps_w s) = (r, ps_w s1)"
    by (auto simp: tool_def split: prod.splits)
  show "keeps_servers te (ps_w s) (ps_w (snd (with_local_server te q port phase s)))"
  proof (cases r)
    case (Inl e)
    then show ?thesis using start st StartServer_failed by (auto simp: with_local_server_def bindE_def bindS_def ret_def)
  next
    case (Inr h)
    define body where "body = bindS (tool (Server_Ready te h)) (\<lambda>err. case err of Some e \<Rightarrow> ret (Inl e) | None \<Rightarrow> phase)"
    have "moves (on_world (keeps_servers te)) body"
      unfolding body_def
      by (auto intro!: ks.moves_rules neutral_moves Server_Ready_neutral phase split: option.split)
    then have body: "keeps_servers te (ps_w s1) (ps_w (snd (body s1)))" by (simp add: moves_def on_world_def)
    have whole: "ps_w (snd (with_local_server te q port phase s)) = Server_Stop te h (ps_w (snd (body s1)))"
      using st Inr by (simp add: with_local_server_def bindE_def bindS_def ret_def body_def tool_def split: prod.split option.split)
    show ?thesis
    proof (unfold keeps_servers_def whole, intro impI)
      assume wf: "wf_world (ps_w s)"
      note started = StartServer_started [OF start [unfolded Inr] wf]
      let ?w2 = "ps_w (snd (body s1))"
      have b: "wf_world ?w2" "running te (w_trace ?w2) = insert (sh_id h) (running te (w_trace (ps_w s)))"
        using body started by (auto simp: keeps_servers_def)
      then have "sh_id h < length (w_trace ?w2)" by (auto simp: running_def set_eq_iff)
      then show "wf_world (Server_Stop te h ?w2) \<and>
          running te (w_trace (Server_Stop te h ?w2)) = running te (w_trace (ps_w s))"
        using Server_Stop_stops [OF b(1)] b(2) started(3) by auto
    qed
  qed
qed

subsection \<open>One server of the peer\<close>

lemma snd_modify_world: "ps_w (snd (modify f s)) = ps_w s"
  by (simp add: modify_def)

lemma callRemoteForTest_world:
  "ps_w (snd (callRemoteForTest te opName params t name s)) = tell (RemoteCall opName params t) (ps_w s)"
  by (auto simp: callRemoteForTest_def remote_call_def tool_def ask_def tell_def bindS_def ret_def modify_def
      split: sum.split)

lemma callRemote_keeps_servers: "moves (on_world (keeps_servers te)) (callRemoteForTest te opName params t name)"
proof -
  have "running te (tr @ [RemoteCall opName params t]) = running te tr" for tr
    by (auto simp: running_def nth_append less_Suc_eq)
  moreover have "wf_world (tell (RemoteCall opName params t) w)" if "wf_world w" for w
    by (rule wf_append [OF that, of _ "[RemoteCall opName params t]"]) (simp_all add: tell_def)
  ultimately show ?thesis
    unfolding moves_def on_world_def keeps_servers_def callRemoteForTest_world by (simp add: tell_def)
qed

lemma callRemote_remote_up:
  "remote_up te port (w_trace (ps_w (snd (callRemoteForTest te opName params t name s)))) =
   remote_step te port (length (w_trace (ps_w s)), RemoteCall opName params t) (remote_up te port (w_trace (ps_w s)))"
  by (simp add: callRemoteForTest_world tell_def remote_up_snoc)

lemma other_call_keeps_remote:
  assumes "opName \<noteq> OpIperfServerStart"
  shows "moves (on_world (keeps_remote te port)) (callRemoteForTest te opName params t name)"
  using assms by (auto simp: moves_def on_world_def keeps_remote_def callRemote_remote_up)

lemma start_answered:
  assumes "confirms te (length (w_trace (ps_w s))) opName params"
  obtains p where "fst (callRemoteForTest te opName params t name s) = (Some p, None)"
  using assms that
  by (auto simp: confirms_def callRemoteForTest_def remote_call_def tool_def ask_def bindS_def ret_def split: sum.splits if_splits)

text \<open>A start that the plan does not see confirmed leaves nothing up at the peer.\<close>

definition start_remote :: "tool_env \<Rightarrow> QuickPlan \<Rightarrow> string \<Rightarrow> plan_state \<Rightarrow> (op_err + op_payload option) \<times> plan_state" where
  "start_remote te q stage = payload_or_err (callRemoteForTest te OpIperfServerStart
     (IperfServerStartParams (Addr_String (qp_PeerIP q)) (qp_IperfPort q)) opCallTimeout stage)"

lemma start_remote_unconfirmed:
  assumes "start_remote te q stage s = (r, s')" and "\<And>p. r \<noteq> Inr (Some p)"
  shows "keeps_remote te port (ps_w s) (ps_w s')"
proof -
  let ?params = "IperfServerStartParams (Addr_String (qp_PeerIP q)) (qp_IperfPort q)"
  let ?call = "callRemoteForTest te OpIperfServerStart ?params opCallTimeout stage s"
  have "fst ?call \<noteq> (Some p, None)" for p
    using assms(1) assms(2) [of p] by (auto simp: start_remote_def payload_or_err_def bindS_def ret_def split: prod.splits option.splits)
  then have "\<not> confirms te (length (w_trace (ps_w s))) OpIperfServerStart ?params" using start_answered by metis
  moreover have "s' = snd ?call"
    using assms(1) by (auto simp: start_remote_def payload_or_err_def bindS_def ret_def split: prod.splits)
  ultimately show ?thesis by (auto simp: keeps_remote_def callRemote_remote_up split: if_splits)
qed

lemma stop_remote_world: "ps_w (snd (stop_remote te q s)) =
  tell (RemoteCall OpIperfServerStop (IperfServerStopParams (qp_IperfPort q)) opCallTimeout) (ps_w s)"
proof -
  have "snd (stop_remote te q s) =
      snd (callRemoteForTest te OpIperfServerStop (IperfServerStopParams (qp_IperfPort q)) opCallTimeout '''' s)"
    by (simp add: stop_remote_def callRemote_def bindS_def ret_def split: prod.split)
  then show ?thesis by (simp add: callRemoteForTest_world)
qed

lemma stop_remote_down: "\<not> remote_up te (qp_IperfPort q) (w_trace (ps_w (snd (stop_remote te q s))))"
  by (simp add: stop_remote_world tell_def remote_up_snoc OpIperfServerStart_def OpIperfServerStop_def)

lemma stop_remote_keeps: "moves (on_world (keeps_servers te)) (stop_remote te q)"
  unfolding stop_remote_def callRemote_def
  by (auto intro!: ks.moves_rules callRemote_keeps_servers)

lemma after_client_world: "ps_w (snd (after_client stage a b s)) = ps_w s"
  by (simp add: after_client_def bindS_def ret_def modify_def split: option.split)

lemma withRemoteServer_keeps_remote:
  "moves (on_world (keeps_remote te (qp_IperfPort q))) (withRemoteServer te q stage skipNote runClient)"
  unfolding moves_def on_world_def
proof
  fix s
  obtain r s1 where st: "start_remote te q stage s = (r, s1)" by fastforce
  show "keeps_remote te (qp_IperfPort q) (ps_w s) (ps_w (snd (withRemoteServer te q stage skipNote runClient s)))"
  proof (cases "\<exists>p. r = Inr (Some p)")
    case True
    then show ?thesis using st
      by (auto simp: withRemoteServer_def start_remote_def [symmetric] bindE_def bindS_def keeps_remote_def after_client_world
          split: prod.splits) (metis snd_conv stop_remote_down)
  next
    case False
    then have "keeps_remote te (qp_IperfPort q) (ps_w s) (ps_w s1)" using start_remote_unconfirmed [OF st] by blast
    moreover have "ps_w (snd (withRemoteServer te q stage skipNote runClient s)) = ps_w s1"
      using False st
      by (auto simp: withRemoteServer_def start_remote_def [symmetric] bindE_def bindS_def ret_def modify_def
          split: sum.split option.split)
    ultimately show ?thesis by simp
  qed
qed

lemma start_remote_keeps: "moves (on_world (keeps_servers te)) (start_remote te q stage)"
  unfolding start_remote_def payload_or_err_def
  by (auto intro!: ks.moves_rules callRemote_keeps_servers)

lemma modify_keeps: "moves (on_world (keeps_servers te)) (modify f)" "moves (on_world (keeps_remote te port)) (modify f)"
  by (simp_all add: moves_def on_world_def modify_def keeps_servers_def keeps_remote_def)

lemma after_client_keeps: "moves (on_world (keeps_servers te)) (after_client stage a b)"
  by (simp add: moves_def on_world_def after_client_world keeps_servers_def)

lemma withRemoteServer_keeps:
  assumes "moves (on_world (keeps_servers te)) runClient"
  shows "moves (on_world (keeps_servers te)) (withRemoteServer te q stage skipNote runClient)"
  unfolding withRemoteServer_def start_remote_def [symmetric]
  by (auto intro!: ks.moves_rules start_remote_keeps stop_remote_keeps modify_keeps after_client_keeps assms split: option.split)

subsection \<open>The steps keep the servers\<close>

lemma call_keeps:
  "moves (on_world (keeps_servers te)) (callRemoteForTest te opName params t name)"
  "moves (on_world (keeps_servers te)) (callRemote te opName params t)"
  "opName \<noteq> OpIperfServerStart \<Longrightarrow> moves (on_world (keeps_remote te port)) (callRemoteForTest te opName params t name)"
  "opName \<noteq> OpIperfServerStart \<Longrightarrow> moves (on_world (keeps_remote te port)) (callRemote te opName params t)"
  unfolding callRemote_def by (auto intro: callRemote_keeps_servers other_call_keeps_remote)

lemma payload_or_err_keeps:
  "moves (on_world (keeps_servers te)) m \<Longrightarrow> moves (on_world (keeps_servers te)) (payload_or_err m)"
  "moves (on_world (keeps_remote te port)) m \<Longrightarrow> moves (on_world (keeps_remote te port)) (payload_or_err m)"
  unfolding payload_or_err_def by (auto intro!: ks.moves_rules kr.moves_rules)

lemma results_keeps: "moves (on_world (keeps_servers te)) get_results" "moves (on_world (keeps_remote te port)) get_results"
  by (simp_all add: moves_def on_world_def get_results_def keeps_servers_def keeps_remote_def)

lemma detached_keeps:
  "moves (on_world (keeps_servers te)) (callRemoteDetached te opName params t)"
  "moves (on_world (keeps_remote te port)) (callRemoteDetached te opName params t)"
  unfolding callRemoteDetached_def
  by (auto intro!: ks.moves_rules kr.moves_rules neutral_moves moves_ask)

lemma announce_keeps:
  "moves (on_world (keeps_servers te)) (announceStep os r i n name)"
  "moves (on_world (keeps_remote te port)) (announceStep os r i n name)"
proof -
  have "moves (adds neutral) (\<lambda>w. ((), (if os then tell (ShowStep i n name) else id) (tell (SetStep i r' name) w)))" for r'
    unfolding moves_def by (auto simp: adds_def tell_def)
  then show "moves (on_world (keeps_servers te)) (announceStep os r i n name)"
    "moves (on_world (keeps_remote te port)) (announceStep os r i n name)"
    unfolding announceStep_def by (auto intro!: neutral_moves)
qed

lemma snapshot_keeps:
  "moves (on_world (keeps_servers te)) (tool (Snapshot te c))" "moves (on_world (keeps_remote te port)) (tool (Snapshot te c))"
  "moves (on_world (keeps_servers te)) (tool (Inspect te l))" "moves (on_world (keeps_remote te port)) (tool (Inspect te l))"
  by (auto intro!: neutral_moves moves_adds_mono [OF Snapshot_calm] moves_adds_mono [OF Inspect_calm])

lemma start_remote_op: "OpCountersSnapshot \<noteq> OpIperfServerStart" "OpLinkSettings \<noteq> OpIperfServerStart"
  "OpPingRun \<noteq> OpIperfServerStart" "OpPingFullSize \<noteq> OpIperfServerStart" "OpIperfClientRun \<noteq> OpIperfServerStart"
  "OpIperfUDPRun \<noteq> OpIperfServerStart" "OpIperfCaps \<noteq> OpIperfServerStart" "OpIperfServerStop \<noteq> OpIperfServerStart"
  "OpCableTestWindowStart \<noteq> OpIperfServerStart" "OpCableTestWindowEnd \<noteq> OpIperfServerStart"
  by (simp_all add: OpCountersSnapshot_def OpLinkSettings_def OpPingRun_def OpPingFullSize_def OpIperfClientRun_def
      OpIperfUDPRun_def OpIperfCaps_def OpIperfServerStop_def OpIperfServerStart_def OpCableTestWindowStart_def OpCableTestWindowEnd_def)

lemmas server_rules = ks.moves_rules kr.moves_rules call_keeps payload_or_err_keeps results_keeps detached_keeps announce_keeps
  snapshot_keeps modify_keeps with_local_server_keeps withRemoteServer_keeps withRemoteServer_keeps_remote neutral_moves
  ping_neutral clients_neutral

lemma record_keeps: "moves (on_world (keeps_servers te)) done_step" "moves (on_world (keeps_remote te port)) done_step"
  "moves (on_world (keeps_servers te)) (record_result f)" "moves (on_world (keeps_remote te port)) (record_result f)"
  "moves (on_world (keeps_servers te)) (record_payload out err put)" "moves (on_world (keeps_remote te port)) (record_payload out err put)"
  unfolding done_step_def record_result_def record_payload_def by (auto intro!: server_rules)

lemma stepLink_keeps: "moves (on_world (keeps_servers te)) (stepLink te q)" "moves (on_world (keeps_remote te port)) (stepLink te q)"
  unfolding stepLink_def
  by (auto intro!: server_rules record_keeps simp: start_remote_op split: option.split op_payload.split)

lemma snapshotCounters_keeps:
  "moves (on_world (keeps_servers te)) (snapshotCounters te q put)" "moves (on_world (keeps_remote te port)) (snapshotCounters te q put)"
  "moves (on_world (keeps_servers te)) (snapshotCountersDetached te q put)"
  "moves (on_world (keeps_remote te port)) (snapshotCountersDetached te q put)"
  unfolding snapshotCounters_def snapshotCountersDetached_def
  by (auto intro!: server_rules record_keeps simp: start_remote_op split: option.split op_payload.split)

lemma salvage_keeps:
  "moves (on_world (keeps_servers te)) (salvageFinalCounters te q r)" "moves (on_world (keeps_remote te port)) (salvageFinalCounters te q r)"
  unfolding salvageFinalCounters_def salvage_local_def salvage_remote_def
  by (auto intro!: server_rules split: sum.split op_payload.split)

lemma ping_keeps:
  "moves (on_world (keeps_servers te)) (stepPing te q)" "moves (on_world (keeps_remote te port)) (stepPing te q)"
  "moves (on_world (keeps_servers te)) (stepFullSizePing te q)" "moves (on_world (keeps_remote te port)) (stepFullSizePing te q)"
  unfolding stepPing_def stepFullSizePing_def ping_both_def
  by (auto intro!: server_rules record_keeps simp: start_remote_op split: option.split op_payload.split)

lemma with_local_server_keeps_remote:
  assumes "moves (on_world (keeps_remote te port)) phase"
  shows "moves (on_world (keeps_remote te port)) (with_local_server te q p phase)"
proof -
  have loc: "moves (on_world (keeps_remote te port)) (tool m)" if "moves (adds local_event) m" for m :: "world \<Rightarrow> 'x \<times> world"
    using moves_tool_world [OF that] unfolding moves_def on_world_def keeps_remote_def
    using local_keeps_remote by metis
  show ?thesis unfolding with_local_server_def
    by (auto intro!: kr.moves_rules loc server_local assms split: option.split)
qed

lemma tcp_keeps:
  "moves (on_world (keeps_servers te)) (stepTCPForward te q)" "moves (on_world (keeps_remote te (qp_IperfPort q))) (stepTCPForward te q)"
  "moves (on_world (keeps_servers te)) (stepTCPReverse te q)" "moves (on_world (keeps_remote te (qp_IperfPort q))) (stepTCPReverse te q)"
  unfolding stepTCPForward_def stepTCPReverse_def ignore_flag_def
  by (auto intro!: server_rules record_keeps with_local_server_keeps_remote simp: start_remote_op)

lemma udpRate_keeps: "moves (on_world (keeps_servers te)) (udpRate q)" "moves (on_world (keeps_remote te port)) (udpRate q)"
  unfolding udpRate_def Let_def by (auto intro!: server_rules split: prod.split)

lemma udp_keeps:
  "moves (on_world (keeps_servers te)) (stepUDPAtRate te q r)" "moves (on_world (keeps_remote te (qp_IperfPort q))) (stepUDPAtRate te q r)"
  "moves (on_world (keeps_servers te)) (stepUDP te q)" "moves (on_world (keeps_remote te (qp_IperfPort q))) (stepUDP te q)"
  unfolding stepUDP_def stepUDPAtRate_def
  by (auto intro!: server_rules record_keeps udpRate_keeps with_local_server_keeps_remote simp: start_remote_op)

lemma tool_unit: "tool (\<lambda>w. ((), f w)) s = ((), s\<lparr> ps_w := f (ps_w s) \<rparr>)"
  by (simp add: tool_def)

lemma with_local_server_ran:
  assumes "with_local_server te q p phase s = (Inr a, s')"
  shows "\<exists>s1 s2. phase s1 = (Inr a, s2) \<and> ps_res s' = ps_res s2 \<and>
    (\<forall>port. remote_up te port (w_trace (ps_w s')) = remote_up te port (w_trace (ps_w s2)))"
proof -
  obtain h s0 where st: "tool (StartServer te (qp_Iperf q) (qp_LocalIP q) p) s = (Inr h, s0)"
    using assms by (auto simp: with_local_server_def bindE_def bindS_def ret_def split: prod.splits sum.splits)
  obtain err s1 where rd: "tool (Server_Ready te h) s0 = (err, s1)" by fastforce
  obtain r s2 where ph: "(case err of Some e \<Rightarrow> ret (Inl e) | None \<Rightarrow> phase) s1 = (r, s2)" by fastforce
  have s': "r = Inr a" "s' = s2\<lparr> ps_w := Server_Stop te h (ps_w s2) \<rparr>"
    using assms by (simp_all add: with_local_server_def bindE_def bindS_def ret_def st rd ph tool_unit)
  then have "phase s1 = (Inr a, s2)" using ph by (cases err) (auto simp: ret_def)
  moreover have "adds local_event (ps_w s2) (Server_Stop te h (ps_w s2))" using server_local(3) by (simp add: moves_def)
  then have "\<And>port. remote_up te port (w_trace (ps_w s')) = remote_up te port (w_trace (ps_w s2))"
    by (simp add: s'(2) local_keeps_remote)
  moreover have "ps_res s' = ps_res s2" by (simp add: s'(2))
  ultimately show ?thesis by blast
qed

lemma snd_bindS: "snd (bindS m f s) = snd (f (fst (m s)) (snd (m s)))"
  by (simp add: bindS_def split: prod.split)

lemma fallback_clients_down: "\<not> remote_up te (qp_IperfPort q) (w_trace (ps_w (snd (fallback_clients te q note s))))"
  by (simp add: fallback_clients_def split_def snd_bindS Let_def stop_remote_down) (simp add: ret_def stop_remote_down)

lemma bidirFallback_keeps_remote: "moves (on_world (keeps_remote te (qp_IperfPort q))) (bidirFallback te q note)"
  unfolding moves_def on_world_def
proof
  fix s
  let ?phase = "bindS (fallback_clients te q note) (\<lambda>r. ret (Inr r :: op_err + (op_err + unit)))"
  obtain r s1 where st: "start_remote te q ''bidirectional'' s = (r, s1)" by fastforce
  show "keeps_remote te (qp_IperfPort q) (ps_w s) (ps_w (snd (bidirFallback te q note s)))"
  proof (cases "\<exists>p. r = Inr (Some p)")
    case True
    obtain r2 s2 where wl: "with_local_server te q (qp_IperfPort q + 1) ?phase s1 = (r2, s2)" by fastforce
    have "\<not> remote_up te (qp_IperfPort q) (w_trace (ps_w (snd (bidirFallback te q note s))))"
    proof (cases r2)
      case (Inl e)
      then have "snd (bidirFallback te q note s) = snd (stop_remote te q s2)"
        using True st wl by (auto simp: bidirFallback_def start_remote_def [symmetric] bindE_def snd_bindS) (simp add: ret_def)
      then show ?thesis by (simp add: stop_remote_down)
    next
      case (Inr outcome)
      have "snd (bidirFallback te q note s) = s2"
        using True st wl Inr by (auto simp: bidirFallback_def start_remote_def [symmetric] bindE_def snd_bindS) (simp add: ret_def)
      moreover obtain sa sb where "?phase sa = (Inr outcome, sb)"
        "\<forall>port. remote_up te port (w_trace (ps_w s2)) = remote_up te port (w_trace (ps_w sb))"
        using with_local_server_ran [OF wl [unfolded Inr]] by blast
      moreover from this(1) have "sb = snd (fallback_clients te q note sa)" by (auto simp: bindS_def ret_def split: prod.splits)
      ultimately show ?thesis by (simp add: fallback_clients_down)
    qed
    then show ?thesis by (simp add: keeps_remote_def)
  next
    case False
    then have "keeps_remote te (qp_IperfPort q) (ps_w s) (ps_w s1)" using start_remote_unconfirmed [OF st] by blast
    moreover have "ps_w (snd (bidirFallback te q note s)) = ps_w s1"
      using False st
      by (auto simp: bidirFallback_def start_remote_def [symmetric] bindE_def bindS_def ret_def modify_def record_result_def
          done_step_def split: sum.split option.split)
    ultimately show ?thesis by simp
  qed
qed

lemma bidirFallback_keeps: "moves (on_world (keeps_servers te)) (bidirFallback te q note)"
  unfolding bidirFallback_def fallback_clients_def Let_def
  by (auto intro!: server_rules record_keeps stop_remote_keeps split: option.split sum.split)

lemma stepBidir_keeps:
  "moves (on_world (keeps_servers te)) (stepBidir te q)" "moves (on_world (keeps_remote te (qp_IperfPort q))) (stepBidir te q)"
  unfolding stepBidir_def bidirNative_def ignore_flag_def
  by (auto intro!: server_rules record_keeps bidirFallback_keeps bidirFallback_keeps_remote simp: start_remote_op)

subsection \<open>The plans keep the servers\<close>

lemma run_steps_moves:
  assumes "state_preorder R" and "\<And>i n name. moves R (announceStep os r i n name)" and "moves R (modify (\<lambda>r. r\<lparr> sx_Incomplete := True \<rparr>))"
  shows "list_all (moves R) (map snd steps) \<Longrightarrow> moves R (run_steps what os r n i steps)"
proof (induction steps arbitrary: i)
  case Nil
  then show ?case using state_preorder.moves_ret [OF assms(1)] by (simp add: done_step_def)
next
  case (Cons st steps)
  obtain name stp where "st = (name, stp)" by fastforce
  then show ?case using Cons
    by (auto intro!: state_preorder.moves_bindS [OF assms(1)] state_preorder.moves_ret [OF assms(1)] assms(2,3) split: sum.split)
qed

lemma snd_zip: "length xs = length ys \<Longrightarrow> list_all P (map snd (zip xs ys)) = list_all P ys"
  by simp

lemma quick_plan_keeps:
  "list_all (moves (on_world (keeps_servers te))) (map snd (quick_plan te q))"
  "list_all (moves (on_world (keeps_remote te (qp_IperfPort q)))) (map snd (quick_plan te q))"
  by (simp_all add: quick_plan_def quickSteps_def stepInitialCounters_def stepFinalCounters_def stepLink_keeps snapshotCounters_keeps
      ping_keeps tcp_keeps stepBidir_keeps udp_keeps)

lemma planSteps_length: "length (planSteps n) = 8 + 2 * nat (repeats n)"
  by (simp add: planSteps_def Let_def repeat_names_def repeats_def)

lemma passes_keep:
  "moves (on_world (keeps_servers te)) (udp_default_pass te q)" "moves (on_world (keeps_servers te)) (udp_reduced_pass te q)"
  "moves (on_world (keeps_remote te (qp_IperfPort q))) (udp_default_pass te q)"
  "moves (on_world (keeps_remote te (qp_IperfPort q))) (udp_reduced_pass te q)"
proof -
  have "moves (on_world (keeps_servers te)) (\<lambda>s. ((), s\<lparr> ps_rate := r \<rparr>))"
    "moves (on_world (keeps_remote te port)) (\<lambda>s. ((), s\<lparr> ps_rate := r \<rparr>))" for r port
    by (simp_all add: moves_def on_world_def keeps_servers_def keeps_remote_def)
  then show "moves (on_world (keeps_servers te)) (udp_default_pass te q)"
    "moves (on_world (keeps_remote te (qp_IperfPort q))) (udp_default_pass te q)"
    unfolding udp_default_pass_def by (auto intro!: server_rules udpRate_keeps udp_keeps)
  show "moves (on_world (keeps_servers te)) (udp_reduced_pass te q)"
    "moves (on_world (keeps_remote te (qp_IperfPort q))) (udp_reduced_pass te q)"
    using udp_keeps(1,2) by (auto simp: moves_def udp_reduced_pass_def)
qed

lemma standard_plan_keeps:
  "list_all (moves (on_world (keeps_servers te))) (map snd (standard_plan te q n))"
  "list_all (moves (on_world (keeps_remote te (qp_IperfPort q)))) (map snd (standard_plan te q n))"
  by (simp_all add: standard_plan_def Let_def planSteps_length stepInitialCounters_def stepFinalCounters_def stepLink_keeps
      snapshotCounters_keeps ping_keeps tcp_keeps stepBidir_keeps passes_keep list_all_iff ball_Un)

lemma Run_keeps:
  "moves (on_world (keeps_servers te)) (QuickPlan_Run te q r)"
  "moves (on_world (keeps_remote te (qp_IperfPort q))) (QuickPlan_Run te q r)"
  "moves (on_world (keeps_servers te)) (StandardPlan_Run te q n r)"
  "moves (on_world (keeps_remote te (qp_IperfPort q))) (StandardPlan_Run te q n r)"
  unfolding QuickPlan_Run_def StandardPlan_Run_def
  by (auto intro!: ks.moves_bindS kr.moves_bindS run_steps_moves salvage_keeps quick_plan_keeps standard_plan_keeps announce_keeps
      modify_keeps ks.state_preorder_axioms kr.state_preorder_axioms)

lemma neutral_tell: "neutral ev \<Longrightarrow> moves (adds neutral) (\<lambda>w. ((), tell ev w))" "moves (adds neutral) (Pair ())"
  by (simp_all add: moves_def moves_tell adds_refl)

lemma remote_call_neutral:
  assumes "opName \<noteq> OpIperfServerStart" and "opName \<noteq> OpIperfServerStop"
  shows "moves (on_world (keeps_servers te)) (remote_call te opName params t)"
    "moves (on_world (keeps_remote te port)) (remote_call te opName params t)"
  unfolding remote_call_def using assms by (auto intro!: neutral_moves moves_ask)

lemma cable_Run_neutral: "moves (adds neutral) (cable_Run te t tdr)"
  unfolding cable_Run_def cable_run_def by (auto intro!: adds_rules split: option.split)

lemma window_op: "OpCableTestWindowStart \<noteq> OpIperfServerStop" "OpCableTestWindowEnd \<noteq> OpIperfServerStop"
  by (simp_all add: OpCableTestWindowStart_def OpCableTestWindowEnd_def OpIperfServerStop_def)

lemma neutral_pair: "neutral a \<Longrightarrow> neutral b \<Longrightarrow> moves (adds neutral) (\<lambda>w. ((), tell a (tell b w)))"
  by (simp add: moves_def adds_def tell_def)

lemma close_peer_window_keeps: "moves (on_world (keeps_servers te)) (close_peer_window te)"
  "moves (on_world (keeps_remote te port)) (close_peer_window te)"
  unfolding close_peer_window_def
  by (auto intro!: server_rules remote_call_neutral simp: start_remote_op window_op split: option.split sum.split)

lemma cable_window_keeps: "moves (on_world (keeps_servers te)) (cable_window te p)"
  "moves (on_world (keeps_remote te port)) (cable_window te p)"
  unfolding cable_window_def end_window_def
  by (auto intro!: ks.moves_rules kr.moves_rules modify_keeps neutral_moves neutral_tell cable_Run_neutral close_peer_window_keeps
      record_keeps moves_ask split: option.split)

lemma cable_step_keeps: "moves (on_world (keeps_servers te)) (cable_step te p)"
  "moves (on_world (keeps_remote te port)) (cable_step te p)"
  unfolding cable_step_def restore_timeout_def Let_def
  by (auto intro!: ks.moves_rules kr.moves_rules modify_keeps neutral_moves neutral_pair announce_keeps cable_window_keeps
      record_keeps remote_call_neutral neutral_tell simp: start_remote_op window_op split: option.split)

lemma repeat_step_keeps:
  "moves (on_world (keeps_servers te)) stp \<Longrightarrow> moves (on_world (keeps_servers te)) (repeat_step n stp)"
  "moves (on_world (keeps_remote te port)) stp \<Longrightarrow> moves (on_world (keeps_remote te port)) (repeat_step n stp)"
  by (induction n) (auto intro!: ks.moves_rules kr.moves_rules record_keeps)

lemma announce_cycle_keeps:
  "moves (on_world (keeps_servers te)) (announce_cycle p r c k)" "moves (on_world (keeps_remote te port)) (announce_cycle p r c k)"
  unfolding announce_cycle_def by (auto intro!: ks.moves_rules kr.moves_rules announce_keeps record_keeps)

lemma cycle_steps_keeps:
  "moves (on_world (keeps_servers te)) (cycle_steps te p r c)"
  "moves (on_world (keeps_remote te (qp_IperfPort (so_Engine p)))) (cycle_steps te p r c)"
  unfolding cycle_steps_def Let_def
  by (auto intro!: ks.moves_rules kr.moves_rules announce_cycle_keeps snapshotCounters_keeps ping_keeps repeat_step_keeps tcp_keeps
      udp_keeps record_keeps)

lemma runCycle_world:
  "ps_w (snd (runCycle te p r c s)) = ps_w (snd (cycle_steps te p r c (s\<lparr> ps_res := zero_results\<lparr> sx_Link := sx_Link (ps_res s) \<rparr> \<rparr>)))"
  by (simp add: runCycle_def split: prod.split sum.split)

lemma runCycle_keeps:
  "moves (on_world (keeps_servers te)) (runCycle te p r c)"
  "moves (on_world (keeps_remote te (qp_IperfPort (so_Engine p)))) (runCycle te p r c)"
proof -
  define z :: "plan_state \<Rightarrow> plan_state" where "z s = s\<lparr> ps_res := zero_results\<lparr> sx_Link := sx_Link (ps_res s) \<rparr> \<rparr>" for s
  have z: "ps_w (z s) = ps_w s" "ps_w (snd (runCycle te p r c s)) = ps_w (snd (cycle_steps te p r c (z s)))" for s
    by (simp_all add: z_def runCycle_world)
  show "moves (on_world (keeps_servers te)) (runCycle te p r c)"
    "moves (on_world (keeps_remote te (qp_IperfPort (so_Engine p)))) (runCycle te p r c)"
    using cycle_steps_keeps unfolding moves_def on_world_def z(2) by (metis z(1))+
qed

lemma soak_round_keeps:
  "moves (on_world (keeps_servers te)) (soak_round_of te p r d c)"
  "moves (on_world (keeps_remote te (qp_IperfPort (so_Engine p)))) (soak_round_of te p r d c)"
  unfolding soak_round_of_def soak_cycle_def soak_gap_def leave_def leave_with_def mark_incomplete_def stoppedBySoakBudget_def
    waitGap_def recordEvents_def clock_now_def Let_def
  by (auto intro!: ks.moves_rules kr.moves_rules runCycle_keeps results_keeps modify_keeps neutral_moves moves_ask split: option.split sum.split)

text \<open>The rule of the soak loop: an invariant of the rounds that gives the postcondition when a round leaves.\<close>

lemma soak_loop_rule:
  assumes "soak_loop te p r d c s = Some (out, s')" and "I c s"
    and "\<And>c s out s'. I c s \<Longrightarrow> soak_round_of te p r d c s = (LeaveLoop out, s') \<Longrightarrow> Q out s'"
    and "\<And>c s s'. I c s \<Longrightarrow> soak_round_of te p r d c s = (NextCycle, s') \<Longrightarrow> I (iadd c 1) s'"
  shows "Q out s'"
proof -
  let ?P = "\<lambda>te' p' r' d' c s res. te' = te \<and> p' = p \<and> r' = r \<and> d' = d \<and> I c s \<longrightarrow> Q (fst res) (snd res)"
  have "?P te p r d c s (out, s')"
  proof (rule soak_loop.raw_induct [where P = ?P, OF _ assms(1)])
    fix loop te' p' r' d' c s res
    assume IH: "\<And>te' p' r' d' c s res. loop te' p' r' d' c s = Some res \<Longrightarrow> ?P te' p' r' d' c s res"
      and body: "(case soak_round_of te' p' r' d' c s of (NextCycle, s') \<Rightarrow> loop te' p' r' d' (iadd c 1) s'
                  | (LeaveLoop r, s') \<Rightarrow> Some (r, s')) = Some res"
    show "?P te' p' r' d' c s res"
    proof (intro impI, elim conjE)
      assume eqs: "te' = te" "p' = p" "r' = r" "d' = d" and inv: "I c s"
      obtain rd s1 where rd: "soak_round_of te p r d c s = (rd, s1)" by fastforce
      show "Q (fst res) (snd res)"
      proof (cases rd)
        case NextCycle
        then have "I (iadd c 1) s1" "loop te p r d (iadd c 1) s1 = Some res" using rd assms(4) [OF inv] body eqs by auto
        then show ?thesis using IH by blast
      next
        case (LeaveLoop o')
        then show ?thesis using rd assms(3) [OF inv] body eqs by auto
      qed
    qed
  qed
  then show ?thesis using assms(2) by simp
qed

lemma soak_loop_moves:
  assumes "state_preorder R" and "\<And>c. moves R (soak_round_of te p r d c)" and "soak_loop te p r d c s = Some (out, s')"
  shows "R s s'"
proof (rule soak_loop_rule [OF assms(3), where I = "\<lambda>_ t. R s t"])
  have rd: "R t t'" if "soak_round_of te p r d c t = (x, t')" for c t x t'
    using assms(2) [of c] that unfolding moves_def by (metis snd_conv)
  show "R s s" by (rule state_preorder.refl [OF assms(1)])
  show "R s t'" if "R s t" "soak_round_of te p r d c t = (LeaveLoop x, t')" for c t x t'
    using state_preorder.trans [OF assms(1) that(1) rd [OF that(2)]] .
  show "R s t'" if "R s t" "soak_round_of te p r d c t = (NextCycle, t')" for c t t'
    using state_preorder.trans [OF assms(1) that(1) rd [OF that(2)]] .
qed

lemma soak_setup_keeps:
  "moves (on_world (keeps_servers te)) (soak_setup te p)" "moves (on_world (keeps_remote te port)) (soak_setup te p)"
  "moves (on_world (keeps_servers te)) (soak_final te p out)" "moves (on_world (keeps_remote te port)) (soak_final te p out)"
  unfolding soak_setup_def soak_final_def mark_incomplete_def clock_now_def Let_def
  by (auto intro!: ks.moves_rules kr.moves_rules stepLink_keeps snapshotCounters_keeps modify_keeps neutral_moves moves_ask
      split: option.split sum.split)

lemma SoakPlan_moves:
  assumes R: "state_preorder R" and "moves R (soak_setup te p)" and "\<And>d c. moves R (soak_round_of te p r d c)"
    and "\<And>out. moves R (soak_final te p out)" and run: "SoakPlan_Run te p r s = Some (out, s')"
  shows "R s s'"
proof -
  obtain out1 s1 where body: "soak_body te p r s = Some (out1, s1)" and fin: "soak_final te p out1 s1 = (out, s')"
    using run by (auto simp: SoakPlan_Run_def split: option.splits)
  obtain x s0 where su: "soak_setup te p s = (x, s0)" by fastforce
  then have "R s s0" using assms(2) unfolding moves_def by (metis snd_conv)
  moreover have "R s0 s1"
    using body su soak_loop_moves [OF R assms(3)] state_preorder.refl [OF R] by (auto simp: soak_body_def split: sum.splits)
  moreover have "R s1 s'" using fin assms(4) unfolding moves_def by (metis snd_conv)
  ultimately show ?thesis using state_preorder.trans [OF R] by blast
qed

lemma SoakPlan_Run_keeps:
  assumes "SoakPlan_Run te p r s = Some (out, s')"
  shows "keeps_servers te (ps_w s) (ps_w s')" "keeps_remote te (qp_IperfPort (so_Engine p)) (ps_w s) (ps_w s')"
  using SoakPlan_moves [OF ks.state_preorder_axioms soak_setup_keeps(1) soak_round_keeps(1) soak_setup_keeps(3) assms]
    SoakPlan_moves [OF kr.state_preorder_axioms soak_setup_keeps(2) soak_round_keeps(2) soak_setup_keeps(4) assms]
  by (simp_all add: on_world_def)

end
