(* ===== verification/PlanResults.thy ===== *)
theory PlanResults
  imports PlanGuarantees
begin

section \<open>What the test plans record\<close>

text \<open>
  A plan that ends without an error has measured everything it announces, or says by name which test was
  skipped; the results only grow while it runs. The counters are captured before and after all load, and a
  soak session holds whole cycles only.
\<close>

subsection \<open>Orders on the results\<close>

text \<open>
  The interface between the results and the plans: an order that every elementary recording respects.
  Every step of the plans then respects it; the captures of counters need \<open>counter_order\<close>.
\<close>

locale result_order =
  fixes R :: "SessionResults \<Rightarrow> SessionResults \<Rightarrow> bool"
  assumes R_refl: "R r r"
    and R_trans: "R r r' \<Longrightarrow> R r' r'' \<Longrightarrow> R r r''"
    and R_notes: "R r (add_notes ns r)"
    and R_skipped: "R r (add_skipped name reason r)"
    and R_ping: "R r (add_ping p r)" "R r (add_fullsize p r)"
    and R_tcp: "R r (recordTCP t d r)"
    and R_udp: "R r (recordUDP u d r)"
    and R_incomplete: "R r (r\<lparr> sx_Incomplete := b \<rparr>)"
    and R_link: "R r (r\<lparr> sx_Link := AList.update k l (sx_Link r) \<rparr>)"
    and R_bidir: "R r (r\<lparr> sx_Bidir := Some bi, sx_Incomplete := b \<rparr>)"
    and R_flags: "R r (r\<lparr> sx_UDPNearSaturation := b \<rparr>)" "R r (r\<lparr> sx_UDPRateAssumed := b \<rparr>)"
begin

lemma on_results_preorder: "state_preorder (on_results R)"
  by unfold_locales (auto simp: on_results_def intro: R_refl R_trans)

lemmas order_rules = state_preorder.moves_rules [OF on_results_preorder]

lemma tool_follows: "moves (on_results R) (tool m)"
  by (simp add: moves_def on_results_def snd_tool_results R_refl)

lemma modify_follows: "(\<And>r. R r (f r)) \<Longrightarrow> moves (on_results R) (modify f)"
  by (simp add: moves_def on_results_def modify_def)

lemma R_comp: "(\<And>r. R r (f r)) \<Longrightarrow> (\<And>r. R r (g r)) \<Longrightarrow> R r ((f \<circ> g) r)"
  using R_trans [of r "g r" "f (g r)"] by simp

lemma R_rate_flags:
  "R r ((add_notes ns r)\<lparr> sx_UDPNearSaturation := b \<rparr>)" "R r ((add_notes ns r)\<lparr> sx_UDPRateAssumed := b \<rparr>)"
  by (rule R_trans [OF R_notes], rule R_flags)+

lemma R_fallback: "R r (fallback_result q note a b' r)"
  unfolding fallback_result_def by (rule R_bidir)

lemma R_payload: "R r (put_tcp p r)" "R r (put_udp p r)"
  by (simp_all add: put_tcp_def put_udp_def R_refl R_tcp R_udp split: op_payload.split)

lemma R_unreachable: "R r (unreachable_skip stage e r)"
  unfolding unreachable_skip_def Let_def by (rule R_comp) (rule R_skipped R_notes)+

lemmas update_rules = R_refl R_notes R_skipped R_ping R_tcp R_udp R_incomplete R_link R_bidir R_flags R_comp R_rate_flags R_fallback
  R_payload R_unreachable

lemma call_follows:
  "moves (on_results R) (callRemoteForTest te opName params t name)" "moves (on_results R) (callRemote te opName params t)"
  "moves (on_results R) (callRemoteDetached te opName params t)"
  unfolding callRemote_def callRemoteForTest_def remote_call_def callRemoteDetached_def
  by (auto intro!: order_rules tool_follows modify_follows update_rules split: sum.split)

lemma results_follows: "moves (on_results R) get_results" "moves (on_results R) (announceStep os r i n name)"
  "moves (on_results R) (stop_remote te q)" "moves (on_results R) (start_remote te q stage)"
  "moves (on_results R) done_step" "(\<And>r. R r (f r)) \<Longrightarrow> moves (on_results R) (record_result f)"
  "(\<And>p r. R r (put p r)) \<Longrightarrow> moves (on_results R) (record_payload out err put)"
  "moves (on_results R) (after_client stage e1 e2)"
  by (simp add: moves_def on_results_def get_results_def R_refl)
    (auto intro!: order_rules tool_follows modify_follows update_rules call_follows simp: announceStep_def stop_remote_def start_remote_def
      payload_or_err_def done_step_def record_result_def record_payload_def after_client_def split: option.split)

lemma payload_follows: "moves (on_results R) m \<Longrightarrow> moves (on_results R) (payload_or_err m)"
  unfolding payload_or_err_def by (auto intro!: order_rules)

lemma withRemoteServer_follows:
  "moves (on_results R) runClient \<Longrightarrow> moves (on_results R) (withRemoteServer te q stage skipNote runClient)"
  unfolding withRemoteServer_def start_remote_def [symmetric]
  by (auto intro!: order_rules tool_follows modify_follows update_rules results_follows split: option.split)

lemma with_local_server_follows:
  "moves (on_results R) phase \<Longrightarrow> moves (on_results R) (with_local_server te q port phase)"
  unfolding with_local_server_def by (auto intro!: order_rules tool_follows split: option.split)

lemmas follow_rules = order_rules tool_follows modify_follows update_rules call_follows results_follows payload_follows
  withRemoteServer_follows with_local_server_follows

lemma simple_steps_follow:
  "moves (on_results R) (stepLink te q)" "moves (on_results R) (stepPing te q)" "moves (on_results R) (stepFullSizePing te q)"
  "moves (on_results R) (stepTCPForward te q)" "moves (on_results R) (stepTCPReverse te q)"
  unfolding stepLink_def stepPing_def stepFullSizePing_def ping_both_def stepTCPForward_def stepTCPReverse_def ignore_flag_def
  by (auto intro!: follow_rules split: option.split op_payload.split)

lemma udpRate_follows: "moves (on_results R) (udpRate q)"
  unfolding udpRate_def Let_def by (auto intro!: follow_rules split: prod.split)

lemma udp_steps_follow: "moves (on_results R) (stepUDPAtRate te q r)" "moves (on_results R) (stepUDP te q)"
  "moves (on_results R) (udp_default_pass te q)" "moves (on_results R) (udp_reduced_pass te q)"
proof -
  show at: "moves (on_results R) (stepUDPAtRate te q r)" for r
    unfolding stepUDPAtRate_def by (auto intro!: follow_rules)
  have "moves (on_results R) (\<lambda>s. ((), s\<lparr> ps_rate := r \<rparr>))" for r
    by (simp add: moves_def on_results_def R_refl)
  then show "moves (on_results R) (stepUDP te q)" "moves (on_results R) (udp_default_pass te q)"
    unfolding stepUDP_def udp_default_pass_def by (auto intro!: order_rules udpRate_follows at)
  show "moves (on_results R) (udp_reduced_pass te q)" using at by (auto simp: moves_def udp_reduced_pass_def)
qed

lemma fallback_clients_follow: "moves (on_results R) (fallback_clients te q note)"
  unfolding fallback_clients_def Let_def by (auto intro!: follow_rules split: option.split)

lemma stepBidir_follows: "moves (on_results R) (stepBidir te q)"
  unfolding stepBidir_def bidirNative_def bidirFallback_def ignore_flag_def
  by (auto intro!: follow_rules fallback_clients_follow split: option.split sum.split)

lemmas load_steps_follow = simple_steps_follow udp_steps_follow stepBidir_follows

lemma run_steps_follow:
  "list_all (moves (on_results R)) (map snd steps) \<Longrightarrow> moves (on_results R) (run_steps what os rc n i steps)"
  by (rule run_steps_moves [OF on_results_preorder]) (auto intro: results_follows modify_follows R_incomplete)

end

locale counter_order = result_order +
  assumes R_initial: "R r (put_initial (\<lambda>c. c\<lparr> pc_PC1 := Some x \<rparr>) r)" "R r (put_initial (\<lambda>c. c\<lparr> pc_PC2 := Some x \<rparr>) r)"
    and R_final: "R r (put_final (\<lambda>c. c\<lparr> pc_PC1 := Some x \<rparr>) r)" "R r (put_final (\<lambda>c. c\<lparr> pc_PC2 := Some x \<rparr>) r)"
begin

lemma snapshots_follow:
  "moves (on_results R) (snapshotCounters te q put_initial)" "moves (on_results R) (snapshotCounters te q put_final)"
  "moves (on_results R) (snapshotCountersDetached te q put_final)"
  unfolding snapshotCounters_def snapshotCountersDetached_def
  by (auto intro!: follow_rules R_initial R_final split: option.split op_payload.split)

lemma quick_plan_follows: "list_all (moves (on_results R)) (map snd (quick_plan te q))"
  by (simp add: quick_plan_def quickSteps_def stepInitialCounters_def stepFinalCounters_def load_steps_follow snapshots_follow)

lemma standard_plan_follows: "list_all (moves (on_results R)) (map snd (standard_plan te q n))"
  by (simp add: standard_plan_def Let_def planSteps_length stepInitialCounters_def stepFinalCounters_def load_steps_follow
      snapshots_follow list_all_iff ball_Un)

end

subsection \<open>What a result holds\<close>

datatype measurement =
    LinkOf string
  | InitialOf string
  | FinalOf string
  | PingIn string
  | FullSizeIn string
  | TCPIn string
  | BidirDone
  | UDPIn string
  | Skipped string

definition side_captured :: "PeerCounters \<Rightarrow> string \<Rightarrow> bool" where
  "side_captured c role \<longleftrightarrow>
     role = RolePC1Key \<and> pc_PC1 c \<noteq> None \<or> role = RolePC2Key \<and> pc_PC2 c \<noteq> None"

fun recorded :: "SessionResults \<Rightarrow> measurement \<Rightarrow> bool" where
  "recorded r (LinkOf role) \<longleftrightarrow> map_of (sx_Link r) role \<noteq> None"
| "recorded r (InitialOf role) \<longleftrightarrow> side_captured (sx_InitialCounters r) role"
| "recorded r (FinalOf role) \<longleftrightarrow> side_captured (sx_FinalCounters r) role"
| "recorded r (PingIn dir) \<longleftrightarrow> dir \<in> pg_Direction ` set (sx_Ping r)"
| "recorded r (FullSizeIn dir) \<longleftrightarrow> dir \<in> pg_Direction ` set (sx_FullSizePing r)"
| "recorded r (TCPIn dir) \<longleftrightarrow> dir \<in> tr_Direction ` set (sx_TCP r)"
| "recorded r BidirDone \<longleftrightarrow> sx_Bidir r \<noteq> None"
| "recorded r (UDPIn dir) \<longleftrightarrow> dir \<in> ud_Direction ` set (sx_UDP r)"
| "recorded r (Skipped name) \<longleftrightarrow> name \<in> st_Name ` set (sx_SkippedTests r)"

definition accumulates :: "SessionResults \<Rightarrow> SessionResults \<Rightarrow> bool" where
  "accumulates r r' \<longleftrightarrow> (\<forall>m. recorded r m \<longrightarrow> recorded r' m)"

lemma accumulates_trans: "accumulates r r' \<Longrightarrow> accumulates r' r'' \<Longrightarrow> accumulates r r''"
  by (simp add: accumulates_def)

lemma accumulates_iff:
  "accumulates r r' \<longleftrightarrow>
     (\<forall>k. map_of (sx_Link r) k \<noteq> None \<longrightarrow> map_of (sx_Link r') k \<noteq> None) \<and>
     (\<forall>k. side_captured (sx_InitialCounters r) k \<longrightarrow> side_captured (sx_InitialCounters r') k) \<and>
     (\<forall>k. side_captured (sx_FinalCounters r) k \<longrightarrow> side_captured (sx_FinalCounters r') k) \<and>
     pg_Direction ` set (sx_Ping r) \<subseteq> pg_Direction ` set (sx_Ping r') \<and>
     pg_Direction ` set (sx_FullSizePing r) \<subseteq> pg_Direction ` set (sx_FullSizePing r') \<and>
     tr_Direction ` set (sx_TCP r) \<subseteq> tr_Direction ` set (sx_TCP r') \<and>
     (sx_Bidir r \<noteq> None \<longrightarrow> sx_Bidir r' \<noteq> None) \<and>
     ud_Direction ` set (sx_UDP r) \<subseteq> ud_Direction ` set (sx_UDP r') \<and>
     st_Name ` set (sx_SkippedTests r) \<subseteq> st_Name ` set (sx_SkippedTests r')"
proof -
  have all: "(\<forall>m. P m) \<longleftrightarrow> (\<forall>k. P (LinkOf k)) \<and> (\<forall>k. P (InitialOf k)) \<and> (\<forall>k. P (FinalOf k)) \<and> (\<forall>k. P (PingIn k)) \<and>
      (\<forall>k. P (FullSizeIn k)) \<and> (\<forall>k. P (TCPIn k)) \<and> P BidirDone \<and> (\<forall>k. P (UDPIn k)) \<and> (\<forall>k. P (Skipped k))" for P
    by (metis measurement.exhaust)
  show ?thesis unfolding accumulates_def all recorded.simps by (simp add: subset_iff)
qed

interpretation gr: counter_order accumulates
proof
  show "accumulates r r''" if "accumulates r r'" "accumulates r' r''" for r r' r'' using that by (rule accumulates_trans)
qed (auto simp: accumulates_iff add_notes_def add_skipped_def add_ping_def add_fullsize_def recordTCP_def recordUDP_def update_conv'
    put_initial_def put_final_def side_captured_def)

subsection \<open>What a step that succeeds leaves\<close>

lemma decoded:
  "DecodeOpResult oc OpLinkSettings raw = Inr p \<Longrightarrow> \<exists>x. p = LinkPayload x"
  "DecodeOpResult oc OpCountersSnapshot raw = Inr p \<Longrightarrow> \<exists>x. p = CounterPayload x"
  "DecodeOpResult oc OpPingRun raw = Inr p \<Longrightarrow> \<exists>x. p = PingPayload x"
  "DecodeOpResult oc OpPingFullSize raw = Inr p \<Longrightarrow> \<exists>x. p = PingPayload x"
  "DecodeOpResult oc OpIperfClientRun raw = Inr p \<Longrightarrow> \<exists>x. p = TCPPayload x"
  "DecodeOpResult oc OpIperfUDPRun raw = Inr p \<Longrightarrow> \<exists>x. p = UDPPayload x"
  by (auto simp: DecodeOpResult_def opDecoders_def OpLinkSettings_def OpCountersSnapshot_def OpPingRun_def OpPingFullSize_def
      OpIperfClientRun_def OpIperfUDPRun_def OpIperfServerStart_def OpIperfServerStop_def OpIperfCaps_def map_sum_def
      split: sum.splits if_splits)

lemma add_skipped_recorded: "name \<noteq> '''' \<Longrightarrow> recorded (add_skipped name reason r) (Skipped name)"
  by (auto simp: add_skipped_def list_ex_iff)

lemma call_outcome:
  assumes "callRemoteForTest te opName params t name s = ((out, None), s')" and "name \<noteq> ''''"
  shows "(out = None \<and> recorded (ps_res s') (Skipped name)) \<or> (\<exists>p raw. out = Some p \<and> DecodeOpResult (te_codec te) opName raw = Inr p)"
  using assms
  by (auto simp: callRemoteForTest_def bindS_def ret_def modify_def add_skipped_recorded simp del: recorded.simps
      split: prod.splits sum.splits if_splits)

lemma payload_outcome:
  assumes "payload_or_err (callRemoteForTest te opName params t name) s = (Inr out, s')" and "name \<noteq> ''''"
  shows "(out = None \<and> recorded (ps_res s') (Skipped name)) \<or> (\<exists>p raw. out = Some p \<and> DecodeOpResult (te_codec te) opName raw = Inr p)"
  using assms call_outcome [of te opName params t name s out s']
  by (auto simp: payload_or_err_def bindS_def ret_def split: prod.splits option.splits)

lemma bindE_ok:
  assumes "bindE m f s = (Inr b, s')"
  obtains a s1 where "m s = (Inr a, s1)" "f a s1 = (Inr b, s')"
  using assms by (auto simp: bindE_def bindS_def ret_def split: prod.splits sum.splits)

lemma bindS_ok:
  assumes "bindS m f s = (b, s')"
  obtains a s1 where "m s = (a, s1)" "f a s1 = (b, s')"
  using assms by (auto simp: bindS_def split: prod.splits)

lemma growsD: "moves (on_results accumulates) m \<Longrightarrow> m s = (a, s') \<Longrightarrow> recorded (ps_res s) x \<Longrightarrow> recorded (ps_res s') x"
  using movesD [of "on_results accumulates" m s a s'] by (simp add: on_results_def accumulates_def)

text \<open>
  The common shape of the link, counter and ping steps: a local measurement that \<open>put1\<close> stores, then the
  measurement of the peer that \<open>put2\<close> stores.
\<close>

lemma both_sides_give:
  assumes run: "bindE loc (\<lambda>x. bindS (modify (put1 x)) (\<lambda>_. bindE (payload_or_err (callRemoteForTest te opName params t name)) fin)) s = (Inr (), s')"
    and name: "name \<noteq> []"
    and put1: "\<And>x r. recorded (put1 x r) m1"
    and fin: "\<And>out. moves (on_results accumulates) (fin out)"
    and peer: "\<And>raw p s s'. DecodeOpResult (te_codec te) opName raw = Inr p \<Longrightarrow> fin (Some p) s = (Inr (), s') \<Longrightarrow> recorded (ps_res s') m2"
  shows "recorded (ps_res s') m1 \<and> (recorded (ps_res s') m2 \<or> recorded (ps_res s') (Skipped name))"
proof -
  from run obtain x s1 s2 out s3 where m: "modify (put1 x) s1 = ((), s2)"
    and call: "payload_or_err (callRemoteForTest te opName params t name) s2 = (Inr out, s3)" and f: "fin out s3 = (Inr (), s')"
    by (auto elim!: bindE_ok bindS_ok)
  have "recorded (ps_res s2) m1" using m put1 by (auto simp: modify_def)
  then have "recorded (ps_res s3) m1" using growsD [OF gr.payload_follows [OF gr.call_follows(1)] call] by blast
  then have "recorded (ps_res s') m1" using growsD [OF fin f] by blast
  moreover have "recorded (ps_res s') m2 \<or> recorded (ps_res s') (Skipped name)"
    using payload_outcome [OF call name] peer f growsD [OF fin f] by blast
  ultimately show ?thesis by blast
qed

lemma stepLink_gives:
  assumes "stepLink te q s = (Inr (), s')"
  shows "recorded (ps_res s') (LinkOf RolePC1Key) \<and>
    (recorded (ps_res s') (LinkOf RolePC2Key) \<or> recorded (ps_res s') (Skipped ''link_settings''))"
  using assms unfolding stepLink_def case_prod_unfold
  by (rule both_sides_give)
    (auto intro!: gr.follow_rules dest!: decoded split: option.split op_payload.split simp: update_conv' record_result_def
      modify_def bindS_def done_step_def ret_def)

lemma snapshotCounters_gives:
  "snapshotCounters te q put_initial s = (Inr (), s') \<Longrightarrow> recorded (ps_res s') (InitialOf RolePC1Key) \<and>
    (recorded (ps_res s') (InitialOf RolePC2Key) \<or> recorded (ps_res s') (Skipped ''counters''))"
  "snapshotCounters te q put_final s = (Inr (), s') \<Longrightarrow> recorded (ps_res s') (FinalOf RolePC1Key) \<and>
    (recorded (ps_res s') (FinalOf RolePC2Key) \<or> recorded (ps_res s') (Skipped ''counters''))"
  unfolding snapshotCounters_def
  by (erule both_sides_give; auto intro!: gr.follow_rules gr.R_initial [unfolded put_initial_def] gr.R_final [unfolded put_final_def]
      dest!: decoded split: option.split op_payload.split simp: side_captured_def put_initial_def put_final_def record_result_def modify_def bindS_def done_step_def ret_def)+

lemma ping_gives:
  "stepPing te q s = (Inr (), s') \<Longrightarrow> recorded (ps_res s') (PingIn DirectionPC1ToPC2) \<and>
    (recorded (ps_res s') (PingIn DirectionPC2ToPC1) \<or> recorded (ps_res s') (Skipped ''ping''))"
  "stepFullSizePing te q s = (Inr (), s') \<Longrightarrow> recorded (ps_res s') (FullSizeIn DirectionPC1ToPC2) \<and>
    (recorded (ps_res s') (FullSizeIn DirectionPC2ToPC1) \<or> recorded (ps_res s') (Skipped ''full_size_ping''))"
  unfolding stepPing_def stepFullSizePing_def ping_both_def case_prod_unfold
  by (erule both_sides_give; auto intro!: gr.follow_rules dest!: decoded split: option.split op_payload.split
      simp: add_ping_def add_fullsize_def add_notes_def record_result_def modify_def bindS_def done_step_def ret_def)+

lemma after_client_gives:
  assumes "after_client stage runErr stopErr s = (Inr rn, s')" and "stage \<noteq> []"
  shows "rn \<and> (runErr = None \<and> ps_res s' = ps_res s \<or> recorded (ps_res s') (Skipped stage))"
proof (cases runErr)
  case None
  then show ?thesis using assms(1) by (auto simp: after_client_def ret_def split: option.splits)
next
  case (Some e)
  have "recorded ((add_notes ns \<circ> unreachable_skip stage e) r) (Skipped stage)" "recorded (unreachable_skip stage e r) (Skipped stage)" for ns r
  proof -
    show *: "recorded (unreachable_skip stage e r) (Skipped stage)" for r
      unfolding unreachable_skip_def Let_def comp_def by (rule add_skipped_recorded [OF assms(2)])
    show "recorded ((add_notes ns \<circ> unreachable_skip stage e) r) (Skipped stage)"
      using * [of r] by (simp add: add_notes_def)
  qed
  then show ?thesis using assms(1) Some
    by (auto simp: after_client_def bindS_def modify_def ret_def simp del: recorded.simps split: if_splits option.splits)
qed

lemma withRemoteServer_gives:
  assumes run: "withRemoteServer te q stage skipNote runClient s = (Inr rn, s')" and stage: "stage \<noteq> []"
    and client: "\<And>s s'. runClient s = (None, s') \<Longrightarrow> recorded (ps_res s') m"
  shows "(rn \<and> recorded (ps_res s') m) \<or> recorded (ps_res s') (Skipped stage)"
proof -
  from run obtain out s1 where st: "start_remote te q stage s = (Inr out, s1)"
    and rest: "(case out of None \<Rightarrow> bindS (modify (add_notes [skipNote])) (\<lambda>_. ret (Inr False))
       | Some _ \<Rightarrow> bindS runClient (\<lambda>runErr. bindS (stop_remote te q) (\<lambda>stopErr. after_client stage runErr stopErr))) s1 = (Inr rn, s')"
    unfolding withRemoteServer_def start_remote_def [symmetric] by (rule bindE_ok)
  show ?thesis
  proof (cases out)
    case None
    then have "recorded (ps_res s1) (Skipped stage)"
      using payload_outcome [OF st [unfolded start_remote_def] stage] by auto
    then show ?thesis using rest None by (auto simp: bindS_def modify_def ret_def add_notes_def)
  next
    case (Some p)
    from rest Some obtain runErr s2 stopErr s3 where c: "runClient s1 = (runErr, s2)" "stop_remote te q s2 = (stopErr, s3)"
      "after_client stage runErr stopErr s3 = (Inr rn, s')"
      by (auto elim!: bindS_ok)
    have "recorded (ps_res s3) m" if "runErr = None"
      using client c(1) that growsD [OF gr.results_follows(3) c(2)] by blast
    then show ?thesis using after_client_gives [OF c(3) stage] by metis
  qed
qed

lemma remote_client_gives:
  assumes run: "bindS (callRemoteForTest te opName params t name) (\<lambda>(out, err). record_payload out err put) s = (Inr (), s')"
    and name: "name \<noteq> []" and put: "\<And>p r. accumulates r (put p r)"
    and dec: "\<And>raw p r. DecodeOpResult (te_codec te) opName raw = Inr p \<Longrightarrow> recorded (put p r) m"
  shows "recorded (ps_res s') m \<or> recorded (ps_res s') (Skipped name)"
proof -
  from run obtain out err s1 where call: "callRemoteForTest te opName params t name s = ((out, err), s1)"
    and rec: "record_payload out err put s1 = (Inr (), s')" by (auto elim!: bindS_ok)
  then have err: "err = None" and s': "ps_res s' = (case out of Some p \<Rightarrow> put p | None \<Rightarrow> id) (ps_res s1)"
    by (auto simp: record_payload_def bindS_def modify_def ret_def split: option.splits)
  from call_outcome [OF call [unfolded err] name] show ?thesis
  proof (elim disjE)
    assume "out = None \<and> recorded (ps_res s1) (Skipped name)"
    then show ?thesis using s' by simp
  next
    assume "\<exists>p raw. out = Some p \<and> DecodeOpResult (te_codec te) opName raw = Inr p"
    then show ?thesis using dec s' by auto
  qed
qed

lemma reverse_phase_gives:
  assumes "with_local_server te q port (bindS (callRemoteForTest te opName params t name) (\<lambda>(out, err). record_payload out err put)) s = (Inr (), s')"
    and "name \<noteq> []" and "\<And>p r. accumulates r (put p r)"
    and "\<And>raw p r. DecodeOpResult (te_codec te) opName raw = Inr p \<Longrightarrow> recorded (put p r) m"
  shows "recorded (ps_res s') m \<or> recorded (ps_res s') (Skipped name)"
proof -
  obtain s1 s2 where run: "bindS (callRemoteForTest te opName params t name) (\<lambda>(out, err). record_payload out err put) s1 = (Inr (), s2)"
    and s': "ps_res s' = ps_res s2"
    using with_local_server_ran [OF assms(1)] by blast
  show ?thesis unfolding s' by (rule remote_client_gives [OF run assms(2-4)])
qed

lemma reverse_phase_grows:
  assumes "\<And>p r. accumulates r (put p r)"
  shows "moves (on_results accumulates) (with_local_server te q port (bindS (callRemoteForTest te opName params t name) (\<lambda>(out, err). record_payload out err put)))"
  using assms by (auto intro!: gr.follow_rules)

lemma put_recorded:
  "DecodeOpResult oc OpIperfClientRun raw = Inr p \<Longrightarrow> recorded (put_tcp p r) (TCPIn DirectionPC2ToPC1)"
  "DecodeOpResult oc OpIperfUDPRun raw = Inr p \<Longrightarrow> recorded (put_udp p r) (UDPIn DirectionPC2ToPC1)"
  by (auto simp: put_tcp_def put_udp_def recordTCP_def recordUDP_def dest!: decoded)

lemma local_client_gives:
  assumes "bindS (tool m) (\<lambda>(res, runErr). bindS (modify (if unreachable runErr then id else put res)) (\<lambda>_. ret runErr)) s = (None, s')"
    and "\<And>res r. recorded (put res r) x"
  shows "recorded (ps_res s') x"
  using assms by (auto elim!: bindS_ok simp: modify_def ret_def unreachable_def simp del: recorded.simps)

lemma tcp_gives:
  "stepTCPForward te q s = (Inr (), s') \<Longrightarrow> recorded (ps_res s') (TCPIn DirectionPC1ToPC2) \<or> recorded (ps_res s') (Skipped ''tcp'')"
  "stepTCPReverse te q s = (Inr (), s') \<Longrightarrow> recorded (ps_res s') (TCPIn DirectionPC2ToPC1) \<or> recorded (ps_res s') (Skipped ''tcp'')"
proof -
  assume "stepTCPForward te q s = (Inr (), s')"
  then obtain rn s1 where run: "withRemoteServer te q ''tcp'' (''TCP throughput PC1 '' @ right_arrow_text @ '' PC2 skipped: peer iperf3 unavailable'')
       (bindS (tool (RunTCPClient te (qp_Iperf q) (qp_LocalIP q) (qp_PeerIP q) (qp_IperfPort q) (qp_TCPDuration q) (qp_Streams q) False))
         (\<lambda>(res, runErr).
          bindS (modify (if unreachable runErr then id else recordTCP res DirectionPC1ToPC2)) (\<lambda>_. ret runErr))) s = (Inr rn, s1)"
    and s': "s' = s1"
    unfolding stepTCPForward_def ignore_flag_def by (auto elim!: bindE_ok simp: done_step_def ret_def)
  show "recorded (ps_res s') (TCPIn DirectionPC1ToPC2) \<or> recorded (ps_res s') (Skipped ''tcp'')"
  proof -
    have "(rn \<and> recorded (ps_res s1) (TCPIn DirectionPC1ToPC2)) \<or> recorded (ps_res s1) (Skipped ''tcp'')"
      by (rule withRemoteServer_gives [OF run _ local_client_gives]) (auto simp: recordTCP_def)
    then show ?thesis using s' by blast
  qed
next
  assume "stepTCPReverse te q s = (Inr (), s')"
  then show "recorded (ps_res s') (TCPIn DirectionPC2ToPC1) \<or> recorded (ps_res s') (Skipped ''tcp'')"
    unfolding stepTCPReverse_def
    by (rule reverse_phase_gives [OF _ _ gr.R_payload(1) put_recorded(1)]) simp_all
qed

lemma udp_gives:
  assumes "stepUDPAtRate te q rate s = (Inr (), s')"
  shows "recorded (ps_res s') (Skipped ''udp'') \<or>
    (recorded (ps_res s') (UDPIn DirectionPC1ToPC2) \<and> recorded (ps_res s') (UDPIn DirectionPC2ToPC1))"
proof -
  from assms obtain rn s1 where fwd: "withRemoteServer te q ''udp'' ''UDP loss/jitter skipped: peer iperf3 unavailable''
       (bindS (tool (RunUDPClient te (qp_Iperf q) (qp_LocalIP q) (qp_PeerIP q) (qp_IperfPort q) (qp_UDPDuration q) rate
                      (UDPPayloadForMTU (qp_MTU q))))
         (\<lambda>(res, runErr).
          bindS (modify (if unreachable runErr then id else recordUDP res DirectionPC1ToPC2)) (\<lambda>_. ret runErr))) s = (Inr rn, s1)"
    and rev: "(if \<not> rn then done_step else with_local_server te q (qp_IperfPort q)
              (bindS (callRemoteForTest te OpIperfUDPRun (udp_params q rate) (udpTimeout q) ''udp'')
                (\<lambda>(out, err). record_payload out err put_udp))) s1 = (Inr (), s')"
    unfolding stepUDPAtRate_def by (rule bindE_ok)
  have grow: "recorded (ps_res s1) x \<Longrightarrow> recorded (ps_res s') x" for x
    using rev growsD [OF reverse_phase_grows [OF gr.R_payload(2)]]
    by (cases rn) (simp_all add: done_step_def ret_def del: recorded.simps)
  have "(rn \<and> recorded (ps_res s1) (UDPIn DirectionPC1ToPC2)) \<or> recorded (ps_res s1) (Skipped ''udp'')"
    by (rule withRemoteServer_gives [OF fwd _ local_client_gives]) (auto simp: recordUDP_def)
  moreover have "recorded (ps_res s') (UDPIn DirectionPC2ToPC1) \<or> recorded (ps_res s') (Skipped ''udp'')" if rn
  proof -
    from rev that show ?thesis
      by (simp del: recorded.simps)
        (erule reverse_phase_gives [OF _ _ gr.R_payload(2) put_recorded(2)]; simp)
  qed
  ultimately show ?thesis using grow by blast
qed

lemma stepUDP_gives:
  assumes "stepUDP te q s = (Inr (), s')"
  shows "recorded (ps_res s') (Skipped ''udp'') \<or>
    (recorded (ps_res s') (UDPIn DirectionPC1ToPC2) \<and> recorded (ps_res s') (UDPIn DirectionPC2ToPC1))"
  using assms unfolding stepUDP_def by (rule bindS_ok) (rule udp_gives)

lemma fallback_clients_give: "recorded (ps_res (snd (fallback_clients te q note s))) BidirDone"
proof -
  obtain p s1 where p: "tool (RunTCPClient te (qp_Iperf q) (qp_LocalIP q) (qp_PeerIP q) (qp_IperfPort q) (qp_TCPDuration q) (qp_Streams q) False) s = (p, s1)"
    by fastforce
  obtain o2 s2 where o2: "callRemoteForTest te OpIperfClientRun (client_params q (qp_IperfPort q + 1)) (tcpTimeout q) ''bidirectional'' s1 = (o2, s2)"
    by fastforce
  have "recorded (ps_res (snd (stop_remote te q t))) BidirDone" if "recorded (ps_res t) BidirDone" for t
    using growsD [OF gr.results_follows(3)] that by (metis prod.collapse)
  then show ?thesis
    by (simp add: fallback_clients_def snd_bindS p o2 split_def Let_def del: recorded.simps) (simp add: ret_def modify_def fallback_result_def)
qed

lemma bidir_gives:
  assumes "stepBidir te q s = (Inr (), s')"
  shows "recorded (ps_res s') BidirDone \<or> recorded (ps_res s') (Skipped ''bidirectional'')"
proof -
  from assms consider s1 where "bidirNative te q s1 = (Inr (), s')" | s1 nt where "bidirFallback te q nt s1 = (Inr (), s')"
    unfolding stepBidir_def by (auto elim!: bindE_ok bindS_ok split: if_splits)
  then show ?thesis
  proof cases
    case 1
    then obtain rn s2 where run: "withRemoteServer te q ''bidirectional'' ''bidirectional stress skipped: peer iperf3 unavailable''
       (bindS (tool (RunBidirClient te (qp_Iperf q) (qp_LocalIP q) (qp_PeerIP q) (qp_IperfPort q) (qp_TCPDuration q) (qp_Streams q)))
         (\<lambda>(res, runErr).
          bindS (modify (if unreachable runErr then id
                 else (\<lambda>r. r\<lparr> sx_Bidir := Some (bq_Bidir res), sx_Incomplete := sx_Incomplete r \<or> bq_Incomplete res \<rparr>)))
            (\<lambda>_. ret runErr))) s1 = (Inr rn, s2)" and s': "s' = s2"
      unfolding bidirNative_def ignore_flag_def by (auto elim!: bindE_ok simp: done_step_def ret_def)
    have "(rn \<and> recorded (ps_res s2) BidirDone) \<or> recorded (ps_res s2) (Skipped ''bidirectional'')"
      by (rule withRemoteServer_gives [OF run _ local_client_gives]) auto
    then show ?thesis using s' by blast
  next
    case 2
    then obtain out s2 where st: "start_remote te q ''bidirectional'' s1 = (Inr out, s2)"
      and rest: "(case out of
         None \<Rightarrow> record_result (add_notes [''bidirectional stress skipped: peer iperf3 unavailable''])
       | Some _ \<Rightarrow>
           bindS (with_local_server te q (qp_IperfPort q + 1)
                    (bindS (fallback_clients te q nt) (\<lambda>r. ret (Inr r)))) (\<lambda>r. case r of
             Inr outcome \<Rightarrow> ret outcome
           | Inl e \<Rightarrow> bindS (stop_remote te q) (\<lambda>_. ret (Inl e)))) s2 = (Inr (), s')"
      unfolding bidirFallback_def start_remote_def [symmetric] by (rule bindE_ok)
    show ?thesis
    proof (cases out)
      case None
      then have "recorded (ps_res s2) (Skipped ''bidirectional'')"
        using payload_outcome [OF st [unfolded start_remote_def]] by auto
      then show ?thesis using rest None by (auto simp: record_result_def bindS_def modify_def done_step_def ret_def add_notes_def)
    next
      case (Some p)
      obtain r s3 where wl: "with_local_server te q (qp_IperfPort q + 1) (bindS (fallback_clients te q nt) (\<lambda>r. ret (Inr r))) s2 = (r, s3)"
        by fastforce
      have r: "r = Inr (Inr ())" "s' = s3"
        using rest Some wl by (auto simp: bindS_def ret_def split: sum.splits prod.splits)
      then obtain sa sb where "bindS (fallback_clients te q nt) (\<lambda>r. ret (Inr r :: op_err + (op_err + unit))) sa = (Inr (Inr ()), sb)"
        "ps_res s3 = ps_res sb"
        using with_local_server_ran [OF wl [unfolded r(1)]] by blast
      then have "recorded (ps_res s3) BidirDone"
        using fallback_clients_give [of te q nt sa] by (auto simp: bindS_def ret_def split: prod.splits)
      then show ?thesis using r by blast
    qed
  qed
qed

subsection \<open>No silent gap\<close>

lemma run_steps_reaches:
  assumes "run_steps what os rc n i steps s = (Inr (), s')" and "(nm, stp) \<in> set steps"
    and "list_all (moves (on_results accumulates)) (map snd steps)"
  shows "\<exists>sa sb. stp sa = (Inr (), sb) \<and> accumulates (ps_res sb) (ps_res s')"
  using assms
proof (induction steps arbitrary: i s)
  case (Cons st steps)
  obtain nm' stp' where st: "st = (nm', stp')" by fastforce
  from Cons.prems(1) st obtain s1 s2 where ran: "stp' s1 = (Inr (), s2)" "run_steps what os rc n (i + 1) steps s2 = (Inr (), s')"
    by (auto elim!: bindS_ok simp: ret_def split: sum.splits)
  have mv: "moves (on_results accumulates) (run_steps what os rc n (i + 1) steps)"
    using Cons.prems(3) by (intro gr.run_steps_follow) simp
  then have "accumulates (ps_res s2) (ps_res s')" using movesD [OF mv ran(2)] by (simp add: on_results_def)
  then show ?case using Cons ran st by (auto 0 3)
qed simp

text \<open>What the plans announce: the measurements of this machine, and those that need the peer with the test they belong to.\<close>

definition planned_here :: "measurement list" where
  "planned_here = [LinkOf RolePC1Key, InitialOf RolePC1Key, FinalOf RolePC1Key, PingIn DirectionPC1ToPC2, FullSizeIn DirectionPC1ToPC2]"

definition planned_with_peer :: "(measurement \<times> string) list" where
  "planned_with_peer =
     [(LinkOf RolePC2Key, ''link_settings''), (InitialOf RolePC2Key, ''counters''), (FinalOf RolePC2Key, ''counters''),
      (PingIn DirectionPC2ToPC1, ''ping''), (FullSizeIn DirectionPC2ToPC1, ''full_size_ping''),
      (TCPIn DirectionPC1ToPC2, ''tcp''), (TCPIn DirectionPC2ToPC1, ''tcp''), (BidirDone, ''bidirectional''),
      (UDPIn DirectionPC1ToPC2, ''udp''), (UDPIn DirectionPC2ToPC1, ''udp'')]"

definition no_gap :: "SessionResults \<Rightarrow> bool" where
  "no_gap r \<longleftrightarrow> list_all (recorded r) planned_here \<and>
     list_all (\<lambda>(m, test). recorded r m \<or> recorded r (Skipped test)) planned_with_peer"

lemma steps_leave_no_gap:
  assumes run: "run_steps what os rc n i steps s = (Inr (), s')"
    and grow: "list_all (moves (on_results accumulates)) (map snd steps)"
    and steps: "{stepLink te q, stepInitialCounters te q, stepPing te q, stepFullSizePing te q, stepTCPForward te q, stepTCPReverse te q,
       stepBidir te q, stepFinalCounters te q} \<subseteq> snd ` set steps"
    and udp: "stepUDP te q \<in> snd ` set steps \<or> udp_default_pass te q \<in> snd ` set steps"
  shows "no_gap (ps_res s')"
proof -
  have reach: "\<exists>sa sb. stp sa = (Inr (), sb) \<and> accumulates (ps_res sb) (ps_res s')" if "stp \<in> snd ` set steps" for stp
    using that run_steps_reaches [OF run _ grow] by force
  have up: "recorded (ps_res s') m" if "recorded (ps_res sb) m" "accumulates (ps_res sb) (ps_res s')" for m and sb :: plan_state
    using that by (simp add: accumulates_def)
  have udp_ok: "recorded (ps_res s') (Skipped ''udp'') \<or>
      (recorded (ps_res s') (UDPIn DirectionPC1ToPC2) \<and> recorded (ps_res s') (UDPIn DirectionPC2ToPC1))"
    using udp
  proof
    assume "stepUDP te q \<in> snd ` set steps"
    then show ?thesis using reach [of "stepUDP te q"] stepUDP_gives [of te q] up by blast
  next
    assume "udp_default_pass te q \<in> snd ` set steps"
    then obtain sb rate sc where "stepUDPAtRate te q rate sc = (Inr (), sb)" "accumulates (ps_res sb) (ps_res s')"
      using reach [of "udp_default_pass te q"] unfolding udp_default_pass_def by (auto elim!: bindS_ok)
    then show ?thesis using udp_gives [of te q] up by blast
  qed
  have one: "recorded (ps_res s') a \<or> recorded (ps_res s') b"
    if "stp \<in> snd ` set steps" "\<And>sa sb. stp sa = (Inr (), sb) \<Longrightarrow> recorded (ps_res sb) a \<or> recorded (ps_res sb) b" for stp a b
    using reach [OF that(1)] that(2) up by metis
  have two: "recorded (ps_res s') c \<and> (recorded (ps_res s') a \<or> recorded (ps_res s') b)"
    if "stp \<in> snd ` set steps" "\<And>sa sb. stp sa = (Inr (), sb) \<Longrightarrow> recorded (ps_res sb) c \<and> (recorded (ps_res sb) a \<or> recorded (ps_res sb) b)"
    for stp a b c
    using reach [OF that(1)] that(2) up by metis
  have st: "stepLink te q \<in> snd ` set steps" "stepInitialCounters te q \<in> snd ` set steps" "stepPing te q \<in> snd ` set steps"
    "stepFullSizePing te q \<in> snd ` set steps" "stepTCPForward te q \<in> snd ` set steps" "stepTCPReverse te q \<in> snd ` set steps"
    "stepBidir te q \<in> snd ` set steps" "stepFinalCounters te q \<in> snd ` set steps"
    using steps by auto
  note rs = two [OF st(1) stepLink_gives] two [OF st(2) snapshotCounters_gives(1) [folded stepInitialCounters_def]]
    two [OF st(8) snapshotCounters_gives(2) [folded stepFinalCounters_def]] two [OF st(3) ping_gives(1)] two [OF st(4) ping_gives(2)]
    one [OF st(5) tcp_gives(1)] one [OF st(6) tcp_gives(2)] one [OF st(7) bidir_gives]
  show ?thesis unfolding no_gap_def planned_here_def planned_with_peer_def
    using udp_ok rs by (auto simp del: recorded.simps)
qed

lemma salvage_ok: "salvageFinalCounters te q r s = (Inr (), s') \<Longrightarrow> r = Inr () \<and> s' = s"
  by (auto simp: salvageFinalCounters_def bindS_def ret_def get_results_def split: sum.splits prod.splits if_splits)

lemma standard_plan_steps:
  "snd ` set (standard_plan te q n) = {stepLink te q, stepInitialCounters te q, stepPing te q, stepFullSizePing te q,
     stepTCPForward te q, stepTCPReverse te q, stepBidir te q, udp_default_pass te q, udp_reduced_pass te q, stepFinalCounters te q}"
proof -
  have "snd ` set (zip xs ys) = set ys" if "length xs = length ys" for xs :: "string list" and ys :: "test_step list"
    using that by (metis list.set_map map_snd_zip)
  moreover have "nat (repeats n) \<noteq> 0" by (simp add: repeats_def)
  ultimately show ?thesis by (simp add: standard_plan_def Let_def planSteps_length insert_commute)
qed

text \<open>
  C11. A quick or standard run that ends without an error has no silent gap: both pings, the link settings
  and the counters before and after are recorded for this machine; the measurements that involve the peer
  (its link settings and counters, ping and full-size ping from it, TCP and UDP in both directions, the
  bidirectional test) are each recorded, or the test they belong to is named among the skipped tests.
\<close>

theorem no_silent_gap:
  assumes "(Inr (), s') \<in> {QuickPlan_Run te q rc s, StandardPlan_Run te q n rc s}"
  shows "no_gap (ps_res s')"
  using assms
proof (elim insertE emptyE)
  assume "(Inr (), s') = QuickPlan_Run te q rc s"
  then have "run_steps '''' (qp_OnStep q) rc (int (length quickSteps)) 1 (quick_plan te q) s = (Inr (), s')"
    unfolding QuickPlan_Run_def by (metis bindS_ok salvage_ok)
  then show ?thesis by (rule steps_leave_no_gap [OF _ gr.quick_plan_follows]) (auto simp: quick_plan_def quickSteps_def)
next
  assume "(Inr (), s') = StandardPlan_Run te q n rc s"
  then have "run_steps ''standard '' (qp_OnStep q) rc (int (length (planSteps n))) 1 (standard_plan te q n) s = (Inr (), s')"
    unfolding StandardPlan_Run_def by (metis bindS_ok salvage_ok)
  then show ?thesis by (rule steps_leave_no_gap [OF _ gr.standard_plan_follows, where te = te and q = q]) (simp_all add: standard_plan_steps)
qed

subsection \<open>A run against a peer without tools\<close>

definition peerless_link :: IPLink where
  "peerless_link = \<lparr> li_Ifindex = 2, li_Ifname = ''eth0'', li_Flags = [], li_MTU = 1500, li_Operstate = ''UP'', li_LinkType = ''ether'',
     li_Address = '''', li_Altnames = [], li_AddrInfo = [], li_Stats64 = Some zero_ip \<rparr>"

definition peerless_codec :: op_codec where
  "peerless_codec = \<lparr> oc_Counter = \<lambda>_. Inl '''', oc_Link = \<lambda>_. Inl '''', oc_Ping = \<lambda>_. Inl '''', oc_Start = \<lambda>_. Inl '''', oc_Stop = \<lambda>_. Inl '''',
     oc_TCP = \<lambda>_. Inl '''', oc_UDP = \<lambda>_. Inl '''', oc_Caps = \<lambda>_. Inl '''', oc_Window = \<lambda>_. Inl '''',
     oc_Quote = \<lambda>s. s \<rparr>"

text \<open>
  Every tool of this machine answers; the peer answers every request that it has no tools. The clock
  advances by a second with every question.
\<close>

definition demo_te :: tool_env where
  "demo_te = \<lparr> te_run = \<lambda>_ spec. Inr (if co_Name spec = ''ping'' then \<lparr> cr_Stdout = demo_missing, cr_Stderr = '''', cr_ExitCode = 1 \<rparr>
       else \<lparr> cr_Stdout = '''', cr_Stderr = '''', cr_ExitCode = 0 \<rparr>),
     te_start = \<lambda>_ _. None, te_register = \<lambda>_. True, te_ready = \<lambda>_. Banner, te_stop = \<lambda>_. ExitedInGrace, te_file = \<lambda>_ _. None,
     te_now = \<lambda>n. int n * second, te_ctxErr = \<lambda>_. None,
     te_call = \<lambda>_ _ _. Inr \<lparr> ts_Status = StatusUnavailable, ts_Result = '''', ts_Error = ''not installed'', ts_StartedAt = 0, ts_FinishedAt = 0 \<rparr>,
     te_budgetExpired = \<lambda>_. False, te_gap = \<lambda>_. None, te_window = \<lambda>_. 0, te_events = \<lambda>_. [], te_codec = peerless_codec,
     te_iperf_json = \<lambda>_. Inl ''no output'', te_link_json = \<lambda>_. Inr [peerless_link], te_conv = \<lparr> oob_i64 = \<lambda>_. 0, oob_u64 = \<lambda>_. 0 \<rparr> \<rparr>"

definition demo_plan :: QuickPlan where
  "demo_plan = \<lparr> qp_Counters = \<lparr> cc_IfName = ''eth0'', cc_SysfsRoot = '''', cc_RawDir = '''' \<rparr>,
     qp_Link = \<lparr> lk_IfName = ''eth0'', lk_RawDir = '''' \<rparr>, qp_PingRawDir = '''', qp_Iperf = \<lparr> im_RawDir = '''', im_Reg = False \<rparr>,
     qp_LocalIP = Addr4 [192, 168, 10, 1], qp_PeerIP = Addr4 [192, 168, 10, 2], qp_IperfPort = 5201, qp_TCPDuration = 10 * second,
     qp_UDPDuration = 10 * second, qp_UDPRate = 0, qp_MTU = 1500, qp_Streams = 1, qp_PingCount = 3,
     qp_LocalIperfCaps = \<lparr> ic_Version = ''3.7'', ic_JSON = True, ic_Reverse = True, ic_Bidir = True, ic_GetServerOutput = True,
        ic_UDP = True, ic_OneOff = True \<rparr>, qp_OnStep = False \<rparr>"

definition fresh_state :: plan_state where
  "fresh_state = \<lparr> ps_w = \<lparr> w_trace = [], w_seq = [], w_stopped = [] \<rparr>, ps_res = zero_results, ps_rate = 0 \<rparr>"

text \<open>A step whose outcome does not depend on the state.\<close>

definition yields :: "('s \<Rightarrow> 'a \<times> 's) \<Rightarrow> 'a \<Rightarrow> bool" where
  "yields m a \<longleftrightarrow> (\<forall>s. fst (m s) = a)"

lemma yields_ret: "yields (ret a) a"
  by (simp add: yields_def ret_def)

lemma yields_bindS: "yields m a \<Longrightarrow> yields (f a) b \<Longrightarrow> yields (bindS m f) b"
  by (auto simp: yields_def bindS_def split: prod.splits) (metis fst_conv)

lemma yields_bindE: "yields m (Inr a) \<Longrightarrow> yields (f a) b \<Longrightarrow> yields (bindE m f) b"
  unfolding bindE_def by (erule yields_bindS) simp

lemma yields_unit: "yields (m :: 's \<Rightarrow> unit \<times> 's) ()"
  by (simp add: yields_def)

lemma yields_tool: "yields m a \<Longrightarrow> yields (tool m) a"
  by (simp add: yields_def tool_def split: prod.split) (metis fst_conv)

definition succeeds :: "('s \<Rightarrow> ('e + 'a) \<times> 's) \<Rightarrow> bool" where
  "succeeds m \<longleftrightarrow> (\<forall>s. \<exists>a. fst (m s) = Inr a)"

lemma succeeds_bindE: "succeeds m \<Longrightarrow> (\<And>a. yields (f a) b) \<Longrightarrow> yields (bindE m f) b"
  by (auto simp: yields_def succeeds_def bindE_def bindS_def split: prod.splits sum.splits) (metis fst_conv sum.distinct(1))+

lemma succeeds_tool: "succeeds m \<Longrightarrow> succeeds (tool m)"
  by (simp add: succeeds_def tool_def split: prod.split) (metis fst_conv)

lemma demo_call: "yields (callRemoteForTest demo_te opName params t name) (None, None)"
  by (simp add: yields_def callRemoteForTest_def remote_call_def tool_def ask_def bindS_def ret_def modify_def demo_te_def
      StatusUnavailable_def StatusOK_def)

lemma demo_payload: "yields (payload_or_err (callRemoteForTest demo_te opName params t name)) (Inr None)"
  unfolding payload_or_err_def by (rule yields_bindS [OF demo_call]) (simp add: yields_ret)

lemma demo_Inspect: "succeeds (Inspect demo_te (qp_Link demo_plan))"
  by (simp add: succeeds_def Inspect_def demo_plan_def demo_te_def run_teed_def teeRaw_def run_command_def ask_def mapE_def bindE_def
      bindS_def ret_def command_def Let_def)

lemma demo_Snapshot: "succeeds (Snapshot demo_te (qp_Counters demo_plan))"
  by (simp add: succeeds_def Snapshot_def driver_counters_def link_counters_def demo_plan_def demo_te_def run_teed_def teeRaw_def
      run_command_def ask_def mapE_def bindE_def bindS_def ret_def command_def carrierChanges_def ParseIPLinkStats_def peerless_link_def lower_state_def Let_def)

lemma demo_missing_parsed: "\<exists>res. ParsePing demo_missing [] 1 = Some (res, None)"
proof -
  have "pa_summaryFound (ping_scan demo_missing 1)" "pg_Transmitted (pa_res (ping_scan demo_missing 1)) = 3"
    unfolding demo_missing_scan by code_simp+
  with finish_ping_returns [of "ping_scan demo_missing 1"] show ?thesis
    by (auto simp: ParsePing_def Let_def maxInt_def)
qed

lemma demo_ping_run: "succeeds (ping_run demo_te [] args label interval wall)"
proof -
  obtain res where "ParsePing demo_missing [] 1 = Some (res, None)" using demo_missing_parsed by blast
  then show ?thesis
    by (simp add: succeeds_def ping_run_def demo_te_def run_teed_def teeRaw_def run_command_def ask_def mapE_def bindE_def
        bindS_def ret_def command_def)
qed

lemma demo_ping: "succeeds (Quick demo_te [] peer n)" "succeeds (FullSize demo_te [] peer mtu n)"
proof -
  have ok: "\<exists>a. fst (ping_run demo_te [] args label interval wall w) = Inr a" for args label interval wall w
    using demo_ping_run by (simp add: succeeds_def)
  show "succeeds (Quick demo_te [] peer n)"
    unfolding succeeds_def Quick_def pingIntervalLadder_def climb_ladder.simps bindS_def
    by (clarsimp simp: ret_def split: prod.split sum.split) (metis ok fst_conv sum.distinct(1))
  show "succeeds (FullSize demo_te [] peer mtu n)"
    unfolding succeeds_def FullSize_def Let_def bindE_def bindS_def
    by (clarsimp simp: ret_def split: prod.split sum.split) (metis ok fst_conv sum.distinct(1))
qed

lemma demo_start_server: "succeeds (tool (StartServer demo_te (qp_Iperf demo_plan) ip port))"
  by (rule succeeds_tool)
    (simp add: succeeds_def StartServer_def teeRaw_def register_server_def demo_te_def demo_plan_def ask_def bindS_def ret_def)

lemma demo_ready: "yields (tool (Server_Ready demo_te h)) None"
  by (rule yields_tool) (simp add: yields_def Server_Ready_def ask_def demo_te_def)

lemma demo_local_server:
  assumes "yields phase r"
  shows "yields (with_local_server demo_te demo_plan port phase) r"
  unfolding with_local_server_def
proof (rule succeeds_bindE [OF demo_start_server])
  fix h
  have "yields (case None of Some e \<Rightarrow> ret (Inl e) | None \<Rightarrow> phase) r" using assms by simp
  then show "yields (bindS (tool (Server_Ready demo_te h)) (\<lambda>err. bindS (case err of Some e \<Rightarrow> ret (Inl e) | None \<Rightarrow> phase)
     (\<lambda>r. bindS (tool (\<lambda>w. ((), Server_Stop demo_te h w))) (\<lambda>_. ret r)))) r"
    by (intro yields_bindS [OF demo_ready] yields_bindS [where a = r] yields_bindS [OF yields_unit] yields_ret)
qed

lemma demo_both:
  assumes "succeeds m" and "yields (fin None) r"
  shows "yields (bindE (tool m) (\<lambda>x. bindS (modify (put x)) (\<lambda>_. bindE (payload_or_err (callRemoteForTest demo_te opName params t name)) fin))) r"
  by (intro succeeds_bindE [OF succeeds_tool [OF assms(1)]] yields_bindS [OF yields_unit] yields_bindE [OF demo_payload] assms(2))

lemma demo_remote_server: "yields (withRemoteServer demo_te demo_plan stage note client) (Inr False)"
  unfolding withRemoteServer_def
  by (rule yields_bindE [OF demo_payload]) (simp, intro yields_bindS [OF yields_unit] yields_ret)

lemma demo_reverse: "yields (with_local_server demo_te demo_plan port
     (bindS (callRemoteForTest demo_te opName params t name) (\<lambda>(out, err). record_payload out err put))) (Inr ())"
proof (rule demo_local_server, rule yields_bindS [OF demo_call])
  show "yields (case (None, None) of (out, err) \<Rightarrow> record_payload out err put) (Inr ())"
    unfolding record_payload_def prod.case by (rule yields_bindS [OF yields_unit]) (simp add: yields_ret)
qed

lemma demo_done: "yields done_step (Inr ())" "yields (record_result f) (Inr ())"
  unfolding done_step_def record_result_def by (intro yields_ret yields_bindS [OF yields_unit])+

lemma demo_empty_dirs: "qp_PingRawDir demo_plan = []"
  by (simp add: demo_plan_def)

lemma demo_udp: "yields (stepUDPAtRate demo_te demo_plan rate) (Inr ())"
  unfolding stepUDPAtRate_def by (rule yields_bindE [OF demo_remote_server]) (simp add: demo_done)

lemma bindS_any: "(\<And>a. yields (f a) b) \<Longrightarrow> yields (bindS m f) b"
  by (simp add: yields_def bindS_def split: prod.split)

lemma demo_steps:
  "yields (stepLink demo_te demo_plan) (Inr ())" "yields (snapshotCounters demo_te demo_plan put) (Inr ())"
  "yields (stepPing demo_te demo_plan) (Inr ())" "yields (stepFullSizePing demo_te demo_plan) (Inr ())"
  "yields (stepTCPForward demo_te demo_plan) (Inr ())" "yields (stepTCPReverse demo_te demo_plan) (Inr ())"
  "yields (stepBidir demo_te demo_plan) (Inr ())" "yields (stepUDP demo_te demo_plan) (Inr ())"
proof -
  show "yields (stepLink demo_te demo_plan) (Inr ())"
    unfolding stepLink_def case_prod_unfold by (rule demo_both [OF demo_Inspect]) (simp add: demo_done)
  show "yields (snapshotCounters demo_te demo_plan put) (Inr ())"
    unfolding snapshotCounters_def by (rule demo_both [OF demo_Snapshot]) (simp add: demo_done)
  show "yields (stepPing demo_te demo_plan) (Inr ())"
    unfolding stepPing_def ping_both_def case_prod_unfold demo_empty_dirs by (rule demo_both [OF demo_ping(1)]) (simp add: demo_done)
  show "yields (stepFullSizePing demo_te demo_plan) (Inr ())"
    unfolding stepFullSizePing_def ping_both_def case_prod_unfold demo_empty_dirs by (rule demo_both [OF demo_ping(2)]) (simp add: demo_done)
  show "yields (stepTCPForward demo_te demo_plan) (Inr ())"
    unfolding stepTCPForward_def ignore_flag_def by (rule yields_bindE [OF demo_remote_server demo_done(1)])
  show "yields (stepTCPReverse demo_te demo_plan) (Inr ())"
    unfolding stepTCPReverse_def by (rule demo_reverse)
  have fb: "yields (bidirFallback demo_te demo_plan nt) (Inr ())" for nt
    unfolding bidirFallback_def by (rule yields_bindE [OF demo_payload]) (simp add: demo_done)
  show "yields (stepBidir demo_te demo_plan) (Inr ())"
    unfolding stepBidir_def callRemote_def
    by (rule yields_bindE [OF demo_payload]) (auto intro!: yields_bindS [OF yields_unit] fb)
  show "yields (stepUDP demo_te demo_plan) (Inr ())"
    unfolding stepUDP_def by (rule bindS_any) (rule demo_udp)
qed

lemma run_steps_yields:
  "list_all (\<lambda>stp. yields stp (Inr ())) (map snd steps) \<Longrightarrow> yields (run_steps what os rc n i steps) (Inr ())"
proof (induction steps arbitrary: i)
  case (Cons st steps)
  obtain nm stp where st: "st = (nm, stp)" by fastforce
  then have "yields stp (Inr ())" "yields (run_steps what os rc n (i + 1) steps) (Inr ())" using Cons by auto
  then have "yields (bindS stp (\<lambda>r. case r of Inl e \<Rightarrow> bindS (modify (\<lambda>r. r\<lparr> sx_Incomplete := True \<rparr>)) (\<lambda>_.
      ret (Inl (wrap_err (''testsuite: '' @ what @ ''step '' @ show_int i @ '' ('' @ nm @ ''): '') e)))
      | Inr _ \<Rightarrow> run_steps what os rc n (i + 1) steps)) (Inr ())"
    by (intro yields_bindS [where a = "Inr ()"]) simp_all
  then show ?case unfolding st run_steps.simps by (rule yields_bindS [OF yields_unit])
qed (simp add: demo_done)

lemma demo_runs:
  "yields (QuickPlan_Run demo_te demo_plan rc) (Inr ())" "yields (StandardPlan_Run demo_te demo_plan n rc) (Inr ())"
proof -
  have salv: "yields (salvageFinalCounters te q (Inr ())) (Inr ())" for te q
    by (simp add: salvageFinalCounters_def yields_ret)
  have "list_all (\<lambda>stp. yields stp (Inr ())) (map snd (quick_plan demo_te demo_plan))"
    by (simp add: quick_plan_def quickSteps_def stepInitialCounters_def stepFinalCounters_def demo_steps)
  then show "yields (QuickPlan_Run demo_te demo_plan rc) (Inr ())"
    unfolding QuickPlan_Run_def by (intro yields_bindS [where a = "Inr ()"] run_steps_yields salv)
  have "yields (udp_default_pass demo_te demo_plan) (Inr ())" "yields (udp_reduced_pass demo_te demo_plan) (Inr ())"
    unfolding udp_default_pass_def by (auto intro!: bindS_any demo_udp) (simp add: yields_def udp_reduced_pass_def demo_udp [unfolded yields_def])
  then have "list_all (\<lambda>stp. yields stp (Inr ())) (map snd (standard_plan demo_te demo_plan n))"
    by (simp add: standard_plan_def Let_def planSteps_length stepInitialCounters_def stepFinalCounters_def demo_steps list_all_iff ball_Un)
  then show "yields (StandardPlan_Run demo_te demo_plan n rc) (Inr ())"
    unfolding StandardPlan_Run_def by (intro yields_bindS [where a = "Inr ()"] run_steps_yields salv)
qed

lemma demo_quick_run: "QuickPlan_Run demo_te demo_plan 0 fresh_state = (Inr (), snd (QuickPlan_Run demo_te demo_plan 0 fresh_state))"
  using demo_runs(1) [of 0] by (simp add: yields_def prod_eq_iff)

theorem no_silent_gap_witness:
  "fst (QuickPlan_Run demo_te demo_plan 0 fresh_state) = Inr () \<and>
   no_gap (ps_res (snd (QuickPlan_Run demo_te demo_plan 0 fresh_state)))"
proof -
  have run: "fst (QuickPlan_Run demo_te demo_plan 0 fresh_state) = Inr ()" using demo_quick_run by (metis fst_conv)
  have "no_gap (ps_res (snd (QuickPlan_Run demo_te demo_plan 0 fresh_state)))"
    by (rule no_silent_gap [of _ demo_te demo_plan 0 fresh_state 1]) (simp add: demo_quick_run [symmetric])
  with run show ?thesis by blast
qed

subsection \<open>No server is left behind\<close>



end
