(* ===== verification/PlanBoundaries.thy ===== *)
theory PlanBoundaries
  imports PlanResults
begin

section \<open>The boundaries of a test run\<close>

text \<open>
  The counter captures that delimit a run: they stand before and after all load, an aborted run still gets
  its final capture, and a soak session holds whole cycles only and ends.
\<close>

subsection \<open>The counters bracket the load\<close>

definition same_counters :: "SessionResults \<Rightarrow> SessionResults \<Rightarrow> bool" where
  "same_counters r r' \<longleftrightarrow> sx_InitialCounters r' = sx_InitialCounters r \<and> sx_FinalCounters r' = sx_FinalCounters r"

interpretation sc: result_order same_counters
  by unfold_locales (auto simp: same_counters_def add_notes_def add_skipped_def add_ping_def add_fullsize_def recordTCP_def recordUDP_def)

lemma Snapshot_captured:
  assumes "Snapshot te c w = (Inr snap, w')"
  shows "cs_CapturedAt snap = te_now te (length (w_trace w)) \<and>
    (\<exists>ext. w_trace w' = w_trace w @ ReadClock # ext \<and> list_all unloaded ext)"
proof -
  let ?w1 = "tell ReadClock w"
  define rest where "rest now = bindE (driver_counters te c) (\<lambda>(raw, driver). bindE (link_counters te c) (\<lambda>stats.
     bindS (carrierChanges te c) (\<lambda>carrier.
       ret (Inr \<lparr> cs_CapturedAt = now, cs_Standard = NormalizeCounters driver stats carrier, cs_Driver = driver,
                  cs_Raw = raw, cs_IPStats = stats \<rparr>))))" for now
  have run: "rest (te_now te (length (w_trace w))) ?w1 = (Inr snap, w')"
    using assms by (simp add: Snapshot_def rest_def bindS_def ask_def tell_def)
  have mv: "moves (adds unloaded) (rest now)" for now
    unfolding rest_def driver_counters_def link_counters_def carrierChanges_def Let_def
    by (auto intro!: adds_rules simp: command_name split: sum.split prod.split)
  have "adds unloaded ?w1 w'" by (rule movesD [OF mv run])
  then have "\<exists>ext. w_trace w' = w_trace w @ ReadClock # ext \<and> list_all unloaded ext" by (auto simp: adds_def tell_def)
  moreover have "cs_CapturedAt snap = te_now te (length (w_trace w))"
    using run unfolding rest_def by (auto elim!: bindE_ok bindS_ok simp: ret_def)
  ultimately show ?thesis by blast
qed

lemma snapshotCounters_captured:
  assumes run: "snapshotCounters te q put s = (Inr (), s')"
    and get: "\<And>f r. get (put f r) = f (get r)" and kept: "\<And>r r'. same_counters r r' \<Longrightarrow> get r' = get r"
  shows "\<exists>snap ext. pc_PC1 (get (ps_res s')) = Some snap \<and> cs_CapturedAt snap = te_now te (length (w_trace (ps_w s))) \<and>
    w_trace (ps_w s') = w_trace (ps_w s) @ ReadClock # ext @ [RemoteCall OpCountersSnapshot NoParams opCallTimeout] \<and> list_all unloaded ext"
proof -
  from run obtain snap s1 s2 out s3 where loc: "tool (Snapshot te (qp_Counters q)) s = (Inr snap, s1)"
    and m: "modify (put (\<lambda>c. c\<lparr> pc_PC1 := Some snap \<rparr>)) s1 = ((), s2)"
    and call: "payload_or_err (callRemoteForTest te OpCountersSnapshot NoParams opCallTimeout ''counters'') s2 = (Inr out, s3)"
    and fin: "(case out of Some (CounterPayload cs) \<Rightarrow> record_result (put (\<lambda>c. c\<lparr> pc_PC2 := Some cs \<rparr>)) | _ \<Rightarrow> done_step) s3 = (Inr (), s')"
    unfolding snapshotCounters_def by (auto elim!: bindE_ok bindS_ok)
  have snap: "Snapshot te (qp_Counters q) (ps_w s) = (Inr snap, ps_w s1)" using loc by (auto simp: tool_def split: prod.splits)
  have s2: "ps_w s2 = ps_w s1" "pc_PC1 (get (ps_res s2)) = Some snap" using m by (auto simp: modify_def get)
  obtain p where callf: "callRemoteForTest te OpCountersSnapshot NoParams opCallTimeout ''counters'' s2 = (p, s3)"
    using call by (auto simp: payload_or_err_def bindS_def ret_def split: prod.splits)
  have "ps_w s3 = tell (RemoteCall OpCountersSnapshot NoParams opCallTimeout) (ps_w s2)"
    using callf callRemoteForTest_world by (metis snd_conv)
  moreover have "get (ps_res s3) = get (ps_res s2)"
    using movesD [OF sc.call_follows(1) callf] by (auto simp: on_results_def intro: kept)
  moreover have "ps_w s' = ps_w s3 \<and> pc_PC1 (get (ps_res s')) = pc_PC1 (get (ps_res s3))"
    using fin by (auto simp: record_result_def bindS_def modify_def done_step_def ret_def get split: option.splits op_payload.splits)
  ultimately show ?thesis using Snapshot_captured [OF snap] s2 by (auto simp: tell_def)
qed

text \<open>The trace of a run only accumulates, and the steps before and after the load put none on the link.\<close>

abbreviation extends :: "plan_state \<Rightarrow> plan_state \<Rightarrow> bool" where
  "extends \<equiv> on_world (adds (\<lambda>_. True))"

lemma tool_extends:
  assumes "moves (adds P) m"
  shows "moves extends (tool m)"
  using moves_tool_world [OF moves_adds_mono [OF assms]] by simp

lemma call_extends: "moves extends (callRemoteForTest te opName params t name)" "moves extends (callRemote te opName params t)"
  by (simp_all add: callRemote_def moves_def on_world_def callRemoteForTest_world moves_tell)

lemma world_same: "moves extends (modify f)" "moves extends get_results" "moves extends done_step" "moves extends (record_result f)"
  "moves extends (record_payload out err put)" "moves extends (after_client stage e1 e2)"
  by (simp_all add: moves_def on_world_def modify_def get_results_def done_step_def record_result_def record_payload_def ret_def bindS_def
      adds_refl after_client_world)

lemma payload_extends: "moves extends m \<Longrightarrow> moves extends (payload_or_err m)"
  unfolding payload_or_err_def by (auto intro!: pt.moves_rules)

lemmas extend_rules = pt.moves_rules call_extends world_same payload_extends tool_extends [OF Snapshot_calm] tool_extends [OF Inspect_calm]
  tool_extends [OF ping_neutral(1)] tool_extends [OF ping_neutral(2)] tool_extends [OF clients_neutral(1)] tool_extends [OF clients_neutral(2)]
  tool_extends [OF clients_neutral(3)] tool_extends [OF server_local(1)] tool_extends [OF server_local(2)] tool_extends [OF server_local(3)]

lemma servers_extend:
  "moves extends phase \<Longrightarrow> moves extends (with_local_server te q port phase)"
  "moves extends (stop_remote te q)"
  "moves extends client \<Longrightarrow> moves extends (withRemoteServer te q stage skipNote client)"
  unfolding with_local_server_def stop_remote_def withRemoteServer_def by (auto intro!: extend_rules split: option.split)

lemma load_steps_extend:
  "moves extends (stepPing te q)" "moves extends (stepFullSizePing te q)" "moves extends (stepTCPForward te q)"
  "moves extends (stepTCPReverse te q)" "moves extends (stepUDPAtRate te q r)" "moves extends (udpRate q)" "moves extends (stepBidir te q)"
  unfolding stepPing_def stepFullSizePing_def ping_both_def stepTCPForward_def stepTCPReverse_def stepUDPAtRate_def ignore_flag_def
    udpRate_def Let_def stepBidir_def bidirNative_def bidirFallback_def fallback_clients_def
  by (auto intro!: extend_rules servers_extend split: option.split op_payload.split prod.split sum.split)

lemma udp_passes_extend: "moves extends (stepUDP te q)" "moves extends (udp_default_pass te q)" "moves extends (udp_reduced_pass te q)"
proof -
  have "moves extends (\<lambda>s. ((), s\<lparr> ps_rate := r \<rparr>))" for r by (simp add: moves_def on_world_def adds_refl)
  then show "moves extends (stepUDP te q)" "moves extends (udp_default_pass te q)"
    unfolding stepUDP_def udp_default_pass_def by (auto intro!: pt.moves_rules load_steps_extend)
  show "moves extends (udp_reduced_pass te q)" using load_steps_extend(5) by (auto simp: moves_def udp_reduced_pass_def)
qed

lemma announce_calm: "moves (on_world (adds unloaded)) (announceStep os r i n name)"
  unfolding announceStep_def by (rule moves_tool_world) (auto simp: moves_def adds_def tell_def)

lemma stepLink_calm: "moves (on_world (adds unloaded)) (stepLink te q)"
proof -
  have "moves (on_world (adds unloaded)) (callRemoteForTest te OpLinkSettings params t name)" for params t name
    by (simp add: moves_def on_world_def callRemoteForTest_world moves_tell OpLinkSettings_def OpIperfServerStart_def OpIperfServerStop_def
        OpPingRun_def OpPingFullSize_def OpIperfClientRun_def OpIperfUDPRun_def)
  moreover have "moves (on_world (adds unloaded)) (modify f)" "moves (on_world (adds unloaded)) done_step" "moves (on_world (adds unloaded)) (record_result f)" for f
    by (simp_all add: moves_def on_world_def modify_def done_step_def record_result_def ret_def bindS_def adds_refl)
  ultimately show ?thesis unfolding stepLink_def payload_or_err_def
    by (auto intro!: pt.moves_rules moves_tool_world Inspect_calm split: option.split op_payload.split)
qed

lemma run_steps_append_ok:
  assumes "run_steps what os rc n i (xs @ ys) s = (Inr (), s')"
  shows "\<exists>s1. run_steps what os rc n i xs s = (Inr (), s1) \<and> run_steps what os rc n (i + int (length xs)) ys s1 = (Inr (), s')"
  using assms
proof (induction xs arbitrary: i s)
  case Nil
  then show ?case by (simp add: done_step_def ret_def)
next
  case (Cons x xs)
  obtain nm stp where x: "x = (nm, stp)" by fastforce
  from Cons.prems x obtain s1 s2 where r: "announceStep os rc i n nm s = ((), s1)" "stp s1 = (Inr (), s2)"
      "run_steps what os rc n (i + 1) (xs @ ys) s2 = (Inr (), s')"
    by (auto elim!: bindS_ok simp: ret_def split: sum.splits)
  then show ?case using Cons.IH [OF r(3)] x by (auto simp: bindS_def add.assoc)
qed

text \<open>
  The captured counters delimit the load: every event that puts load on the link lies after the peer was
  asked for the initial counters (which follows the local capture) and before the local final capture
  (which precedes the request to the peer).
\<close>

definition snapshot_request :: tool_event where
  "snapshot_request = RemoteCall OpCountersSnapshot NoParams opCallTimeout"

definition brackets_load :: "tool_env \<Rightarrow> tool_event list \<Rightarrow> SessionResults \<Rightarrow> bool" where
  "brackets_load te tr r \<longleftrightarrow>
     (\<exists>i i' j j' a b. i < i' \<and> i' < j \<and> j < j' \<and> j' < length tr \<and>
        pc_PC1 (sx_InitialCounters r) = Some a \<and> cs_CapturedAt a = te_now te i \<and> tr ! i' = snapshot_request \<and>
        pc_PC1 (sx_FinalCounters r) = Some b \<and> cs_CapturedAt b = te_now te j \<and> tr ! j' = snapshot_request \<and>
        (\<forall>k < length tr. traffic (tr ! k) \<longrightarrow> i' < k \<and> k < j))"

lemma announce_extends: "moves extends (announceStep os r i n name)"
  unfolding announceStep_def by (rule moves_tool_world) (auto simp: moves_def adds_def tell_def)

lemma run_step_ok:
  assumes "run_steps what os rc n i ((nm, stp) # rest) s = (Inr (), s')"
  obtains s1 s2 where "announceStep os rc i n nm s = ((), s1)" "stp s1 = (Inr (), s2)" "run_steps what os rc n (i + 1) rest s2 = (Inr (), s')"
  using assms by (auto elim!: bindS_ok simp: ret_def split: sum.splits)

lemma adds_trace: "adds P w w' \<Longrightarrow> \<exists>ext. w_trace w' = w_trace w @ ext \<and> list_all P ext"
  by (auto simp: adds_def)

lemma calm_quiet: "list_all unloaded ext \<Longrightarrow> list_all (\<lambda>ev. \<not> traffic ev) ext"
  by (simp add: list_all_iff)

lemma brackets_loadI:
  assumes tr: "tr = pre @ ReadClock # e1 @ [snapshot_request] @ m @ ReadClock # e2 @ [snapshot_request]"
    and quiet: "list_all (\<lambda>ev. \<not> traffic ev) pre" "list_all (\<lambda>ev. \<not> traffic ev) e1" "list_all (\<lambda>ev. \<not> traffic ev) e2"
    and a: "pc_PC1 (sx_InitialCounters r) = Some a" "cs_CapturedAt a = te_now te (length pre)"
    and b: "pc_PC1 (sx_FinalCounters r) = Some b" "cs_CapturedAt b = te_now te (length (pre @ ReadClock # e1 @ [snapshot_request] @ m))"
  shows "brackets_load te tr r"
proof -
  define A where "A = pre @ ReadClock # e1 @ [snapshot_request]"
  define B where "B = ReadClock # e2 @ [snapshot_request]"
  have T: "tr = A @ m @ B" and A: "list_all (\<lambda>ev. \<not> traffic ev) A" and B: "list_all (\<lambda>ev. \<not> traffic ev) B"
    using tr quiet by (simp_all add: A_def B_def snapshot_request_def OpCountersSnapshot_def OpPingRun_def OpPingFullSize_def
        OpIperfServerStart_def OpIperfClientRun_def OpIperfUDPRun_def)
  have k: "length A - 1 < k \<and> k < length (A @ m)" if "k < length tr" "traffic (tr ! k)" for k
  proof -
    have "\<not> k < length A" using that A by (auto simp: T nth_append list_all_length)
    moreover have "k < length (A @ m)"
    proof (rule ccontr)
      assume "\<not> k < length (A @ m)"
      then have "tr ! k = B ! (k - length (A @ m))" "k - length (A @ m) < length B"
        using that(1) by (auto simp: T nth_append)
      then show False using that(2) B by (simp add: list_all_length)
    qed
    moreover have "0 < length A" by (simp add: A_def)
    ultimately show ?thesis by linarith
  qed
  show ?thesis unfolding brackets_load_def
    apply (rule exI [of _ "length pre"], rule exI [of _ "length A - 1"], rule exI [of _ "length (A @ m)"], rule exI [of _ "length tr - 1"],
        rule exI [of _ a], rule exI [of _ b])
    using k a b by (simp add: T) (auto simp: A_def B_def nth_append add.assoc)
qed

lemma captured:
  "stepInitialCounters te q s = (Inr (), s') \<Longrightarrow> \<exists>snap ext. pc_PC1 (sx_InitialCounters (ps_res s')) = Some snap \<and>
     cs_CapturedAt snap = te_now te (length (w_trace (ps_w s))) \<and>
     w_trace (ps_w s') = w_trace (ps_w s) @ ReadClock # ext @ [snapshot_request] \<and> list_all unloaded ext"
  "stepFinalCounters te q s = (Inr (), s') \<Longrightarrow> \<exists>snap ext. pc_PC1 (sx_FinalCounters (ps_res s')) = Some snap \<and>
     cs_CapturedAt snap = te_now te (length (w_trace (ps_w s))) \<and>
     w_trace (ps_w s') = w_trace (ps_w s) @ ReadClock # ext @ [snapshot_request] \<and> list_all unloaded ext"
  unfolding stepInitialCounters_def stepFinalCounters_def snapshot_request_def
  by (erule snapshotCounters_captured; simp add: put_initial_def put_final_def same_counters_def)+

lemma final_keeps_initial:
  assumes "stepFinalCounters te q s = (Inr (), s')"
  shows "sx_InitialCounters (ps_res s') = sx_InitialCounters (ps_res s)"
proof -
  have o: "result_order (\<lambda>r r'. sx_InitialCounters r' = sx_InitialCounters r)"
    by unfold_locales (auto simp: add_notes_def add_skipped_def add_ping_def add_fullsize_def recordTCP_def recordUDP_def)
  have mv: "moves (on_results (\<lambda>r r'. sx_InitialCounters r' = sx_InitialCounters r)) (stepFinalCounters te q)"
    unfolding stepFinalCounters_def snapshotCounters_def
    by (auto intro!: result_order.follow_rules [OF o] simp: put_final_def split: option.split op_payload.split)
  show ?thesis using movesD [OF mv assms] by (simp add: on_results_def)
qed

lemma bracketed_run:
  assumes run: "run_steps what os rc n i ([(n0, stepLink te q), (n1, stepInitialCounters te q)] @ mid @ [(n2, stepFinalCounters te q)]) s = (Inr (), s')"
    and mid: "list_all (moves (on_results same_counters)) (map snd mid)" "list_all (moves extends) (map snd mid)"
    and start: "w_trace (ps_w s) = []"
  shows "brackets_load te (w_trace (ps_w s')) (ps_res s')"
proof -
  obtain s4 where r1: "run_steps what os rc n i [(n0, stepLink te q), (n1, stepInitialCounters te q)] s = (Inr (), s4)"
    and "run_steps what os rc n (i + 2) (mid @ [(n2, stepFinalCounters te q)]) s4 = (Inr (), s')"
    using run_steps_append_ok [OF run] by auto
  from run_steps_append_ok [OF this(2)] obtain s5 where r2: "run_steps what os rc n (i + 2) mid s4 = (Inr (), s5)"
    and r3: "run_steps what os rc n (i + 2 + int (length mid)) [(n2, stepFinalCounters te q)] s5 = (Inr (), s')"
    by blast
  from r1 obtain s1 s2 s3 where p: "announceStep os rc i n n0 s = ((), s1)" "stepLink te q s1 = (Inr (), s2)"
    "announceStep os rc (i + 1) n n1 s2 = ((), s3)" and init: "stepInitialCounters te q s3 = (Inr (), s4)"
    by (elim run_step_ok) (auto simp: done_step_def ret_def)
  from r3 obtain s6 where p6: "announceStep os rc (i + 2 + int (length mid)) n n2 s5 = ((), s6)" and fin: "stepFinalCounters te q s6 = (Inr (), s')"
    by (elim run_step_ok) (auto simp: done_step_def ret_def)
  have "adds unloaded (ps_w s) (ps_w s3)"
    using movesD [OF announce_calm p(1)] movesD [OF stepLink_calm p(2)] movesD [OF announce_calm p(3)]
    unfolding on_world_def by (blast intro: adds_trans)
  then have pre: "list_all unloaded (w_trace (ps_w s3))" using adds_trace start by fastforce
  obtain a e1 where a: "pc_PC1 (sx_InitialCounters (ps_res s4)) = Some a" "cs_CapturedAt a = te_now te (length (w_trace (ps_w s3)))"
    "w_trace (ps_w s4) = w_trace (ps_w s3) @ ReadClock # e1 @ [snapshot_request]" "list_all unloaded e1"
    using captured(1) [OF init] by blast
  obtain b e2 where b: "pc_PC1 (sx_FinalCounters (ps_res s')) = Some b" "cs_CapturedAt b = te_now te (length (w_trace (ps_w s6)))"
    "w_trace (ps_w s') = w_trace (ps_w s6) @ ReadClock # e2 @ [snapshot_request]" "list_all unloaded e2"
    using captured(2) [OF fin] by blast
  have mv: "moves extends (run_steps what os rc n (i + 2) mid)"
    using mid(2) by (intro run_steps_moves [OF pt.state_preorder_axioms] world_same announce_extends)
  obtain m where m: "w_trace (ps_w s6) = w_trace (ps_w s4) @ m"
    using adds_trace [OF movesD [OF mv r2, unfolded on_world_def]] adds_trace [OF movesD [OF announce_extends p6, unfolded on_world_def]] by auto
  have "sx_InitialCounters (ps_res s5) = sx_InitialCounters (ps_res s4)"
    using movesD [OF sc.run_steps_follow [OF mid(1)] r2] by (simp add: on_results_def same_counters_def)
  moreover have "sx_InitialCounters (ps_res s6) = sx_InitialCounters (ps_res s5)"
    using movesD [OF sc.results_follows(2) p6] by (simp add: on_results_def same_counters_def)
  ultimately have init': "pc_PC1 (sx_InitialCounters (ps_res s')) = Some a" using final_keeps_initial [OF fin] a(1) by simp
  show ?thesis
  proof (rule brackets_loadI [OF _ _ _ _ init' a(2) b(1)])
    show "w_trace (ps_w s') = w_trace (ps_w s3) @ ReadClock # e1 @ [snapshot_request] @ m @ ReadClock # e2 @ [snapshot_request]"
      by (simp add: b(3) m a(3))
    show "cs_CapturedAt b = te_now te (length (w_trace (ps_w s3) @ ReadClock # e1 @ [snapshot_request] @ m))"
      by (simp add: b(2) m a(3))
  qed (use pre a(4) b(4) calm_quiet in blast)+
qed

lemma quick_plan_split:
  "quick_plan te q = [(quickSteps ! 0, stepLink te q), (quickSteps ! 1, stepInitialCounters te q)] @
     zip (take 6 (drop 2 quickSteps)) [stepPing te q, stepFullSizePing te q, stepTCPForward te q, stepTCPReverse te q, stepBidir te q, stepUDP te q] @
     [(quickSteps ! 8, stepFinalCounters te q)]"
  by (simp add: quick_plan_def quickSteps_def)

lemma zip_middle:
  assumes "length xs = length ys + 3"
  shows "zip xs ([a, b] @ ys @ [c]) = [(xs ! 0, a), (xs ! 1, b)] @ zip (take (length ys) (drop 2 xs)) ys @ [(xs ! (length ys + 2), c)]"
proof -
  obtain x0 xs0 where "xs = x0 # xs0" using assms by (cases xs) auto
  moreover obtain x1 xs' where "xs0 = x1 # xs'" using assms calculation by (cases xs0) auto
  ultimately have x: "xs = x0 # x1 # xs'" by simp
  have xs': "xs' = take (length ys) xs' @ [xs' ! length ys]" using assms x by (simp add: take_Suc_conv_app_nth [symmetric])
  have "zip (take (length ys) xs' @ [xs' ! length ys]) (ys @ [c]) = zip (take (length ys) xs') ys @ [(xs' ! length ys, c)]"
    using assms x by (subst zip_append) simp_all
  then show ?thesis using xs' by (simp add: x)
qed

lemma standard_plan_split:
  "standard_plan te q n = (let mid = [stepPing te q, stepFullSizePing te q] @
      replicate (nat (repeats n)) (stepTCPForward te q) @ replicate (nat (repeats n)) (stepTCPReverse te q) @
      [stepBidir te q, udp_default_pass te q, udp_reduced_pass te q] in
    [(planSteps n ! 0, stepLink te q), (planSteps n ! 1, stepInitialCounters te q)] @
    zip (take (length mid) (drop 2 (planSteps n))) mid @ [(planSteps n ! (length mid + 2), stepFinalCounters te q)])"
  unfolding Let_def using zip_middle [of "planSteps n" "[stepPing te q, stepFullSizePing te q] @
      replicate (nat (repeats n)) (stepTCPForward te q) @ replicate (nat (repeats n)) (stepTCPReverse te q) @
      [stepBidir te q, udp_default_pass te q, udp_reduced_pass te q]"]
  by (simp add: standard_plan_def Let_def planSteps_length)

text \<open>
  C12. In a quick or standard run that ends without an error, the counters bracket the load: both machines
  were asked for their counters before the first event that puts traffic on the link (a ping, an iperf3 run,
  the start of a server, here or at the peer) and again after the last one; the local snapshots in the
  results carry exactly the clock values read at these two boundaries.
\<close>

theorem counters_bracket_load:
  assumes "(Inr (), s') \<in> {QuickPlan_Run te q rc s, StandardPlan_Run te q n rc s}" and "w_trace (ps_w s) = []"
  shows "brackets_load te (w_trace (ps_w s')) (ps_res s')"
  using assms(1)
proof (elim insertE emptyE)
  assume "(Inr (), s') = QuickPlan_Run te q rc s"
  then have "run_steps '''' (qp_OnStep q) rc (int (length quickSteps)) 1 (quick_plan te q) s = (Inr (), s')"
    unfolding QuickPlan_Run_def by (metis bindS_ok salvage_ok)
  then show ?thesis unfolding quick_plan_split
    by (rule bracketed_run [OF _ _ _ assms(2)])
      (simp_all add: quickSteps_def sc.load_steps_follow load_steps_extend udp_passes_extend)
next
  assume "(Inr (), s') = StandardPlan_Run te q n rc s"
  then have "run_steps ''standard '' (qp_OnStep q) rc (int (length (planSteps n))) 1 (standard_plan te q n) s = (Inr (), s')"
    unfolding StandardPlan_Run_def by (metis bindS_ok salvage_ok)
  then show ?thesis unfolding standard_plan_split Let_def
    by (rule bracketed_run [OF _ _ _ assms(2)])
      (simp_all add: planSteps_length sc.load_steps_follow load_steps_extend udp_passes_extend list_all_iff ball_Un)
qed

theorem counters_bracket_load_witness:
  "fst (QuickPlan_Run demo_te demo_plan 0 fresh_state) = Inr () \<and> w_trace (ps_w fresh_state) = [] \<and>
   brackets_load demo_te (w_trace (ps_w (snd (QuickPlan_Run demo_te demo_plan 0 fresh_state))))
     (ps_res (snd (QuickPlan_Run demo_te demo_plan 0 fresh_state)))"
proof -
  have run: "fst (QuickPlan_Run demo_te demo_plan 0 fresh_state) = Inr ()" using demo_quick_run by (metis fst_conv)
  have start: "w_trace (ps_w fresh_state) = []" by (simp add: fresh_state_def)
  show ?thesis
    using run start counters_bracket_load [of "snd (QuickPlan_Run demo_te demo_plan 0 fresh_state)" demo_te demo_plan 0 fresh_state 1]
    by (simp add: demo_quick_run [symmetric])
qed

subsection \<open>An aborted run\<close>

lemma run_steps_failed:
  "run_steps what os rc n i steps s = (Inl e, s') \<Longrightarrow> sx_Incomplete (ps_res s')"
proof (induction steps arbitrary: i s)
  case (Cons st steps)
  obtain nm stp where st: "st = (nm, stp)" by fastforce
  obtain s1 r s2 where r: "stp s1 = (r, s2)"
    and rest: "(case r of Inl e \<Rightarrow> bindS (modify (\<lambda>r. r\<lparr> sx_Incomplete := True \<rparr>)) (\<lambda>_.
        ret (Inl (wrap_err (''testsuite: '' @ what @ ''step '' @ show_int i @ '' ('' @ nm @ ''): '') e)))
      | Inr _ \<Rightarrow> run_steps what os rc n (i + 1) steps) s2 = (Inl e, s')"
    using Cons.prems unfolding st run_steps.simps by (elim bindS_ok) (rule that)
  show ?case
  proof (cases r)
    case (Inl x)
    then show ?thesis using rest by (auto elim!: bindS_ok simp: ret_def modify_def)
  next
    case (Inr x)
    then show ?thesis using rest Cons.IH by simp
  qed
qed (simp add: done_step_def ret_def)

text \<open>What \<open>salvageFinalCounters\<close> does with the error of the run.\<close>

definition capture_failed :: "op_err \<Rightarrow> op_err \<Rightarrow> bool" where
  "capture_failed runErr e \<longleftrightarrow> (\<exists>cause. e = join_err runErr (wrap_err ''testsuite: final counters after abort: '' cause))"

lemma salvage_remote_outcome:
  assumes "salvage_remote te runErr s = (e, s')"
  shows "(e = runErr \<or> (\<exists>cause. \<not> isCleanupCancellation cause \<and>
      e = join_err runErr (wrap_err ''testsuite: remote final counters after abort: '' cause))) \<and>
    pc_PC1 (sx_FinalCounters (ps_res s')) = pc_PC1 (sx_FinalCounters (ps_res s)) \<and>
    sx_InitialCounters (ps_res s') = sx_InitialCounters (ps_res s) \<and> sx_Incomplete (ps_res s') = sx_Incomplete (ps_res s)"
  using assms
  by (auto simp: salvage_remote_def callRemoteDetached_def mapE_def bindE_def bindS_def ret_def modify_def put_final_def tool_def
      split: prod.splits sum.splits op_payload.splits if_splits)

lemma salvage_outcome:
  assumes "salvageFinalCounters te q (Inl runErr) s = (Inl e, s')" and "has_baseline (pc_PC1 (sx_InitialCounters (ps_res s')))"
  shows "(pc_PC1 (sx_FinalCounters (ps_res s')) \<noteq> None \<or> pc_PC2 (sx_FinalCounters (ps_res s')) \<noteq> None \<or> capture_failed runErr e) \<and>
    set (oe_Is runErr) \<subseteq> set (oe_Is e) \<and> sx_Incomplete (ps_res s') = sx_Incomplete (ps_res s)"
proof -
  have "salvageFinalCounters te q (Inl runErr) s =
      (if pc_PC1 (sx_FinalCounters (ps_res s)) \<noteq> None \<or> pc_PC2 (sx_FinalCounters (ps_res s)) \<noteq> None then (Inl runErr, s)
       else if \<not> has_baseline (pc_PC1 (sx_InitialCounters (ps_res s))) then (Inl runErr, s)
       else (Inl (fst (salvage_local te q runErr s)), snd (salvage_local te q runErr s)))"
    by (simp add: salvageFinalCounters_def bindS_def get_results_def ret_def split_def)
  then consider "pc_PC1 (sx_FinalCounters (ps_res s)) \<noteq> None \<or> pc_PC2 (sx_FinalCounters (ps_res s)) \<noteq> None" "e = runErr" "s' = s"
    | "\<not> has_baseline (pc_PC1 (sx_InitialCounters (ps_res s)))" "s' = s"
    | "salvage_local te q runErr s = (e, s')"
    using assms(1) by (metis Pair_inject sum.inject(1) prod.collapse)
  then show ?thesis
  proof cases
    case 3
    obtain r s1 where snap: "tool (Snapshot te (qp_Counters q)) s = (r, s1)" by fastforce
    then have res: "ps_res s1 = ps_res s" using snd_tool_results by (metis snd_conv)
    show ?thesis
    proof (cases r)
      case (Inl x)
      then have "e = join_err runErr (wrap_err ''testsuite: final counters after abort: '' x)" "s' = s1"
        using 3 snap by (simp_all add: salvage_local_def bindS_def ret_def)
      then show ?thesis using res by (auto simp: capture_failed_def join_err_def)
    next
      case (Inr x)
      define s2 where "s2 = s1\<lparr> ps_res := put_final (\<lambda>c. c\<lparr> pc_PC1 := Some x \<rparr>) (ps_res s1) \<rparr>"
      have s2: "pc_PC1 (sx_FinalCounters (ps_res s2)) = Some x" "sx_Incomplete (ps_res s2) = sx_Incomplete (ps_res s)"
        using res by (simp_all add: s2_def put_final_def)
      have "(e = runErr \<and> s' = s2) \<or> salvage_remote te runErr s2 = (e, s')"
        using 3 snap Inr by (auto simp: salvage_local_def bindS_def ret_def modify_def get_results_def s2_def split: if_splits)
      then show ?thesis using s2 salvage_remote_outcome [of te runErr s2 e s'] by (auto simp: join_err_def)
    qed
  qed (use assms in auto)
qed

subsection \<open>The soak session ends\<close>

lemma cycle_steps_extend: "moves extends (cycle_steps te p rc c)"
proof -
  have rep: "moves extends stp \<Longrightarrow> moves extends (repeat_step n stp)" for n stp
    by (induction n) (auto intro!: pt.moves_rules world_same)
  have "moves extends (snapshotCounters te q put)" for q put
    unfolding snapshotCounters_def by (auto intro!: extend_rules split: option.split op_payload.split)
  moreover have "moves extends (announce_cycle p rc c k)" for k
    unfolding announce_cycle_def by (auto intro!: pt.moves_rules announce_extends world_same)
  ultimately show ?thesis unfolding cycle_steps_def Let_def
    by (auto intro!: pt.moves_rules rep load_steps_extend udp_passes_extend world_same)
qed

lemma runCycle_extends: "moves extends (runCycle te p rc c)"
  using cycle_steps_extend [of te p rc c] unfolding moves_def on_world_def runCycle_world
  by (metis plan_state.select_convs(1) plan_state.surjective plan_state.update_convs(2))

lemma soak_cycle_extends: "moves extends (soak_cycle te p rc d c)"
  unfolding soak_cycle_def soak_gap_def leave_def leave_with_def mark_incomplete_def stoppedBySoakBudget_def waitGap_def recordEvents_def
    clock_now_def Let_def
  by (auto intro!: pt.moves_rules runCycle_extends world_same tool_extends [of "\<lambda>_. True"] moves_ask split: option.split sum.split)

lemma next_round:
  assumes "soak_round_of te p rc d c s = (NextCycle, s')"
  shows "te_now te (length (w_trace (ps_w s))) < d" "length (w_trace (ps_w s)) < length (w_trace (ps_w s'))"
proof -
  let ?s1 = "s\<lparr> ps_w := tell ReadClock (ps_w s) \<rparr>" and ?now = "te_now te (length (w_trace (ps_w s)))"
  let ?s2 = "?s1\<lparr> ps_w := tell CheckContext (ps_w ?s1) \<rparr>"
  have clock: "clock_now te s = (?now, ?s1)" by (simp add: clock_now_def tool_def ask_def tell_def)
  have ctx: "tool (ask CheckContext (te_ctxErr te)) ?s1 = (te_ctxErr te (length (w_trace (ps_w ?s1))), ?s2)"
    by (simp add: tool_def ask_def tell_def)
  from assms show less: "?now < d"
    by (auto simp: soak_round_of_def bindS_def clock leave_def ret_def split: if_splits)
  with assms have "(case te_ctxErr te (length (w_trace (ps_w ?s1))) of Some e \<Rightarrow> leave_with (\<lambda>r. interrupted_err r e)
      | None \<Rightarrow> soak_cycle te p rc d c) ?s2 = (NextCycle, s')"
    unfolding soak_round_of_def bindS_def clock prod.case using ctx by simp
  then have "soak_cycle te p rc d c ?s2 = (NextCycle, s')"
    by (auto simp: leave_with_def leave_def bindS_def ret_def get_results_def mark_incomplete_def split: option.splits prod.splits)
  then have "extends ?s2 s'" by (rule movesD [OF soak_cycle_extends])
  then show "length (w_trace (ps_w s)) < length (w_trace (ps_w s'))" by (auto simp: on_world_def adds_def tell_def)
qed

lemma soak_loop_ends:
  assumes "\<And>n. n \<ge> N \<Longrightarrow> d \<le> te_now te n"
  shows "\<exists>out s'. soak_loop te p rc d c s = Some (out, s')"
proof (induction "N - length (w_trace (ps_w s))" arbitrary: c s rule: less_induct)
  case less
  obtain rd s1 where rd: "soak_round_of te p rc d c s = (rd, s1)" by fastforce
  show ?case
  proof (cases rd)
    case NextCycle
    note nxt = next_round [OF rd [unfolded NextCycle]]
    then have "length (w_trace (ps_w s)) < N" using assms [of "length (w_trace (ps_w s))"] by force
    then have "N - length (w_trace (ps_w s1)) < N - length (w_trace (ps_w s))" using nxt(2) by linarith
    from less [OF this] show ?thesis using rd NextCycle by (simp add: soak_loop.simps [of te p rc d c s])
  next
    case (LeaveLoop out)
    then show ?thesis using rd by (simp add: soak_loop.simps [of te p rc d c s])
  qed
qed

lemma soak_body_ends:
  assumes "\<forall>d. \<exists>N. \<forall>n \<ge> N. d \<le> te_now te n"
  shows "\<exists>out s'. soak_body te p rc s = Some (out, s')"
proof -
  obtain r s1 where su: "soak_setup te p s = (r, s1)" by fastforce
  show ?thesis
  proof (cases r)
    case (Inr d)
    from assms obtain N where "\<And>n. n \<ge> N \<Longrightarrow> d \<le> te_now te n" by blast
    from soak_loop_ends [of N d te p rc 1 s1, OF this] show ?thesis using su Inr by (simp add: soak_body_def)
  qed (simp add: soak_body_def su)
qed

text \<open>
  C14. A soak session ends: if the clock eventually passes every point in time, then \<open>SoakPlan.Run\<close> returns,
  whatever the tools and the peer do, however short a cycle is and whether or not there is a gap between cycles.
\<close>

theorem soak_session_ends:
  assumes "\<forall>d. \<exists>N. \<forall>n \<ge> N. d \<le> te_now te n"
  shows "\<exists>out s'. SoakPlan_Run te p rc s = Some (out, s')"
  using soak_body_ends [OF assms, of p rc s] by (auto simp: SoakPlan_Run_def)

definition demo_soak :: SoakPlan where
  "demo_soak = \<lparr> so_Engine = demo_plan, so_TCPRepeats = 1, so_SoakDuration = 60 * second, so_SoakLoad = SoakLoadContinuous,
     so_CycleGap = 0, so_EventSource = False \<rparr>"

lemma demo_clock: "\<forall>d. \<exists>N. \<forall>n \<ge> N. d \<le> te_now demo_te n"
proof
  fix d
  have "d \<le> te_now demo_te n" if "n \<ge> nat d" for n
  proof -
    have "d \<le> int n" using that by linarith
    also have "int n \<le> int n * second" by (simp add: second_def)
    finally show ?thesis by (simp add: demo_te_def)
  qed
  then show "\<exists>N. \<forall>n \<ge> N. d \<le> te_now demo_te n" by blast
qed

theorem soak_session_ends_witness: "\<exists>out s'. SoakPlan_Run demo_te demo_soak 0 fresh_state = Some (out, s')"
  by (rule soak_session_ends [OF demo_clock])

subsection \<open>A soak session holds whole cycles only\<close>

definition complete_cycle :: "tool_env \<Rightarrow> SoakPlan \<Rightarrow> int \<Rightarrow> SessionResults \<Rightarrow> bool" where
  "complete_cycle te p rc c \<longleftrightarrow> (\<exists>k s s'. runCycle te p rc k s = (Inr c, s'))"

text \<open>The measurements of a session are those of the cycles, in order, and their number is the number of cycles.\<close>

definition made_of :: "SessionResults list \<Rightarrow> SessionResults \<Rightarrow> bool" where
  "made_of cs r \<longleftrightarrow>
     sx_Ping r = concat (map sx_Ping cs) \<and> sx_FullSizePing r = concat (map sx_FullSizePing cs) \<and>
     sx_TCP r = concat (map sx_TCP cs) \<and> sx_UDP r = concat (map sx_UDP cs) \<and>
     sx_CycleCounters r = map sx_InitialCounters cs \<and> sx_CyclesCompleted r = wrap64 (int (length cs))"

definition from_cycles :: "tool_env \<Rightarrow> SoakPlan \<Rightarrow> int \<Rightarrow> SessionResults \<Rightarrow> bool" where
  "from_cycles te p rc r \<longleftrightarrow> (\<exists>cs. made_of cs r \<and> (\<forall>c \<in> set cs. complete_cycle te p rc c))"

lemma wrap64_Suc: "iadd (wrap64 (int n)) 1 = wrap64 (int (Suc n))"
proof -
  have "(1 + (int n + 2 ^ 63) mod 2 ^ 64) mod 2 ^ 64 = (1 + (int n + 2 ^ 63)) mod (2 ^ 64 :: int)" by (rule mod_add_right_eq)
  then show ?thesis by (simp add: iadd_def wrap64_def add.assoc)
qed

lemma made_of_commit: "made_of cs r \<Longrightarrow> made_of (cs @ [c]) ((count_cycle \<circ> commitCycle c) r)"
  by (simp add: made_of_def count_cycle_def commitCycle_def wrap64_Suc del: of_nat_Suc)

text \<open>A computation that leaves the committed cycles alone.\<close>

definition same_cycles :: "SessionResults \<Rightarrow> SessionResults \<Rightarrow> bool" where
  "same_cycles r r' \<longleftrightarrow> sx_Ping r' = sx_Ping r \<and> sx_FullSizePing r' = sx_FullSizePing r \<and> sx_TCP r' = sx_TCP r \<and> sx_UDP r' = sx_UDP r \<and>
     sx_CycleCounters r' = sx_CycleCounters r \<and> sx_CyclesCompleted r' = sx_CyclesCompleted r"

interpretation cy: state_preorder "on_results same_cycles"
  by unfold_locales (auto simp: on_results_def same_cycles_def)

lemma same_cycles_from: "same_cycles r r' \<Longrightarrow> from_cycles te p rc r \<Longrightarrow> from_cycles te p rc r'"
  by (simp add: same_cycles_def from_cycles_def made_of_def)

lemma cycle_rules:
  "moves (on_results same_cycles) (tool m)" "(\<And>r. same_cycles r (f r)) \<Longrightarrow> moves (on_results same_cycles) (modify f)"
  "moves (on_results same_cycles) get_results" "moves (on_results same_cycles) done_step"
  "(\<And>r. same_cycles r (f r)) \<Longrightarrow> moves (on_results same_cycles) (record_result f)"
  by (simp_all add: moves_def on_results_def snd_tool_results modify_def get_results_def done_step_def record_result_def bindS_def ret_def same_cycles_def)

lemma same_cycles_basic:
  "same_cycles r (add_notes ns r)" "same_cycles r ((add_skipped name reason \<circ> add_notes ns) r)" "same_cycles r (r\<lparr> sx_Incomplete := b \<rparr>)"
  "same_cycles r (r\<lparr> sx_Link := l \<rparr>)" "same_cycles r (put_initial f r)" "same_cycles r (put_final f r)"
  "same_cycles r (if c then r else r\<lparr> sx_MonitoringEvents := ev \<rparr>)"
  by (simp_all add: same_cycles_def add_notes_def add_skipped_def put_initial_def put_final_def)

lemma same_cycles_calls:
  "moves (on_results same_cycles) (callRemoteForTest te opName params t name)" "moves (on_results same_cycles) (callRemoteDetached te opName params t)"
  unfolding callRemoteForTest_def remote_call_def callRemoteDetached_def
  by (auto intro!: cy.moves_rules cycle_rules same_cycles_basic split: sum.split)

lemma boundary_same_cycles:
  "moves (on_results same_cycles) (soak_setup te p)" "moves (on_results same_cycles) (soak_final te p out)"
  unfolding soak_setup_def soak_final_def mark_incomplete_def clock_now_def stepLink_def snapshotCounters_def snapshotCountersDetached_def
    payload_or_err_def Let_def
  by (auto intro!: cy.moves_rules cycle_rules same_cycles_basic same_cycles_calls split: sum.split option.split op_payload.split)

lemma runCycle_results: "ps_res (snd (runCycle te p rc k s)) = ps_res s"
  by (simp add: runCycle_def split: prod.split sum.split)

lemma leave_same_cycles:
  "moves (on_results same_cycles) (leave r)" "moves (on_results same_cycles) (leave_with err)"
  "moves (on_results same_cycles) (stoppedBySoakBudget te e)" "moves (on_results same_cycles) (soak_gap te p d)"
  "moves (on_results same_cycles) (recordEvents te p)"
  unfolding leave_def leave_with_def mark_incomplete_def stoppedBySoakBudget_def soak_gap_def waitGap_def clock_now_def recordEvents_def Let_def
  by (auto intro!: cy.moves_rules cycle_rules same_cycles_basic split: option.split)

lemma soak_cycle_from:
  assumes "soak_cycle te p rc d k s = (rd, s')" and "from_cycles te p rc (ps_res s)"
  shows "from_cycles te p rc (ps_res s')"
proof -
  obtain r s1 where run: "runCycle te p rc k s = (r, s1)" by fastforce
  have s1: "from_cycles te p rc (ps_res s1)" using runCycle_results [of te p rc k s] run assms(2) by simp
  show ?thesis
  proof (cases r)
    case (Inl e)
    have "moves (on_results same_cycles) (bindS (stoppedBySoakBudget te e) (\<lambda>stopped. if stopped then leave (Inr ())
        else leave_with (\<lambda>_. wrap_err (''testsuite: soak cycle '' @ show_int k @ '': '') e)))"
      by (auto intro!: cy.moves_rules leave_same_cycles)
    from movesD [OF this] show ?thesis
      using assms(1) run Inl s1 same_cycles_from unfolding soak_cycle_def bindS_def [of "runCycle te p rc k"] on_results_def by fastforce
  next
    case (Inr c)
    define s2 where "s2 = s1\<lparr> ps_res := (count_cycle \<circ> commitCycle c) (ps_res s1) \<rparr>"
    have "complete_cycle te p rc c" using run Inr by (auto simp: complete_cycle_def)
    moreover obtain cs where "made_of cs (ps_res s1)" "\<forall>c \<in> set cs. complete_cycle te p rc c" using s1 by (auto simp: from_cycles_def)
    ultimately have s2: "from_cycles te p rc (ps_res s2)"
      unfolding from_cycles_def by (intro exI [of _ "cs @ [c]"]) (simp add: s2_def made_of_commit del: comp_apply)
    have mv: "moves (on_results same_cycles) (bindS (recordEvents te p) (\<lambda>_. soak_gap te p d))"
      by (auto intro!: cy.moves_rules leave_same_cycles)
    have "bindS (recordEvents te p) (\<lambda>_. soak_gap te p d) s2 = (rd, s')"
      using assms(1) run Inr by (simp add: soak_cycle_def bindS_def modify_def s2_def)
    from movesD [OF mv this] show ?thesis using s2 same_cycles_from by (auto simp: on_results_def)
  qed
qed

definition planned_in_cycle :: "bool \<Rightarrow> (measurement \<times> string) list" where
  "planned_in_cycle udp =
     [(InitialOf RolePC1Key, ''counters''), (InitialOf RolePC2Key, ''counters''), (FinalOf RolePC1Key, ''counters''),
      (FinalOf RolePC2Key, ''counters''), (PingIn DirectionPC1ToPC2, ''ping''), (PingIn DirectionPC2ToPC1, ''ping''),
      (TCPIn DirectionPC1ToPC2, ''tcp''), (TCPIn DirectionPC2ToPC1, ''tcp'')] @
     (if udp then [(UDPIn DirectionPC1ToPC2, ''udp''), (UDPIn DirectionPC2ToPC1, ''udp'')] else [])"

definition cycle_no_gap :: "SoakPlan \<Rightarrow> SessionResults \<Rightarrow> bool" where
  "cycle_no_gap p c \<longleftrightarrow> list_all (\<lambda>(m, test). recorded c m \<or> recorded c (Skipped test)) (planned_in_cycle (qp_UDPDuration (so_Engine p) > 0))"

text \<open>A measurement that is recorded or whose test is named as skipped whenever the computation succeeds.\<close>

definition leaves :: "measurement \<Rightarrow> string \<Rightarrow> test_step \<Rightarrow> bool" where
  "leaves m test stp \<longleftrightarrow> (\<forall>s s'. stp s = (Inr (), s') \<longrightarrow> recorded (ps_res s') m \<or> recorded (ps_res s') (Skipped test))"

lemma leaves_first:
  assumes "leaves m test stp" and "moves (on_results accumulates) rest"
  shows "leaves m test (bindE stp (\<lambda>_. rest))"
  unfolding leaves_def
proof (intro allI impI)
  fix s s' assume "bindE stp (\<lambda>_. rest) s = (Inr (), s')"
  then obtain u s1 where "stp s = (Inr u, s1)" and rest: "rest s1 = (Inr (), s')" by (rule bindE_ok)
  then have "recorded (ps_res s1) m \<or> recorded (ps_res s1) (Skipped test)" using assms(1) by (simp add: leaves_def)
  then show "recorded (ps_res s') m \<or> recorded (ps_res s') (Skipped test)" using growsD [OF assms(2) rest] by blast
qed

lemma leaves_later: "leaves m test rest \<Longrightarrow> leaves m test (bindE stp (\<lambda>_. rest))"
  unfolding leaves_def by (auto elim!: bindE_ok simp del: recorded.simps)

text \<open>Steps one after the other, the last one without a successor.\<close>

definition in_order :: "test_step list \<Rightarrow> test_step \<Rightarrow> test_step" where
  "in_order ms fin = foldr (\<lambda>m r. bindE m (\<lambda>_. r)) ms fin"

lemma in_order_grows:
  "list_all (moves (on_results accumulates)) ms \<Longrightarrow> moves (on_results accumulates) fin \<Longrightarrow> moves (on_results accumulates) (in_order ms fin)"
  unfolding in_order_def by (induction ms) (auto intro!: gr.order_rules)

lemma in_order_leaves:
  "list_all (moves (on_results accumulates)) ms \<Longrightarrow> moves (on_results accumulates) fin \<Longrightarrow> list_ex (leaves m test) (ms @ [fin]) \<Longrightarrow>
   leaves m test (in_order ms fin)"
proof (induction ms)
  case (Cons a ms)
  then have "moves (on_results accumulates) (in_order ms fin)" by (auto intro: in_order_grows)
  then show ?case using Cons by (auto simp: in_order_def intro: leaves_first leaves_later)
qed (simp add: in_order_def)

lemma leaves_repeat:
  assumes "leaves m test stp" and "moves (on_results accumulates) stp" and "0 < n"
  shows "leaves m test (repeat_step n stp)"
proof -
  have "moves (on_results accumulates) (repeat_step k stp)" for k
    by (induction k) (auto intro!: gr.follow_rules assms(2))
  then show ?thesis using assms(1,3) by (cases n) (auto intro: leaves_first)
qed

lemma step_leaves:
  "leaves (InitialOf RolePC1Key) ''counters'' (snapshotCounters te q put_initial)"
  "leaves (InitialOf RolePC2Key) ''counters'' (snapshotCounters te q put_initial)"
  "leaves (FinalOf RolePC1Key) ''counters'' (snapshotCounters te q put_final)"
  "leaves (FinalOf RolePC2Key) ''counters'' (snapshotCounters te q put_final)"
  "leaves (PingIn DirectionPC1ToPC2) ''ping'' (stepPing te q)" "leaves (PingIn DirectionPC2ToPC1) ''ping'' (stepPing te q)"
  "leaves (TCPIn DirectionPC1ToPC2) ''tcp'' (stepTCPForward te q)" "leaves (TCPIn DirectionPC2ToPC1) ''tcp'' (stepTCPReverse te q)"
  "leaves (UDPIn DirectionPC1ToPC2) ''udp'' (stepUDP te q)" "leaves (UDPIn DirectionPC2ToPC1) ''udp'' (stepUDP te q)"
  unfolding leaves_def
  using snapshotCounters_gives(1) [of te q] snapshotCounters_gives(2) [of te q] ping_gives(1) [of te q] tcp_gives [of te q] stepUDP_gives [of te q]
  by blast+

lemma cycle_steps_in_order:
  "cycle_steps te p rc k =
     (let q = so_Engine p; reps = nat (repeats (so_TCPRepeats p))
      in in_order [announce_cycle p rc k 0, snapshotCounters te q put_initial, announce_cycle p rc k 1, stepPing te q,
           announce_cycle p rc k 2, repeat_step reps (stepTCPForward te q), announce_cycle p rc k 3, repeat_step reps (stepTCPReverse te q),
           if qp_UDPDuration q > 0 then in_order [announce_cycle p rc k 4] (stepUDP te q) else done_step]
         (snapshotCounters te q put_final))"
  by (simp add: cycle_steps_def in_order_def Let_def)

lemma cycle_leaves:
  assumes "(m, test) \<in> set (planned_in_cycle (qp_UDPDuration (so_Engine p) > 0))"
  shows "leaves m test (cycle_steps te p rc k)"
proof -
  have rep: "moves (on_results accumulates) stp \<Longrightarrow> moves (on_results accumulates) (repeat_step n stp)" for n stp
    by (induction n) (auto intro!: gr.order_rules gr.results_follows)
  have ann: "moves (on_results accumulates) (announce_cycle p rc k i)" for i
    unfolding announce_cycle_def by (auto intro!: gr.order_rules gr.results_follows)
  have pos: "0 < nat (repeats (so_TCPRepeats p))" by (simp add: repeats_def)
  have udp: "moves (on_results accumulates) (in_order [announce_cycle p rc k 4] (stepUDP te q))" for q
    by (rule in_order_grows) (simp_all add: ann gr.udp_steps_follow)
  have udp_leaves: "leaves m t (stepUDP te q) \<Longrightarrow> leaves m t (in_order [announce_cycle p rc k 4] (stepUDP te q))" for m t q
    by (rule in_order_leaves) (simp_all add: ann gr.udp_steps_follow)
  note tcp = leaves_repeat [OF step_leaves(7) gr.simple_steps_follow(4) pos] leaves_repeat [OF step_leaves(8) gr.simple_steps_follow(5) pos]
  show ?thesis unfolding cycle_steps_in_order Let_def
  proof (rule in_order_leaves)
    show "list_ex (leaves m test) ([announce_cycle p rc k 0, snapshotCounters te (so_Engine p) put_initial, announce_cycle p rc k 1, stepPing te (so_Engine p),
           announce_cycle p rc k 2, repeat_step (nat (repeats (so_TCPRepeats p))) (stepTCPForward te (so_Engine p)), announce_cycle p rc k 3,
           repeat_step (nat (repeats (so_TCPRepeats p))) (stepTCPReverse te (so_Engine p)),
           if qp_UDPDuration (so_Engine p) > 0 then in_order [announce_cycle p rc k 4] (stepUDP te (so_Engine p)) else done_step] @
         [snapshotCounters te (so_Engine p) put_final])"
      using assms by (auto simp: planned_in_cycle_def step_leaves tcp udp_leaves split: if_splits)
  qed (simp_all add: ann rep udp gr.load_steps_follow gr.snapshots_follow gr.results_follows)
qed

lemma complete_cycle_no_gap:
  assumes "complete_cycle te p rc c"
  shows "cycle_no_gap p c"
proof -
  from assms obtain k s s' where "runCycle te p rc k s = (Inr c, s')" by (auto simp: complete_cycle_def)
  then obtain s0 s1 where run: "cycle_steps te p rc k s0 = (Inr (), s1)" and c: "c = ps_res s1"
    by (auto simp: runCycle_def split: prod.splits sum.splits)
  show ?thesis unfolding cycle_no_gap_def list_all_iff
    using cycle_leaves [of _ _ p te rc k] run c by (auto simp: leaves_def simp del: recorded.simps)
qed

lemma soak_round_from:
  assumes "soak_round_of te p rc d k s = (rd, s')" and "from_cycles te p rc (ps_res s)"
  shows "from_cycles te p rc (ps_res s')"
proof -
  obtain now s1 where clock: "clock_now te s = (now, s1)" by fastforce
  then have s1: "ps_res s1 = ps_res s" unfolding clock_now_def using snd_tool_results by (metis snd_conv)
  obtain err s2 where ctx: "tool (ask CheckContext (te_ctxErr te)) s1 = (err, s2)" by fastforce
  then have s2: "ps_res s2 = ps_res s" using s1 snd_tool_results by (metis snd_conv)
  consider "s' = s1" | e where "leave_with (\<lambda>r. interrupted_err r e) s2 = (rd, s')" | "soak_cycle te p rc d k s2 = (rd, s')"
    using assms(1) by (auto simp: soak_round_of_def bindS_def clock ctx leave_def ret_def split: if_splits option.splits)
  then show ?thesis
  proof cases
    case (2 e)
    then show ?thesis using movesD [OF leave_same_cycles(2) 2] assms(2) s2 same_cycles_from by (auto simp: on_results_def)
  qed (use assms(2) s1 s2 soak_cycle_from in auto)
qed

lemma detached_results: "callRemoteDetached te opName params t s = (r, s') \<Longrightarrow> ps_res s' = ps_res s"
  by (auto simp: callRemoteDetached_def mapE_def bindE_def bindS_def ret_def tool_def split: prod.splits sum.splits)

lemma soak_final_captures:
  assumes "soak_final te p out s = (Inr (), s')"
  shows "pc_PC1 (sx_FinalCounters (ps_res s')) \<noteq> None"
proof -
  obtain r s1 where snap: "snapshotCountersDetached te (so_Engine p) put_final s = (r, s1)" by fastforce
  with assms have r: "r = Inr ()" "s' = s1"
    by (auto simp: soak_final_def bindS_def ret_def Let_def modify_def split: sum.splits if_splits)
  from snap [unfolded r(1)] show ?thesis unfolding r(2) snapshotCountersDetached_def
    by (auto elim!: bindE_ok bindS_ok simp: record_result_def modify_def done_step_def ret_def bindS_def put_final_def
        dest!: detached_results split: op_payload.splits)
qed



end
