(* ===== verification/Worker.thy ===== *)
theory Worker
  imports PlanGuarantees
begin

section \<open>The worker's requests\<close>

text \<open>
  Models the handler of \<open>src/internal/testsuite/ops.go\<close>: the dispatch of a request to the test components of
  the worker, the iperf3 servers it keeps for the coordinator, and the status a failure gets. The session
  runs one request at a time (theory \<open>Session\<close>), so a history of the worker is a list of requests.
\<close>

subsection \<open>Parameters and statuses\<close>

text \<open>The JSON decoder of each parameter struct, and the text of an error of \<open>netip.ParseAddr\<close>.\<close>

record params_codec =
  pd_PingRun :: "string \<Rightarrow> string + string \<times> int"
  pd_PingFullSize :: "string \<Rightarrow> string + string \<times> int"
  pd_ServerStart :: "string \<Rightarrow> string + string \<times> u16"
  pd_ServerStop :: "string \<Rightarrow> string + u16"
  pd_ClientRun :: "string \<Rightarrow> string + string \<times> string \<times> u16 \<times> int \<times> int \<times> bool"
  pd_UDPRun :: "string \<Rightarrow> string + string \<times> string \<times> u16 \<times> int \<times> u64"
  pd_Window :: "string \<Rightarrow> string + int"
  pd_AddrErr :: "string \<Rightarrow> string"

definition decodeParams :: "(string \<Rightarrow> string + 'a) \<Rightarrow> string \<Rightarrow> op_err + 'a" where
  "decodeParams dec raw =
     (if raw = '''' then Inl (new_err ''testsuite: missing op params'')
      else case dec raw of
             Inl e \<Rightarrow> Inl (new_err (''testsuite: malformed op params: '' @ e))
           | Inr p \<Rightarrow> Inr p)"

definition parse_addr :: "params_codec \<Rightarrow> string \<Rightarrow> string \<Rightarrow> string \<Rightarrow> op_err + Addr" where
  "parse_addr pc opName what s =
     (case ParseAddr s of
        None \<Rightarrow> Inl (new_err (''testsuite: '' @ opName @ '': bad '' @ what @ '': '' @ pd_AddrErr pc s))
      | Some a \<Rightarrow> Inr a)"

definition parsePeer :: "params_codec \<Rightarrow> string \<Rightarrow> string \<Rightarrow> op_err + Addr" where
  "parsePeer pc opName peerIP = parse_addr pc opName ''peerIp'' peerIP"

definition parseLocalPeer :: "params_codec \<Rightarrow> string \<Rightarrow> string \<Rightarrow> string \<Rightarrow> op_err + Addr \<times> Addr" where
  "parseLocalPeer pc opName localIP peerIP =
     (case parse_addr pc opName ''localIp'' localIP of
        Inl e \<Rightarrow> Inl e
      | Inr loc \<Rightarrow> (case parsePeer pc opName peerIP of Inl e \<Rightarrow> Inl e | Inr remote \<Rightarrow> Inr (loc, remote)))"

definition statusFor :: "op_err \<Rightarrow> string" where
  "statusFor e =
     (if errors_Is e ErrNotFound then StatusUnavailable
      else if errors_Is e ErrIperfUnreachable then StatusUnavailable
      else if errors_Is e ErrTimeout \<or> errors_Is e DeadlineExceeded then StatusTimeout
      else StatusFailed)"

subsection \<open>The state of the handler\<close>

record Ops =
  op_Counters :: CounterCollector
  op_Link :: LinkInspector
  op_PingRawDir :: string
  op_Iperf :: IperfManager
  op_MTU :: int
  op_IperfCaps :: Iperf3Caps

record worker_state =
  ws_w :: world
  ws_servers :: "(u16 \<times> ServerHandle) list"
  ws_progress :: "string list"

text \<open>What a request returns: a payload, the empty struct, or nothing; the status; the error.\<close>

datatype op_answer = NoAnswer | EmptyAnswer | Answer op_payload

type_synonym op_reply = "op_answer \<times> string \<times> op_err option"

definition rejected :: "op_err \<Rightarrow> op_reply" where
  "rejected e = (NoAnswer, StatusRejected, Some e)"

definition failed_op :: "op_err \<Rightarrow> op_reply" where
  "failed_op e = (NoAnswer, statusFor e, Some e)"

definition answered :: "op_payload \<Rightarrow> op_reply" where
  "answered p = (Answer p, StatusOK, None)"

definition on_tools :: "(world \<Rightarrow> 'a \<times> world) \<Rightarrow> worker_state \<Rightarrow> 'a \<times> worker_state" where
  "on_tools m s = (case m (ws_w s) of (r, w) \<Rightarrow> (r, s\<lparr> ws_w := w \<rparr>))"

definition stop_server :: "tool_env \<Rightarrow> ServerHandle \<Rightarrow> worker_state \<Rightarrow> unit \<times> worker_state" where
  "stop_server te h = on_tools (\<lambda>w. ((), Server_Stop te h w))"

definition reply_of :: "('a \<Rightarrow> op_payload) \<Rightarrow> op_err + 'a \<Rightarrow> op_reply" where
  "reply_of f r = (case r of Inl e \<Rightarrow> failed_op e | Inr a \<Rightarrow> answered (f a))"

text \<open>A client run that fails still answers with its partial result.\<close>

definition reply_run :: "('a \<Rightarrow> op_payload) \<Rightarrow> 'a \<times> op_err option \<Rightarrow> op_reply" where
  "reply_run f r = (Answer (f (fst r)), (case snd r of Some e \<Rightarrow> statusFor e | None \<Rightarrow> StatusOK), snd r)"

subsection \<open>Servers\<close>

definition start_and_await :: "tool_env \<Rightarrow> Ops \<Rightarrow> Addr \<Rightarrow> u16 \<Rightarrow> worker_state \<Rightarrow> op_reply \<times> worker_state" where
  "start_and_await te ops bind port =
     bindS (on_tools (StartServer te (op_Iperf ops) bind port)) (\<lambda>r. case r of
       Inl e \<Rightarrow> ret (failed_op e)
     | Inr h \<Rightarrow>
         bindS (on_tools (Server_Ready te h)) (\<lambda>err. case err of
           Some e \<Rightarrow> bindS (stop_server te h) (\<lambda>_. ret (failed_op e))
         | None \<Rightarrow> (\<lambda>s. (answered (ServerStartPayload port), s\<lparr> ws_servers := AList.update port h (ws_servers s) \<rparr>))))"

definition handleServerStart :: "tool_env \<Rightarrow> params_codec \<Rightarrow> Ops \<Rightarrow> string \<Rightarrow> worker_state \<Rightarrow> op_reply \<times> worker_state" where
  "handleServerStart te pc ops params =
     (case decodeParams (pd_ServerStart pc) params of
        Inl e \<Rightarrow> ret (rejected e)
      | Inr (bindIP, port) \<Rightarrow>
          (case parse_addr pc OpIperfServerStart ''bindIp'' bindIP of
             Inl e \<Rightarrow> ret (rejected e)
           | Inr bind \<Rightarrow>
               (\<lambda>s. if map_of (ws_servers s) port \<noteq> None
                    then (rejected (new_err (''testsuite: an iperf3 server on port '' @ show_port port @ '' is already running'')), s)
                    else start_and_await te ops bind port s)))"

definition handleServerStop :: "tool_env \<Rightarrow> params_codec \<Rightarrow> string \<Rightarrow> worker_state \<Rightarrow> op_reply \<times> worker_state" where
  "handleServerStop te pc params =
     (case decodeParams (pd_ServerStop pc) params of
        Inl e \<Rightarrow> ret (rejected e)
      | Inr port \<Rightarrow>
          (\<lambda>s. case map_of (ws_servers s) port of
             None \<Rightarrow> (rejected (new_err (''testsuite: no iperf3 server running on port '' @ show_port port)), s)
           | Some h \<Rightarrow>
               bindS (stop_server te h) (\<lambda>_. ret (answered (ServerStopPayload True)))
                 (s\<lparr> ws_servers := AList.delete port (ws_servers s) \<rparr>)))"

text \<open>The order of the handles is the iteration order of the map.\<close>

definition StopAllServers :: "tool_env \<Rightarrow> worker_state \<Rightarrow> worker_state" where
  "StopAllServers te s = fold (\<lambda>h s. snd (stop_server te h s)) (map snd (ws_servers s)) (s\<lparr> ws_servers := [] \<rparr>)"

subsection \<open>Dispatch\<close>

definition handlePing :: "tool_env \<Rightarrow> params_codec \<Rightarrow> Ops \<Rightarrow> string \<Rightarrow> worker_state \<Rightarrow> op_reply \<times> worker_state" where
  "handlePing te pc ops params =
     (case decodeParams (pd_PingRun pc) params of
        Inl e \<Rightarrow> ret (rejected e)
      | Inr (peerIP, cnt) \<Rightarrow>
          (case parsePeer pc OpPingRun peerIP of
             Inl e \<Rightarrow> ret (rejected e)
           | Inr addr \<Rightarrow> bindS (on_tools (Quick te (op_PingRawDir ops) addr cnt)) (\<lambda>r.
               ret (reply_of (\<lambda>(res, notes). PingPayload \<lparr> pn_Ping = res, pn_Notes = notes \<rparr>) r))))"

definition handleFullSize :: "tool_env \<Rightarrow> params_codec \<Rightarrow> Ops \<Rightarrow> string \<Rightarrow> worker_state \<Rightarrow> op_reply \<times> worker_state" where
  "handleFullSize te pc ops params =
     (case decodeParams (pd_PingFullSize pc) params of
        Inl e \<Rightarrow> ret (rejected e)
      | Inr (peerIP, cnt) \<Rightarrow>
          (case parsePeer pc OpPingFullSize peerIP of
             Inl e \<Rightarrow> ret (rejected e)
           | Inr addr \<Rightarrow> bindS (on_tools (FullSize te (op_PingRawDir ops) addr (op_MTU ops) cnt)) (\<lambda>r.
               ret (reply_of (\<lambda>(res, notes). PingPayload \<lparr> pn_Ping = res, pn_Notes = notes \<rparr>) r))))"

definition handleClientRun :: "tool_env \<Rightarrow> params_codec \<Rightarrow> Ops \<Rightarrow> string \<Rightarrow> worker_state \<Rightarrow> op_reply \<times> worker_state" where
  "handleClientRun te pc ops params =
     (case decodeParams (pd_ClientRun pc) params of
        Inl e \<Rightarrow> ret (rejected e)
      | Inr (localIP, peerIP, port, durationSec, streams, bidir) \<Rightarrow>
          (case parseLocalPeer pc OpIperfClientRun localIP peerIP of
             Inl e \<Rightarrow> ret (rejected e)
           | Inr (loc, remote) \<Rightarrow>
               bindS (on_tools (RunTCPClient te (op_Iperf ops) loc remote port (imul durationSec second) streams bidir)) (\<lambda>r.
                 ret (reply_run TCPPayload r))))"

definition handleUDPRun :: "tool_env \<Rightarrow> params_codec \<Rightarrow> Ops \<Rightarrow> string \<Rightarrow> worker_state \<Rightarrow> op_reply \<times> worker_state" where
  "handleUDPRun te pc ops params =
     (case decodeParams (pd_UDPRun pc) params of
        Inl e \<Rightarrow> ret (rejected e)
      | Inr (localIP, peerIP, port, durationSec, rateBps) \<Rightarrow>
          (case parseLocalPeer pc OpIperfUDPRun localIP peerIP of
             Inl e \<Rightarrow> ret (rejected e)
           | Inr (loc, remote) \<Rightarrow>
               bindS (on_tools (RunUDPClient te (op_Iperf ops) loc remote port (imul durationSec second) rateBps
                       (UDPPayloadForMTU (op_MTU ops)))) (\<lambda>r.
                 ret (reply_run UDPPayload r))))"

definition handleWindowStart :: "params_codec \<Rightarrow> string \<Rightarrow> op_reply" where
  "handleWindowStart pc params =
     (case decodeParams (pd_Window pc) params of
        Inr ms \<Rightarrow> if ms \<le> 0 then rejected (new_err ''testsuite: invalid cable-test window timeout'') else (EmptyAnswer, StatusOK, None)
      | Inl _ \<Rightarrow> rejected (new_err ''testsuite: invalid cable-test window timeout''))"

definition dispatch_op :: "tool_env \<Rightarrow> params_codec \<Rightarrow> Ops \<Rightarrow> string \<Rightarrow> string \<Rightarrow> worker_state \<Rightarrow> op_reply \<times> worker_state" where
  "dispatch_op te pc ops opName params =
     (if opName = OpCountersSnapshot then
        bindS (on_tools (Snapshot te (op_Counters ops))) (\<lambda>r. ret (reply_of CounterPayload r))
      else if opName = OpLinkSettings then
        bindS (on_tools (Inspect te (op_Link ops))) (\<lambda>r.
          ret (reply_of (\<lambda>(settings, obs). LinkPayload \<lparr> lr_Settings = settings, lr_Observations = obs \<rparr>) r))
      else if opName = OpPingRun then handlePing te pc ops params
      else if opName = OpPingFullSize then handleFullSize te pc ops params
      else if opName = OpIperfCaps then ret (answered (CapsPayload (op_IperfCaps ops)))
      else if opName = OpCableTestWindowStart then ret (handleWindowStart pc params)
      else if opName = OpCableTestWindowEnd then ret (EmptyAnswer, StatusOK, None)
      else if opName = OpIperfServerStart then handleServerStart te pc ops params
      else if opName = OpIperfServerStop then handleServerStop te pc params
      else if opName = OpIperfClientRun then handleClientRun te pc ops params
      else if opName = OpIperfUDPRun then handleUDPRun te pc ops params
      else ret (rejected (new_err (''testsuite: unknown op '' @ oc_Quote (te_codec te) opName))))"

text \<open>The progress frame names the request; there is none without a progress function.\<close>

definition HandleOp :: "tool_env \<Rightarrow> params_codec \<Rightarrow> Ops \<Rightarrow> bool \<Rightarrow> string \<Rightarrow> string \<Rightarrow> worker_state \<Rightarrow> op_reply \<times> worker_state" where
  "HandleOp te pc ops progress opName params s =
     dispatch_op te pc ops opName params
       (if progress then s\<lparr> ws_progress := ws_progress s @ [''running '' @ opName] \<rparr> else s)"

subsection \<open>The worker knows the servers it runs\<close>

definition tracks_servers :: "tool_env \<Rightarrow> worker_state \<Rightarrow> bool" where
  "tracks_servers te s \<longleftrightarrow> wf_world (ws_w s) \<and> running te (w_trace (ws_w s)) = (sh_id \<circ> snd) ` set (ws_servers s) \<and>
     distinct (map fst (ws_servers s)) \<and> distinct (map (sh_id \<circ> snd) (ws_servers s))"

lemma update_fresh: "map_of xs k = None \<Longrightarrow> AList.update k v xs = xs @ [(k, v)]"
  by (induction xs) (auto split: if_splits)

lemma on_tools_eq: "on_tools m s = (fst (m (ws_w s)), s\<lparr> ws_w := snd (m (ws_w s)) \<rparr>)"
  by (simp add: on_tools_def split: prod.split)

lemma neutral_tracks:
  assumes "moves (adds neutral) m" and "tracks_servers te s"
  shows "tracks_servers te (snd (bindS (on_tools m) (\<lambda>r. ret (f r)) s))"
proof -
  have "keeps_servers te (ws_w s) (snd (m (ws_w s)))" using assms(1) neutral_keeps_servers by (simp add: moves_def)
  then show ?thesis using assms(2) by (simp add: bindS_def on_tools_eq ret_def keeps_servers_def tracks_servers_def)
qed

lemma stop_tracked:
  assumes "wf_world (ws_w s)" and "sh_id h \<in> running te (w_trace (ws_w s))" and "stop_server te h s = (u, s')"
  shows "wf_world (ws_w s')" "running te (w_trace (ws_w s')) = running te (w_trace (ws_w s)) - {sh_id h}" "ws_servers s' = ws_servers s"
proof -
  have "sh_id h < length (w_trace (ws_w s))" using assms(2) by (simp add: running_def)
  from Server_Stop_stops [OF assms(1) this] show "wf_world (ws_w s')" "running te (w_trace (ws_w s')) = running te (w_trace (ws_w s)) - {sh_id h}"
    "ws_servers s' = ws_servers s"
    using assms(3) by (auto simp: stop_server_def on_tools_eq)
qed

lemma start_tracks:
  assumes tr: "tracks_servers te s" and new: "map_of (ws_servers s) port = None" and run: "start_and_await te ops bind port s = (rep, s')"
  shows "tracks_servers te s'"
proof -
  obtain r w1 where st: "StartServer te (op_Iperf ops) bind port (ws_w s) = (r, w1)" by fastforce
  let ?s1 = "s\<lparr> ws_w := w1 \<rparr>"
  have s1: "on_tools (StartServer te (op_Iperf ops) bind port) s = (r, ?s1)" by (simp add: on_tools_eq st)
  have wf: "wf_world (ws_w s)" using tr by (simp add: tracks_servers_def)
  show ?thesis
  proof (cases r)
    case (Inl e)
    then have "s' = ?s1" using run s1 by (simp add: start_and_await_def bindS_def ret_def)
    then show ?thesis using tr StartServer_failed [OF st [unfolded Inl]] by (simp add: tracks_servers_def keeps_servers_def)
  next
    case (Inr h)
    note started = StartServer_started [OF st [unfolded Inr] wf]
    obtain err w2 where rd: "Server_Ready te h w1 = (err, w2)" by fastforce
    let ?s2 = "s\<lparr> ws_w := w2 \<rparr>"
    have "keeps_servers te w1 w2" using movesD [OF Server_Ready_neutral rd] neutral_keeps_servers by blast
    then have w2: "wf_world w2" "running te (w_trace w2) = insert (sh_id h) (running te (w_trace (ws_w s)))"
      using started by (simp_all add: keeps_servers_def)
    have s2: "on_tools (Server_Ready te h) ?s1 = (err, ?s2)" by (simp add: on_tools_eq rd)
    show ?thesis
    proof (cases err)
      case None
      then have "s' = ?s2\<lparr> ws_servers := ws_servers s @ [(port, h)] \<rparr>"
        using run s1 s2 Inr new by (simp add: start_and_await_def bindS_def update_fresh)
      then show ?thesis using tr w2 started(3) new by (auto simp: tracks_servers_def map_of_eq_None_iff image_iff)
    next
      case (Some e)
      obtain s3 where stop: "stop_server te h ?s2 = ((), s3)" by (metis (full_types) old.unit.exhaust surj_pair)
      then have "s' = s3" using run s1 s2 Inr Some by (simp add: start_and_await_def bindS_def ret_def)
      moreover have "wf_world (ws_w s3)" "running te (w_trace (ws_w s3)) = running te (w_trace (ws_w s))" "ws_servers s3 = ws_servers s"
        using stop_tracked [OF _ _ stop] w2 started(3) by auto
      ultimately show ?thesis using tr by (simp add: tracks_servers_def)
    qed
  qed
qed

lemma delete_filter: "AList.delete k xs = filter (\<lambda>e. fst e \<noteq> k) xs"
  by (auto simp: AList.delete_eq case_prod_unfold intro: filter_cong)

lemma delete_set:
  assumes "distinct (map fst xs)" and "(k, v) \<in> set xs"
  shows "set (AList.delete k xs) = set xs - {(k, v)}"
proof (rule set_eqI)
  fix e
  show "e \<in> set (AList.delete k xs) \<longleftrightarrow> e \<in> set xs - {(k, v)}"
  proof (cases "e \<in> set xs")
    case True
    then have "fst e \<noteq> k \<longleftrightarrow> e \<noteq> (k, v)" using eq_key_imp_eq_value [OF assms(1), of k "snd e" v] assms(2) by (cases e) auto
    then show ?thesis using True by (simp add: delete_filter)
  qed (simp add: delete_filter)
qed

lemma stop_tracks:
  assumes tr: "tracks_servers te s" and run: "handleServerStop te pc params s = (rep, s')"
  shows "tracks_servers te s'"
proof (cases "s' = s")
  case False
  then obtain port h where dec: "decodeParams (pd_ServerStop pc) params = Inr port" and h: "map_of (ws_servers s) port = Some h"
    using run by (auto simp: handleServerStop_def ret_def split: sum.splits option.splits)
  let ?s1 = "s\<lparr> ws_servers := AList.delete port (ws_servers s) \<rparr>"
  obtain s2 where stop: "stop_server te h ?s1 = ((), s2)" by (metis (full_types) old.unit.exhaust surj_pair)
  then have s': "s' = s2" using run dec h by (simp add: handleServerStop_def bindS_def ret_def)
  have mem: "(port, h) \<in> set (ws_servers s)" using h by (rule map_of_SomeD)
  then have "sh_id h \<in> running te (w_trace (ws_w ?s1))" using tr by (auto simp: tracks_servers_def image_iff intro!: bexI [of _ "(port, h)"])
  with stop_tracked [OF _ this stop] tr have s2: "wf_world (ws_w s2)" "running te (w_trace (ws_w s2)) = running te (w_trace (ws_w s)) - {sh_id h}"
    "ws_servers s2 = AList.delete port (ws_servers s)" by (auto simp: tracks_servers_def)
  have "(sh_id \<circ> snd) ` set (ws_servers s) - {sh_id h} = (sh_id \<circ> snd) ` set (AList.delete port (ws_servers s))"
  proof -
    have keys: "distinct (map fst (ws_servers s))" using tr by (simp add: tracks_servers_def)
    have inj: "inj_on (sh_id \<circ> snd) (set (ws_servers s))" using tr by (simp add: tracks_servers_def distinct_map)
    have "set (AList.delete port (ws_servers s)) = set (ws_servers s) - {(port, h)}" by (rule delete_set [OF keys mem])
    then show ?thesis using inj_on_image_set_diff [OF inj, of "set (ws_servers s)" "{(port, h)}"] mem by simp
  qed
  then show ?thesis using s2 tr by (auto simp: s' tracks_servers_def delete_filter distinct_map_filter)
qed (use tr in simp)

lemma ret_tracks: "tracks_servers te s \<Longrightarrow> tracks_servers te (snd (ret r s))"
  by (simp add: ret_def)

lemma dispatch_tracks:
  assumes tr: "tracks_servers te s"
  shows "tracks_servers te (snd (dispatch_op te pc ops opName params s))"
proof -
  note neutral_ops = neutral_tracks [OF moves_adds_mono [OF Snapshot_calm] tr] neutral_tracks [OF moves_adds_mono [OF Inspect_calm] tr]
    neutral_tracks [OF ping_neutral(1) tr] neutral_tracks [OF ping_neutral(2) tr] neutral_tracks [OF clients_neutral(1) tr]
    neutral_tracks [OF clients_neutral(3) tr] ret_tracks [OF tr]
  have ping: "tracks_servers te (snd (handlePing te pc ops params s))" "tracks_servers te (snd (handleFullSize te pc ops params s))"
    "tracks_servers te (snd (handleClientRun te pc ops params s))" "tracks_servers te (snd (handleUDPRun te pc ops params s))"
    unfolding handlePing_def handleFullSize_def handleClientRun_def handleUDPRun_def
    by (auto intro!: neutral_ops split: sum.split prod.split)
  have "tracks_servers te (snd (handleServerStop te pc params s))"
    using stop_tracks [OF tr] by (metis prod.collapse)
  moreover have "tracks_servers te (snd (handleServerStart te pc ops params s))"
    using start_tracks [OF tr] tr
    by (auto simp: handleServerStart_def ret_def split: sum.split prod.split) (metis prod.collapse)
  ultimately show ?thesis
    unfolding dispatch_op_def using ping by (auto intro!: neutral_ops)
qed

lemma HandleOp_tracks: "tracks_servers te s \<Longrightarrow> tracks_servers te (snd (HandleOp te pc ops progress opName params s))"
  unfolding HandleOp_def by (rule dispatch_tracks) (simp add: tracks_servers_def)

lemma stop_all_servers:
  assumes "wf_world (ws_w s)" and "running te (w_trace (ws_w s)) = sh_id ` set hs" and "distinct (map sh_id hs)"
  shows "running te (w_trace (ws_w (fold (\<lambda>h s. snd (stop_server te h s)) hs s))) = {}"
  using assms
proof (induction hs arbitrary: s)
  case (Cons h hs)
  obtain u s1 where stop: "stop_server te h s = (u, s1)" by (cases "stop_server te h s")
  have "sh_id h \<in> running te (w_trace (ws_w s))" using Cons.prems(2) by simp
  note s1 = stop_tracked [OF Cons.prems(1) this stop]
  have "running te (w_trace (ws_w s1)) = sh_id ` set hs" using s1(2) Cons.prems(2,3) by auto
  with Cons.IH [OF s1(1)] Cons.prems(3) show ?case by (simp add: stop)
qed simp

lemma StopAllServers_clean: "tracks_servers te s \<Longrightarrow> running te (w_trace (ws_w (StopAllServers te s))) = {}"
  unfolding StopAllServers_def by (rule stop_all_servers) (auto simp: tracks_servers_def image_image comp_def)

text \<open>A request of the coordinator: whether progress is wanted, the op and its raw parameters.\<close>

type_synonym request = "bool \<times> string \<times> string"

definition serve :: "tool_env \<Rightarrow> params_codec \<Rightarrow> Ops \<Rightarrow> request list \<Rightarrow> worker_state \<Rightarrow> worker_state" where
  "serve te pc ops reqs s = fold (\<lambda>(progress, opName, params) s. snd (HandleOp te pc ops progress opName params s)) reqs s"

lemma serve_tracks: "tracks_servers te s \<Longrightarrow> tracks_servers te (serve te pc ops reqs s)"
  unfolding serve_def by (induction reqs arbitrary: s) (auto intro: HandleOp_tracks)

definition idle_worker :: worker_state where
  "idle_worker = \<lparr> ws_w = \<lparr> w_trace = [], w_seq = [], w_stopped = [] \<rparr>, ws_servers = [], ws_progress = [] \<rparr>"


subsection \<open>Replies\<close>

text \<open>The payload an op answers with, as the coordinator's table of decoders has it.\<close>

fun fits_op :: "op_payload \<Rightarrow> string \<Rightarrow> bool" where
  "fits_op (CounterPayload _) opName \<longleftrightarrow> opName = OpCountersSnapshot"
| "fits_op (LinkPayload _) opName \<longleftrightarrow> opName = OpLinkSettings"
| "fits_op (PingPayload _) opName \<longleftrightarrow> opName = OpPingRun \<or> opName = OpPingFullSize"
| "fits_op (ServerStartPayload _) opName \<longleftrightarrow> opName = OpIperfServerStart"
| "fits_op (ServerStopPayload _) opName \<longleftrightarrow> opName = OpIperfServerStop"
| "fits_op (TCPPayload _) opName \<longleftrightarrow> opName = OpIperfClientRun"
| "fits_op (UDPPayload _) opName \<longleftrightarrow> opName = OpIperfUDPRun"
| "fits_op (CapsPayload _) opName \<longleftrightarrow> opName = OpIperfCaps"

definition good_reply :: "string \<Rightarrow> op_reply \<Rightarrow> bool" where
  "good_reply opName rep = (case rep of (ans, status, err) \<Rightarrow>
     (status = StatusOK \<longleftrightarrow> err = None) \<and> status \<in> {StatusOK, StatusFailed, StatusTimeout, StatusUnavailable, StatusRejected} \<and>
     (case ans of
        NoAnswer \<Rightarrow> err \<noteq> None
      | EmptyAnswer \<Rightarrow> opName = OpCableTestWindowStart \<or> opName = OpCableTestWindowEnd
      | Answer p \<Rightarrow> fits_op p opName))"

lemmas status_defs = StatusOK_def StatusFailed_def StatusTimeout_def StatusUnavailable_def StatusRejected_def

lemma good_replies:
  "good_reply opName (rejected e)" "good_reply opName (failed_op e)" "fits_op p opName \<Longrightarrow> good_reply opName (answered p)"
  "(\<And>a. fits_op (f a) opName) \<Longrightarrow> good_reply opName (reply_of f r)"
  "(\<And>a. fits_op (f a) opName) \<Longrightarrow> good_reply opName (reply_run f x)"
  by (auto simp: good_reply_def rejected_def failed_op_def answered_def reply_of_def reply_run_def statusFor_def status_defs
      split: sum.split option.split)

lemma fst_bindS: "fst (bindS m f s) = fst (f (fst (m s)) (snd (m s)))"
  by (simp add: bindS_def split: prod.split)

lemma fst_bind_ret: "fst (bindS m (\<lambda>r. ret (f r)) s) = f (fst (m s))"
  by (simp add: fst_bindS ret_def)

lemma fst_ret: "fst (ret r s) = r"
  by (simp add: ret_def)

lemma good_if:
  "(c \<Longrightarrow> good_reply opName (fst (a s))) \<Longrightarrow> (\<not> c \<Longrightarrow> good_reply opName (fst (b s))) \<Longrightarrow>
   good_reply opName (fst ((if c then a else b) s))"
  by simp

lemma start_and_await_reply: "good_reply OpIperfServerStart (fst (start_and_await te ops bind port s))"
  unfolding start_and_await_def
  by (auto simp: fst_bindS fst_bind_ret ret_def good_replies split: sum.split option.split)

lemma handlers_reply:
  "good_reply OpPingRun (fst (handlePing te pc ops params s))" "good_reply OpPingFullSize (fst (handleFullSize te pc ops params s))"
  "good_reply OpIperfClientRun (fst (handleClientRun te pc ops params s))" "good_reply OpIperfUDPRun (fst (handleUDPRun te pc ops params s))"
  "good_reply OpIperfServerStart (fst (handleServerStart te pc ops params s))" "good_reply OpIperfServerStop (fst (handleServerStop te pc params s))"
  "good_reply OpCableTestWindowStart (handleWindowStart pc params)"
  unfolding handlePing_def handleFullSize_def handleClientRun_def handleUDPRun_def handleServerStart_def handleServerStop_def handleWindowStart_def
  by (auto simp: fst_bind_ret ret_def good_replies start_and_await_reply split: sum.split prod.split option.split)
    (simp add: good_reply_def)

lemma map_sum_Inr: "map_sum id f y = Inr p \<Longrightarrow> \<exists>a. p = f a"
  by (cases y) auto

lemma decoded_fits:
  assumes "DecodeOpResult oc opName raw = Inr p"
  shows "fits_op p opName"
proof -
  from assms obtain dec where "(opName, dec) \<in> set (opDecoders oc)" and dec: "dec raw = Inr p"
    by (auto simp: DecodeOpResult_def dest!: map_of_SomeD split: option.splits sum.splits)
  then show ?thesis unfolding opDecoders_def
    by (simp only: list.set insert_iff empty_iff prod.inject) (elim disjE conjE; auto dest!: map_sum_Inr)
qed

text \<open>
  C16. Every reply of the worker can be understood by the coordinator: it carries one of the five statuses, ok
  exactly when there is no error; what it carries as result, a partial one of a failed run included, has
  the type that the coordinator's decoder table assigns to the op, and the decoder never yields another;
  without a result there is an error to report.
\<close>

theorem worker_replies_fit:
  "good_reply opName (fst (HandleOp te pc ops progress opName params s)) \<and>
   (case DecodeOpResult oc opName raw of Inl _ \<Rightarrow> True | Inr p \<Rightarrow> fits_op p opName)"
proof
  have window: "good_reply OpCableTestWindowEnd (EmptyAnswer, StatusOK, None)" by (simp add: good_reply_def)
  have "good_reply opName (fst (dispatch_op te pc ops opName params s))" for s
    unfolding dispatch_op_def
    by (intro good_if) (simp_all add: fst_bind_ret fst_ret good_replies handlers_reply window case_prod_unfold)
  then show "good_reply opName (fst (HandleOp te pc ops progress opName params s))" by (simp add: HandleOp_def)
  show "case DecodeOpResult oc opName raw of Inl _ \<Rightarrow> True | Inr p \<Rightarrow> fits_op p opName"
    using decoded_fits by (simp split: sum.split)
qed

end
