(* ===== verification/LinkMonitor.thy ===== *)
theory LinkMonitor
  imports Registry Report GoText "HOL-Library.Sublist"
begin

section \<open>The link monitor\<close>

text \<open>
  The poller of the link state of one interface (src/internal/network/monitor.go) and its use by a run
  (src/internal/app/monitor.go). A poll reads the attribute files of the interface; the contents of the files
  at the time of the poll, \<open>None\<close> for a read that fails, and the clock are its arguments. The channel of events
  is the list of the events that wait in its buffer.
\<close>

subsection \<open>One reading of the link\<close>

type_synonym file_read = "string \<Rightarrow> string option"

definition eventChanCapacity :: nat where "eventChanCapacity = 64"

definition DefaultSysfsRoot :: string where "DefaultSysfsRoot = ''/sys/class/net''"

record LinkSnapshot =
  lp_At :: gotime
  lp_Operstate :: string
  lp_Carrier :: int
  lp_SpeedMbps :: int
  lp_Duplex :: string
  lp_CarrierChanges :: u64
  lp_CarrierUp :: u64
  lp_CarrierDown :: u64

definition readStringAttr :: "file_read \<Rightarrow> string \<Rightarrow> string \<Rightarrow> string \<Rightarrow> string" where
  "readStringAttr fs base name fallback =
     (case fs (Join base name) of
        None \<Rightarrow> fallback
      | Some data \<Rightarrow> if TrimSpace data = '''' then fallback else TrimSpace data)"

definition readDuplexAttr :: "file_read \<Rightarrow> string \<Rightarrow> string" where
  "readDuplexAttr fs base =
     (case fs (Join base ''duplex'') of
        None \<Rightarrow> ''unknown''
      | Some data \<Rightarrow>
          let d = to_lower (TrimSpace data)
          in if d = ''full'' then ''full'' else if d = ''half'' then ''half'' else ''unknown'')"

definition readIntAttr :: "file_read \<Rightarrow> string \<Rightarrow> string \<Rightarrow> int" where
  "readIntAttr fs base name =
     (case fs (Join base name) of
        None \<Rightarrow> - 1
      | Some data \<Rightarrow> (case Atoi (TrimSpace data) of (n, ok) \<Rightarrow> if \<not> ok \<or> n < 0 then - 1 else n))"

definition readUintAttr :: "file_read \<Rightarrow> string \<Rightarrow> string \<Rightarrow> u64" where
  "readUintAttr fs base name =
     (case fs (Join base name) of
        None \<Rightarrow> 0
      | Some data \<Rightarrow> (case ParseUint (TrimSpace data) of None \<Rightarrow> 0 | Some n \<Rightarrow> n))"

definition ReadLinkSnapshot :: "file_read \<Rightarrow> string \<Rightarrow> string \<Rightarrow> LinkSnapshot" where
  "ReadLinkSnapshot fs sysfsRoot ifName =
     (let base = Join (if sysfsRoot = '''' then DefaultSysfsRoot else sysfsRoot) ifName
      in \<lparr> lp_At = 0, lp_Operstate = readStringAttr fs base ''operstate'' ''unknown'',
           lp_Carrier = readIntAttr fs base ''carrier'', lp_SpeedMbps = readIntAttr fs base ''speed'',
           lp_Duplex = readDuplexAttr fs base, lp_CarrierChanges = readUintAttr fs base ''carrier_changes'',
           lp_CarrierUp = readUintAttr fs base ''carrier_up_count'',
           lp_CarrierDown = readUintAttr fs base ''carrier_down_count'' \<rparr>)"

subsection \<open>Changes between two readings\<close>

datatype LinkEventType = CarrierLost | CarrierRestored | SpeedChanged | DuplexChanged | OperstateChanged | Renegotiation

primrec event_name :: "LinkEventType \<Rightarrow> string" where
  "event_name CarrierLost = ''carrier_lost''"
| "event_name CarrierRestored = ''carrier_restored''"
| "event_name SpeedChanged = ''speed_changed''"
| "event_name DuplexChanged = ''duplex_changed''"
| "event_name OperstateChanged = ''operstate_changed''"
| "event_name Renegotiation = ''renegotiation''"

record LinkEvent =
  lk_At :: gotime
  lk_Type :: LinkEventType
  lk_Detail :: string
  lk_SelfInflicted :: bool
  lk_Before :: LinkSnapshot
  lk_After :: LinkSnapshot

definition isKnownDuplex :: "string \<Rightarrow> bool" where
  "isKnownDuplex d \<longleftrightarrow> d = ''full'' \<or> d = ''half''"

definition mk_event :: "LinkSnapshot \<Rightarrow> LinkSnapshot \<Rightarrow> LinkEventType \<Rightarrow> string \<Rightarrow> LinkEvent" where
  "mk_event before after t detail =
     \<lparr> lk_At = lp_At after, lk_Type = t, lk_Detail = detail, lk_SelfInflicted = False, lk_Before = before, lk_After = after \<rparr>"

definition speedChanged :: "LinkSnapshot \<Rightarrow> LinkSnapshot \<Rightarrow> bool" where
  "speedChanged before after \<longleftrightarrow>
     lp_SpeedMbps before \<ge> 0 \<and> lp_SpeedMbps after \<ge> 0 \<and> lp_SpeedMbps before \<noteq> lp_SpeedMbps after"

definition duplexChanged :: "LinkSnapshot \<Rightarrow> LinkSnapshot \<Rightarrow> bool" where
  "duplexChanged before after \<longleftrightarrow>
     isKnownDuplex (lp_Duplex before) \<and> isKnownDuplex (lp_Duplex after) \<and> lp_Duplex before \<noteq> lp_Duplex after"

text \<open>The comparison adds on unsigned 64-bit values: it wraps around.\<close>

definition flap :: "LinkSnapshot \<Rightarrow> LinkSnapshot \<Rightarrow> bool" where
  "flap before after \<longleftrightarrow> lp_CarrierChanges after \<ge> lp_CarrierChanges before + 2"

definition renegotiation_detail :: "LinkSnapshot \<Rightarrow> LinkSnapshot \<Rightarrow> string" where
  "renegotiation_detail before after =
     (if flap before after
      then ''sub-interval link flap (carrier_changes +'' @ show_u64 (lp_CarrierChanges after - lp_CarrierChanges before) @ '')''
      else ''renegotiation without carrier drop'')"

definition detectEvents :: "LinkSnapshot \<Rightarrow> LinkSnapshot \<Rightarrow> LinkEvent list" where
  "detectEvents before after =
     (let mk = mk_event before after; carrierUp = (lp_Carrier before = 1 \<and> lp_Carrier after = 1)
      in (if lp_Carrier before = 1 \<and> lp_Carrier after = 0 then [mk CarrierLost ''carrier down (link lost)'']
          else if lp_Carrier before = 0 \<and> lp_Carrier after = 1 then [mk CarrierRestored ''carrier up (link restored)'']
          else [])
       @ (if speedChanged before after
          then [mk SpeedChanged (''speed '' @ show_int (lp_SpeedMbps before) @ ''Mb/s -> '' @ show_int (lp_SpeedMbps after) @ ''Mb/s'')]
          else [])
       @ (if duplexChanged before after then [mk DuplexChanged (''duplex '' @ lp_Duplex before @ '' -> '' @ lp_Duplex after)] else [])
       @ (if lp_Operstate before \<noteq> lp_Operstate after
          then [mk OperstateChanged (''operstate '' @ lp_Operstate before @ '' -> '' @ lp_Operstate after)] else [])
       @ (if flap before after \<or> carrierUp \<and> (speedChanged before after \<or> duplexChanged before after)
          then [mk Renegotiation (renegotiation_detail before after)] else []))"

subsection \<open>The monitor\<close>

record Monitor =
  mo_ifName :: string
  mo_interval :: duration
  mo_sysfsRoot :: string
  mo_ch :: "LinkEvent list"
  mo_dropped :: u64
  mo_last :: "LinkSnapshot option"
  mo_current :: LinkSnapshot
  mo_history :: "LinkEvent list"
  mo_cableTestWindow :: bool
  mo_windowCarrierEvents :: u64

definition emit_link :: "LinkEvent \<Rightarrow> Monitor \<Rightarrow> Monitor" where
  "emit_link ev m =
     (if length (mo_ch m) < eventChanCapacity then m\<lparr> mo_ch := mo_ch m @ [ev] \<rparr>
      else m\<lparr> mo_dropped := mo_dropped m + 1 \<rparr>)"

definition self_inflict :: "LinkEvent \<Rightarrow> LinkEvent" where
  "self_inflict ev =
     ev\<lparr> lk_SelfInflicted := True, lk_Detail := lk_Detail ev @ '' (self-inflicted cable-test window)'' \<rparr>"

definition pollLocked :: "file_read \<Rightarrow> gotime \<Rightarrow> Monitor \<Rightarrow> LinkEvent list \<times> Monitor" where
  "pollLocked fs now m =
     (let snap = (ReadLinkSnapshot fs (mo_sysfsRoot m) (mo_ifName m))\<lparr> lp_At := now \<rparr>;
          m' = m\<lparr> mo_current := snap, mo_last := Some snap \<rparr>
      in case mo_last m of
           None \<Rightarrow> ([], m')
         | Some prev \<Rightarrow>
             let found = detectEvents prev snap;
                 events = (if mo_cableTestWindow m then map self_inflict found else found);
                 counted = (if mo_cableTestWindow m \<and> lp_CarrierChanges snap \<ge> lp_CarrierChanges prev
                            then mo_windowCarrierEvents m + (lp_CarrierChanges snap - lp_CarrierChanges prev)
                            else mo_windowCarrierEvents m)
             in (events, m'\<lparr> mo_windowCarrierEvents := counted, mo_history := mo_history m @ events \<rparr>))"

definition poll :: "file_read \<Rightarrow> gotime \<Rightarrow> Monitor \<Rightarrow> Monitor" where
  "poll fs now m = (case pollLocked fs now m of (events, m') \<Rightarrow> fold emit_link events m')"

definition zero_link_snapshot :: LinkSnapshot where
  "zero_link_snapshot =
     \<lparr> lp_At = 0, lp_Operstate = '''', lp_Carrier = 0, lp_SpeedMbps = 0, lp_Duplex = '''', lp_CarrierChanges = 0,
       lp_CarrierUp = 0, lp_CarrierDown = 0 \<rparr>"

definition NewMonitor :: "string \<Rightarrow> duration \<Rightarrow> string \<Rightarrow> file_read \<Rightarrow> gotime \<Rightarrow> Monitor" where
  "NewMonitor ifName interval sysfsRoot fs now =
     poll fs now
       \<lparr> mo_ifName = ifName, mo_interval = interval, mo_sysfsRoot = sysfsRoot, mo_ch = [], mo_dropped = 0, mo_last = None,
         mo_current = zero_link_snapshot, mo_history = [], mo_cableTestWindow = False, mo_windowCarrierEvents = 0 \<rparr>"

definition FinalPoll :: "file_read \<Rightarrow> gotime \<Rightarrow> Monitor \<Rightarrow> Monitor" where
  "FinalPoll = poll"

definition SetCableTestWindow :: "bool \<Rightarrow> file_read \<Rightarrow> gotime \<Rightarrow> Monitor \<Rightarrow> u64 \<times> Monitor" where
  "SetCableTestWindow active fs now m =
     (if active = mo_cableTestWindow m then (if active then 0 else mo_windowCarrierEvents m, m)
      else
        let m1 = poll fs now m;
            m2 = (if active then m1\<lparr> mo_windowCarrierEvents := 0 \<rparr> else m1);
            m3 = m2\<lparr> mo_cableTestWindow := active \<rparr>
        in (if active then 0 else mo_windowCarrierEvents m3, m3))"

text \<open>The accessors, and a receive from the channel of events by a consumer.\<close>

definition History :: "Monitor \<Rightarrow> LinkEvent list" where "History m = mo_history m"
definition Monitor_Current :: "Monitor \<Rightarrow> LinkSnapshot" where "Monitor_Current m = mo_current m"
definition Dropped :: "Monitor \<Rightarrow> u64" where "Dropped m = mo_dropped m"

definition receive_event :: "Monitor \<Rightarrow> LinkEvent option \<times> Monitor" where
  "receive_event m = (case mo_ch m of [] \<Rightarrow> (None, m) | ev # evs \<Rightarrow> (Some ev, m\<lparr> mo_ch := evs \<rparr>))"

text \<open>
  What happens to a monitor: a tick of its ticker or the final poll, a call that sets the window, a receive by
  a consumer. \<open>Run\<close> performs the ticks until its context ends; the mutex makes each step atomic.
\<close>

datatype monitor_step =
    Tick file_read gotime
  | SetWindow bool file_read gotime
  | Consume

fun monitor_do :: "monitor_step \<Rightarrow> Monitor \<Rightarrow> LinkEvent list \<times> Monitor" where
  "monitor_do (Tick fs now) m = ([], poll fs now m)"
| "monitor_do (SetWindow active fs now) m = ([], snd (SetCableTestWindow active fs now m))"
| "monitor_do Consume m = (case receive_event m of (ev, m') \<Rightarrow> (case ev of None \<Rightarrow> [] | Some e \<Rightarrow> [e], m'))"

fun monitor_run :: "monitor_step list \<Rightarrow> Monitor \<Rightarrow> LinkEvent list \<times> Monitor" where
  "monitor_run [] m = ([], m)"
| "monitor_run (st # sts) m =
     (case monitor_do st m of (got, m1) \<Rightarrow> case monitor_run sts m1 of (later, m2) \<Rightarrow> (got @ later, m2))"

subsection \<open>The monitor of a run\<close>

text \<open>
  The application keeps at most one monitor: it is started when the session reaches the testing phase, polled
  by its ticker until it is stopped, and stopped once, with a final poll.
\<close>

definition defaultMonitorInterval :: duration where "defaultMonitorInterval = 1000000000"

record link_watch =
  lw_monitor :: "Monitor option"
  lw_stopped :: bool

definition startLinkMonitor :: "duration \<Rightarrow> string \<Rightarrow> string \<Rightarrow> file_read \<Rightarrow> gotime \<Rightarrow> link_watch \<Rightarrow> link_watch" where
  "startLinkMonitor monitorInterval sysfsRoot ifName fs now a =
     (case lw_monitor a of
        Some _ \<Rightarrow> a
      | None \<Rightarrow>
          let interval = (if monitorInterval \<le> 0 then defaultMonitorInterval else monitorInterval)
          in \<lparr> lw_monitor = Some (NewMonitor ifName interval sysfsRoot fs now), lw_stopped = False \<rparr>)"

definition watch_tick :: "file_read \<Rightarrow> gotime \<Rightarrow> link_watch \<Rightarrow> link_watch" where
  "watch_tick fs now a = (if lw_stopped a then a else a\<lparr> lw_monitor := map_option (poll fs now) (lw_monitor a) \<rparr>)"

definition stopLinkMonitor :: "file_read \<Rightarrow> gotime \<Rightarrow> link_watch \<Rightarrow> link_watch" where
  "stopLinkMonitor fs now a =
     (case lw_monitor a of
        None \<Rightarrow> a
      | Some m \<Rightarrow> if lw_stopped a then a else \<lparr> lw_monitor = Some (FinalPoll fs now m), lw_stopped = True \<rparr>)"

definition setCableTestWindow :: "bool \<Rightarrow> file_read \<Rightarrow> gotime \<Rightarrow> link_watch \<Rightarrow> u64 \<times> link_watch" where
  "setCableTestWindow active fs now a =
     (case lw_monitor a of
        None \<Rightarrow> (0, a)
      | Some m \<Rightarrow> (case SetCableTestWindow active fs now m of (n, m') \<Rightarrow> (n, a\<lparr> lw_monitor := Some m' \<rparr>)))"

definition monitoring_event :: "LinkEvent \<Rightarrow> MonitoringEvent" where
  "monitoring_event e =
     \<lparr> me_At = lk_At e, me_Type = event_name (lk_Type e), me_Detail = lk_Detail e, me_SelfInflicted = lk_SelfInflicted e \<rparr>"

definition monitoringEvents :: "link_watch \<Rightarrow> MonitoringEvent list" where
  "monitoringEvents a = (case lw_monitor a of None \<Rightarrow> [] | Some m \<Rightarrow> map monitoring_event (History m))"

subsection \<open>What a poll does\<close>

definition reading :: "file_read \<Rightarrow> gotime \<Rightarrow> Monitor \<Rightarrow> LinkSnapshot" where
  "reading fs now m = (ReadLinkSnapshot fs (mo_sysfsRoot m) (mo_ifName m))\<lparr> lp_At := now \<rparr>"

definition tagged :: "bool \<Rightarrow> LinkEvent list \<Rightarrow> LinkEvent list" where
  "tagged window evs = (if window then map self_inflict evs else evs)"

definition found :: "Monitor \<Rightarrow> LinkSnapshot \<Rightarrow> LinkEvent list" where
  "found m snap = (case mo_last m of None \<Rightarrow> [] | Some prev \<Rightarrow> tagged (mo_cableTestWindow m) (detectEvents prev snap))"

lemma emit_links_keep [simp]:
  "mo_history (fold emit_link evs m) = mo_history m" "mo_last (fold emit_link evs m) = mo_last m"
  "mo_current (fold emit_link evs m) = mo_current m" "mo_cableTestWindow (fold emit_link evs m) = mo_cableTestWindow m"
  "mo_windowCarrierEvents (fold emit_link evs m) = mo_windowCarrierEvents m"
  "mo_sysfsRoot (fold emit_link evs m) = mo_sysfsRoot m" "mo_ifName (fold emit_link evs m) = mo_ifName m"
  by (induction evs arbitrary: m) (simp_all add: emit_link_def)

lemma poll_keep [simp]:
  "mo_history (poll fs now m) = mo_history m @ found m (reading fs now m)"
  "mo_last (poll fs now m) = Some (reading fs now m)" "mo_current (poll fs now m) = reading fs now m"
  "mo_cableTestWindow (poll fs now m) = mo_cableTestWindow m"
  "mo_sysfsRoot (poll fs now m) = mo_sysfsRoot m" "mo_ifName (poll fs now m) = mo_ifName m"
  by (simp_all add: poll_def pollLocked_def found_def tagged_def reading_def Let_def split: option.split)

lemma poll_count:
  "mo_windowCarrierEvents (poll fs now m) =
     (case mo_last m of
        None \<Rightarrow> mo_windowCarrierEvents m
      | Some prev \<Rightarrow>
          if mo_cableTestWindow m \<and> lp_CarrierChanges (reading fs now m) \<ge> lp_CarrierChanges prev
          then mo_windowCarrierEvents m + (lp_CarrierChanges (reading fs now m) - lp_CarrierChanges prev)
          else mo_windowCarrierEvents m)"
  by (simp add: poll_def pollLocked_def reading_def Let_def split: option.split)

lemma poll_channel:
  "\<exists>m'. poll fs now m = fold emit_link (found m (reading fs now m)) m' \<and> mo_ch m' = mo_ch m \<and> mo_dropped m' = mo_dropped m"
  by (cases "mo_last m") (auto simp: poll_def pollLocked_def found_def tagged_def reading_def Let_def)

text \<open>The readings a sequence of steps takes.\<close>

fun readings :: "monitor_step list \<Rightarrow> Monitor \<Rightarrow> LinkSnapshot list" where
  "readings [] m = []"
| "readings (Tick fs now # sts) m = reading fs now m # readings sts (poll fs now m)"
| "readings (SetWindow active fs now # sts) m =
     (if active = mo_cableTestWindow m then [] else [reading fs now m])
     @ readings sts (snd (SetCableTestWindow active fs now m))"
| "readings (Consume # sts) m = readings sts (snd (receive_event m))"

lemma receive_keep [simp]:
  "mo_history (snd (receive_event m)) = mo_history m" "mo_last (snd (receive_event m)) = mo_last m"
  "mo_cableTestWindow (snd (receive_event m)) = mo_cableTestWindow m" "mo_current (snd (receive_event m)) = mo_current m"
  "mo_windowCarrierEvents (snd (receive_event m)) = mo_windowCarrierEvents m"
  by (simp_all add: receive_event_def split: list.split)

lemma window_keep [simp]:
  "mo_cableTestWindow (snd (SetCableTestWindow active fs now m)) = active"
  "mo_history (snd (SetCableTestWindow active fs now m)) =
     mo_history m @ (if active = mo_cableTestWindow m then [] else found m (reading fs now m))"
  "mo_last (snd (SetCableTestWindow active fs now m)) =
     (if active = mo_cableTestWindow m then mo_last m else Some (reading fs now m))"
  by (simp_all add: SetCableTestWindow_def Let_def)

lemma monitor_run_Cons:
  "snd (monitor_run (st # sts) m) = snd (monitor_run sts (snd (monitor_do st m)))"
  "fst (monitor_run (st # sts) m) = fst (monitor_do st m) @ fst (monitor_run sts (snd (monitor_do st m)))"
  by (simp_all split: prod.split)

lemma monitor_do_Consume [simp]: "snd (monitor_do Consume m) = snd (receive_event m)"
  by (simp split: prod.split)

declare monitor_run.simps(2) [simp del] monitor_do.simps(3) [simp del]

lemmas monitor_run_simps = monitor_run.simps(1) monitor_run_Cons monitor_do.simps(1,2) monitor_do_Consume

subsection \<open>Every change of an attribute is recorded\<close>

definition changes :: "'a list \<Rightarrow> ('a \<times> 'a) list" where
  "changes xs = filter (\<lambda>(x, y). x \<noteq> y) (zip xs (tl xs))"

lemma changes_simps [simp]:
  "changes [] = []" "changes [x] = []" "changes (x # y # xs) = (if x = y then [] else [(x, y)]) @ changes (y # xs)"
  by (simp_all add: changes_def)

text \<open>
  An attribute of the readings with the kinds of event that report it: two readings in which it is known
  give an event of these kinds exactly when it differs.
\<close>

locale tracked_attribute =
  fixes attr :: "LinkSnapshot \<Rightarrow> 'a" and known :: "'a \<Rightarrow> bool" and kinds :: "LinkEventType list"
  assumes detected: "known (attr b) \<Longrightarrow> known (attr a) \<Longrightarrow>
    map (\<lambda>e. (attr (lk_Before e), attr (lk_After e))) (filter (\<lambda>e. lk_Type e \<in> set kinds) (detectEvents b a))
    = (if attr b = attr a then [] else [(attr b, attr a)])"
begin

definition reported :: "LinkEvent list \<Rightarrow> ('a \<times> 'a) list" where
  "reported evs = map (\<lambda>e. (attr (lk_Before e), attr (lk_After e))) (filter (\<lambda>e. lk_Type e \<in> set kinds) evs)"

lemma reported_append [simp]: "reported (xs @ ys) = reported xs @ reported ys"
  by (simp add: reported_def)

lemma reported_tagged [simp]: "reported (tagged w evs) = reported evs"
  by (induction evs) (auto simp: reported_def tagged_def self_inflict_def)

lemma reported_found:
  assumes "mo_last m = Some b" "known (attr b)" "known (attr a)"
  shows "reported (found m a) = (if attr b = attr a then [] else [(attr b, attr a)])"
  using assms detected [of b a] by (simp add: found_def reported_def [symmetric])

lemma history_reports:
  assumes "mo_last m = Some b" "\<forall>x \<in> set (b # readings sts m). known (attr x)"
  shows "reported (mo_history (snd (monitor_run sts m))) = reported (mo_history m) @ changes (map attr (b # readings sts m))"
  using assms
proof (induction sts arbitrary: m b)
  case (Cons st sts)
  show ?case
  proof (cases st)
    case (Tick fs now)
    then show ?thesis
      using Cons.prems Cons.IH [of "poll fs now m" "reading fs now m"]
      by (simp add: monitor_run_simps reported_found)
  next
    case (SetWindow active fs now)
    then show ?thesis
      using Cons.prems Cons.IH [of "snd (SetCableTestWindow active fs now m)"]
      by (cases "active = mo_cableTestWindow m") (simp_all add: monitor_run_simps reported_found)
  next
    case Consume
    then show ?thesis
      using Cons.prems Cons.IH [of "snd (receive_event m)" b] by (simp add: monitor_run_simps)
  qed
qed (simp add: monitor_run_simps)

end

interpretation carrier: tracked_attribute lp_Carrier "\<lambda>c. c = 0 \<or> c = 1" "[CarrierLost, CarrierRestored]"
  by unfold_locales (auto simp: detectEvents_def Let_def mk_event_def)

interpretation speed: tracked_attribute lp_SpeedMbps "\<lambda>s. s \<ge> 0" "[SpeedChanged]"
  by unfold_locales (auto simp: detectEvents_def Let_def mk_event_def speedChanged_def)

interpretation duplex: tracked_attribute lp_Duplex isKnownDuplex "[DuplexChanged]"
  by unfold_locales (auto simp: detectEvents_def Let_def mk_event_def duplexChanged_def)

interpretation operstate: tracked_attribute lp_Operstate "\<lambda>_. True" "[OperstateChanged]"
  by unfold_locales (auto simp: detectEvents_def Let_def mk_event_def)

lemma new_monitor [simp]:
  "mo_history (NewMonitor ifName interval dir fs now) = []"
  "mo_last (NewMonitor ifName interval dir fs now) = Some (mo_current (NewMonitor ifName interval dir fs now))"
  "mo_current (NewMonitor ifName interval dir fs now) = (ReadLinkSnapshot fs dir ifName)\<lparr> lp_At := now \<rparr>"
  "mo_cableTestWindow (NewMonitor ifName interval dir fs now) = False"
  by (simp_all add: NewMonitor_def found_def reading_def)

text \<open>
  C22. The timeline of the link monitor is exact: whatever polls, window changes and consumers a run brings,
  as long as an attribute of the link is known in every reading, the events that report it (carrier lost or
  restored, speed, duplex and operational state changed) give exactly its changes between successive readings,
  in order and with the values before and after; the operational state is always known. A slow consumer of the
  channel loses nothing of the record.
\<close>

theorem link_changes_recorded:
  assumes "m0 = NewMonitor ifName interval dir fs now" "m = snd (monitor_run sts m0)"
    "seen = mo_current m0 # readings sts m0"
  shows "(list_all (\<lambda>x. lp_Carrier x = 0 \<or> lp_Carrier x = 1) seen \<longrightarrow>
      map (\<lambda>e. (lp_Carrier (lk_Before e), lp_Carrier (lk_After e)))
        (filter (\<lambda>e. lk_Type e \<in> set [CarrierLost, CarrierRestored]) (History m)) = changes (map lp_Carrier seen)) \<and>
    (list_all (\<lambda>x. lp_SpeedMbps x \<ge> 0) seen \<longrightarrow>
      map (\<lambda>e. (lp_SpeedMbps (lk_Before e), lp_SpeedMbps (lk_After e)))
        (filter (\<lambda>e. lk_Type e \<in> set [SpeedChanged]) (History m)) = changes (map lp_SpeedMbps seen)) \<and>
    (list_all (\<lambda>x. isKnownDuplex (lp_Duplex x)) seen \<longrightarrow>
      map (\<lambda>e. (lp_Duplex (lk_Before e), lp_Duplex (lk_After e)))
        (filter (\<lambda>e. lk_Type e \<in> set [DuplexChanged]) (History m)) = changes (map lp_Duplex seen)) \<and>
    map (\<lambda>e. (lp_Operstate (lk_Before e), lp_Operstate (lk_After e)))
        (filter (\<lambda>e. lk_Type e \<in> set [OperstateChanged]) (History m)) = changes (map lp_Operstate seen)"
  unfolding assms(2,3) History_def
  using carrier.history_reports [of m0 "mo_current m0" sts] speed.history_reports [of m0 "mo_current m0" sts]
    duplex.history_reports [of m0 "mo_current m0" sts] operstate.history_reports [of m0 "mo_current m0" sts]
  by (intro conjI impI) (simp_all add: assms(1) carrier.reported_def speed.reported_def duplex.reported_def operstate.reported_def list_all_iff)

definition demo_files :: "string \<Rightarrow> file_read" where
  "demo_files carrier = map_of
     [(''/sys/class/net/eth0/operstate'', ''up''), (''/sys/class/net/eth0/carrier'', carrier), (''/sys/class/net/eth0/speed'', ''1000''),
      (''/sys/class/net/eth0/duplex'', ''full''), (''/sys/class/net/eth0/carrier_changes'', ''2'')]"

definition demo_monitor :: Monitor where
  "demo_monitor = NewMonitor ''eth0'' second '''' (demo_files ''1'') 0"

definition demo_watch :: "monitor_step list" where
  "demo_watch = [Tick (demo_files ''0'') 1, Consume, Tick (demo_files ''0'') 2, Tick (demo_files ''1'') 3]"

lemma demo_readings: "map lp_Carrier (mo_current demo_monitor # readings demo_watch demo_monitor) = [1, 0, 0, 1]"
  by code_simp

lemma demo_known:
  "list_all (\<lambda>x. lp_Carrier x = 0 \<or> lp_Carrier x = 1) (mo_current demo_monitor # readings demo_watch demo_monitor)"
  by code_simp

theorem link_changes_recorded_witness:
  "map (\<lambda>e. (lp_Carrier (lk_Before e), lp_Carrier (lk_After e)))
     (filter (\<lambda>e. lk_Type e \<in> set [CarrierLost, CarrierRestored]) (History (snd (monitor_run demo_watch demo_monitor))))
   = [(1, 0), (0, 1)]"
  using conjunct1 [OF link_changes_recorded [OF demo_monitor_def refl refl, of demo_watch]] demo_known
  by (simp only: demo_readings) simp

subsection \<open>Events are delivered, waiting or counted as dropped\<close>

definition accounted :: "LinkEvent list \<Rightarrow> Monitor \<Rightarrow> bool" where
  "accounted got m \<longleftrightarrow>
     subseq (got @ mo_ch m) (mo_history m) \<and> length (mo_ch m) \<le> eventChanCapacity \<and>
     of_nat (length (mo_history m)) = mo_dropped m + of_nat (length got + length (mo_ch m))"

lemma emit_links_account:
  assumes "subseq (got @ mo_ch m) h" "length (mo_ch m) \<le> eventChanCapacity"
    "of_nat (length h) = mo_dropped m + of_nat (length got + length (mo_ch m))"
  shows "subseq (got @ mo_ch (fold emit_link evs m)) (h @ evs) \<and> length (mo_ch (fold emit_link evs m)) \<le> eventChanCapacity \<and>
    of_nat (length (h @ evs)) = mo_dropped (fold emit_link evs m) + of_nat (length got + length (mo_ch (fold emit_link evs m)))"
  using assms
proof (induction evs arbitrary: m h)
  case (Cons ev evs)
  have "subseq (got @ mo_ch (emit_link ev m)) (h @ [ev]) \<and> length (mo_ch (emit_link ev m)) \<le> eventChanCapacity \<and>
    of_nat (length (h @ [ev])) = mo_dropped (emit_link ev m) + of_nat (length got + length (mo_ch (emit_link ev m)))"
    using Cons.prems list_emb_append_mono [of "(=)" "got @ mo_ch m" h "[ev]" "[ev]"] list_emb_prefix [of "(=)" "got @ mo_ch m" h "[ev]"]
    by (auto simp: emit_link_def algebra_simps)
  then show ?case using Cons.IH [of "emit_link ev m" "h @ [ev]"] by simp
qed simp

lemma accounted_poll:
  assumes "accounted got m"
  shows "accounted got (poll fs now m)"
proof -
  obtain m' where "poll fs now m = fold emit_link (found m (reading fs now m)) m'" "mo_ch m' = mo_ch m" "mo_dropped m' = mo_dropped m"
    using poll_channel by blast
  then show ?thesis
    using assms emit_links_account [of got m' "mo_history m" "found m (reading fs now m)"]
      poll_keep(1) [of fs now m] by (simp add: accounted_def)
qed

lemma accounted_window:
  assumes "accounted got m"
  shows "accounted got (snd (SetCableTestWindow active fs now m))"
  using accounted_poll [OF assms, of fs now] assms by (auto simp: SetCableTestWindow_def accounted_def Let_def)

lemma accounted_receive:
  assumes "accounted got m"
  shows "accounted (got @ fst (monitor_do Consume m)) (snd (receive_event m))"
  using assms by (auto simp: accounted_def receive_event_def monitor_do.simps(3) split: list.split)

lemma accounted_run:
  assumes "accounted got m"
  shows "accounted (got @ fst (monitor_run sts m)) (snd (monitor_run sts m))"
  using assms
proof (induction sts arbitrary: got m)
  case (Cons st sts)
  have "accounted (got @ fst (monitor_do st m)) (snd (monitor_do st m))"
    using Cons.prems accounted_receive [OF Cons.prems]
    by (cases st) (simp_all add: accounted_poll accounted_window)
  then show ?case using Cons.IH [of "got @ fst (monitor_do st m)"] by (simp add: monitor_run_Cons)
qed simp

text \<open>
  No event of the link is lost unnoticed: after any sequence of polls, window changes and receives, what
  the consumer received followed by what waits in the channel is a subsequence of the recorded history, at most
  64 events wait, and the dropped counter is, as an unsigned 64-bit number, the number of events that were
  neither delivered nor wait.
\<close>

theorem link_events_accounted:
  "case monitor_run sts (NewMonitor ifName interval dir fs now) of
     (got, m) \<Rightarrow> subseq (got @ mo_ch m) (History m) \<and> length (mo_ch m) \<le> eventChanCapacity \<and>
       Dropped m = of_nat (length (History m)) - of_nat (length got + length (mo_ch m))"
proof -
  have "accounted [] (NewMonitor ifName interval dir fs now)"
    unfolding NewMonitor_def by (rule accounted_poll) (simp add: accounted_def)
  from accounted_run [OF this, of sts] show ?thesis
    by (simp add: accounted_def History_def Dropped_def algebra_simps case_prod_beta)
qed

subsection \<open>The cable-test window\<close>

fun stays_open :: "monitor_step \<Rightarrow> bool" where
  "stays_open (SetWindow active fs now) = active"
| "stays_open _ = True"

definition carrier_advances :: "LinkSnapshot list \<Rightarrow> bool" where
  "carrier_advances xs = sorted_wrt (\<le>) (map lp_CarrierChanges xs)"

text \<open>The part of a run from a state with an open window: its events are tagged and its carrier changes counted.\<close>

definition counts_window :: "Monitor \<Rightarrow> LinkSnapshot list \<Rightarrow> Monitor \<Rightarrow> bool" where
  "counts_window m seen m' \<longleftrightarrow>
     (\<exists>inside. mo_history m' = mo_history m @ inside \<and> list_all lk_SelfInflicted inside) \<and>
     (\<forall>b. mo_last m = Some b \<longrightarrow>
        mo_last m' = Some (last (b # seen)) \<and>
        (carrier_advances (b # seen) \<longrightarrow>
           mo_windowCarrierEvents m' = mo_windowCarrierEvents m + (lp_CarrierChanges (last (b # seen)) - lp_CarrierChanges b)))"

lemma tagged_self: "mo_cableTestWindow m \<Longrightarrow> list_all lk_SelfInflicted (found m a)"
  by (auto simp: found_def tagged_def self_inflict_def list_all_iff split: option.split)

lemma advances_last: "carrier_advances (b # xs) \<Longrightarrow> lp_CarrierChanges b \<le> lp_CarrierChanges (last (b # xs))"
  by (simp add: carrier_advances_def)

lemma counts_refl: "counts_window m [] m"
  by (auto simp: counts_window_def)

lemma counts_poll:
  assumes "mo_cableTestWindow m"
  shows "counts_window m [reading fs now m] (poll fs now m)"
  using assms tagged_self [OF assms] by (auto simp: counts_window_def poll_count carrier_advances_def)

lemma counts_trans:
  assumes "counts_window m xs m1" "counts_window m1 ys m2"
  shows "counts_window m (xs @ ys) m2"
proof -
  obtain h1 h2 where "mo_history m1 = mo_history m @ h1" "list_all lk_SelfInflicted h1"
    "mo_history m2 = mo_history m1 @ h2" "list_all lk_SelfInflicted h2"
    using assms by (auto simp: counts_window_def)
  then have "mo_history m2 = mo_history m @ (h1 @ h2) \<and> list_all lk_SelfInflicted (h1 @ h2)" by simp
  moreover have "mo_last m2 = Some (last (b # xs @ ys)) \<and>
      (carrier_advances (b # xs @ ys) \<longrightarrow>
         mo_windowCarrierEvents m2 = mo_windowCarrierEvents m + (lp_CarrierChanges (last (b # xs @ ys)) - lp_CarrierChanges b))"
    if b: "mo_last m = Some b" for b
  proof -
    let ?c = "last (b # xs)"
    have 1: "mo_last m1 = Some ?c" and n1: "carrier_advances (b # xs) \<Longrightarrow>
        mo_windowCarrierEvents m1 = mo_windowCarrierEvents m + (lp_CarrierChanges ?c - lp_CarrierChanges b)"
      using assms(1) b by (auto simp: counts_window_def)
    have 2: "mo_last m2 = Some (last (?c # ys))" and n2: "carrier_advances (?c # ys) \<Longrightarrow>
        mo_windowCarrierEvents m2 = mo_windowCarrierEvents m1 + (lp_CarrierChanges (last (?c # ys)) - lp_CarrierChanges ?c)"
      using assms(2) 1 by (auto simp: counts_window_def)
    have l: "last (?c # ys) = last (b # xs @ ys)" by (cases ys) auto
    have "carrier_advances (b # xs)" "carrier_advances (?c # ys)" if "carrier_advances (b # xs @ ys)"
      using that by (auto simp: carrier_advances_def sorted_wrt_append split: if_splits)
    with n1 n2 have "carrier_advances (b # xs @ ys) \<Longrightarrow> mo_windowCarrierEvents m2 = mo_windowCarrierEvents m
        + (lp_CarrierChanges ?c - lp_CarrierChanges b) + (lp_CarrierChanges (last (?c # ys)) - lp_CarrierChanges ?c)" by metis
    then show ?thesis using 2 by (simp add: l [symmetric] del: last.simps)
  qed
  ultimately show ?thesis by (auto simp: counts_window_def)
qed

lemma open_run:
  assumes "mo_cableTestWindow m" "list_all stays_open sts"
  shows "mo_cableTestWindow (snd (monitor_run sts m)) \<and> counts_window m (readings sts m) (snd (monitor_run sts m))"
  using assms
proof (induction sts arbitrary: m)
  case (Cons st sts)
  show ?case
  proof (cases st)
    case (Tick fs now)
    then show ?thesis
      using Cons.prems Cons.IH [of "poll fs now m"] counts_trans [OF counts_poll [OF Cons.prems(1), of fs now]]
      by (simp add: monitor_run_simps)
  next
    case (SetWindow active fs now)
    then show ?thesis
      using Cons.prems Cons.IH [of m] by (simp add: monitor_run_simps SetCableTestWindow_def)
  next
    case Consume
    have "counts_window m [] (snd (receive_event m))" by (simp add: counts_window_def)
    then show ?thesis
      using Consume Cons.prems Cons.IH [of "snd (receive_event m)"] counts_trans [of m "[]"] by (simp add: monitor_run_simps)
  qed
qed (simp add: counts_refl monitor_run_simps)

lemma close_window:
  assumes "mo_cableTestWindow m"
  shows "counts_window m [reading fs now m] (snd (SetCableTestWindow False fs now m))"
    "fst (SetCableTestWindow False fs now m) = mo_windowCarrierEvents (snd (SetCableTestWindow False fs now m))"
    "mo_current (snd (SetCableTestWindow False fs now m)) = reading fs now m"
  using assms counts_poll [OF assms, of fs now] by (simp_all add: SetCableTestWindow_def Let_def counts_window_def)

lemma open_window:
  assumes "\<not> mo_cableTestWindow m"
  shows "mo_windowCarrierEvents (snd (SetCableTestWindow True fs now m)) = 0"
    "mo_last (snd (SetCableTestWindow True fs now m)) = Some (mo_current (snd (SetCableTestWindow True fs now m)))"
  using assms by (simp_all add: SetCableTestWindow_def Let_def)

end
