(* ===== verification/Discovery.thy ===== *)
theory Discovery
  imports TestTools NetIP LinkMonitor
begin

section \<open>Discovery of the interface under test\<close>

text \<open>
  The classification of an interface from sysfs (src/internal/network/classify.go) and the selection of the
  interface that owns the local address (src/internal/network/discover.go). The file system is a parameter:
  the contents of files, the targets of symbolic links, and which entries and directories exist. The JSON decoder
  of the output of \<open>ip\<close> and the verb \<open>%q\<close> are the ones of the tool environment.
\<close>

subsection \<open>Classification\<close>

record sysfs_tree =
  sy_read :: file_read
  sy_readlink :: "string \<Rightarrow> string option"
  sy_evalSymlinks :: "string \<Rightarrow> string option"
  sy_exists :: "string \<Rightarrow> bool"
  sy_isDir :: "string \<Rightarrow> bool"
  sy_quote :: "string \<Rightarrow> string"

definition arphrdEther :: int where "arphrdEther = 1"
definition arphrdLoopback :: int where "arphrdLoopback = 772"
definition arphrdNone :: int where "arphrdNone = 65534"

definition virtualDevtypes :: "string list" where
  "virtualDevtypes = [''bridge'', ''vlan'', ''bond'', ''vxlan'', ''wireguard'', ''geneve'', ''macvlan'', ''macsec'']"

definition virtualNamePrefixes :: "string list" where
  "virtualNamePrefixes = [''veth'', ''br-'', ''docker'', ''tun'', ''tap'', ''wg'', ''virbr'', ''vmnet'', ''vnet'', ''zt'', ''tailscale'']"

record iface_class =
  cl_Loopback :: bool
  cl_Virtual :: bool
  cl_Wireless :: bool
  cl_USB :: bool
  cl_Driver :: string
  cl_Reason :: string

definition attr_path :: "string \<Rightarrow> string \<Rightarrow> string \<Rightarrow> string" where
  "attr_path dir name attr = Join (Join dir name) attr"

definition sysfsLinkType :: "sysfs_tree \<Rightarrow> string \<Rightarrow> string \<Rightarrow> string \<times> bool" where
  "sysfsLinkType sy dir name =
     (case sy_read sy (attr_path dir name ''type'') of
        None \<Rightarrow> ('''', False)
      | Some data \<Rightarrow>
          (case Atoi (TrimSpace data) of (n, ok) \<Rightarrow>
             if \<not> ok then ('''', False)
             else if n = arphrdEther then (''ether'', False)
             else if n = arphrdLoopback then (''loopback'', True)
             else if n = arphrdNone then (''none'', False)
             else (''arphrd '' @ show_int n, False)))"

definition readDriver :: "sysfs_tree \<Rightarrow> string \<Rightarrow> string \<Rightarrow> string" where
  "readDriver sy dir name =
     (case sy_readlink sy (attr_path dir name ''device/driver'') of None \<Rightarrow> '''' | Some target \<Rightarrow> Base target)"

definition deviceIsUSB :: "sysfs_tree \<Rightarrow> string \<Rightarrow> string \<Rightarrow> bool" where
  "deviceIsUSB sy dir name =
     (case sy_evalSymlinks sy (attr_path dir name ''device'') of None \<Rightarrow> False | Some resolved \<Rightarrow> contains resolved ''/usb'')"

definition hasDeviceEntry :: "sysfs_tree \<Rightarrow> string \<Rightarrow> string \<Rightarrow> bool" where
  "hasDeviceEntry sy dir name = sy_exists sy (attr_path dir name ''device'')"

definition hasWirelessDir :: "sysfs_tree \<Rightarrow> string \<Rightarrow> string \<Rightarrow> bool" where
  "hasWirelessDir sy dir name = sy_isDir sy (attr_path dir name ''wireless'')"

fun first_devtype :: "string list \<Rightarrow> string" where
  "first_devtype [] = ''''"
| "first_devtype (line # rest) =
     (let l = TrimSpace line in if has_prefix l ''DEVTYPE='' then drop (length ''DEVTYPE='') l else first_devtype rest)"

definition ueventDevtype :: "sysfs_tree \<Rightarrow> string \<Rightarrow> string \<Rightarrow> string" where
  "ueventDevtype sy dir name =
     (case sy_read sy (attr_path dir name ''uevent'') of
        None \<Rightarrow> ''''
      | Some data \<Rightarrow> first_devtype (split_at (CHR 0x0A) data))"

definition classify_iface :: "sysfs_tree \<Rightarrow> string \<Rightarrow> string \<Rightarrow> string \<Rightarrow> bool \<Rightarrow> iface_class" where
  "classify_iface sy dir name linkType loopback =
     (let cls = \<lparr> cl_Loopback = False, cl_Virtual = False, cl_Wireless = False, cl_USB = deviceIsUSB sy dir name,
                  cl_Driver = readDriver sy dir name, cl_Reason = '''' \<rparr>;
          devtype = ueventDevtype sy dir name
      in if linkType = ''loopback'' \<or> loopback then cls\<lparr> cl_Loopback := True, cl_Reason := ''loopback interface'' \<rparr>
         else if linkType \<noteq> '''' \<and> linkType \<noteq> ''ether''
         then cls\<lparr> cl_Virtual := True, cl_Reason := ''link type '' @ sy_quote sy linkType @ '' is not ethernet'' \<rparr>
         else if hasWirelessDir sy dir name \<or> devtype = ''wlan''
         then cls\<lparr> cl_Wireless := True, cl_Reason := ''wireless (802.11) interface'' \<rparr>
         else if \<not> hasDeviceEntry sy dir name
         then cls\<lparr> cl_Virtual := True, cl_Reason := ''no device entry in sysfs (not backed by hardware)'' \<rparr>
         else if devtype \<in> set virtualDevtypes
         then cls\<lparr> cl_Virtual := True, cl_Reason := ''sysfs uevent DEVTYPE='' @ devtype \<rparr>
         else case find (has_prefix name) virtualNamePrefixes of
                None \<Rightarrow> cls
              | Some p \<Rightarrow> cls\<lparr> cl_Virtual := True,
                             cl_Reason := ''interface name matches virtual-device pattern '' @ sy_quote sy p \<rparr>)"

definition sysfs_root :: "string \<Rightarrow> string" where
  "sysfs_root sysfsRoot = (if sysfsRoot = '''' then DefaultSysfsRoot else sysfsRoot)"

definition Classify_interface :: "sysfs_tree \<Rightarrow> string \<Rightarrow> string \<Rightarrow> iface_class" where
  "Classify_interface sy sysfsRoot name =
     (case sysfsLinkType sy (sysfs_root sysfsRoot) name of
        (linkType, loopback) \<Rightarrow> classify_iface sy (sysfs_root sysfsRoot) name linkType loopback)"

subsection \<open>Selection\<close>

definition ipTimeout :: duration where "ipTimeout = 10 * second"

datatype discover_error =
    IPCommandError op_err
  | IPCommandExit int string
  | ErrMalformedIPOutput iplink_error
  | ErrIPNotAssigned string
  | ErrInterfaceNotFound string
  | ErrNotPhysical string string
  | ErrInterfaceDown string string
  | NoIPv4Address string
  | ManyIPv4Addresses string nat

record DiscoverOptions =
  do_Interface :: string
  do_AllowVirtual :: bool
  do_SysfsRoot :: string

record Iface =
  if_Name :: string
  if_Index :: int
  if_MTU :: int
  if_Operstate :: string
  if_MAC :: string
  if_PrefixLen :: int
  if_Class :: iface_class

definition listLinks :: "tool_env \<Rightarrow> world \<Rightarrow> (discover_error + IPLink list) \<times> world" where
  "listLinks te =
     bindS (run_command te (command ''ip'' [''-j'', ''addr'', ''show''] ipTimeout ''ip-addr-show'')) (\<lambda>r. case r of
       Inl e \<Rightarrow> ret (Inl (IPCommandError (wrap_err ''run ip -j addr show: '' e)))
     | Inr res \<Rightarrow>
         if cr_ExitCode res \<noteq> 0 then ret (Inl (IPCommandExit (cr_ExitCode res) (TrimSpace (cr_Stderr res))))
         else case ParseIPAddr (te_link_json te) (cr_Stdout res) of
                Inl e \<Rightarrow> ret (Inl (ErrMalformedIPOutput e))
              | Inr links \<Rightarrow> ret (Inr links))"

definition inet_assignments :: "IPLink \<Rightarrow> (Addr \<times> int) list" where
  "inet_assignments l =
     List.map_filter (\<lambda>ai. if ai_Family ai \<noteq> ''inet'' then None
       else map_option (\<lambda>a. (a, ai_Prefixlen ai)) (ParseAddr (ai_Local ai))) (li_AddrInfo l)"

definition ownsIP :: "IPLink \<Rightarrow> Addr \<Rightarrow> int option" where
  "ownsIP l ip = map_option snd (find (\<lambda>(a, _). a = ip) (inet_assignments l))"

text \<open>\<open>Addr.Prefix\<close> followed by \<open>Prefix.Contains\<close>: the leading bits agree, the families too, and no zone.\<close>

definition byte_bits :: "u8 \<Rightarrow> bool list" where
  "byte_bits b = map (\<lambda>i. bit b (7 - i)) [0..<8]"

definition leading_bits :: "int \<Rightarrow> bytes \<Rightarrow> bool list" where
  "leading_bits n bs = take (nat n) (concat (map byte_bits bs))"

definition prefix_holds :: "Addr \<Rightarrow> int \<Rightarrow> Addr \<Rightarrow> bool" where
  "prefix_holds a n ip =
     (case (a, ip) of
        (Addr4 x, Addr4 y) \<Rightarrow> 0 \<le> n \<and> n \<le> 32 \<and> leading_bits n x = leading_bits n y
      | (Addr6 x _, Addr6 y z) \<Rightarrow> 0 \<le> n \<and> n \<le> 128 \<and> z = '''' \<and> leading_bits n x = leading_bits n y
      | _ \<Rightarrow> False)"

definition prefixContains :: "IPLink \<Rightarrow> Addr \<Rightarrow> int option" where
  "prefixContains l ip = map_option snd (find (\<lambda>(a, n). prefix_holds a n ip) (inet_assignments l))"

definition isLoopbackLink :: "IPLink \<Rightarrow> bool" where
  "isLoopbackLink l \<longleftrightarrow> li_LinkType l = ''loopback'' \<or> ''LOOPBACK'' \<in> set (li_Flags l)"

definition show_assignment :: "IPAddrInfo \<Rightarrow> string" where
  "show_assignment ai = ai_Local ai @ ''/'' @ show_int (ai_Prefixlen ai)"

definition inetAddrs :: "IPLink \<Rightarrow> string list" where
  "inetAddrs l = map show_assignment (filter (\<lambda>ai. ai_Family ai = ''inet'') (li_AddrInfo l))"

definition subnet_hint :: "Addr \<Rightarrow> IPLink \<Rightarrow> IPAddrInfo \<Rightarrow> string list" where
  "subnet_hint ip l ai =
     (case ParseAddr (ai_Local ai) of
        None \<Rightarrow> []
      | Some a \<Rightarrow>
          if prefix_holds a (ai_Prefixlen ai) ip
          then [li_Ifname l @ '' has '' @ show_assignment ai @ '' in the same subnet''] else [])"

definition inet_infos :: "IPLink list \<Rightarrow> (IPLink \<times> IPAddrInfo) list" where
  "inet_infos links = concat (map (\<lambda>l. map (Pair l) (filter (\<lambda>ai. ai_Family ai = ''inet'') (li_AddrInfo l))) links)"

definition notAssignedError :: "IPLink list \<Rightarrow> Addr \<Rightarrow> discover_error" where
  "notAssignedError links ip =
     (let hints = concat (map (\<lambda>(l, ai). subnet_hint ip l ai) (inet_infos links));
          assigned = map (\<lambda>(l, ai). show_assignment ai @ '' on '' @ li_Ifname l) (inet_infos links)
      in ErrIPNotAssigned (Addr_String ip @ '': IP address is not assigned to any interface ('' @
           (if hints \<noteq> [] then join ''; '' hints @ '' '' @ em_dash @ '' did you mean that?''
            else if assigned \<noteq> [] then ''assigned IPv4 addresses: '' @ join '', '' assigned
            else ''no IPv4 addresses found on this machine'') @ '')''))"

definition selectByIP :: "IPLink list \<Rightarrow> Addr \<Rightarrow> bool \<Rightarrow> discover_error + IPLink \<times> int" where
  "selectByIP links ip allowVirtual =
     (case find (\<lambda>l. ownsIP l ip \<noteq> None) links of
        Some l \<Rightarrow> Inr (l, the (ownsIP l ip))
      | None \<Rightarrow>
          (case (if allowVirtual then find (\<lambda>l. isLoopbackLink l \<and> prefixContains l ip \<noteq> None) links else None) of
             Some l \<Rightarrow> Inr (l, the (prefixContains l ip))
           | None \<Rightarrow> Inl (notAssignedError links ip)))"

definition named_link :: "string \<Rightarrow> IPLink list \<Rightarrow> IPLink option" where
  "named_link name links = find (\<lambda>l. li_Ifname l = name \<or> name \<in> set (li_Altnames l)) links"

definition selectByName :: "IPLink list \<Rightarrow> string \<Rightarrow> Addr \<Rightarrow> bool \<Rightarrow> discover_error + IPLink \<times> int" where
  "selectByName links name ip allowVirtual =
     (case named_link name links of
        None \<Rightarrow> Inl (ErrInterfaceNotFound name)
      | Some l \<Rightarrow>
          (case ownsIP l ip of
             Some plen \<Rightarrow> Inr (l, plen)
           | None \<Rightarrow>
               (case (if allowVirtual \<and> isLoopbackLink l then prefixContains l ip else None) of
                  Some plen \<Rightarrow> Inr (l, plen)
                | None \<Rightarrow>
                    Inl (ErrIPNotAssigned (Addr_String ip @ '': IP address is not assigned to interface '' @ li_Ifname l @ '' ('' @
                      (if inetAddrs l \<noteq> [] then ''it has '' @ join '', '' (inetAddrs l) else ''it has no IPv4 addresses'') @ '')'')))))"

definition link_class :: "sysfs_tree \<Rightarrow> string \<Rightarrow> IPLink \<Rightarrow> iface_class" where
  "link_class sy sysfsRoot link =
     (case (if li_LinkType link = '''' then sysfsLinkType sy (sysfs_root sysfsRoot) (li_Ifname link) else (li_LinkType link, False)) of
        (linkType, sysLoop) \<Rightarrow>
          classify_iface sy (sysfs_root sysfsRoot) (li_Ifname link) linkType (isLoopbackLink link \<or> sysLoop))"

definition usable_iface :: "sysfs_tree \<Rightarrow> DiscoverOptions \<Rightarrow> IPLink \<times> int \<Rightarrow> discover_error + Iface" where
  "usable_iface sy opts = (\<lambda>(link, prefixLen).
     (let cls = link_class sy (do_SysfsRoot opts) link
      in if (cl_Loopback cls \<or> cl_Virtual cls \<or> cl_Wireless cls) \<and> \<not> do_AllowVirtual opts
         then Inl (ErrNotPhysical (li_Ifname link) (cl_Reason cls))
         else if li_Operstate link = ''down'' \<or> li_Operstate link = ''lowerlayerdown''
         then Inl (ErrInterfaceDown (li_Ifname link) (li_Operstate link))
         else Inr \<lparr> if_Name = li_Ifname link, if_Index = li_Ifindex link, if_MTU = li_MTU link, if_Operstate = li_Operstate link,
                    if_MAC = li_Address link, if_PrefixLen = prefixLen, if_Class = cls \<rparr>))"

definition Discover :: "tool_env \<Rightarrow> sysfs_tree \<Rightarrow> Addr \<Rightarrow> DiscoverOptions \<Rightarrow> world \<Rightarrow> (discover_error + Iface) \<times> world" where
  "Discover te sy localIP opts =
     bindE (listLinks te) (\<lambda>links. ret
       (case (if do_Interface opts \<noteq> '''' then selectByName links (do_Interface opts) localIP (do_AllowVirtual opts)
              else selectByIP links localIP (do_AllowVirtual opts)) of
          Inl e \<Rightarrow> Inl e
        | Inr sel \<Rightarrow> usable_iface sy opts sel))"

definition InferInterfaceIPv4 :: "tool_env \<Rightarrow> string \<Rightarrow> world \<Rightarrow> (discover_error + Addr) \<times> world" where
  "InferInterfaceIPv4 te name =
     bindE (listLinks te) (\<lambda>links. ret
       (case named_link name links of
          None \<Rightarrow> Inl (ErrInterfaceNotFound name)
        | Some l \<Rightarrow>
            (case map (Unmap \<circ> fst) (inet_assignments l) of
               [] \<Rightarrow> Inl (NoIPv4Address name)
             | [a] \<Rightarrow> Inr a
             | as \<Rightarrow> Inl (ManyIPv4Addresses name (length as)))))"

subsection \<open>What discovery guarantees\<close>

definition effective_type :: "sysfs_tree \<Rightarrow> string \<Rightarrow> IPLink \<Rightarrow> string" where
  "effective_type sy dir l = (if li_LinkType l = '''' then fst (sysfsLinkType sy dir (li_Ifname l)) else li_LinkType l)"

definition physical_nic :: "sysfs_tree \<Rightarrow> string \<Rightarrow> IPLink \<Rightarrow> bool" where
  "physical_nic sy dir l \<longleftrightarrow>
     \<not> isLoopbackLink l \<and> effective_type sy dir l \<in> set ['''', ''ether''] \<and>
     \<not> hasWirelessDir sy dir (li_Ifname l) \<and> hasDeviceEntry sy dir (li_Ifname l) \<and>
     ueventDevtype sy dir (li_Ifname l) \<notin> set (''wlan'' # virtualDevtypes) \<and>
     list_all (\<lambda>p. \<not> has_prefix (li_Ifname l) p) virtualNamePrefixes"

definition link_up :: "IPLink \<Rightarrow> bool" where
  "link_up l \<longleftrightarrow> li_Operstate l \<noteq> ''down'' \<and> li_Operstate l \<noteq> ''lowerlayerdown''"

definition iface_of :: "sysfs_tree \<Rightarrow> string \<Rightarrow> IPLink \<Rightarrow> int \<Rightarrow> Iface" where
  "iface_of sy sysfsRoot l plen =
     \<lparr> if_Name = li_Ifname l, if_Index = li_Ifindex l, if_MTU = li_MTU l, if_Operstate = li_Operstate l,
       if_MAC = li_Address l, if_PrefixLen = plen, if_Class = link_class sy sysfsRoot l \<rparr>"

lemma sysfs_loopback: "sysfsLinkType sy dir name = (t, loop) \<Longrightarrow> loop \<longleftrightarrow> t = ''loopback''"
  by (auto simp: sysfsLinkType_def split: option.splits prod.splits if_splits)

lemma class_physical:
  "(cl_Loopback (classify_iface sy dir name t loop) \<or> cl_Virtual (classify_iface sy dir name t loop) \<or>
      cl_Wireless (classify_iface sy dir name t loop)) \<longleftrightarrow>
     \<not> (\<not> loop \<and> t \<in> set ['''', ''ether''] \<and> \<not> hasWirelessDir sy dir name \<and> hasDeviceEntry sy dir name \<and>
        ueventDevtype sy dir name \<notin> set (''wlan'' # virtualDevtypes) \<and> list_all (\<lambda>p. \<not> has_prefix name p) virtualNamePrefixes)"
  by (auto simp: classify_iface_def Let_def list_all_iff find_None_iff find_Some_iff split: option.splits)

lemma link_class_physical:
  "(cl_Loopback (link_class sy sysfsRoot l) \<or> cl_Virtual (link_class sy sysfsRoot l) \<or> cl_Wireless (link_class sy sysfsRoot l))
   \<longleftrightarrow> \<not> physical_nic sy (sysfs_root sysfsRoot) l"
proof -
  obtain t loop where s: "sysfsLinkType sy (sysfs_root sysfsRoot) (li_Ifname l) = (t, loop)" by fastforce
  show ?thesis
    using sysfs_loopback [OF s]
    by (auto simp: link_class_def physical_nic_def effective_type_def class_physical s)
qed

lemma usable_iface_iff:
  "usable_iface sy opts (l, plen) = Inr iface \<longleftrightarrow>
     (do_AllowVirtual opts \<or> physical_nic sy (sysfs_root (do_SysfsRoot opts)) l) \<and> link_up l \<and>
     iface = iface_of sy (do_SysfsRoot opts) l plen"
  unfolding usable_iface_def split_beta Let_def fst_conv snd_conv link_class_physical
  by (auto simp: link_up_def iface_of_def)

lemma find_in: "find P xs = Some x \<Longrightarrow> x \<in> set xs \<and> P x"
  by (auto simp: find_Some_iff)

lemma owns_assigned: "ownsIP l ip = Some plen \<Longrightarrow> (ip, plen) \<in> set (inet_assignments l)"
  by (auto simp: ownsIP_def dest!: find_in)

lemma contains_assigned:
  "prefixContains l ip = Some plen \<Longrightarrow> \<exists>a. (a, plen) \<in> set (inet_assignments l) \<and> prefix_holds a plen ip"
  by (auto simp: prefixContains_def dest!: find_in)

definition holds_address :: "bool \<Rightarrow> IPLink \<Rightarrow> Addr \<Rightarrow> int \<Rightarrow> bool" where
  "holds_address allowVirtual l ip plen \<longleftrightarrow>
     (ip, plen) \<in> set (inet_assignments l) \<or>
     allowVirtual \<and> isLoopbackLink l \<and> (\<exists>a. (a, plen) \<in> set (inet_assignments l) \<and> prefix_holds a plen ip)"

lemma selectByIP_sound:
  assumes "selectByIP links ip allowVirtual = Inr (l, plen)"
  shows "l \<in> set links \<and> holds_address allowVirtual l ip plen"
proof (cases "find (\<lambda>l. ownsIP l ip \<noteq> None) links")
  case None
  with assms obtain "allowVirtual" "find (\<lambda>l. isLoopbackLink l \<and> prefixContains l ip \<noteq> None) links = Some l"
    "plen = the (prefixContains l ip)"
    by (auto simp: selectByIP_def split: option.splits if_splits)
  then show ?thesis
    using find_in [of "\<lambda>l. isLoopbackLink l \<and> prefixContains l ip \<noteq> None" links l] contains_assigned [of l ip plen]
    by (auto simp: holds_address_def)
next
  case (Some k)
  then show ?thesis
    using assms find_in [OF Some] owns_assigned [of l ip plen] by (auto simp: selectByIP_def holds_address_def)
qed

lemma selectByName_sound:
  assumes "selectByName links name ip allowVirtual = Inr (l, plen)"
  shows "l \<in> set links \<and> (li_Ifname l = name \<or> name \<in> set (li_Altnames l)) \<and> holds_address allowVirtual l ip plen"
proof -
  from assms obtain k where k: "named_link name links = Some k" by (auto simp: selectByName_def split: option.splits)
  with assms have "l = k" "ownsIP l ip = Some plen \<or> allowVirtual \<and> isLoopbackLink l \<and> prefixContains l ip = Some plen"
    by (auto simp: selectByName_def split: option.splits if_splits)
  then show ?thesis
    using find_in [OF k [unfolded named_link_def]] owns_assigned contains_assigned by (auto simp: holds_address_def)
qed

lemma Discover_links:
  "fst (Discover te sy ip opts w) = Inr iface \<longleftrightarrow>
     (\<exists>links sel. fst (listLinks te w) = Inr links \<and>
        (if do_Interface opts \<noteq> '''' then selectByName links (do_Interface opts) ip (do_AllowVirtual opts)
         else selectByIP links ip (do_AllowVirtual opts)) = Inr sel \<and> usable_iface sy opts sel = Inr iface)"
  by (auto simp: Discover_def bindE_def bindS_def ret_def split: sum.splits prod.splits)

text \<open>
  C23. Discovery tests the right interface: when it returns one, a link of the listing that \<open>ip\<close> printed carries
  the local address (an exact assignment, or, with virtual interfaces allowed, a prefix of a loopback link that
  contains it), has the name the operator gave, if any, is not down, and, unless virtual interfaces are allowed,
  is a physical Ethernet interface: no loopback, no other link type, not wireless, backed by a device, not a
  software device by its type or name. With the default options the converse holds too: the interface is
  accepted exactly when the first link with that address is physical and up.
\<close>

theorem discovery_exact:
  "(fst (Discover te sy ip opts w) = Inr iface \<longrightarrow>
      (\<exists>links l. fst (listLinks te w) = Inr links \<and> l \<in> set links \<and>
        iface = iface_of sy (do_SysfsRoot opts) l (if_PrefixLen iface) \<and>
        (do_Interface opts \<noteq> '''' \<longrightarrow> li_Ifname l = do_Interface opts \<or> do_Interface opts \<in> set (li_Altnames l)) \<and>
        holds_address (do_AllowVirtual opts) l ip (if_PrefixLen iface) \<and> link_up l \<and>
        (do_AllowVirtual opts \<or> physical_nic sy (sysfs_root (do_SysfsRoot opts)) l))) \<and>
   (fst (listLinks te w) = Inr links \<and> do_Interface opts = '''' \<and> \<not> do_AllowVirtual opts \<longrightarrow>
      (fst (Discover te sy ip opts w) = Inr iface \<longleftrightarrow>
       (\<exists>l. find (\<lambda>l. ownsIP l ip \<noteq> None) links = Some l \<and> physical_nic sy (sysfs_root (do_SysfsRoot opts)) l \<and> link_up l \<and>
          iface = iface_of sy (do_SysfsRoot opts) l (the (ownsIP l ip)))))"
proof (intro conjI impI)
  assume "fst (Discover te sy ip opts w) = Inr iface"
  then obtain links l plen where *: "fst (listLinks te w) = Inr links" "usable_iface sy opts (l, plen) = Inr iface"
    "(if do_Interface opts \<noteq> '''' then selectByName links (do_Interface opts) ip (do_AllowVirtual opts)
      else selectByIP links ip (do_AllowVirtual opts)) = Inr (l, plen)"
    by (auto simp: Discover_links)
  moreover from *(3) have "l \<in> set links" "holds_address (do_AllowVirtual opts) l ip plen"
    "do_Interface opts \<noteq> '''' \<longrightarrow> li_Ifname l = do_Interface opts \<or> do_Interface opts \<in> set (li_Altnames l)"
    using selectByName_sound selectByIP_sound by (auto split: if_splits)
  ultimately show "\<exists>links l. fst (listLinks te w) = Inr links \<and> l \<in> set links \<and>
        iface = iface_of sy (do_SysfsRoot opts) l (if_PrefixLen iface) \<and>
        (do_Interface opts \<noteq> '''' \<longrightarrow> li_Ifname l = do_Interface opts \<or> do_Interface opts \<in> set (li_Altnames l)) \<and>
        holds_address (do_AllowVirtual opts) l ip (if_PrefixLen iface) \<and> link_up l \<and>
        (do_AllowVirtual opts \<or> physical_nic sy (sysfs_root (do_SysfsRoot opts)) l)"
    unfolding usable_iface_iff by (intro exI [of _ links] exI [of _ l]) (simp add: iface_of_def)
next
  assume "fst (listLinks te w) = Inr links \<and> do_Interface opts = '''' \<and> \<not> do_AllowVirtual opts"
  then show "fst (Discover te sy ip opts w) = Inr iface \<longleftrightarrow>
      (\<exists>l. find (\<lambda>l. ownsIP l ip \<noteq> None) links = Some l \<and> physical_nic sy (sysfs_root (do_SysfsRoot opts)) l \<and> link_up l \<and>
         iface = iface_of sy (do_SysfsRoot opts) l (the (ownsIP l ip)))"
    by (auto simp: Discover_links selectByIP_def usable_iface_iff split: option.splits)
qed

text \<open>The address inferred from an interface is its only one.\<close>

lemma inferred_address_unique:
  assumes "fst (InferInterfaceIPv4 te name w) = Inr a"
  shows "\<exists>links l ip n. fst (listLinks te w) = Inr links \<and> named_link name links = Some l \<and>
           inet_assignments l = [(ip, n)] \<and> a = Unmap ip"
  using assms by (auto simp: InferInterfaceIPv4_def bindE_def bindS_def ret_def
      split: sum.splits prod.splits option.splits list.splits)

text \<open>A machine with one Ethernet interface: its listing, its sysfs entry, and an environment that runs \<open>ip\<close>.\<close>

definition wired_link :: IPLink where
  "wired_link = \<lparr> li_Ifindex = 2, li_Ifname = ''eth0'', li_Flags = [], li_MTU = 1500, li_Operstate = ''UP'', li_LinkType = ''ether'',
     li_Address = '''', li_Altnames = [], li_AddrInfo = [\<lparr> ai_Family = ''inet'', ai_Local = ''192.168.10.1'', ai_Prefixlen = 24,
       ai_Scope = ''global'', ai_Label = '''', ai_Dynamic = False \<rparr>], li_Stats64 = None \<rparr>"

definition wired_sysfs :: sysfs_tree where
  "wired_sysfs = \<lparr> sy_read = \<lambda>_. None, sy_readlink = \<lambda>_. Some ''../../bus/pci/drivers/e1000e'', sy_evalSymlinks = \<lambda>_. None,
     sy_exists = \<lambda>p. p = ''/sys/class/net/eth0/device'', sy_isDir = \<lambda>_. False, sy_quote = \<lambda>s. s \<rparr>"

definition wired_codec :: op_codec where
  "wired_codec = \<lparr> oc_Counter = \<lambda>_. Inl [], oc_Link = \<lambda>_. Inl [], oc_Ping = \<lambda>_. Inl [], oc_Start = \<lambda>_. Inl [], oc_Stop = \<lambda>_. Inl [],
     oc_TCP = \<lambda>_. Inl [], oc_UDP = \<lambda>_. Inl [], oc_Caps = \<lambda>_. Inl [], oc_Window = \<lambda>_. Inl [], oc_Quote = \<lambda>s. s \<rparr>"

definition wired_env :: tool_env where
  "wired_env = \<lparr> te_run = \<lambda>_ _. Inr \<lparr> cr_Stdout = '''', cr_Stderr = '''', cr_ExitCode = 0 \<rparr>,
     te_start = \<lambda>_ _. None, te_register = \<lambda>_. True, te_ready = \<lambda>_. Banner, te_stop = \<lambda>_. ExitedInGrace, te_file = \<lambda>_ _. None,
     te_now = \<lambda>_. 0, te_ctxErr = \<lambda>_. None,
     te_call = \<lambda>_ _ _. Inl (new_err ''no peer''), te_budgetExpired = \<lambda>_. False, te_gap = \<lambda>_. None, te_window = \<lambda>_. 0,
     te_events = \<lambda>_. [], te_codec = wired_codec, te_iperf_json = \<lambda>_. Inl ''no output'', te_link_json = \<lambda>_. Inr [wired_link],
     te_conv = \<lparr> oob_i64 = \<lambda>_. 0, oob_u64 = \<lambda>_. 0 \<rparr> \<rparr>"

definition wired_world :: world where
  "wired_world = \<lparr> w_trace = [], w_seq = [], w_stopped = [] \<rparr>"

definition default_options :: DiscoverOptions where
  "default_options = \<lparr> do_Interface = '''', do_AllowVirtual = False, do_SysfsRoot = '''' \<rparr>"

lemma wired_links: "fst (listLinks wired_env wired_world) = Inr [lower_state wired_link]"
  by (simp add: listLinks_def bindS_def run_command_def ask_def ret_def wired_env_def ParseIPAddr_def)

lemma wired_owner:
  "find (\<lambda>l. ownsIP l (Addr4 [192, 168, 10, 1]) \<noteq> None) [lower_state wired_link] = Some (lower_state wired_link)"
  by code_simp

lemma wired_physical:
  "physical_nic wired_sysfs (sysfs_root (do_SysfsRoot default_options)) (lower_state wired_link)"
  "link_up (lower_state wired_link)" "do_Interface default_options = ''''" "\<not> do_AllowVirtual default_options"
  by code_simp+

theorem discovery_exact_witness:
  "fst (Discover wired_env wired_sysfs (Addr4 [192, 168, 10, 1]) default_options wired_world)
   = Inr (iface_of wired_sysfs '''' (lower_state wired_link) (the (ownsIP (lower_state wired_link) (Addr4 [192, 168, 10, 1]))))"
  using discovery_exact [of wired_env wired_sysfs "Addr4 [192, 168, 10, 1]" default_options wired_world _ "[lower_state wired_link]"]
    wired_links wired_owner wired_physical by (auto simp: default_options_def)

end
