(* ===== verification/AppReport.thy ===== *)
theory AppReport
  imports Discovery Verdict Session Plans Rendering
begin

section \<open>The report of a run and the exit code\<close>

text \<open>
  The assembly and evaluation of the report of a run (src/internal/app/report.go), the end of a run on both
  machines (src/internal/app/finish.go) and the exit codes (src/internal/app/exit.go). The bodies of the rendered
  files are symbolic: a file holds the rendering of a report in one of the four formats, or what a failed write
  left of it. The host name, the index of the raw files and the outcome of each write are parameters.
\<close>

subsection \<open>Exit codes\<close>

type_synonym ExitCode = int

definition ExitOK :: ExitCode where [simp]: "ExitOK = 0"
definition ExitWarning :: ExitCode where [simp]: "ExitWarning = 1"
definition ExitPoorFailed :: ExitCode where [simp]: "ExitPoorFailed = 2"
definition ExitInconclusive :: ExitCode where [simp]: "ExitInconclusive = 3"
definition ExitConfig :: ExitCode where [simp]: "ExitConfig = 4"
definition ExitPeer :: ExitCode where [simp]: "ExitPeer = 5"
definition ExitInterrupt :: ExitCode where [simp]: "ExitInterrupt = 6"
definition ExitInternal :: ExitCode where [simp]: "ExitInternal = 7"

text \<open>\<open>None\<close> stands for a class outside the vocabulary.\<close>

fun ExitCodeFor :: "HealthClass option \<Rightarrow> ExitCode" where
  "ExitCodeFor (Some HealthExcellent) = ExitOK"
| "ExitCodeFor (Some HealthGood) = ExitOK"
| "ExitCodeFor (Some HealthWarning) = ExitWarning"
| "ExitCodeFor (Some HealthPoor) = ExitPoorFailed"
| "ExitCodeFor (Some HealthFailed) = ExitPoorFailed"
| "ExitCodeFor (Some HealthInconclusive) = ExitInconclusive"
| "ExitCodeFor None = ExitInternal"

text \<open>An error of a run: the sentinels \<open>errors.Is\<close> finds in it, and its text.\<close>

datatype run_sentinel = IsLocalAbort | IsCanceled | IsTokenRejected | IsHandshakeFailed | IsReportWrite

record run_error =
  re_Is :: "run_sentinel list"
  re_Text :: string

definition exitCodeForRunError :: "run_error \<Rightarrow> ExitCode" where
  "exitCodeForRunError err =
     (let is = (\<lambda>x. x \<in> set (re_Is err))
      in if is IsLocalAbort \<or> is IsCanceled then ExitInterrupt
         else if is IsTokenRejected then ExitConfig
         else if is IsHandshakeFailed then ExitConfig
         else if is IsReportWrite then ExitInternal
         else ExitPeer)"

definition exitCodeForCoordinatorRunError :: "run_error \<Rightarrow> ExitCode" where
  "exitCodeForCoordinatorRunError err =
     (let code = exitCodeForRunError err
      in if code = ExitConfig \<and> IsHandshakeFailed \<in> set (re_Is err) then ExitPeer else code)"

subsection \<open>Assembling the report\<close>

record preflightInfo =
  pf_Iface :: Iface
  pf_Link :: LinkSettings
  pf_LinkObservations :: "string list"
  pf_Caps :: Capabilities
  pf_LocalIperfCaps :: Iperf3Caps
  pf_ToolVersions :: "string gomap"
  pf_Warnings :: "string list"
  pf_SudoOK :: bool

record run_app =
  ra_cfg :: RunConfig
  ra_controlPort :: u16
  ra_version :: string
  ra_hostname :: string
  ra_testID :: string
  ra_watch :: link_watch

definition SchemaVersion :: string where "SchemaVersion = ''1.3.0''"

definition echoConfig :: "RunConfig \<Rightarrow> u16 \<Rightarrow> string \<Rightarrow> ConfigEcho" where
  "echoConfig cfg controlPort ifName =
     \<lparr> ec_Role = rc_Role cfg, ec_LocalIP = Addr_String (Unmap (rc_LocalIP cfg)), ec_PeerIP = Addr_String (Unmap (rc_PeerIP cfg)),
       ec_Interface = ifName, ec_Mode = rc_Mode cfg, ec_ControlPort = controlPort, ec_IperfPort = rc_IperfPort cfg,
       ec_TCPDuration = rc_TCPDuration cfg, ec_UDPDuration = rc_UDPDuration cfg, ec_UDPRate = rc_UDPRate cfg,
       ec_ParallelStreams = rc_ParallelStreams cfg, ec_PingCount = rc_PingCount cfg, ec_PingInterval = rc_PingInterval cfg,
       ec_TCPRepeats = rc_TCPRepeats cfg, ec_SoakDuration = rc_SoakDuration cfg, ec_SoakLoad = rc_SoakLoad cfg,
       ec_MonitorInterval = rc_MonitorInterval cfg, ec_CableTest = rc_CableTest cfg, ec_CableTestTDR = rc_CableTestTDR cfg,
       ec_Output = rc_OutputDir cfg, ec_Verbose = rc_Verbose cfg, ec_NonInteractive = rc_NonInteractive cfg, ec_NoSudo = rc_NoSudo cfg,
       ec_NoReportTransfer = rc_NoReportTransfer cfg, ec_AllowVirtualInterface = rc_AllowVirtualInterface cfg,
       ec_TokenGenerated = rc_TokenGenerated cfg \<rparr>"

definition add_unseen :: "MonitoringEvent \<Rightarrow> MonitoringEvent list \<Rightarrow> MonitoringEvent list" where
  "add_unseen ev out = (if ev \<in> set out then out else out @ [ev])"

definition mergeMonitoringEvents :: "MonitoringEvent list \<Rightarrow> MonitoringEvent list \<Rightarrow> MonitoringEvent list" where
  "mergeMonitoringEvents retained monitored = fold add_unseen monitored (fold add_unseen retained [])"

definition peerReportFromCaps :: "Capabilities \<Rightarrow> PeerReport" where
  "peerReportFromCaps caps =
     \<lparr> pr_Hostname = '''', pr_Kernel = ca_Kernel caps, pr_OS = ca_OS caps,
       pr_NIC = \<lparr> nic_Name = ni_Name (ca_NIC caps), nic_Driver = ni_Driver (ca_NIC caps), nic_SpeedMbps = ni_SpeedMbps (ca_NIC caps),
         nic_Duplex = ni_Duplex (ca_NIC caps), nic_MTU = ni_MTU (ca_NIC caps), nic_MAC = ni_MAC (ca_NIC caps), nic_USB = ni_USB (ca_NIC caps) \<rparr>,
       pr_ToolVersions =
         (if ic_Version (ca_Iperf3 caps) \<noteq> '''' then [(''iperf3'', ic_Version (ca_Iperf3 caps))] else [])
         @ (if ca_EthtoolVersion caps \<noteq> '''' then [(''ethtool'', ca_EthtoolVersion caps)] else [])
         @ (if ca_PingVariant caps \<noteq> '''' then [(''ping'', ca_PingVariant caps)] else []) \<rparr>"

definition zero_capabilities :: Capabilities where
  "zero_capabilities =
     \<lparr> ca_CablecheckVersion = '''', ca_OS = '''', ca_Kernel = '''',
       ca_Iperf3 = \<lparr> ic_Version = '''', ic_JSON = False, ic_Reverse = False, ic_Bidir = False, ic_GetServerOutput = False,
         ic_UDP = False, ic_OneOff = False \<rparr>,
       ca_EthtoolVersion = '''', ca_PingVariant = '''',
       ca_NIC = \<lparr> ni_Name = '''', ni_Driver = '''', ni_SpeedMbps = 0, ni_Duplex = '''', ni_MTU = 0, ni_MAC = '''', ni_USB = False \<rparr>,
       ca_SudoAvailable = False, ca_CableTestSupported = False, ca_AcceptReportTransfer = False \<rparr>"

definition local_machine :: "run_app \<Rightarrow> preflightInfo \<Rightarrow> PeerReport" where
  "local_machine a pf =
     \<lparr> pr_Hostname = ra_hostname a, pr_Kernel = ca_Kernel (pf_Caps pf), pr_OS = ca_OS (pf_Caps pf),
       pr_NIC = \<lparr> nic_Name = if_Name (pf_Iface pf), nic_Driver = cl_Driver (if_Class (pf_Iface pf)),
         nic_SpeedMbps = ls_SpeedMbps (pf_Link pf), nic_Duplex = ls_Duplex (pf_Link pf), nic_MTU = if_MTU (pf_Iface pf),
         nic_MAC = if_MAC (pf_Iface pf), nic_USB = cl_USB (if_Class (pf_Iface pf)) \<rparr>,
       pr_ToolVersions = pf_ToolVersions pf \<rparr>"

definition with_link_speed :: "LinkSettingsResult option \<Rightarrow> PeerReport \<Rightarrow> PeerReport" where
  "with_link_speed lr remote =
     (case lr of
        None \<Rightarrow> remote
      | Some l \<Rightarrow>
          if nic_SpeedMbps (pr_NIC remote) = 0
          then remote\<lparr> pr_NIC := (pr_NIC remote)\<lparr> nic_SpeedMbps := ls_SpeedMbps (lr_Settings l), nic_Duplex := ls_Duplex (lr_Settings l) \<rparr> \<rparr>
          else remote)"

definition appendPrefixed :: "string \<Rightarrow> string list \<Rightarrow> string list" where
  "appendPrefixed pre extra = map (\<lambda>s. pre @ s) extra"

text \<open>The settings of the link and the observations on it: those of the plan, else those of the preflight.\<close>

definition pc1_link :: "preflightInfo \<Rightarrow> SessionResults \<Rightarrow> LinkSettings option \<times> string list" where
  "pc1_link pf results =
     (case map_of (sx_Link results) RolePC1Key of
        Some lr \<Rightarrow> (Some (lr_Settings lr), lr_Observations lr)
      | None \<Rightarrow> if ls_SpeedMbps (pf_Link pf) \<noteq> 0 \<or> ls_LinkDetected (pf_Link pf) then (Some (pf_Link pf), pf_LinkObservations pf)
                 else (None, []))"

definition pc2_link :: "SessionResults \<Rightarrow> LinkSettings option \<times> string list" where
  "pc2_link results =
     (case map_of (sx_Link results) RolePC2Key of
        Some lr \<Rightarrow> (Some (lr_Settings lr), lr_Observations lr) | None \<Rightarrow> (None, []))"

definition delta_warning :: "string \<Rightarrow> CounterSnapshot option \<Rightarrow> CounterSnapshot option \<Rightarrow> string list" where
  "delta_warning side initial final =
     (if \<not> snd (DeltaSet initial final) \<and> initial \<noteq> None \<and> final \<noteq> None
      then [side @ '': counter deltas unreliable (reset, wrap or missing counters)''] else [])"

definition time_sub :: "gotime \<Rightarrow> gotime \<Rightarrow> duration" where
  "time_sub t u = max minInt (min maxInt (t - u))"

definition report_warnings :: "preflightInfo \<Rightarrow> SessionResults \<Rightarrow> FailureDetails option \<Rightarrow> string list" where
  "report_warnings pf results failure =
     pf_Warnings pf @ appendPrefixed ''pc1: '' (snd (pc1_link pf results)) @ appendPrefixed ''pc2: '' (snd (pc2_link results))
     @ sx_Notes results
     @ delta_warning ''pc1'' (pc_PC1 (sx_InitialCounters results)) (pc_PC1 (sx_FinalCounters results))
     @ delta_warning ''pc2'' (pc_PC2 (sx_InitialCounters results)) (pc_PC2 (sx_FinalCounters results))
     @ (case failure of None \<Rightarrow> []
        | Some f \<Rightarrow> [''run did not complete: '' @ fl_Error f @ '' (stage '' @ fl_Stage f @ '')''])"

definition assembleReport ::
  "run_app \<Rightarrow> preflightInfo \<Rightarrow> SessionResults \<Rightarrow> gotime \<Rightarrow> gotime \<Rightarrow> FailureDetails option \<Rightarrow> Outcome option \<Rightarrow> Report" where
  "assembleReport a pf results startedAt finishedAt failure outc =
     (let testID = (case outc of Some oc \<Rightarrow> if oc_TestID oc \<noteq> '''' then oc_TestID oc else ra_testID a | None \<Rightarrow> ra_testID a);
          peerCaps = (case outc of Some oc \<Rightarrow> oc_PeerCaps oc | None \<Rightarrow> zero_capabilities);
          pc1 = local_machine a pf;
          pc2 = with_link_speed (map_of (sx_Link results) RolePC2Key) (peerReportFromCaps peerCaps);
          initial = sx_InitialCounters results; final = sx_FinalCounters results
      in \<lparr> rp_SchemaVersion = SchemaVersion, rp_ToolVersion = ra_version a, rp_ProtocolVersion = Version, rp_TestID = testID,
           rp_StartedAt = startedAt, rp_FinishedAt = finishedAt, rp_Duration = time_sub finishedAt startedAt,
           rp_Configuration = echoConfig (ra_cfg a) (ra_controlPort a) (if_Name (pf_Iface pf)), rp_PC1 = pc1, rp_PC2 = pc2,
           rp_Tests = \<lparr> te_Ping = sx_Ping results, te_FullSizePing = sx_FullSizePing results, te_TCP = sx_TCP results,
             te_TCPTrialSpread = None, te_UDP = sx_UDP results, te_Bidirectional = sx_Bidir results, te_CableTest = sx_CableTest results \<rparr>,
           rp_InitialCounters = initial, rp_FinalCounters = final, rp_CycleCounters = sx_CycleCounters results,
           rp_CounterDeltas = \<lparr> pd_PC1 = fst (DeltaSet (pc_PC1 initial) (pc_PC1 final)), pd_PC2 = fst (DeltaSet (pc_PC2 initial) (pc_PC2 final)) \<rparr>,
           rp_MonitoringEvents = mergeMonitoringEvents (sx_MonitoringEvents results) (monitoringEvents (ra_watch a)),
           rp_Warnings = report_warnings pf results failure, rp_SkippedTests = sx_SkippedTests results,
           rp_UDPRateAssumed = sx_UDPRateAssumed results, rp_Classification = None, rp_Score = None, rp_ClassificationReasons = [],
           rp_Recommendations = [], rp_Partial = (sx_Incomplete results \<or> failure \<noteq> None),
           rp_SoakCyclesCompleted = sx_CyclesCompleted results, rp_Failure = failure, rp_Findings = [], rp_RawFiles = [],
           rp_Link = Some \<lparr> ln_PC1 = \<lparr> le_Before = fst (pc1_link pf results), le_After = None \<rparr>,
                            ln_PC2 = \<lparr> le_Before = fst (pc2_link results), le_After = None \<rparr> \<rparr>,
           rp_Machines = Some \<lparr> mp_PC1 = pc1, mp_PC2 = pc2 \<rparr> \<rparr>)"

subsection \<open>Evaluating and rendering\<close>

record workerDiagnostic =
  wd_Role :: string
  wd_GeneratedAt :: gotime
  wd_TestID :: string
  wd_Mode :: string
  wd_LocalIP :: string
  wd_PeerIP :: string
  wd_FinalState :: string
  wd_Completed :: bool
  wd_Error :: string
  wd_AbortReason :: string
  wd_AbortStage :: string
  wd_AbortDetail :: string
  wd_PeerVerdict :: string
  wd_RawFiles :: "RawFileRef list"

datatype file_body = JSONOf Report | MarkdownOf Report | SummaryOf Report | HTMLOf Report | Damaged | TextFile string | DiagnosticOf workerDiagnostic

type_synonym report_dir = "file_body gomap"

text \<open>
  What one rendering meets: the clock, the index of the raw files, whether the report can be encoded, and which
  writes fail. A failed write may have truncated the file.
\<close>

record render_env =
  rn_now :: gotime
  rn_raw :: "RawFileRef list"
  rn_json :: "Report \<Rightarrow> string option"
  rn_write :: "string \<Rightarrow> string option"

fun write_files :: "render_env \<Rightarrow> (string \<times> file_body) list \<Rightarrow> report_dir \<Rightarrow> string option \<times> report_dir" where
  "write_files rn [] d = (None, d)"
| "write_files rn ((name, body) # fs) d =
     (case rn_write rn name of
        Some e \<Rightarrow> (Some e, AList.update name Damaged d)
      | None \<Rightarrow> write_files rn fs (AList.update name body d))"

definition pc1_files :: "Report \<Rightarrow> (string \<times> file_body) list" where
  "pc1_files rep =
     [(''report.json'', JSONOf rep), (''report.md'', MarkdownOf rep), (''summary.txt'', SummaryOf rep), (''report.html'', HTMLOf rep)]"

definition writeReportFiles :: "render_env \<Rightarrow> Report \<Rightarrow> report_dir \<Rightarrow> string option \<times> report_dir" where
  "writeReportFiles rn rep d = (case rn_json rn rep of Some e \<Rightarrow> (Some e, d) | None \<Rightarrow> write_files rn (pc1_files rep) d)"

record verdict =
  vd_set :: bool
  vd_finalized :: bool
  vd_class :: "HealthClass option"
  vd_summary :: string
  vd_code :: ExitCode
  vd_report :: "Report option"
  vd_finishedAt :: gotime

definition no_verdict :: verdict where
  "no_verdict = \<lparr> vd_set = False, vd_finalized = False, vd_class = None, vd_summary = '''', vd_code = 0, vd_report = None, vd_finishedAt = 0 \<rparr>"

definition markFinalized :: "verdict \<Rightarrow> verdict" where
  "markFinalized v = v\<lparr> vd_finalized := True \<rparr>"

definition store_verdict :: "Report \<Rightarrow> HealthClass \<Rightarrow> string \<Rightarrow> ExitCode \<Rightarrow> gotime \<Rightarrow> verdict \<Rightarrow> verdict" where
  "store_verdict rep cls summary code finishedAt v =
     v\<lparr> vd_set := True, vd_report := Some rep, vd_class := Some cls, vd_summary := summary, vd_code := code, vd_finishedAt := finishedAt \<rparr>"

definition renderedReport :: "verdict \<Rightarrow> Report option" where
  "renderedReport v = (if vd_set v then vd_report v else None)"

definition complete_payload :: "verdict \<Rightarrow> Complete" where
  "complete_payload v =
     (if vd_set v then \<lparr> cp_Classification = saved_class (vd_class v), cp_Summary = vd_summary v, cp_ExitCode = vd_code v \<rparr>
      else \<lparr> cp_Classification = '''', cp_Summary = '''', cp_ExitCode = 0 \<rparr>)"

definition with_evaluation :: "Evaluation \<Rightarrow> RawFileRef list \<Rightarrow> Report \<Rightarrow> Report" where
  "with_evaluation res raw rep =
     rep\<lparr> rp_Classification := Some (ev_Class res), rp_Score := ev_Score res, rp_Findings := ev_Findings res,
          rp_Recommendations := ev_Recommendations res,
          rp_ClassificationReasons := rp_ClassificationReasons rep @ map fd_Text (ev_Findings res), rp_RawFiles := raw \<rparr>"

definition summary_line :: "Evaluation \<Rightarrow> string" where
  "summary_line res =
     ''cable health: '' @ class_name (ev_Class res)
     @ (case ev_Findings res of [] \<Rightarrow> '''' | f # _ \<Rightarrow> '' '' @ em_dash @ '' '' @ fd_Text f)"

definition finalize ::
  "f64conv \<Rightarrow> render_env \<Rightarrow> run_app \<Rightarrow> preflightInfo \<Rightarrow> SessionResults \<Rightarrow> gotime \<Rightarrow> FailureDetails option \<Rightarrow> Outcome option \<Rightarrow>
   verdict \<times> report_dir \<Rightarrow> (run_error + Report) \<times> verdict \<times> report_dir" where
  "finalize cv rn a pf results startedAt failure outc = (\<lambda>(v, d).
     (let finishedAt = (if vd_set v then vd_finishedAt v else rn_now rn);
          rep0 = assembleReport a pf results startedAt finishedAt failure outc;
          res = Evaluate cv (FactsFromReport cv rep0);
          rep = with_evaluation res (rn_raw rn) rep0
      in case writeReportFiles rn rep d of
           (Some e, d') \<Rightarrow> (Inl \<lparr> re_Is = [IsReportWrite], re_Text = ''app: writing report failed: '' @ e \<rparr>, v, d')
         | (None, d') \<Rightarrow>
             (Inr rep, store_verdict rep (ev_Class res) (summary_line res) (ExitCodeFor (Some (ev_Class res))) finishedAt v, d')))"

text \<open>
  The two renderings of a session that runs to its end: the one at the end of the plan, whose failure fails the
  plan, and the one with the capabilities of the peer, before the complete frame.
\<close>

definition plan_rendering ::
  "f64conv \<Rightarrow> render_env \<Rightarrow> run_app \<Rightarrow> preflightInfo \<Rightarrow> SessionResults \<Rightarrow> gotime \<Rightarrow> verdict \<times> report_dir \<Rightarrow>
   run_error option \<times> verdict \<times> report_dir" where
  "plan_rendering cv rn a pf results startedAt vd =
     (case finalize cv rn a pf results startedAt None None vd of (Inl e, vd') \<Rightarrow> (Some e, vd') | (Inr _, vd') \<Rightarrow> (None, vd'))"

text \<open>The outcome passed on has two fields; a rendering of a complete run reads no other, so any state does for the empty one.\<close>

definition prepared_outcome :: "run_app \<Rightarrow> Capabilities \<Rightarrow> Outcome" where
  "prepared_outcome a peerCaps =
     \<lparr> oc_FinalState = StateInitializing, oc_PeerComplete = None, oc_AbortReason = '''', oc_AbortStage = '''', oc_AbortDetail = '''',
       oc_PeerCaps = peerCaps, oc_TestID = ra_testID a, oc_Mode = '''' \<rparr>"

definition PrepareComplete ::
  "f64conv \<Rightarrow> render_env \<Rightarrow> run_app \<Rightarrow> preflightInfo \<Rightarrow> SessionResults \<Rightarrow> gotime \<Rightarrow> Capabilities \<Rightarrow> verdict \<times> report_dir \<Rightarrow>
   run_error option \<times> verdict \<times> report_dir" where
  "PrepareComplete cv rn a pf results startedAt peerCaps vd =
     (case finalize cv rn a pf results startedAt None (Some (prepared_outcome a peerCaps)) vd of
        (Inl e, vd') \<Rightarrow> (Some e, vd')
      | (Inr _, v', d') \<Rightarrow> (None, markFinalized v', d'))"

subsection \<open>The end of a run\<close>

datatype console =
    SummaryHook Report
  | Printed string
  | WorkerHook string string string bool

definition nl :: string where "nl = [CHR 0x0A]"

definition failureStage :: "Outcome option \<Rightarrow> string" where
  "failureStage outc =
     (case outc of
        None \<Rightarrow> ''session''
      | Some oc \<Rightarrow> if oc_AbortReason oc \<noteq> '''' then oc_AbortReason oc else state_name (oc_FinalState oc))"

definition app_error :: "string \<Rightarrow> run_error" where
  "app_error text = \<lparr> re_Is = [], re_Text = text \<rparr>"

definition finishCoordinator ::
  "f64conv \<Rightarrow> render_env \<Rightarrow> run_app \<Rightarrow> bool \<Rightarrow> string \<Rightarrow> preflightInfo \<Rightarrow> SessionResults \<Rightarrow> gotime \<Rightarrow> Outcome \<Rightarrow> run_error option \<Rightarrow>
   verdict \<times> report_dir \<Rightarrow> (ExitCode \<times> run_error option) \<times> console list \<times> verdict \<times> report_dir" where
  "finishCoordinator cv rn a hook reportDir pf results startedAt outc runErr vd =
     (case runErr of
        None \<Rightarrow>
          if \<not> vd_set (fst vd) then ((ExitInternal, Some (app_error ''app: session completed without a verdict'')), [], vd)
          else
            let (v, d) = (if vd_finalized (fst vd) then vd else snd (finalize cv rn a pf results startedAt None (Some outc) vd))
            in (case renderedReport v of
                  None \<Rightarrow> ((ExitInternal, Some (app_error ''app: session completed without a rendered report'')), [], v, d)
                | Some rep \<Rightarrow>
                    ((vd_code v, None),
                     [if \<not> rc_Quiet (ra_cfg a) \<and> hook then SummaryHook rep
                      else Printed (nl @ vd_summary v @ nl @ ''Report: '' @ reportDir @ nl)], v, d))
      | Some err \<Rightarrow>
          let failure = \<lparr> fl_Stage = failureStage (Some outc), fl_Error = re_Text err \<rparr>
          in (case finalize cv rn a pf results startedAt (Some failure) (Some outc) vd of
                (Inl _, vd') \<Rightarrow> ((exitCodeForCoordinatorRunError err, Some err), [], vd')
              | (Inr rep, v, d) \<Rightarrow>
                  ((exitCodeForCoordinatorRunError err, Some err),
                   [if \<not> rc_Quiet (ra_cfg a) \<and> hook then SummaryHook rep
                    else Printed (nl @ vd_summary v @ nl @ ''run did not complete ('' @ re_Text err @ '')'' @ nl @ ''Report: '' @ reportDir @ nl)],
                   v, d)))"

subsection \<open>The end of a run on the worker\<close>

definition reportTransferred :: "report_dir \<Rightarrow> bool" where
  "reportTransferred d = list_all (\<lambda>name. map_of d name \<noteq> None) [''report.json'', ''report.md'', ''summary.txt'']"

definition write_file :: "render_env \<Rightarrow> string \<Rightarrow> file_body \<Rightarrow> report_dir \<Rightarrow> report_dir" where
  "write_file rn name body d = AList.update name (case rn_write rn name of None \<Rightarrow> body | Some _ \<Rightarrow> Damaged) d"

definition redactSecret :: "string \<Rightarrow> string \<Rightarrow> string" where
  "redactSecret s token = (if token = '''' then s else ReplaceAll s token ''[REDACTED]'')"

definition session_id :: "run_app \<Rightarrow> Outcome \<Rightarrow> string" where
  "session_id a oc = (if oc_TestID oc \<noteq> '''' then oc_TestID oc else ra_testID a)"

definition session_mode :: "run_app \<Rightarrow> Outcome \<Rightarrow> string" where
  "session_mode a oc = (if oc_Mode oc \<noteq> '''' then oc_Mode oc else rc_Mode (ra_cfg a))"

definition worker_summary_text :: "run_app \<Rightarrow> Outcome \<Rightarrow> string \<Rightarrow> string" where
  "worker_summary_text a oc verdictLine =
     concat (map (\<lambda>l. l @ nl)
       [''CableCheck summary (pc2 / worker)'', ''================================='',
        ''test id:   '' @ session_id a oc, ''mode:      '' @ session_mode a oc,
        ''local ip:  '' @ Addr_String (Unmap (rc_LocalIP (ra_cfg a))), ''peer ip:   '' @ Addr_String (Unmap (rc_PeerIP (ra_cfg a))),
        verdictLine, '''', ''The transferable report core (report.json, report.md, summary.txt) was generated on PC1.'',
        ''It was not transferred to PC2 (transfer declined, disabled, or failed).'',
        ''The self-contained report.html remains in PC1's report directory.''])"

definition writeWorkerSummary :: "render_env \<Rightarrow> run_app \<Rightarrow> Outcome \<Rightarrow> string \<Rightarrow> report_dir \<Rightarrow> report_dir" where
  "writeWorkerSummary rn a oc verdictLine = write_file rn ''summary.txt'' (TextFile (worker_summary_text a oc verdictLine))"

definition writeWorkerFailureNote :: "render_env \<Rightarrow> string \<Rightarrow> report_dir \<Rightarrow> report_dir" where
  "writeWorkerFailureNote rn text = write_file rn ''transfer-note.txt'' (TextFile
     (''CableCheck (pc2 / worker)'' @ nl @ text @ nl @ nl @
      ''PC1's report core was transferred and verified before this failure; the transferred report.json, report.md and summary.txt are PC1's own files. PC1's report.html remains local to PC1.'' @ nl))"

definition worker_diagnostic :: "render_env \<Rightarrow> run_app \<Rightarrow> Outcome \<Rightarrow> run_error option \<Rightarrow> workerDiagnostic" where
  "worker_diagnostic rn a oc runErr =
     \<lparr> wd_Role = rc_Role (ra_cfg a), wd_GeneratedAt = rn_now rn, wd_TestID = session_id a oc, wd_Mode = session_mode a oc,
       wd_LocalIP = Addr_String (Unmap (rc_LocalIP (ra_cfg a))), wd_PeerIP = Addr_String (Unmap (rc_PeerIP (ra_cfg a))),
       wd_FinalState = state_name (oc_FinalState oc), wd_Completed = (runErr = None),
       wd_Error = (case runErr of None \<Rightarrow> '''' | Some e \<Rightarrow> redactSecret (re_Text e) (rc_Token (ra_cfg a))),
       wd_AbortReason = oc_AbortReason oc, wd_AbortStage = oc_AbortStage oc,
       wd_AbortDetail = redactSecret (oc_AbortDetail oc) (rc_Token (ra_cfg a)),
       wd_PeerVerdict = (case oc_PeerComplete oc of None \<Rightarrow> '''' | Some c \<Rightarrow> cp_Classification c), wd_RawFiles = rn_raw rn \<rparr>"

definition writeWorkerDiagnostic :: "render_env \<Rightarrow> run_app \<Rightarrow> Outcome \<Rightarrow> run_error option \<Rightarrow> report_dir \<Rightarrow> report_dir" where
  "writeWorkerDiagnostic rn a oc runErr = write_file rn ''diagnostic.json'' (DiagnosticOf (worker_diagnostic rn a oc runErr))"

definition verdict_line :: "Complete \<Rightarrow> string" where
  "verdict_line c = ''verdict from PC1: '' @ (if cp_Summary c \<noteq> '''' then cp_Summary c else cp_Classification c)"

definition worker_console :: "bool \<Rightarrow> string \<Rightarrow> Complete \<Rightarrow> bool \<Rightarrow> console" where
  "worker_console hook reportDir c transferred =
     (let summaryPath = Join reportDir ''summary.txt''
      in if hook then WorkerHook (cp_Classification c) (verdict_line c) (if transferred then reportDir else summaryPath) transferred
         else if transferred then Printed (nl @ verdict_line c @ nl @ ''Report received from PC1: '' @ reportDir @ nl)
         else Printed (nl @ verdict_line c @ nl @ ''Summary: '' @ summaryPath @ nl))"

definition finishWorker ::
  "render_env \<Rightarrow> run_app \<Rightarrow> bool \<Rightarrow> string \<Rightarrow> Outcome \<Rightarrow> run_error option \<Rightarrow> report_dir \<Rightarrow>
   (ExitCode \<times> run_error option) \<times> console list \<times> report_dir" where
  "finishWorker rn a hook reportDir oc runErr d =
     (let d1 = writeWorkerDiagnostic rn a oc runErr d
      in case runErr of
           Some err \<Rightarrow>
             let msg = redactSecret (re_Text err) (rc_Token (ra_cfg a))
             in ((exitCodeForRunError err, Some err), [],
                 if reportTransferred d1 then writeWorkerFailureNote rn (''run did not complete: '' @ msg) d1
                 else writeWorkerSummary rn a oc (''run did not complete: '' @ msg) d1)
         | None \<Rightarrow>
             (case oc_PeerComplete oc of
                None \<Rightarrow> ((ExitInternal, Some (app_error ''app: session completed but PC1 sent no verdict'')), [], d1)
              | Some c \<Rightarrow>
                  if cp_ExitCode c < ExitOK \<or> cp_ExitCode c > ExitInternal
                  then ((ExitInternal, Some (app_error (''app: PC1 reported an out-of-range exit code '' @ show_int (cp_ExitCode c)))), [], d1)
                  else ((cp_ExitCode c, None), [worker_console hook reportDir c (reportTransferred d1)],
                        if reportTransferred d1 then d1 else writeWorkerSummary rn a oc (verdict_line c) d1)))"

subsection \<open>What a rendering stores\<close>

lemma report_flags:
  "fa_Partial (factsFromReport cv r t) = rp_Partial r"
  "fa_ThroughputUnreachable (factsFromReport cv r t) = throughputUnreachable r"
  "fa_VirtualInterface (factsFromReport cv r t) \<longleftrightarrow> virtualNIC (pr_NIC (rp_PC1 r)) \<or> virtualNIC (pr_NIC (rp_PC2 r))"
  by (simp_all add: factsFromReport_def Let_def)

lemma with_evaluation_keeps [simp]:
  "rp_Tests (with_evaluation res raw r) = rp_Tests r" "rp_InitialCounters (with_evaluation res raw r) = rp_InitialCounters r"
  "rp_FinalCounters (with_evaluation res raw r) = rp_FinalCounters r" "rp_PC1 (with_evaluation res raw r) = rp_PC1 r"
  "rp_PC2 (with_evaluation res raw r) = rp_PC2 r" "rp_Partial (with_evaluation res raw r) = rp_Partial r"
  "rp_UDPRateAssumed (with_evaluation res raw r) = rp_UDPRateAssumed r" "rp_Link (with_evaluation res raw r) = rp_Link r"
  "rp_MonitoringEvents (with_evaluation res raw r) = rp_MonitoringEvents r"
  "rp_SkippedTests (with_evaluation res raw r) = rp_SkippedTests r" "rp_Failure (with_evaluation res raw r) = rp_Failure r"
  "rp_Configuration (with_evaluation res raw r) = rp_Configuration r"
  "rp_SoakCyclesCompleted (with_evaluation res raw r) = rp_SoakCyclesCompleted r"
  "rp_Machines (with_evaluation res raw r) = rp_Machines r"
  by (simp_all add: with_evaluation_def)

text \<open>The evaluation reads only part of a report.\<close>

lemma facts_cong:
  assumes "rp_Tests r = rp_Tests r'" "rp_InitialCounters r = rp_InitialCounters r'" "rp_FinalCounters r = rp_FinalCounters r'"
    "negotiatedSpeed r = negotiatedSpeed r'" "expectedTCPTrials r = expectedTCPTrials r'" "expectedSpeed r = expectedSpeed r'"
    "halfDuplex r = halfDuplex r'" "linkUpAtEnd r = linkUpAtEnd r'" "rp_MonitoringEvents r = rp_MonitoringEvents r'"
    "(nic_USB (pr_NIC (rp_PC1 r)) \<or> nic_USB (pr_NIC (rp_PC2 r))) = (nic_USB (pr_NIC (rp_PC1 r')) \<or> nic_USB (pr_NIC (rp_PC2 r')))"
    "(virtualNIC (pr_NIC (rp_PC1 r)) \<or> virtualNIC (pr_NIC (rp_PC2 r))) = (virtualNIC (pr_NIC (rp_PC1 r')) \<or> virtualNIC (pr_NIC (rp_PC2 r')))"
    "rp_Partial r = rp_Partial r'" "rp_UDPRateAssumed r = rp_UDPRateAssumed r'" "rp_SkippedTests r = rp_SkippedTests r'"
  shows "FactsFromReport cv r = FactsFromReport cv r'"
  unfolding FactsFromReport_def factsFromReport_def self_inflicted_def tcp_samples_def renegotiations_def monitorCarrierTransitions_def
    maxCPUPct_def unavailableTests_def throughputUnreachable_def assms ..

lemma evidence_with_evaluation:
  "negotiatedSpeed (with_evaluation res raw r) = negotiatedSpeed r" "expectedTCPTrials (with_evaluation res raw r) = expectedTCPTrials r"
  "expectedSpeed (with_evaluation res raw r) = expectedSpeed r" "halfDuplex (with_evaluation res raw r) = halfDuplex r"
  "linkUpAtEnd (with_evaluation res raw r) = linkUpAtEnd r"
  unfolding negotiatedSpeed_def expectedTCPTrials_def expectedSpeed_def halfDuplex_def linkUpAtEnd_def with_evaluation_keeps
  by (rule refl)+

lemma facts_with_evaluation [simp]: "FactsFromReport cv (with_evaluation res raw r) = FactsFromReport cv r"
  by (rule facts_cong) (simp_all add: evidence_with_evaluation)

definition evaluated :: "f64conv \<Rightarrow> Report \<Rightarrow> bool" where
  "evaluated cv rep \<longleftrightarrow> rp_Classification rep = Some (ev_Class (Evaluate cv (FactsFromReport cv rep)))"

definition verdict_ok :: "f64conv \<Rightarrow> verdict \<Rightarrow> bool" where
  "verdict_ok cv v \<longleftrightarrow>
     (vd_set v \<longrightarrow>
        (\<exists>rep. vd_report v = Some rep \<and> evaluated cv rep \<and> vd_class v = rp_Classification rep \<and>
               vd_code v = ExitCodeFor (rp_Classification rep)))"

definition on_disk :: "Report \<Rightarrow> report_dir \<Rightarrow> bool" where
  "on_disk rep d \<longleftrightarrow> list_all (\<lambda>(name, body). map_of d name = Some body) (pc1_files rep)"

lemma evaluated_with_evaluation [simp]:
  "evaluated cv (with_evaluation (Evaluate cv (FactsFromReport cv r)) raw r)"
  unfolding evaluated_def facts_with_evaluation by (simp add: with_evaluation_def)

lemma written_files: "writeReportFiles rn rep d = (None, d') \<Longrightarrow> on_disk rep d'"
  by (auto simp: writeReportFiles_def pc1_files_def on_disk_def update_conv' split: option.splits)

text \<open>A rendering stores a verdict that agrees with the report it wrote, or changes no verdict.\<close>

lemma finalize_Inr:
  assumes "finalize cv rn a pf results startedAt failure outc (v, d) = (Inr rep, v', d')"
  shows "evaluated cv rep \<and> vd_set v' \<and> vd_report v' = Some rep \<and> vd_class v' = rp_Classification rep \<and>
    vd_code v' = ExitCodeFor (rp_Classification rep) \<and> on_disk rep d' \<and> vd_finalized v' = vd_finalized v \<and>
    rp_Failure rep = failure \<and> rp_Partial rep = (sx_Incomplete results \<or> failure \<noteq> None)"
proof -
  define fin where "fin = (if vd_set v then vd_finishedAt v else rn_now rn)"
  define r0 where "r0 = assembleReport a pf results startedAt fin failure outc"
  define res where "res = Evaluate cv (FactsFromReport cv r0)"
  have rep: "rep = with_evaluation res (rn_raw rn) r0" and "writeReportFiles rn rep d = (None, d')"
    and "v' = store_verdict rep (ev_Class res) (summary_line res) (ExitCodeFor (Some (ev_Class res))) fin v"
    using assms unfolding finalize_def Let_def prod.case fin_def [symmetric] r0_def [symmetric] res_def [symmetric]
    by (auto split: prod.splits option.splits)
  moreover have "rp_Failure r0 = failure" "rp_Partial r0 = (sx_Incomplete results \<or> failure \<noteq> None)"
    by (simp_all add: r0_def assembleReport_def Let_def)
  moreover have "rp_Classification rep = Some (ev_Class res)" by (simp add: rep with_evaluation_def)
  moreover have "evaluated cv rep" by (simp add: rep res_def)
  ultimately show ?thesis by (auto simp: store_verdict_def written_files)
qed

lemma finalize_Inl:
  assumes "finalize cv rn a pf results startedAt failure outc (v, d) = (Inl e, v', d')"
  shows "v' = v \<and> re_Is e = [IsReportWrite]"
  using assms by (auto simp: finalize_def Let_def split: prod.splits option.splits)

lemma finalize_verdict_ok:
  assumes "verdict_ok cv v"
  shows "verdict_ok cv (fst (snd (finalize cv rn a pf results startedAt failure outc (v, d))))"
proof (cases "finalize cv rn a pf results startedAt failure outc (v, d)")
  case (fields r v' d')
  have "verdict_ok cv v'"
  proof (cases r)
    case (Inl e)
    with fields have "finalize cv rn a pf results startedAt failure outc (v, d) = (Inl e, v', d')" by simp
    from finalize_Inl [OF this] have "v' = v" by simp
    with assms show ?thesis by simp
  next
    case (Inr rep)
    with fields have "finalize cv rn a pf results startedAt failure outc (v, d) = (Inr rep, v', d')" by simp
    from finalize_Inr [OF this] show ?thesis by (simp add: verdict_ok_def)
  qed
  with fields show ?thesis by simp
qed

text \<open>The verdicts a run of the coordinator can reach before its end.\<close>

inductive verdict_reached :: "f64conv \<Rightarrow> run_app \<Rightarrow> preflightInfo \<Rightarrow> gotime \<Rightarrow> verdict \<times> report_dir \<Rightarrow> bool"
  for cv a pf startedAt where
  fresh_run: "verdict_reached cv a pf startedAt (no_verdict, d)"
| plan_done: "verdict_reached cv a pf startedAt vd \<Longrightarrow>
    verdict_reached cv a pf startedAt (snd (plan_rendering cv rn a pf results startedAt vd))"
| prepared: "verdict_reached cv a pf startedAt vd \<Longrightarrow>
    verdict_reached cv a pf startedAt (snd (PrepareComplete cv rn a pf results startedAt peerCaps vd))"

lemma snd_plan_rendering: "snd (plan_rendering cv rn a pf results startedAt vd) = snd (finalize cv rn a pf results startedAt None None vd)"
  by (simp add: plan_rendering_def split: prod.split sum.split)

lemma verdict_reached_ok: "verdict_reached cv a pf startedAt vd \<Longrightarrow> verdict_ok cv (fst vd)"
proof (induction rule: verdict_reached.induct)
  case (fresh_run d)
  then show ?case by (simp add: verdict_ok_def no_verdict_def)
next
  case (plan_done vd rn results)
  then show ?case using finalize_verdict_ok by (cases vd) (simp add: snd_plan_rendering)
next
  case (prepared vd rn results peerCaps)
  obtain v d where vd: "vd = (v, d)" by (cases vd)
  obtain r v' d' where f: "finalize cv rn a pf results startedAt None (Some (prepared_outcome a peerCaps)) (v, d) = (r, v', d')"
    by (metis prod_cases3)
  have "verdict_ok cv v'" using finalize_verdict_ok [of cv v rn a pf results startedAt None _ d] prepared.IH f
    by (metis fst_conv snd_conv vd)
  then show ?case by (cases r) (simp_all add: PrepareComplete_def vd f markFinalized_def verdict_ok_def)
qed

subsection \<open>What the exit code says\<close>

definition clean_class :: "Report \<Rightarrow> bool" where
  "clean_class rep \<longleftrightarrow> rp_Classification rep = Some HealthExcellent \<or> rp_Classification rep = Some HealthGood"

lemma clean_report_evidence:
  assumes "evaluated cv rep" "clean_class rep"
  shows "\<not> rp_Partial rep \<and> \<not> throughputUnreachable rep \<and> \<not> virtualNIC (pr_NIC (rp_PC1 rep)) \<and> \<not> virtualNIC (pr_NIC (rp_PC2 rep))"
proof -
  have "critical_evidence (factsFromReport cv rep Default)"
    using assms unfolding evaluated_def clean_class_def Evaluate_def FactsFromReport_def
    by (intro clean_needs_critical [of cv _ Default]) (metis option.inject)
  then show ?thesis by (simp add: critical_evidence_def report_flags)
qed

lemma ExitCodeFor_Some: "0 \<le> ExitCodeFor (Some c) \<and> ExitCodeFor (Some c) \<le> 3"
  by (cases c) simp_all

lemma ExitCodeFor_ok: "ExitCodeFor c = ExitOK \<longleftrightarrow> c = Some HealthExcellent \<or> c = Some HealthGood"
  by (cases c rule: ExitCodeFor.cases) simp_all

lemma run_error_code: "exitCodeForCoordinatorRunError e \<in> {ExitConfig, ExitPeer, ExitInterrupt, ExitInternal}"
  by (auto simp: exitCodeForCoordinatorRunError_def exitCodeForRunError_def Let_def)

lemma verdict_ok_report:
  assumes "verdict_ok cv v" "renderedReport v = Some rep"
  shows "evaluated cv rep \<and> vd_code v = ExitCodeFor (rp_Classification rep) \<and> vd_class v = rp_Classification rep"
  using assms by (auto simp: verdict_ok_def renderedReport_def split: if_splits)

lemma finished_without_error:
  assumes "verdict_ok cv (fst vd)" "finishCoordinator cv rn a hook reportDir pf results startedAt oc None vd = ((code, err), out, v, d)"
  shows "(err = None \<longrightarrow> (\<exists>rep. renderedReport v = Some rep \<and> evaluated cv rep \<and> code = ExitCodeFor (rp_Classification rep))) \<and>
    (err \<noteq> None \<longrightarrow> code = ExitInternal) \<and> verdict_ok cv v"
proof (cases "vd_set (fst vd)")
  case False
  then show ?thesis using assms by (auto simp: finishCoordinator_def)
next
  case True
  define vd' where "vd' = (if vd_finalized (fst vd) then vd else snd (finalize cv rn a pf results startedAt None (Some oc) vd))"
  have ok: "verdict_ok cv (fst vd')"
    using assms(1) finalize_verdict_ok [of cv "fst vd" rn a pf results startedAt None "Some oc" "snd vd"] by (simp add: vd'_def)
  have run: "(let (v, d) = vd' in (case renderedReport v of
                  None \<Rightarrow> ((ExitInternal, Some (app_error ''app: session completed without a rendered report'')), [], v, d)
                | Some rep \<Rightarrow>
                    ((vd_code v, None),
                     [if \<not> rc_Quiet (ra_cfg a) \<and> hook then SummaryHook rep
                      else Printed (nl @ vd_summary v @ nl @ ''Report: '' @ reportDir @ nl)], v, d))) = ((code, err), out, v, d)"
    using assms(2) True unfolding finishCoordinator_def vd'_def by simp
  then have v: "v = fst vd'" by (auto simp: case_prod_beta Let_def split: option.splits)
  show ?thesis
  proof (cases "renderedReport v")
    case None
    with run show ?thesis using ok v by (auto simp: case_prod_beta Let_def)
  next
    case (Some rep)
    with run v have "code = vd_code v" "err = None" by (simp_all add: case_prod_beta Let_def)
    with verdict_ok_report [OF ok [folded v] Some] Some ok v show ?thesis by simp
  qed
qed

lemma finished_with_error:
  assumes "finishCoordinator cv rn a hook reportDir pf results startedAt oc (Some e) vd = ((code, err), out, v, d)"
  shows "code = exitCodeForCoordinatorRunError e \<and> err = Some e \<and>
    (out \<noteq> [] \<longrightarrow> (\<exists>rep. renderedReport v = Some rep \<and> evaluated cv rep \<and> on_disk rep d \<and> rp_Partial rep \<and> rp_Failure rep \<noteq> None))"
proof -
  define failure where "failure = \<lparr> fl_Stage = failureStage (Some oc), fl_Error = re_Text e \<rparr>"
  obtain r v1 d1 where f: "finalize cv rn a pf results startedAt (Some failure) (Some oc) (fst vd, snd vd) = (r, v1, d1)"
    by (metis prod_cases3)
  show ?thesis
  proof (cases r)
    case (Inl x)
    then show ?thesis using assms f by (simp add: finishCoordinator_def failure_def [symmetric])
  next
    case (Inr rep)
    with f have "finalize cv rn a pf results startedAt (Some failure) (Some oc) (fst vd, snd vd) = (Inr rep, v1, d1)" by simp
    from finalize_Inr [OF this] show ?thesis
      using assms f Inr by (auto simp: finishCoordinator_def failure_def [symmetric] renderedReport_def)
  qed
qed

text \<open>
  C17. The exit code of the coordinator is true to the report. After any sequence of renderings, a run ends
  without an error exactly when it exits with one of the four health codes; then the session did not fail and
  the code is the one of the class to which the evaluation of the rendered report assigns it. Exit code 0 means that
  this class is EXCELLENT or GOOD, that the report is not partial, that the data port was reachable and that
  neither NIC is taken for virtual. A session that failed exits with 4 or more, and when its report could be written, the
  files hold a partial report that is neither EXCELLENT nor GOOD.
\<close>

theorem exit_code_sound:
  assumes "verdict_reached cv a pf startedAt vd"
    and "finishCoordinator cv rn a hook reportDir pf results startedAt oc runErr vd = ((code, err), out, v, d)"
  shows "(err = None \<longleftrightarrow> code \<in> {ExitOK, ExitWarning, ExitPoorFailed, ExitInconclusive}) \<and>
    (err = None \<longrightarrow> runErr = None \<and>
      (\<exists>rep. renderedReport v = Some rep \<and> evaluated cv rep \<and> code = ExitCodeFor (rp_Classification rep))) \<and>
    (code = ExitOK \<longrightarrow> (\<exists>rep. renderedReport v = Some rep \<and> evaluated cv rep \<and> clean_class rep \<and> \<not> rp_Partial rep \<and>
      \<not> throughputUnreachable rep \<and> \<not> virtualNIC (pr_NIC (rp_PC1 rep)) \<and> \<not> virtualNIC (pr_NIC (rp_PC2 rep)))) \<and>
    (runErr \<noteq> None \<longrightarrow> code \<ge> ExitConfig \<and>
      (out \<noteq> [] \<longrightarrow> (\<exists>rep. renderedReport v = Some rep \<and> on_disk rep d \<and> rp_Partial rep \<and> \<not> clean_class rep)))"
proof (intro conjI)
  note ok = verdict_reached_ok [OF assms(1)]
  have failed: "code \<ge> ExitConfig \<and> err \<noteq> None \<and>
      (out \<noteq> [] \<longrightarrow> (\<exists>rep. renderedReport v = Some rep \<and> on_disk rep d \<and> rp_Partial rep \<and> \<not> clean_class rep))"
    if "runErr = Some e" for e
    using finished_with_error [OF assms(2) [unfolded that]] run_error_code [of e] clean_report_evidence by fastforce
  have fine: "(err = None \<longrightarrow> (\<exists>rep. renderedReport v = Some rep \<and> evaluated cv rep \<and> code = ExitCodeFor (rp_Classification rep))) \<and>
      (err \<noteq> None \<longrightarrow> code = ExitInternal)" if "runErr = None"
    using finished_without_error [OF ok assms(2) [unfolded that]] by blast
  have code: "code \<in> {ExitOK, ExitWarning, ExitPoorFailed, ExitInconclusive}"
    if "evaluated cv rep" "code = ExitCodeFor (rp_Classification rep)" for rep
    using that ExitCodeFor_Some [of "ev_Class (Evaluate cv (FactsFromReport cv rep))"] by (auto simp: evaluated_def)
  show 1: "err = None \<longleftrightarrow> code \<in> {ExitOK, ExitWarning, ExitPoorFailed, ExitInconclusive}"
    using failed fine code by (cases runErr) fastforce+
  show 2: "err = None \<longrightarrow> runErr = None \<and>
      (\<exists>rep. renderedReport v = Some rep \<and> evaluated cv rep \<and> code = ExitCodeFor (rp_Classification rep))"
    using failed fine by (cases runErr) auto
  show "code = ExitOK \<longrightarrow> (\<exists>rep. renderedReport v = Some rep \<and> evaluated cv rep \<and> clean_class rep \<and> \<not> rp_Partial rep \<and>
      \<not> throughputUnreachable rep \<and> \<not> virtualNIC (pr_NIC (rp_PC1 rep)) \<and> \<not> virtualNIC (pr_NIC (rp_PC2 rep)))"
    using 1 2 clean_report_evidence unfolding clean_class_def ExitCodeFor_ok [symmetric] by fastforce
  show "runErr \<noteq> None \<longrightarrow> code \<ge> ExitConfig \<and>
      (out \<noteq> [] \<longrightarrow> (\<exists>rep. renderedReport v = Some rep \<and> on_disk rep d \<and> rp_Partial rep \<and> \<not> clean_class rep))"
    using failed by blast
qed


text \<open>
  C19. The worker never overwrites a report it received: once the three transferable files are in its directory,
  none of them changes at the end of the run, whether the session failed or not. When the transfer is not complete and the
  session failed or the verdict of the coordinator arrived, \<open>summary.txt\<close> is the fallback that says so, or the attempt to write it failed.
\<close>

theorem worker_keeps_transferred:
  assumes "finishWorker rn a hook reportDir oc runErr d = ((code, err), out, d')"
  shows "(reportTransferred d \<longrightarrow>
      list_all (\<lambda>name. map_of d' name = map_of d name) [''report.json'', ''report.md'', ''summary.txt'']) \<and>
    (\<not> reportTransferred d \<and> (runErr \<noteq> None \<or> err = None) \<and> rn_write rn ''summary.txt'' = None \<longrightarrow>
      (\<exists>line. map_of d' ''summary.txt'' = Some (TextFile (worker_summary_text a oc line))))"
proof -
  have [simp]: "reportTransferred (AList.update ''diagnostic.json'' body d) = reportTransferred d" for body
    by (simp add: reportTransferred_def update_conv')
  show ?thesis
    using assms
    by (cases runErr; cases "oc_PeerComplete oc"; cases "reportTransferred d")
      (auto simp: finishWorker_def Let_def writeWorkerDiagnostic_def writeWorkerFailureNote_def writeWorkerSummary_def write_file_def
        update_conv' split: if_splits)
qed

subsection \<open>What a live report can show\<close>

text \<open>
  The assembly records the settings of the link before the tests only. So the evaluation takes the link of every
  live run to be up at its end, and rule PHY-01 never fires on one.
\<close>

lemma live_link_up: "fa_LinkUpAtEnd (FactsFromReport cv (assembleReport a pf results startedAt finishedAt failure outc))"
  by (simp add: FactsFromReport_def factsFromReport_def Let_def linkUpAtEnd_def after_down_def assembleReport_def
      split: option.split)

lemma link_loss_at_end_unseen:
  "rulePHY01 (FactsFromReport cv (assembleReport a pf results startedAt finishedAt failure outc)) t = None"
  using live_link_up by (simp add: rulePHY01_def)

subsection \<open>The timeline in the report\<close>

lemma readings_append: "readings (xs @ ys) m = readings xs m @ readings ys (snd (monitor_run xs m))"
proof (induction xs arbitrary: m)
  case (Cons st xs)
  then show ?case by (cases st) (simp_all add: monitor_run_simps)
qed (simp add: monitor_run_simps)

lemma fold_add_unseen:
  "set (fold add_unseen evs out) = set out \<union> set evs" "distinct out \<Longrightarrow> distinct (fold add_unseen evs out)"
  "set evs \<subseteq> set out \<Longrightarrow> fold add_unseen evs out = out"
  "distinct evs \<Longrightarrow> set evs \<inter> set out = {} \<Longrightarrow> fold add_unseen evs out = out @ evs"
proof -
  show "set (fold add_unseen evs out) = set out \<union> set evs" by (induction evs arbitrary: out) (auto simp: add_unseen_def)
  show "distinct out \<Longrightarrow> distinct (fold add_unseen evs out)" by (induction evs arbitrary: out) (auto simp: add_unseen_def)
  show "set evs \<subseteq> set out \<Longrightarrow> fold add_unseen evs out = out" by (induction evs arbitrary: out) (auto simp: add_unseen_def)
  show "distinct evs \<Longrightarrow> set evs \<inter> set out = {} \<Longrightarrow> fold add_unseen evs out = out @ evs"
    by (induction evs arbitrary: out) (auto simp: add_unseen_def)
qed

text \<open>The events a soak session kept are the beginning of the monitor's timeline: merging gives that timeline.\<close>

lemma merge_prefix:
  assumes "distinct (kept @ later)"
  shows "mergeMonitoringEvents kept (kept @ later) = kept @ later"
  using assms by (simp add: mergeMonitoringEvents_def fold_add_unseen Int_commute)

lemma merge_all: "set (mergeMonitoringEvents retained monitored) = set retained \<union> set monitored"
  by (simp add: mergeMonitoringEvents_def fold_add_unseen)

definition with_events :: "MonitoringEvent list \<Rightarrow> Report \<Rightarrow> Report" where
  "with_events evs r = r\<lparr> rp_MonitoringEvents := evs \<rparr>"

lemma tagged_not_counted:
  assumes "list_all lk_SelfInflicted during"
  shows "renegotiations (with_events (evs @ map monitoring_event during) r) = renegotiations (with_events evs r)"
    "monitorCarrierTransitions (with_events (evs @ map monitoring_event during) r) = monitorCarrierTransitions (with_events evs r)"
proof -
  have "fold (\<lambda>ev n. if me_SelfInflicted ev then n else f ev n) (map monitoring_event during) n = n" for f and n :: 'a
    using assms by (induction during arbitrary: n) (auto simp: monitoring_event_def)
  then show "renegotiations (with_events (evs @ map monitoring_event during) r) = renegotiations (with_events evs r)"
    "monitorCarrierTransitions (with_events (evs @ map monitoring_event during) r) = monitorCarrierTransitions (with_events evs r)"
    by (simp_all add: renegotiations_def monitorCarrierTransitions_def with_events_def)
qed

text \<open>
  C20. The disturbance of a cable test is not held against the cable. From a monitor whose window is closed, open
  the window, let any polls and consumers follow, and close it: every event recorded from the opening reading to
  the closing one is marked as self-inflicted, so neither the renegotiations nor the carrier transitions that the
  evaluation counts change; the change seen by the opening reading itself is not marked; and as long as the carrier
  counter of the interface does not go back, the number returned is exactly its advance between the two readings.
\<close>

theorem window_not_held_against_cable:
  assumes "\<not> mo_cableTestWindow m" "mo_last m = Some s0"
    and "m1 = snd (SetCableTestWindow True fs1 t1 m)" "list_all stays_open sts" "m2 = snd (monitor_run sts m1)"
    and "SetCableTestWindow False fs2 t2 m2 = (n, m3)"
  shows "History m1 = History m @ detectEvents s0 (mo_current m1) \<and>
    (\<exists>during. History m3 = History m1 @ during \<and> list_all lk_SelfInflicted during) \<and>
    renegotiations (with_events (map monitoring_event (History m3)) r)
      = renegotiations (with_events (map monitoring_event (History m1)) r) \<and>
    monitorCarrierTransitions (with_events (map monitoring_event (History m3)) r)
      = monitorCarrierTransitions (with_events (map monitoring_event (History m1)) r) \<and>
    (carrier_advances (mo_current m1 # readings (sts @ [SetWindow False fs2 t2]) m1) \<longrightarrow>
      n = lp_CarrierChanges (mo_current m3) - lp_CarrierChanges (mo_current m1))"
proof (intro conjI impI)
  have m3: "m3 = snd (SetCableTestWindow False fs2 t2 m2)" and n: "n = fst (SetCableTestWindow False fs2 t2 m2)"
    using assms(6) by simp_all
  have w1: "mo_cableTestWindow m1" using assms(3) by simp
  have m2: "mo_cableTestWindow m2" "counts_window m1 (readings sts m1) m2"
    using open_run [OF w1 assms(4)] assms(5) by simp_all
  have c: "counts_window m1 (readings sts m1 @ [reading fs2 t2 m2]) m3"
    using counts_trans [OF m2(2) close_window(1) [OF m2(1)]] m3 by simp
  show "History m1 = History m @ detectEvents s0 (mo_current m1)"
    using assms(1,2,3) by (simp add: History_def found_def tagged_def SetCableTestWindow_def Let_def)
  show "\<exists>during. History m3 = History m1 @ during \<and> list_all lk_SelfInflicted during"
    using c by (simp add: counts_window_def History_def)
  then show "renegotiations (with_events (map monitoring_event (History m3)) r)
      = renegotiations (with_events (map monitoring_event (History m1)) r)"
    "monitorCarrierTransitions (with_events (map monitoring_event (History m3)) r)
      = monitorCarrierTransitions (with_events (map monitoring_event (History m1)) r)"
    using tagged_not_counted by fastforce+
  have rd: "readings (sts @ [SetWindow False fs2 t2]) m1 = readings sts m1 @ [reading fs2 t2 m2]"
    using m2(1) assms(5) by (simp add: readings_append)
  assume "carrier_advances (mo_current m1 # readings (sts @ [SetWindow False fs2 t2]) m1)"
  then show "n = lp_CarrierChanges (mo_current m3) - lp_CarrierChanges (mo_current m1)"
    using c open_window [OF assms(1), of fs1 t1, folded assms(3)] close_window(2,3) [OF m2(1), of fs2 t2, folded m3 n]
    by (simp add: rd counts_window_def)
qed

subsection \<open>A run over a wireless interface\<close>

text \<open>
  The interface has a device, a driver and a wireless directory. Discovery refuses it by default and accepts it
  with virtual interfaces allowed; the preflight then only warns.
\<close>

definition wifi_link :: IPLink where
  "wifi_link = wired_link\<lparr> li_Ifname := ''wlan0'' \<rparr>"

definition wifi_sysfs :: sysfs_tree where
  "wifi_sysfs = wired_sysfs\<lparr> sy_readlink := \<lambda>_. Some ''../../bus/pci/drivers/iwlwifi'',
     sy_exists := \<lambda>p. p = ''/sys/class/net/wlan0/device'', sy_isDir := \<lambda>p. p = ''/sys/class/net/wlan0/wireless'' \<rparr>"

definition wifi_env :: tool_env where
  "wifi_env = wired_env\<lparr> te_link_json := \<lambda>_. Inr [wifi_link] \<rparr>"

definition demo_config :: RunConfig where
  "demo_config = \<lparr> rc_Role = ''pc1'', rc_LocalIP = Addr4 [192, 168, 10, 1], rc_PeerIP = Addr4 [192, 168, 10, 2], rc_Interface = '''',
     rc_Mode = ''quick'', rc_ControlPort = 9100, rc_IperfPort = 5201, rc_Token = ''secret'', rc_TokenGenerated = False,
     rc_TCPDuration = 10 * second, rc_UDPDuration = 10 * second, rc_UDPRate = 0, rc_ParallelStreams = 1, rc_PingCount = 10,
     rc_PingInterval = second, rc_TCPRepeats = 1, rc_SoakDuration = 0, rc_SoakLoad = '''', rc_MonitorInterval = second,
     rc_CableTest = False, rc_CableTestTDR = False, rc_OutputDir = ''.'', rc_Color = ''auto'', rc_Quiet = False, rc_Verbose = False,
     rc_NonInteractive = True, rc_NoSudo = True, rc_NoReportTransfer = False, rc_AllowVirtualInterface = True \<rparr>"

definition wifi_iface :: Iface where
  "wifi_iface = iface_of wifi_sysfs '''' (lower_state wifi_link) 24"

definition demo_preflight :: "Iface \<Rightarrow> preflightInfo" where
  "demo_preflight iface = \<lparr> pf_Iface = iface,
     pf_Link = zero_settings\<lparr> ls_SpeedMbps := 1000, ls_Duplex := ''full'', ls_LinkDetected := True \<rparr>,
     pf_LinkObservations = [], pf_Caps = zero_capabilities, pf_LocalIperfCaps = ca_Iperf3 zero_capabilities, pf_ToolVersions = [],
     pf_Warnings = [], pf_SudoOK = False \<rparr>"

definition demo_app :: run_app where
  "demo_app = \<lparr> ra_cfg = demo_config, ra_controlPort = 9100, ra_version = ''1.0.0'', ra_hostname = ''host'', ra_testID = ''t1'',
     ra_watch = \<lparr> lw_monitor = None, lw_stopped = False \<rparr> \<rparr>"

definition demo_results :: SessionResults where
  "demo_results = zero_results\<lparr>
     sx_TCP := te_TCP (rp_Tests clean_report), sx_UDP := te_UDP (rp_Tests clean_report),
     sx_InitialCounters := rp_InitialCounters clean_report, sx_FinalCounters := rp_FinalCounters clean_report \<rparr>"

definition demo_render :: render_env where
  "demo_render = \<lparr> rn_now = second, rn_raw = [], rn_json = \<lambda>_. None, rn_write = \<lambda>_. None \<rparr>"

lemma wifi_accepted:
  "fst (Discover wifi_env wifi_sysfs (Addr4 [192, 168, 10, 1]) (default_options\<lparr> do_AllowVirtual := True \<rparr>) wired_world) = Inr wifi_iface
   \<and> cl_Wireless (if_Class wifi_iface)"
  by code_simp

lemma wifi_fields:
  "if_Name wifi_iface = ''wlan0'' \<and> cl_Driver (if_Class wifi_iface) = ''iwlwifi'' \<and> cl_USB (if_Class wifi_iface) = False
   \<and> if_MTU wifi_iface = 1500 \<and> if_MAC wifi_iface = []"
  by code_simp

definition wifi_report :: "gotime \<Rightarrow> Report" where
  "wifi_report finishedAt = assembleReport demo_app (demo_preflight wifi_iface) demo_results 0 finishedAt None
     (Some (prepared_outcome demo_app zero_capabilities))"

lemmas wifi_defs = wifi_report_def assembleReport_def Let_def demo_results_def demo_app_def demo_preflight_def wifi_fields
  local_machine_def with_link_speed_def peerReportFromCaps_def zero_capabilities_def prepared_outcome_def zero_results_def
  echoConfig_def demo_config_def pc1_link_def pc2_link_def mergeMonitoringEvents_def monitoringEvents_def
lemmas clean_defs = clean_report_def zero_peer_def zero_nic_def zero_tests_def zero_report_def zero_config_def zero_settings_def

lemma wifi_evidence:
  "negotiatedSpeed (wifi_report t) = negotiatedSpeed clean_report" "expectedTCPTrials (wifi_report t) = expectedTCPTrials clean_report"
  "expectedSpeed (wifi_report t) = expectedSpeed clean_report" "halfDuplex (wifi_report t) = halfDuplex clean_report"
  "linkUpAtEnd (wifi_report t) = linkUpAtEnd clean_report"
  by (simp_all add: negotiatedSpeed_def settingsSpeed_def nicSpeed_def mbps_bitrate_def expectedTCPTrials_def expectedSpeed_def
      halfDuplex_def linkUpAtEnd_def after_down_def linkModes_def maxModeSpeed_def equal_fold_def wifi_defs clean_defs)

lemma wifi_facts: "FactsFromReport zero_conv (wifi_report t) = FactsFromReport zero_conv clean_report"
proof (rule facts_cong)
qed (simp_all only: wifi_evidence, simp_all add: wifi_defs clean_defs virtualNIC_def)

lemma clean_silent: "run_rules Rules (FactsFromReport zero_conv clean_report) Default = []"
  by code_simp

lemma wifi_class: "ev_Class (Evaluate zero_conv (FactsFromReport zero_conv (wifi_report t))) = HealthExcellent"
  unfolding wifi_facts Evaluate_def
  by (simp add: clean_silent classify_verdict well_rated_def verdict_spec_def rated_at_def hasFinding_def)

text \<open>The rendering before the complete frame, and what it leaves.\<close>

definition demo_vd :: "verdict \<times> report_dir" where
  "demo_vd = snd (PrepareComplete zero_conv demo_render demo_app (demo_preflight wifi_iface) demo_results 0 zero_capabilities (no_verdict, []))"

lemma demo_reached: "verdict_reached zero_conv demo_app (demo_preflight wifi_iface) 0 (fst demo_vd, snd demo_vd)"
  unfolding demo_vd_def prod.collapse by (intro verdict_reached.intros)

lemma demo_writes: "\<exists>d. writeReportFiles demo_render rep [] = (None, d)"
  by (simp add: writeReportFiles_def demo_render_def pc1_files_def)

lemma demo_verdict: "vd_set (fst demo_vd) \<and> vd_finalized (fst demo_vd) \<and> vd_code (fst demo_vd) = ExitOK \<and> vd_report (fst demo_vd) \<noteq> None"
proof -
  define res where "res = Evaluate zero_conv (FactsFromReport zero_conv (wifi_report second))"
  obtain d where "writeReportFiles demo_render (with_evaluation res (rn_raw demo_render) (wifi_report second)) [] = (None, d)"
    using demo_writes by blast
  then have "finalize zero_conv demo_render demo_app (demo_preflight wifi_iface) demo_results 0 None
      (Some (prepared_outcome demo_app zero_capabilities)) (no_verdict, []) =
    (Inr (with_evaluation res (rn_raw demo_render) (wifi_report second)),
     store_verdict (with_evaluation res (rn_raw demo_render) (wifi_report second)) (ev_Class res) (summary_line res)
       (ExitCodeFor (Some (ev_Class res))) second no_verdict, d)"
    unfolding finalize_def by (simp add: no_verdict_def demo_render_def wifi_report_def [symmetric] res_def [symmetric] Let_def)
  then show ?thesis
    using wifi_class [of second]
    by (simp add: demo_vd_def PrepareComplete_def store_verdict_def markFinalized_def res_def [symmetric])
qed

definition demo_exit :: "(ExitCode \<times> run_error option) \<times> console list \<times> verdict \<times> report_dir" where
  "demo_exit = finishCoordinator zero_conv demo_render demo_app False '''' (demo_preflight wifi_iface) demo_results 0
     (prepared_outcome demo_app zero_capabilities) None demo_vd"

lemma demo_exit_code: "fst demo_exit = (ExitOK, None)"
  using demo_verdict by (auto simp: demo_exit_def finishCoordinator_def renderedReport_def case_prod_beta)


subsection \<open>Concrete runs\<close>

theorem exit_code_sound_witness: "\<exists>rep v. fst (snd (snd demo_exit)) = v \<and> renderedReport v = Some rep \<and> clean_class rep \<and> \<not> rp_Partial rep"
proof -
  obtain code err out v d where e: "demo_exit = ((code, err), out, v, d)" by (metis surj_pair)
  have "code = ExitOK" using demo_exit_code by (simp add: e)
  then show ?thesis
    unfolding e using exit_code_sound [OF demo_reached [unfolded prod.collapse] e [unfolded demo_exit_def]] by auto
qed


theorem worker_keeps_transferred_witness:
  "map_of (snd (snd (finishWorker demo_render demo_app False '''' (prepared_outcome demo_app zero_capabilities)
     (Some \<lparr> re_Is = [IsCanceled], re_Text = ''interrupted'' \<rparr>) (pc1_files clean_report)))) ''summary.txt'' = Some (SummaryOf clean_report)"
proof -
  obtain code err out d' where e: "finishWorker demo_render demo_app False '''' (prepared_outcome demo_app zero_capabilities)
     (Some \<lparr> re_Is = [IsCanceled], re_Text = ''interrupted'' \<rparr>) (pc1_files clean_report) = ((code, err), out, d')"
    by (metis surj_pair)
  have "reportTransferred (pc1_files clean_report)" by (simp add: reportTransferred_def pc1_files_def)
  then have "map_of d' ''summary.txt'' = map_of (pc1_files clean_report) ''summary.txt''"
    using worker_keeps_transferred [OF e] by simp
  then show ?thesis unfolding e by (simp add: pc1_files_def)
qed

definition opened_monitor :: Monitor where "opened_monitor = snd (SetCableTestWindow True (demo_files ''1'') 1 demo_monitor)"
definition tested_monitor :: Monitor where "tested_monitor = snd (monitor_run [Tick (demo_files ''0'') 2] opened_monitor)"
definition closed_monitor :: Monitor where "closed_monitor = snd (SetCableTestWindow False (demo_files ''1'') 3 tested_monitor)"

lemma demo_disturbed:
  "length (History opened_monitor) = 0 \<and> length (History closed_monitor) = 2"
  by code_simp

theorem window_not_held_against_cable_witness:
  "length (History closed_monitor) = 2 \<and> length (History opened_monitor) = 0 \<and>
   monitorCarrierTransitions (with_events (map monitoring_event (History closed_monitor)) zero_report)
   = monitorCarrierTransitions (with_events (map monitoring_event (History opened_monitor)) zero_report)"
proof -
  have "SetCableTestWindow False (demo_files ''1'') 3 tested_monitor
      = (fst (SetCableTestWindow False (demo_files ''1'') 3 tested_monitor), closed_monitor)"
    by (simp add: closed_monitor_def)
  moreover have "\<not> mo_cableTestWindow demo_monitor" "mo_last demo_monitor = Some (mo_current demo_monitor)"
    unfolding demo_monitor_def by simp_all
  ultimately show ?thesis
    using window_not_held_against_cable [of demo_monitor _ opened_monitor "demo_files ''1''" 1 "[Tick (demo_files ''0'') 2]"
        tested_monitor "demo_files ''1''" 3 _ closed_monitor zero_report] demo_disturbed
    by (simp add: opened_monitor_def [symmetric] tested_monitor_def)
qed

end
