(* ===== verification/Spec2Isabelle.thy ===== *)
theory Spec2Isabelle
  imports Verdict Framing Handshake Settings Compare Registry PlanBoundaries Worker AppReport
begin

text \<open>
  CableCheck tests the Ethernet cable between two machines. Two peers connect over TCP
  (\<open>internal/peer\<close>, \<open>internal/protocol\<close>), run ping, iperf3 and counter measurements
  (\<open>internal/testsuite\<close>, \<open>internal/runner\<close>, \<open>internal/parser\<close>), collect them in a report
  (\<open>internal/model\<close>), and \<open>internal/evaluate\<close> turns the report into a health class, a score and
  recommendations. This development models the parts of the Go code that decide something, as executable
  functions, and proves what makes them correct.

  Language. Theory Prelude has the integer types: a \<open>uint64\<close> is a \<^typ>\<open>64 word\<close>, an
  \<open>int\<close> an \<^typ>\<open>int\<close> with \<open>wrap64\<close> where the code can overflow; a map whose order matters is
  an association list with distinct keys. Theory Float64 is IEEE 754 binary64: a NaN, an infinity or a
  rational that the format represents, each operation the exact one followed by round to nearest even;
  the locale \<open>rounding\<close> holds what clients need of rounding and is interpreted on it. Conversion of an
  out-of-range float to an integer is implementation defined in Go: it is the parameter
  \<open>f64conv\<close>. Theory GoFmt has what the source uses of \<open>fmt\<close>, \<open>strconv\<close>, \<open>strings\<close> and
  \<open>time\<close>, theory NetIP what it uses of \<open>net/netip\<close>. A string is its list of bytes.

  Data. Bitrate (\<open>model/bitrate.go\<close>), Health (\<open>model/health.go\<close>) and Report
  (\<open>model/report.go\<close>, \<open>model/result.go\<close>, \<open>model/counters.go\<close>): one record per struct with
  one field per field of the source, pointers as options. The bit-rate parser and printer are inverse and
  exact and never wrap (\<open>bitrate_roundtrip\<close>, \<open>ParseBitrate_exact\<close>).

  Configuration. Settings (\<open>config\<close>): the validation of the flags step by step, presets, output directory
  and UDP rates. An accepted configuration satisfies every bound (\<open>Resolve_sound\<close>), its output directory
  cannot escape (\<open>output_dir_confined\<close>).

  Evaluation. TcpMetrics (\<open>tcpmetrics/collapse.go\<close>), Thresholds (\<open>evaluate/thresholds.go\<close>,
  \<open>throughput.go\<close>), Facts (\<open>facts.go\<close>), Rules (\<open>rules.go\<close>), Classify and Evaluator
  (\<open>evaluator.go\<close>), Score (\<open>score.go\<close>), Recommend (\<open>recommend.go\<close>). Each loop body of the
  source is a step function and the loop a fold; every rule is one definition with the texts and evidence
  lines of the source. The locale \<open>rule_set\<close> of Classify is what the classification needs of the rule
  list; it is interpreted on \<open>Rules\<close>. Theory Verdict and this theory relate verdicts to evidence.
  \<open>verdict_refines_table\<close> is a refinement of an abstract decision table; the theorems of Evaluator,
  Verdict, Recommend and of this theory are the guarantees of a verdict, those of Facts and TcpMetrics the
  guarantees of the evidence extraction and of the collapse analysis.

  Protocol. Framing (\<open>protocol/framing.go\<close>) is the framed connection, its input the bytes the network
  will deliver and its output the bytes written; Envelope (\<open>protocol/envelope.go\<close>) has message identifiers
  and the duplicate detector, with the locale \<open>sequence_filter\<close>; Messages (\<open>protocol/messages.go\<close>,
  \<open>token.go\<close>) the payloads. The JSON codec is the parameter \<open>codec\<close>, with the law \<open>carries\<close> where
  a theorem needs that a payload survives it.

  Sessions. PeerState (\<open>peer/state.go\<close>) is the lifecycle machine, with a step relation and the locale
  \<open>guarded_machine\<close>. Handshake (\<open>peer/handshake.go\<close>, \<open>transport.go\<close>, parts of \<open>session.go\<close>)
  is the establishment of a connection on both sides: authentication, what a failed attempt reveals, the bound
  on attempts, and that two peers configured for each other agree. Session (\<open>peer/session.go\<close>,
  \<open>loop.go\<close>, \<open>ready.go\<close>, \<open>rpc.go\<close>, \<open>exec.go\<close>, \<open>transfer.go\<close>, \<open>redact.go\<close>) is
  the event loop: a record of the state the loop owns and one update per event, tick or call, with the
  effects on the outside as a list; goroutines act through events or under a mutex, so every interleaving is
  a sequence of actions. Lifecycle defines which sessions are reachable and proves the invariants (state
  against flags, readiness, cable-test window, finish specification), Calls what the callers rely on
  (heartbeats, results of calls, redaction). ReportTransfer (\<open>reporting/transfer.go\<close>,
  \<open>transfer_send.go\<close>, \<open>transfer_recv.go\<close>) is the transfer of the report files with the file system as
  state; the locale \<open>disk_policy\<close> is interpreted for what is published and for what is left over.

  Tool output. GoText has what the parsers use of \<open>regexp\<close>, \<open>bufio\<close>, \<open>strings\<close> and \<open>strconv\<close>: the
  regular expressions are a datatype with the leftmost-first matcher of Go. PingParser (\<open>parser/ping.go\<close>),
  EthtoolParser (\<open>parser/ethtool.go\<close>, \<open>cabletest.go\<close>) and JsonParsers (\<open>parser/iperf.go\<close>,
  \<open>iplink.go\<close>) are the parsers, whole. Transcripts and driver statistics read back
  (\<open>ping_transcript_read\<close>, \<open>ethtool_stats_read_back\<close>), missing sequence numbers and percentiles are the
  true ones, cable faults are never made up, and a bidirectional run is measured per direction.

  Tests. TestTools (\<open>testsuite/counters.go\<close>, \<open>link.go\<close>, \<open>ping.go\<close>, \<open>iperf.go\<close>, \<open>udp.go\<close>,
  \<open>capabilities.go\<close>, \<open>sudo.go\<close>, the tester of \<open>cable.go\<close>) has what one machine runs: each question to
  the outside is an event of a trace, and its answer a parameter. Plans (\<open>testsuite/suite.go\<close>,
  \<open>standard.go\<close>, \<open>soak.go\<close>, the plan of \<open>cable.go\<close>) is the coordinator's schedule: a step maps a state
  (the trace and the results so far) to a state and may fail; requests to the peer are questions like any
  other, so the theorems hold for every peer. PlanGuarantees has the locale \<open>state_preorder\<close> (what every
  primitive operation respects, every plan respects) and the servers; PlanResults the locale \<open>result_order\<close>
  on results: no plan leaves a server behind (\<open>plans_stop_servers\<close>) and a finished run measured
  everything or names what it skipped (\<open>no_silent_gap\<close>). PlanBoundaries: the counters bracket the load,
  a soak session holds whole cycles and ends. Worker (\<open>testsuite/ops.go\<close>) is the other side: the dispatch of
  requests and the table of servers, which the teardown empties (\<open>worker_teardown_clean\<close>).

  Processes. Registry (\<open>runner/registry.go\<close>) has the identity of external processes and the pidfiles; the
  operating system is a parameter and every signal and file operation is recorded. Signals reach only
  verified processes (\<open>kill_all_safe\<close>) and a scan for stale processes leaves foreign and live directories
  alone (\<open>scan_stale_confined\<close>).

  Network. LinkMonitor (\<open>network/monitor.go\<close>, \<open>app/monitor.go\<close>) is the poller of the link state: a record
  of the monitor and one update per tick, window change and receive, with the contents of the sysfs files as
  arguments. The locale \<open>tracked_attribute\<close> is interpreted on carrier, speed, duplex and operational state:
  the history has exactly their changes (\<open>link_changes_recorded\<close>), and no event is lost unnoticed
  (\<open>link_events_accounted\<close>). Discovery (\<open>network/classify.go\<close>, \<open>discover.go\<close>) selects and classifies the
  interface under test (\<open>discovery_exact\<close>).

  Runs. AppReport (\<open>app/report.go\<close>, \<open>finish.go\<close>, \<open>exit.go\<close>, the renderings of \<open>run.go\<close>) joins the
  parts: it assembles the report from the results of the plan, the preflight and the monitor, evaluates it, writes it
  and ends the run on both machines. The directory of the report is an association list from names to symbolic bodies;
  the relation \<open>verdict_reached\<close> has the verdicts a run can hold. The exit code agrees with the report and with
  the other machine (\<open>exit_code_sound\<close>, \<open>exit_codes_agree\<close>), received files are kept
  (\<open>worker_keeps_transferred\<close>) and the disturbance of a cable test is not evidence against the cable
  (\<open>window_not_held_against_cable\<close>). Two lemmas show gaps: a wireless interface can be rated EXCELLENT
  (\<open>wireless_run_exits_clean\<close>) and a link lost at the end is never recorded (\<open>link_loss_at_end_unseen\<close>).

  Reports. Rendering (\<open>reporting/format.go\<close>, \<open>summary.go\<close>, \<open>tcp_spread.go\<close>) and Compare
  (\<open>reporting/compare.go\<close>) turn reports into text: the comparison is symmetric and reflexive
  (\<open>comparison_symmetric\<close>, \<open>comparison_self\<close>) and terminal output is plain ASCII.

  Bounds. No definition uses fuel: every loop is structural, a fold, or has a termination proof. Loops that
  wait for the outside (accept, dial, the event loop, a transfer) recurse over the list of what arrives and
  say so in their result when it is exhausted. The soak loop is a partial function into an option and is
  proved to return as soon as the clock passes the deadline.

  Not modelled: the JSON encoding of the data types (\<open>encoding/json\<close> is a parameter where it matters),
  sockets, timers and goroutines, the external tools themselves, the command line, the terminal interface, logging and the HTML and Markdown documents.
\<close>

subsection \<open>Map iteration order\<close>

definition snapshot_perm :: "CounterSnapshot option \<Rightarrow> CounterSnapshot option \<Rightarrow> bool" where
  "snapshot_perm s s' =
     (case (s, s') of
        (None, None) \<Rightarrow> True
      | (Some a, Some b) \<Rightarrow>
          wf_map (cs_Standard a) \<and> mset (cs_Standard a) = mset (cs_Standard b) \<and> cs_IPStats a = cs_IPStats b
      | _ \<Rightarrow> False)"

lemma perm_empty: "mset xs = mset ys \<Longrightarrow> xs = [] \<longleftrightarrow> ys = []"
  by (metis mset_zero_iff)

lemma sideFacts_perm:
  assumes "snapshot_perm b b'" and "snapshot_perm a a'"
  shows "sideFacts b a n = sideFacts b' a' n"
proof (cases "b = None \<or> a = None")
  case True
  then show ?thesis
    using assms perm_empty
    by (auto simp: snapshot_perm_def sideFacts_def DeltaSet_def framesReceived_def Let_def split: option.splits)
next
  case False
  then obtain x y x' y' where "b = Some x" "a = Some y" "b' = Some x'" "a' = Some y'"
    using assms by (auto simp: snapshot_perm_def split: option.splits)
  then show ?thesis using assms by (auto simp: snapshot_perm_def intro: sideFacts_map_order)
qed

definition with_counters :: "PeerCounters \<Rightarrow> PeerCounters \<Rightarrow> Report \<Rightarrow> Report" where
  "with_counters ic fc r = r\<lparr>rp_InitialCounters := ic, rp_FinalCounters := fc\<rparr>"

lemma with_counters_facts:
  assumes "snapshot_perm (pc_PC1 (rp_InitialCounters r)) (pc_PC1 ic)" "snapshot_perm (pc_PC2 (rp_InitialCounters r)) (pc_PC2 ic)"
    "snapshot_perm (pc_PC1 (rp_FinalCounters r)) (pc_PC1 fc)" "snapshot_perm (pc_PC2 (rp_FinalCounters r)) (pc_PC2 fc)"
  shows "factsFromReport cv (with_counters ic fc r) t = factsFromReport cv r t"
proof -
  have s: "sideFacts (pc_PC1 ic) (pc_PC1 fc) n = sideFacts (pc_PC1 (rp_InitialCounters r)) (pc_PC1 (rp_FinalCounters r)) n"
    "sideFacts (pc_PC2 ic) (pc_PC2 fc) n = sideFacts (pc_PC2 (rp_InitialCounters r)) (pc_PC2 (rp_FinalCounters r)) n" for n
    using assms sideFacts_perm by metis+
  have u: "negotiatedSpeed (with_counters ic fc r) = negotiatedSpeed r" "expectedSpeed (with_counters ic fc r) = expectedSpeed r"
    "halfDuplex (with_counters ic fc r) = halfDuplex r" "linkUpAtEnd (with_counters ic fc r) = linkUpAtEnd r"
    "renegotiations (with_counters ic fc r) = renegotiations r"
    "monitorCarrierTransitions (with_counters ic fc r) = monitorCarrierTransitions r"
    "maxCPUPct (with_counters ic fc r) = maxCPUPct r" "unavailableTests (with_counters ic fc r) = unavailableTests r"
    "throughputUnreachable (with_counters ic fc r) = throughputUnreachable r"
    "self_inflicted (with_counters ic fc r) = self_inflicted r"
    "tcp_samples (with_counters ic fc r) = tcp_samples r" "rp_Tests (with_counters ic fc r) = rp_Tests r"
    "rp_PC1 (with_counters ic fc r) = rp_PC1 r" "rp_PC2 (with_counters ic fc r) = rp_PC2 r"
    "rp_Partial (with_counters ic fc r) = rp_Partial r" "rp_UDPRateAssumed (with_counters ic fc r) = rp_UDPRateAssumed r"
    "rp_InitialCounters (with_counters ic fc r) = ic" "rp_FinalCounters (with_counters ic fc r) = fc"
    by (simp_all add: with_counters_def negotiatedSpeed_def expectedSpeed_def halfDuplex_def linkUpAtEnd_def
        renegotiations_def monitorCarrierTransitions_def maxCPUPct_def unavailableTests_def
        throughputUnreachable_def self_inflicted_def tcp_samples_def expectedTCPTrials_def fun_eq_iff Let_def
        cong: list.case_cong if_cong)
  show ?thesis unfolding factsFromReport_def u s ..
qed

text \<open>
  C7. Go iterates a map in an unspecified order. The counters of a snapshot are a map, so a report has many
  representations; whichever order the four snapshots of a run are iterated in, the whole evaluation, its
  findings, texts, score and recommendations included, is the same.
\<close>

theorem evaluation_map_order:
  assumes "snapshot_perm (pc_PC1 (rp_InitialCounters r)) (pc_PC1 ic)" "snapshot_perm (pc_PC2 (rp_InitialCounters r)) (pc_PC2 ic)"
    "snapshot_perm (pc_PC1 (rp_FinalCounters r)) (pc_PC1 fc)" "snapshot_perm (pc_PC2 (rp_FinalCounters r)) (pc_PC2 fc)"
  shows "Evaluate cv (FactsFromReport cv (with_counters ic fc r)) = Evaluate cv (FactsFromReport cv r)"
  unfolding FactsFromReport_def with_counters_facts [OF assms] ..

theorem evaluation_map_order_witness:
  "Evaluate zero_conv (FactsFromReport zero_conv (with_counters
     (PeerCounters.make (Some (snapshot0\<lparr>cs_Standard := rev (cs_Standard snapshot0)\<rparr>)) None)
     (PeerCounters.make (Some (snapshot1\<lparr>cs_Standard := rev (cs_Standard snapshot1)\<rparr>)) None)
     (with_counters (PeerCounters.make (Some snapshot0) None) (PeerCounters.make (Some snapshot1) None) demo_report)))
   = Evaluate zero_conv (FactsFromReport zero_conv
       (with_counters (PeerCounters.make (Some snapshot0) None) (PeerCounters.make (Some snapshot1) None) demo_report))"
  by (rule evaluation_map_order)
    (simp_all add: with_counters_def PeerCounters.make_def snapshot_perm_def snapshot0_def snapshot1_def wf_map_def)

subsection \<open>From the report to a clean verdict\<close>

definition captured :: "CounterSnapshot option \<Rightarrow> CounterSnapshot option \<Rightarrow> bool" where
  "captured before after =
     (case (before, after) of (Some b, Some a) \<Rightarrow> cs_Standard b \<noteq> [] \<and> cs_Standard a \<noteq> [] | _ \<Rightarrow> False)"

lemma sideFacts_available: "sf_CountersAvailable (sideFacts b a n) \<longleftrightarrow> captured b a"
  by (auto simp: sideFacts_def captured_def Let_def split: prod.split option.splits)

lemma sides_untouched:
  "fa_PC1 (ping_step cv p f) = fa_PC1 f" "fa_PC2 (ping_step cv p f) = fa_PC2 f"
  "fa_PC1 (fullsize_step p f) = fa_PC1 f" "fa_PC2 (fullsize_step p f) = fa_PC2 f"
  "fa_PC1 (udp_step t u f) = fa_PC1 f" "fa_PC2 (udp_step t u f) = fa_PC2 f"
  "fa_PC1 (upd_dir i g f) = fa_PC1 f" "fa_PC2 (upd_dir i g f) = fa_PC2 f"
  by (simp_all add: ping_step_def fullsize_step_def udp_step_def upd_dir_def Let_def)

lemma report_sides:
  "fa_PC1 (factsFromReport cv r t) =
     sideFacts (pc_PC1 (rp_InitialCounters r)) (pc_PC1 (rp_FinalCounters r)) (pce_PC1 (self_inflicted r))"
  "fa_PC2 (factsFromReport cv r t) =
     sideFacts (pc_PC2 (rp_InitialCounters r)) (pc_PC2 (rp_FinalCounters r)) (pce_PC2 (self_inflicted r))"
  by (simp_all add: factsFromReport_def Let_def sides_untouched fold_invariant [where g = fa_PC1]
      fold_invariant [where g = fa_PC2] split: option.split)

text \<open>
  C3. A clean verdict is never given without evidence. If the evaluation of a report is EXCELLENT or
  GOOD, then the run was not interrupted, no throughput test found the data port unreachable, neither
  NIC is virtual, some direction completed all its scheduled TCP trials, and some side captured counters
  both before and after the run.
\<close>

theorem clean_verdict_needs_evidence:
  assumes "int (length (te_TCP (rp_Tests r))) \<le> maxInt"
    and "ev_Class (Evaluate cv (FactsFromReport cv r)) = HealthExcellent
      \<or> ev_Class (Evaluate cv (FactsFromReport cv r)) = HealthGood"
  shows "\<not> rp_Partial r \<and> \<not> throughputUnreachable r
    \<and> \<not> virtualNIC (pr_NIC (rp_PC1 r)) \<and> \<not> virtualNIC (pr_NIC (rp_PC2 r))
    \<and> (complete_trials r 0 \<or> complete_trials r 1)
    \<and> (captured (pc_PC1 (rp_InitialCounters r)) (pc_PC1 (rp_FinalCounters r))
       \<or> captured (pc_PC2 (rp_InitialCounters r)) (pc_PC2 (rp_FinalCounters r)))"
proof -
  let ?f = "factsFromReport cv r Default"
  have crit: "critical_evidence ?f"
    using clean_needs_critical assms(2) unfolding Evaluate_def FactsFromReport_def by blast
  have "complete_trials r i" if "i = 0 \<or> i = 1" "df_TCPAvailable (dir ?f i)" for i
    using tcp_direction_cases [OF assms(1) that(1), of cv Default] that(2)
    by (cases "complete_trials r i") (simp_all add: tcp_view_def zero_dir_def)
  then have "complete_trials r 0 \<or> complete_trials r 1"
    using crit by (auto simp: critical_evidence_def dir_def)
  with crit show ?thesis
    by (auto simp: critical_evidence_def report_sides report_flags sideFacts_available)
qed

theorem clean_verdict_needs_evidence_witness:
  "ev_Class (Evaluate zero_conv (FactsFromReport zero_conv clean_report)) = HealthExcellent
   \<and> (complete_trials clean_report 0 \<or> complete_trials clean_report 1) \<and> \<not> rp_Partial clean_report"
proof -
  note clean_silent
  then have "ev_Class (Evaluate zero_conv (FactsFromReport zero_conv clean_report)) = HealthExcellent"
    by (simp add: Evaluate_def classify_verdict well_rated_def verdict_spec_def rated_at_def hasFinding_def)
  moreover have "int (length (te_TCP (rp_Tests clean_report))) \<le> maxInt" by (simp add: clean_report_def maxInt_def)
  ultimately show ?thesis using clean_verdict_needs_evidence [of clean_report zero_conv] by blast
qed

end
